(* ===== verification/Prelude.thy ===== *)
theory Prelude
  imports Main
begin

text \<open>
  Shared ground of the development of the \<^verbatim>\<open>pydebug\<close> package.

  The program is written in Python: its integers are unbounded and its bitwise operators work on
  infinite two's complement. Both are those of \<^typ>\<open>int\<close>: \<^verbatim>\<open>x >> n\<close> is
  \<^term>\<open>drop_bit n x\<close>, \<^verbatim>\<open>x << n\<close> is \<^term>\<open>push_bit n x\<close>, and
  \<^verbatim>\<open>&\<close>, \<^verbatim>\<open>|\<close>, \<^verbatim>\<open>~\<close> are AND, OR, NOT. A 32-bit register is
  32 bits wide only where the source masks it, and the masks are written out in the model.

  The theory holds the exceptions of the source as a datatype, Python's truth value of an
  integer, the in-place update of list entries, the collections the proofs of the components
  share, and the generic lemmas on bits, lists and sums that carry those proofs.
\<close>

unbundle bit_operations_syntax

subsection \<open>Collections of facts\<close>

named_theorems field_simps_set \<open>equations that compute a field of a register word\<close>
named_theorems monad_defs \<open>definitions of the sequencing of debugger commands\<close>

subsection \<open>Python values\<close>

text \<open>The exceptions the modelled code raises, each with what the code puts into it.\<close>

datatype py_error =
    KeyError string
  | ValueError string
  | TypeError string
  | FileNotFoundError string
  | AttributeError string
  | IndexError
  | RuntimeError string
  | OverflowError string

type_synonym 'a result = "py_error + 'a"

text \<open>\<^verbatim>\<open>bool(x)\<close> of an integer, and \<^verbatim>\<open>int(b)\<close> of a Boolean.\<close>

definition truth :: "int \<Rightarrow> bool" where
  "truth x \<longleftrightarrow> x \<noteq> 0"

definition int_of_bool :: "bool \<Rightarrow> int" where
  "int_of_bool b = (if b then 1 else 0)"

text \<open>
  \<^verbatim>\<open>for i in idx: f(xs[i])\<close> where \<^verbatim>\<open>f\<close> mutates the object in place: the entries at the
  given positions are replaced, one after the other.
\<close>

definition update_at :: "nat list \<Rightarrow> ('a \<Rightarrow> 'a) \<Rightarrow> 'a list \<Rightarrow> 'a list" where
  "update_at idx f xs = fold (\<lambda>i ys. ys[i := f (ys ! i)]) idx xs"

lemma update_at_Nil [simp]: "update_at [] f xs = xs"
  by (simp add: update_at_def)

lemma update_at_single [simp]: "update_at [i] f xs = xs[i := f (xs ! i)]"
  by (simp add: update_at_def)

lemma length_update_at [simp]: "length (update_at idx f xs) = length xs"
  by (induction idx arbitrary: xs) (simp_all add: update_at_def)

subsection \<open>Truth values and bits\<close>

lemma truth_simps [simp]:
  "truth 0 = False"
  "truth 1 = True"
  "truth (of_bool b) = b"
  "truth (int_of_bool b) = b"
  by (simp_all add: truth_def int_of_bool_def)

lemma if_else_False: "(if c then b else False) = (c \<and> b)"
  by simp

lemma int_of_bool_eq: "int_of_bool b = of_bool b"
  by (simp add: int_of_bool_def)

lemma bit_of_bool_int: "bit (of_bool b :: int) n \<longleftrightarrow> b \<and> n = 0"
  by (cases n) (simp_all add: bit_0)

lemma drop_bit_and_1 [simp]: "drop_bit n w AND 1 = (of_bool (bit w n) :: int)"
  by (simp add: and_one_eq bit_iff_odd_drop_bit mod2_eq_if)

lemma and_1_bit [simp]: "(w :: int) AND 1 = of_bool (bit w 0)"
  using drop_bit_and_1 [of 0 w] by simp

lemma bit_drop_bit_0 [simp]: "bit (drop_bit n (w :: int)) 0 = bit w n"
  by (simp add: bit_drop_bit_eq)

lemma drop_bit_mod_2 [simp]: "drop_bit n w mod 2 = (of_bool (bit w n) :: int)"
  by (simp add: bit_iff_odd_drop_bit mod2_eq_if)

lemma mod_2_bit: "(w :: int) mod 2 = of_bool (bit w 0)"
  by (simp add: bit_0 mod2_eq_if)

lemma and_exp_minus_1: "w AND (push_bit n 1 - 1) = take_bit n (w :: int)"
  by (simp add: take_bit_eq_mask mask_eq_exp_minus_1 push_bit_eq_mult)

text \<open>The masks the source writes as literals.\<close>

lemma and_literal_masks [simp]:
  "(w :: int) AND 3 = take_bit 2 w"
  "(w :: int) AND 7 = take_bit 3 w"
  "(w :: int) AND 15 = take_bit 4 w"
  "(w :: int) AND 31 = take_bit 5 w"
  "(w :: int) AND 127 = take_bit 7 w"
  "(w :: int) AND 255 = take_bit 8 w"
  "(w :: int) AND 1023 = take_bit 10 w"
  "(w :: int) AND 4095 = take_bit 12 w"
  "(w :: int) AND 32767 = take_bit 15 w"
  "(w :: int) AND 65535 = take_bit 16 w"
  "(w :: int) AND 4294967295 = take_bit 32 w"
  by (simp_all add: take_bit_eq_mask mask_eq_exp_minus_1)

lemma bit_take_bit_lt: "n < m \<Longrightarrow> bit (take_bit m (w :: int)) n = bit w n"
  by (simp add: bit_take_bit_iff)

lemma bit_imp_lt_take: "take_bit m (w :: int) = w \<Longrightarrow> bit w n \<Longrightarrow> n < m"
  by (metis bit_take_bit_iff)

lemma take_bit_id: "0 \<le> w \<Longrightarrow> w < 2 ^ n \<Longrightarrow> take_bit n (w :: int) = w"
  by (simp add: take_bit_int_eq_self)

lemma take_bit_range: "0 \<le> take_bit n (w :: int) \<and> take_bit n w < 2 ^ n"
  by simp

subsection \<open>Sums\<close>

definition bindR :: "'e + 'a \<Rightarrow> ('a \<Rightarrow> 'e + 'b) \<Rightarrow> 'e + 'b" where
  "bindR m f = (case m of Inl e \<Rightarrow> Inl e | Inr x \<Rightarrow> f x)"

lemma bindR_simps [simp]:
  "bindR (Inl e) f = Inl e"
  "bindR (Inr x) f = f x"
  by (simp_all add: bindR_def)

lemma bindR_eq_Inr: "bindR m f = Inr y \<longleftrightarrow> (\<exists>x. m = Inr x \<and> f x = Inr y)"
  by (cases m) auto

text \<open>A comprehension whose elements may raise: the first error ends it.\<close>

fun mapR :: "('a \<Rightarrow> 'e + 'b) \<Rightarrow> 'a list \<Rightarrow> 'e + 'b list" where
  "mapR f [] = Inr []"
| "mapR f (x # xs) = bindR (f x) (\<lambda>y. bindR (mapR f xs) (\<lambda>ys. Inr (y # ys)))"

lemma mapR_eq_Inr: "mapR f xs = Inr ys \<longleftrightarrow> map f xs = map Inr ys"
  by (induction xs arbitrary: ys) (auto simp: bindR_eq_Inr map_eq_Cons_conv)

lemma mapR_Inr_iff: "(\<exists>ys. mapR f xs = Inr ys) \<longleftrightarrow> (\<forall>x \<in> set xs. \<exists>y. f x = Inr y)"
  by (induction xs) (auto simp: bindR_eq_Inr)

subsection \<open>Strings\<close>

text \<open>
  \<^verbatim>\<open>str.isspace\<close>, \<^verbatim>\<open>str.strip\<close> and \<^verbatim>\<open>str.lower\<close> on the characters with code points below 256.
\<close>

definition is_space :: "char \<Rightarrow> bool" where
  "is_space c \<longleftrightarrow> (let n = of_char c :: nat
     in n = 32 \<or> 9 \<le> n \<and> n \<le> 13 \<or> 28 \<le> n \<and> n \<le> 31 \<or> n = 0x85 \<or> n = 0xA0)"

definition strip :: "string \<Rightarrow> string" where
  "strip s = rev (dropWhile is_space (rev (dropWhile is_space s)))"

definition lower_char :: "char \<Rightarrow> char" where
  "lower_char c = (let n = of_char c :: nat
     in if 65 \<le> n \<and> n \<le> 90 \<or> 0xC0 \<le> n \<and> n \<le> 0xDE \<and> n \<noteq> 0xD7 then char_of (n + 32) else c)"

definition ends_with :: "string \<Rightarrow> string \<Rightarrow> bool" where
  "ends_with suf s \<longleftrightarrow> length suf \<le> length s \<and> drop (length s - length suf) s = suf"

text \<open>\<^verbatim>\<open>str(n)\<close> of an integer.\<close>

fun str_nat :: "nat \<Rightarrow> string" where
  "str_nat n = (if n < 10 then [char_of (48 + n)] else str_nat (n div 10) @ [char_of (48 + n mod 10)])"

declare str_nat.simps [simp del]

definition str_int :: "int \<Rightarrow> string" where
  "str_int n = (if n < 0 then ''-'' @ str_nat (nat (- n)) else str_nat (nat n))"

lemma char_of_digits: "(char_of (48 :: nat) :: char) = CHR ''0''" "(char_of (49 :: nat) :: char) = CHR ''1''"
  by code_simp+

lemma str_int_of_bool [simp]: "str_int (of_bool b) = (if b then ''1'' else ''0'')"
  by (simp add: str_int_def str_nat.simps char_of_digits)

subsection \<open>Lists\<close>

lemma nth_list_update_eq_if:
  "i < length xs \<Longrightarrow> xs[j := x] ! i = (if i = j then x else xs ! i)"
  by (simp add: nth_list_update)

lemma list_all_nth: "list_all P xs \<longleftrightarrow> (\<forall>i < length xs. P (xs ! i))"
  by (simp add: list_all_length)

lemma list_all_update: "list_all P xs \<Longrightarrow> P x \<Longrightarrow> list_all P (xs[i := x])"
  by (cases "i < length xs") (auto simp: list_all_length nth_list_update)

end
