(* ===== verification/Registers.thy ===== *)
theory Registers
  imports Prelude
begin

text \<open>
  The register and field definitions of \<^verbatim>\<open>src/src/pydebug/model/registers.py\<close>: access types,
  the dataclasses \<^verbatim>\<open>Field\<close> and \<^verbatim>\<open>Register\<close> with their methods, every register of the
  Debug Module and of the hart's debug and trigger CSRs, the enumerations, and the helpers on
  \<^verbatim>\<open>hartsel\<close>, hart windows, halt summaries and \<^verbatim>\<open>tdata1\<close>.

  The locale \<open>register_layout\<close> is the contract of a register definition (distinct field names,
  disjoint fields, all within 32 bits). Inside it encoding is total on the register's own names,
  decoding inverts it, and the result is a 32-bit word. Every register of the source is an
  interpretation of it.
\<close>

unbundle bit_operations_syntax

subsection \<open>Access types, fields and registers\<close>

datatype access = ACCESS_R | ACCESS_RW | ACCESS_W1 | ACCESS_W1C | ACCESS_WARL | ACCESS_WARZ

definition ACCESS_READS_ZERO :: "access list" where
  "ACCESS_READS_ZERO = [ACCESS_W1, ACCESS_WARZ]"

record Field =
  f_name :: string
  f_lsb :: nat
  f_width :: nat
  f_access :: access
  f_spec :: string
  f_reset :: "int option"

definition mkField :: "string \<Rightarrow> nat \<Rightarrow> nat \<Rightarrow> access \<Rightarrow> string \<Rightarrow> int option \<Rightarrow> Field" where
  "mkField nm lsb w acc sp rst =
     \<lparr>f_name = nm, f_lsb = lsb, f_width = w, f_access = acc, f_spec = sp, f_reset = rst\<rparr>"

definition msb :: "Field \<Rightarrow> int" where
  "msb f = int (f_lsb f) + int (f_width f) - 1"

definition value_mask :: "Field \<Rightarrow> int" where
  "value_mask f = push_bit (f_width f) 1 - 1"

definition field_mask :: "Field \<Rightarrow> int" where
  "field_mask f = push_bit (f_lsb f) (value_mask f)"

definition reads_zero :: "Field \<Rightarrow> bool" where
  "reads_zero f \<longleftrightarrow> f_access f \<in> set ACCESS_READS_ZERO"

definition extract_field :: "Field \<Rightarrow> int \<Rightarrow> int" where
  "extract_field f word = drop_bit (f_lsb f) word AND value_mask f"

definition insert_field :: "Field \<Rightarrow> int \<Rightarrow> int \<Rightarrow> int" where
  "insert_field f word v =
     (word AND NOT (field_mask f)) OR push_bit (f_lsb f) (v AND value_mask f)"

record Register =
  r_name :: string
  r_address :: int
  r_spec :: string
  r_fields :: "Field list"

text \<open>
  \<^verbatim>\<open>Register.field\<close> raises \<^verbatim>\<open>KeyError\<close> on a name the register does not have. A decoded word
  is a dictionary, here the association list in the order of the fields.
\<close>

definition reg_field :: "Register \<Rightarrow> string \<Rightarrow> Field result" where
  "reg_field r nm =
     (case find (\<lambda>f. f_name f = nm) (r_fields r) of
        Some f \<Rightarrow> Inr f
      | None \<Rightarrow> Inl (KeyError nm))"

definition has_field :: "Register \<Rightarrow> string \<Rightarrow> bool" where
  "has_field r nm \<longleftrightarrow> list_ex (\<lambda>f. f_name f = nm) (r_fields r)"

definition decode :: "Register \<Rightarrow> int \<Rightarrow> (string \<times> int) list" where
  "decode r word = map (\<lambda>f. (f_name f, extract_field f word)) (r_fields r)"

fun encode_from :: "Register \<Rightarrow> int \<Rightarrow> (string \<times> int) list \<Rightarrow> int result" where
  "encode_from r word [] = Inr word"
| "encode_from r word ((nm, v) # kvs) =
     bindR (reg_field r nm) (\<lambda>f. encode_from r (insert_field f word v) kvs)"

definition encode :: "Register \<Rightarrow> (string \<times> int) list \<Rightarrow> int result" where
  "encode r kvs = encode_from r 0 kvs"

text \<open>
  \<^verbatim>\<open>f["name"]\<close> on a decoded dictionary. The code only asks for names the decoded register
  has (\<open>item_decode\<close> below), so the default is never returned where it is used.
\<close>

definition item :: "(string \<times> int) list \<Rightarrow> string \<Rightarrow> int" where
  "item d nm = (case map_of d nm of Some v \<Rightarrow> v | None \<Rightarrow> 0)"

text \<open>
  The value of a call that the code makes with the register's own field names only; the locale
  \<open>register_layout\<close> proves that such a call returns.
\<close>

definition encoded :: "Register \<Rightarrow> (string \<times> int) list \<Rightarrow> int" where
  "encoded r kvs = (case encode r kvs of Inr w \<Rightarrow> w | Inl _ \<Rightarrow> 0)"

subsection \<open>The run-control registers\<close>

definition DMCONTROL :: Register where
  "DMCONTROL = \<lparr>r_name = ''dmcontrol'', r_address = 16, r_spec = ''#3.14.2'', r_fields = [
     mkField ''haltreq'' 31 1 ACCESS_WARZ ''#3.14.2 haltreq'' None,
     mkField ''resumereq'' 30 1 ACCESS_W1 ''#3.14.2 resumereq'' None,
     mkField ''hartreset'' 29 1 ACCESS_WARL ''#3.14.2 hartreset'' (Some 0),
     mkField ''ackhavereset'' 28 1 ACCESS_W1 ''#3.14.2 ackhavereset'' None,
     mkField ''ackunavail'' 27 1 ACCESS_W1 ''#3.14.2 ackunavail'' None,
     mkField ''hasel'' 26 1 ACCESS_WARL ''#3.14.2 hasel'' (Some 0),
     mkField ''hartsello'' 16 10 ACCESS_WARL ''#3.14.2 hartsello'' (Some 0),
     mkField ''hartselhi'' 6 10 ACCESS_WARL ''#3.14.2 hartselhi'' (Some 0),
     mkField ''setkeepalive'' 5 1 ACCESS_W1 ''#3.14.2 setkeepalive'' None,
     mkField ''clrkeepalive'' 4 1 ACCESS_W1 ''#3.14.2 clrkeepalive'' None,
     mkField ''setresethaltreq'' 3 1 ACCESS_W1 ''#3.14.2 setresethaltreq'' None,
     mkField ''clrresethaltreq'' 2 1 ACCESS_W1 ''#3.14.2 clrresethaltreq'' None,
     mkField ''ndmreset'' 1 1 ACCESS_RW ''#3.14.2 ndmreset'' (Some 0),
     mkField ''dmactive'' 0 1 ACCESS_RW ''#3.14.2 dmactive'' (Some 0)]\<rparr>"

definition DMCONTROL_MUTEX_BITS :: "string list" where
  "DMCONTROL_MUTEX_BITS =
     [''resumereq'', ''hartreset'', ''ackhavereset'', ''setresethaltreq'', ''clrresethaltreq'']"

definition DMSTATUS :: Register where
  "DMSTATUS = \<lparr>r_name = ''dmstatus'', r_address = 17, r_spec = ''#3.14.1'', r_fields = [
     mkField ''ndmresetpending'' 24 1 ACCESS_R ''#3.14.1 ndmresetpending'' None,
     mkField ''stickyunavail'' 23 1 ACCESS_R ''#3.14.1 stickyunavail'' None,
     mkField ''impebreak'' 22 1 ACCESS_R ''#3.14.1 impebreak'' None,
     mkField ''allhavereset'' 19 1 ACCESS_R ''#3.14.1 allhavereset'' None,
     mkField ''anyhavereset'' 18 1 ACCESS_R ''#3.14.1 anyhavereset'' None,
     mkField ''allresumeack'' 17 1 ACCESS_R ''#3.14.1 allresumeack'' None,
     mkField ''anyresumeack'' 16 1 ACCESS_R ''#3.14.1 anyresumeack'' None,
     mkField ''allnonexistent'' 15 1 ACCESS_R ''#3.14.1 allnonexistent'' None,
     mkField ''anynonexistent'' 14 1 ACCESS_R ''#3.14.1 anynonexistent'' None,
     mkField ''allunavail'' 13 1 ACCESS_R ''#3.14.1 allunavail'' None,
     mkField ''anyunavail'' 12 1 ACCESS_R ''#3.14.1 anyunavail'' None,
     mkField ''allrunning'' 11 1 ACCESS_R ''#3.14.1 allrunning'' None,
     mkField ''anyrunning'' 10 1 ACCESS_R ''#3.14.1 anyrunning'' None,
     mkField ''allhalted'' 9 1 ACCESS_R ''#3.14.1 allhalted'' None,
     mkField ''anyhalted'' 8 1 ACCESS_R ''#3.14.1 anyhalted'' None,
     mkField ''authenticated'' 7 1 ACCESS_R ''#3.14.1 authenticated'' None,
     mkField ''authbusy'' 6 1 ACCESS_R ''#3.14.1 authbusy'' None,
     mkField ''hasresethaltreq'' 5 1 ACCESS_R ''#3.14.1 hasresethaltreq'' None,
     mkField ''confstrptrvalid'' 4 1 ACCESS_R ''#3.14.1 confstrptrvalid'' None,
     mkField ''version'' 0 4 ACCESS_R ''#3.14.1 version'' (Some 3)]\<rparr>"

definition DMSTATUS_VERSION_NONE :: int where [simp]: "DMSTATUS_VERSION_NONE = 0"
definition DMSTATUS_VERSION_0_11 :: int where [simp]: "DMSTATUS_VERSION_0_11 = 1"
definition DMSTATUS_VERSION_0_13 :: int where [simp]: "DMSTATUS_VERSION_0_13 = 2"
definition DMSTATUS_VERSION_1_0 :: int where [simp]: "DMSTATUS_VERSION_1_0 = 3"
definition DMSTATUS_VERSION_CUSTOM :: int where [simp]: "DMSTATUS_VERSION_CUSTOM = 15"

definition DMSTATUS_ALL_ANY_PAIRS :: "(string \<times> string) list" where
  "DMSTATUS_ALL_ANY_PAIRS =
     [(''allhavereset'', ''anyhavereset''),
      (''allresumeack'', ''anyresumeack''),
      (''allnonexistent'', ''anynonexistent''),
      (''allunavail'', ''anyunavail''),
      (''allrunning'', ''anyrunning''),
      (''allhalted'', ''anyhalted'')]"

definition HARTSEL_MAX_WIDTH :: nat where [simp]: "HARTSEL_MAX_WIDTH = 20"

text \<open>\<^verbatim>\<open>DMCONTROL.field("hartselhi")\<close> and \<^verbatim>\<open>DMCONTROL.field("hartsello")\<close>.\<close>

definition hartselhi_field :: Field where
  "hartselhi_field = mkField ''hartselhi'' 6 10 ACCESS_WARL ''#3.14.2 hartselhi'' (Some 0)"

definition hartsello_field :: Field where
  "hartsello_field = mkField ''hartsello'' 16 10 ACCESS_WARL ''#3.14.2 hartsello'' (Some 0)"

definition hartsel_of :: "int \<Rightarrow> int" where
  "hartsel_of word =
     (let hi = extract_field hartselhi_field word; lo = extract_field hartsello_field word
      in push_bit 10 hi OR lo)"

definition with_hartsel :: "int \<Rightarrow> int \<Rightarrow> int" where
  "with_hartsel word hsel =
     (let w1 = insert_field hartsello_field word (hsel AND 0x3FF)
      in insert_field hartselhi_field w1 (drop_bit 10 hsel AND 0x3FF))"

subsection \<open>The other registers of the Debug Module\<close>

definition HARTINFO :: Register where
  "HARTINFO = \<lparr>r_name = ''hartinfo'', r_address = 18, r_spec = ''#3.14.11'', r_fields = [
     mkField ''nscratch'' 20 4 ACCESS_R ''#3.14.11 nscratch'' None,
     mkField ''dataaccess'' 16 1 ACCESS_R ''#3.14.11 dataaccess'' None,
     mkField ''datasize'' 12 4 ACCESS_R ''#3.14.11 datasize'' None,
     mkField ''dataaddr'' 0 12 ACCESS_R ''#3.14.11 dataaddr'' None]\<rparr>"

definition HAWINDOWSEL :: Register where
  "HAWINDOWSEL = \<lparr>r_name = ''hawindowsel'', r_address = 20, r_spec = ''#3.14.4'', r_fields = [
     mkField ''hawindowsel'' 0 15 ACCESS_WARL ''#3.14.4 hawindowsel'' (Some 0)]\<rparr>"

definition HAWINDOW :: Register where
  "HAWINDOW = \<lparr>r_name = ''hawindow'', r_address = 21, r_spec = ''#3.14.5'', r_fields = [
     mkField ''maskdata'' 0 32 ACCESS_WARL ''#3.14.5 maskdata'' (Some 0)]\<rparr>"

definition HARTS_PER_HAWINDOW :: int where [simp]: "HARTS_PER_HAWINDOW = 32"

definition hawindow_of :: "int \<Rightarrow> int \<times> int" where
  "hawindow_of hart = (hart div HARTS_PER_HAWINDOW, hart mod HARTS_PER_HAWINDOW)"

definition ABSTRACTCS :: Register where
  "ABSTRACTCS = \<lparr>r_name = ''abstractcs'', r_address = 22, r_spec = ''#3.14.6'', r_fields = [
     mkField ''progbufsize'' 24 5 ACCESS_R ''#3.14.6 progbufsize'' None,
     mkField ''busy'' 12 1 ACCESS_R ''#3.14.6 busy'' (Some 0),
     mkField ''relaxedpriv'' 11 1 ACCESS_WARL ''#3.14.6 relaxedpriv'' None,
     mkField ''cmderr'' 8 3 ACCESS_W1C ''#3.14.6 cmderr'' (Some 0),
     mkField ''datacount'' 0 4 ACCESS_R ''#3.14.6 datacount'' None]\<rparr>"

definition CMDERR_NONE :: int where [simp]: "CMDERR_NONE = 0"
definition CMDERR_BUSY :: int where [simp]: "CMDERR_BUSY = 1"
definition CMDERR_NOT_SUPPORTED :: int where [simp]: "CMDERR_NOT_SUPPORTED = 2"
definition CMDERR_EXCEPTION :: int where [simp]: "CMDERR_EXCEPTION = 3"
definition CMDERR_HALT_RESUME :: int where [simp]: "CMDERR_HALT_RESUME = 4"
definition CMDERR_BUS :: int where [simp]: "CMDERR_BUS = 5"
definition CMDERR_OTHER :: int where [simp]: "CMDERR_OTHER = 7"
definition CMDERR_CLEAR :: int where [simp]: "CMDERR_CLEAR = 7"

definition COMMAND :: Register where
  "COMMAND = \<lparr>r_name = ''command'', r_address = 23, r_spec = ''#3.14.7'', r_fields = [
     mkField ''cmdtype'' 24 8 ACCESS_WARL ''#3.14.7 cmdtype'' None,
     mkField ''control'' 0 24 ACCESS_WARL ''#3.14.7 control'' None]\<rparr>"

definition CMDTYPE_ACCESS_REGISTER :: int where [simp]: "CMDTYPE_ACCESS_REGISTER = 0"
definition CMDTYPE_QUICK_ACCESS :: int where [simp]: "CMDTYPE_QUICK_ACCESS = 1"
definition CMDTYPE_ACCESS_MEMORY :: int where [simp]: "CMDTYPE_ACCESS_MEMORY = 2"

definition ACCESS_REGISTER :: Register where
  "ACCESS_REGISTER = \<lparr>r_name = ''command.access_register'', r_address = 23, r_spec = ''#3.14.7.1'', r_fields = [
     mkField ''aarsize'' 20 3 ACCESS_WARL ''#3.14.7.1 aarsize'' None,
     mkField ''aarpostincrement'' 19 1 ACCESS_WARL ''#3.14.7.1 aarpostincrement'' None,
     mkField ''postexec'' 18 1 ACCESS_WARL ''#3.14.7.1 postexec'' None,
     mkField ''transfer'' 17 1 ACCESS_WARL ''#3.14.7.1 transfer'' None,
     mkField ''write'' 16 1 ACCESS_WARL ''#3.14.7.1 write'' None,
     mkField ''regno'' 0 16 ACCESS_WARL ''#3.14.7.1 regno'' None]\<rparr>"

definition ACCESS_MEMORY :: Register where
  "ACCESS_MEMORY = \<lparr>r_name = ''command.access_memory'', r_address = 23, r_spec = ''#3.14.7.3'', r_fields = [
     mkField ''aamvirtual'' 23 1 ACCESS_WARL ''#3.14.7.3 aamvirtual'' None,
     mkField ''aamsize'' 20 3 ACCESS_WARL ''#3.14.7.3 aamsize'' None,
     mkField ''aampostincrement'' 19 1 ACCESS_WARL ''#3.14.7.3 aampostincrement'' None,
     mkField ''write'' 16 1 ACCESS_WARL ''#3.14.7.3 write'' None,
     mkField ''target_specific'' 14 2 ACCESS_WARL ''#3.14.7.3 target-specific'' None]\<rparr>"

definition AASIZE_32 :: int where [simp]: "AASIZE_32 = 2"
definition AASIZE_64 :: int where [simp]: "AASIZE_64 = 3"
definition AASIZE_128 :: int where [simp]: "AASIZE_128 = 4"
definition REGNO_CSR_BASE :: int where [simp]: "REGNO_CSR_BASE = 0"
definition REGNO_GPR_BASE :: int where [simp]: "REGNO_GPR_BASE = 4096"
definition REGNO_FPR_BASE :: int where [simp]: "REGNO_FPR_BASE = 4128"

definition regno_of_gpr :: "int \<Rightarrow> int" where
  "regno_of_gpr index = REGNO_GPR_BASE + index"

definition regno_of_csr :: "int \<Rightarrow> int" where
  "regno_of_csr number = REGNO_CSR_BASE + number"

definition ABSTRACTAUTO :: Register where
  "ABSTRACTAUTO = \<lparr>r_name = ''abstractauto'', r_address = 24, r_spec = ''#3.14.8'', r_fields = [
     mkField ''autoexecprogbuf'' 16 16 ACCESS_WARL ''#3.14.8 autoexecprogbuf'' (Some 0),
     mkField ''autoexecdata'' 0 12 ACCESS_WARL ''#3.14.8 autoexecdata'' (Some 0)]\<rparr>"

definition DMCS2 :: Register where
  "DMCS2 = \<lparr>r_name = ''dmcs2'', r_address = 50, r_spec = ''#3.14.3'', r_fields = [
     mkField ''grouptype'' 11 1 ACCESS_WARL ''#3.14.3 grouptype'' (Some 0),
     mkField ''dmexttrigger'' 7 4 ACCESS_WARL ''#3.14.3 dmexttrigger'' (Some 0),
     mkField ''group'' 2 5 ACCESS_WARL ''#3.14.3 group'' (Some 0),
     mkField ''hgwrite'' 1 1 ACCESS_W1 ''#3.14.3 hgwrite'' None,
     mkField ''hgselect'' 0 1 ACCESS_WARL ''#3.14.3 hgselect'' (Some 0)]\<rparr>"

definition GROUPTYPE_HALT :: int where [simp]: "GROUPTYPE_HALT = 0"
definition GROUPTYPE_RESUME :: int where [simp]: "GROUPTYPE_RESUME = 1"
definition GROUP_NONE :: int where [simp]: "GROUP_NONE = 0"

definition HALTSUM0 :: Register where
  "HALTSUM0 = \<lparr>r_name = ''haltsum0'', r_address = 64, r_spec = ''#3.14.10'', r_fields = [
     mkField ''haltsum0'' 0 32 ACCESS_R ''#3.14.10 haltsum0'' None]\<rparr>"

definition HALTSUM1 :: Register where
  "HALTSUM1 = \<lparr>r_name = ''haltsum1'', r_address = 19, r_spec = ''#3.14.10'', r_fields = [
     mkField ''haltsum1'' 0 32 ACCESS_R ''#3.14.10 haltsum1'' None]\<rparr>"

definition HALTSUM2 :: Register where
  "HALTSUM2 = \<lparr>r_name = ''haltsum2'', r_address = 52, r_spec = ''#3.14.10'', r_fields = [
     mkField ''haltsum2'' 0 32 ACCESS_R ''#3.14.10 haltsum2'' None]\<rparr>"

definition HALTSUM3 :: Register where
  "HALTSUM3 = \<lparr>r_name = ''haltsum3'', r_address = 53, r_spec = ''#3.14.10'', r_fields = [
     mkField ''haltsum3'' 0 32 ACCESS_R ''#3.14.10 haltsum3'' None]\<rparr>"

definition HALTSUM_LEVELS :: "Register list" where
  "HALTSUM_LEVELS = [HALTSUM0, HALTSUM1, HALTSUM2, HALTSUM3]"

definition haltsum_bit :: "int \<Rightarrow> nat \<Rightarrow> int" where
  "haltsum_bit hart level =
     (if level \<noteq> 0 then drop_bit (5 * level) hart AND 0x1F else hart AND 0x1F)"

definition DATA0 :: int where [simp]: "DATA0 = 0x04"
definition DATA11 :: int where [simp]: "DATA11 = 0x0F"
definition PROGBUF0 :: int where [simp]: "PROGBUF0 = 0x20"
definition PROGBUF15 :: int where [simp]: "PROGBUF15 = 0x2F"
definition NEXTDM :: int where [simp]: "NEXTDM = 0x1D"
definition AUTHDATA :: int where [simp]: "AUTHDATA = 0x30"
definition CONFSTRPTR0 :: int where [simp]: "CONFSTRPTR0 = 0x19"

definition data_address :: "int \<Rightarrow> int result" where
  "data_address index =
     (if \<not> (0 \<le> index \<and> index \<le> DATA11 - DATA0)
      then Inl (ValueError ''data does not exist (data0-data11 only)'')
      else Inr (DATA0 + index))"

definition progbuf_address :: "int \<Rightarrow> int result" where
  "progbuf_address index =
     (if \<not> (0 \<le> index \<and> index \<le> PROGBUF15 - PROGBUF0)
      then Inl (ValueError ''progbuf does not exist (progbuf0-progbuf15 only)'')
      else Inr (PROGBUF0 + index))"

subsection \<open>The hart-side debug and trigger CSRs\<close>

definition DCSR :: Register where
  "DCSR = \<lparr>r_name = ''dcsr'', r_address = 1968, r_spec = ''Sdext 4.9.1'', r_fields = [
     mkField ''debugver'' 28 4 ACCESS_R ''Sdext 4.9.1 debugver'' (Some 4),
     mkField ''ebreakvs'' 17 1 ACCESS_WARL ''Sdext 4.9.1 ebreakvs'' (Some 0),
     mkField ''ebreakvu'' 16 1 ACCESS_WARL ''Sdext 4.9.1 ebreakvu'' (Some 0),
     mkField ''ebreakm'' 15 1 ACCESS_RW ''Sdext 4.9.1 ebreakm'' (Some 0),
     mkField ''ebreaks'' 13 1 ACCESS_WARL ''Sdext 4.9.1 ebreaks'' (Some 0),
     mkField ''ebreaku'' 12 1 ACCESS_WARL ''Sdext 4.9.1 ebreaku'' (Some 0),
     mkField ''stepie'' 11 1 ACCESS_WARL ''Sdext 4.9.1 stepie'' (Some 0),
     mkField ''stopcount'' 10 1 ACCESS_WARL ''Sdext 4.9.1 stopcount'' None,
     mkField ''stoptime'' 9 1 ACCESS_WARL ''Sdext 4.9.1 stoptime'' None,
     mkField ''cause'' 6 3 ACCESS_R ''Sdext 4.9.1 cause'' None,
     mkField ''v'' 5 1 ACCESS_WARL ''Sdext 4.9.1 v'' (Some 0),
     mkField ''mprven'' 4 1 ACCESS_WARL ''Sdext 4.9.1 mprven'' None,
     mkField ''nmip'' 3 1 ACCESS_R ''Sdext 4.9.1 nmip'' None,
     mkField ''step'' 2 1 ACCESS_RW ''Sdext 4.9.1 step'' (Some 0),
     mkField ''prv'' 0 2 ACCESS_WARL ''Sdext 4.9.1 prv'' None]\<rparr>"

definition DCSR_CAUSE_EBREAK :: int where [simp]: "DCSR_CAUSE_EBREAK = 1"
definition DCSR_CAUSE_TRIGGER :: int where [simp]: "DCSR_CAUSE_TRIGGER = 2"
definition DCSR_CAUSE_HALTREQ :: int where [simp]: "DCSR_CAUSE_HALTREQ = 3"
definition DCSR_CAUSE_STEP :: int where [simp]: "DCSR_CAUSE_STEP = 4"
definition DCSR_CAUSE_RESETHALTREQ :: int where [simp]: "DCSR_CAUSE_RESETHALTREQ = 5"

definition DPC :: Register where
  "DPC = \<lparr>r_name = ''dpc'', r_address = 1969, r_spec = ''Sdext 4.9.2'', r_fields = []\<rparr>"

definition DSCRATCH0 :: Register where
  "DSCRATCH0 = \<lparr>r_name = ''dscratch0'', r_address = 1970, r_spec = ''Sdext 4.9.3'', r_fields = []\<rparr>"

definition DSCRATCH1 :: Register where
  "DSCRATCH1 = \<lparr>r_name = ''dscratch1'', r_address = 1971, r_spec = ''Sdext 4.9.3'', r_fields = []\<rparr>"

definition TSELECT :: Register where
  "TSELECT = \<lparr>r_name = ''tselect'', r_address = 1952, r_spec = ''Sdtrig 5.7.1'', r_fields = []\<rparr>"

definition TDATA1_TYPE_LSB_RV32 :: nat where [simp]: "TDATA1_TYPE_LSB_RV32 = 28"
definition TDATA1_TYPE_LSB_RV64 :: nat where [simp]: "TDATA1_TYPE_LSB_RV64 = 60"

definition TRIGGER_TYPE_NONE :: int where [simp]: "TRIGGER_TYPE_NONE = 0"
definition TRIGGER_TYPE_MCONTROL :: int where [simp]: "TRIGGER_TYPE_MCONTROL = 2"
definition TRIGGER_TYPE_ICOUNT :: int where [simp]: "TRIGGER_TYPE_ICOUNT = 3"
definition TRIGGER_TYPE_ITRIGGER :: int where [simp]: "TRIGGER_TYPE_ITRIGGER = 4"
definition TRIGGER_TYPE_ETRIGGER :: int where [simp]: "TRIGGER_TYPE_ETRIGGER = 5"
definition TRIGGER_TYPE_MCONTROL6 :: int where [simp]: "TRIGGER_TYPE_MCONTROL6 = 6"
definition TRIGGER_TYPE_TMEXTTRIGGER :: int where [simp]: "TRIGGER_TYPE_TMEXTTRIGGER = 7"
definition TRIGGER_TYPE_DISABLED :: int where [simp]: "TRIGGER_TYPE_DISABLED = 15"
definition TRIGGER_ACTION_BREAKPOINT :: int where [simp]: "TRIGGER_ACTION_BREAKPOINT = 0"
definition TRIGGER_ACTION_DEBUG_MODE :: int where [simp]: "TRIGGER_ACTION_DEBUG_MODE = 1"

definition MCONTROL6 :: Register where
  "MCONTROL6 = \<lparr>r_name = ''mcontrol6'', r_address = 1953, r_spec = ''Sdtrig 5.7.12'', r_fields = [
     mkField ''uncertain'' 26 1 ACCESS_WARL ''Sdtrig 5.7.12 uncertain'' (Some 0),
     mkField ''hit1'' 25 1 ACCESS_WARL ''Sdtrig 5.7.12 hit1'' (Some 0),
     mkField ''vs'' 24 1 ACCESS_WARL ''Sdtrig 5.7.12 vs'' (Some 0),
     mkField ''vu'' 23 1 ACCESS_WARL ''Sdtrig 5.7.12 vu'' (Some 0),
     mkField ''hit0'' 22 1 ACCESS_WARL ''Sdtrig 5.7.12 hit0'' (Some 0),
     mkField ''select'' 21 1 ACCESS_WARL ''Sdtrig 5.7.12 select'' (Some 0),
     mkField ''size'' 16 3 ACCESS_WARL ''Sdtrig 5.7.12 size'' (Some 0),
     mkField ''action'' 12 4 ACCESS_WARL ''Sdtrig 5.7.12 action'' (Some 0),
     mkField ''chain'' 11 1 ACCESS_WARL ''Sdtrig 5.7.12 chain'' (Some 0),
     mkField ''match'' 7 4 ACCESS_WARL ''Sdtrig 5.7.12 match'' (Some 0),
     mkField ''m'' 6 1 ACCESS_WARL ''Sdtrig 5.7.12 m'' (Some 0),
     mkField ''uncertainen'' 5 1 ACCESS_WARL ''Sdtrig 5.7.12 uncertainen'' (Some 0),
     mkField ''s'' 4 1 ACCESS_WARL ''Sdtrig 5.7.12 s'' (Some 0),
     mkField ''u'' 3 1 ACCESS_WARL ''Sdtrig 5.7.12 u'' (Some 0),
     mkField ''execute'' 2 1 ACCESS_WARL ''Sdtrig 5.7.12 execute'' (Some 0),
     mkField ''store'' 1 1 ACCESS_WARL ''Sdtrig 5.7.12 store'' (Some 0),
     mkField ''load'' 0 1 ACCESS_WARL ''Sdtrig 5.7.12 load'' (Some 0)]\<rparr>"

definition ICOUNT :: Register where
  "ICOUNT = \<lparr>r_name = ''icount'', r_address = 1953, r_spec = ''Sdtrig 5.7.13'', r_fields = [
     mkField ''vs'' 26 1 ACCESS_WARL ''Sdtrig 5.7.13 vs'' (Some 0),
     mkField ''vu'' 25 1 ACCESS_WARL ''Sdtrig 5.7.13 vu'' (Some 0),
     mkField ''hit'' 24 1 ACCESS_WARL ''Sdtrig 5.7.13 hit'' (Some 0),
     mkField ''count'' 10 14 ACCESS_WARL ''Sdtrig 5.7.13 count'' (Some 1),
     mkField ''m'' 9 1 ACCESS_WARL ''Sdtrig 5.7.13 m'' (Some 0),
     mkField ''pending'' 8 1 ACCESS_RW ''Sdtrig 5.7.13 pending'' (Some 0),
     mkField ''s'' 7 1 ACCESS_WARL ''Sdtrig 5.7.13 s'' (Some 0),
     mkField ''u'' 6 1 ACCESS_WARL ''Sdtrig 5.7.13 u'' (Some 0),
     mkField ''action'' 0 6 ACCESS_WARL ''Sdtrig 5.7.13 action'' (Some 0)]\<rparr>"

definition ITRIGGER :: Register where
  "ITRIGGER = \<lparr>r_name = ''itrigger'', r_address = 1953, r_spec = ''Sdtrig 5.7.14'', r_fields = [
     mkField ''hit'' 24 1 ACCESS_WARL ''Sdtrig 5.7.14 hit'' (Some 0),
     mkField ''vs'' 12 1 ACCESS_WARL ''Sdtrig 5.7.14 vs'' (Some 0),
     mkField ''vu'' 11 1 ACCESS_WARL ''Sdtrig 5.7.14 vu'' (Some 0),
     mkField ''nmi'' 10 1 ACCESS_WARL ''Sdtrig 5.7.14 nmi'' (Some 0),
     mkField ''m'' 9 1 ACCESS_WARL ''Sdtrig 5.7.14 m'' (Some 0),
     mkField ''s'' 7 1 ACCESS_WARL ''Sdtrig 5.7.14 s'' (Some 0),
     mkField ''u'' 6 1 ACCESS_WARL ''Sdtrig 5.7.14 u'' (Some 0),
     mkField ''action'' 0 6 ACCESS_WARL ''Sdtrig 5.7.14 action'' (Some 0)]\<rparr>"

definition ETRIGGER :: Register where
  "ETRIGGER = \<lparr>r_name = ''etrigger'', r_address = 1953, r_spec = ''Sdtrig 5.7.15'', r_fields = [
     mkField ''hit'' 24 1 ACCESS_WARL ''Sdtrig 5.7.15 hit'' (Some 0),
     mkField ''vs'' 12 1 ACCESS_WARL ''Sdtrig 5.7.15 vs'' (Some 0),
     mkField ''vu'' 11 1 ACCESS_WARL ''Sdtrig 5.7.15 vu'' (Some 0),
     mkField ''m'' 9 1 ACCESS_WARL ''Sdtrig 5.7.15 m'' (Some 0),
     mkField ''s'' 7 1 ACCESS_WARL ''Sdtrig 5.7.15 s'' (Some 0),
     mkField ''u'' 6 1 ACCESS_WARL ''Sdtrig 5.7.15 u'' (Some 0),
     mkField ''action'' 0 6 ACCESS_WARL ''Sdtrig 5.7.15 action'' (Some 0)]\<rparr>"

definition TDATA2 :: Register where
  "TDATA2 = \<lparr>r_name = ''tdata2'', r_address = 1954, r_spec = ''Sdtrig 5.7.3'', r_fields = []\<rparr>"

definition TDATA3 :: Register where
  "TDATA3 = \<lparr>r_name = ''tdata3'', r_address = 1955, r_spec = ''Sdtrig 5.7.4'', r_fields = []\<rparr>"

definition TINFO :: Register where
  "TINFO = \<lparr>r_name = ''tinfo'', r_address = 1956, r_spec = ''Sdtrig 5.7.6'', r_fields = [
     mkField ''version'' 24 8 ACCESS_R ''Sdtrig 5.7.6 version'' None,
     mkField ''info'' 0 16 ACCESS_R ''Sdtrig 5.7.6 info'' None]\<rparr>"

text \<open>
  The dictionaries of registers by address are association lists in the source's order; a
  lookup is \<^const>\<open>map_of\<close>. The addresses are distinct (\<open>REGISTERS_distinct\<close>), so the
  first entry is the only one, as in the dictionary.
\<close>

definition CSR_REGISTERS :: "(int \<times> Register) list" where
  "CSR_REGISTERS = map (\<lambda>r. (r_address r, r))
     [DCSR, DPC, DSCRATCH0, DSCRATCH1, TSELECT, TDATA2, TDATA3, TINFO]"

definition TDATA1_LAYOUTS :: "(int \<times> Register) list" where
  "TDATA1_LAYOUTS =
     [(TRIGGER_TYPE_MCONTROL6, MCONTROL6), (TRIGGER_TYPE_ICOUNT, ICOUNT),
      (TRIGGER_TYPE_ITRIGGER, ITRIGGER), (TRIGGER_TYPE_ETRIGGER, ETRIGGER)]"

definition tdata1_type :: "int \<Rightarrow> int \<Rightarrow> int" where
  "tdata1_type word xlen =
     (let lsb = (if xlen = 64 then TDATA1_TYPE_LSB_RV64 else TDATA1_TYPE_LSB_RV32)
      in drop_bit lsb word AND 0xF)"

definition tdata1_dmode :: "int \<Rightarrow> int \<Rightarrow> int" where
  "tdata1_dmode word xlen =
     (let lsb = (if xlen = 64 then TDATA1_TYPE_LSB_RV64 else TDATA1_TYPE_LSB_RV32)
      in drop_bit (lsb - 1) word AND 1)"

definition REGISTERS :: "(int \<times> Register) list" where
  "REGISTERS = map (\<lambda>r. (r_address r, r))
     [DMCONTROL, DMSTATUS, HARTINFO, HALTSUM1, HAWINDOWSEL, HAWINDOW,
      ABSTRACTCS, COMMAND, ABSTRACTAUTO, DMCS2, HALTSUM2, HALTSUM3, HALTSUM0]"

definition register_at :: "int \<Rightarrow> Register option" where
  "register_at address = map_of REGISTERS address"

subsection \<open>One field in one word\<close>

lemma value_mask_eq: "value_mask f = mask (f_width f)"
  by (simp add: value_mask_def mask_eq_exp_minus_1 push_bit_eq_mult)

lemma extract_field_eq: "extract_field f w = take_bit (f_width f) (drop_bit (f_lsb f) w)"
  by (simp add: extract_field_def value_mask_eq take_bit_eq_mask)

lemma bit_insert_field:
  "bit (insert_field f w v) n \<longleftrightarrow>
     (if f_lsb f \<le> n \<and> n < f_lsb f + f_width f then bit v (n - f_lsb f) else bit w n)"
  by (auto simp: insert_field_def field_mask_def value_mask_eq bit_simps)

lemma bit_extract_field: "bit (extract_field f w) n \<longleftrightarrow> n < f_width f \<and> bit w (f_lsb f + n)"
  by (simp add: extract_field_eq bit_simps)

lemma extract_field_range: "0 \<le> extract_field f w \<and> extract_field f w < 2 ^ f_width f"
  by (simp add: extract_field_eq)

text \<open>Two fields of a register never share a bit.\<close>

definition field_disjoint :: "Field \<Rightarrow> Field \<Rightarrow> bool" where
  "field_disjoint f g \<longleftrightarrow>
     f_lsb f + f_width f \<le> f_lsb g \<or> f_lsb g + f_width g \<le> f_lsb f"

lemma field_disjoint_sym: "field_disjoint f g \<Longrightarrow> field_disjoint g f"
  by (auto simp: field_disjoint_def)

lemma extract_insert_same: "extract_field f (insert_field f w v) = take_bit (f_width f) v"
  by (rule bit_eqI) (auto simp: bit_extract_field bit_insert_field bit_simps)

lemma extract_insert_disjoint:
  "field_disjoint f g \<Longrightarrow> extract_field g (insert_field f w v) = extract_field g w"
  by (rule bit_eqI) (auto simp: bit_extract_field bit_insert_field field_disjoint_def)

lemma insert_field_take:
  assumes "take_bit 32 w = w" and "f_lsb f + f_width f \<le> 32"
  shows "take_bit 32 (insert_field f w v) = insert_field f w v"
proof (rule bit_eqI)
  fix n
  have "n < 32" if "bit w n" using assms(1) that by (rule bit_imp_lt_take)
  with assms(2) show "bit (take_bit 32 (insert_field f w v)) n = bit (insert_field f w v) n"
    by (auto simp: bit_take_bit_iff bit_insert_field)
qed

lemma extract_one_bit: "f_width f = 1 \<Longrightarrow> extract_field f w = of_bool (bit w (f_lsb f))"
  by (simp add: extract_field_def value_mask_def)

subsection \<open>The contract of a register definition\<close>

fun fields_disjoint :: "Field list \<Rightarrow> bool" where
  "fields_disjoint [] = True"
| "fields_disjoint (f # fs) = (list_all (field_disjoint f) fs \<and> fields_disjoint fs)"

definition field_fits :: "Field \<Rightarrow> bool" where
  "field_fits f \<longleftrightarrow> 0 < f_width f \<and> f_lsb f + f_width f \<le> 32"

lemma fields_disjointD:
  "fields_disjoint fs \<Longrightarrow> distinct (map f_name fs) \<Longrightarrow> f \<in> set fs \<Longrightarrow> g \<in> set fs \<Longrightarrow>
   f_name f \<noteq> f_name g \<Longrightarrow> field_disjoint f g"
  by (induction fs) (auto simp: list_all_iff dest: field_disjoint_sym)

locale register_layout =
  fixes R :: Register
  assumes distinct_names: "distinct (map f_name (r_fields R))"
    and disjoint_fields: "fields_disjoint (r_fields R)"
    and fields_fit: "list_all field_fits (r_fields R)"
begin

lemma reg_field_Inr_iff: "reg_field R nm = Inr f \<longleftrightarrow> f \<in> set (r_fields R) \<and> f_name f = nm"
proof
  assume "reg_field R nm = Inr f"
  then show "f \<in> set (r_fields R) \<and> f_name f = nm"
    by (auto simp: reg_field_def find_Some_iff split: option.splits)
next
  assume f: "f \<in> set (r_fields R) \<and> f_name f = nm"
  then obtain g where g: "find (\<lambda>f. f_name f = nm) (r_fields R) = Some g"
    by (metis (mono_tags, lifting) find_None_iff not_None_eq)
  then have "g \<in> set (r_fields R)" and "f_name g = nm"
    by (auto simp: find_Some_iff)
  with f distinct_names have "g = f"
    by (auto simp: distinct_map dest: inj_onD)
  with g show "reg_field R nm = Inr f" by (simp add: reg_field_def)
qed

lemma reg_field_total: "nm \<in> f_name ` set (r_fields R) \<Longrightarrow> \<exists>f. reg_field R nm = Inr f"
  using reg_field_Inr_iff by auto

lemma reg_field_unknown: "nm \<notin> f_name ` set (r_fields R) \<Longrightarrow> reg_field R nm = Inl (KeyError nm)"
  by (auto simp: reg_field_def image_iff find_None_iff split: option.splits simp: find_Some_iff)

lemma same_name: "f \<in> set (r_fields R) \<Longrightarrow> g \<in> set (r_fields R) \<Longrightarrow> f_name f = f_name g \<Longrightarrow> f = g"
  using distinct_names by (auto simp: distinct_map dest: inj_onD)

lemma extract_insert:
  assumes "f \<in> set (r_fields R)" and "g \<in> set (r_fields R)"
  shows "extract_field g (insert_field f w v) =
    (if f_name f = f_name g then take_bit (f_width g) v else extract_field g w)"
proof (cases "f_name f = f_name g")
  case True
  with assms have "f = g" by (rule same_name)
  then show ?thesis by (simp add: extract_insert_same)
next
  case False
  with assms disjoint_fields distinct_names have "field_disjoint f g"
    by (auto intro: fields_disjointD)
  with False show ?thesis by (simp add: extract_insert_disjoint)
qed

lemma encode_from_total:
  "fst ` set kvs \<subseteq> f_name ` set (r_fields R) \<Longrightarrow> \<exists>w'. encode_from R w kvs = Inr w'"
proof (induction kvs arbitrary: w)
  case (Cons kv kvs)
  obtain nm v where kv: "kv = (nm, v)" by (cases kv)
  with Cons.prems obtain f where "reg_field R nm = Inr f"
    using reg_field_total [of nm] by auto
  with Cons kv show ?case by simp
qed simp

lemma encode_total: "fst ` set kvs \<subseteq> f_name ` set (r_fields R) \<Longrightarrow> \<exists>w. encode R kvs = Inr w"
  by (simp add: encode_def encode_from_total)

lemma encode_from_unknown:
  "\<not> fst ` set kvs \<subseteq> f_name ` set (r_fields R) \<Longrightarrow> \<exists>nm. encode_from R w kvs = Inl (KeyError nm)"
proof (induction kvs arbitrary: w)
  case (Cons kv kvs)
  obtain nm v where kv: "kv = (nm, v)" by (cases kv)
  show ?case
  proof (cases "nm \<in> f_name ` set (r_fields R)")
    case True
    then obtain f where "reg_field R nm = Inr f" using reg_field_total by blast
    moreover have "\<not> fst ` set kvs \<subseteq> f_name ` set (r_fields R)" using Cons.prems True kv by simp
    ultimately show ?thesis using Cons.IH kv by simp
  next
    case False
    then show ?thesis using kv by (simp add: reg_field_unknown)
  qed
qed simp

lemma encode_returns_iff: "(\<exists>w. encode R kvs = Inr w) \<longleftrightarrow> fst ` set kvs \<subseteq> f_name ` set (r_fields R)"
  using encode_total [of kvs] encode_from_unknown [of kvs 0] by (metis encode_def sum.distinct(1))

lemma extract_encode_from:
  assumes "distinct (map fst kvs)" and "encode_from R w kvs = Inr w'" and "g \<in> set (r_fields R)"
  shows "extract_field g w' =
    (case map_of kvs (f_name g) of Some v \<Rightarrow> take_bit (f_width g) v | None \<Rightarrow> extract_field g w)"
  using assms(1,2)
proof (induction kvs arbitrary: w)
  case Nil
  then show ?case by simp
next
  case (Cons kv kvs)
  obtain nm v where kv: "kv = (nm, v)" by (cases kv)
  with Cons.prems(2) obtain f
    where f: "reg_field R nm = Inr f" and rest: "encode_from R (insert_field f w v) kvs = Inr w'"
    by (auto simp: bindR_eq_Inr)
  from f have fin: "f \<in> set (r_fields R)" and fnm: "f_name f = nm"
    by (simp_all add: reg_field_Inr_iff)
  have "map_of kvs nm = None"
    using Cons.prems(1) kv by (simp add: map_of_eq_None_iff)
  with Cons.IH [OF _ rest] Cons.prems(1) kv fnm show ?case
    by (auto simp: extract_insert [OF fin assms(3)] split: option.splits)
qed

lemma extract_encode:
  assumes "distinct (map fst kvs)" and "fst ` set kvs \<subseteq> f_name ` set (r_fields R)"
    and "g \<in> set (r_fields R)"
  shows "extract_field g (encoded R kvs) =
    (case map_of kvs (f_name g) of Some v \<Rightarrow> take_bit (f_width g) v | None \<Rightarrow> 0)"
proof -
  obtain w where w: "encode R kvs = Inr w" using encode_total [OF assms(2)] by blast
  then have "extract_field g w =
      (case map_of kvs (f_name g) of Some v \<Rightarrow> take_bit (f_width g) v | None \<Rightarrow> extract_field g 0)"
    unfolding encode_def by (rule extract_encode_from [OF assms(1) _ assms(3)])
  with w show ?thesis by (simp add: encoded_def extract_field_eq split: option.splits)
qed

lemma encode_from_word:
  "take_bit 32 w = w \<Longrightarrow> encode_from R w kvs = Inr w' \<Longrightarrow> take_bit 32 w' = w'"
proof (induction kvs arbitrary: w)
  case (Cons kv kvs)
  obtain nm v where kv: "kv = (nm, v)" by (cases kv)
  with Cons.prems(2) obtain f
    where f: "reg_field R nm = Inr f" and rest: "encode_from R (insert_field f w v) kvs = Inr w'"
    by (auto simp: bindR_eq_Inr)
  from f fields_fit have "f_lsb f + f_width f \<le> 32"
    by (auto simp: reg_field_Inr_iff field_fits_def list_all_iff)
  with Cons.prems(1) have "take_bit 32 (insert_field f w v) = insert_field f w v"
    by (rule insert_field_take)
  then show ?case using rest by (rule Cons.IH)
qed simp

lemma encoded_word: "take_bit 32 (encoded R kvs) = encoded R kvs"
  using encode_from_word [of 0 kvs]
  by (auto simp: encoded_def encode_def split: sum.splits)

lemma map_of_decode: "f \<in> set (r_fields R) \<Longrightarrow> map_of (decode R w) (f_name f) = Some (extract_field f w)"
  using distinct_names by (force simp: decode_def intro!: map_of_is_SomeI simp: o_def)

lemma item_decode: "f \<in> set (r_fields R) \<Longrightarrow> item (decode R w) (f_name f) = extract_field f w"
  by (simp add: item_def map_of_decode)

lemma decode_keys: "map fst (decode R w) = map f_name (r_fields R)"
  by (simp add: decode_def)

lemma decode_encode:
  assumes "distinct (map fst kvs)" and "fst ` set kvs \<subseteq> f_name ` set (r_fields R)"
  shows "decode R (encoded R kvs) =
    map (\<lambda>f. (f_name f, case map_of kvs (f_name f) of
                 Some v \<Rightarrow> take_bit (f_width f) v | None \<Rightarrow> 0)) (r_fields R)"
  by (auto simp: decode_def extract_encode [OF assms])

lemma decode_encode_decode: "decode R (encoded R (decode R w)) = decode R w"
proof -
  have "distinct (map fst (decode R w))" and "fst ` set (decode R w) \<subseteq> f_name ` set (r_fields R)"
    using distinct_names by (auto simp: decode_keys) (auto simp: decode_def)
  then have "decode R (encoded R (decode R w)) =
      map (\<lambda>f. (f_name f, take_bit (f_width f) (extract_field f w))) (r_fields R)"
    by (auto simp: decode_encode map_of_decode)
  then show ?thesis by (simp add: extract_field_eq decode_def)
qed

lemma encoded_range: "0 \<le> encoded R kvs \<and> encoded R kvs < 2 ^ 32"
  using encoded_word [of kvs] take_bit_range [of 32 "encoded R kvs"] by simp

end

subsection \<open>Every register of the source keeps the contract\<close>

lemmas layout_defs = mkField_def field_disjoint_def field_fits_def

interpretation dmcontrol_layout: register_layout DMCONTROL
  by unfold_locales (simp_all add: DMCONTROL_def layout_defs)

interpretation dmstatus_layout: register_layout DMSTATUS
  by unfold_locales (simp_all add: DMSTATUS_def layout_defs)

interpretation hartinfo_layout: register_layout HARTINFO
  by unfold_locales (simp_all add: HARTINFO_def layout_defs)

interpretation hawindowsel_layout: register_layout HAWINDOWSEL
  by unfold_locales (simp_all add: HAWINDOWSEL_def layout_defs)

interpretation hawindow_layout: register_layout HAWINDOW
  by unfold_locales (simp_all add: HAWINDOW_def layout_defs)

interpretation abstractcs_layout: register_layout ABSTRACTCS
  by unfold_locales (simp_all add: ABSTRACTCS_def layout_defs)

interpretation command_layout: register_layout COMMAND
  by unfold_locales (simp_all add: COMMAND_def layout_defs)

interpretation access_register_layout: register_layout ACCESS_REGISTER
  by unfold_locales (simp_all add: ACCESS_REGISTER_def layout_defs)

interpretation access_memory_layout: register_layout ACCESS_MEMORY
  by unfold_locales (simp_all add: ACCESS_MEMORY_def layout_defs)

interpretation abstractauto_layout: register_layout ABSTRACTAUTO
  by unfold_locales (simp_all add: ABSTRACTAUTO_def layout_defs)

interpretation dmcs2_layout: register_layout DMCS2
  by unfold_locales (simp_all add: DMCS2_def layout_defs)

interpretation haltsum0_layout: register_layout HALTSUM0
  by unfold_locales (simp_all add: HALTSUM0_def layout_defs)

interpretation haltsum1_layout: register_layout HALTSUM1
  by unfold_locales (simp_all add: HALTSUM1_def layout_defs)

interpretation haltsum2_layout: register_layout HALTSUM2
  by unfold_locales (simp_all add: HALTSUM2_def layout_defs)

interpretation haltsum3_layout: register_layout HALTSUM3
  by unfold_locales (simp_all add: HALTSUM3_def layout_defs)

interpretation dcsr_layout: register_layout DCSR
  by unfold_locales (simp_all add: DCSR_def layout_defs)

interpretation dpc_layout: register_layout DPC
  by unfold_locales (simp_all add: DPC_def layout_defs)

interpretation dscratch0_layout: register_layout DSCRATCH0
  by unfold_locales (simp_all add: DSCRATCH0_def layout_defs)

interpretation dscratch1_layout: register_layout DSCRATCH1
  by unfold_locales (simp_all add: DSCRATCH1_def layout_defs)

interpretation tselect_layout: register_layout TSELECT
  by unfold_locales (simp_all add: TSELECT_def layout_defs)

interpretation mcontrol6_layout: register_layout MCONTROL6
  by unfold_locales (simp_all add: MCONTROL6_def layout_defs)

interpretation icount_layout: register_layout ICOUNT
  by unfold_locales (simp_all add: ICOUNT_def layout_defs)

interpretation itrigger_layout: register_layout ITRIGGER
  by unfold_locales (simp_all add: ITRIGGER_def layout_defs)

interpretation etrigger_layout: register_layout ETRIGGER
  by unfold_locales (simp_all add: ETRIGGER_def layout_defs)

interpretation tdata2_layout: register_layout TDATA2
  by unfold_locales (simp_all add: TDATA2_def layout_defs)

interpretation tdata3_layout: register_layout TDATA3
  by unfold_locales (simp_all add: TDATA3_def layout_defs)

interpretation tinfo_layout: register_layout TINFO
  by unfold_locales (simp_all add: TINFO_def layout_defs)

lemma REGISTERS_distinct: "distinct (map fst REGISTERS)" "distinct (map fst CSR_REGISTERS)"
  by (simp_all add: REGISTERS_def CSR_REGISTERS_def DMCONTROL_def DMSTATUS_def HARTINFO_def
    HALTSUM1_def HAWINDOWSEL_def HAWINDOW_def ABSTRACTCS_def COMMAND_def ABSTRACTAUTO_def
    DMCS2_def HALTSUM2_def HALTSUM3_def HALTSUM0_def DCSR_def DPC_def DSCRATCH0_def
    DSCRATCH1_def TSELECT_def TDATA2_def TDATA3_def TINFO_def)

subsection \<open>Fields of the run-control words\<close>

lemma dmcontrol_items [simp, field_simps_set]:
  "item (decode DMCONTROL w) ''haltreq'' = of_bool (bit w 31)"
  "item (decode DMCONTROL w) ''resumereq'' = of_bool (bit w 30)"
  "item (decode DMCONTROL w) ''hartreset'' = of_bool (bit w 29)"
  "item (decode DMCONTROL w) ''ackhavereset'' = of_bool (bit w 28)"
  "item (decode DMCONTROL w) ''ackunavail'' = of_bool (bit w 27)"
  "item (decode DMCONTROL w) ''hasel'' = of_bool (bit w 26)"
  "item (decode DMCONTROL w) ''hartsello'' = take_bit 10 (drop_bit 16 w)"
  "item (decode DMCONTROL w) ''hartselhi'' = take_bit 10 (drop_bit 6 w)"
  "item (decode DMCONTROL w) ''setkeepalive'' = of_bool (bit w 5)"
  "item (decode DMCONTROL w) ''clrkeepalive'' = of_bool (bit w 4)"
  "item (decode DMCONTROL w) ''setresethaltreq'' = of_bool (bit w 3)"
  "item (decode DMCONTROL w) ''clrresethaltreq'' = of_bool (bit w 2)"
  "item (decode DMCONTROL w) ''ndmreset'' = of_bool (bit w 1)"
  "item (decode DMCONTROL w) ''dmactive'' = of_bool (bit w 0)"
  by (simp_all add: item_def decode_def DMCONTROL_def mkField_def extract_field_eq mod_2_bit)

lemma dmstatus_items [simp, field_simps_set]:
  "item (decode DMSTATUS w) ''ndmresetpending'' = of_bool (bit w 24)"
  "item (decode DMSTATUS w) ''stickyunavail'' = of_bool (bit w 23)"
  "item (decode DMSTATUS w) ''impebreak'' = of_bool (bit w 22)"
  "item (decode DMSTATUS w) ''allhavereset'' = of_bool (bit w 19)"
  "item (decode DMSTATUS w) ''anyhavereset'' = of_bool (bit w 18)"
  "item (decode DMSTATUS w) ''allresumeack'' = of_bool (bit w 17)"
  "item (decode DMSTATUS w) ''anyresumeack'' = of_bool (bit w 16)"
  "item (decode DMSTATUS w) ''allnonexistent'' = of_bool (bit w 15)"
  "item (decode DMSTATUS w) ''anynonexistent'' = of_bool (bit w 14)"
  "item (decode DMSTATUS w) ''allunavail'' = of_bool (bit w 13)"
  "item (decode DMSTATUS w) ''anyunavail'' = of_bool (bit w 12)"
  "item (decode DMSTATUS w) ''allrunning'' = of_bool (bit w 11)"
  "item (decode DMSTATUS w) ''anyrunning'' = of_bool (bit w 10)"
  "item (decode DMSTATUS w) ''allhalted'' = of_bool (bit w 9)"
  "item (decode DMSTATUS w) ''anyhalted'' = of_bool (bit w 8)"
  "item (decode DMSTATUS w) ''authenticated'' = of_bool (bit w 7)"
  "item (decode DMSTATUS w) ''authbusy'' = of_bool (bit w 6)"
  "item (decode DMSTATUS w) ''hasresethaltreq'' = of_bool (bit w 5)"
  "item (decode DMSTATUS w) ''confstrptrvalid'' = of_bool (bit w 4)"
  "item (decode DMSTATUS w) ''version'' = take_bit 4 w"
  by (simp_all add: item_def decode_def DMSTATUS_def mkField_def extract_field_eq mod_2_bit)

text \<open>\<^verbatim>\<open>hartsel\<close> is one 20-bit index split over two fields.\<close>

lemma hartsel_fields_of_DMCONTROL:
  "reg_field DMCONTROL ''hartselhi'' = Inr hartselhi_field"
  "reg_field DMCONTROL ''hartsello'' = Inr hartsello_field"
  by (simp_all add: reg_field_def DMCONTROL_def hartselhi_field_def hartsello_field_def mkField_def)

lemma bit_hartsel_of:
  "bit (hartsel_of w) n \<longleftrightarrow>
     (if n < 10 then bit w (n + 16) else if n < 20 then bit w (n - 4) else False)"
  by (auto simp: hartsel_of_def Let_def bit_simps bit_extract_field hartselhi_field_def
    hartsello_field_def mkField_def add.commute)

lemma hartsel_of_range: "0 \<le> hartsel_of w \<and> hartsel_of w < 2 ^ 20"
proof -
  have "take_bit 20 (hartsel_of w) = hartsel_of w"
    by (rule bit_eqI) (auto simp: bit_simps bit_hartsel_of)
  then show ?thesis using take_bit_range [of 20 "hartsel_of w"] by simp
qed

lemma bit_with_hartsel:
  "bit (with_hartsel w h) n \<longleftrightarrow>
     (if 6 \<le> n \<and> n < 16 then bit h (n + 4)
      else if 16 \<le> n \<and> n < 26 then bit h (n - 16) else bit w n)"
  by (auto simp: with_hartsel_def Let_def bit_insert_field bit_simps hartselhi_field_def
    hartsello_field_def mkField_def add.commute)

lemma hartsel_of_take [simp]: "hartsel_of (take_bit 32 w) = hartsel_of w"
  by (rule bit_eqI) (auto simp: bit_hartsel_of bit_simps)

subsection \<open>Round trips of every register\<close>

text \<open>The registers of the source: those of its three tables, and the two layouts of the \<^verbatim>\<open>control\<close> field of \<^verbatim>\<open>command\<close>.\<close>

definition source_registers :: "Register list" where
  "source_registers = map snd (REGISTERS @ CSR_REGISTERS @ TDATA1_LAYOUTS) @ [ACCESS_REGISTER, ACCESS_MEMORY]"

lemma every_register_layout: "r \<in> set source_registers \<Longrightarrow> register_layout r"
  unfolding source_registers_def REGISTERS_def CSR_REGISTERS_def TDATA1_LAYOUTS_def
  by (auto intro: dmcontrol_layout.register_layout_axioms dmstatus_layout.register_layout_axioms
      hartinfo_layout.register_layout_axioms haltsum1_layout.register_layout_axioms
      hawindowsel_layout.register_layout_axioms hawindow_layout.register_layout_axioms
      abstractcs_layout.register_layout_axioms command_layout.register_layout_axioms
      abstractauto_layout.register_layout_axioms dmcs2_layout.register_layout_axioms
      haltsum2_layout.register_layout_axioms haltsum3_layout.register_layout_axioms
      haltsum0_layout.register_layout_axioms dcsr_layout.register_layout_axioms
      dpc_layout.register_layout_axioms dscratch0_layout.register_layout_axioms
      dscratch1_layout.register_layout_axioms tselect_layout.register_layout_axioms
      tdata2_layout.register_layout_axioms tdata3_layout.register_layout_axioms
      tinfo_layout.register_layout_axioms mcontrol6_layout.register_layout_axioms
      icount_layout.register_layout_axioms itrigger_layout.register_layout_axioms
      etrigger_layout.register_layout_axioms access_register_layout.register_layout_axioms
      access_memory_layout.register_layout_axioms)

text \<open>
  C22. For every register the source defines, in its tables or as a layout of the \<^verbatim>\<open>control\<close> field of \<^verbatim>\<open>command\<close>, encoding
  values of distinct fields of it returns a 32-bit word, and decoding that word gives back each value cut to its field's
  width and 0 for the fields not named.
\<close>

theorem register_round_trip:
  assumes "r \<in> set source_registers"
    and "distinct (map fst kvs)" and "fst ` set kvs \<subseteq> f_name ` set (r_fields r)"
  shows "\<exists>w. encode r kvs = Inr w \<and> 0 \<le> w \<and> w < 2 ^ 32 \<and>
    decode r w = map (\<lambda>f. (f_name f, case map_of kvs (f_name f) of
                     Some v \<Rightarrow> take_bit (f_width f) v | None \<Rightarrow> 0)) (r_fields r)"
proof -
  have R: "register_layout r" using assms(1) by (rule every_register_layout)
  from register_layout.encode_total [OF R assms(3)] obtain w where w: "encode r kvs = Inr w" by blast
  then have "encoded r kvs = w" by (simp add: encoded_def)
  with w register_layout.encoded_range [OF R, of kvs] register_layout.decode_encode [OF R assms(2,3)]
  show ?thesis by auto
qed

theorem register_round_trip_witness:
  "\<exists>w. encode DMCONTROL [(''haltreq'', 1), (''hartsello'', 5)] = Inr w \<and> 0 \<le> w \<and> w < 2 ^ 32 \<and>
    decode DMCONTROL w = map (\<lambda>f. (f_name f, case map_of [(''haltreq'', 1), (''hartsello'', 5)] (f_name f) of
                     Some v \<Rightarrow> take_bit (f_width f) v | None \<Rightarrow> 0)) (r_fields DMCONTROL)"
  by (rule register_round_trip) (simp_all add: source_registers_def REGISTERS_def DMCONTROL_def mkField_def)

text \<open>
  Encoding a field the register does not have raises \<^verbatim>\<open>KeyError\<close>: the call returns a word
  exactly when every name is one of the register's fields.
\<close>

lemma encode_errors:
  assumes "r \<in> set source_registers"
  shows "(\<exists>w. encode r kvs = Inr w) \<longleftrightarrow> fst ` set kvs \<subseteq> f_name ` set (r_fields r)"
  by (rule register_layout.encode_returns_iff [OF every_register_layout [OF assms]])

lemma hartsel_of_with_hartsel: "hartsel_of (with_hartsel w h) = take_bit 20 h"
  by (rule bit_eqI) (auto simp: bit_hartsel_of bit_with_hartsel bit_simps)

text \<open>
  \<^verbatim>\<open>hartsel\<close> is a 20-bit index over two fields: writing it into any word and reading it back
  returns its low 20 bits, and every other bit of the word is kept.
\<close>

lemma hartsel_round_trip:
  "hartsel_of (with_hartsel w h) = take_bit 20 h \<and>
   (bit (with_hartsel w h) n = bit w n \<or> 6 \<le> n \<and> n < 26)"
  by (auto simp: hartsel_of_with_hartsel bit_with_hartsel)

end
