(* ===== verification/Predictor.thy ===== *)
theory Predictor
  imports Registers
begin

text \<open>
  The golden reference model of the Debug Module, \<^verbatim>\<open>src/src/pydebug/model/predictor.py\<close>:
  the declared configuration, the per-hart state, the predictor's state as one record in the
  order of its constructor, every DMI write handler, the side effects of reads, and the
  predicted read values. An operation that mutates the predictor takes and returns the record.
  The loops \<^verbatim>\<open>for h in self._selected()\<close> update the selected entries of \<open>harts\<close> in place
  (\<^const>\<open>update_at\<close>). A dictionary is a map. \<^verbatim>\<open>__repr__\<close> is not modelled.

  The sizes of a configuration that the code shifts by (\<^verbatim>\<open>datacount\<close>, \<^verbatim>\<open>progbufsize\<close> and the reset value of \<^verbatim>\<open>sbaccess\<close>) are
  taken to be natural numbers: for a negative one the shifts of \<^verbatim>\<open>expect\<close> and of the address increment raise \<^verbatim>\<open>ValueError\<close>, where
  \<open>expect_abstractauto\<close> and \<open>sba_autoincrement\<close> shift by 0.
\<close>

unbundle bit_operations_syntax

subsection \<open>Addresses and constants\<close>

definition ADDR_DATA0 :: int where [simp]: "ADDR_DATA0 = 0x04"
definition ADDR_DATA11 :: int where [simp]: "ADDR_DATA11 = 0x0F"
definition ADDR_DMCONTROL :: int where [simp]: "ADDR_DMCONTROL = 0x10"
definition ADDR_DMSTATUS :: int where [simp]: "ADDR_DMSTATUS = 0x11"
definition ADDR_HARTINFO :: int where [simp]: "ADDR_HARTINFO = 0x12"
definition ADDR_HAWINDOWSEL :: int where [simp]: "ADDR_HAWINDOWSEL = 0x14"
definition ADDR_ABSTRACTCS :: int where [simp]: "ADDR_ABSTRACTCS = 0x16"
definition ADDR_COMMAND :: int where [simp]: "ADDR_COMMAND = 0x17"
definition ADDR_ABSTRACTAUTO :: int where [simp]: "ADDR_ABSTRACTAUTO = 0x18"
definition ADDR_NEXTDM :: int where [simp]: "ADDR_NEXTDM = 0x1D"
definition ADDR_PROGBUF0 :: int where [simp]: "ADDR_PROGBUF0 = 0x20"
definition ADDR_PROGBUF15 :: int where [simp]: "ADDR_PROGBUF15 = 0x2F"
definition ADDR_SBCS :: int where [simp]: "ADDR_SBCS = 0x38"
definition ADDR_SBADDRESS0 :: int where [simp]: "ADDR_SBADDRESS0 = 0x39"
definition ADDR_SBDATA0 :: int where [simp]: "ADDR_SBDATA0 = 0x3C"
definition ADDR_HALTSUM0 :: int where [simp]: "ADDR_HALTSUM0 = 0x40"
definition ADDR_HALTSUM1 :: int where [simp]: "ADDR_HALTSUM1 = 0x13"
definition ADDR_HALTSUM2 :: int where [simp]: "ADDR_HALTSUM2 = 0x34"
definition ADDR_HALTSUM3 :: int where [simp]: "ADDR_HALTSUM3 = 0x35"
definition ADDR_HAWINDOW :: int where [simp]: "ADDR_HAWINDOW = 0x15"
definition ADDR_AUTHDATA :: int where [simp]: "ADDR_AUTHDATA = 0x30"
definition ADDR_DMCS2 :: int where [simp]: "ADDR_DMCS2 = 0x32"
definition ADDR_SBADDRESS1 :: int where [simp]: "ADDR_SBADDRESS1 = 0x3A"
definition ADDR_SBADDRESS2 :: int where [simp]: "ADDR_SBADDRESS2 = 0x3B"
definition ADDR_SBADDRESS3 :: int where [simp]: "ADDR_SBADDRESS3 = 0x37"
definition ADDR_SBDATA1 :: int where [simp]: "ADDR_SBDATA1 = 0x3D"
definition ADDR_SBDATA2 :: int where [simp]: "ADDR_SBDATA2 = 0x3E"
definition ADDR_SBDATA3 :: int where [simp]: "ADDR_SBDATA3 = 0x3F"

definition GPR_X0_REGNO :: int where [simp]: "GPR_X0_REGNO = 0x1000"
definition DCSR_REGNO :: int where [simp]: "DCSR_REGNO = 0x07B0"
definition DCSR_STEP_BIT :: nat where [simp]: "DCSR_STEP_BIT = 2"
definition MASK32 :: int where [simp]: "MASK32 = 0xFFFFFFFF"

definition reads_back_as_written :: "int \<Rightarrow> bool" where
  "reads_back_as_written regno \<longleftrightarrow> \<not> (0x07A0 \<le> regno \<and> regno \<le> 0x07AF)"

subsection \<open>State\<close>

record DeclaredConfig =
  cfg_sba_enable :: bool
  cfg_abstractauto_enable :: bool
  cfg_hartarray_enable :: bool
  cfg_authentication_enable :: bool
  cfg_haltgroups_enable :: bool
  cfg_progbuf_readable :: bool
  cfg_haltsum_groups_present :: bool
  cfg_num_harts :: int
  cfg_version :: int
  cfg_authenticated :: bool
  cfg_impebreak :: bool
  cfg_hasresethaltreq :: bool
  cfg_stickyunavail :: bool
  cfg_havereset_poweron :: bool
  cfg_supports_hartreset :: bool
  cfg_supports_hasel :: bool
  cfg_resumeack_reset :: bool
  cfg_progbufsize :: int
  cfg_datacount :: int
  cfg_relaxedpriv_reset :: bool
  cfg_nscratch :: int
  cfg_dataaccess :: bool
  cfg_datasize :: int
  cfg_dataaddr :: int
  cfg_sbversion :: int
  cfg_sbasize :: int
  cfg_sbaccess_reset :: int
  cfg_sbaccess_writable :: bool
  cfg_sbaccess128 :: bool
  cfg_sbaccess64 :: bool
  cfg_sbaccess32 :: bool
  cfg_sbaccess16 :: bool
  cfg_sbaccess8 :: bool
  cfg_nextdm :: int

definition DeclaredConfig_default :: DeclaredConfig where
  "DeclaredConfig_default = \<lparr>
     cfg_sba_enable = False, cfg_abstractauto_enable = False, cfg_hartarray_enable = False,
     cfg_authentication_enable = False, cfg_haltgroups_enable = False,
     cfg_progbuf_readable = False, cfg_haltsum_groups_present = False,
     cfg_num_harts = 1, cfg_version = DMSTATUS_VERSION_0_13, cfg_authenticated = False,
     cfg_impebreak = False, cfg_hasresethaltreq = False, cfg_stickyunavail = False,
     cfg_havereset_poweron = False, cfg_supports_hartreset = False, cfg_supports_hasel = False,
     cfg_resumeack_reset = False, cfg_progbufsize = 0, cfg_datacount = 0,
     cfg_relaxedpriv_reset = False, cfg_nscratch = 0, cfg_dataaccess = False, cfg_datasize = 0,
     cfg_dataaddr = 0, cfg_sbversion = 0, cfg_sbasize = 0, cfg_sbaccess_reset = 0,
     cfg_sbaccess_writable = False, cfg_sbaccess128 = False, cfg_sbaccess64 = False,
     cfg_sbaccess32 = False, cfg_sbaccess16 = False, cfg_sbaccess8 = False, cfg_nextdm = 0\<rparr>"

record HartState =
  halt_request :: bool
  resume_ack :: bool
  reset_haltreq :: bool
  hart_reset :: bool
  halted :: bool
  running :: bool
  havereset :: bool
  available :: bool
  unavail_sticky :: bool
  nonexistent :: bool

definition HartState_default :: HartState where
  "HartState_default = \<lparr>halt_request = False, resume_ack = False, reset_haltreq = False,
     hart_reset = False, halted = False, running = True, havereset = False,
     available = True, unavail_sticky = False, nonexistent = False\<rparr>"

definition unavail :: "HartState \<Rightarrow> bool" where
  "unavail h \<longleftrightarrow> \<not> available h \<or> unavail_sticky h"

record DMPredictor =
  num_harts :: int
  version :: int
  authenticated :: bool
  impebreak :: bool
  hasresethaltreq :: bool
  supports_hartreset :: bool
  supports_hasel :: bool
  resumeack_reset :: bool
  stickyunavail :: bool
  havereset_poweron :: bool
  harts :: "HartState list"
  cfg :: DeclaredConfig
  cfg_valid :: bool
  abstractauto :: int
  hawindowsel :: int
  authdata :: int
  sbreadonaddr :: bool
  sbaccess :: int
  sbautoincrement :: bool
  sbreadondata :: bool
  relaxedpriv :: bool
  shadow_regs :: "int \<rightharpoonup> int"
  staged_data0 :: int
  data0_pending_valid :: bool
  data0_pending_value :: int
  shadow_mem :: "int \<rightharpoonup> int"
  sbaddress0 :: int
  sbcs_read_on_addr_armed :: bool
  sbdata0_pending_valid :: bool
  sbdata0_pending_value :: int
  data_q :: "int list"
  data_known :: "bool list"
  staged_data1 :: int
  shadow_hi :: "int \<rightharpoonup> int"
  progbuf_q :: "int list"
  last_command :: int
  sbaddress1 :: int
  sbdata1 :: int
  sbdata1_known :: bool
  hawindow :: "int \<rightharpoonup> int"
  observed_cmdbusy :: bool
  dmactive :: bool
  ndmreset :: bool
  hartsel :: int
  hasel :: bool
  hartreset_level :: bool

text \<open>\<^verbatim>\<open>d.get(k, default)\<close> on a dictionary.\<close>

definition dict_get :: "('k \<rightharpoonup> 'v) \<Rightarrow> 'k \<Rightarrow> 'v \<Rightarrow> 'v" where
  "dict_get m k dflt = (case m k of Some v \<Rightarrow> v | None \<Rightarrow> dflt)"

subsection \<open>Reset and construction\<close>

definition reset_declared_regs :: "DMPredictor \<Rightarrow> DMPredictor" where
  "reset_declared_regs p = p\<lparr>
     abstractauto := 0,
     hawindowsel := 0,
     authdata := 0,
     sbreadonaddr := False,
     sbaccess := cfg_sbaccess_reset (cfg p),
     sbautoincrement := False,
     sbreadondata := False,
     relaxedpriv := cfg_relaxedpriv_reset (cfg p),
     staged_data0 := 0,
     staged_data1 := 0,
     data0_pending_valid := True,
     data0_pending_value := 0,
     data_q := replicate 12 0,
     data_known := replicate 12 True,
     progbuf_q := replicate 16 0,
     last_command := 0,
     sbaddress0 := 0,
     sbaddress1 := 0,
     sbdata0_pending_valid := True,
     sbdata0_pending_value := 0,
     sbdata1 := 0,
     sbdata1_known := True,
     hawindow := Map.empty\<rparr>"

definition reset_hart :: "DMPredictor \<Rightarrow> bool \<Rightarrow> HartState list \<Rightarrow> nat \<Rightarrow> HartState" where
  "reset_hart p power_on prev i =
     (let h = HartState_default\<lparr>halt_request := False, resume_ack := resumeack_reset p,
                reset_haltreq := False, hart_reset := False\<rparr>
      in if power_on
         then h\<lparr>halted := False, running := True, havereset := havereset_poweron p\<rparr>
         else h\<lparr>halted := (if i < length prev then halted (prev ! i) else False),
                running := (if i < length prev then running (prev ! i) else True),
                havereset := (if i < length prev then havereset (prev ! i) else False)\<rparr>)"

definition reset_dm :: "bool \<Rightarrow> DMPredictor \<Rightarrow> DMPredictor" where
  "reset_dm power_on p =
     (let prev = harts p;
          p1 = reset_declared_regs p;
          p2 = p1\<lparr>dmactive := False, ndmreset := False, hartsel := 0, hasel := False,
                  hartreset_level := False\<rparr>
      in p2\<lparr>harts := map (reset_hart p2 power_on prev) [0..<nat (max (num_harts p2) 1)]\<rparr>)"

definition DMPredictor_init ::
  "int \<Rightarrow> int \<Rightarrow> bool \<Rightarrow> bool \<Rightarrow> bool \<Rightarrow> bool \<Rightarrow> bool \<Rightarrow> bool \<Rightarrow> bool \<Rightarrow> bool \<Rightarrow> DMPredictor" where
  "DMPredictor_init n v auth impeb hasrhr suphr suphasel rackrst sticky hrpo =
     reset_dm True \<lparr>
       num_harts = n, version = v, authenticated = auth, impebreak = impeb,
       hasresethaltreq = hasrhr, supports_hartreset = suphr, supports_hasel = suphasel,
       resumeack_reset = rackrst, stickyunavail = sticky, havereset_poweron = hrpo,
       harts = [], cfg = DeclaredConfig_default, cfg_valid = False,
       abstractauto = 0, hawindowsel = 0, authdata = 0, sbreadonaddr = False, sbaccess = 0,
       sbautoincrement = False, sbreadondata = False, relaxedpriv = False,
       shadow_regs = Map.empty, staged_data0 = 0, data0_pending_valid = False,
       data0_pending_value = 0, shadow_mem = Map.empty, sbaddress0 = 0,
       sbcs_read_on_addr_armed = False, sbdata0_pending_valid = False,
       sbdata0_pending_value = 0, data_q = replicate 12 0, data_known = replicate 12 True,
       staged_data1 = 0, shadow_hi = Map.empty, progbuf_q = replicate 16 0, last_command = 0,
       sbaddress1 = 0, sbdata1 = 0, sbdata1_known = True, hawindow = Map.empty,
       observed_cmdbusy = False, dmactive = False, ndmreset = False, hartsel = 0,
       hasel = False, hartreset_level = False\<rparr>"

text \<open>\<^verbatim>\<open>DMPredictor()\<close> with every argument at its default.\<close>

definition DMPredictor_default :: DMPredictor where
  "DMPredictor_default =
     DMPredictor_init 1 DMSTATUS_VERSION_0_13 True False True True False False False False"

definition set_config :: "DMPredictor \<Rightarrow> DeclaredConfig \<Rightarrow> DMPredictor" where
  "set_config p c = reset_dm True (p\<lparr>
     cfg := c, cfg_valid := True,
     num_harts := cfg_num_harts c,
     version := cfg_version c,
     authenticated := cfg_authenticated c,
     impebreak := cfg_impebreak c,
     hasresethaltreq := cfg_hasresethaltreq c,
     supports_hartreset := cfg_supports_hartreset c,
     supports_hasel := cfg_supports_hasel c,
     resumeack_reset := cfg_resumeack_reset c,
     stickyunavail := cfg_stickyunavail c,
     havereset_poweron := cfg_havereset_poweron c\<rparr>)"

subsection \<open>Hart selection\<close>

definition selected_indices :: "DMPredictor \<Rightarrow> int list" where
  "selected_indices p = [hartsel p]"

text \<open>\<^verbatim>\<open>_selected()\<close>: the positions in \<open>harts\<close> of the selected harts that exist there.\<close>

definition selected :: "DMPredictor \<Rightarrow> nat list" where
  "selected p =
     map nat (filter (\<lambda>i. 0 \<le> i \<and> i < int (length (harts p))) (selected_indices p))"

definition is_nonexistent :: "DMPredictor \<Rightarrow> int \<Rightarrow> bool" where
  "is_nonexistent p index \<longleftrightarrow> index \<ge> num_harts p"

definition for_selected :: "(HartState \<Rightarrow> HartState) \<Rightarrow> DMPredictor \<Rightarrow> DMPredictor" where
  "for_selected f p = p\<lparr>harts := update_at (selected p) f (harts p)\<rparr>"

definition set_observed_cmdbusy :: "bool \<Rightarrow> DMPredictor \<Rightarrow> DMPredictor" where
  "set_observed_cmdbusy busy p = p\<lparr>observed_cmdbusy := busy\<rparr>"

definition is_data :: "int \<Rightarrow> bool" where
  "is_data addr \<longleftrightarrow> ADDR_DATA0 \<le> addr \<and> addr \<le> ADDR_DATA11"

definition is_progbuf :: "int \<Rightarrow> bool" where
  "is_progbuf addr \<longleftrightarrow> ADDR_PROGBUF0 \<le> addr \<and> addr \<le> ADDR_PROGBUF15"

definition guarded_while_busy :: "int \<Rightarrow> bool" where
  "guarded_while_busy addr \<longleftrightarrow>
     addr \<in> {ADDR_COMMAND, ADDR_ABSTRACTCS, ADDR_ABSTRACTAUTO}
     \<or> (ADDR_DATA0 \<le> addr \<and> addr \<le> ADDR_DATA11)
     \<or> (ADDR_PROGBUF0 \<le> addr \<and> addr \<le> ADDR_PROGBUF15)"

subsection \<open>Abstract commands\<close>

definition autoexec_armed :: "DMPredictor \<Rightarrow> int \<Rightarrow> bool" where
  "autoexec_armed p addr =
     (if \<not> cfg_abstractauto_enable (cfg p) \<or> observed_cmdbusy p then False
      else if is_data addr
      then truth (drop_bit (nat (addr - ADDR_DATA0)) (abstractauto p) AND 1)
      else truth (drop_bit (nat (16 + addr - ADDR_PROGBUF0)) (abstractauto p) AND 1))"

text \<open>
  \<^verbatim>\<open>_execute_command\<close>, in the source's order: the high word of a 64-bit transfer, then the
  low word, then the program buffer. The body is cut at the source's own block boundaries.
\<close>

definition execute_hi :: "bool \<Rightarrow> int \<Rightarrow> int \<Rightarrow> DMPredictor \<Rightarrow> DMPredictor" where
  "execute_hi wr regno aarsize p =
     (if aarsize = 3 then
        (if wr then p\<lparr>shadow_hi := (shadow_hi p)(regno \<mapsto> staged_data1 p)\<rparr>
         else if regno = GPR_X0_REGNO
         then p\<lparr>data_q := (data_q p)[1 := 0], data_known := (data_known p)[1 := True]\<rparr>
         else case shadow_hi p regno of
                Some v \<Rightarrow>
                  (if reads_back_as_written regno
                   then p\<lparr>data_q := (data_q p)[1 := v], data_known := (data_known p)[1 := True]\<rparr>
                   else p\<lparr>data_known := (data_known p)[1 := False]\<rparr>)
              | None \<Rightarrow> p\<lparr>data_known := (data_known p)[1 := False]\<rparr>)
      else if wr then p\<lparr>shadow_hi := (shadow_hi p)(regno := None)\<rparr>
      else p)"

definition execute_lo :: "bool \<Rightarrow> int \<Rightarrow> DMPredictor \<Rightarrow> DMPredictor" where
  "execute_lo wr regno p =
     (if wr then p\<lparr>shadow_regs := (shadow_regs p)(regno \<mapsto> staged_data0 p)\<rparr>
      else if regno = GPR_X0_REGNO
      then p\<lparr>data0_pending_valid := True, data0_pending_value := 0\<rparr>
      else case shadow_regs p regno of
             Some v \<Rightarrow>
               (if reads_back_as_written regno
                then p\<lparr>data0_pending_valid := True, data0_pending_value := v\<rparr>
                else p\<lparr>data0_pending_valid := False\<rparr>)
           | None \<Rightarrow> p\<lparr>data0_pending_valid := False\<rparr>)"

definition execute_command :: "int \<Rightarrow> DMPredictor \<Rightarrow> DMPredictor" where
  "execute_command value p =
     (let postexec = drop_bit 18 value AND 1;
          transfer = drop_bit 17 value AND 1;
          wr = truth (drop_bit 16 value AND 1);
          regno = value AND 0xFFFF;
          aarsize = drop_bit 20 value AND 0x7
      in if truth (drop_bit 24 value AND 0xFF) \<or> aarsize > 3 then p
         else let p1 = (if truth transfer
                        then execute_lo wr regno (execute_hi wr regno aarsize p) else p)
              in if truth postexec
                 then p1\<lparr>shadow_regs := Map.empty, shadow_hi := Map.empty\<rparr>
                 else p1)"

definition write_command :: "int \<Rightarrow> DMPredictor \<Rightarrow> DMPredictor" where
  "write_command value p = execute_command value (p\<lparr>last_command := value\<rparr>)"

definition autoexec :: "int \<Rightarrow> DMPredictor \<Rightarrow> DMPredictor" where
  "autoexec addr p = (if autoexec_armed p addr then execute_command (last_command p) p else p)"

definition write_buffer :: "int \<Rightarrow> int \<Rightarrow> DMPredictor \<Rightarrow> DMPredictor" where
  "write_buffer addr value p =
     (if is_data addr then
        (let i = addr - ADDR_DATA0 in
         if i \<ge> cfg_datacount (cfg p) then p
         else autoexec addr
           (if i = 0
            then p\<lparr>staged_data0 := value, data0_pending_valid := True,
                   data0_pending_value := value\<rparr>
            else (let p1 = p\<lparr>data_q := (data_q p)[nat i := value],
                             data_known := (data_known p)[nat i := True]\<rparr>
                  in if i = 1 then p1\<lparr>staged_data1 := value\<rparr> else p1)))
      else
        (let i = addr - ADDR_PROGBUF0 in
         if i \<ge> cfg_progbufsize (cfg p) then p
         else autoexec addr (p\<lparr>progbuf_q := (progbuf_q p)[nat i := value]\<rparr>)))"

definition hawindow_implemented :: "DMPredictor \<Rightarrow> int \<Rightarrow> int" where
  "hawindow_implemented p sel =
     fold (\<lambda>h m. m OR push_bit (nat (h - 32 * sel)) 1)
          [32 * sel .. min (num_harts p) (32 * (sel + 1)) - 1] 0"

subsection \<open>System bus access\<close>

definition write_sbcs :: "int \<Rightarrow> DMPredictor \<Rightarrow> DMPredictor" where
  "write_sbcs value p =
     (let p1 = p\<lparr>sbcs_read_on_addr_armed := truth (drop_bit 20 value AND 1),
                 sbreadonaddr := truth (drop_bit 20 value AND 1)\<rparr>;
          p2 = (if cfg_sbaccess_writable (cfg p1)
                then p1\<lparr>sbaccess := drop_bit 17 value AND 0x7\<rparr> else p1)
      in p2\<lparr>sbautoincrement := truth (drop_bit 16 value AND 1),
            sbreadondata := truth (drop_bit 15 value AND 1)\<rparr>)"

definition sba_autoincrement :: "DMPredictor \<Rightarrow> DMPredictor" where
  "sba_autoincrement p =
     (if \<not> sbautoincrement p then p
      else let a = (push_bit 32 (sbaddress1 p) OR sbaddress0 p) + push_bit (nat (sbaccess p)) 1;
               p1 = p\<lparr>sbaddress0 := a AND MASK32\<rparr>
           in if cfg_sbasize (cfg p1) > 32
              then p1\<lparr>sbaddress1 := drop_bit 32 a AND MASK32\<rparr> else p1)"

definition sba_arm_read :: "int \<Rightarrow> DMPredictor \<Rightarrow> DMPredictor" where
  "sba_arm_read address p =
     (let p1 = p\<lparr>sbdata1_known := False\<rparr>
      in case shadow_mem p1 address of
           Some v \<Rightarrow> p1\<lparr>sbdata0_pending_valid := True, sbdata0_pending_value := v\<rparr>
         | None \<Rightarrow> p1\<lparr>sbdata0_pending_valid := False\<rparr>)"

definition write_sbaddress0 :: "int \<Rightarrow> DMPredictor \<Rightarrow> DMPredictor" where
  "write_sbaddress0 value p =
     (let p1 = p\<lparr>sbaddress0 := value\<rparr>
      in if sbcs_read_on_addr_armed p1 then sba_autoincrement (sba_arm_read value p1) else p1)"

definition write_sbdata0 :: "int \<Rightarrow> DMPredictor \<Rightarrow> DMPredictor" where
  "write_sbdata0 value p =
     sba_autoincrement (p\<lparr>shadow_mem := (shadow_mem p)(sbaddress0 p \<mapsto> value)\<rparr>)"

definition sbdata0_read_effects :: "DMPredictor \<Rightarrow> DMPredictor" where
  "sbdata0_read_effects p =
     (if sbreadondata p then sba_autoincrement (sba_arm_read (sbaddress0 p) p) else p)"

definition observe_sbdata0_read :: "DMPredictor \<Rightarrow> DMPredictor" where
  "observe_sbdata0_read p = sbdata0_read_effects p"

definition observe_read :: "int \<Rightarrow> DMPredictor \<Rightarrow> DMPredictor" where
  "observe_read addr p =
     (let p1 = (if addr = ADDR_SBDATA0 then sbdata0_read_effects p else p)
      in if (is_data addr \<and> addr - ADDR_DATA0 < cfg_datacount (cfg p1))
          \<or> (is_progbuf addr \<and> addr - ADDR_PROGBUF0 < cfg_progbufsize (cfg p1))
         then autoexec addr p1 else p1)"

subsection \<open>Run control: \<^verbatim>\<open>dmcontrol\<close>\<close>

definition release_from_reset :: "HartState \<Rightarrow> HartState" where
  "release_from_reset h =
     (if nonexistent h then h
      else let h1 = h\<lparr>havereset := True\<rparr>
           in if reset_haltreq h1 \<or> halt_request h1
              then h1\<lparr>halted := True, running := False\<rparr>
              else h1\<lparr>halted := False, running := True\<rparr>)"

definition apply_ndmreset :: "bool \<Rightarrow> DMPredictor \<Rightarrow> DMPredictor" where
  "apply_ndmreset asserted p =
     (if asserted \<and> \<not> ndmreset p then
        p\<lparr>ndmreset := True,
          harts := map (\<lambda>h. h\<lparr>halted := False,
                               running := \<not> (unavail_sticky h \<or> \<not> available h),
                               havereset := True,
                               resume_ack := resumeack_reset p\<rparr>) (harts p)\<rparr>
      else if \<not> asserted \<and> ndmreset p then
        p\<lparr>ndmreset := False, harts := map release_from_reset (harts p)\<rparr>
      else p)"

definition apply_hartreset :: "bool \<Rightarrow> DMPredictor \<Rightarrow> DMPredictor" where
  "apply_hartreset asserted p =
     (if asserted \<and> \<not> hartreset_level p then
        for_selected (\<lambda>h. h\<lparr>hart_reset := True, halted := False, running := False,
                            resume_ack := resumeack_reset p\<rparr>)
          (p\<lparr>hartreset_level := True\<rparr>)
      else if \<not> asserted \<and> hartreset_level p then
        for_selected (\<lambda>h. release_from_reset (h\<lparr>hart_reset := False\<rparr>))
          (p\<lparr>hartreset_level := False\<rparr>)
      else p)"

definition settle_reset_state :: "DMPredictor \<Rightarrow> DMPredictor" where
  "settle_reset_state p =
     p\<lparr>harts := map (\<lambda>h. if ndmreset p \<or> (hart_reset h \<and> \<not> nonexistent h)
                          then h\<lparr>halted := False,
                                 running := \<not> (unavail_sticky h \<or> \<not> available h)\<rparr>
                          else h) (harts p)\<rparr>"

definition step_armed :: "DMPredictor \<Rightarrow> bool" where
  "step_armed p = truth (drop_bit DCSR_STEP_BIT (dict_get (shadow_regs p) DCSR_REGNO 0) AND 1)"

definition resume_hart :: "nat \<Rightarrow> DMPredictor \<Rightarrow> DMPredictor" where
  "resume_hart i p =
     (let h = harts p ! i in
      if nonexistent h \<or> unavail h then p
      else let h1 = h\<lparr>resume_ack := False\<rparr> in
           if halted h1
           then let step = step_armed p
                in p\<lparr>harts := (harts p)[i := h1\<lparr>halted := step, running := \<not> step,
                                              resume_ack := True\<rparr>],
                     shadow_regs := Map.empty, shadow_hi := Map.empty\<rparr>
           else p\<lparr>harts := (harts p)[i := h1]\<rparr>)"

definition apply_resumereq :: "DMPredictor \<Rightarrow> DMPredictor" where
  "apply_resumereq p = fold resume_hart (selected p) p"

definition halt_hart :: "HartState \<Rightarrow> HartState" where
  "halt_hart h =
     (if nonexistent h \<or> unavail h then h
      else if running h \<and> \<not> halted h then h\<lparr>halted := True, running := False\<rparr> else h)"

definition mark_nonexistent :: "DMPredictor \<Rightarrow> DMPredictor" where
  "mark_nonexistent p =
     p\<lparr>harts := map (\<lambda>(i, h). h\<lparr>nonexistent := is_nonexistent p (int i)\<rparr>)
                 (enumerate 0 (harts p))\<rparr>"

text \<open>
  The request bits of one write, in the source's order: halt-on-reset, the two acknowledges,
  the halt request bit.
\<close>

definition apply_requests :: "(string \<times> int) list \<Rightarrow> DMPredictor \<Rightarrow> DMPredictor" where
  "apply_requests f p5 =
     (let p6 = (if hasresethaltreq p5 then
                  let q = (if truth (item f ''setresethaltreq'')
                              \<and> \<not> truth (item f ''clrresethaltreq'')
                           then for_selected (\<lambda>h. h\<lparr>reset_haltreq := True\<rparr>) p5 else p5)
                  in if truth (item f ''clrresethaltreq'')
                     then for_selected (\<lambda>h. h\<lparr>reset_haltreq := False\<rparr>) q else q
                else p5);
          p7 = (if truth (item f ''ackhavereset'')
                then for_selected (\<lambda>h. h\<lparr>havereset := False\<rparr>) p6 else p6);
          p8 = (if truth (item f ''ackunavail'')
                then for_selected (\<lambda>h. if available h then h\<lparr>unavail_sticky := False\<rparr> else h) p7
                else p7);
          haltreq = truth (item f ''haltreq'')
      in for_selected (\<lambda>h. h\<lparr>halt_request := haltreq\<rparr>) p8)"

definition write_dmcontrol :: "int \<Rightarrow> DMPredictor \<Rightarrow> DMPredictor" where
  "write_dmcontrol value p =
     (let f = decode DMCONTROL value in
      if \<not> truth (item f ''dmactive'') then reset_dm False p
      else
        let p1 = p\<lparr>dmactive := True\<rparr>;
            p2 = p1\<lparr>hartsel := hartsel_of value,
                    hasel := (if supports_hasel p1 then truth (item f ''hasel'') else False)\<rparr>;
            p3 = mark_nonexistent p2;
            p4 = apply_ndmreset (truth (item f ''ndmreset'')) p3;
            p5 = apply_hartreset (truth (item f ''hartreset'') \<and> supports_hartreset p4) p4;
            p9 = apply_requests f p5;
            haltreq = truth (item f ''haltreq'');
            p10 = (if haltreq then for_selected halt_hart p9 else p9);
            p11 = (if truth (item f ''resumereq'') \<and> \<not> haltreq then apply_resumereq p10 else p10)
        in settle_reset_state p11)"

subsection \<open>The DMI write dispatcher\<close>

definition on_write :: "int \<Rightarrow> int \<Rightarrow> DMPredictor \<Rightarrow> DMPredictor" where
  "on_write addr value0 p =
     (let value = value0 AND MASK32 in
      if observed_cmdbusy p \<and> guarded_while_busy addr then p
      else if is_data addr \<or> is_progbuf addr then write_buffer addr value p
      else if addr = ADDR_DMCONTROL then write_dmcontrol value p
      else if addr = ADDR_SBADDRESS1 then p\<lparr>sbaddress1 := value\<rparr>
      else if addr = ADDR_SBDATA1 then p\<lparr>sbdata1 := value, sbdata1_known := True\<rparr>
      else if addr = ADDR_HAWINDOW then
        (if cfg_hartarray_enable (cfg p)
         then p\<lparr>hawindow := (hawindow p)
                  (hawindowsel p \<mapsto> value AND hawindow_implemented p (hawindowsel p))\<rparr>
         else p)
      else if addr = ADDR_COMMAND then write_command value p
      else if addr = ADDR_SBCS then write_sbcs value p
      else if addr = ADDR_SBADDRESS0 then write_sbaddress0 value p
      else if addr = ADDR_SBDATA0 then write_sbdata0 value p
      else if addr = ADDR_ABSTRACTAUTO then p\<lparr>abstractauto := value\<rparr>
      else if addr = ADDR_HAWINDOWSEL then p\<lparr>hawindowsel := value AND 0x7FFF\<rparr>
      else if addr = ADDR_ABSTRACTCS then
        (if version p \<ge> DMSTATUS_VERSION_1_0
         then p\<lparr>relaxedpriv := truth (drop_bit 11 value AND 1)\<rparr> else p)
      else p)"

subsection \<open>Read prediction\<close>

definition sba_wider_than_32 :: "DMPredictor \<Rightarrow> bool" where
  "sba_wider_than_32 p \<longleftrightarrow>
     cfg_sba_enable (cfg p) \<and> (cfg_sbaccess64 (cfg p) \<or> cfg_sbaccess128 (cfg p))"

definition has_model :: "DMPredictor \<Rightarrow> int \<Rightarrow> bool" where
  "has_model p addr =
     (let c = cfg p in
      if addr \<in> {ADDR_DMCONTROL, ADDR_DMSTATUS} then True
      else if \<not> cfg_valid p then False
      else if \<not> dmactive p then False
      else if addr = ADDR_DATA0 then data0_pending_valid p
      else if is_data addr \<and> addr - ADDR_DATA0 < cfg_datacount c
      then data_known p ! nat (addr - ADDR_DATA0)
      else if addr = ADDR_SBDATA0 then \<not> cfg_sba_enable c \<or> sbdata0_pending_valid p
      else if addr = ADDR_SBDATA1 then \<not> sba_wider_than_32 p \<or> sbdata1_known p
      else if addr \<in> {ADDR_SBDATA2, ADDR_SBDATA3} then \<not> (cfg_sba_enable c \<and> cfg_sbaccess128 c)
      else if addr = ADDR_SBADDRESS2 then \<not> (cfg_sba_enable c \<and> cfg_sbasize c > 64)
      else if addr = ADDR_SBADDRESS3 then \<not> (cfg_sba_enable c \<and> cfg_sbasize c > 96)
      else if addr = ADDR_AUTHDATA then \<not> cfg_authentication_enable c
      else if addr = ADDR_DMCS2 then \<not> cfg_haltgroups_enable c
      else True)"

definition expect_haltsum :: "nat \<Rightarrow> DMPredictor \<Rightarrow> int" where
  "expect_haltsum n p =
     (if \<not> cfg_haltsum_groups_present (cfg p) then 0
      else let lo = 5 * n in
        fold (\<lambda>h word.
               if \<not> halted (harts p ! h) then word
               else if n < 3 \<and> drop_bit (lo + 5) (int h) \<noteq> drop_bit (lo + 5) (hartsel p) then word
               else word OR push_bit (nat (drop_bit lo (int h) AND 31)) 1)
             [0..<nat (min (num_harts p) (int (length (harts p))))] 0)"

definition expect_haltsum0 :: "DMPredictor \<Rightarrow> int" where
  "expect_haltsum0 p =
     fold (\<lambda>i word. if halted (harts p ! i) then word OR push_bit i 1 else word)
          [0..<nat (min (min (num_harts p) 32) (int (length (harts p))))] 0"

definition all_of :: "(HartState \<Rightarrow> bool) \<Rightarrow> HartState list \<Rightarrow> int" where
  "all_of pred sel = int_of_bool (sel \<noteq> [] \<and> list_all pred sel)"

definition any_of :: "(HartState \<Rightarrow> bool) \<Rightarrow> HartState list \<Rightarrow> int" where
  "any_of pred sel = int_of_bool (list_ex pred sel)"

definition dmstatus_fields :: "DMPredictor \<Rightarrow> (string \<times> int) list" where
  "dmstatus_fields p =
     (let sel = map ((!) (harts p)) (selected p);
          nonex = map (is_nonexistent p) (selected_indices p)
      in [(''ndmresetpending'',
             if version p \<ge> DMSTATUS_VERSION_1_0 then int_of_bool (ndmreset p) else 0),
          (''stickyunavail'', int_of_bool (stickyunavail p)),
          (''impebreak'', int_of_bool (impebreak p)),
          (''allhavereset'', all_of havereset sel),
          (''anyhavereset'', any_of havereset sel),
          (''allresumeack'', all_of resume_ack sel),
          (''anyresumeack'', any_of resume_ack sel),
          (''allnonexistent'', int_of_bool (nonex \<noteq> [] \<and> list_all id nonex)),
          (''anynonexistent'', int_of_bool (list_ex id nonex)),
          (''allunavail'', all_of unavail sel),
          (''anyunavail'', any_of unavail sel),
          (''allrunning'', all_of running sel),
          (''anyrunning'', any_of running sel),
          (''allhalted'', all_of halted sel),
          (''anyhalted'', any_of halted sel),
          (''authenticated'', int_of_bool (authenticated p)),
          (''authbusy'', 0),
          (''hasresethaltreq'', int_of_bool (hasresethaltreq p)),
          (''confstrptrvalid'', 0),
          (''version'', version p)])"

definition expect_dmstatus :: "DMPredictor \<Rightarrow> int" where
  "expect_dmstatus p = encoded DMSTATUS (dmstatus_fields p)"

definition dmcontrol_fields :: "DMPredictor \<Rightarrow> (string \<times> int) list" where
  "dmcontrol_fields p =
     [(''dmactive'', int_of_bool (dmactive p)),
      (''ndmreset'', int_of_bool (ndmreset p)),
      (''hasel'', int_of_bool (hasel p)),
      (''hartreset'', int_of_bool (hartreset_level p \<and> supports_hartreset p))]"

definition expect_dmcontrol :: "DMPredictor \<Rightarrow> int" where
  "expect_dmcontrol p = with_hartsel (encoded DMCONTROL (dmcontrol_fields p)) (hartsel p)"

definition expect_hartinfo :: "DeclaredConfig \<Rightarrow> int" where
  "expect_hartinfo c =
     push_bit 20 (cfg_nscratch c AND 0xF) OR push_bit 16 (int_of_bool (cfg_dataaccess c))
     OR push_bit 12 (cfg_datasize c AND 0xF) OR (cfg_dataaddr c AND 0xFFF)"

definition expect_abstractcs :: "DMPredictor \<Rightarrow> int" where
  "expect_abstractcs p =
     push_bit 24 (cfg_progbufsize (cfg p) AND 0x1F) OR push_bit 11 (int_of_bool (relaxedpriv p))
     OR (cfg_datacount (cfg p) AND 0xF)"

definition expect_abstractauto :: "DMPredictor \<Rightarrow> int" where
  "expect_abstractauto p =
     (if \<not> cfg_abstractauto_enable (cfg p) then 0
      else let progbuf = drop_bit 16 (abstractauto p)
                           AND (push_bit (nat (cfg_progbufsize (cfg p))) 1 - 1);
               data = (abstractauto p AND 0xFFF)
                        AND (push_bit (nat (cfg_datacount (cfg p))) 1 - 1)
           in (push_bit 16 progbuf OR data) AND MASK32)"

definition expect_sbcs :: "DMPredictor \<Rightarrow> int" where
  "expect_sbcs p =
     (let c = cfg p in
      if \<not> cfg_sba_enable c then 0
      else push_bit 29 (cfg_sbversion c AND 0x7) OR push_bit 20 (int_of_bool (sbreadonaddr p))
        OR push_bit 17 (sbaccess p AND 0x7) OR push_bit 16 (int_of_bool (sbautoincrement p))
        OR push_bit 15 (int_of_bool (sbreadondata p)) OR push_bit 5 (cfg_sbasize c AND 0x7F)
        OR push_bit 4 (int_of_bool (cfg_sbaccess128 c)) OR push_bit 3 (int_of_bool (cfg_sbaccess64 c))
        OR push_bit 2 (int_of_bool (cfg_sbaccess32 c)) OR push_bit 1 (int_of_bool (cfg_sbaccess16 c))
        OR int_of_bool (cfg_sbaccess8 c))"

definition predict :: "DMPredictor \<Rightarrow> int \<Rightarrow> int" where
  "predict p addr =
     (let c = cfg p in
      if is_data addr then
        (let i = addr - ADDR_DATA0 in
         if i \<ge> cfg_datacount c then 0
         else if i = 0 then data0_pending_value p else data_q p ! nat i)
      else if is_progbuf addr then
        (let i = addr - ADDR_PROGBUF0 in
         if i < cfg_progbufsize c \<and> cfg_progbuf_readable c then progbuf_q p ! nat i else 0)
      else if addr = ADDR_DMCONTROL then expect_dmcontrol p
      else if addr = ADDR_DMSTATUS then expect_dmstatus p
      else if addr = ADDR_HARTINFO then expect_hartinfo c
      else if addr = ADDR_ABSTRACTCS then expect_abstractcs p
      else if addr = ADDR_COMMAND then 0
      else if addr = ADDR_ABSTRACTAUTO then expect_abstractauto p
      else if addr = ADDR_HALTSUM0 then expect_haltsum0 p
      else if addr = ADDR_HALTSUM1 then expect_haltsum 1 p
      else if addr = ADDR_HALTSUM2 then expect_haltsum 2 p
      else if addr = ADDR_HALTSUM3 then expect_haltsum 3 p
      else if addr = ADDR_HAWINDOWSEL then
        (if cfg_hartarray_enable c then hawindowsel p AND 0x7FFF else 0)
      else if addr = ADDR_HAWINDOW then
        (if cfg_hartarray_enable c then dict_get (hawindow p) (hawindowsel p) 0 else 0)
      else if addr = ADDR_NEXTDM then cfg_nextdm c AND MASK32
      else if addr = ADDR_SBCS then expect_sbcs p
      else if addr = ADDR_SBADDRESS0 then (if cfg_sba_enable c then sbaddress0 p else 0)
      else if addr = ADDR_SBADDRESS1 then
        (if cfg_sba_enable c \<and> cfg_sbasize c > 32 then sbaddress1 p else 0)
      else if addr = ADDR_SBDATA0 then
        (if cfg_sba_enable c then sbdata0_pending_value p else 0)
      else if addr = ADDR_SBDATA1 then (if sba_wider_than_32 p then sbdata1 p else 0)
      else 0)"

definition predict_mask :: "int \<Rightarrow> int" where
  "predict_mask addr =
     (if addr = ADDR_ABSTRACTCS then 0xFFFFE8FF
      else if addr = ADDR_SBCS then 0xFF9F8FFF
      else MASK32)"

definition expect :: "DMPredictor \<Rightarrow> int \<Rightarrow> int result" where
  "expect p addr =
     (if \<not> has_model p addr
      then Inl (KeyError ''predictor does not model DMI address'')
      else Inr (predict p addr))"

definition sync_observed_hart_signals :: "int \<Rightarrow> DMPredictor \<Rightarrow> DMPredictor" where
  "sync_observed_hart_signals word p =
     (let sel = hartsel p in
      if 0 \<le> sel \<and> sel < int (length (harts p))
      then p\<lparr>harts := (harts p)[nat sel := (harts p ! nat sel)
               \<lparr>halted := truth (drop_bit 9 word AND 1),
                running := truth (drop_bit 11 word AND 1),
                resume_ack := truth (drop_bit 17 word AND 1)\<rparr>]\<rparr>
      else p)"

subsection \<open>Snapshots\<close>

record HartSnapshot =
  s_halted :: bool
  s_running :: bool
  s_havereset :: bool
  s_resume_ack :: bool
  s_halt_request :: bool
  s_reset_haltreq :: bool
  s_unavail :: bool
  s_nonexistent :: bool

record Snapshot =
  s_dmactive :: bool
  s_ndmreset :: bool
  s_hartsel :: int
  s_hasel :: bool
  s_harts :: "HartSnapshot list"

definition hart_snapshot :: "HartState \<Rightarrow> HartSnapshot" where
  "hart_snapshot h = \<lparr>s_halted = halted h, s_running = running h, s_havereset = havereset h,
     s_resume_ack = resume_ack h, s_halt_request = halt_request h,
     s_reset_haltreq = reset_haltreq h, s_unavail = unavail h, s_nonexistent = nonexistent h\<rparr>"

definition snapshot :: "DMPredictor \<Rightarrow> Snapshot" where
  "snapshot p = \<lparr>s_dmactive = dmactive p, s_ndmreset = ndmreset p, s_hartsel = hartsel p,
     s_hasel = hasel p, s_harts = map hart_snapshot (harts p)\<rparr>"

end
