(* ===== verification/RunControl.thy ===== *)
theory RunControl
  imports Predictor
begin

text \<open>
  Run control seen one hart at a time. \<open>hart_next\<close> is the abstract specification of a
  \<^verbatim>\<open>dmcontrol\<close> write for a single hart: which of the request, reset and acknowledge bits
  reach it and what it does. The predictor's handler, which loops over selections and mutates
  the hart objects in a fixed order, refines it: the harts after the write are the harts before
  it, each moved by \<open>hart_next\<close> (\<open>write_dmcontrol_refines\<close>). The well-formedness and
  run-control invariants of the predictor and their preservation by every operation rest on
  that refinement.
\<close>

unbundle bit_operations_syntax

subsection \<open>Pointwise updates of the harts\<close>

definition map_harts :: "(nat \<Rightarrow> HartState \<Rightarrow> HartState) \<Rightarrow> DMPredictor \<Rightarrow> DMPredictor" where
  "map_harts f p = p\<lparr>harts := map (\<lambda>(i, h). f i h) (enumerate 0 (harts p))\<rparr>"

lemma length_map_harts [simp]: "length (harts (map_harts f p)) = length (harts p)"
  by (simp add: map_harts_def)

lemma nth_map_harts [simp]:
  "i < length (harts p) \<Longrightarrow> harts (map_harts f p) ! i = f i (harts p ! i)"
  by (simp add: map_harts_def nth_enumerate_eq)

lemma map_harts_eqI:
  assumes "length hs = length (harts p)" and "\<And>i. i < length (harts p) \<Longrightarrow> hs ! i = f i (harts p ! i)"
  shows "p\<lparr>harts := hs\<rparr> = map_harts f p"
proof -
  have "hs = map (\<lambda>(i, h). f i h) (enumerate 0 (harts p))"
    using assms by (intro nth_equalityI) (simp_all add: nth_enumerate_eq)
  then show ?thesis by (simp add: map_harts_def)
qed

lemma map_harts_map_harts: "map_harts f (map_harts g p) = map_harts (\<lambda>i h. f i (g i h)) p"
proof -
  have "map_harts f (map_harts g p) = p\<lparr>harts := harts (map_harts f (map_harts g p))\<rparr>"
    by (simp add: map_harts_def)
  also have "\<dots> = map_harts (\<lambda>i h. f i (g i h)) p"
    by (rule map_harts_eqI) simp_all
  finally show ?thesis .
qed

lemma map_harts_cong:
  assumes "\<And>i. i < length (harts p) \<Longrightarrow> f i (harts p ! i) = g i (harts p ! i)"
  shows "map_harts f p = map_harts g p"
proof -
  have "p\<lparr>harts := harts (map_harts f p)\<rparr> = map_harts g p"
    using assms by (intro map_harts_eqI) simp_all
  then show ?thesis by (simp add: map_harts_def)
qed

lemma map_harts_id: "map_harts (\<lambda>i h. h) p = p"
proof -
  have "p\<lparr>harts := harts p\<rparr> = map_harts (\<lambda>i h. h) p"
    by (rule map_harts_eqI) simp_all
  then show ?thesis by simp
qed

text \<open>Every other component is untouched, and updates of other components commute.\<close>

lemma map_harts_sel [simp]:
  "num_harts (map_harts f p) = num_harts p"
  "version (map_harts f p) = version p"
  "hasresethaltreq (map_harts f p) = hasresethaltreq p"
  "supports_hartreset (map_harts f p) = supports_hartreset p"
  "supports_hasel (map_harts f p) = supports_hasel p"
  "resumeack_reset (map_harts f p) = resumeack_reset p"
  "cfg (map_harts f p) = cfg p"
  "cfg_valid (map_harts f p) = cfg_valid p"
  "shadow_regs (map_harts f p) = shadow_regs p"
  "shadow_hi (map_harts f p) = shadow_hi p"
  "dmactive (map_harts f p) = dmactive p"
  "ndmreset (map_harts f p) = ndmreset p"
  "hartsel (map_harts f p) = hartsel p"
  "hasel (map_harts f p) = hasel p"
  "hartreset_level (map_harts f p) = hartreset_level p"
  "observed_cmdbusy (map_harts f p) = observed_cmdbusy p"
  by (simp_all add: map_harts_def)

lemma map_harts_upd [simp]:
  "map_harts f (p\<lparr>dmactive := a\<rparr>) = (map_harts f p)\<lparr>dmactive := a\<rparr>"
  "map_harts f (p\<lparr>ndmreset := a\<rparr>) = (map_harts f p)\<lparr>ndmreset := a\<rparr>"
  "map_harts f (p\<lparr>hartsel := h\<rparr>) = (map_harts f p)\<lparr>hartsel := h\<rparr>"
  "map_harts f (p\<lparr>hasel := a\<rparr>) = (map_harts f p)\<lparr>hasel := a\<rparr>"
  "map_harts f (p\<lparr>hartreset_level := a\<rparr>) = (map_harts f p)\<lparr>hartreset_level := a\<rparr>"
  "map_harts f (p\<lparr>shadow_regs := m\<rparr>) = (map_harts f p)\<lparr>shadow_regs := m\<rparr>"
  "map_harts f (p\<lparr>shadow_hi := m\<rparr>) = (map_harts f p)\<lparr>shadow_hi := m\<rparr>"
  by (simp_all add: map_harts_def)

lemma step_armed_simps [simp]:
  "step_armed (map_harts f p) = step_armed p"
  "step_armed (p\<lparr>dmactive := a\<rparr>) = step_armed p"
  "step_armed (p\<lparr>ndmreset := a\<rparr>) = step_armed p"
  "step_armed (p\<lparr>hartsel := h\<rparr>) = step_armed p"
  "step_armed (p\<lparr>hasel := a\<rparr>) = step_armed p"
  "step_armed (p\<lparr>hartreset_level := a\<rparr>) = step_armed p"
  by (simp_all add: step_armed_def)

lemma is_nonexistent_simps [simp]:
  "is_nonexistent (map_harts f p) = is_nonexistent p"
  "is_nonexistent (p\<lparr>dmactive := a\<rparr>) = is_nonexistent p"
  "is_nonexistent (p\<lparr>hartsel := h\<rparr>) = is_nonexistent p"
  "is_nonexistent (p\<lparr>hasel := a\<rparr>) = is_nonexistent p"
  by (simp_all add: is_nonexistent_def fun_eq_iff)

subsection \<open>Selections\<close>

lemma selected_eq:
  "selected p = (if 0 \<le> hartsel p \<and> hartsel p < int (length (harts p)) then [nat (hartsel p)] else [])"
  by (simp add: selected_def selected_indices_def)

lemma for_selected_eq:
  "for_selected f p = map_harts (\<lambda>i h. if int i = hartsel p then f h else h) p"
  unfolding for_selected_def
  by (rule map_harts_eqI) (auto simp: selected_eq nth_list_update)

subsection \<open>One hart\<close>

definition hart_ndmreset :: "bool \<Rightarrow> bool \<Rightarrow> bool \<Rightarrow> HartState \<Rightarrow> HartState" where
  "hart_ndmreset now was rack h =
     (if now \<and> \<not> was
      then h\<lparr>halted := False, running := \<not> (unavail_sticky h \<or> \<not> available h),
             havereset := True, resume_ack := rack\<rparr>
      else if \<not> now \<and> was then release_from_reset h else h)"

definition hart_hartreset :: "bool \<Rightarrow> bool \<Rightarrow> bool \<Rightarrow> HartState \<Rightarrow> HartState" where
  "hart_hartreset now was rack h =
     (if now \<and> \<not> was
      then h\<lparr>hart_reset := True, halted := False, running := False, resume_ack := rack\<rparr>
      else if \<not> now \<and> was then release_from_reset (h\<lparr>hart_reset := False\<rparr>) else h)"

definition hart_requests :: "DMPredictor \<Rightarrow> int \<Rightarrow> HartState \<Rightarrow> HartState" where
  "hart_requests p v h =
     (let h1 = (if hasresethaltreq p \<and> bit v 2 then h\<lparr>reset_haltreq := False\<rparr>
                else if hasresethaltreq p \<and> bit v 3 then h\<lparr>reset_haltreq := True\<rparr> else h);
          h2 = (if bit v 28 then h1\<lparr>havereset := False\<rparr> else h1);
          h3 = (if bit v 27 \<and> available h2 then h2\<lparr>unavail_sticky := False\<rparr> else h2)
      in h3\<lparr>halt_request := bit v 31\<rparr>)"

definition hart_resume :: "bool \<Rightarrow> HartState \<Rightarrow> HartState" where
  "hart_resume step h =
     (if nonexistent h \<or> unavail h then h
      else if halted h then h\<lparr>halted := step, running := \<not> step, resume_ack := True\<rparr>
      else h\<lparr>resume_ack := False\<rparr>)"

definition hart_run :: "int \<Rightarrow> bool \<Rightarrow> HartState \<Rightarrow> HartState" where
  "hart_run v step h =
     (if bit v 31 then halt_hart h else if bit v 30 then hart_resume step h else h)"

definition hart_settle :: "bool \<Rightarrow> HartState \<Rightarrow> HartState" where
  "hart_settle ndm h =
     (if ndm \<or> (hart_reset h \<and> \<not> nonexistent h)
      then h\<lparr>halted := False, running := \<not> (unavail_sticky h \<or> \<not> available h)\<rparr> else h)"

text \<open>
  The abstract specification: the DM-level reset level reaches every hart, everything else
  only the hart the written \<^verbatim>\<open>hartsel\<close> names. \<open>hart_ready\<close> is the selected hart when its
  run request is looked at.
\<close>

definition hart_base :: "DMPredictor \<Rightarrow> int \<Rightarrow> nat \<Rightarrow> HartState \<Rightarrow> HartState" where
  "hart_base p v i h =
     hart_ndmreset (bit v 1) (ndmreset p) (resumeack_reset p)
       (h\<lparr>nonexistent := is_nonexistent p (int i)\<rparr>)"

definition hart_ready :: "DMPredictor \<Rightarrow> int \<Rightarrow> nat \<Rightarrow> HartState \<Rightarrow> HartState" where
  "hart_ready p v i h =
     hart_requests p v
       (hart_hartreset (bit v 29 \<and> supports_hartreset p) (hartreset_level p) (resumeack_reset p)
          (hart_base p v i h))"

definition hart_next :: "DMPredictor \<Rightarrow> int \<Rightarrow> nat \<Rightarrow> HartState \<Rightarrow> HartState" where
  "hart_next p v i h =
     hart_settle (bit v 1)
       (if int i = hartsel_of v then hart_run v (step_armed p) (hart_ready p v i h)
        else hart_base p v i h)"

text \<open>Whether the write sends a resume request that a halted hart takes.\<close>

definition hart_resumes :: "DMPredictor \<Rightarrow> int \<Rightarrow> bool" where
  "hart_resumes p v \<longleftrightarrow>
     bit v 30 \<and> \<not> bit v 31 \<and> hartsel_of v < int (length (harts p)) \<and>
     (let h = hart_ready p v (nat (hartsel_of v)) (harts p ! nat (hartsel_of v))
      in \<not> nonexistent h \<and> \<not> unavail h \<and> halted h)"

definition dmcontrol_next :: "int \<Rightarrow> DMPredictor \<Rightarrow> DMPredictor" where
  "dmcontrol_next v p = (map_harts (hart_next p v) p)\<lparr>
     dmactive := True,
     ndmreset := bit v 1,
     hartsel := hartsel_of v,
     hasel := (supports_hasel p \<and> bit v 26),
     hartreset_level := (bit v 29 \<and> supports_hartreset p),
     shadow_regs := (if hart_resumes p v then Map.empty else shadow_regs p),
     shadow_hi := (if hart_resumes p v then Map.empty else shadow_hi p)\<rparr>"

subsection \<open>The stages of the handler are pointwise\<close>

lemma mark_nonexistent_eq:
  "mark_nonexistent p = map_harts (\<lambda>i h. h\<lparr>nonexistent := is_nonexistent p (int i)\<rparr>) p"
  by (simp add: mark_nonexistent_def map_harts_def)

lemma map_harts_const: "p\<lparr>harts := map f (harts p)\<rparr> = map_harts (\<lambda>i. f) p"
  by (rule map_harts_eqI) simp_all

lemma apply_ndmreset_eq:
  "apply_ndmreset b p =
     (map_harts (\<lambda>i. hart_ndmreset b (ndmreset p) (resumeack_reset p)) p)\<lparr>ndmreset := b\<rparr>"
proof (cases "b = ndmreset p")
  case True
  then show ?thesis
    by (simp add: apply_ndmreset_def hart_ndmreset_def [abs_def] map_harts_id)
next
  case False
  then show ?thesis
    by (auto simp: apply_ndmreset_def hart_ndmreset_def [abs_def] simp flip: map_harts_const)
qed

lemma apply_hartreset_eq:
  "apply_hartreset b p =
     (map_harts (\<lambda>i h. if int i = hartsel p
        then hart_hartreset b (hartreset_level p) (resumeack_reset p) h else h) p)
     \<lparr>hartreset_level := b\<rparr>"
proof (cases "b = hartreset_level p")
  case True
  then show ?thesis
    by (simp add: apply_hartreset_def hart_hartreset_def map_harts_id cong: if_cong)
next
  case False
  then show ?thesis
    by (auto simp: apply_hartreset_def hart_hartreset_def for_selected_eq cong: if_cong)
qed

lemma settle_reset_state_eq: "settle_reset_state p = map_harts (\<lambda>i. hart_settle (ndmreset p)) p"
  by (simp add: settle_reset_state_def hart_settle_def [abs_def] map_harts_const)

definition resumes_now :: "DMPredictor \<Rightarrow> bool" where
  "resumes_now p \<longleftrightarrow> 0 \<le> hartsel p \<and> hartsel p < int (length (harts p)) \<and>
     (let h = harts p ! nat (hartsel p) in \<not> nonexistent h \<and> \<not> unavail h \<and> halted h)"

lemma apply_resumereq_eq:
  "apply_resumereq p =
     (map_harts (\<lambda>i h. if int i = hartsel p then hart_resume (step_armed p) h else h) p)
     \<lparr>shadow_regs := (if resumes_now p then Map.empty else shadow_regs p),
      shadow_hi := (if resumes_now p then Map.empty else shadow_hi p)\<rparr>"
proof (cases "0 \<le> hartsel p \<and> hartsel p < int (length (harts p))")
  case True
  define k where "k = nat (hartsel p)"
  with True have k: "hartsel p = int k" "k < length (harts p)" by auto
  have "map_harts (\<lambda>i h. if int i = hartsel p then hart_resume (step_armed p) h else h) p =
      p\<lparr>harts := (harts p)[k := hart_resume (step_armed p) (harts p ! k)]\<rparr>"
    using k by (intro map_harts_eqI [symmetric]) (auto simp: nth_list_update)
  with k show ?thesis
    by (auto simp: apply_resumereq_def selected_eq resume_hart_def hart_resume_def resumes_now_def Let_def)
next
  case False
  then have "map_harts (\<lambda>i h. if int i = hartsel p then hart_resume (step_armed p) h else h) p = p"
    by (subst (2) map_harts_id [symmetric]) (rule map_harts_cong, auto)
  moreover from False have "selected p = []" and "\<not> resumes_now p"
    by (auto simp: selected_eq resumes_now_def)
  ultimately show ?thesis by (simp add: apply_resumereq_def)
qed

subsection \<open>The handler refines the specification\<close>

text \<open>The handler up to the point where the run requests are looked at.\<close>

definition dmcontrol_prepare :: "int \<Rightarrow> DMPredictor \<Rightarrow> DMPredictor" where
  "dmcontrol_prepare v p =
     (map_harts (\<lambda>i h. if int i = hartsel_of v then hart_ready p v i h else hart_base p v i h) p)
     \<lparr>dmactive := True, ndmreset := bit v 1, hartsel := hartsel_of v,
      hasel := (supports_hasel p \<and> bit v 26),
      hartreset_level := (bit v 29 \<and> supports_hartreset p)\<rparr>"

lemma reset_stages_eq:
  "apply_hartreset hr (apply_ndmreset n (mark_nonexistent q)) =
    (map_harts (\<lambda>i h.
        if int i = hartsel q
        then hart_hartreset hr (hartreset_level q) (resumeack_reset q)
               (hart_ndmreset n (ndmreset q) (resumeack_reset q)
                 (h\<lparr>nonexistent := is_nonexistent q (int i)\<rparr>))
        else hart_ndmreset n (ndmreset q) (resumeack_reset q)
               (h\<lparr>nonexistent := is_nonexistent q (int i)\<rparr>)) q)
    \<lparr>ndmreset := n, hartreset_level := hr\<rparr>"
  by (simp add: apply_hartreset_eq apply_ndmreset_eq mark_nonexistent_eq map_harts_map_harts
      cong: if_cong)

lemma if_for_selected:
  "(if c then for_selected f q else q) = for_selected (\<lambda>h. if c then f h else h) q"
  by (simp add: for_selected_eq map_harts_id cong: if_cong)

lemma for_selected_comp: "for_selected f (for_selected g q) = for_selected (\<lambda>h. f (g h)) q"
  by (simp add: for_selected_eq map_harts_map_harts) (rule map_harts_cong, simp)

lemma hasresethaltreq_for_selected [simp]: "hasresethaltreq (for_selected f q) = hasresethaltreq q"
  by (simp add: for_selected_eq)

lemma apply_requests_eq:
  "apply_requests (decode DMCONTROL v) q = for_selected (hart_requests q v) q"
proof -
  have ext: "for_selected f q = for_selected g q" if "\<And>h. f h = g h" for f g
    using that by (metis ext)
  show ?thesis
    by (simp add: apply_requests_def Let_def if_for_selected for_selected_comp cong: if_cong)
      (rule ext, auto simp: hart_requests_def Let_def)
qed

lemma write_dmcontrol_prepare:
  assumes "bit v 0"
  shows "write_dmcontrol v p =
    settle_reset_state
      (if bit v 31 then for_selected halt_hart (dmcontrol_prepare v p)
       else if bit v 30 then apply_resumereq (dmcontrol_prepare v p) else dmcontrol_prepare v p)"
proof -
  let ?q = "p\<lparr>dmactive := True, hartsel := hartsel_of v, hasel := (supports_hasel p \<and> bit v 26)\<rparr>"
  have "apply_requests (decode DMCONTROL v)
      (apply_hartreset (bit v 29 \<and> supports_hartreset p)
        (apply_ndmreset (bit v 1) (mark_nonexistent ?q))) = dmcontrol_prepare v p"
    unfolding apply_requests_eq reset_stages_eq for_selected_eq dmcontrol_prepare_def
    by (simp add: map_harts_map_harts hart_ready_def hart_base_def hart_requests_def cong: if_cong)
  moreover have "supports_hartreset (apply_ndmreset b (mark_nonexistent q)) = supports_hartreset q" for b q
    by (simp add: apply_ndmreset_eq mark_nonexistent_eq)
  ultimately show ?thesis
    using assms by (simp add: write_dmcontrol_def Let_def if_else_False cong: if_cong)
qed

text \<open>
  The refinement: on a write with \<^verbatim>\<open>dmactive\<close> set the whole handler is \<^const>\<open>dmcontrol_next\<close>.
\<close>

lemma write_dmcontrol_eq:
  assumes "bit v 0"
  shows "write_dmcontrol v p = dmcontrol_next v p"
proof -
  have res: "resumes_now (dmcontrol_prepare v p) \<longleftrightarrow> hartsel_of v < int (length (harts p)) \<and>
      (let h = hart_ready p v (nat (hartsel_of v)) (harts p ! nat (hartsel_of v))
       in \<not> nonexistent h \<and> \<not> unavail h \<and> halted h)"
    using hartsel_of_range [of v]
    by (auto simp: resumes_now_def dmcontrol_prepare_def nat_less_iff)
  have "settle_reset_state (dmcontrol_prepare v p) = dmcontrol_next v p"
    if "\<not> bit v 31" "\<not> bit v 30"
    using that unfolding settle_reset_state_eq dmcontrol_prepare_def dmcontrol_next_def
    by (simp add: map_harts_map_harts hart_next_def [abs_def] hart_run_def hart_resumes_def cong: if_cong)
  moreover have "settle_reset_state (for_selected halt_hart (dmcontrol_prepare v p)) = dmcontrol_next v p"
    if "bit v 31"
    using that unfolding settle_reset_state_eq for_selected_eq dmcontrol_prepare_def dmcontrol_next_def
    by (simp add: map_harts_map_harts hart_next_def [abs_def] hart_run_def hart_resumes_def cong: if_cong)
  moreover have "settle_reset_state (apply_resumereq (dmcontrol_prepare v p)) = dmcontrol_next v p"
    if "\<not> bit v 31" "bit v 30"
    using that unfolding settle_reset_state_eq apply_resumereq_eq res
    by (simp add: dmcontrol_prepare_def dmcontrol_next_def map_harts_map_harts hart_next_def [abs_def]
        hart_run_def hart_resumes_def cong: if_cong)
  ultimately show ?thesis
    by (simp add: write_dmcontrol_prepare [OF assms])
qed

end
