(* ===== verification/PredictorInv.thy ===== *)
theory PredictorInv
  imports RunControl
begin

text \<open>
  The invariants of the predictor and that every operation keeps them: \<open>rc_inv\<close> (each hart is
  halted or running and never both, no halted hart is held in reset) and \<open>words_ok\<close> (every
  stored value is a 32-bit word, the register files keep their size). Both hold in every state
  reachable by configuring, writing and reading the predictor (\<open>reachable\<close>, rule induction).
\<close>

unbundle bit_operations_syntax

subsection \<open>The run-control invariant\<close>

text \<open>
  What the handlers keep true of each hart: it exists, it is available, it is halted or running
  and never both, and it is not halted while a reset holds it.
\<close>

definition hart_ok :: "bool \<Rightarrow> HartState \<Rightarrow> bool" where
  "hart_ok ndm h \<longleftrightarrow>
     available h \<and> \<not> unavail_sticky h \<and> \<not> nonexistent h \<and> running h = (\<not> halted h) \<and>
     (ndm \<or> hart_reset h \<longrightarrow> \<not> halted h)"

definition rc_inv :: "DMPredictor \<Rightarrow> bool" where
  "rc_inv p \<longleftrightarrow>
     1 \<le> num_harts p \<and> length (harts p) = nat (num_harts p) \<and>
     0 \<le> hartsel p \<and> hartsel p < 2 ^ 20 \<and>
     (hartreset_level p \<longrightarrow> supports_hartreset p) \<and>
     list_all (hart_ok (ndmreset p)) (harts p)"

lemma hart_okD:
  assumes "hart_ok ndm h"
  shows "available h" "\<not> unavail_sticky h" "\<not> nonexistent h" "running h = (\<not> halted h)"
    "\<not> unavail h" "ndm \<Longrightarrow> \<not> halted h" "hart_reset h \<Longrightarrow> \<not> halted h"
  using assms by (auto simp: hart_ok_def unavail_def)

lemma rc_inv_hart: "rc_inv p \<Longrightarrow> i < length (harts p) \<Longrightarrow> hart_ok (ndmreset p) (harts p ! i)"
  by (simp add: rc_inv_def list_all_length)

lemma rc_inv_exists: "rc_inv p \<Longrightarrow> i < length (harts p) \<Longrightarrow> \<not> is_nonexistent p (int i)"
  by (auto simp: rc_inv_def is_nonexistent_def)

text \<open>The steps of \<^const>\<open>hart_next\<close> one after the other.\<close>

definition hart_avail :: "HartState \<Rightarrow> bool" where
  "hart_avail h \<longleftrightarrow> available h \<and> \<not> unavail_sticky h \<and> \<not> nonexistent h"

definition hart_xor :: "HartState \<Rightarrow> bool" where
  "hart_xor h \<longleftrightarrow> running h = (\<not> halted h) \<or> hart_reset h"

lemmas hart_stage_defs = hart_ndmreset_def hart_hartreset_def hart_requests_def hart_run_def
  hart_resume_def halt_hart_def release_from_reset_def hart_avail_def hart_xor_def unavail_def Let_def

lemma hart_base_ok:
  "hart_ok (ndmreset p) h \<Longrightarrow> \<not> is_nonexistent p (int i) \<Longrightarrow>
   hart_avail (hart_base p v i h) \<and> hart_xor (hart_base p v i h)"
  by (auto simp: hart_base_def hart_ok_def hart_stage_defs)

lemma hart_hartreset_ok:
  "hart_avail h \<Longrightarrow> hart_xor h \<Longrightarrow> hart_avail (hart_hartreset b c r h) \<and> hart_xor (hart_hartreset b c r h)"
  by (auto simp: hart_stage_defs)

lemma hart_requests_ok:
  "hart_avail h \<Longrightarrow> hart_xor h \<Longrightarrow> hart_avail (hart_requests p v h) \<and> hart_xor (hart_requests p v h)"
  by (auto simp: hart_stage_defs)

lemma hart_run_ok:
  "hart_avail h \<Longrightarrow> hart_xor h \<Longrightarrow> hart_avail (hart_run v s h) \<and> hart_xor (hart_run v s h)"
  by (auto simp: hart_stage_defs)

lemma hart_settle_ok: "hart_avail h \<Longrightarrow> hart_xor h \<Longrightarrow> hart_ok ndm (hart_settle ndm h)"
  by (auto simp: hart_settle_def hart_ok_def hart_stage_defs)

lemma hart_next_ok:
  assumes "hart_ok (ndmreset p) h" and "\<not> is_nonexistent p (int i)"
  shows "hart_ok (bit v 1) (hart_next p v i h)"
  unfolding hart_next_def
  using hart_base_ok [OF assms]
  by (auto simp: hart_ready_def intro!: hart_settle_ok hart_run_ok [THEN conjunct1]
      hart_run_ok [THEN conjunct2] hart_requests_ok [THEN conjunct1] hart_requests_ok [THEN conjunct2]
      hart_hartreset_ok [THEN conjunct1] hart_hartreset_ok [THEN conjunct2])

lemma dmcontrol_next_sel [simp]:
  "num_harts (dmcontrol_next v p) = num_harts p"
  "ndmreset (dmcontrol_next v p) = bit v 1"
  "hartsel (dmcontrol_next v p) = hartsel_of v"
  "dmactive (dmcontrol_next v p) = True"
  "hartreset_level (dmcontrol_next v p) = (bit v 29 \<and> supports_hartreset p)"
  "supports_hartreset (dmcontrol_next v p) = supports_hartreset p"
  "version (dmcontrol_next v p) = version p"
  "length (harts (dmcontrol_next v p)) = length (harts p)"
  by (simp_all add: dmcontrol_next_def)

lemma nth_dmcontrol_next [simp]:
  "i < length (harts p) \<Longrightarrow> harts (dmcontrol_next v p) ! i = hart_next p v i (harts p ! i)"
  by (simp add: dmcontrol_next_def)

lemma rc_inv_dmcontrol_next: "rc_inv p \<Longrightarrow> rc_inv (dmcontrol_next v p)"
  using hartsel_of_range [of v]
  by (auto simp: rc_inv_def list_all_length is_nonexistent_def intro!: hart_next_ok [unfolded One_nat_def])

text \<open>A DM reset rebuilds the harts around the signals they drive.\<close>

lemma reset_dm_sel [simp]:
  "num_harts (reset_dm b p) = num_harts p"
  "version (reset_dm b p) = version p"
  "ndmreset (reset_dm b p) = False"
  "hartsel (reset_dm b p) = 0"
  "hasel (reset_dm b p) = False"
  "dmactive (reset_dm b p) = False"
  "hartreset_level (reset_dm b p) = False"
  "supports_hartreset (reset_dm b p) = supports_hartreset p"
  "cfg (reset_dm b p) = cfg p"
  "cfg_valid (reset_dm b p) = cfg_valid p"
  "length (harts (reset_dm b p)) = nat (max (num_harts p) 1)"
  by (simp_all add: reset_dm_def reset_declared_regs_def Let_def)

lemma nth_reset_dm:
  "i < nat (max (num_harts p) 1) \<Longrightarrow> harts (reset_dm b p) ! i = reset_hart p b (harts p) i"
  by (simp add: reset_dm_def reset_declared_regs_def reset_hart_def Let_def)

lemma rc_inv_reset_power_on: "1 \<le> num_harts p \<Longrightarrow> rc_inv (reset_dm True p)"
  by (auto simp: rc_inv_def list_all_length nth_reset_dm reset_hart_def HartState_default_def hart_ok_def)

lemma rc_inv_reset_dm: "rc_inv p \<Longrightarrow> rc_inv (reset_dm False p)"
  by (auto simp: rc_inv_def list_all_length nth_reset_dm reset_hart_def HartState_default_def hart_ok_def)


subsection \<open>Operations that leave run control alone\<close>

text \<open>The part of the state run control reads and writes.\<close>

definition rc_view :: "DMPredictor \<Rightarrow>
    (HartState list \<times> int \<times> int \<times> bool \<times> bool \<times> bool \<times> bool) \<times> (int \<times> bool \<times> bool \<times> bool \<times> bool \<times> bool \<times> bool \<times> bool)" where
  "rc_view p =
     ((harts p, num_harts p, hartsel p, hasel p, dmactive p, ndmreset p, hartreset_level p),
      (version p, supports_hartreset p, supports_hasel p, hasresethaltreq p, resumeack_reset p,
       authenticated p, impebreak p, stickyunavail p))"

lemma rc_viewD:
  assumes "rc_view p = rc_view q"
  shows "harts p = harts q" "num_harts p = num_harts q" "hartsel p = hartsel q" "hasel p = hasel q"
    "dmactive p = dmactive q" "ndmreset p = ndmreset q" "hartreset_level p = hartreset_level q"
    "version p = version q" "supports_hartreset p = supports_hartreset q"
    "hasresethaltreq p = hasresethaltreq q" "authenticated p = authenticated q"
    "impebreak p = impebreak q" "stickyunavail p = stickyunavail q"
  using assms by (simp_all add: rc_view_def)

lemma rc_inv_cong: "rc_view p = rc_view q \<Longrightarrow> rc_inv p = rc_inv q"
  by (simp add: rc_view_def rc_inv_def)

lemma rc_view_execute_command [simp]: "rc_view (execute_command v p) = rc_view p"
  by (simp add: rc_view_def execute_command_def execute_hi_def execute_lo_def Let_def split: option.split)

lemma rc_view_autoexec [simp]: "rc_view (autoexec a p) = rc_view p"
  by (simp add: autoexec_def)

lemma rc_view_write_buffer [simp]: "rc_view (write_buffer a v p) = rc_view p"
proof -
  have "rc_view (p\<lparr>staged_data0 := x, data0_pending_valid := b, data0_pending_value := y\<rparr>) = rc_view p"
    "rc_view (p\<lparr>data_q := xs, data_known := ks\<rparr>) = rc_view p"
    "rc_view (p\<lparr>data_q := xs, data_known := ks, staged_data1 := y\<rparr>) = rc_view p"
    "rc_view (p\<lparr>progbuf_q := xs\<rparr>) = rc_view p" for x b y xs ks
    by (simp_all add: rc_view_def)
  then show ?thesis by (simp add: write_buffer_def Let_def)
qed

lemma rc_view_sba [simp]:
  "rc_view (sba_autoincrement p) = rc_view p"
  "rc_view (sba_arm_read a p) = rc_view p"
  "rc_view (write_sbcs v p) = rc_view p"
  by (simp_all add: rc_view_def sba_autoincrement_def sba_arm_read_def write_sbcs_def Let_def
      split: option.split)

lemma rc_view_sbdata0_read_effects [simp]: "rc_view (sbdata0_read_effects p) = rc_view p"
  by (simp add: sbdata0_read_effects_def)

lemma rc_view_observe_read [simp]: "rc_view (observe_read a p) = rc_view p"
  by (simp add: observe_read_def Let_def)

lemma rc_view_set_observed_cmdbusy [simp]: "rc_view (set_observed_cmdbusy b p) = rc_view p"
  by (simp add: rc_view_def set_observed_cmdbusy_def)

lemma rc_view_other_writes [simp]:
  "rc_view (write_command v p) = rc_view p"
  "rc_view (write_sbaddress0 v p) = rc_view p"
  "rc_view (write_sbdata0 v p) = rc_view p"
proof -
  have "rc_view (p\<lparr>last_command := x\<rparr>) = rc_view p" "rc_view (p\<lparr>sbaddress0 := x\<rparr>) = rc_view p"
    "rc_view (p\<lparr>shadow_mem := m\<rparr>) = rc_view p" for x m
    by (simp_all add: rc_view_def)
  then show "rc_view (write_command v p) = rc_view p" "rc_view (write_sbaddress0 v p) = rc_view p"
    "rc_view (write_sbdata0 v p) = rc_view p"
    by (simp_all add: write_command_def write_sbaddress0_def write_sbdata0_def Let_def)
qed

lemma rc_view_on_write: "addr \<noteq> ADDR_DMCONTROL \<Longrightarrow> rc_view (on_write addr v p) = rc_view p"
proof -
  have "rc_view (p\<lparr>sbaddress1 := x\<rparr>) = rc_view p" "rc_view (p\<lparr>sbdata1 := x, sbdata1_known := b\<rparr>) = rc_view p"
    "rc_view (p\<lparr>hawindow := m\<rparr>) = rc_view p" "rc_view (p\<lparr>abstractauto := x\<rparr>) = rc_view p"
    "rc_view (p\<lparr>hawindowsel := x\<rparr>) = rc_view p" "rc_view (p\<lparr>relaxedpriv := b\<rparr>) = rc_view p" for x b m
    by (simp_all add: rc_view_def)
  moreover assume "addr \<noteq> ADDR_DMCONTROL"
  ultimately show ?thesis by (simp add: on_write_def Let_def)
qed

text \<open>A \<^verbatim>\<open>dmcontrol\<close> write is never dropped while a command runs, and is masked to 32 bits.\<close>

lemma on_write_dmcontrol:
  "on_write ADDR_DMCONTROL v p =
     (if bit v 0 then dmcontrol_next (take_bit 32 v) p else reset_dm False p)"
proof -
  have "on_write ADDR_DMCONTROL v p = write_dmcontrol (take_bit 32 v) p"
    by (simp add: on_write_def guarded_while_busy_def is_data_def is_progbuf_def)
  moreover have "write_dmcontrol (take_bit 32 v) p = reset_dm False p" if "\<not> bit v 0"
    using that by (simp add: write_dmcontrol_def bit_take_bit_iff)
  ultimately show ?thesis by (simp add: write_dmcontrol_eq bit_take_bit_iff)
qed

lemma rc_inv_on_write: "rc_inv p \<Longrightarrow> rc_inv (on_write addr v p)"
proof (cases "addr = ADDR_DMCONTROL")
  case True
  moreover assume "rc_inv p"
  ultimately show ?thesis
    by (simp only: on_write_dmcontrol) (simp add: rc_inv_dmcontrol_next rc_inv_reset_dm)
next
  case False
  moreover assume "rc_inv p"
  ultimately show ?thesis using rc_inv_cong [OF rc_view_on_write] by blast
qed

subsection \<open>Reachable predictors\<close>

text \<open>
  A predictor with at least one hart, reconfigured, written, read and told about a running
  command in any order. \<^const>\<open>sync_observed_hart_signals\<close> is left out: it overwrites the hart
  signals with what some device under test reported, which may be anything.
\<close>

inductive reachable :: "DMPredictor \<Rightarrow> bool" where
  init: "1 \<le> n \<Longrightarrow> reachable (DMPredictor_init n v au im rh hr hs ra su po)"
| config: "reachable p \<Longrightarrow> 1 \<le> cfg_num_harts c \<Longrightarrow> reachable (set_config p c)"
| dmi_write: "reachable p \<Longrightarrow> reachable (on_write addr v p)"
| dmi_read: "reachable p \<Longrightarrow> reachable (observe_read addr p)"
| busy: "reachable p \<Longrightarrow> reachable (set_observed_cmdbusy b p)"

lemma reachable_rc_inv: "reachable p \<Longrightarrow> rc_inv p"
proof (induction rule: reachable.induct)
  case (init n v au im rh hr hs ra su po)
  then show ?case by (simp add: DMPredictor_init_def rc_inv_reset_power_on)
next
  case (config p c)
  then show ?case by (simp add: set_config_def rc_inv_reset_power_on)
next
  case (dmi_write p addr v)
  then show ?case by (simp add: rc_inv_on_write)
next
  case (dmi_read p addr)
  then show ?case using rc_inv_cong [OF rc_view_observe_read] by blast
next
  case (busy p b)
  then show ?case using rc_inv_cong [OF rc_view_set_observed_cmdbusy] by blast
qed


subsection \<open>Stored words\<close>

text \<open>Every value the predictor stores is a 32-bit word, and its register files keep their size.\<close>

definition w32 :: "int \<Rightarrow> bool" where
  "w32 x \<longleftrightarrow> 0 \<le> x \<and> x < 2 ^ 32"

definition map_w32 :: "('k \<rightharpoonup> int) \<Rightarrow> bool" where
  "map_w32 m \<longleftrightarrow> (\<forall>k v. m k = Some v \<longrightarrow> w32 v)"

definition words_ok :: "DMPredictor \<Rightarrow> bool" where
  "words_ok p \<longleftrightarrow>
     w32 (abstractauto p) \<and> w32 (staged_data0 p) \<and> w32 (staged_data1 p) \<and>
     w32 (data0_pending_value p) \<and> w32 (last_command p) \<and>
     w32 (sbaddress0 p) \<and> w32 (sbaddress1 p) \<and> w32 (sbdata0_pending_value p) \<and> w32 (sbdata1 p) \<and>
     map_w32 (shadow_regs p) \<and> map_w32 (shadow_hi p) \<and> map_w32 (shadow_mem p) \<and> map_w32 (hawindow p) \<and>
     length (data_q p) = 12 \<and> list_all w32 (data_q p) \<and> length (data_known p) = 12 \<and>
     length (progbuf_q p) = 16 \<and> list_all w32 (progbuf_q p)"

lemma w32_simps [simp]: "w32 0" "w32 (take_bit 32 x)"
  using take_bit_range [of 32 x] by (simp_all add: w32_def)

lemma w32_iff: "w32 x \<longleftrightarrow> take_bit 32 x = x"
  by (metis take_bit_id take_bit_range w32_def)

lemma w32I: "(\<And>n. bit x n \<Longrightarrow> n < 32) \<Longrightarrow> w32 x"
  by (auto simp: w32_iff bit_eq_iff bit_take_bit_iff)

lemma w32_bit: "w32 x \<Longrightarrow> bit x n \<Longrightarrow> n < 32"
  by (simp add: w32_iff bit_imp_lt_take)

lemma w32_and: "w32 x \<Longrightarrow> w32 (x AND y)"
  by (rule w32I) (auto simp: bit_simps dest: w32_bit)

lemma map_w32_simps [simp]:
  "map_w32 Map.empty"
  "map_w32 m \<Longrightarrow> w32 v \<Longrightarrow> map_w32 (m(k \<mapsto> v))"
  "map_w32 m \<Longrightarrow> map_w32 (m(k := None))"
  by (auto simp: map_w32_def)

lemma map_w32D: "map_w32 m \<Longrightarrow> m k = Some v \<Longrightarrow> w32 v"
  by (auto simp: map_w32_def)

lemma words_ok_reset_dm: "words_ok p \<Longrightarrow> words_ok (reset_dm b p)"
  by (simp add: words_ok_def reset_dm_def reset_declared_regs_def Let_def list_all_length)

lemma words_ok_execute_command: "words_ok p \<Longrightarrow> words_ok (execute_command v p)"
  by (auto simp: words_ok_def execute_command_def execute_hi_def execute_lo_def Let_def
      list_all_update dest: map_w32D split: option.split)

lemma words_ok_autoexec: "words_ok p \<Longrightarrow> words_ok (autoexec a p)"
  by (simp add: autoexec_def words_ok_execute_command)

lemma words_ok_write_buffer: "words_ok p \<Longrightarrow> w32 v \<Longrightarrow> words_ok (write_buffer a v p)"
  by (auto simp: write_buffer_def Let_def intro!: words_ok_autoexec) (auto simp: words_ok_def list_all_update)

lemma words_ok_sba:
  "words_ok p \<Longrightarrow> words_ok (sba_autoincrement p)"
  "words_ok p \<Longrightarrow> words_ok (sba_arm_read a p)"
  "words_ok p \<Longrightarrow> words_ok (write_sbcs v p)"
  by (auto simp: words_ok_def sba_autoincrement_def sba_arm_read_def write_sbcs_def Let_def
      dest: map_w32D split: option.split)

lemma words_ok_sba_writes:
  assumes "words_ok p"
  shows "w32 v \<Longrightarrow> words_ok (write_sbaddress0 v p)" "w32 v \<Longrightarrow> words_ok (write_sbdata0 v p)"
    "words_ok (sbdata0_read_effects p)"
  using assms
  by (auto simp: write_sbaddress0_def write_sbdata0_def sbdata0_read_effects_def Let_def
      intro!: words_ok_sba) (auto simp: words_ok_def)

lemma words_ok_map_harts [simp]: "words_ok (map_harts f p) = words_ok p"
  by (simp add: words_ok_def map_harts_def)

lemma words_ok_dmcontrol_next: "words_ok p \<Longrightarrow> words_ok (dmcontrol_next v p)"
  using words_ok_map_harts [of "hart_next p v" p] by (auto simp: words_ok_def dmcontrol_next_def)

lemma words_ok_on_write:
  assumes "words_ok p"
  shows "words_ok (on_write addr v p)"
proof (cases "addr = ADDR_DMCONTROL")
  case True
  with assms show ?thesis
    by (simp only: on_write_dmcontrol) (simp add: words_ok_dmcontrol_next words_ok_reset_dm)
next
  case False
  have cmd: "words_ok (write_command x p)" if "w32 x" for x
    using assms that unfolding write_command_def
    by (intro words_ok_execute_command) (simp add: words_ok_def)
  have upd: "words_ok (p\<lparr>sbaddress1 := x\<rparr>)" "words_ok (p\<lparr>sbdata1 := x, sbdata1_known := b\<rparr>)"
    "words_ok (p\<lparr>abstractauto := x\<rparr>)" "words_ok (p\<lparr>hawindow := (hawindow p)(k \<mapsto> x)\<rparr>)" if "w32 x" for x b k
    using assms that by (simp_all add: words_ok_def)
  have upd2: "words_ok (p\<lparr>hawindowsel := x\<rparr>)" "words_ok (p\<lparr>relaxedpriv := b\<rparr>)" for x b
    using assms by (simp_all add: words_ok_def)
  from False assms show ?thesis
    by (auto simp: on_write_def Let_def upd upd2 cmd w32_and
        intro: words_ok_write_buffer words_ok_sba words_ok_sba_writes)
qed

lemma words_ok_observe_read: "words_ok p \<Longrightarrow> words_ok (observe_read addr p)"
  by (auto simp: observe_read_def Let_def intro!: words_ok_autoexec words_ok_sba_writes)

lemma reachable_words_ok: "reachable p \<Longrightarrow> words_ok p"
proof (induction rule: reachable.induct)
  case (init n v au im rh hr hs ra su po)
  show ?case unfolding DMPredictor_init_def
    by (rule words_ok_reset_dm) (simp add: words_ok_def list_all_length)
next
  case (config p c)
  then show ?case unfolding set_config_def
    by (intro words_ok_reset_dm) (simp add: words_ok_def)
next
  case (busy p b)
  then show ?case by (simp add: words_ok_def set_observed_cmdbusy_def)
qed (simp_all add: words_ok_on_write words_ok_observe_read)

end
