(* ===== verification/ReadBack.thy ===== *)
theory ReadBack
  imports PredictorInv
begin

text \<open>
  What the predictor answers to a DMI read. The fields of the predicted \<^verbatim>\<open>dmstatus\<close> and
  \<^verbatim>\<open>dmcontrol\<close> words are computed from the state (by the round trip of the register layout),
  and every predicted value is a 32-bit word.
\<close>

unbundle bit_operations_syntax

subsection \<open>Reading back fields of an encoded word\<close>

context register_layout begin

lemma item_decode_encoded:
  assumes "distinct (map fst kvs)" and "fst ` set kvs \<subseteq> f_name ` set (r_fields R)"
    and "f \<in> set (r_fields R)"
  shows "item (decode R (encoded R kvs)) (f_name f) = take_bit (f_width f) (item kvs (f_name f))"
  using extract_encode [OF assms] item_decode [OF assms(3)]
  by (simp add: item_def split: option.splits)

lemma bit_encoded:
  assumes "distinct (map fst kvs)" and "fst ` set kvs \<subseteq> f_name ` set (r_fields R)"
  shows "case find (\<lambda>f. f_name f = nm) (r_fields R) of
           Some f \<Rightarrow> f_width f = 1 \<longrightarrow> bit (encoded R kvs) (f_lsb f) = odd (item kvs nm)
         | None \<Rightarrow> True"
proof (cases "find (\<lambda>f. f_name f = nm) (r_fields R)")
  case (Some f)
  then have f: "f \<in> set (r_fields R)" "f_name f = nm"
    by (auto simp: find_Some_iff)
  have "bit (encoded R kvs) (f_lsb f) = odd (item kvs nm)" if w: "f_width f = 1"
  proof -
    from extract_encode [OF assms f(1)] f(2) have
      "extract_field f (encoded R kvs) = take_bit 1 (item kvs nm)"
      by (simp add: w item_def split: option.splits)
    then have "bit (extract_field f (encoded R kvs)) 0 = bit (take_bit 1 (item kvs nm)) 0" by simp
    then show ?thesis by (simp add: bit_extract_field w bit_simps)
  qed
  with Some show ?thesis by simp
qed simp

end

subsection \<open>The predicted \<^verbatim>\<open>dmstatus\<close>\<close>

text \<open>The hart \<^verbatim>\<open>hartsel\<close> names, if the predictor has it.\<close>

definition selected_hart :: "DMPredictor \<Rightarrow> HartState option" where
  "selected_hart p =
     (if 0 \<le> hartsel p \<and> hartsel p < int (length (harts p))
      then Some (harts p ! nat (hartsel p)) else None)"

definition sel_is :: "(HartState \<Rightarrow> bool) \<Rightarrow> DMPredictor \<Rightarrow> bool" where
  "sel_is P p = (case selected_hart p of Some h \<Rightarrow> P h | None \<Rightarrow> False)"

lemma all_any_selected:
  "all_of P (map ((!) (harts p)) (selected p)) = of_bool (sel_is P p)"
  "any_of P (map ((!) (harts p)) (selected p)) = of_bool (sel_is P p)"
  by (simp_all add: all_of_def any_of_def selected_eq sel_is_def selected_hart_def int_of_bool_def)

lemma dmstatus_keys:
  "distinct (map fst (dmstatus_fields p))"
  "fst ` set (dmstatus_fields p) \<subseteq> f_name ` set (r_fields DMSTATUS)"
  by (simp_all add: dmstatus_fields_def Let_def DMSTATUS_def mkField_def)

lemma dmstatus_bits:
  "bit (expect_dmstatus p) 24 \<longleftrightarrow> version p \<ge> 3 \<and> ndmreset p"
  "bit (expect_dmstatus p) 23 \<longleftrightarrow> stickyunavail p"
  "bit (expect_dmstatus p) 22 \<longleftrightarrow> impebreak p"
  "bit (expect_dmstatus p) 19 \<longleftrightarrow> sel_is havereset p"
  "bit (expect_dmstatus p) 18 \<longleftrightarrow> sel_is havereset p"
  "bit (expect_dmstatus p) 17 \<longleftrightarrow> sel_is resume_ack p"
  "bit (expect_dmstatus p) 16 \<longleftrightarrow> sel_is resume_ack p"
  "bit (expect_dmstatus p) 15 \<longleftrightarrow> hartsel p \<ge> num_harts p"
  "bit (expect_dmstatus p) 14 \<longleftrightarrow> hartsel p \<ge> num_harts p"
  "bit (expect_dmstatus p) 13 \<longleftrightarrow> sel_is unavail p"
  "bit (expect_dmstatus p) 12 \<longleftrightarrow> sel_is unavail p"
  "bit (expect_dmstatus p) 11 \<longleftrightarrow> sel_is running p"
  "bit (expect_dmstatus p) 10 \<longleftrightarrow> sel_is running p"
  "bit (expect_dmstatus p) 9 \<longleftrightarrow> sel_is halted p"
  "bit (expect_dmstatus p) 8 \<longleftrightarrow> sel_is halted p"
  "bit (expect_dmstatus p) 7 \<longleftrightarrow> authenticated p"
  "bit (expect_dmstatus p) 6 \<longleftrightarrow> False"
  "bit (expect_dmstatus p) 5 \<longleftrightarrow> hasresethaltreq p"
  "bit (expect_dmstatus p) 4 \<longleftrightarrow> False"
proof -
  note b = dmstatus_layout.bit_encoded [OF dmstatus_keys, folded expect_dmstatus_def]
  note d = item_def dmstatus_fields_def Let_def DMSTATUS_def mkField_def all_any_selected
    is_nonexistent_def selected_indices_def int_of_bool_eq
  show "bit (expect_dmstatus p) 24 \<longleftrightarrow> version p \<ge> 3 \<and> ndmreset p"
    using b [of p "''ndmresetpending''"] by (simp add: d)
  show "bit (expect_dmstatus p) 23 \<longleftrightarrow> stickyunavail p"
    using b [of p "''stickyunavail''"] by (simp add: d)
  show "bit (expect_dmstatus p) 22 \<longleftrightarrow> impebreak p"
    using b [of p "''impebreak''"] by (simp add: d)
  show "bit (expect_dmstatus p) 19 \<longleftrightarrow> sel_is havereset p"
    using b [of p "''allhavereset''"] by (simp add: d)
  show "bit (expect_dmstatus p) 18 \<longleftrightarrow> sel_is havereset p"
    using b [of p "''anyhavereset''"] by (simp add: d)
  show "bit (expect_dmstatus p) 17 \<longleftrightarrow> sel_is resume_ack p"
    using b [of p "''allresumeack''"] by (simp add: d)
  show "bit (expect_dmstatus p) 16 \<longleftrightarrow> sel_is resume_ack p"
    using b [of p "''anyresumeack''"] by (simp add: d)
  show "bit (expect_dmstatus p) 15 \<longleftrightarrow> hartsel p \<ge> num_harts p"
    using b [of p "''allnonexistent''"] by (simp add: d)
  show "bit (expect_dmstatus p) 14 \<longleftrightarrow> hartsel p \<ge> num_harts p"
    using b [of p "''anynonexistent''"] by (simp add: d)
  show "bit (expect_dmstatus p) 13 \<longleftrightarrow> sel_is unavail p"
    using b [of p "''allunavail''"] by (simp add: d)
  show "bit (expect_dmstatus p) 12 \<longleftrightarrow> sel_is unavail p"
    using b [of p "''anyunavail''"] by (simp add: d)
  show "bit (expect_dmstatus p) 11 \<longleftrightarrow> sel_is running p"
    using b [of p "''allrunning''"] by (simp add: d)
  show "bit (expect_dmstatus p) 10 \<longleftrightarrow> sel_is running p"
    using b [of p "''anyrunning''"] by (simp add: d)
  show "bit (expect_dmstatus p) 9 \<longleftrightarrow> sel_is halted p"
    using b [of p "''allhalted''"] by (simp add: d)
  show "bit (expect_dmstatus p) 8 \<longleftrightarrow> sel_is halted p"
    using b [of p "''anyhalted''"] by (simp add: d)
  show "bit (expect_dmstatus p) 7 \<longleftrightarrow> authenticated p"
    using b [of p "''authenticated''"] by (simp add: d)
  show "bit (expect_dmstatus p) 6 \<longleftrightarrow> False"
    using b [of p "''authbusy''"] by (simp add: d)
  show "bit (expect_dmstatus p) 5 \<longleftrightarrow> hasresethaltreq p"
    using b [of p "''hasresethaltreq''"] by (simp add: d)
  show "bit (expect_dmstatus p) 4 \<longleftrightarrow> False"
    using b [of p "''confstrptrvalid''"] by (simp add: d)
qed

lemma dmstatus_version: "take_bit 4 (expect_dmstatus p) = take_bit 4 (version p)"
proof -
  have "mkField ''version'' 0 4 ACCESS_R ''#3.14.1 version'' (Some 3) \<in> set (r_fields DMSTATUS)"
    by (simp add: DMSTATUS_def)
  from dmstatus_layout.item_decode_encoded [OF dmstatus_keys this, of p, folded expect_dmstatus_def]
  have "item (decode DMSTATUS (expect_dmstatus p)) ''version'' =
      take_bit 4 (item (dmstatus_fields p) ''version'')"
    by (simp add: mkField_def)
  moreover have "item (dmstatus_fields p) ''version'' = version p"
    by (simp add: item_def dmstatus_fields_def Let_def)
  ultimately show ?thesis by simp
qed

lemma w32_dmstatus: "w32 (expect_dmstatus p)"
  using dmstatus_layout.encoded_word by (simp add: w32_iff expect_dmstatus_def)

subsection \<open>The predicted \<^verbatim>\<open>dmcontrol\<close>\<close>

lemma dmcontrol_keys:
  "distinct (map fst (dmcontrol_fields p))"
  "fst ` set (dmcontrol_fields p) \<subseteq> f_name ` set (r_fields DMCONTROL)"
  by (simp_all add: dmcontrol_fields_def DMCONTROL_def mkField_def)

lemma dmcontrol_bits:
  "bit (expect_dmcontrol p) 31 \<longleftrightarrow> False"
  "bit (expect_dmcontrol p) 30 \<longleftrightarrow> False"
  "bit (expect_dmcontrol p) 29 \<longleftrightarrow> hartreset_level p \<and> supports_hartreset p"
  "bit (expect_dmcontrol p) 28 \<longleftrightarrow> False"
  "bit (expect_dmcontrol p) 27 \<longleftrightarrow> False"
  "bit (expect_dmcontrol p) 26 \<longleftrightarrow> hasel p"
  "bit (expect_dmcontrol p) 5 \<longleftrightarrow> False"
  "bit (expect_dmcontrol p) 4 \<longleftrightarrow> False"
  "bit (expect_dmcontrol p) 3 \<longleftrightarrow> False"
  "bit (expect_dmcontrol p) 2 \<longleftrightarrow> False"
  "bit (expect_dmcontrol p) 1 \<longleftrightarrow> ndmreset p"
  "bit (expect_dmcontrol p) 0 \<longleftrightarrow> dmactive p"
proof -
  note b = dmcontrol_layout.bit_encoded [OF dmcontrol_keys]
  note d = item_def dmcontrol_fields_def DMCONTROL_def mkField_def int_of_bool_eq expect_dmcontrol_def
    bit_with_hartsel
  show "bit (expect_dmcontrol p) 31 \<longleftrightarrow> False"
    using b [of p "''haltreq''"] by (simp add: d)
  show "bit (expect_dmcontrol p) 30 \<longleftrightarrow> False"
    using b [of p "''resumereq''"] by (simp add: d)
  show "bit (expect_dmcontrol p) 29 \<longleftrightarrow> hartreset_level p \<and> supports_hartreset p"
    using b [of p "''hartreset''"] by (simp add: d)
  show "bit (expect_dmcontrol p) 28 \<longleftrightarrow> False"
    using b [of p "''ackhavereset''"] by (simp add: d)
  show "bit (expect_dmcontrol p) 27 \<longleftrightarrow> False"
    using b [of p "''ackunavail''"] by (simp add: d)
  show "bit (expect_dmcontrol p) 26 \<longleftrightarrow> hasel p"
    using b [of p "''hasel''"] by (simp add: d)
  show "bit (expect_dmcontrol p) 5 \<longleftrightarrow> False"
    using b [of p "''setkeepalive''"] by (simp add: d)
  show "bit (expect_dmcontrol p) 4 \<longleftrightarrow> False"
    using b [of p "''clrkeepalive''"] by (simp add: d)
  show "bit (expect_dmcontrol p) 3 \<longleftrightarrow> False"
    using b [of p "''setresethaltreq''"] by (simp add: d)
  show "bit (expect_dmcontrol p) 2 \<longleftrightarrow> False"
    using b [of p "''clrresethaltreq''"] by (simp add: d)
  show "bit (expect_dmcontrol p) 1 \<longleftrightarrow> ndmreset p"
    using b [of p "''ndmreset''"] by (simp add: d)
  show "bit (expect_dmcontrol p) 0 \<longleftrightarrow> dmactive p"
    using b [of p "''dmactive''"] by (simp add: d)
qed

lemma dmcontrol_hartsel_readback: "hartsel_of (expect_dmcontrol p) = take_bit 20 (hartsel p)"
  by (simp add: expect_dmcontrol_def hartsel_of_with_hartsel)

lemma w32_dmcontrol: "w32 (expect_dmcontrol p)"
proof (rule w32I)
  fix n assume "bit (expect_dmcontrol p) n"
  moreover have "w32 (encoded DMCONTROL (dmcontrol_fields p))"
    using dmcontrol_layout.encoded_word by (simp add: w32_iff)
  ultimately show "n < 32"
    by (auto simp: expect_dmcontrol_def bit_with_hartsel split: if_splits dest: w32_bit)
qed

subsection \<open>Every predicted value is a 32-bit word\<close>

lemma w32_or: "w32 x \<Longrightarrow> w32 y \<Longrightarrow> w32 (x OR y)"
  by (rule w32I) (auto simp: bit_simps dest: w32_bit)

lemma w32_push: "k + m \<le> 32 \<Longrightarrow> w32 (push_bit k (take_bit m x))"
  by (rule w32I) (auto simp: bit_simps)

lemma w32_push_bool: "k < 32 \<Longrightarrow> w32 (push_bit k (int_of_bool b))"
  by (rule w32I) (auto simp: bit_simps int_of_bool_eq bit_of_bool_int)

lemma w32_small [simp]: "k < 32 \<Longrightarrow> w32 (2 ^ k)" "w32 (int_of_bool b * 2)" "w32 (int_of_bool b)"
  using power_strict_increasing [of k 32 "2 :: int"] by (auto simp: w32_def int_of_bool_def)

lemma w32_fold_or: "(\<And>x y. x \<in> set xs \<Longrightarrow> w32 y \<Longrightarrow> w32 (f x y)) \<Longrightarrow> w32 y \<Longrightarrow> w32 (fold f xs y)"
  by (induction xs arbitrary: y) auto

lemma w32_take: "m \<le> 32 \<Longrightarrow> w32 (take_bit m x)"
  using w32_push [of 0 m x] by simp

lemma w32_dict_get: "map_w32 m \<Longrightarrow> w32 (dict_get m k 0)"
  by (auto simp: dict_get_def dest: map_w32D split: option.split)

lemma w32_registers:
  "w32 (expect_hartinfo c)" "w32 (expect_abstractcs p)" "w32 (expect_sbcs p)"
  by (auto simp: expect_hartinfo_def expect_abstractcs_def expect_sbcs_def Let_def
      intro!: w32_or w32_push w32_push_bool w32_take)

lemma w32_abstractauto: "w32 (expect_abstractauto p)"
proof -
  have "w32 (x AND MASK32)" for x by simp
  then show ?thesis unfolding expect_abstractauto_def Let_def by (simp only: w32_simps split: if_split) simp
qed

lemma w32_haltsums: "w32 (expect_haltsum0 p)" "w32 (expect_haltsum n p)"
proof -
  show "w32 (expect_haltsum0 p)"
    unfolding expect_haltsum0_def by (rule w32_fold_or) (auto intro!: w32_or)
  have "nat (take_bit 5 x) < 32" for x :: int
    using take_bit_range [of 5 x] by simp
  then show "w32 (expect_haltsum n p)"
    unfolding expect_haltsum_def Let_def by (auto intro!: w32_fold_or w32_or)
qed

lemma words_ok_predict:
  assumes "words_ok p"
  shows "w32 (predict p addr)"
proof -
  have dq: "w32 (data_q p ! nat i)" if "i < 12" for i
    using assms that by (auto simp: words_ok_def list_all_length)
  have pq: "w32 (progbuf_q p ! nat i)" if "i < 16" for i
    using assms that by (auto simp: words_ok_def list_all_length)
  from assms show ?thesis
    unfolding predict_def Let_def is_data_def is_progbuf_def
    by (auto simp: words_ok_def w32_registers w32_abstractauto w32_haltsums w32_dmstatus w32_dmcontrol w32_take
        w32_dict_get dq pq)
qed

end
