(* ===== verification/PredictorProps.thy ===== *)
theory PredictorProps
  imports ReadBack
begin

text \<open>
  What the predictor does, operation by operation, in every reachable state: run control of the
  selected hart as seen through \<^verbatim>\<open>dmstatus\<close>, the life of \<^verbatim>\<open>havereset\<close>, release from reset,
  deactivation, the read-back of \<^verbatim>\<open>dmcontrol\<close>, the halt summaries and blocks of system bus
  accesses. \<open>sample_dm\<close> is a two-hart device the witnesses run.
\<close>

unbundle bit_operations_syntax

subsection \<open>A sample device\<close>

definition sample_config :: DeclaredConfig where
  "sample_config = DeclaredConfig_default\<lparr>
     cfg_sba_enable := True, cfg_abstractauto_enable := True, cfg_num_harts := 2,
     cfg_version := DMSTATUS_VERSION_1_0, cfg_authenticated := True, cfg_hasresethaltreq := True,
     cfg_supports_hartreset := True, cfg_progbufsize := 2, cfg_datacount := 2, cfg_progbuf_readable := True, cfg_haltsum_groups_present := True,
     cfg_sbversion := 1, cfg_sbasize := 32, cfg_sbaccess_reset := 2, cfg_sbaccess_writable := True,
     cfg_sbaccess32 := True\<rparr>"

definition sample_dm :: DMPredictor where
  "sample_dm = on_write ADDR_DMCONTROL 0x00000001 (set_config DMPredictor_default sample_config)"

definition sample_halted :: DMPredictor where
  "sample_halted = on_write ADDR_DMCONTROL 0x80000001 sample_dm"

definition sample_reset :: DMPredictor where
  "sample_reset = on_write ADDR_DMCONTROL 0x00000003 (on_write ADDR_DMCONTROL 0x00010009 sample_dm)"

definition sample_sba :: DMPredictor where
  "sample_sba = on_write ADDR_SBADDRESS0 0x100 (on_write ADDR_SBCS 0x00058000 sample_dm)"

lemma reachable_sample: "reachable sample_dm"
  unfolding sample_dm_def DMPredictor_default_def
  by (intro reachable.intros) (simp_all add: sample_config_def DeclaredConfig_default_def)

lemma reachable_samples: "reachable sample_halted" "reachable sample_reset" "reachable sample_sba"
  unfolding sample_halted_def sample_reset_def sample_sba_def
  by (intro reachable.dmi_write reachable_sample)+

subsection \<open>The run-control specification\<close>

text \<open>
  C1. What a DMI write to \<^verbatim>\<open>dmcontrol\<close> does, all handlers of the source in sequence, is what the
  one-hart specification \<^const>\<open>dmcontrol_next\<close> does to each hart, on the low 32 bits of the
  written value; with \<^verbatim>\<open>dmactive=0\<close> it is the reset of the module.
\<close>

theorem on_write_dmcontrol_refines:
  "on_write ADDR_DMCONTROL v p =
     (if bit v 0 then dmcontrol_next (take_bit 32 v) p else reset_dm False p)"
  by (rule on_write_dmcontrol)

subsection \<open>Invariants of reachable states\<close>

text \<open>
  C2. In every reachable state the predictor has one hart record per configured hart, each hart is
  halted or running and never both, and a hart held in reset (by \<^verbatim>\<open>ndmreset\<close> or its own
  \<^verbatim>\<open>hartreset\<close>) is reported running.
\<close>

theorem reachable_run_control:
  assumes "reachable p" and "i < length (harts p)"
  shows "length (harts p) = nat (num_harts p) \<and>
    running (harts p ! i) = (\<not> halted (harts p ! i)) \<and>
    (ndmreset p \<or> hart_reset (harts p ! i) \<longrightarrow> running (harts p ! i))"
  using reachable_rc_inv [OF assms(1)] hart_okD [OF rc_inv_hart [OF reachable_rc_inv [OF assms(1)] assms(2)]]
  by (auto simp: rc_inv_def)

theorem reachable_run_control_witness:
  "length (harts sample_dm) = nat (num_harts sample_dm) \<and>
    running (harts sample_dm ! 1) = (\<not> halted (harts sample_dm ! 1))"
proof -
  have "1 < length (harts sample_dm)" by code_simp
  then show ?thesis using reachable_run_control [OF reachable_sample] by blast
qed

text \<open>
  C19. Whatever was written before, the value predicted for any DMI address is a 32-bit word.
\<close>

theorem reachable_predict_word: "reachable p \<Longrightarrow> 0 \<le> predict p addr \<and> predict p addr < 2 ^ 32"
  using words_ok_predict [OF reachable_words_ok, of p addr] by (simp add: w32_def)

theorem reachable_predict_word_witness:
  "0 \<le> predict sample_halted ADDR_DMSTATUS \<and> predict sample_halted ADDR_DMSTATUS < 2 ^ 32"
  by (rule reachable_predict_word [OF reachable_samples(1)])

definition dmcontrol_readable :: "DMPredictor \<Rightarrow> int" where
  "dmcontrol_readable p = mask 2 OR push_bit 6 (mask 20) OR push_bit 26 (of_bool (supports_hasel p))
     OR push_bit 29 (of_bool (supports_hartreset p))"

lemma dmcontrol_next_more: "hasel (dmcontrol_next v p) = (supports_hasel p \<and> bit v 26)"
  by (simp add: dmcontrol_next_def)

lemma bit_dmcontrol_readable:
  "bit (dmcontrol_readable p) n \<longleftrightarrow>
    n < 2 \<or> 6 \<le> n \<and> n < 26 \<or> n = 26 \<and> supports_hasel p \<or> n = 29 \<and> supports_hartreset p"
  by (auto simp: dmcontrol_readable_def bit_or_iff bit_push_bit_iff bit_mask_iff bit_of_bool_int)

lemma bit_expect_dmcontrol:
  "bit (expect_dmcontrol p) n \<longleftrightarrow>
     (n = 0 \<and> dmactive p) \<or> (n = 1 \<and> ndmreset p) \<or> (6 \<le> n \<and> n < 16 \<and> bit (hartsel p) (n + 4)) \<or>
     (16 \<le> n \<and> n < 26 \<and> bit (hartsel p) (n - 16)) \<or> (n = 26 \<and> hasel p) \<or>
     (n = 29 \<and> hartreset_level p \<and> supports_hartreset p)"
proof (cases "6 \<le> n \<and> n < 26")
  case True
  then show ?thesis by (auto simp: expect_dmcontrol_def bit_with_hartsel)
next
  case False
  then have "n = 0 \<or> n = 1 \<or> n = 2 \<or> n = 3 \<or> n = 4 \<or> n = 5 \<or> n = 26 \<or> n = 27 \<or> n = 28 \<or>
    n = 29 \<or> n = 30 \<or> n = 31 \<or> n \<ge> 32" by presburger
  then show ?thesis
    using dmcontrol_bits [of p] w32_bit [OF w32_dmcontrol, of p n] by (elim disjE) auto
qed

text \<open>
  C18. Reading \<^verbatim>\<open>dmcontrol\<close> after writing it returns exactly the written bits that are readable
  (\<^verbatim>\<open>dmactive\<close>, \<^verbatim>\<open>ndmreset\<close>, the 20 \<^verbatim>\<open>hartsel\<close> bits, \<^verbatim>\<open>hasel\<close> and \<^verbatim>\<open>hartreset\<close> where
  implemented); every request bit reads 0, and writing \<^verbatim>\<open>dmactive=0\<close> makes it read 0.
\<close>

theorem dmcontrol_readback:
  "expect_dmcontrol (on_write ADDR_DMCONTROL v p) = (if bit v 0 then v AND dmcontrol_readable p else 0)"
proof (rule bit_eqI)
  fix n :: nat
  consider "n = 0" | "n = 1" | "n \<ge> 2" by linarith
  then show "bit (expect_dmcontrol (on_write ADDR_DMCONTROL v p)) n = bit (if bit v 0 then v AND dmcontrol_readable p else 0) n"
    unfolding on_write_dmcontrol
    by cases (auto simp: bit_expect_dmcontrol bit_dmcontrol_readable bit_and_iff bit_hartsel_of dmcontrol_next_more
      bit_take_bit_iff)
qed

lemma fold_or_bits:
  "bit (fold (\<lambda>h w. if P h then w OR push_bit (f h) 1 else w) hs w) i \<longleftrightarrow>
     bit (w :: int) i \<or> (\<exists>h \<in> set hs. P h \<and> f h = i)"
  by (induction hs arbitrary: w) (auto simp: bit_simps)

text \<open>
  Bit \<open>i\<close> of the predicted \<^verbatim>\<open>haltsum0\<close> is set exactly when hart \<open>i < 32\<close> exists and is halted.
\<close>

lemma haltsum0_bits:
  "bit (expect_haltsum0 p) i \<longleftrightarrow>
     i < 32 \<and> int i < num_harts p \<and> i < length (harts p) \<and> halted (harts p ! i)"
  by (auto simp: expect_haltsum0_def fold_or_bits)

text \<open>
  Bit \<open>i\<close> of the predicted \<^verbatim>\<open>haltsum1..3\<close> is set exactly when some halted hart of the group
  that \<^verbatim>\<open>hartsel\<close> selects has index bits \<open>i\<close> at that level.
\<close>

lemma haltsum_bits:
  "bit (expect_haltsum n p) i \<longleftrightarrow>
     cfg_haltsum_groups_present (cfg p) \<and>
     (\<exists>h < length (harts p). int h < num_harts p \<and> halted (harts p ! h) \<and>
        (n < 3 \<longrightarrow> int h div 2 ^ (5 * n + 5) = hartsel p div 2 ^ (5 * n + 5)) \<and>
        int i = int h div 2 ^ (5 * n) mod 32)"
proof -
  have m: "x AND 31 = x mod 32" for x :: int by (simp add: and_literal_masks take_bit_eq_mod)
  have "(nat (drop_bit (5 * n) (int h) AND 31) = i) = (int i = int h div 2 ^ (5 * n) mod 32)" for h
    unfolding m drop_bit_eq_div by (auto simp: nat_eq_iff)
  moreover have "expect_haltsum n p = (if \<not> cfg_haltsum_groups_present (cfg p) then 0
      else fold (\<lambda>h w. if halted (harts p ! h) \<and>
                  (n < 3 \<longrightarrow> drop_bit (5 * n + 5) (int h) = drop_bit (5 * n + 5) (hartsel p))
                then w OR push_bit (nat (drop_bit (5 * n) (int h) AND 31)) 1 else w)
             [0..<nat (min (num_harts p) (int (length (harts p))))] 0)"
    unfolding expect_haltsum_def Let_def
    by (intro if_cong fold_cong refl) auto
  moreover have "(\<exists>h \<in> set [0..<nat (min a (int b))]. Q h) = (\<exists>h < b. int h < a \<and> Q h)" for a b Q
    by force
  ultimately show ?thesis
    unfolding fold_or_bits by (simp add: fold_or_bits drop_bit_eq_div conj_assoc)
qed


subsection \<open>Halting, resuming and resetting the selected hart\<close>

lemma dmstatus_of_selected:
  assumes "hartsel q = int i" and "i < length (harts q)"
  shows "bit (expect_dmstatus q) 9 = halted (harts q ! i)" "bit (expect_dmstatus q) 11 = running (harts q ! i)"
    "bit (expect_dmstatus q) 17 = resume_ack (harts q ! i)" "bit (expect_dmstatus q) 19 = havereset (harts q ! i)"
  using assms by (simp_all add: dmstatus_bits sel_is_def selected_hart_def)

subsection \<open>Transitions of one hart\<close>

lemmas hart_next_defs = hart_next_def hart_ready_def hart_base_def hart_settle_def hart_stage_defs

lemma havereset_stages [simp]:
  "havereset (hart_settle ndm h) = havereset h"
  "havereset (hart_run v st h) = havereset h"
  "havereset (hart_requests p v h) = (havereset h \<and> \<not> bit v 28)"
  "havereset (hart_hartreset now was rack h) = (havereset h \<or> \<not> now \<and> was \<and> \<not> nonexistent h)"
  "havereset (hart_ndmreset now was rack h) = (havereset h \<or> now \<and> \<not> was \<or> \<not> now \<and> was \<and> \<not> nonexistent h)"
  "nonexistent (hart_ndmreset now was rack h) = nonexistent h"
  by (auto simp: hart_settle_def hart_stage_defs release_from_reset_def)

lemma reset_haltreq_stages [simp]:
  "reset_haltreq (hart_settle ndm h) = reset_haltreq h"
  "reset_haltreq (hart_ndmreset a b c h) = reset_haltreq h"
  by (auto simp: hart_settle_def hart_stage_defs)

lemma hart_next_havereset_sticky:
  "havereset h \<Longrightarrow> \<not> havereset (hart_next p v i h) \<Longrightarrow> int i = hartsel_of v \<and> bit v 28"
  by (simp add: hart_next_def hart_ready_def hart_base_def split: if_splits)

lemma hart_next_ackhavereset:
  "int i = hartsel_of v \<Longrightarrow> bit v 28 \<Longrightarrow> \<not> havereset (hart_next p v i h)"
  by (simp add: hart_next_def hart_ready_def)

lemma hart_next_resethaltreq:
  "int i \<noteq> hartsel_of v \<Longrightarrow> reset_haltreq (hart_next p v i h) = reset_haltreq h"
  by (simp add: hart_next_def hart_base_def)

lemma hart_next_haltreq:
  assumes "hart_ok (ndmreset p) h" "\<not> is_nonexistent p (int i)" "halted h"
    "int i = hartsel_of v" "bit v 31" "\<not> bit v 1" "\<not> bit v 29"
  shows "halted (hart_next p v i h) \<and> \<not> running (hart_next p v i h) \<and>
    resume_ack (hart_next p v i h) = resume_ack h"
  using assms by (auto simp: hart_next_defs hart_ok_def)

lemma hart_next_resume_halted:
  assumes "hart_ok (ndmreset p) h" "\<not> is_nonexistent p (int i)" "halted h"
    "int i = hartsel_of v" "bit v 30" "\<not> bit v 31" "\<not> bit v 1" "\<not> bit v 29" "\<not> hartreset_level p"
  shows "halted (hart_next p v i h) = step_armed p \<and> running (hart_next p v i h) = (\<not> step_armed p) \<and>
    resume_ack (hart_next p v i h)"
  using assms by (auto simp: hart_next_defs hart_ok_def)

lemma hart_next_resume_running:
  assumes "hart_ok (ndmreset p) h" "\<not> is_nonexistent p (int i)" "\<not> halted h"
    "int i = hartsel_of v" "bit v 30" "\<not> bit v 31" "\<not> bit v 1" "\<not> bit v 29"
    "\<not> ndmreset p" "\<not> hartreset_level p"
  shows "\<not> halted (hart_next p v i h) \<and> running (hart_next p v i h) \<and> \<not> resume_ack (hart_next p v i h)"
  using assms by (auto simp: hart_next_defs hart_ok_def)


lemma hart_next_havereset:
  assumes "hart_ok (ndmreset p) h" "\<not> is_nonexistent p (int i)"
  shows "havereset (hart_next p v i h) \<longleftrightarrow>
    (havereset h \<or> bit v 1 \<noteq> ndmreset p \<or>
      (int i = hartsel_of v \<and> hartreset_level p \<and> \<not> (bit v 29 \<and> supports_hartreset p))) \<and>
    \<not> (int i = hartsel_of v \<and> bit v 28)"
  using assms by (auto simp: hart_next_def hart_ready_def hart_base_def)

lemma hart_next_release:
  assumes "hart_ok (ndmreset p) h" "\<not> is_nonexistent p (int i)" "ndmreset p" "\<not> bit v 1" "int i \<noteq> hartsel_of v"
  shows "halted (hart_next p v i h) \<longleftrightarrow> (reset_haltreq h \<or> halt_request h) \<and> \<not> hart_reset h"
  using assms by (auto simp: hart_next_defs hart_ok_def release_from_reset_def)

lemma hart_next_other:
  assumes "hart_ok (ndmreset p) h" "\<not> is_nonexistent p (int i)" "bit v 1 = ndmreset p" "int i \<noteq> hartsel_of v"
  shows "hart_next p v i h = h"
  using assms by (auto simp: hart_next_defs hart_ok_def release_from_reset_def)

lemma hart_next_halt:
  assumes "hart_ok (ndmreset p) h" "\<not> is_nonexistent p (int i)" "\<not> hart_reset h \<or> hartreset_level p"
    "int i = hartsel_of v" "bit v 31" "\<not> bit v 1" "\<not> bit v 29"
  shows "halted (hart_next p v i h) \<and> \<not> running (hart_next p v i h)"
  using assms by (auto simp: hart_next_defs hart_ok_def release_from_reset_def)


lemma reachable_hart:
  assumes "reachable p" "i < length (harts p)"
  shows "hart_ok (ndmreset p) (harts p ! i)" "\<not> is_nonexistent p (int i)"
  using reachable_rc_inv [OF assms(1)] assms(2) rc_inv_hart rc_inv_exists by blast+

lemma nth_on_write_dmcontrol:
  assumes "bit v 0" "i < length (harts p)"
  shows "harts (on_write ADDR_DMCONTROL v p) ! i = hart_next p (take_bit 32 v) i (harts p ! i)"
    and "length (harts (on_write ADDR_DMCONTROL v p)) = length (harts p)"
    and "hartsel (on_write ADDR_DMCONTROL v p) = hartsel_of v"
  using assms unfolding on_write_dmcontrol by simp_all

text \<open>
  Writing \<^verbatim>\<open>haltreq\<close> for an existing hart with no reset asserted makes \<^verbatim>\<open>dmstatus\<close> report it
  all halted and not running, and leaves every other hart untouched.
\<close>

lemma haltreq_halts:
  assumes "reachable p" "i < length (harts p)" "\<not> hart_reset (harts p ! i) \<or> hartreset_level p"
    and "hartsel_of v = int i" "bit v 0" "bit v 31" "\<not> bit v 1" "\<not> bit v 29"
  shows "bit (expect_dmstatus (on_write ADDR_DMCONTROL v p)) 9 \<and>
    \<not> bit (expect_dmstatus (on_write ADDR_DMCONTROL v p)) 11 \<and>
    (\<not> ndmreset p \<longrightarrow>
      (\<forall>j < length (harts p). j \<noteq> i \<longrightarrow> harts (on_write ADDR_DMCONTROL v p) ! j = harts p ! j))"
proof -
  note q = nth_on_write_dmcontrol [OF assms(5)]
  let ?v = "take_bit 32 v"
  have b: "bit ?v 31" "\<not> bit ?v 1" "\<not> bit ?v 29" "int i = hartsel_of ?v"
    using assms(4-8) by (simp_all add: bit_take_bit_iff)
  have "halted (hart_next p ?v i (harts p ! i)) \<and> \<not> running (hart_next p ?v i (harts p ! i))"
    using hart_next_halt [OF reachable_hart [OF assms(1,2)] assms(3) b(4,1-3)] .
  then have "bit (expect_dmstatus (on_write ADDR_DMCONTROL v p)) 9"
    "\<not> bit (expect_dmstatus (on_write ADDR_DMCONTROL v p)) 11"
    using assms(2,4) by (simp_all only: dmstatus_of_selected [where i=i] q not_False_eq_True)
  moreover have "\<not> ndmreset p \<longrightarrow>
      (\<forall>j < length (harts p). j \<noteq> i \<longrightarrow> harts (on_write ADDR_DMCONTROL v p) ! j = harts p ! j)"
    using hart_next_other [OF reachable_hart [OF assms(1)]] b(2) assms(4) q(1) by (auto simp del: One_nat_def)
  ultimately show ?thesis by blast
qed

text \<open>
  Writing \<^verbatim>\<open>resumereq\<close> for a halted hart sets \<^verbatim>\<open>allresumeack\<close>; the hart is reported running
  unless \<^verbatim>\<open>dcsr.step\<close> was armed, in which case it is reported halted again.
\<close>

lemma resumereq_resumes:
  assumes "reachable p" "i < length (harts p)" "halted (harts p ! i)" "\<not> hartreset_level p"
    and "hartsel_of v = int i" "bit v 0" "bit v 30" "\<not> bit v 31" "\<not> bit v 1" "\<not> bit v 29"
  shows "bit (expect_dmstatus (on_write ADDR_DMCONTROL v p)) 17 \<and>
    bit (expect_dmstatus (on_write ADDR_DMCONTROL v p)) 9 = step_armed p \<and>
    bit (expect_dmstatus (on_write ADDR_DMCONTROL v p)) 11 = (\<not> step_armed p)"
proof -
  note q = nth_on_write_dmcontrol [OF assms(6)]
  let ?v = "take_bit 32 v"
  have b: "bit ?v 30" "\<not> bit ?v 31" "\<not> bit ?v 1" "\<not> bit ?v 29" "int i = hartsel_of ?v"
    using assms(5-10) by (simp_all add: bit_take_bit_iff)
  from hart_next_resume_halted [OF reachable_hart [OF assms(1,2)] assms(3) b(5,1-4) assms(4)]
  show ?thesis
    using assms(2,5) by (simp only: dmstatus_of_selected [where i=i] q)
qed

text \<open>
  \<^verbatim>\<open>havereset\<close> of a hart after a \<^verbatim>\<open>dmcontrol\<close> write: it was set, or an \<^verbatim>\<open>ndmreset\<close> edge or
  the release of the selected hart's reset sets it, unless the write acknowledges it for this hart.
\<close>

lemma havereset_lifecycle:
  assumes "reachable p" "i < length (harts p)" "bit v 0"
  shows "havereset (harts (on_write ADDR_DMCONTROL v p) ! i) \<longleftrightarrow>
    (havereset (harts p ! i) \<or> bit v 1 \<noteq> ndmreset p \<or>
      (int i = hartsel_of v \<and> hartreset_level p \<and> \<not> (bit v 29 \<and> supports_hartreset p))) \<and>
    \<not> (int i = hartsel_of v \<and> bit v 28)"
  using hart_next_havereset [OF reachable_hart [OF assms(1,2)], of "take_bit 32 v"] 
    nth_on_write_dmcontrol(1) [OF assms(3,2)]
  by (simp add: bit_take_bit_iff del: One_nat_def)

text \<open>
  C17. When a write that keeps the module active releases \<^verbatim>\<open>ndmreset\<close>, a hart the write does not select comes up halted exactly
  when it has a halt-on-reset or halt request pending and is not held by its own \<^verbatim>\<open>hartreset\<close>.
\<close>

theorem ndmreset_release_halts:
  assumes "reachable p" "ndmreset p" "i < length (harts p)" "bit v 0" "\<not> bit v 1" "int i \<noteq> hartsel_of v"
  shows "halted (harts (on_write ADDR_DMCONTROL v p) ! i) \<longleftrightarrow>
      (reset_haltreq (harts p ! i) \<or> halt_request (harts p ! i)) \<and> \<not> hart_reset (harts p ! i)"
  using hart_next_release [OF reachable_hart [OF assms(1,3)] assms(2), of "take_bit 32 v"] assms
    nth_on_write_dmcontrol(1) [OF assms(4,3)]
  by (simp add: bit_take_bit_iff del: One_nat_def)


theorem ndmreset_release_halts_witness:
  "halted (harts (on_write ADDR_DMCONTROL 0x00000001 sample_reset) ! 1)"
proof -
  have "ndmreset sample_reset" "1 < length (harts sample_reset)" "hartsel_of 0x00000001 = 0"
    "reset_haltreq (harts sample_reset ! 1)" "\<not> hart_reset (harts sample_reset ! 1)" by code_simp+
  moreover have "bit (0x00000001::int) 0" "\<not> bit (0x00000001::int) 1" by code_simp+
  ultimately show ?thesis
    using ndmreset_release_halts [OF reachable_samples(2), of 1 "0x00000001"] by (metis of_nat_0 of_nat_eq_iff zero_neq_one)
qed

subsection \<open>Deactivating the Debug Module\<close>

text \<open>
  Writing \<^verbatim>\<open>dmactive=0\<close> resets the Debug Module and not the harts: halted, running and
  \<^verbatim>\<open>havereset\<close> survive, every request is dropped, and only \<^verbatim>\<open>dmcontrol\<close> and \<^verbatim>\<open>dmstatus\<close> keep a
  predicted value.
\<close>

lemma dmactive_low_resets:
  assumes "reachable p" "\<not> bit v 0" "i < length (harts p)"
  shows "harts (on_write ADDR_DMCONTROL v p) ! i =
      HartState_default\<lparr>halted := halted (harts p ! i), running := running (harts p ! i),
        havereset := havereset (harts p ! i), resume_ack := resumeack_reset p\<rparr> \<and>
    length (harts (on_write ADDR_DMCONTROL v p)) = length (harts p) \<and>
    cfg (on_write ADDR_DMCONTROL v p) = cfg p \<and>
    (\<forall>addr. has_model (on_write ADDR_DMCONTROL v p) addr \<longleftrightarrow> addr \<in> {ADDR_DMCONTROL, ADDR_DMSTATUS})"
proof -
  have q: "on_write ADDR_DMCONTROL v p = reset_dm False p" unfolding on_write_dmcontrol using assms(2) by simp
  have n: "length (harts p) = nat (num_harts p)" "1 \<le> num_harts p"
    using reachable_rc_inv [OF assms(1)] by (simp_all add: rc_inv_def)
  have "has_model (reset_dm False p) addr \<longleftrightarrow> addr \<in> {ADDR_DMCONTROL, ADDR_DMSTATUS}" for addr
    by (auto simp: has_model_def Let_def)
  then show ?thesis unfolding q using n assms(3)
    by (simp add: nth_reset_dm reset_hart_def HartState_default_def)
qed

subsection \<open>System bus blocks\<close>

lemma take32_concat_add: "take_bit 32 ((push_bit 32 x OR y) + c) = take_bit 32 (y + c :: int)"
proof -
  have "take_bit 32 (push_bit 32 x OR y) = take_bit 32 y"
    by (rule bit_eqI) (auto simp: bit_simps)
  then have "take_bit 32 (take_bit 32 (push_bit 32 x OR y) + c) = take_bit 32 (take_bit 32 y + c)" by simp
  then show ?thesis by (simp add: take_bit_eq_mod mod_add_left_eq)
qed

text \<open>The bytes an access advances the address by.\<close>

definition sba_stride :: "DMPredictor \<Rightarrow> int" where
  "sba_stride p = 2 ^ nat (sbaccess p)"

lemma sba_stride_pos: "0 < sba_stride p" "0 \<le> sba_stride p * int n"
  by (simp_all add: sba_stride_def)

lemma sba_autoincrement_address:
  assumes "sbautoincrement p"
  shows "sbaddress0 (sba_autoincrement p) = take_bit 32 (sbaddress0 p + sba_stride p)"
  using assms take32_concat_add [of "sbaddress1 p" "sbaddress0 p" "sba_stride p"]
  by (simp add: sba_autoincrement_def sba_stride_def Let_def push_bit_eq_mult)

lemma sba_autoincrement_same [simp]:
  "shadow_mem (sba_autoincrement p) = shadow_mem p" "sbautoincrement (sba_autoincrement p) = sbautoincrement p"
  "sbaccess (sba_autoincrement p) = sbaccess p" "sbreadondata (sba_autoincrement p) = sbreadondata p"
  "sbdata0_pending_valid (sba_autoincrement p) = sbdata0_pending_valid p"
  "sbdata0_pending_value (sba_autoincrement p) = sbdata0_pending_value p"
  by (simp_all add: sba_autoincrement_def Let_def)

lemma on_write_sbdata0: "on_write ADDR_SBDATA0 v p = write_sbdata0 (take_bit 32 v) p"
  by (simp add: on_write_def guarded_while_busy_def is_data_def is_progbuf_def)

text \<open>Reference: the words of a block stored at consecutive word addresses.\<close>

fun store_words :: "int \<Rightarrow> int \<Rightarrow> int list \<Rightarrow> (int \<rightharpoonup> int) \<Rightarrow> (int \<rightharpoonup> int)" where
  "store_words s a [] m = m"
| "store_words s a (v # vs) m = store_words s (a + s) vs (m(a \<mapsto> take_bit 32 v))"

lemma store_words_below: "0 < s \<Longrightarrow> x < a \<Longrightarrow> store_words s a vs m x = m x"
  by (induction vs arbitrary: a m) auto

lemma store_words_nth: "0 < s \<Longrightarrow> k < length vs \<Longrightarrow> store_words s a vs m (a + s * int k) = Some (take_bit 32 (vs ! k))"
proof (induction vs arbitrary: a m k)
  case (Cons v vs)
  show ?case
  proof (cases k)
    case 0
    then show ?thesis using Cons.prems by (simp add: store_words_below)
  next
    case (Suc j)
    have "store_words s (a + s) vs (m(a \<mapsto> take_bit 32 v)) (a + s + s * int j) = Some (take_bit 32 (vs ! j))"
      by (rule Cons.IH) (use Cons.prems Suc in simp_all)
    moreover have "a + s * int k = a + s + s * int j" using Suc by (simp add: algebra_simps)
    ultimately show ?thesis using Suc by (simp only: store_words.simps nth_Cons_Suc)
  qed
qed simp

lemma sbdata0_write_step:
  assumes "sbautoincrement p" "0 \<le> sbaddress0 p" "sbaddress0 p + sba_stride p < 2 ^ 32" and r_def: "r = on_write ADDR_SBDATA0 v p"
  shows "sbaddress0 r = sbaddress0 p + sba_stride p" "sbautoincrement r" "sba_stride r = sba_stride p"
    "shadow_mem r = (shadow_mem p)(sbaddress0 p \<mapsto> take_bit 32 v)"
proof -
  have "0 \<le> sbaddress0 p + sba_stride p" using assms(2) sba_stride_pos(1) [of p] by linarith
  moreover have "sba_stride (p\<lparr>shadow_mem := m\<rparr>) = sba_stride p" for m by (simp add: sba_stride_def)
  ultimately show "sbaddress0 r = sbaddress0 p + sba_stride p"
    unfolding r_def on_write_sbdata0 write_sbdata0_def using assms(1,3) by (simp add: sba_autoincrement_address take_bit_int_eq_self)
  show "sbautoincrement r" "sba_stride r = sba_stride p" "shadow_mem r = (shadow_mem p)(sbaddress0 p \<mapsto> take_bit 32 v)"
    unfolding r_def on_write_sbdata0 write_sbdata0_def using assms(1) by (simp_all add: sba_stride_def)
qed

lemma sba_block_write_steps:
  assumes "sbautoincrement p" "0 \<le> sbaddress0 p" "sbaddress0 p + sba_stride p * int (length vs) < 2 ^ 32"
  shows "sbaddress0 (fold (on_write ADDR_SBDATA0) vs p) = sbaddress0 p + sba_stride p * int (length vs) \<and>
    shadow_mem (fold (on_write ADDR_SBDATA0) vs p) = store_words (sba_stride p) (sbaddress0 p) vs (shadow_mem p)"
  using assms
proof (induction vs arbitrary: p)
  case (Cons v vs)
  define r where "r = on_write ADDR_SBDATA0 v p"
  have "sbaddress0 p + sba_stride p < 2 ^ 32" using Cons.prems(3) sba_stride_pos(2) [of p "length vs"] by (simp add: distrib_left)
  note r = sbdata0_write_step [OF Cons.prems(1,2) this r_def]
  moreover have "fold (on_write ADDR_SBDATA0) (v # vs) p = fold (on_write ADDR_SBDATA0) vs r"
    by (simp add: r_def)
  moreover have "0 \<le> sbaddress0 r" using r(1) Cons.prems(2) sba_stride_pos(1) [of p] by simp
  ultimately show ?case using Cons.IH [of r] Cons.prems by (simp add: fun_upd_def distrib_left)
qed simp

text \<open>
  With \<^verbatim>\<open>sbautoincrement\<close>, consecutive writes of \<^verbatim>\<open>sbdata0\<close> store the words
  at consecutive addresses from \<^verbatim>\<open>sbaddress0\<close> on, as far apart as the access size \<^verbatim>\<open>sbaccess\<close>, advance the
  address past them and leave the memory below alone.
\<close>

lemma sba_block_write:
  assumes "sbautoincrement p" "0 \<le> sbaddress0 p" "sbaddress0 p + sba_stride p * int (length vs) < 2 ^ 32"
    and "k < length vs"
  shows "shadow_mem (fold (on_write ADDR_SBDATA0) vs p) (sbaddress0 p + sba_stride p * int k) = Some (take_bit 32 (vs ! k)) \<and>
    sbaddress0 (fold (on_write ADDR_SBDATA0) vs p) = sbaddress0 p + sba_stride p * int (length vs) \<and>
    (\<forall>x < sbaddress0 p. shadow_mem (fold (on_write ADDR_SBDATA0) vs p) x = shadow_mem p x)"
  using sba_block_write_steps [OF assms(1-3)] store_words_nth [OF sba_stride_pos(1) assms(4)] store_words_below [OF sba_stride_pos(1)] by metis

lemma observe_sbdata0: "observe_read ADDR_SBDATA0 p = sbdata0_read_effects p"
  by (simp add: observe_read_def is_data_def is_progbuf_def)

lemma sba_arm_read_same [simp]:
  "sbaddress0 (sba_arm_read a r) = sbaddress0 r" "shadow_mem (sba_arm_read a r) = shadow_mem r"
  "sbautoincrement (sba_arm_read a r) = sbautoincrement r" "sbaccess (sba_arm_read a r) = sbaccess r"
  "sbreadondata (sba_arm_read a r) = sbreadondata r" "cfg (sba_arm_read a r) = cfg r"
  by (simp_all add: sba_arm_read_def Let_def split: option.split)

lemma observe_sbdata0_step:
  assumes "sbautoincrement q" "sbreadondata q" "0 \<le> sbaddress0 q" "sbaddress0 q + sba_stride q < 2 ^ 32"
  shows "sbaddress0 (observe_read ADDR_SBDATA0 q) = sbaddress0 q + sba_stride q" "shadow_mem (observe_read ADDR_SBDATA0 q) = shadow_mem q"
    "sbautoincrement (observe_read ADDR_SBDATA0 q)" "sba_stride (observe_read ADDR_SBDATA0 q) = sba_stride q"
    "sbreadondata (observe_read ADDR_SBDATA0 q)" "cfg (observe_read ADDR_SBDATA0 q) = cfg q"
    "shadow_mem q (sbaddress0 q) = Some v \<Longrightarrow> sbdata0_pending_value (observe_read ADDR_SBDATA0 q) = v \<and>
       sbdata0_pending_valid (observe_read ADDR_SBDATA0 q)"
proof -
  have nn: "0 \<le> sbaddress0 q + 2 ^ nat (sbaccess q)" using assms(3) sba_stride_pos(1) [of q] by (simp add: sba_stride_def)
  have "cfg (sba_autoincrement r) = cfg r" for r by (simp add: sba_autoincrement_def Let_def)
  moreover have "observe_read ADDR_SBDATA0 q = sba_autoincrement (sba_arm_read (sbaddress0 q) q)"
    unfolding observe_sbdata0 sbdata0_read_effects_def using assms(2) by simp
  ultimately show "sbaddress0 (observe_read ADDR_SBDATA0 q) = sbaddress0 q + sba_stride q" "shadow_mem (observe_read ADDR_SBDATA0 q) = shadow_mem q"
    "sbautoincrement (observe_read ADDR_SBDATA0 q)" "sba_stride (observe_read ADDR_SBDATA0 q) = sba_stride q"
    "sbreadondata (observe_read ADDR_SBDATA0 q)" "cfg (observe_read ADDR_SBDATA0 q) = cfg q"
    "shadow_mem q (sbaddress0 q) = Some v \<Longrightarrow> sbdata0_pending_value (observe_read ADDR_SBDATA0 q) = v \<and>
       sbdata0_pending_valid (observe_read ADDR_SBDATA0 q)"
    using assms nn by (simp_all add: sba_autoincrement_address take_bit_int_eq_self sba_stride_def)
      (simp add: sba_arm_read_def)
qed

lemma sba_block_read_steps:
  assumes "sbautoincrement p" "sbreadondata p" "0 \<le> sbaddress0 p"
    "sbaddress0 p + sba_stride p * int n < 2 ^ 32" "q = (observe_read ADDR_SBDATA0 ^^ n) p"
  shows "sbaddress0 q = sbaddress0 p + sba_stride p * int n \<and> shadow_mem q = shadow_mem p \<and>
    sbautoincrement q \<and> sba_stride q = sba_stride p \<and> sbreadondata q \<and> cfg q = cfg p"
  using assms(4,5)
proof (induction n arbitrary: q)
  case (Suc n)
  define r where "r = (observe_read ADDR_SBDATA0 ^^ n) p"
  have "sbaddress0 p + sba_stride p * int n < 2 ^ 32" using Suc.prems(1) sba_stride_pos(1) [of p] by (simp add: distrib_left)
  from Suc.IH [OF this r_def]
  have "sbaddress0 r = sbaddress0 p + sba_stride p * int n" "shadow_mem r = shadow_mem p" "sbautoincrement r"
    "sba_stride r = sba_stride p" "sbreadondata r" "cfg r = cfg p" by simp_all
  moreover have "q = observe_read ADDR_SBDATA0 r" using Suc.prems(2) by (simp add: r_def)
  ultimately show ?case using observe_sbdata0_step [of r] Suc.prems(1) assms(3) sba_stride_pos(2) [of p n] by (simp add: distrib_left)
qed (use assms in simp)

text \<open>
  With \<^verbatim>\<open>sbreadondata\<close> and \<^verbatim>\<open>sbautoincrement\<close>, the word predicted after \<open>n + 1\<close> reads of
  \<^verbatim>\<open>sbdata0\<close> is the one stored \<open>n\<close> accesses past \<^verbatim>\<open>sbaddress0\<close>.
\<close>

lemma sba_block_read:
  assumes "sbautoincrement p" "sbreadondata p" "0 \<le> sbaddress0 p"
    "sbaddress0 p + sba_stride p * int n + sba_stride p < 2 ^ 32" "cfg_sba_enable (cfg p)"
    "shadow_mem p (sbaddress0 p + sba_stride p * int n) = Some v"
  shows "predict ((observe_read ADDR_SBDATA0 ^^ Suc n) p) ADDR_SBDATA0 = v"
proof -
  define r where "r = (observe_read ADDR_SBDATA0 ^^ n) p"
  have "sbaddress0 p + sba_stride p * int n < 2 ^ 32" using assms(4) sba_stride_pos(1) [of p] by linarith
  from sba_block_read_steps [OF assms(1-3) this r_def]
  have r: "sbaddress0 r = sbaddress0 p + sba_stride p * int n" "shadow_mem r = shadow_mem p" "sbautoincrement r"
    "sba_stride r = sba_stride p" "sbreadondata r" "cfg r = cfg p" by simp_all
  with observe_sbdata0_step(6) [of r] observe_sbdata0_step(7) [of r v] assms(3-6) sba_stride_pos(2) [of p n]
  have "sbdata0_pending_value (observe_read ADDR_SBDATA0 r) = v" "cfg (observe_read ADDR_SBDATA0 r) = cfg p"
    by simp_all
  then have "predict (observe_read ADDR_SBDATA0 r) ADDR_SBDATA0 = v"
    using assms(5) by (simp add: predict_def is_data_def is_progbuf_def)
  then show ?thesis by (simp add: r_def)
qed

end
