(* ===== verification/RiscvWords.thy ===== *)
theory RiscvWords
  imports PredictorProps
begin

text \<open>
  The word helpers of the command library, \<^verbatim>\<open>src/src/pydebug/api/riscv_dm.py\<close>: the encoders of
  \<^verbatim>\<open>dmcontrol\<close> and \<^verbatim>\<open>dmcs2\<close> (their keyword arguments are records with the defaults of the
  signature) and the field accessors. The library spells the bit positions out again instead of
  importing \<^verbatim>\<open>registers.py\<close>; the properties below show that the two agree.
\<close>

unbundle bit_operations_syntax

subsection \<open>Encoding and decoding the words\<close>

record dmcontrol_args =
  a_dmactive :: bool
  a_hartreset :: bool
  a_resumereq :: bool
  a_haltreq :: bool
  a_ackhavereset :: bool
  a_hartsel :: int
  a_ndmreset :: bool
  a_setresethaltreq :: bool
  a_clrresethaltreq :: bool
  a_ackunavail :: bool
  a_hasel :: bool
  a_setkeepalive :: bool
  a_clrkeepalive :: bool

definition dmcontrol_defaults :: dmcontrol_args where
  "dmcontrol_defaults = \<lparr>a_dmactive = False, a_hartreset = False, a_resumereq = False,
     a_haltreq = False, a_ackhavereset = False, a_hartsel = 0, a_ndmreset = False,
     a_setresethaltreq = False, a_clrresethaltreq = False, a_ackunavail = False,
     a_hasel = False, a_setkeepalive = False, a_clrkeepalive = False\<rparr>"

definition dmcontrol :: "dmcontrol_args \<Rightarrow> int" where
  "dmcontrol a =
     (let v = int_of_bool (a_dmactive a);
          v = v OR push_bit 1 (int_of_bool (a_ndmreset a));
          v = v OR push_bit 2 (int_of_bool (a_clrresethaltreq a));
          v = v OR push_bit 3 (int_of_bool (a_setresethaltreq a));
          v = v OR push_bit 4 (int_of_bool (a_clrkeepalive a));
          v = v OR push_bit 5 (int_of_bool (a_setkeepalive a));
          v = v OR push_bit 6 (drop_bit 10 (a_hartsel a) AND 0x3FF);
          v = v OR push_bit 16 (a_hartsel a AND 0x3FF);
          v = v OR push_bit 26 (int_of_bool (a_hasel a));
          v = v OR push_bit 27 (int_of_bool (a_ackunavail a));
          v = v OR push_bit 28 (int_of_bool (a_ackhavereset a));
          v = v OR push_bit 29 (int_of_bool (a_hartreset a));
          v = v OR push_bit 30 (int_of_bool (a_resumereq a));
          v = v OR push_bit 31 (int_of_bool (a_haltreq a))
      in v)"

definition dmcontrol_hartsel :: "int \<Rightarrow> int" where
  "dmcontrol_hartsel w =
     (let hi = drop_bit 6 w AND 0x3FF; lo = drop_bit 16 w AND 0x3FF in push_bit 10 hi OR lo)"

definition dmcontrol_dmactive :: "int \<Rightarrow> bool" where
  "dmcontrol_dmactive w = truth (w AND 1)"

definition dmcontrol_ndmreset :: "int \<Rightarrow> bool" where
  "dmcontrol_ndmreset w = truth (drop_bit 1 w AND 1)"

definition dmcontrol_hartreset :: "int \<Rightarrow> bool" where
  "dmcontrol_hartreset w = truth (drop_bit 29 w AND 1)"

definition dmcontrol_hasel :: "int \<Rightarrow> bool" where
  "dmcontrol_hasel w = truth (drop_bit 26 w AND 1)"

definition allhalted :: "int \<Rightarrow> bool" where
  "allhalted w = truth (drop_bit 9 w AND 1)"

definition anyhalted :: "int \<Rightarrow> bool" where
  "anyhalted w = truth (drop_bit 8 w AND 1)"

definition allrunning :: "int \<Rightarrow> bool" where
  "allrunning w = truth (drop_bit 11 w AND 1)"

definition anyrunning :: "int \<Rightarrow> bool" where
  "anyrunning w = truth (drop_bit 10 w AND 1)"

definition anyunavail :: "int \<Rightarrow> bool" where
  "anyunavail w = truth (drop_bit 12 w AND 1)"

definition allresumeack :: "int \<Rightarrow> bool" where
  "allresumeack w = truth (drop_bit 17 w AND 1)"

definition anyresumeack :: "int \<Rightarrow> bool" where
  "anyresumeack w = truth (drop_bit 16 w AND 1)"

definition allhavereset :: "int \<Rightarrow> bool" where
  "allhavereset w = truth (drop_bit 19 w AND 1)"

definition anyhavereset :: "int \<Rightarrow> bool" where
  "anyhavereset w = truth (drop_bit 18 w AND 1)"

definition allnonexistent :: "int \<Rightarrow> bool" where
  "allnonexistent w = truth (drop_bit 15 w AND 1)"

definition anynonexistent :: "int \<Rightarrow> bool" where
  "anynonexistent w = truth (drop_bit 14 w AND 1)"

definition hasresethaltreq_of :: "int \<Rightarrow> bool" where
  "hasresethaltreq_of w = truth (drop_bit 5 w AND 1)"

definition ndmresetpending :: "int \<Rightarrow> bool" where
  "ndmresetpending w = truth (drop_bit 24 w AND 1)"

definition version_of :: "int \<Rightarrow> int" where
  "version_of w = w AND 0xF"

record dmcs2_args =
  g_hgselect :: bool
  g_hgwrite :: bool
  g_group :: int
  g_dmexttrigger :: int
  g_grouptype :: bool

definition dmcs2_defaults :: dmcs2_args where
  "dmcs2_defaults = \<lparr>g_hgselect = False, g_hgwrite = False, g_group = 0, g_dmexttrigger = 0,
     g_grouptype = False\<rparr>"

definition dmcs2 :: "dmcs2_args \<Rightarrow> int" where
  "dmcs2 g =
     (let v = int_of_bool (g_hgselect g);
          v = v OR push_bit 1 (int_of_bool (g_hgwrite g));
          v = v OR push_bit 2 (g_group g AND 0x1F);
          v = v OR push_bit 7 (g_dmexttrigger g AND 0xF);
          v = v OR push_bit 11 (int_of_bool (g_grouptype g))
      in v)"

definition dmcs2_hgselect :: "int \<Rightarrow> bool" where
  "dmcs2_hgselect w = truth (w AND 1)"

definition dmcs2_group :: "int \<Rightarrow> int" where
  "dmcs2_group w = drop_bit 2 w AND 0x1F"

definition dmcs2_dmexttrigger :: "int \<Rightarrow> int" where
  "dmcs2_dmexttrigger w = drop_bit 7 w AND 0xF"

definition dmcs2_grouptype :: "int \<Rightarrow> bool" where
  "dmcs2_grouptype w = truth (drop_bit 11 w AND 1)"

lemmas accessor_defs =
  dmcontrol_dmactive_def dmcontrol_ndmreset_def dmcontrol_hartreset_def dmcontrol_hasel_def
  allhalted_def anyhalted_def allrunning_def anyrunning_def anyunavail_def allresumeack_def
  anyresumeack_def allhavereset_def anyhavereset_def allnonexistent_def anynonexistent_def
  hasresethaltreq_of_def ndmresetpending_def version_of_def

subsection \<open>Agreement with the register definitions\<close>

lemma bit_push_flag: "bit (push_bit k (int_of_bool b)) n \<longleftrightarrow> n = k \<and> b"
  by (auto simp: int_of_bool_eq bit_push_bit_iff bit_of_bool_int)

lemma bit_push_hartsel:
  "bit (push_bit 6 (drop_bit 10 h AND 0x3FF)) n \<longleftrightarrow> 6 \<le> n \<and> n < 16 \<and> bit (h :: int) (n + 4)"
  "bit (push_bit 16 (h AND 0x3FF)) n \<longleftrightarrow> 16 \<le> n \<and> n < 26 \<and> bit (h :: int) (n - 16)"
proof -
  have "6 \<le> n \<Longrightarrow> 10 + (n - 6) = n + 4" by simp
  then show "bit (push_bit 6 (drop_bit 10 h AND 0x3FF)) n \<longleftrightarrow> 6 \<le> n \<and> n < 16 \<and> bit h (n + 4)"
    by (auto simp: bit_push_bit_iff bit_take_bit_iff bit_drop_bit_eq add.commute)
qed (auto simp: bit_push_bit_iff bit_take_bit_iff)

lemma bit_dmcontrol:
  "bit (dmcontrol a) n \<longleftrightarrow>
     n = 0 \<and> a_dmactive a \<or> n = 1 \<and> a_ndmreset a \<or> n = 2 \<and> a_clrresethaltreq a \<or>
     n = 3 \<and> a_setresethaltreq a \<or> n = 4 \<and> a_clrkeepalive a \<or> n = 5 \<and> a_setkeepalive a \<or>
     6 \<le> n \<and> n < 16 \<and> bit (a_hartsel a) (n + 4) \<or> 16 \<le> n \<and> n < 26 \<and> bit (a_hartsel a) (n - 16) \<or>
     n = 26 \<and> a_hasel a \<or> n = 27 \<and> a_ackunavail a \<or> n = 28 \<and> a_ackhavereset a \<or>
     n = 29 \<and> a_hartreset a \<or> n = 30 \<and> a_resumereq a \<or> n = 31 \<and> a_haltreq a"
proof -
  have "bit (int_of_bool (a_dmactive a)) n \<longleftrightarrow> n = 0 \<and> a_dmactive a"
    using bit_push_flag [of 0 "a_dmactive a" n] by simp
  then show ?thesis
    by (simp only: dmcontrol_def Let_def bit_or_iff bit_push_flag bit_push_hartsel disj_assoc)
qed

lemma dmcontrol_flags [simp]:
  "bit (dmcontrol a) 0 = a_dmactive a" "bit (dmcontrol a) 1 = a_ndmreset a"
  "bit (dmcontrol a) (Suc 0) = a_ndmreset a"
  "bit (dmcontrol a) 2 = a_clrresethaltreq a" "bit (dmcontrol a) 3 = a_setresethaltreq a"
  "bit (dmcontrol a) 4 = a_clrkeepalive a" "bit (dmcontrol a) 5 = a_setkeepalive a"
  "bit (dmcontrol a) 26 = a_hasel a" "bit (dmcontrol a) 27 = a_ackunavail a"
  "bit (dmcontrol a) 28 = a_ackhavereset a" "bit (dmcontrol a) 29 = a_hartreset a"
  "bit (dmcontrol a) 30 = a_resumereq a" "bit (dmcontrol a) 31 = a_haltreq a"
  by (simp_all add: bit_dmcontrol)

lemma dmcontrol_hartsel_bits:
  "n < 10 \<Longrightarrow> bit (dmcontrol a) (n + 6) = bit (a_hartsel a) (n + 10)"
  "n < 10 \<Longrightarrow> bit (dmcontrol a) (n + 16) = bit (a_hartsel a) n"
  unfolding bit_dmcontrol by (simp_all add: add.commute)

lemma hartsel_of_dmcontrol [simp]: "hartsel_of (dmcontrol a) = take_bit 20 (a_hartsel a)"
proof (rule bit_eqI)
  fix n
  have "10 \<le> n \<Longrightarrow> n < 20 \<Longrightarrow> bit (dmcontrol a) (n - 4) = bit (a_hartsel a) n"
    using dmcontrol_hartsel_bits(1) [of "n - 10" a] by simp
  then show "bit (hartsel_of (dmcontrol a)) n = bit (take_bit 20 (a_hartsel a)) n"
    by (simp add: bit_hartsel_of bit_take_bit_iff dmcontrol_hartsel_bits)
qed

lemma dmcontrol_word [simp]: "take_bit 32 (dmcontrol a) = dmcontrol a"
proof -
  have "n < 32" if "bit (dmcontrol a) n" for n
    using that unfolding bit_dmcontrol by (elim disjE) simp_all
  then show ?thesis by (intro bit_eqI) (auto simp: bit_take_bit_iff)
qed

definition dmcontrol_kvs :: "dmcontrol_args \<Rightarrow> (string \<times> int) list" where
  "dmcontrol_kvs a =
     [(''haltreq'', int_of_bool (a_haltreq a)), (''resumereq'', int_of_bool (a_resumereq a)),
      (''hartreset'', int_of_bool (a_hartreset a)), (''ackhavereset'', int_of_bool (a_ackhavereset a)),
      (''ackunavail'', int_of_bool (a_ackunavail a)), (''hasel'', int_of_bool (a_hasel a)),
      (''hartsello'', take_bit 10 (a_hartsel a)), (''hartselhi'', take_bit 10 (drop_bit 10 (a_hartsel a))),
      (''setkeepalive'', int_of_bool (a_setkeepalive a)), (''clrkeepalive'', int_of_bool (a_clrkeepalive a)),
      (''setresethaltreq'', int_of_bool (a_setresethaltreq a)),
      (''clrresethaltreq'', int_of_bool (a_clrresethaltreq a)),
      (''ndmreset'', int_of_bool (a_ndmreset a)), (''dmactive'', int_of_bool (a_dmactive a))]"

text \<open>
  The hand-written \<^verbatim>\<open>dmcontrol\<close> encoder of the command library and the register definition
  agree: decoding the encoder's word with \<^verbatim>\<open>DMCONTROL\<close> returns every argument in its field.
\<close>

lemma dmcontrol_decodes: "decode DMCONTROL (dmcontrol a) = dmcontrol_kvs a"
proof -
  have "take_bit 10 (drop_bit 16 (dmcontrol a)) = take_bit 10 (a_hartsel a)"
    "take_bit 10 (drop_bit 6 (dmcontrol a)) = take_bit 10 (drop_bit 10 (a_hartsel a))"
    by (intro bit_eqI; simp add: bit_take_bit_iff bit_drop_bit_eq dmcontrol_hartsel_bits add.commute
        cong: conj_cong)+
  moreover have "extract_field (mkField nm l 1 ac sp rs) w = of_bool (bit w l)"
    "extract_field (mkField nm l 10 ac sp rs) w = take_bit 10 (drop_bit l w)"
    "f_name (mkField nm l k ac sp rs) = nm" for nm l k ac sp rs w
    by (simp_all add: extract_one_bit extract_field_eq mkField_def mod_2_bit)
  ultimately show ?thesis
    by (simp add: decode_def DMCONTROL_def dmcontrol_kvs_def int_of_bool_eq)
qed

text \<open>
  The accessors of the command library read the fields the register definitions name: the
  \<^verbatim>\<open>dmcontrol\<close> and \<^verbatim>\<open>dmstatus\<close> accessors agree with \<^verbatim>\<open>DMCONTROL\<close> and \<^verbatim>\<open>DMSTATUS\<close> on every word.
\<close>

lemma accessors_agree:
  "dmcontrol_hartsel w = hartsel_of w \<and>
   dmcontrol_dmactive w = truth (item (decode DMCONTROL w) ''dmactive'') \<and>
   dmcontrol_ndmreset w = truth (item (decode DMCONTROL w) ''ndmreset'') \<and>
   dmcontrol_hartreset w = truth (item (decode DMCONTROL w) ''hartreset'') \<and>
   dmcontrol_hasel w = truth (item (decode DMCONTROL w) ''hasel'') \<and>
   allhalted w = truth (item (decode DMSTATUS w) ''allhalted'') \<and>
   anyhalted w = truth (item (decode DMSTATUS w) ''anyhalted'') \<and>
   allrunning w = truth (item (decode DMSTATUS w) ''allrunning'') \<and>
   anyrunning w = truth (item (decode DMSTATUS w) ''anyrunning'') \<and>
   anyunavail w = truth (item (decode DMSTATUS w) ''anyunavail'') \<and>
   allresumeack w = truth (item (decode DMSTATUS w) ''allresumeack'') \<and>
   anyresumeack w = truth (item (decode DMSTATUS w) ''anyresumeack'') \<and>
   allhavereset w = truth (item (decode DMSTATUS w) ''allhavereset'') \<and>
   anyhavereset w = truth (item (decode DMSTATUS w) ''anyhavereset'') \<and>
   allnonexistent w = truth (item (decode DMSTATUS w) ''allnonexistent'') \<and>
   anynonexistent w = truth (item (decode DMSTATUS w) ''anynonexistent'') \<and>
   hasresethaltreq_of w = truth (item (decode DMSTATUS w) ''hasresethaltreq'') \<and>
   ndmresetpending w = truth (item (decode DMSTATUS w) ''ndmresetpending'') \<and>
   version_of w = item (decode DMSTATUS w) ''version''"
proof -
  have "dmcontrol_hartsel w = hartsel_of w"
    by (simp add: dmcontrol_hartsel_def hartsel_of_def Let_def hartselhi_field_def hartsello_field_def
        mkField_def extract_field_eq)
  then show ?thesis by (simp add: accessor_defs)
qed

lemma bit_dmcs2:
  "bit (dmcs2 g) n \<longleftrightarrow>
     n = 0 \<and> g_hgselect g \<or> n = 1 \<and> g_hgwrite g \<or> 2 \<le> n \<and> n < 7 \<and> bit (g_group g) (n - 2) \<or>
     7 \<le> n \<and> n < 11 \<and> bit (g_dmexttrigger g) (n - 7) \<or> n = 11 \<and> g_grouptype g"
proof -
  have "bit (int_of_bool (g_hgselect g)) n \<longleftrightarrow> n = 0 \<and> g_hgselect g"
    using bit_push_flag [of 0 "g_hgselect g" n] by simp
  moreover have "bit (push_bit 2 (g_group g AND 0x1F)) n \<longleftrightarrow> 2 \<le> n \<and> n < 7 \<and> bit (g_group g) (n - 2)"
    "bit (push_bit 7 (g_dmexttrigger g AND 0xF)) n \<longleftrightarrow> 7 \<le> n \<and> n < 11 \<and> bit (g_dmexttrigger g) (n - 7)"
    by (auto simp: bit_push_bit_iff bit_take_bit_iff)
  ultimately show ?thesis
    by (simp only: dmcs2_def Let_def bit_or_iff bit_push_flag disj_assoc)
qed

text \<open>
  The \<^verbatim>\<open>dmcs2\<close> encoder and its accessors are inverse, and the word is the one the register
  definition \<^verbatim>\<open>DMCS2\<close> decodes to the same values.
\<close>

lemma dmcs2_round_trip:
  "dmcs2_hgselect (dmcs2 g) = g_hgselect g \<and> dmcs2_group (dmcs2 g) = take_bit 5 (g_group g) \<and>
   dmcs2_dmexttrigger (dmcs2 g) = take_bit 4 (g_dmexttrigger g) \<and>
   dmcs2_grouptype (dmcs2 g) = g_grouptype g \<and>
   decode DMCS2 (dmcs2 g) =
     [(''grouptype'', int_of_bool (g_grouptype g)), (''dmexttrigger'', take_bit 4 (g_dmexttrigger g)),
      (''group'', take_bit 5 (g_group g)), (''hgwrite'', int_of_bool (g_hgwrite g)),
      (''hgselect'', int_of_bool (g_hgselect g))]"
proof -
  have b: "bit (dmcs2 g) 0 = g_hgselect g" "bit (dmcs2 g) 1 = g_hgwrite g" "bit (dmcs2 g) 11 = g_grouptype g"
    by (simp_all add: bit_dmcs2)
  have f: "take_bit 5 (drop_bit 2 (dmcs2 g)) = take_bit 5 (g_group g)"
    "take_bit 4 (drop_bit 7 (dmcs2 g)) = take_bit 4 (g_dmexttrigger g)"
    by (intro bit_eqI; auto simp: bit_take_bit_iff bit_drop_bit_eq bit_dmcs2)+
  have "dmcs2_hgselect (dmcs2 g) = g_hgselect g" "dmcs2_grouptype (dmcs2 g) = g_grouptype g"
    "dmcs2_group (dmcs2 g) = take_bit 5 (g_group g)"
    "dmcs2_dmexttrigger (dmcs2 g) = take_bit 4 (g_dmexttrigger g)"
    by (simp_all add: dmcs2_hgselect_def dmcs2_grouptype_def dmcs2_group_def dmcs2_dmexttrigger_def b f)
  moreover have "extract_field (mkField nm l 1 ac sp rs) w = of_bool (bit w l)"
    "extract_field (mkField nm l k ac sp rs) w = take_bit k (drop_bit l w)"
    "f_name (mkField nm l k ac sp rs) = nm" for nm l k ac sp rs w
    by (simp_all add: extract_one_bit extract_field_eq mkField_def mod_2_bit)
  ultimately show ?thesis
    by (simp add: decode_def DMCS2_def int_of_bool_eq b f b [unfolded One_nat_def] mod_2_bit)
qed

end
