(* ===== verification/RiscvDM.thy ===== *)
theory RiscvDM
  imports RiscvWords
begin

text \<open>
  The class \<^verbatim>\<open>RISCVDebug\<close> of \<^verbatim>\<open>src/src/pydebug/api/riscv_dm.py\<close> over the transport interface of
  \<^verbatim>\<open>src/src/pydebug/api/transport.py\<close>. A transport is a record of its lifecycle and core operations,
  each of which may raise, and of the clock the poll loops read (the \<open>k\<close>-th reading of
  \<^verbatim>\<open>time.monotonic\<close>, in microseconds). The object is the record of the transport's state, the
  tracked \<^verbatim>\<open>hartsel\<close> and the number of clock readings. A method returns \<open>None\<close> when it would
  never return, otherwise the error raised or the value, with the new state. Log messages are
  left out.
\<close>

unbundle bit_operations_syntax

subsection \<open>Transports, errors and the method monad\<close>

datatype dbg_error =
    TransportError string
  | PollTimeout int string int int
  | CmdError int
  | SbError int
  | NoDebugModule
  | Raised py_error

text \<open>The errors that are a \<^verbatim>\<open>DebugError\<close>.\<close>

definition is_debug_error :: "dbg_error \<Rightarrow> bool" where
  "is_debug_error e \<longleftrightarrow> (case e of PollTimeout _ _ _ _ \<Rightarrow> True | CmdError _ \<Rightarrow> True | SbError _ \<Rightarrow> True | NoDebugModule \<Rightarrow> True | _ \<Rightarrow> False)"

record 's transport =
  t_read :: "int \<Rightarrow> 's \<Rightarrow> (dbg_error + int) \<times> 's"
  t_write :: "int \<Rightarrow> int \<Rightarrow> 's \<Rightarrow> (dbg_error + unit) \<times> 's"
  t_connect :: "'s \<Rightarrow> (dbg_error + unit) \<times> 's"
  t_disconnect :: "'s \<Rightarrow> (dbg_error + unit) \<times> 's"
  t_reset :: "'s \<Rightarrow> (dbg_error + unit) \<times> 's"
  t_connected :: "'s \<Rightarrow> bool"
  t_monotonic :: "nat \<Rightarrow> int"

text \<open>\<^verbatim>\<open>DebugTransport.reset\<close> where a transport does not override it.\<close>

definition reset_noop :: "'s \<Rightarrow> (dbg_error + unit) \<times> 's" where
  "reset_noop s = (Inr (), s)"

text \<open>
  \<^verbatim>\<open>with transport as t: body\<close> by \<^verbatim>\<open>__enter__\<close> and \<^verbatim>\<open>__exit__\<close>: the channel is closed however the
  body ends, and an error of closing replaces the outcome of the body.
\<close>

definition with_transport :: "'s transport \<Rightarrow> ('s \<Rightarrow> (dbg_error + 'a) \<times> 's) \<Rightarrow> 's \<Rightarrow> (dbg_error + 'a) \<times> 's" where
  "with_transport T body s =
     (case t_connect T s of
        (Inl e, s1) \<Rightarrow> (Inl e, s1)
      | (Inr _, s1) \<Rightarrow>
          let (r, s2) = body s1; (x, s3) = t_disconnect T s2
          in (case x of Inl e \<Rightarrow> Inl e | Inr _ \<Rightarrow> r, s3))"

record 's RISCVDebug =
  t_state :: 's
  tracked_hartsel :: int
  clock_reads :: nat

type_synonym ('s, 'a) dbg = "'s RISCVDebug \<Rightarrow> ((dbg_error + 'a) \<times> 's RISCVDebug) option"

definition returnD :: "'a \<Rightarrow> ('s, 'a) dbg" where
  "returnD x = (\<lambda>d. Some (Inr x, d))"

definition raiseD :: "dbg_error \<Rightarrow> ('s, 'a) dbg" where
  "raiseD e = (\<lambda>d. Some (Inl e, d))"

definition bindD :: "('s, 'a) dbg \<Rightarrow> ('a \<Rightarrow> ('s, 'b) dbg) \<Rightarrow> ('s, 'b) dbg" where
  "bindD m f = (\<lambda>d. case m d of
      None \<Rightarrow> None
    | Some (Inl e, d1) \<Rightarrow> Some (Inl e, d1)
    | Some (Inr x, d1) \<Rightarrow> f x d1)"

definition seqD :: "('s, unit) dbg \<Rightarrow> ('s, 'b) dbg \<Rightarrow> ('s, 'b) dbg" where
  "seqD m k = bindD m (\<lambda>_. k)"

definition dmi_read :: "'s transport \<Rightarrow> int \<Rightarrow> ('s, int) dbg" where
  "dmi_read T addr = (\<lambda>d.
     let (r, s) = t_read T addr (t_state d) in Some (r, d\<lparr>t_state := s\<rparr>))"

definition dmi_write :: "'s transport \<Rightarrow> int \<Rightarrow> int \<Rightarrow> ('s, unit) dbg" where
  "dmi_write T addr data = (\<lambda>d.
     let (r, s) = t_write T addr data (t_state d) in Some (r, d\<lparr>t_state := s\<rparr>))"

definition get_hartsel :: "('s, int) dbg" where
  "get_hartsel = (\<lambda>d. Some (Inr (tracked_hartsel d), d))"

definition set_hartsel :: "int \<Rightarrow> ('s, unit) dbg" where
  "set_hartsel h = (\<lambda>d. Some (Inr (), d\<lparr>tracked_hartsel := h\<rparr>))"

definition monotonic :: "'s transport \<Rightarrow> ('s, int) dbg" where
  "monotonic T = (\<lambda>d. Some (Inr (t_monotonic T (clock_reads d)), d\<lparr>clock_reads := Suc (clock_reads d)\<rparr>))"

definition DEFAULT_TIMEOUT :: int where
  "DEFAULT_TIMEOUT = 2000000"

definition RISCVDebug_init :: "'s \<Rightarrow> 's RISCVDebug" where
  "RISCVDebug_init s = \<lparr>t_state = s, tracked_hartsel = 0, clock_reads = 0\<rparr>"

subsection \<open>Polling\<close>

text \<open>
  The loop of \<^verbatim>\<open>_poll_until\<close>. The predicate may raise. \<^verbatim>\<open>time.sleep\<close> only lets time pass, which
  the next clock reading shows; the loop has no result when the clock never passes the deadline.
\<close>

partial_function (option) poll_loop ::
  "'s transport \<Rightarrow> (int \<Rightarrow> dbg_error + bool) \<Rightarrow> int \<Rightarrow> string \<Rightarrow> int \<Rightarrow> int \<Rightarrow> 's RISCVDebug \<Rightarrow>
    ((dbg_error + unit) \<times> 's RISCVDebug) option" where
  "poll_loop T predicate register msg timeout deadline d =
     (let (r, s) = t_read T register (t_state d); d1 = d\<lparr>t_state := s\<rparr> in
      case r of
        Inl e \<Rightarrow> Some (Inl e, d1)
      | Inr val \<Rightarrow>
          (case predicate val of
             Inl e \<Rightarrow> Some (Inl e, d1)
           | Inr ok \<Rightarrow>
               if ok then Some (Inr (), d1)
               else if t_monotonic T (clock_reads d1) > deadline
               then Some (Inl (PollTimeout timeout msg register val),
                          d1\<lparr>clock_reads := Suc (clock_reads d1)\<rparr>)
               else poll_loop T predicate register msg timeout deadline
                      (d1\<lparr>clock_reads := Suc (clock_reads d1)\<rparr>)))"

definition poll_until :: "'s transport \<Rightarrow> (int \<Rightarrow> dbg_error + bool) \<Rightarrow> int \<Rightarrow> string \<Rightarrow> int \<Rightarrow> ('s, unit) dbg" where
  "poll_until T predicate register msg timeout =
     bindD (monotonic T) (\<lambda>now.
       poll_loop T predicate register msg timeout (now + timeout))"

definition abstractcs_check :: "int \<Rightarrow> dbg_error + bool" where
  "abstractcs_check v =
     (let busy = truth (drop_bit 12 v AND 1); error = drop_bit 8 v AND 0x7
      in if truth error then Inl (CmdError error) else Inr (\<not> busy))"

definition wait_abstractcs :: "'s transport \<Rightarrow> int \<Rightarrow> ('s, unit) dbg" where
  "wait_abstractcs T timeout =
     poll_until T abstractcs_check ADDR_ABSTRACTCS ''abstractcs.busy=0'' timeout"

definition sbus_check :: "int \<Rightarrow> dbg_error + bool" where
  "sbus_check v =
     (let sbbusy = truth (drop_bit 21 v AND 1); sberror = drop_bit 12 v AND 0x7
      in if truth sberror then Inl (SbError sberror) else Inr (\<not> sbbusy))"

definition wait_sbus :: "'s transport \<Rightarrow> int \<Rightarrow> ('s, unit) dbg" where
  "wait_sbus T timeout = poll_until T sbus_check ADDR_SBCS ''sbcs.sbbusy=0'' timeout"

subsection \<open>Activation and hart selection\<close>

definition write_args :: "'s transport \<Rightarrow> (int \<Rightarrow> dmcontrol_args) \<Rightarrow> ('s, unit) dbg" where
  "write_args T args = bindD get_hartsel (\<lambda>h. dmi_write T ADDR_DMCONTROL (dmcontrol (args h)))"

definition activate :: "'s transport \<Rightarrow> ('s, unit) dbg" where
  "activate T =
     seqD (set_hartsel 0)
    (seqD (dmi_write T ADDR_DMCONTROL
             (dmcontrol (dmcontrol_defaults\<lparr>a_dmactive := True, a_ackhavereset := True\<rparr>)))
    (bindD (dmi_read T ADDR_DMSTATUS) (\<lambda>status.
       if version_of status = 0 then raiseD NoDebugModule else returnD ())))"

definition deactivate :: "'s transport \<Rightarrow> ('s, unit) dbg" where
  "deactivate T =
     seqD (dmi_write T ADDR_DMCONTROL (dmcontrol (dmcontrol_defaults\<lparr>a_dmactive := False\<rparr>)))
          (set_hartsel 0)"

definition select_hart :: "'s transport \<Rightarrow> int \<Rightarrow> ('s, unit) dbg" where
  "select_hart T sel =
     seqD (set_hartsel sel)
          (dmi_write T ADDR_DMCONTROL
             (dmcontrol (dmcontrol_defaults\<lparr>a_dmactive := True, a_hartsel := sel\<rparr>)))"

subsection \<open>Run control and resets\<close>

definition halt :: "'s transport \<Rightarrow> int \<Rightarrow> ('s, unit) dbg" where
  "halt T timeout =
     seqD (write_args T (\<lambda>h. dmcontrol_defaults\<lparr>a_dmactive := True, a_haltreq := True, a_hartsel := h\<rparr>))
    (seqD (poll_until T (\<lambda>s. Inr (allhalted s)) ADDR_DMSTATUS ''allhalted'' timeout)
          (write_args T (\<lambda>h. dmcontrol_defaults\<lparr>a_dmactive := True, a_haltreq := False, a_hartsel := h\<rparr>)))"

definition resume :: "'s transport \<Rightarrow> int \<Rightarrow> ('s, unit) dbg" where
  "resume T timeout =
     seqD (write_args T (\<lambda>h. dmcontrol_defaults\<lparr>a_dmactive := True, a_resumereq := True, a_hartsel := h\<rparr>))
    (seqD (poll_until T (\<lambda>s. Inr (allrunning s)) ADDR_DMSTATUS ''allrunning'' timeout)
          (write_args T (\<lambda>h. dmcontrol_defaults\<lparr>a_dmactive := True, a_resumereq := False, a_hartsel := h\<rparr>)))"

definition resume_no_wait :: "'s transport \<Rightarrow> ('s, unit) dbg" where
  "resume_no_wait T =
     seqD (write_args T (\<lambda>h. dmcontrol_defaults\<lparr>a_dmactive := True, a_resumereq := True, a_hartsel := h\<rparr>))
          (write_args T (\<lambda>h. dmcontrol_defaults\<lparr>a_dmactive := True, a_resumereq := False, a_hartsel := h\<rparr>))"

definition ndmreset_level :: "'s transport \<Rightarrow> bool \<Rightarrow> ('s, unit) dbg" where
  "ndmreset_level T assert_reset =
     write_args T (\<lambda>h. dmcontrol_defaults\<lparr>a_dmactive := True, a_ndmreset := assert_reset, a_hartsel := h\<rparr>)"

definition hartreset_request :: "'s transport \<Rightarrow> bool \<Rightarrow> ('s, unit) dbg" where
  "hartreset_request T assert_reset =
     write_args T (\<lambda>h. dmcontrol_defaults\<lparr>a_dmactive := True, a_hartreset := assert_reset, a_hartsel := h\<rparr>)"

definition ackhavereset :: "'s transport \<Rightarrow> ('s, unit) dbg" where
  "ackhavereset T =
     write_args T (\<lambda>h. dmcontrol_defaults\<lparr>a_dmactive := True, a_ackhavereset := True, a_hartsel := h\<rparr>)"

definition ackunavail :: "'s transport \<Rightarrow> ('s, unit) dbg" where
  "ackunavail T =
     write_args T (\<lambda>h. dmcontrol_defaults\<lparr>a_dmactive := True, a_ackunavail := True, a_hartsel := h\<rparr>)"

definition set_reset_haltreq :: "'s transport \<Rightarrow> ('s, unit) dbg" where
  "set_reset_haltreq T =
     write_args T (\<lambda>h. dmcontrol_defaults\<lparr>a_dmactive := True, a_setresethaltreq := True, a_hartsel := h\<rparr>)"

definition clr_reset_haltreq :: "'s transport \<Rightarrow> ('s, unit) dbg" where
  "clr_reset_haltreq T =
     write_args T (\<lambda>h. dmcontrol_defaults\<lparr>a_dmactive := True, a_clrresethaltreq := True, a_hartsel := h\<rparr>)"

text \<open>
  \<^verbatim>\<open>write_dmcontrol(**fields)\<close>: \<^verbatim>\<open>dmactive\<close> and \<^verbatim>\<open>hartsel\<close> default to the tracked values unless the
  caller names them; \<open>act\<close> and \<open>sel\<close> are what the caller gave for the two.
\<close>

definition write_dmcontrol_fields ::
  "'s transport \<Rightarrow> bool option \<Rightarrow> int option \<Rightarrow> dmcontrol_args \<Rightarrow> ('s, int) dbg" where
  "write_dmcontrol_fields T act sel flds =
     bindD get_hartsel (\<lambda>h.
       let word = dmcontrol (flds
             \<lparr>a_dmactive := (case act of Some b \<Rightarrow> b | None \<Rightarrow> True),
              a_hartsel := (case sel of Some x \<Rightarrow> x | None \<Rightarrow> h)\<rparr>)
       in seqD (dmi_write T ADDR_DMCONTROL word) (returnD word))"

definition read_dmstatus :: "'s transport \<Rightarrow> ('s, int) dbg" where
  "read_dmstatus T = dmi_read T ADDR_DMSTATUS"

definition read_dmcontrol :: "'s transport \<Rightarrow> ('s, int) dbg" where
  "read_dmcontrol T = dmi_read T ADDR_DMCONTROL"

definition read_hartinfo :: "'s transport \<Rightarrow> ('s, int) dbg" where
  "read_hartinfo T = dmi_read T ADDR_HARTINFO"

definition read_haltsum0 :: "'s transport \<Rightarrow> ('s, int) dbg" where
  "read_haltsum0 T = dmi_read T ADDR_HALTSUM0"

subsection \<open>Abstract commands\<close>

definition read_gpr_command :: "int \<Rightarrow> int" where
  "read_gpr_command regno = push_bit 24 0 OR push_bit 20 2 OR (regno AND 0xFFFF) OR push_bit 17 1"

definition write_gpr_command :: "int \<Rightarrow> int" where
  "write_gpr_command regno =
     push_bit 24 0 OR push_bit 20 2 OR (regno AND 0xFFFF) OR push_bit 17 1 OR push_bit 16 1"

definition read_reg64_command :: "int \<Rightarrow> int" where
  "read_reg64_command regno = push_bit 20 3 OR push_bit 17 1 OR (regno AND 0xFFFF)"

definition write_reg64_command :: "int \<Rightarrow> int" where
  "write_reg64_command regno = push_bit 20 3 OR push_bit 17 1 OR push_bit 16 1 OR (regno AND 0xFFFF)"

definition read_gpr :: "'s transport \<Rightarrow> int \<Rightarrow> ('s, int) dbg" where
  "read_gpr T regno =
     seqD (dmi_write T ADDR_COMMAND (read_gpr_command regno))
    (seqD (wait_abstractcs T DEFAULT_TIMEOUT)
          (dmi_read T ADDR_DATA0))"

definition write_gpr :: "'s transport \<Rightarrow> int \<Rightarrow> int \<Rightarrow> ('s, unit) dbg" where
  "write_gpr T regno val =
     seqD (dmi_write T ADDR_DATA0 val)
    (seqD (dmi_write T ADDR_COMMAND (write_gpr_command regno))
          (wait_abstractcs T DEFAULT_TIMEOUT))"

definition ADDR_DATA1 :: int where [simp]: "ADDR_DATA1 = 0x05"

definition read_reg64 :: "'s transport \<Rightarrow> int \<Rightarrow> ('s, int) dbg" where
  "read_reg64 T regno =
     seqD (dmi_write T ADDR_COMMAND (read_reg64_command regno))
    (seqD (wait_abstractcs T DEFAULT_TIMEOUT)
    (bindD (dmi_read T ADDR_DATA1) (\<lambda>hi.
     bindD (dmi_read T ADDR_DATA0) (\<lambda>lo. returnD (push_bit 32 hi OR lo)))))"

definition write_reg64 :: "'s transport \<Rightarrow> int \<Rightarrow> int \<Rightarrow> ('s, unit) dbg" where
  "write_reg64 T regno val =
     seqD (dmi_write T ADDR_DATA0 (val AND 0xFFFFFFFF))
    (seqD (dmi_write T ADDR_DATA1 (drop_bit 32 val AND 0xFFFFFFFF))
    (seqD (dmi_write T ADDR_COMMAND (write_reg64_command regno))
          (wait_abstractcs T DEFAULT_TIMEOUT)))"

definition read_abstractcs :: "'s transport \<Rightarrow> ('s, int) dbg" where
  "read_abstractcs T = dmi_read T ADDR_ABSTRACTCS"

definition read_cmderr :: "'s transport \<Rightarrow> ('s, int) dbg" where
  "read_cmderr T = bindD (read_abstractcs T) (\<lambda>w. returnD (drop_bit 8 w AND 0x7))"

definition clear_cmderr :: "'s transport \<Rightarrow> ('s, unit) dbg" where
  "clear_cmderr T = dmi_write T ADDR_ABSTRACTCS (push_bit 8 0x7)"

definition write_progbuf :: "'s transport \<Rightarrow> int \<Rightarrow> int \<Rightarrow> ('s, unit) dbg" where
  "write_progbuf T index instruction = dmi_write T (ADDR_PROGBUF0 + index) instruction"

definition read_progbuf :: "'s transport \<Rightarrow> int \<Rightarrow> ('s, int) dbg" where
  "read_progbuf T index = dmi_read T (ADDR_PROGBUF0 + index)"

definition execute_progbuf :: "'s transport \<Rightarrow> ('s, unit) dbg" where
  "execute_progbuf T =
     seqD (dmi_write T ADDR_COMMAND (push_bit 24 0 OR push_bit 18 1))
          (wait_abstractcs T DEFAULT_TIMEOUT)"

definition read_dcsr :: "'s transport \<Rightarrow> ('s, int) dbg" where
  "read_dcsr T = read_gpr T DCSR_REGNO"

definition write_dcsr :: "'s transport \<Rightarrow> int \<Rightarrow> ('s, unit) dbg" where
  "write_dcsr T val = write_gpr T DCSR_REGNO val"

definition set_step :: "'s transport \<Rightarrow> bool \<Rightarrow> ('s, unit) dbg" where
  "set_step T enable =
     bindD (read_dcsr T) (\<lambda>dcsr.
       write_dcsr T (if enable then dcsr OR push_bit 2 1 else dcsr AND NOT (push_bit 2 1)))"

definition get_dcsr_cause :: "'s transport \<Rightarrow> ('s, int) dbg" where
  "get_dcsr_cause T = bindD (read_dcsr T) (\<lambda>dcsr. returnD (drop_bit 6 dcsr AND 0x7))"

definition write_dmcs2 :: "'s transport \<Rightarrow> dmcs2_args \<Rightarrow> ('s, int) dbg" where
  "write_dmcs2 T flds =
     (let word = dmcs2 flds in seqD (dmi_write T ADDR_DMCS2 word) (returnD word))"

definition read_dmcs2 :: "'s transport \<Rightarrow> ('s, int) dbg" where
  "read_dmcs2 T = dmi_read T ADDR_DMCS2"

subsection \<open>Memory through the system bus, status\<close>

definition read_mem32 :: "'s transport \<Rightarrow> int \<Rightarrow> ('s, int) dbg" where
  "read_mem32 T addr =
     seqD (dmi_write T ADDR_SBCS (push_bit 20 1 OR push_bit 17 2))
    (seqD (dmi_write T ADDR_SBADDRESS0 addr)
    (seqD (wait_sbus T DEFAULT_TIMEOUT)
          (dmi_read T ADDR_SBDATA0)))"

definition write_mem32 :: "'s transport \<Rightarrow> int \<Rightarrow> int \<Rightarrow> ('s, unit) dbg" where
  "write_mem32 T addr data =
     seqD (dmi_write T ADDR_SBCS (push_bit 17 2))
    (seqD (dmi_write T ADDR_SBADDRESS0 addr)
    (seqD (dmi_write T ADDR_SBDATA0 data)
          (wait_sbus T DEFAULT_TIMEOUT)))"

definition is_halted :: "'s transport \<Rightarrow> ('s, bool) dbg" where
  "is_halted T = bindD (dmi_read T ADDR_DMSTATUS) (\<lambda>w. returnD (allhalted w))"

definition is_running :: "'s transport \<Rightarrow> ('s, bool) dbg" where
  "is_running T = bindD (dmi_read T ADDR_DMSTATUS) (\<lambda>w. returnD (allrunning w))"

definition get_pc :: "'s transport \<Rightarrow> ('s, int) dbg" where
  "get_pc T = read_gpr T 0x07B1"

subsection \<open>Running the methods\<close>

lemma bindD_simps [simp, monad_defs]:
  "m d = Some (Inr x, d1) \<Longrightarrow> bindD m f d = f x d1"
  "m d = Some (Inl e, d1) \<Longrightarrow> bindD m f d = Some (Inl e, d1)"
  "m d = None \<Longrightarrow> bindD m f d = None"
  by (simp_all add: bindD_def)

lemma bindD_cases:
  "bindD m f d = (case m d of None \<Rightarrow> None | Some (Inl e, d1) \<Rightarrow> Some (Inl e, d1) | Some (Inr x, d1) \<Rightarrow> f x d1)"
  by (simp add: bindD_def)

lemma seqD_simps [simp, monad_defs]:
  "m d = Some (Inr (), d1) \<Longrightarrow> seqD m k d = k d1"
  "m d = Some (Inl e, d1) \<Longrightarrow> seqD m k d = Some (Inl e, d1)"
  by (simp_all add: seqD_def)

lemma seqD_assoc: "seqD m (seqD k l) = seqD (seqD m k) l"
  by (rule ext) (auto simp: seqD_def bindD_def split: option.split sum.split prod.split)

lemma plain_simps [simp, monad_defs]:
  "returnD x d = Some (Inr x, d)" "raiseD e d = Some (Inl e, d)"
  "get_hartsel d = Some (Inr (tracked_hartsel d), d)"
  "set_hartsel h d = Some (Inr (), d\<lparr>tracked_hartsel := h\<rparr>)"
  "monotonic T d = Some (Inr (t_monotonic T (clock_reads d)), d\<lparr>clock_reads := Suc (clock_reads d)\<rparr>)"
  by (simp_all add: returnD_def raiseD_def get_hartsel_def set_hartsel_def monotonic_def)

text \<open>The poll loop stops at the first value the predicate accepts.\<close>

lemma poll_loop_accept:
  assumes "t_read T reg (t_state d) = (Inr v, s)" and "predicate v = Inr True"
  shows "poll_loop T predicate reg msg timeout deadline d = Some (Inr (), d\<lparr>t_state := s\<rparr>)"
  using assms by (subst poll_loop.simps) simp

text \<open>
  What the end of a poll loop says: how many clock readings it took at most, and that a normal return
  is due to a last read whose value the predicate accepts.
\<close>

definition polled :: "'s transport \<Rightarrow> (int \<Rightarrow> dbg_error + bool) \<Rightarrow> int \<Rightarrow> nat \<Rightarrow> (dbg_error + unit) \<times> 's RISCVDebug \<Rightarrow> bool" where
  "polled T predicate reg bound = (\<lambda>(r, d'). clock_reads d' \<le> bound \<and>
     (r = Inr () \<longrightarrow> (\<exists>s v. t_read T reg s = (Inr v, t_state d') \<and> predicate v = Inr True)))"

lemma poll_loop_returns:
  assumes "t_monotonic T (clock_reads d + k) > deadline"
  shows "\<exists>x. poll_loop T predicate reg msg timeout deadline d = Some x \<and>
    polled T predicate reg (clock_reads d + k + 1) x"
  using assms
proof (induction k arbitrary: d)
  case 0
  then show ?case
    by (subst poll_loop.simps) (auto simp: Let_def polled_def split: prod.split sum.split)
next
  case (Suc k)
  have "\<exists>x. poll_loop T predicate reg msg timeout deadline (d\<lparr>t_state := s, clock_reads := Suc (clock_reads d)\<rparr>) = Some x \<and>
      polled T predicate reg (clock_reads d + Suc k + 1) x" for s
    using Suc.IH [of "d\<lparr>t_state := s, clock_reads := Suc (clock_reads d)\<rparr>"] Suc.prems by simp
  then show ?case
    by (subst poll_loop.simps) (auto simp: Let_def polled_def split: prod.split sum.split)
qed

text \<open>
  C23. Polling always comes to an end: over any transport and with any predicate, as soon as the
  \<open>k\<close>-th later clock reading is past the deadline, \<^verbatim>\<open>_poll_until\<close> returns or raises after at most
  \<open>k + 2\<close> readings, and it returns normally only on a read value that satisfies the predicate.
\<close>

theorem poll_until_terminates:
  assumes "t_monotonic T (Suc (clock_reads d) + k) > t_monotonic T (clock_reads d) + timeout"
  shows "\<exists>r d'. poll_until T predicate reg msg timeout d = Some (r, d') \<and>
    clock_reads d' \<le> clock_reads d + k + 2 \<and>
    (r = Inr () \<longrightarrow> (\<exists>s v. t_read T reg s = (Inr v, t_state d') \<and> predicate v = Inr True))"
  using poll_loop_returns [of "t_monotonic T (clock_reads d) + timeout" T "d\<lparr>clock_reads := Suc (clock_reads d)\<rparr>" k]
    assms by (simp add: poll_until_def polled_def split_paired_Ex)

theorem poll_until_terminates_witness:
  "\<exists>r d'. poll_until \<lparr>t_read = \<lambda>a s. (Inr 0, s), t_write = \<lambda>a v s. (Inr (), s),
     t_connect = reset_noop, t_disconnect = reset_noop, t_reset = reset_noop, t_connected = (\<lambda>_. True),
     t_monotonic = \<lambda>k. 1000 * int k\<rparr>
     (\<lambda>s. Inr (allhalted s)) ADDR_DMSTATUS ''allhalted'' 5000 (RISCVDebug_init ()) = Some (r, d') \<and> clock_reads d' \<le> 8"
proof -
  let ?T = "\<lparr>t_read = \<lambda>a s. (Inr 0, s), t_write = \<lambda>a v s. (Inr (), s),
     t_connect = reset_noop, t_disconnect = reset_noop, t_reset = reset_noop, t_connected = (\<lambda>_. True),
     t_monotonic = \<lambda>k. 1000 * int k\<rparr> :: unit transport"
  have "t_monotonic ?T (Suc (clock_reads (RISCVDebug_init ())) + 6) > t_monotonic ?T (clock_reads (RISCVDebug_init ())) + 5000"
    "clock_reads (RISCVDebug_init ()) = 0"
    by (simp_all add: RISCVDebug_init_def)
  from poll_until_terminates [OF this(1), of "\<lambda>s. Inr (allhalted s)" ADDR_DMSTATUS "''allhalted''"] this(2)
  show ?thesis by fastforce
qed

end
