(* ===== verification/DmTarget.thy ===== *)
theory DmTarget
  imports RiscvDM
begin

text \<open>
  The contract between the command library and what is behind its transport: a target whose
  reads and writes are those of a predictor state it represents (\<open>reps\<close>), with the effect \<open>rd\<close> a
  read has on it. The behaviour of the methods is proved once from these laws and holds for every
  transport that keeps them (the mock, and any such transport behind an observer).
\<close>

unbundle bit_operations_syntax

subsection \<open>The writes the library makes, on one hart\<close>

lemma dmcontrol_arg_simps [simp]:
  "a_dmactive dmcontrol_defaults = False" "a_hartreset dmcontrol_defaults = False"
  "a_resumereq dmcontrol_defaults = False" "a_haltreq dmcontrol_defaults = False"
  "a_ackhavereset dmcontrol_defaults = False" "a_hartsel dmcontrol_defaults = 0"
  "a_ndmreset dmcontrol_defaults = False" "a_setresethaltreq dmcontrol_defaults = False"
  "a_clrresethaltreq dmcontrol_defaults = False" "a_ackunavail dmcontrol_defaults = False"
  "a_hasel dmcontrol_defaults = False" "a_setkeepalive dmcontrol_defaults = False"
  "a_clrkeepalive dmcontrol_defaults = False"
  by (simp_all add: dmcontrol_defaults_def)

lemma hart_next_idle:
  assumes "hart_ok (ndmreset p) h" "\<not> is_nonexistent p (int i)" "\<not> ndmreset p" "\<not> hartreset_level p"
    "\<not> hart_reset h" "int i = hartsel_of v"
    "\<not> bit v 1" "\<not> bit v 2" "\<not> bit v 3" "\<not> bit v 27" "\<not> bit v 28" "\<not> bit v 29" "\<not> bit v 30" "\<not> bit v 31"
  shows "hart_next p v i h = h\<lparr>halt_request := False\<rparr>"
  using assms by (simp add: hart_next_defs hart_ok_def)

lemma dmcontrol_next_dmcontrol:
  assumes "a_dmactive a"
  shows "on_write ADDR_DMCONTROL (dmcontrol a) p = dmcontrol_next (dmcontrol a) p"
  using assms unfolding on_write_dmcontrol by simp

text \<open>A hart the library can drive: it exists, its index fits \<^verbatim>\<open>hartsel\<close>, and no reset holds it.\<close>

definition drivable :: "DMPredictor \<Rightarrow> nat \<Rightarrow> bool" where
  "drivable p i \<longleftrightarrow>
     i < length (harts p) \<and> int i < 2 ^ 20 \<and> \<not> hart_reset (harts p ! i) \<and> \<not> hartreset_level p"

lemma drivable_hartsel: "drivable p i \<Longrightarrow> take_bit 20 (int i) = int i"
  by (simp add: drivable_def take_bit_int_eq_self)

lemma hart_reset_stages [simp]:
  "hart_reset (hart_settle ndm h) = hart_reset h"
  "hart_reset (hart_run v st h) = hart_reset h"
  "hart_reset (hart_requests p v h) = hart_reset h"
  "hart_reset (hart_ndmreset now was rack h) = hart_reset h"
  "hart_reset (hart_hartreset False was rack h) = (hart_reset h \<and> \<not> was)"
  by (auto simp: hart_settle_def hart_stage_defs release_from_reset_def)

lemma hart_reset_next: "\<not> bit v 29 \<Longrightarrow> hart_reset (hart_next p v i h) \<Longrightarrow> hart_reset h"
  by (simp add: hart_next_def hart_ready_def hart_base_def split: if_splits)

lemma drivable_next:
  assumes "drivable p i" "\<not> a_hartreset a"
  shows "drivable (dmcontrol_next (dmcontrol a) p) i"
  using assms hart_reset_next [of "dmcontrol a" p i "harts p ! i"] by (auto simp: drivable_def)

lemma hart_next_halt_dmcontrol:
  assumes "reachable p" "drivable p i" "a_haltreq a" "a_hartsel a = int i" "\<not> a_ndmreset a" "\<not> a_hartreset a"
  shows "halted (harts (dmcontrol_next (dmcontrol a) p) ! i)"
  using hart_next_halt [OF reachable_hart [OF assms(1)], where i = i and v = "dmcontrol a"] assms drivable_hartsel [OF assms(2)]
  by (simp add: drivable_def del: One_nat_def)

lemma hart_next_resume_dmcontrol:
  assumes "reachable p" "drivable p i" "halted (harts p ! i)" "a_resumereq a" "\<not> a_haltreq a" "a_hartsel a = int i"
    "\<not> a_ndmreset a" "\<not> a_hartreset a" "\<not> step_armed p"
  shows "running (harts (dmcontrol_next (dmcontrol a) p) ! i) \<and> resume_ack (harts (dmcontrol_next (dmcontrol a) p) ! i)"
  using hart_next_resume_halted [OF reachable_hart [OF assms(1)], where i = i and v = "dmcontrol a"] assms drivable_hartsel [OF assms(2)]
  by (simp add: drivable_def del: One_nat_def)

definition idle_args :: "int \<Rightarrow> dmcontrol_args" where
  "idle_args h = dmcontrol_defaults\<lparr>a_dmactive := True, a_hartsel := h\<rparr>"

lemma idle_args_simps [simp]: "a_dmactive (idle_args h)" "a_hartsel (idle_args h) = h" "\<not> a_hartreset (idle_args h)"
  by (simp_all add: idle_args_def)

lemma hart_next_idle_dmcontrol:
  assumes "reachable p" "drivable p i" "\<not> ndmreset p"
  shows "harts (dmcontrol_next (dmcontrol (idle_args (int i))) p) ! i = (harts p ! i)\<lparr>halt_request := False\<rparr>"
  using hart_next_idle [OF reachable_hart [OF assms(1)], where i = i and v = "dmcontrol (idle_args (int i))"] assms
    drivable_hartsel [OF assms(2)]
  by (simp add: drivable_def idle_args_def del: One_nat_def)

lemma hart_next_other_dmcontrol:
  assumes "reachable p" "drivable p i" "j < length (harts p)" "j \<noteq> i" "a_hartsel a = int i" "a_ndmreset a = ndmreset p"
  shows "harts (dmcontrol_next (dmcontrol a) p) ! j = harts p ! j"
  using hart_next_other [OF reachable_hart [OF assms(1,3)], where v = "dmcontrol a"] assms drivable_hartsel [OF assms(2)]
  by (simp del: One_nat_def)

lemma reachable_next: "reachable p \<Longrightarrow> a_dmactive a \<Longrightarrow> reachable (dmcontrol_next (dmcontrol a) p)"
  using reachable.dmi_write [of p ADDR_DMCONTROL "dmcontrol a"] dmcontrol_next_dmcontrol [of a p] by simp

subsection \<open>The contract\<close>

locale dm_target =
  fixes T :: "'s transport"
    and reps :: "'s \<Rightarrow> DMPredictor \<Rightarrow> bool"
    and rd :: "int \<Rightarrow> DMPredictor \<Rightarrow> DMPredictor"
  assumes write_law: "reps s p \<Longrightarrow> \<exists>s'. t_write T a v s = (Inr (), s') \<and> reps s' (on_write a v p)"
    and read_law: "reps s p \<Longrightarrow> has_model p a \<Longrightarrow>
      \<exists>s'. t_read T a s = (Inr (predict p a), s') \<and> reps s' (rd a p)"
    and quiet_reads: "a \<in> {ADDR_DMCONTROL, ADDR_DMSTATUS, ADDR_ABSTRACTCS, ADDR_SBCS} \<Longrightarrow> rd a p = p"
    and data_reads: "is_data a \<Longrightarrow> abstractauto p = 0 \<Longrightarrow> rd a p = p"
begin

lemma dmi_write_run:
  assumes "reps (t_state d) p"
  obtains s' where "dmi_write T a v d = Some (Inr (), d\<lparr>t_state := s'\<rparr>)" "reps s' (on_write a v p)"
  using write_law [OF assms, of a v] by (auto simp: dmi_write_def)

lemma dmi_read_run:
  assumes "reps (t_state d) p" "has_model p a"
  obtains s' where "dmi_read T a d = Some (Inr (predict p a), d\<lparr>t_state := s'\<rparr>)" "reps s' (rd a p)"
  using read_law [OF assms] by (auto simp: dmi_read_def)

lemma write_args_run:
  assumes "reps (t_state d) p" "a_dmactive (args (tracked_hartsel d))"
  obtains s' where "write_args T args d = Some (Inr (), d\<lparr>t_state := s'\<rparr>)"
    "reps s' (dmcontrol_next (dmcontrol (args (tracked_hartsel d))) p)"
proof -
  obtain s' where "dmi_write T ADDR_DMCONTROL (dmcontrol (args (tracked_hartsel d))) d = Some (Inr (), d\<lparr>t_state := s'\<rparr>)"
    "reps s' (on_write ADDR_DMCONTROL (dmcontrol (args (tracked_hartsel d))) p)"
    by (rule dmi_write_run [OF assms(1)])
  then show thesis
    by (intro that [of s']) (simp_all only: write_args_def bindD_simps(1) plain_simps dmcontrol_next_dmcontrol [OF assms(2)])
qed

lemma poll_until_run:
  assumes "reps (t_state d) p" "has_model p a"
    "a \<in> {ADDR_DMCONTROL, ADDR_DMSTATUS, ADDR_ABSTRACTCS, ADDR_SBCS}" "predicate (predict p a) = Inr True"
  obtains s' where "poll_until T predicate a msg timeout d =
      Some (Inr (), d\<lparr>t_state := s', clock_reads := Suc (clock_reads d)\<rparr>)" "reps s' p"
proof -
  obtain s' where s': "t_read T a (t_state d) = (Inr (predict p a), s')" "reps s' (rd a p)"
    using read_law [OF assms(1,2)] by blast
  have "poll_until T predicate a msg timeout d = Some (Inr (), d\<lparr>t_state := s', clock_reads := Suc (clock_reads d)\<rparr>)"
    using s'(1) assms(4) by (simp add: poll_until_def poll_loop_accept)
  then show thesis using that s'(2) quiet_reads [OF assms(3)] by simp
qed

lemma dmstatus_poll_run:
  assumes "reps (t_state d) p" "predicate (expect_dmstatus p) = Inr True"
  obtains s' where "poll_until T predicate ADDR_DMSTATUS msg timeout d =
      Some (Inr (), d\<lparr>t_state := s', clock_reads := Suc (clock_reads d)\<rparr>)" "reps s' p"
proof (rule poll_until_run [OF assms(1), of ADDR_DMSTATUS predicate msg timeout])
  show "has_model p ADDR_DMSTATUS" by (simp add: has_model_def)
  show "predicate (predict p ADDR_DMSTATUS) = Inr True"
    using assms(2) by (simp add: predict_def is_data_def is_progbuf_def)
qed simp_all

text \<open>A request, a poll of \<^verbatim>\<open>dmstatus\<close> that succeeds at once, and the release of the request.\<close>

lemma request_poll_release_run:
  assumes "reps (t_state d) p" "a_dmactive (req (tracked_hartsel d))" "a_dmactive (rel (tracked_hartsel d))"
    and q: "q = dmcontrol_next (dmcontrol (req (tracked_hartsel d))) p"
    and "predicate (expect_dmstatus q) = Inr True"
  obtains d' where "seqD (write_args T req)
      (seqD (poll_until T predicate ADDR_DMSTATUS msg timeout) (write_args T rel)) d = Some (Inr (), d')"
    "tracked_hartsel d' = tracked_hartsel d"
    "reps (t_state d') (dmcontrol_next (dmcontrol (rel (tracked_hartsel d))) q)"
proof -
  obtain s1 where s1: "write_args T req d = Some (Inr (), d\<lparr>t_state := s1\<rparr>)" "reps s1 q"
    by (rule write_args_run [of d p req]) (simp_all add: assms(1,2) q)
  obtain s2 where s2: "poll_until T predicate ADDR_DMSTATUS msg timeout (d\<lparr>t_state := s1\<rparr>) =
      Some (Inr (), d\<lparr>t_state := s2, clock_reads := Suc (clock_reads d)\<rparr>)" "reps s2 q"
    by (rule dmstatus_poll_run [of "d\<lparr>t_state := s1\<rparr>" q predicate msg timeout]) (simp_all add: s1(2) assms(5))
  let ?d2 = "d\<lparr>t_state := s2, clock_reads := Suc (clock_reads d)\<rparr>"
  obtain s3 where s3: "write_args T rel ?d2 = Some (Inr (), ?d2\<lparr>t_state := s3\<rparr>)"
    "reps s3 (dmcontrol_next (dmcontrol (rel (tracked_hartsel d))) q)"
    by (rule write_args_run [of ?d2 q rel]) (simp_all add: s2(2) assms(3))
  show thesis
  proof (rule that)
    show "seqD (write_args T req) (seqD (poll_until T predicate ADDR_DMSTATUS msg timeout) (write_args T rel)) d =
        Some (Inr (), ?d2\<lparr>t_state := s3\<rparr>)"
      by (simp only: seqD_simps(1) s1(1) s2(1) s3(1))
  qed (simp_all add: s3(2))
qed

lemma halt_run:
  assumes p: "reps (t_state d) p" "reachable p" "drivable p i" "tracked_hartsel d = int i"
  shows "\<exists>d' r. halt T timeout d = Some (Inr (), d') \<and> tracked_hartsel d' = tracked_hartsel d \<and>
    reps (t_state d') r \<and> reachable r \<and> halted (harts r ! i) \<and>
    (\<not> ndmreset p \<longrightarrow> (\<forall>j < length (harts p). j \<noteq> i \<longrightarrow> harts r ! j = harts p ! j))"
proof -
  let ?req = "\<lambda>h. dmcontrol_defaults\<lparr>a_dmactive := True, a_haltreq := True, a_hartsel := h\<rparr>"
    and ?rel = "\<lambda>h. dmcontrol_defaults\<lparr>a_dmactive := True, a_haltreq := False, a_hartsel := h\<rparr>"
  define q where "q = dmcontrol_next (dmcontrol (?req (int i))) p"
  have rel: "?rel h = idle_args h" for h by (simp add: idle_args_def dmcontrol_defaults_def)
  define r where "r = dmcontrol_next (dmcontrol (idle_args (int i))) q"
  have q: "reachable q" "drivable q i" "halted (harts q ! i)" "\<not> ndmreset q" "hartsel q = int i"
    "length (harts q) = length (harts p)"
    using p reachable_next drivable_next hart_next_halt_dmcontrol drivable_hartsel by (simp_all add: q_def)
  have "reachable r" "halted (harts r ! i)"
    using reachable_next [OF q(1), of "idle_args (int i)"] hart_next_idle_dmcontrol [OF q(1,2,4)] q(3)
    by (simp_all add: r_def idle_args_def)
  moreover have "harts r ! j = harts p ! j" if "\<not> ndmreset p" "j < length (harts p)" "j \<noteq> i" for j
    using hart_next_other_dmcontrol [OF p(2,3), of j "?req (int i)"]
      hart_next_other_dmcontrol [OF q(1,2), of j "idle_args (int i)"] that q
    by (simp add: q_def [symmetric] r_def idle_args_def)
  moreover have "allhalted (expect_dmstatus q)"
    using q dmstatus_of_selected(1) [of q i] by (simp add: drivable_def allhalted_def)
  then obtain d' where "halt T timeout d = Some (Inr (), d')" "tracked_hartsel d' = tracked_hartsel d" "reps (t_state d') r"
    unfolding halt_def
    by (rule_tac request_poll_release_run [of d p ?req ?rel q "\<lambda>s. Inr (allhalted s)" "''allhalted''" timeout])
      (simp_all add: q_def p r_def rel)
  ultimately show ?thesis by auto
qed

lemma resume_run:
  assumes p: "reps (t_state d) p" "reachable p" "drivable p i" "tracked_hartsel d = int i"
    and "halted (harts p ! i)" "\<not> step_armed p"
  shows "\<exists>d' r. resume T timeout d = Some (Inr (), d') \<and> tracked_hartsel d' = tracked_hartsel d \<and>
    reps (t_state d') r \<and> reachable r \<and> running (harts r ! i) \<and> resume_ack (harts r ! i)"
proof -
  let ?req = "\<lambda>h. dmcontrol_defaults\<lparr>a_dmactive := True, a_resumereq := True, a_hartsel := h\<rparr>"
    and ?rel = "\<lambda>h. dmcontrol_defaults\<lparr>a_dmactive := True, a_resumereq := False, a_hartsel := h\<rparr>"
  define q where "q = dmcontrol_next (dmcontrol (?req (int i))) p"
  have rel: "?rel h = idle_args h" for h by (simp add: idle_args_def dmcontrol_defaults_def)
  define r where "r = dmcontrol_next (dmcontrol (idle_args (int i))) q"
  have q: "reachable q" "drivable q i" "\<not> ndmreset q" "hartsel q = int i"
    "running (harts q ! i)" "resume_ack (harts q ! i)"
    using p assms(5,6) reachable_next drivable_next hart_next_resume_dmcontrol drivable_hartsel by (simp_all add: q_def)
  have "reachable r" "running (harts r ! i)" "resume_ack (harts r ! i)"
    using reachable_next [OF q(1), of "idle_args (int i)"] hart_next_idle_dmcontrol [OF q(1,2,3)] q(5,6)
    by (simp_all add: r_def idle_args_def)
  moreover have "allrunning (expect_dmstatus q)"
    using q dmstatus_of_selected(2) [of q i] by (simp add: drivable_def allrunning_def)
  then obtain d' where "resume T timeout d = Some (Inr (), d')" "tracked_hartsel d' = tracked_hartsel d" "reps (t_state d') r"
    unfolding resume_def
    by (rule_tac request_poll_release_run [of d p ?req ?rel q "\<lambda>s. Inr (allrunning s)" "''allrunning''" timeout])
      (simp_all add: q_def p r_def rel)
  ultimately show ?thesis by auto
qed

lemma activate_run:
  assumes "reps (t_state d) p" "reachable p"
  shows "\<exists>d' r. activate T d =
      Some (if take_bit 4 (version p) = 0 then Inl NoDebugModule else Inr (), d') \<and>
    tracked_hartsel d' = 0 \<and> reps (t_state d') r \<and> dmactive r \<and> hartsel r = 0 \<and>
    reachable r \<and> \<not> havereset (harts r ! 0)"
proof -
  define a where "a = dmcontrol_defaults\<lparr>a_dmactive := True, a_ackhavereset := True\<rparr>"
  define q where "q = dmcontrol_next (dmcontrol a) p"
  let ?d = "d\<lparr>tracked_hartsel := 0\<rparr>"
  obtain s1 where s1: "dmi_write T ADDR_DMCONTROL (dmcontrol a) ?d = Some (Inr (), ?d\<lparr>t_state := s1\<rparr>)" "reps s1 q"
    by (rule dmi_write_run [of ?d p ADDR_DMCONTROL "dmcontrol a"])
      (simp_all add: q_def assms(1) dmcontrol_next_dmcontrol a_def del: ADDR_DMCONTROL_def)
  obtain s2 where s2: "dmi_read T ADDR_DMSTATUS (?d\<lparr>t_state := s1\<rparr>) =
      Some (Inr (predict q ADDR_DMSTATUS), ?d\<lparr>t_state := s2\<rparr>)" "reps s2 q"
    by (rule dmi_read_run [of "?d\<lparr>t_state := s1\<rparr>" q ADDR_DMSTATUS])
      (simp_all add: s1(2) has_model_def quiet_reads)
  have "version_of (predict q ADDR_DMSTATUS) = take_bit 4 (version p)"
    using dmstatus_version [of q] by (simp add: version_of_def predict_def is_data_def is_progbuf_def q_def)
  then have "activate T d = Some (if take_bit 4 (version p) = 0 then Inl NoDebugModule else Inr (), ?d\<lparr>t_state := s2\<rparr>)"
    unfolding activate_def a_def [symmetric] using s1(1) s2(1) by simp
  moreover have "0 < length (harts p)" using reachable_rc_inv [OF assms(2)] by (simp add: rc_inv_def)
  then have "\<not> havereset (harts q ! 0)"
    using hart_next_ackhavereset [of 0 "dmcontrol a" p] by (simp add: q_def a_def)
  moreover have "reachable q" using reachable_next [OF assms(2), of a] by (simp add: q_def a_def)
  ultimately show ?thesis using s2(2) by (auto simp: q_def a_def)
qed

end

text \<open>The read effects of the golden model are of the kind a target may have.\<close>

lemma quiet_observe_read: "a \<in> {ADDR_DMCONTROL, ADDR_DMSTATUS, ADDR_ABSTRACTCS, ADDR_SBCS} \<Longrightarrow> observe_read a p = p"
  by (auto simp: observe_read_def is_data_def is_progbuf_def)

lemma data_observe_read: "is_data a \<Longrightarrow> abstractauto p = 0 \<Longrightarrow> observe_read a p = p"
  by (auto simp: observe_read_def autoexec_def autoexec_armed_def is_data_def truth_def)

text \<open>
  A bench: a target whose reads leave the model alone and that also answers where the model makes no
  prediction, with an idle command engine and system bus.
\<close>

locale dm_bench = dm_target T reps "\<lambda>_ p. p" for T :: "'s transport" and reps :: "'s \<Rightarrow> DMPredictor \<Rightarrow> bool" +
  assumes canned_law: "reps s p \<Longrightarrow> \<not> has_model p a \<Longrightarrow>
    \<exists>v s'. t_read T a s = (Inr v, s') \<and> reps s' p \<and> (a = ADDR_ABSTRACTCS \<longrightarrow> abstractcs_check v = Inr True) \<and>
      (a = ADDR_SBCS \<longrightarrow> sbus_check v = Inr True)"

end
