(* ===== verification/CommandRuns.thy ===== *)
theory CommandRuns
  imports DmTarget
begin

text \<open>
  Abstract commands and system bus accesses of the command library on a target that keeps the
  contract \<open>dm_target\<close>: each method returns, and what was written to a register or a memory
  word is what a later read returns.
\<close>

unbundle bit_operations_syntax

subsection \<open>Abstract commands as the predictor executes them\<close>

text \<open>The shape of every access-register command word the library writes.\<close>

definition access_word :: "bool \<Rightarrow> int \<Rightarrow> int \<Rightarrow> int" where
  "access_word wr sz regno =
     push_bit 20 (take_bit 3 sz) OR push_bit 17 1 OR push_bit 16 (of_bool wr) OR take_bit 16 regno"

lemma bit_access_word:
  "bit (access_word wr sz r) n \<longleftrightarrow>
     20 \<le> n \<and> n < 23 \<and> bit sz (n - 20) \<or> n = 17 \<or> n = 16 \<and> wr \<or> n < 16 \<and> bit r n"
proof -
  have "bit (push_bit 20 (take_bit 3 sz)) n \<longleftrightarrow> 20 \<le> n \<and> n < 23 \<and> bit sz (n - 20)"
    "bit (push_bit 17 (1::int)) n \<longleftrightarrow> n = 17" "bit (push_bit 16 (of_bool wr :: int)) n \<longleftrightarrow> n = 16 \<and> wr"
    "bit (take_bit 16 r) n \<longleftrightarrow> n < 16 \<and> bit r n"
    by (auto simp only: bit_push_bit_iff bit_take_bit_iff bit_of_bool_int bit_1_iff possible_bit_int)
  then show ?thesis unfolding access_word_def bit_or_iff by simp
qed

lemma command_words:
  "read_gpr_command r = access_word False 2 r" "write_gpr_command r = access_word True 2 r"
  "read_reg64_command r = access_word False 3 r" "write_reg64_command r = access_word True 3 r"
  by (simp_all add: access_word_def read_gpr_command_def write_gpr_command_def read_reg64_command_def
      write_reg64_command_def or.assoc or.left_commute or.commute)

lemma access_word_parts:
  "take_bit 8 (drop_bit 24 (access_word wr sz r)) = 0"
  "take_bit 3 (drop_bit 20 (access_word wr sz r)) = take_bit 3 sz"
  "take_bit 16 (access_word wr sz r) = take_bit 16 r"
  "take_bit 32 (access_word wr sz r) = access_word wr sz r"
  "bit (access_word wr sz r) 18 = False" "bit (access_word wr sz r) 17 = True" "bit (access_word wr sz r) 16 = wr"
  by (rule bit_eqI; auto simp: bit_take_bit_iff bit_drop_bit_eq bit_access_word)+ (simp_all add: bit_access_word)

lemma on_write_command:
  assumes "\<not> observed_cmdbusy p" "0 \<le> sz" "sz \<le> 3"
  shows "on_write ADDR_COMMAND (access_word wr sz r) p =
    execute_lo wr (take_bit 16 r) (execute_hi wr (take_bit 16 r) sz (p\<lparr>last_command := access_word wr sz r\<rparr>))"
proof -
  have "take_bit 3 sz = sz" using assms by (simp add: take_bit_int_eq_self)
  then show ?thesis
    using assms(1,3) by (simp add: on_write_def is_data_def is_progbuf_def write_command_def execute_command_def Let_def
        access_word_parts)
qed

text \<open>A module that takes abstract commands: declared, active, idle, with at least one data register.\<close>

definition command_ready :: "DMPredictor \<Rightarrow> bool" where
  "command_ready p \<longleftrightarrow>
     cfg_valid p \<and> dmactive p \<and> \<not> observed_cmdbusy p \<and> abstractauto p = 0 \<and> 1 \<le> cfg_datacount (cfg p)"

definition same_setup :: "DMPredictor \<Rightarrow> DMPredictor \<Rightarrow> bool" where
  "same_setup p q \<longleftrightarrow> cfg q = cfg p \<and> cfg_valid q = cfg_valid p \<and> dmactive q = dmactive p \<and>
     observed_cmdbusy q = observed_cmdbusy p \<and> abstractauto q = abstractauto p \<and>
     length (data_q q) = length (data_q p) \<and> length (data_known q) = length (data_known p)"

lemma same_setup_trans: "same_setup p q \<Longrightarrow> same_setup q r \<Longrightarrow> same_setup p r"
  by (simp add: same_setup_def)

lemma same_setup_ready: "same_setup p q \<Longrightarrow> command_ready q = command_ready p"
  by (simp add: same_setup_def command_ready_def)

lemma on_write_data0:
  assumes "command_ready p"
  shows "on_write ADDR_DATA0 v p =
    p\<lparr>staged_data0 := take_bit 32 v, data0_pending_valid := True, data0_pending_value := take_bit 32 v\<rparr>"
  using assms
  by (simp add: on_write_def is_data_def write_buffer_def autoexec_def autoexec_armed_def command_ready_def Let_def)

lemma on_write_data1:
  assumes "command_ready p" "2 \<le> cfg_datacount (cfg p)"
  shows "on_write ADDR_DATA1 v p =
    p\<lparr>data_q := (data_q p)[1 := take_bit 32 v], data_known := (data_known p)[1 := True], staged_data1 := take_bit 32 v\<rparr>"
  using assms
  by (simp add: on_write_def is_data_def write_buffer_def autoexec_def autoexec_armed_def command_ready_def Let_def)

lemma command_write32:
  assumes "command_ready p" "q = on_write ADDR_COMMAND (access_word True 2 r) (on_write ADDR_DATA0 v p)"
  shows "same_setup p q" "shadow_regs q (take_bit 16 r) = Some (take_bit 32 v)"
  using assms on_write_data0 [OF assms(1)]
  by (simp_all add: on_write_command command_ready_def execute_lo_def execute_hi_def same_setup_def del: ADDR_COMMAND_def ADDR_DATA0_def)

lemma command_read32:
  assumes "command_ready p" "q = on_write ADDR_COMMAND (access_word False 2 r) p"
    "shadow_regs p (take_bit 16 r) = Some v" "reads_back_as_written (take_bit 16 r)" "take_bit 16 r \<noteq> GPR_X0_REGNO"
  shows "same_setup p q" "data0_pending_valid q" "data0_pending_value q = v" "shadow_regs q = shadow_regs p"
  using assms
  by (simp_all add: on_write_command command_ready_def execute_lo_def execute_hi_def same_setup_def del: ADDR_COMMAND_def)

lemma command_write64:
  assumes "command_ready p" "2 \<le> cfg_datacount (cfg p)"
    "q = on_write ADDR_COMMAND (access_word True 3 r) (on_write ADDR_DATA1 h (on_write ADDR_DATA0 v p))"
  shows "same_setup p q" "shadow_regs q (take_bit 16 r) = Some (take_bit 32 v)"
    "shadow_hi q (take_bit 16 r) = Some (take_bit 32 h)"
proof -
  define p1 where "p1 = on_write ADDR_DATA0 v p"
  have p1: "p1 = p\<lparr>staged_data0 := take_bit 32 v, data0_pending_valid := True, data0_pending_value := take_bit 32 v\<rparr>"
    unfolding p1_def by (rule on_write_data0 [OF assms(1)])
  have "command_ready p1" "2 \<le> cfg_datacount (cfg p1)"
    using assms(1,2) by (simp_all add: p1 command_ready_def)
  from on_write_data1 [OF this, of h] have "q = on_write ADDR_COMMAND (access_word True 3 r)
      (p1\<lparr>data_q := (data_q p1)[1 := take_bit 32 h], data_known := (data_known p1)[1 := True], staged_data1 := take_bit 32 h\<rparr>)"
    unfolding assms(3) p1_def by simp
  with assms(1) show "same_setup p q" "shadow_regs q (take_bit 16 r) = Some (take_bit 32 v)"
    "shadow_hi q (take_bit 16 r) = Some (take_bit 32 h)"
    by (simp_all add: p1 on_write_command command_ready_def execute_lo_def execute_hi_def same_setup_def del: ADDR_COMMAND_def)
qed

lemma command_read64:
  assumes "command_ready p" "q = on_write ADDR_COMMAND (access_word False 3 r) p"
    "shadow_regs p (take_bit 16 r) = Some v" "shadow_hi p (take_bit 16 r) = Some h"
    "reads_back_as_written (take_bit 16 r)" "take_bit 16 r \<noteq> GPR_X0_REGNO" "length (data_q p) = 12" "length (data_known p) = 12"
  shows "same_setup p q" "data0_pending_valid q" "data0_pending_value q = v" "data_known q ! 1" "data_q q ! 1 = h"
  using assms
  by (simp_all add: on_write_command command_ready_def execute_lo_def execute_hi_def same_setup_def del: ADDR_COMMAND_def)

subsection \<open>Words that let the waits pass\<close>

lemma abstractcs_idle: "abstractcs_check (expect_abstractcs p) = Inr True"
proof -
  have b: "bit (expect_abstractcs p) n \<Longrightarrow> n < 4 \<or> n = 11 \<or> 24 \<le> n" for n
    by (auto simp: expect_abstractcs_def bit_or_iff bit_push_bit_iff bit_take_bit_iff int_of_bool_eq bit_of_bool_int)
  have "take_bit 3 (drop_bit 8 (expect_abstractcs p)) = 0"
    by (rule bit_eqI) (use b in \<open>fastforce simp: bit_take_bit_iff bit_drop_bit_eq\<close>)
  moreover have "\<not> bit (expect_abstractcs p) 12" using b [of 12] by auto
  ultimately show ?thesis by (simp add: abstractcs_check_def)
qed

lemma sbcs_idle: "sbus_check (expect_sbcs p) = Inr True"
proof -
  have b: "bit (expect_sbcs p) n \<Longrightarrow> n < 12 \<or> 15 \<le> n \<and> n < 21 \<or> 29 \<le> n" for n
    unfolding expect_sbcs_def Let_def
    by (simp only: bit_or_iff bit_push_flag and_literal_masks bit_push_bit_iff bit_take_bit_iff split: if_splits)
      (auto simp: int_of_bool_eq bit_of_bool_int)
  have "take_bit 3 (drop_bit 12 (expect_sbcs p)) = 0"
    by (rule bit_eqI) (use b in \<open>fastforce simp: bit_take_bit_iff bit_drop_bit_eq\<close>)
  moreover have "\<not> bit (expect_sbcs p) 21" using b [of 21] by auto
  ultimately show ?thesis by (simp add: sbus_check_def)
qed


subsection \<open>Memory through the system bus, as the predictor sees it\<close>

definition sba_ready :: "DMPredictor \<Rightarrow> bool" where
  "sba_ready p \<longleftrightarrow> cfg_valid p \<and> dmactive p \<and> cfg_sba_enable (cfg p)"

lemma on_write_sba:
  "on_write ADDR_SBCS v p = write_sbcs (take_bit 32 v) p"
  "on_write ADDR_SBADDRESS0 v p = write_sbaddress0 (take_bit 32 v) p"
  "on_write ADDR_SBDATA0 v p = write_sbdata0 (take_bit 32 v) p"
  by (simp_all add: on_write_def is_data_def is_progbuf_def guarded_while_busy_def)

lemma sbcs_words:
  "take_bit 32 (push_bit 17 2) = (0x40000 :: int)" "take_bit 32 (push_bit 20 1 OR push_bit 17 2) = (0x140000 :: int)"
  by simp_all

lemma mem_write32:
  assumes "q = on_write ADDR_SBDATA0 v (on_write ADDR_SBADDRESS0 a (on_write ADDR_SBCS (push_bit 17 2) p))"
  shows "shadow_mem q (take_bit 32 a) = Some (take_bit 32 v)" "sba_ready q = sba_ready p"
  unfolding assms on_write_sba sbcs_words
  by (simp_all add: write_sbcs_def write_sbaddress0_def write_sbdata0_def sba_autoincrement_def Let_def sba_ready_def)

lemma mem_read32:
  assumes "q = on_write ADDR_SBADDRESS0 a (on_write ADDR_SBCS (push_bit 20 1 OR push_bit 17 2) p)"
    "shadow_mem p (take_bit 32 a) = Some v"
  shows "sbdata0_pending_valid q" "sbdata0_pending_value q = v" "sba_ready q = sba_ready p"
  using assms(2) unfolding assms(1) on_write_sba sbcs_words
  by (simp_all add: write_sbcs_def write_sbaddress0_def sba_arm_read_def sba_autoincrement_def Let_def sba_ready_def)

subsection \<open>The methods on a target\<close>

context dm_target begin

lemma wait_abstractcs_run:
  assumes "reps (t_state d) p" "cfg_valid p" "dmactive p"
  obtains s' where "wait_abstractcs T timeout d =
      Some (Inr (), d\<lparr>t_state := s', clock_reads := Suc (clock_reads d)\<rparr>)" "reps s' p"
proof (rule poll_until_run [OF assms(1), of ADDR_ABSTRACTCS abstractcs_check "''abstractcs.busy=0''" timeout])
  show "has_model p ADDR_ABSTRACTCS"
    using assms by (simp add: has_model_def is_data_def)
  show "abstractcs_check (predict p ADDR_ABSTRACTCS) = Inr True"
    by (simp add: predict_def is_data_def is_progbuf_def abstractcs_idle)
qed (simp_all add: that wait_abstractcs_def)

lemma wait_sbus_run:
  assumes "reps (t_state d) p" "sba_ready p"
  obtains s' where "wait_sbus T timeout d =
      Some (Inr (), d\<lparr>t_state := s', clock_reads := Suc (clock_reads d)\<rparr>)" "reps s' p"
proof (rule poll_until_run [OF assms(1), of ADDR_SBCS sbus_check "''sbcs.sbbusy=0''" timeout])
  show "has_model p ADDR_SBCS"
    using assms by (simp add: has_model_def is_data_def sba_ready_def)
  show "sbus_check (predict p ADDR_SBCS) = Inr True"
    by (simp add: predict_def is_data_def is_progbuf_def sbcs_idle)
qed (simp_all add: that wait_sbus_def)

text \<open>A command word, then the wait for it.\<close>

lemma command_run:
  assumes "reps (t_state d) p" "same_setup p q" "command_ready p" "q = on_write ADDR_COMMAND w p"
  obtains d' where "seqD (dmi_write T ADDR_COMMAND w) (wait_abstractcs T timeout) d = Some (Inr (), d')"
    "reps (t_state d') q"
proof -
  obtain s1 where s1: "dmi_write T ADDR_COMMAND w d = Some (Inr (), d\<lparr>t_state := s1\<rparr>)" "reps s1 q"
    using dmi_write_run [OF assms(1), of ADDR_COMMAND w] assms(4) by blast
  have "cfg_valid q" "dmactive q" using assms(2,3) by (simp_all add: same_setup_def command_ready_def)
  then obtain s2 where s2: "wait_abstractcs T timeout (d\<lparr>t_state := s1\<rparr>) =
      Some (Inr (), d\<lparr>t_state := s2, clock_reads := Suc (clock_reads d)\<rparr>)" "reps s2 q"
    using wait_abstractcs_run [of "d\<lparr>t_state := s1\<rparr>" q timeout] s1(2) by auto
  show thesis
  proof (rule that)
    show "seqD (dmi_write T ADDR_COMMAND w) (wait_abstractcs T timeout) d =
        Some (Inr (), d\<lparr>t_state := s2, clock_reads := Suc (clock_reads d)\<rparr>)"
      by (simp only: seqD_simps(1) s1(1) s2(1))
  qed (simp_all add: s2(2))
qed

lemma write_gpr_run:
  assumes p: "reps (t_state d) p" "command_ready p"
  obtains d' q where "write_gpr T r v d = Some (Inr (), d')" "reps (t_state d') q" "same_setup p q"
    "shadow_regs q (take_bit 16 r) = Some (take_bit 32 v)"
proof -
  define p1 where "p1 = on_write ADDR_DATA0 v p"
  obtain s1 where s1: "dmi_write T ADDR_DATA0 v d = Some (Inr (), d\<lparr>t_state := s1\<rparr>)" "reps s1 p1"
    using dmi_write_run [OF p(1), of ADDR_DATA0 v] p1_def by blast
  define q where "q = on_write ADDR_COMMAND (access_word True 2 r) p1"
  have q: "same_setup p q" "shadow_regs q (take_bit 16 r) = Some (take_bit 32 v)"
    using command_write32 [OF p(2)] by (simp_all add: q_def p1_def)
  have r1: "same_setup p p1"
    using on_write_data0 [OF p(2), of v] by (simp add: p1_def same_setup_def)
  have "same_setup p1 q" using q(1) r1 by (simp add: same_setup_def)
  then obtain d' where "seqD (dmi_write T ADDR_COMMAND (access_word True 2 r)) (wait_abstractcs T DEFAULT_TIMEOUT)
      (d\<lparr>t_state := s1\<rparr>) = Some (Inr (), d')" "reps (t_state d') q"
    using command_run [of "d\<lparr>t_state := s1\<rparr>" p1 q "access_word True 2 r" DEFAULT_TIMEOUT] s1(2)
      same_setup_ready [OF r1] p(2) by (auto simp: q_def)
  then show thesis using that [of d' q] q by (simp only: write_gpr_def command_words seqD_simps(1) s1(1))
qed

lemma read_gpr_run:
  assumes p: "reps (t_state d) p" "command_ready p"
    and r: "shadow_regs p (take_bit 16 r) = Some v" "reads_back_as_written (take_bit 16 r)" "take_bit 16 r \<noteq> GPR_X0_REGNO"
  obtains d' where "read_gpr T r d = Some (Inr v, d')"
proof -
  define q where "q = on_write ADDR_COMMAND (access_word False 2 r) p"
  have q: "same_setup p q" "data0_pending_valid q" "data0_pending_value q = v"
    using command_read32 [OF p(2) q_def r] by simp_all
  then obtain d1 where d1: "seqD (dmi_write T ADDR_COMMAND (access_word False 2 r)) (wait_abstractcs T DEFAULT_TIMEOUT) d =
      Some (Inr (), d1)" "reps (t_state d1) q"
    using command_run [OF p(1) _ p(2) q_def, of DEFAULT_TIMEOUT] by auto
  have "has_model q ADDR_DATA0" "predict q ADDR_DATA0 = v"
    using q p(2) by (simp_all add: has_model_def predict_def is_data_def same_setup_def command_ready_def)
  then obtain s2 where "dmi_read T ADDR_DATA0 d1 = Some (Inr v, d1\<lparr>t_state := s2\<rparr>)"
    using dmi_read_run [OF d1(2), of ADDR_DATA0] by metis
  then show thesis using that d1(1) by (simp only: read_gpr_def command_words seqD_assoc seqD_simps(1))
qed

lemma gpr_round_trip_run:
  assumes "reps (t_state d) p" "command_ready p" "reads_back_as_written (take_bit 16 r)" "take_bit 16 r \<noteq> GPR_X0_REGNO"
  shows "\<exists>d'. seqD (write_gpr T r v) (read_gpr T r) d = Some (Inr (take_bit 32 v), d')"
proof -
  obtain d1 q where d1: "write_gpr T r v d = Some (Inr (), d1)" "reps (t_state d1) q" "same_setup p q"
    "shadow_regs q (take_bit 16 r) = Some (take_bit 32 v)"
    by (rule write_gpr_run [OF assms(1,2)])
  then show ?thesis
    using read_gpr_run [OF d1(2) _ d1(4) assms(3,4)] same_setup_ready [OF d1(3)] assms(2) by (metis seqD_simps(1))
qed

lemma write_reg64_run:
  assumes p: "reps (t_state d) p" "command_ready p" "2 \<le> cfg_datacount (cfg p)"
  obtains d' q where "write_reg64 T r v d = Some (Inr (), d')" "reps (t_state d') q" "same_setup p q"
    "shadow_regs q (take_bit 16 r) = Some (take_bit 32 v)"
    "shadow_hi q (take_bit 16 r) = Some (take_bit 32 (drop_bit 32 v))"
proof -
  let ?lo = "v AND 0xFFFFFFFF" and ?hi = "drop_bit 32 v AND 0xFFFFFFFF"
  define p1 where "p1 = on_write ADDR_DATA0 ?lo p"
  define p2 where "p2 = on_write ADDR_DATA1 ?hi p1"
  obtain s1 where s1: "dmi_write T ADDR_DATA0 ?lo d = Some (Inr (), d\<lparr>t_state := s1\<rparr>)" "reps s1 p1"
    using dmi_write_run [OF p(1), of ADDR_DATA0 ?lo] p1_def by blast
  obtain s2 where s2: "dmi_write T ADDR_DATA1 ?hi (d\<lparr>t_state := s1\<rparr>) = Some (Inr (), d\<lparr>t_state := s2\<rparr>)" "reps s2 p2"
    by (rule dmi_write_run [of "d\<lparr>t_state := s1\<rparr>" p1 ADDR_DATA1 ?hi]) (simp_all add: s1(2) p2_def)
  have r1: "same_setup p p1"
    using on_write_data0 [OF p(2), of ?lo] by (simp add: p1_def same_setup_def)
  then have r2: "same_setup p1 p2"
    using on_write_data1 [of p1 ?hi] same_setup_ready [OF r1] p(2,3) by (simp add: p2_def same_setup_def)
  define q where "q = on_write ADDR_COMMAND (access_word True 3 r) p2"
  have q: "same_setup p q" "shadow_regs q (take_bit 16 r) = Some (take_bit 32 v)"
    "shadow_hi q (take_bit 16 r) = Some (take_bit 32 (drop_bit 32 v))"
    using command_write64 [OF p(2,3), of q r ?hi ?lo] by (simp_all add: q_def p1_def p2_def)
  have "same_setup p2 q" using q(1) r1 r2 by (simp add: same_setup_def)
  then obtain d' where "seqD (dmi_write T ADDR_COMMAND (access_word True 3 r)) (wait_abstractcs T DEFAULT_TIMEOUT)
      (d\<lparr>t_state := s2\<rparr>) = Some (Inr (), d')" "reps (t_state d') q"
    using command_run [of "d\<lparr>t_state := s2\<rparr>" p2 q "access_word True 3 r" DEFAULT_TIMEOUT] s2(2)
      same_setup_ready [OF r1] same_setup_ready [OF r2] p(2) by (auto simp: q_def)
  then show thesis using that [of d' q] q by (simp only: write_reg64_def command_words seqD_simps(1) s1(1) s2(1))
qed

lemma read_reg64_run:
  assumes p: "reps (t_state d) p" "command_ready p" "2 \<le> cfg_datacount (cfg p)"
    and r: "shadow_regs p (take_bit 16 r) = Some v" "shadow_hi p (take_bit 16 r) = Some h"
      "reads_back_as_written (take_bit 16 r)" "take_bit 16 r \<noteq> GPR_X0_REGNO"
      "length (data_q p) = 12" "length (data_known p) = 12"
  obtains d' where "read_reg64 T r d = Some (Inr (push_bit 32 h OR v), d')"
proof -
  define q where "q = on_write ADDR_COMMAND (access_word False 3 r) p"
  have q: "same_setup p q" "data0_pending_valid q" "data0_pending_value q = v" "data_known q ! 1" "data_q q ! 1 = h"
    using command_read64 [OF p(2) q_def r] by simp_all
  then obtain d1 where d1: "seqD (dmi_write T ADDR_COMMAND (access_word False 3 r)) (wait_abstractcs T DEFAULT_TIMEOUT) d =
      Some (Inr (), d1)" "reps (t_state d1) q"
    using command_run [OF p(1) _ p(2) q_def, of DEFAULT_TIMEOUT] by auto
  have m: "has_model q ADDR_DATA0" "predict q ADDR_DATA0 = v" "has_model q ADDR_DATA1" "predict q ADDR_DATA1 = h"
    using q p(2,3) by (simp_all add: has_model_def predict_def is_data_def same_setup_def command_ready_def)
  have "rd ADDR_DATA1 q = q"
    using q(1) p(2) by (intro data_reads) (simp_all add: is_data_def same_setup_def command_ready_def)
  then obtain s2 where s2: "dmi_read T ADDR_DATA1 d1 = Some (Inr h, d1\<lparr>t_state := s2\<rparr>)" "reps s2 q"
    using dmi_read_run [OF d1(2), of ADDR_DATA1] m(3,4) by metis
  then obtain s3 where "dmi_read T ADDR_DATA0 (d1\<lparr>t_state := s2\<rparr>) = Some (Inr v, d1\<lparr>t_state := s3\<rparr>)"
    using dmi_read_run [of "d1\<lparr>t_state := s2\<rparr>" q ADDR_DATA0] m(1,2) by auto
  then show thesis
    using that d1(1) s2(1)
    by (simp only: read_reg64_def command_words seqD_assoc seqD_simps(1) bindD_simps(1) plain_simps)
qed

lemma reg64_round_trip_run:
  assumes p: "reps (t_state d) p" "command_ready p" "2 \<le> cfg_datacount (cfg p)"
    "length (data_q p) = 12" "length (data_known p) = 12"
    and r: "reads_back_as_written (take_bit 16 r)" "take_bit 16 r \<noteq> GPR_X0_REGNO"
  shows "\<exists>d'. seqD (write_reg64 T r v) (read_reg64 T r) d = Some (Inr (take_bit 64 v), d')"
proof -
  obtain d1 q where d1: "write_reg64 T r v d = Some (Inr (), d1)" "reps (t_state d1) q" "same_setup p q"
    "shadow_regs q (take_bit 16 r) = Some (take_bit 32 v)"
    "shadow_hi q (take_bit 16 r) = Some (take_bit 32 (drop_bit 32 v))"
    by (rule write_reg64_run [OF p(1-3)])
  moreover have "push_bit 32 (take_bit 32 (drop_bit 32 v)) OR take_bit 32 v = take_bit 64 v"
    by (rule bit_eqI) (auto simp: bit_or_iff bit_push_bit_iff bit_take_bit_iff bit_drop_bit_eq)
  moreover have "command_ready q" "2 \<le> cfg_datacount (cfg q)" "length (data_q q) = 12" "length (data_known q) = 12"
    using d1(3) p same_setup_ready by (simp_all add: same_setup_def command_ready_def)
  ultimately show ?thesis
    using read_reg64_run [OF d1(2) _ _ d1(4,5) r] by (metis seqD_simps(1))
qed

text \<open>Setting up the bus address: \<^verbatim>\<open>sbcs\<close>, then \<^verbatim>\<open>sbaddress0\<close>.\<close>

lemma bus_address_run:
  assumes "reps (t_state d) p"
  obtains s' where
    "\<And>k. seqD (dmi_write T ADDR_SBCS w) (seqD (dmi_write T ADDR_SBADDRESS0 a) k) d = k (d\<lparr>t_state := s'\<rparr>)"
    "reps s' (on_write ADDR_SBADDRESS0 a (on_write ADDR_SBCS w p))"
proof -
  define p1 where "p1 = on_write ADDR_SBCS w p"
  obtain s1 where s1: "dmi_write T ADDR_SBCS w d = Some (Inr (), d\<lparr>t_state := s1\<rparr>)" "reps s1 p1"
    using dmi_write_run [OF assms, of ADDR_SBCS w] p1_def by blast
  obtain s2 where s2: "dmi_write T ADDR_SBADDRESS0 a (d\<lparr>t_state := s1\<rparr>) = Some (Inr (), d\<lparr>t_state := s2\<rparr>)"
    "reps s2 (on_write ADDR_SBADDRESS0 a p1)"
    by (rule dmi_write_run [of "d\<lparr>t_state := s1\<rparr>" p1 ADDR_SBADDRESS0 a]) (simp_all add: s1(2))
  show thesis
  proof (rule that)
    show "seqD (dmi_write T ADDR_SBCS w) (seqD (dmi_write T ADDR_SBADDRESS0 a) k) d = k (d\<lparr>t_state := s2\<rparr>)"
      for k :: "('s, 'b) dbg" by (simp only: seqD_simps(1) s1(1) s2(1))
  qed (use s2(2) p1_def in simp)
qed

lemma write_mem32_run:
  assumes p: "reps (t_state d) p" "sba_ready p"
  obtains d' q where "write_mem32 T a v d = Some (Inr (), d')" "reps (t_state d') q" "sba_ready q"
    "shadow_mem q (take_bit 32 a) = Some (take_bit 32 v)"
proof -
  define p2 where "p2 = on_write ADDR_SBADDRESS0 a (on_write ADDR_SBCS (push_bit 17 2) p)"
  define q where "q = on_write ADDR_SBDATA0 v p2"
  obtain s2 where s2: "seqD (dmi_write T ADDR_SBCS (push_bit 17 2)) (seqD (dmi_write T ADDR_SBADDRESS0 a) k) d =
      k (d\<lparr>t_state := s2\<rparr>)" "reps s2 p2" for k :: "('s, unit) dbg"
    using bus_address_run [OF p(1), of "push_bit 17 2" a] p2_def by metis
  obtain s3 where s3: "dmi_write T ADDR_SBDATA0 v (d\<lparr>t_state := s2\<rparr>) = Some (Inr (), d\<lparr>t_state := s3\<rparr>)" "reps s3 q"
    by (rule dmi_write_run [of "d\<lparr>t_state := s2\<rparr>" p2 ADDR_SBDATA0 v]) (simp_all add: s2(2) q_def)
  have q: "shadow_mem q (take_bit 32 a) = Some (take_bit 32 v)" "sba_ready q"
    using mem_write32 [of q v a p] p(2) by (simp_all add: q_def p2_def)
  then obtain s4 where s4: "wait_sbus T DEFAULT_TIMEOUT (d\<lparr>t_state := s3\<rparr>) =
      Some (Inr (), d\<lparr>t_state := s4, clock_reads := Suc (clock_reads d)\<rparr>)" "reps s4 q"
    using wait_sbus_run [of "d\<lparr>t_state := s3\<rparr>" q DEFAULT_TIMEOUT] s3(2) by auto
  show thesis
  proof (rule that [where q = q])
    show "write_mem32 T a v d = Some (Inr (), d\<lparr>t_state := s4, clock_reads := Suc (clock_reads d)\<rparr>)"
      by (simp only: write_mem32_def s2(1) seqD_simps(1) s3(1) s4(1))
  qed (simp_all add: s4(2) q)
qed

lemma read_mem32_run:
  assumes p: "reps (t_state d) p" "sba_ready p" "shadow_mem p (take_bit 32 a) = Some v"
  obtains d' where "read_mem32 T a d = Some (Inr v, d')"
proof -
  let ?w = "push_bit 20 1 OR push_bit 17 2"
  define q where "q = on_write ADDR_SBADDRESS0 a (on_write ADDR_SBCS ?w p)"
  obtain s2 where s2: "seqD (dmi_write T ADDR_SBCS ?w) (seqD (dmi_write T ADDR_SBADDRESS0 a) k) d = k (d\<lparr>t_state := s2\<rparr>)"
    "reps s2 q" for k :: "('s, int) dbg"
    using bus_address_run [OF p(1), of ?w a] q_def by metis
  have q: "sbdata0_pending_valid q" "sbdata0_pending_value q = v" "sba_ready q"
    using mem_read32 [OF q_def p(3)] p(2) by simp_all
  then obtain s3 where s3: "wait_sbus T DEFAULT_TIMEOUT (d\<lparr>t_state := s2\<rparr>) =
      Some (Inr (), d\<lparr>t_state := s3, clock_reads := Suc (clock_reads d)\<rparr>)" "reps s3 q"
    using wait_sbus_run [of "d\<lparr>t_state := s2\<rparr>" q DEFAULT_TIMEOUT] s2(2) by auto
  define e where "e = d\<lparr>t_state := s3, clock_reads := Suc (clock_reads d)\<rparr>"
  have "has_model q ADDR_SBDATA0" "predict q ADDR_SBDATA0 = v" "reps (t_state e) q"
    using q by (simp_all add: has_model_def predict_def is_data_def is_progbuf_def sba_ready_def e_def s3(2))
  then obtain s4 where "dmi_read T ADDR_SBDATA0 e = Some (Inr v, e\<lparr>t_state := s4\<rparr>)"
    using dmi_read_run [of e q ADDR_SBDATA0] by metis
  then show thesis using that s3(1) by (simp only: read_mem32_def s2(1) seqD_simps(1) e_def)
qed

lemma mem32_round_trip_run:
  assumes "reps (t_state d) p" "sba_ready p"
  shows "\<exists>d'. seqD (write_mem32 T a v) (read_mem32 T a) d = Some (Inr (take_bit 32 v), d')"
proof -
  obtain d1 q where d1: "write_mem32 T a v d = Some (Inr (), d1)" "reps (t_state d1) q" "sba_ready q"
    "shadow_mem q (take_bit 32 a) = Some (take_bit 32 v)"
    by (rule write_mem32_run [OF assms])
  then show ?thesis using read_mem32_run [OF d1(2-4)] by (metis seqD_simps(1))
qed

end

end
