(* ===== verification/Invariants.thy ===== *)
theory Invariants
  imports ReadBack
begin

text \<open>
  The architectural invariants of \<^verbatim>\<open>src/src/pydebug/model/invariants.py\<close>: one function per
  \<^verbatim>\<open>_inv_*\<close>, each returning the violations it appends, and \<open>check_all\<close>, their
  concatenation in the order of the calls. A violation carries its rule, the hart it is about
  and whether it blames the stimulus; the report texts (message, citation, observed, expected,
  test case ids) are not modelled. The catalogue \<^verbatim>\<open>UNSPECIFIED_BEHAVIOURS\<close> and its printer
  are documentation and not modelled.
\<close>

unbundle bit_operations_syntax

subsection \<open>Violations and snapshots\<close>

datatype dmi_op = OP_READ | OP_WRITE

record Violation =
  v_rule :: string
  v_hart :: "int option"
  v_stimulus_legality :: bool

definition dut_violation :: "string \<Rightarrow> int option \<Rightarrow> Violation" where
  "dut_violation rule hart = \<lparr>v_rule = rule, v_hart = hart, v_stimulus_legality = False\<rparr>"

definition stimulus_violation :: "string \<Rightarrow> Violation" where
  "stimulus_violation rule = \<lparr>v_rule = rule, v_hart = None, v_stimulus_legality = True\<rparr>"

definition hart_at :: "Snapshot option \<Rightarrow> int \<Rightarrow> HartSnapshot option" where
  "hart_at state index =
     (let hs = (case state of None \<Rightarrow> [] | Some s \<Rightarrow> s_harts s)
      in if 0 \<le> index \<and> index < int (length hs) then Some (hs ! nat index) else None)"

definition in_reset :: "HartSnapshot \<Rightarrow> bool" where
  "in_reset h \<longleftrightarrow> \<not> s_halted h \<and> \<not> s_running h"

definition is_reset_write :: "(string \<times> int) list \<Rightarrow> DMPredictor \<Rightarrow> bool" where
  "is_reset_write f p \<longleftrightarrow>
     truth (item f ''ndmreset'') \<or> ndmreset p \<or> truth (item f ''hartreset'') \<or> hartreset_level p"

text \<open>\<^verbatim>\<open>predictor.expect(addr)\<close> for \<^verbatim>\<open>dmcontrol\<close> and \<^verbatim>\<open>dmstatus\<close>, which are always modelled.\<close>

definition expect_word :: "DMPredictor \<Rightarrow> int \<Rightarrow> int" where
  "expect_word p addr = (case expect p addr of Inr w \<Rightarrow> w | Inl _ \<Rightarrow> 0)"

text \<open>\<^verbatim>\<open>for i, h in enumerate(harts): ...\<close>, each iteration appending violations.\<close>

definition for_harts :: "(int \<Rightarrow> HartSnapshot \<Rightarrow> Violation list) \<Rightarrow> HartSnapshot list \<Rightarrow> Violation list" where
  "for_harts f hs = concat (map (\<lambda>(i, h). f (int i) h) (enumerate 0 hs))"

subsection \<open>Invariants of a state\<close>

definition inv_halted_running_mutex :: "DMPredictor \<Rightarrow> Violation list" where
  "inv_halted_running_mutex p =
     for_harts (\<lambda>i h. if s_halted h \<and> s_running h
                      then [dut_violation ''INV-HALT-RUN-MUTEX'' (Some i)] else [])
       (s_harts (snapshot p))"

definition check_dmstatus_word :: "int \<Rightarrow> DMPredictor \<Rightarrow> Violation list" where
  "check_dmstatus_word word p =
     (let f = decode DMSTATUS word in
      (if selected_indices p \<noteq> [] then
         concat (map (\<lambda>(all_name, any_name).
           if truth (item f all_name) \<and> \<not> truth (item f any_name)
           then [dut_violation ''INV-ALL-IMPLIES-ANY'' None] else []) DMSTATUS_ALL_ANY_PAIRS)
       else [])
      @ (if dmactive p \<and> \<not> ndmreset p \<and> item f ''version'' = DMSTATUS_VERSION_NONE
         then [dut_violation ''INV-VERSION-NONZERO'' None] else [])
      @ (if version p \<ge> DMSTATUS_VERSION_1_0 \<and> ndmreset p \<and> \<not> truth (item f ''ndmresetpending'')
         then [dut_violation ''INV-NDMRESETPENDING'' None] else []))"

definition inv_dmcontrol_reads_zero :: "int \<Rightarrow> Violation list" where
  "inv_dmcontrol_reads_zero readback =
     concat (map (\<lambda>fld.
       if f_access fld \<notin> set ACCESS_READS_ZERO then []
       else if extract_field fld readback \<noteq> 0
       then [dut_violation ''INV-DMCONTROL-READS-ZERO'' None] else []) (r_fields DMCONTROL))"

subsection \<open>Legality of the stimulus\<close>

definition inv_mutex_bits :: "(string \<times> int) list \<Rightarrow> Violation list" where
  "inv_mutex_bits f =
     (let asserted = filter (\<lambda>nm. truth (item f nm)) DMCONTROL_MUTEX_BITS
      in if length asserted > 1 then [stimulus_violation ''INV-STIM-DMCONTROL-MUTEX''] else [])"

definition inv_dmi_access_during_ndmreset :: "int \<Rightarrow> DMPredictor \<Rightarrow> Violation list" where
  "inv_dmi_access_during_ndmreset addr p =
     (if \<not> ndmreset p then []
      else if addr \<in> {ADDR_DMCONTROL, ADDR_DMSTATUS} then []
      else [stimulus_violation ''INV-STIM-DMI-DURING-NDMRESET''])"

subsection \<open>Invariants of a transition\<close>

definition inv_resumereq_ignored_when_haltreq ::
  "Snapshot option \<Rightarrow> (string \<times> int) list \<Rightarrow> DMPredictor \<Rightarrow> Violation list" where
  "inv_resumereq_ignored_when_haltreq prev f p =
     (if \<not> (truth (item f ''haltreq'') \<and> truth (item f ''resumereq'')) then []
      else if \<not> truth (item f ''dmactive'') \<or> is_reset_write f p then []
      else concat (map (\<lambda>i.
        case (hart_at prev i, hart_at (Some (snapshot p)) i) of
          (Some was, Some now) \<Rightarrow>
            if s_nonexistent was \<or> s_unavail was then []
            else if s_halted was \<and> \<not> s_halted now
            then [dut_violation ''INV-RESUMEREQ-IGNORED-WHEN-HALTREQ'' (Some i)] else []
        | _ \<Rightarrow> []) (selected_indices p)))"

definition inv_halted_ignores_haltreq ::
  "Snapshot option \<Rightarrow> (string \<times> int) list \<Rightarrow> DMPredictor \<Rightarrow> Violation list" where
  "inv_halted_ignores_haltreq prev f p =
     (if \<not> truth (item f ''haltreq'') \<or> \<not> truth (item f ''dmactive'') then []
      else if is_reset_write f p then []
      else concat (map (\<lambda>i.
        case (hart_at prev i, hart_at (Some (snapshot p)) i) of
          (Some was, Some now) \<Rightarrow>
            if s_nonexistent was \<or> s_unavail was then []
            else if \<not> s_halted was then []
            else (if \<not> s_halted now \<or> s_running now
                  then [dut_violation ''INV-HALTED-IGNORES-HALTREQ'' (Some i)] else [])
               @ (if s_resume_ack now \<noteq> s_resume_ack was
                  then [dut_violation ''INV-HALTED-IGNORES-HALTREQ'' (Some i)] else [])
        | _ \<Rightarrow> []) (selected_indices p)))"

definition inv_resumereq ::
  "Snapshot option \<Rightarrow> (string \<times> int) list \<Rightarrow> DMPredictor \<Rightarrow> Violation list" where
  "inv_resumereq prev f p =
     (if \<not> truth (item f ''resumereq'') \<or> \<not> truth (item f ''dmactive'') then []
      else if truth (item f ''haltreq'') then []
      else if is_reset_write f p then []
      else concat (map (\<lambda>i.
        case (hart_at prev i, hart_at (Some (snapshot p)) i) of
          (Some was, Some now) \<Rightarrow>
            if s_nonexistent was \<or> s_unavail was then []
            else if s_halted was then
              (if s_halted now \<or> \<not> s_running now
               then [dut_violation ''INV-RESUMEREQ-RESUMES-HALTED'' (Some i)]
               else if \<not> s_resume_ack now
               then [dut_violation ''INV-RESUMEREQ-RESUMES-HALTED'' (Some i)] else [])
            else if s_running was then
              (if s_halted now \<or> \<not> s_running now
               then [dut_violation ''INV-RUNNING-IGNORES-RESUMEREQ'' (Some i)] else [])
              @ (if s_resume_ack now
                 then [dut_violation ''INV-RESUMEREQ-CLEARS-ACK'' (Some i)] else [])
            else []
        | _ \<Rightarrow> []) (selected_indices p)))"

definition inv_havereset_sticky ::
  "Snapshot option \<Rightarrow> dmi_op \<Rightarrow> int \<Rightarrow> (string \<times> int) list option \<Rightarrow> DMPredictor \<Rightarrow> Violation list" where
  "inv_havereset_sticky prev op addr flds p =
     (let post = snapshot p;
          is_dmcontrol_write = (op = OP_WRITE \<and> addr = ADDR_DMCONTROL \<and> flds \<noteq> None);
          f = (case flds of Some f \<Rightarrow> f | None \<Rightarrow> [])
      in if is_dmcontrol_write \<and> \<not> truth (item f ''dmactive'') then []
         else let acked = (if is_dmcontrol_write \<and> truth (item f ''ackhavereset'')
                           then selected_indices p else [])
              in for_harts (\<lambda>i now.
                   case hart_at prev i of
                     None \<Rightarrow> []
                   | Some was \<Rightarrow>
                       if s_havereset was \<and> \<not> s_havereset now \<and> i \<notin> set acked
                       then [dut_violation ''INV-HAVERESET-STICKY'' (Some i)] else [])
                   (s_harts post)
                 @ concat (map (\<lambda>i.
                     case hart_at (Some post) i of
                       Some now \<Rightarrow> if s_havereset now
                                   then [dut_violation ''INV-ACKHAVERESET-CLEARS'' (Some i)] else []
                     | None \<Rightarrow> []) acked))"

definition inv_reset_release ::
  "Snapshot option \<Rightarrow> (string \<times> int) list \<Rightarrow> DMPredictor \<Rightarrow> Violation list" where
  "inv_reset_release prev f p =
     (if \<not> truth (item f ''dmactive'') then []
      else for_harts (\<lambda>i now.
        case hart_at prev i of
          None \<Rightarrow> []
        | Some was \<Rightarrow>
            if s_nonexistent now then []
            else if \<not> (in_reset was \<and> \<not> in_reset now) then []
            else
              let wants_halt = s_reset_haltreq was \<or> s_reset_haltreq now \<or> s_halt_request now
              in (if \<not> s_havereset now
                  then [dut_violation ''INV-HAVERESET-SET-ON-RESET'' (Some i)] else [])
               @ (if wants_halt \<and> \<not> s_halted now
                  then [dut_violation ''INV-HALT-ON-RESET'' (Some i)] else [])
               @ (if \<not> wants_halt \<and> s_halted now
                  then [dut_violation ''INV-NO-HALT-WITHOUT-REQUEST'' (Some i)] else []))
        (s_harts (snapshot p)))"

definition inv_resethaltreq_per_hart ::
  "Snapshot option \<Rightarrow> (string \<times> int) list \<Rightarrow> DMPredictor \<Rightarrow> Violation list" where
  "inv_resethaltreq_per_hart prev f p =
     (if \<not> truth (item f ''dmactive'') then []
      else if \<not> (truth (item f ''setresethaltreq'') \<or> truth (item f ''clrresethaltreq'')) then []
      else for_harts (\<lambda>i now.
        case hart_at prev i of
          None \<Rightarrow> []
        | Some was \<Rightarrow>
            if i \<in> set (selected_indices p) then []
            else if s_reset_haltreq now \<noteq> s_reset_haltreq was
            then [dut_violation ''INV-RESETHALTREQ-PER-HART'' (Some i)] else [])
        (s_harts (snapshot p)))"

definition inv_dm_reset_state :: "(string \<times> int) list \<Rightarrow> DMPredictor \<Rightarrow> Violation list" where
  "inv_dm_reset_state f p =
     (if truth (item f ''dmactive'') then []
      else concat (map (\<lambda>fld.
             if f_name fld = ''dmactive'' \<or> f_reset fld = None \<or> reads_zero fld then []
             else if Some (extract_field fld (expect_word p ADDR_DMCONTROL)) \<noteq> f_reset fld
             then [dut_violation ''INV-DM-RESET-STATE'' None] else []) (r_fields DMCONTROL))
         @ for_harts (\<lambda>i h.
             (if s_halt_request h then [dut_violation ''INV-DM-RESET-STATE'' (Some i)] else [])
             @ (if s_reset_haltreq h then [dut_violation ''INV-DM-RESET-STATE'' (Some i)] else []))
             (s_harts (snapshot p)))"

subsection \<open>All of them, for one DMI operation\<close>

definition check_all ::
  "Snapshot option \<Rightarrow> dmi_op \<Rightarrow> int \<Rightarrow> int option \<Rightarrow> int option \<Rightarrow> DMPredictor \<Rightarrow> Violation list" where
  "check_all prev op addr data readback p =
     (let flds = (if op = OP_WRITE \<and> addr = ADDR_DMCONTROL
                    then map_option (decode DMCONTROL) data else None)
      in inv_dmi_access_during_ndmreset addr p
       @ inv_halted_running_mutex p
       @ (case (op = OP_READ \<and> addr = ADDR_DMSTATUS, readback) of
            (True, Some w) \<Rightarrow> check_dmstatus_word w p
          | _ \<Rightarrow> check_dmstatus_word (expect_word p ADDR_DMSTATUS) p)
       @ (case (op = OP_READ \<and> addr = ADDR_DMCONTROL, readback) of
            (True, Some w) \<Rightarrow> inv_dmcontrol_reads_zero w
          | _ \<Rightarrow> [])
       @ inv_havereset_sticky prev op addr flds p
       @ (case flds of
            None \<Rightarrow> []
          | Some f \<Rightarrow>
              inv_mutex_bits f
              @ inv_dm_reset_state f p
              @ inv_resumereq_ignored_when_haltreq prev f p
              @ inv_halted_ignores_haltreq prev f p
              @ inv_resumereq prev f p
              @ inv_reset_release prev f p
              @ inv_resethaltreq_per_hart prev f p))"

end
