(* ===== verification/MockTransport.thy ===== *)
theory MockTransport
  imports CommandRuns Invariants
begin

text \<open>
  \<^verbatim>\<open>src/src/pydebug/model/mock_transport.py\<close>: the transport backed by the predictor. Every modelled
  register is answered by the predictor, the others by canned values; every operation is
  recorded in the trace.
\<close>

unbundle bit_operations_syntax

record ModelBackedMockTransport =
  predictor :: DMPredictor
  regfile :: "int \<rightharpoonup> int"
  mock_log :: "(dmi_op \<times> int \<times> int) list"
  connected :: bool

text \<open>\<^verbatim>\<open>__init__\<close>, for the predictor passed in or built from the keyword arguments.\<close>

definition mock_init :: "DMPredictor \<Rightarrow> ModelBackedMockTransport" where
  "mock_init p = \<lparr>predictor = p, regfile = Map.empty, mock_log = [], connected = False\<rparr>"

definition mock_connect :: "ModelBackedMockTransport \<Rightarrow> ModelBackedMockTransport" where
  "mock_connect m = m\<lparr>connected := True\<rparr>"

definition mock_disconnect :: "ModelBackedMockTransport \<Rightarrow> ModelBackedMockTransport" where
  "mock_disconnect m = m\<lparr>connected := False\<rparr>"

definition mock_write :: "int \<Rightarrow> int \<Rightarrow> ModelBackedMockTransport \<Rightarrow> (dbg_error + unit) \<times> ModelBackedMockTransport" where
  "mock_write addr data m =
     (Inr (), m\<lparr>mock_log := mock_log m @ [(OP_WRITE, addr, data)],
               regfile := (regfile m)(addr \<mapsto> data),
               predictor := on_write addr data (predictor m)\<rparr>)"

definition canned :: "int \<Rightarrow> ModelBackedMockTransport \<Rightarrow> int" where
  "canned addr m =
     (if addr = ADDR_ABSTRACTCS then 0x01000000
      else if addr = ADDR_DATA0 then dict_get (regfile m) ADDR_DATA0 0xDEADBEEF
      else if addr = ADDR_SBCS then 0x20040000
      else if addr = ADDR_SBDATA0 then dict_get (regfile m) ADDR_SBDATA0 0xCAFE0000
      else dict_get (regfile m) addr 0)"

definition mock_read :: "int \<Rightarrow> ModelBackedMockTransport \<Rightarrow> (dbg_error + int) \<times> ModelBackedMockTransport" where
  "mock_read addr m =
     (case (if has_model (predictor m) addr then expect (predictor m) addr else Inr (canned addr m)) of
        Inl e \<Rightarrow> (Inl (Raised e), m)
      | Inr v \<Rightarrow> (Inr v, m\<lparr>mock_log := mock_log m @ [(OP_READ, addr, v)]\<rparr>))"

definition ops :: "ModelBackedMockTransport \<Rightarrow> (dmi_op \<times> int) list" where
  "ops m = map (\<lambda>(op, addr, _). (op, addr)) (mock_log m)"

definition writes_to :: "int \<Rightarrow> ModelBackedMockTransport \<Rightarrow> int list" where
  "writes_to addr m =
     map (\<lambda>(op, a, data). data) (filter (\<lambda>(op, a, data). op = OP_WRITE \<and> a = addr) (mock_log m))"

text \<open>The mock as a transport, with the readings of the clock it runs under.\<close>

definition mock_transport :: "(nat \<Rightarrow> int) \<Rightarrow> ModelBackedMockTransport transport" where
  "mock_transport clock =
     \<lparr>t_read = mock_read, t_write = mock_write,
      t_connect = (\<lambda>m. (Inr (), mock_connect m)), t_disconnect = (\<lambda>m. (Inr (), mock_disconnect m)),
      t_reset = reset_noop, t_connected = connected, t_monotonic = clock\<rparr>"

subsection \<open>The mock keeps the contract of a target\<close>

interpretation mock: dm_target "mock_transport clock" "\<lambda>m p. predictor m = p" "\<lambda>_ p. p" for clock
proof
  show "\<exists>s'. t_write (mock_transport clock) a v s = (Inr (), s') \<and> predictor s' = on_write a v p"
    if "predictor s = p" for a v s p
    using that by (simp add: mock_transport_def mock_write_def)
  show "\<exists>s'. t_read (mock_transport clock) a s = (Inr (predict p a), s') \<and> predictor s' = p"
    if "predictor s = p" "has_model p a" for s p a
    using that by (simp add: mock_transport_def mock_read_def expect_def)
qed simp_all

interpretation mock_bench: dm_bench "mock_transport clock" "\<lambda>m p. predictor m = p" for clock
proof
  show "\<exists>v s'. t_read (mock_transport clock) a s = (Inr v, s') \<and> predictor s' = p \<and>
      (a = ADDR_ABSTRACTCS \<longrightarrow> abstractcs_check v = Inr True) \<and> (a = ADDR_SBCS \<longrightarrow> sbus_check v = Inr True)"
    if "predictor s = p" "\<not> has_model p a" for s p a
    using that by (simp add: mock_transport_def mock_read_def canned_def abstractcs_check_def sbus_check_def)
qed

text \<open>The mock never raises, whatever the address.\<close>

lemma mock_read_total: "\<exists>v. fst (mock_read addr m) = Inr v \<and> predictor (snd (mock_read addr m)) = predictor m"
  by (simp add: mock_read_def expect_def)

lemma mock_read_run:
  "\<exists>v m'. mock_read a m = (Inr v, m') \<and> predictor m' = predictor m \<and> (has_model (predictor m) a \<longrightarrow> v = predict (predictor m) a) \<and>
     (\<not> has_model (predictor m) a \<longrightarrow> v = canned a m)"
  by (simp add: mock_read_def expect_def)

lemma with_mock_transport:
  "with_transport (mock_transport clock) body m =
     (let (r, m1) = body (mock_connect m) in (r, mock_disconnect m1))"
  by (simp add: with_transport_def mock_transport_def split: prod.split)

subsection \<open>Sessions against the mock\<close>

definition sample_session :: "ModelBackedMockTransport RISCVDebug" where
  "sample_session = RISCVDebug_init (mock_init sample_dm)"

lemma sample_session_state: "predictor (t_state sample_session) = sample_dm" "tracked_hartsel sample_session = 0"
  by (simp_all add: sample_session_def RISCVDebug_init_def mock_init_def)

text \<open>
  \<^verbatim>\<open>halt\<close> through the mock returns after one poll, whatever the clock and the timeout: the
  selected hart is halted, and with no \<^verbatim>\<open>ndmreset\<close> asserted every other hart is unchanged.
\<close>

lemma mock_halt:
  assumes "reachable (predictor (t_state d))" "drivable (predictor (t_state d)) i" "tracked_hartsel d = int i"
  shows "\<exists>d'. halt (mock_transport clock) timeout d = Some (Inr (), d') \<and>
    halted (harts (predictor (t_state d')) ! i) \<and>
    (\<not> ndmreset (predictor (t_state d)) \<longrightarrow> (\<forall>j < length (harts (predictor (t_state d))). j \<noteq> i \<longrightarrow>
        harts (predictor (t_state d')) ! j = harts (predictor (t_state d)) ! j))"
  using mock.halt_run [OF refl assms] by blast

text \<open>
  \<^verbatim>\<open>resume\<close> of a halted hart with no single step armed returns: the hart runs and has its
  resume acknowledge set.
\<close>

lemma mock_resume:
  assumes "reachable (predictor (t_state d))" "drivable (predictor (t_state d)) i" "tracked_hartsel d = int i"
    "halted (harts (predictor (t_state d)) ! i)" "\<not> step_armed (predictor (t_state d))"
  shows "\<exists>d'. resume (mock_transport clock) timeout d = Some (Inr (), d') \<and>
    running (harts (predictor (t_state d')) ! i) \<and> resume_ack (harts (predictor (t_state d')) ! i)"
  using mock.resume_run [OF refl assms] by blast

text \<open>
  \<^verbatim>\<open>activate\<close> raises exactly when the module reports version 0; either way the module is
  active with hart 0 selected and its \<^verbatim>\<open>havereset\<close> acknowledged.
\<close>

lemma mock_activate:
  assumes "reachable (predictor (t_state d))"
  shows "\<exists>d'. activate (mock_transport clock) d =
      Some (if take_bit 4 (version (predictor (t_state d))) = 0 then Inl NoDebugModule else Inr (), d') \<and>
    dmactive (predictor (t_state d')) \<and> hartsel (predictor (t_state d')) = 0 \<and> tracked_hartsel d' = 0 \<and>
    \<not> havereset (harts (predictor (t_state d')) ! 0)"
  using mock.activate_run [OF refl assms] by blast

text \<open>
  What \<^verbatim>\<open>write_gpr\<close> writes to a register is what \<^verbatim>\<open>read_gpr\<close> returns, cut to 32 bits: for
  every register number but \<^verbatim>\<open>x0\<close> and the trigger registers, on a declared, active and idle
  module.
\<close>

lemma gpr_round_trip:
  assumes "command_ready (predictor (t_state d))" "reads_back_as_written (take_bit 16 r)" "take_bit 16 r \<noteq> GPR_X0_REGNO"
  shows "\<exists>d'. seqD (write_gpr (mock_transport clock) r v) (read_gpr (mock_transport clock) r) d =
    Some (Inr (take_bit 32 v), d')"
  by (rule mock.gpr_round_trip_run [OF refl assms])

text \<open>
  A 64-bit register written with \<^verbatim>\<open>write_reg64\<close> is read back whole by \<^verbatim>\<open>read_reg64\<close>.
\<close>

lemma reg64_round_trip:
  assumes "reachable (predictor (t_state d))" "command_ready (predictor (t_state d))"
    "2 \<le> cfg_datacount (cfg (predictor (t_state d)))"
    "reads_back_as_written (take_bit 16 r)" "take_bit 16 r \<noteq> GPR_X0_REGNO"
  shows "\<exists>d'. seqD (write_reg64 (mock_transport clock) r v) (read_reg64 (mock_transport clock) r) d =
    Some (Inr (take_bit 64 v), d')"
  using reachable_words_ok [OF assms(1)]
  by (intro mock.reg64_round_trip_run [OF refl] assms(2-5)) (simp_all add: words_ok_def)

text \<open>
  A memory word written with \<^verbatim>\<open>write_mem32\<close> is what \<^verbatim>\<open>read_mem32\<close> of the same address returns,
  on a declared and active module with system bus access.
\<close>

lemma mem32_round_trip:
  assumes "sba_ready (predictor (t_state d))"
  shows "\<exists>d'. seqD (write_mem32 (mock_transport clock) a v) (read_mem32 (mock_transport clock) a) d =
    Some (Inr (take_bit 32 v), d')"
  by (rule mock.mem32_round_trip_run [OF refl assms])

end
