(* ===== verification/InvariantsSound.thy ===== *)
theory InvariantsSound
  imports Invariants PredictorProps
begin

text \<open>
  The rules of \<^verbatim>\<open>invariants.py\<close> judged against the predictor they run beside: on every transaction
  of a reachable predictor no rule blames the device (\<open>check_all_write_sound\<close>,
  \<open>check_all_read_sound\<close>), and the three places where the module and its documentation part
  (\<open>inv_reset_release_never_fires\<close>, \<open>step_resume_flagged\<close>, \<open>release_resume_flagged\<close>).
\<close>

unbundle bit_operations_syntax

subsection \<open>Snapshots of the predictor\<close>

lemma for_harts_eq: "for_harts f hs = concat (map (\<lambda>i. f (int i) (hs ! i)) [0..<length hs])"
proof -
  have "map (\<lambda>(i, h). f (int i) h) (enumerate 0 hs) = map (\<lambda>i. f (int i) (hs ! i)) [0..<length hs]"
    by (rule nth_equalityI) (simp_all add: nth_enumerate_eq)
  then show ?thesis by (simp add: for_harts_def)
qed

lemma for_harts_Nil_iff:
  "for_harts f (s_harts (snapshot p)) = [] \<longleftrightarrow>
     (\<forall>i < length (harts p). f (int i) (hart_snapshot (harts p ! i)) = [])"
  by (auto simp: for_harts_eq snapshot_def)

lemma hart_at_snapshot:
  "hart_at (Some (snapshot p)) i =
     (if 0 \<le> i \<and> i < int (length (harts p)) then Some (hart_snapshot (harts p ! nat i)) else None)"
  by (auto simp: hart_at_def snapshot_def nat_less_iff)

lemma hart_at_nth [simp]:
  "i < length (harts p) \<Longrightarrow> hart_at (Some (snapshot p)) (int i) = Some (hart_snapshot (harts p ! i))"
  by (simp add: hart_at_snapshot)

lemma expect_word_simps [simp]:
  "expect_word p 16 = expect_dmcontrol p"
  "expect_word p 17 = expect_dmstatus p"
  by (simp_all add: expect_word_def expect_def has_model_def predict_def is_data_def is_progbuf_def)

lemma decode_take32: "decode DMCONTROL (take_bit 32 d) = decode DMCONTROL d"
proof -
  have "extract_field f (take_bit 32 d) = extract_field f d" if "f \<in> set (r_fields DMCONTROL)" for f
  proof -
    from that dmcontrol_layout.fields_fit have "f_lsb f + f_width f \<le> 32"
      by (auto simp: list_all_iff field_fits_def)
    then show ?thesis by (intro bit_eqI) (auto simp: bit_extract_field bit_take_bit_iff)
  qed
  then show ?thesis by (simp add: decode_def)
qed

subsection \<open>State invariants of the predicted state\<close>

lemma mutex_clean: "rc_inv p \<Longrightarrow> inv_halted_running_mutex p = []"
  using rc_inv_hart [of p] by (auto simp: inv_halted_running_mutex_def for_harts_Nil_iff hart_snapshot_def dest: hart_okD)

lemma dmstatus_clean:
  assumes "take_bit 4 (version p) \<noteq> 0" and "rc_view q = rc_view p"
  shows "check_dmstatus_word (expect_dmstatus p) q = []"
  using assms(1) rc_viewD [OF assms(2)]
  by (auto simp: check_dmstatus_word_def Let_def DMSTATUS_ALL_ANY_PAIRS_def dmstatus_bits dmstatus_version)

lemma dmcontrol_clean: "inv_dmcontrol_reads_zero (expect_dmcontrol p) = []"
  by (simp add: inv_dmcontrol_reads_zero_def DMCONTROL_def mkField_def ACCESS_READS_ZERO_def
      extract_one_bit dmcontrol_bits)

subsection \<open>Transition invariants hold of the predicted transitions\<close>

text \<open>The predictor after a \<^verbatim>\<open>dmcontrol\<close> write with \<^verbatim>\<open>dmactive\<close> set, and its selection.\<close>

lemma selected_next [simp]: "selected_indices (dmcontrol_next v p) = [hartsel_of v]"
  by (simp add: selected_indices_def)

lemma selected_hart_cases:
  assumes "rc_inv p"
  obtains "\<not> hartsel_of v < int (length (harts p))"
  | i where "hartsel_of v = int i" "i < length (harts p)" "hart_ok (ndmreset p) (harts p ! i)"
      "\<not> is_nonexistent p (int i)"
  using assms rc_inv_hart rc_inv_exists hartsel_of_range [of v]
  by (metis nat_0_le of_nat_less_iff)

lemma is_reset_write_next:
  "is_reset_write (decode DMCONTROL v) (dmcontrol_next v p) \<longleftrightarrow> bit v 1 \<or> bit v 29"
  by (auto simp: is_reset_write_def)

lemma resumereq_ignored_clean:
  assumes "rc_inv p"
  shows "inv_resumereq_ignored_when_haltreq (Some (snapshot p)) (decode DMCONTROL v) (dmcontrol_next v p) = []"
  using assms
proof (cases rule: selected_hart_cases [of p v])
  case (2 i)
  then show ?thesis
    using hart_next_haltreq [OF 2(3,4) _ 2(1) [symmetric]]
    by (auto simp: inv_resumereq_ignored_when_haltreq_def is_reset_write_next hart_snapshot_def)
qed (use assms in \<open>simp_all add: inv_resumereq_ignored_when_haltreq_def hart_at_snapshot\<close>)

lemma halted_ignores_haltreq_clean:
  assumes "rc_inv p"
  shows "inv_halted_ignores_haltreq (Some (snapshot p)) (decode DMCONTROL v) (dmcontrol_next v p) = []"
  using assms
proof (cases rule: selected_hart_cases [of p v])
  case (2 i)
  then show ?thesis
    using hart_next_haltreq [OF 2(3,4) _ 2(1) [symmetric]]
    by (auto simp: inv_halted_ignores_haltreq_def is_reset_write_next hart_snapshot_def)
qed (use assms in \<open>simp_all add: inv_halted_ignores_haltreq_def hart_at_snapshot\<close>)

lemma resumereq_clean:
  assumes "rc_inv p" and "bit v 30 \<Longrightarrow> \<not> ndmreset p \<and> \<not> hartreset_level p \<and> \<not> step_armed p"
  shows "inv_resumereq (Some (snapshot p)) (decode DMCONTROL v) (dmcontrol_next v p) = []"
  using assms(1)
proof (cases rule: selected_hart_cases [of p v])
  case (2 i)
  then show ?thesis
    using hart_next_resume_halted [OF 2(3,4) _ 2(1) [symmetric]]
      hart_next_resume_running [OF 2(3,4) _ 2(1) [symmetric]] assms(2)
    by (auto simp: inv_resumereq_def is_reset_write_next hart_snapshot_def)
qed (use assms in \<open>simp_all add: inv_resumereq_def hart_at_snapshot\<close>)

lemma havereset_sticky_next_clean:
  "inv_havereset_sticky (Some (snapshot p)) OP_WRITE ADDR_DMCONTROL (Some (decode DMCONTROL v))
     (dmcontrol_next v p) = []"
proof -
  have "havereset (hart_next p v i h) \<or> (bit v 28 \<and> int i = hartsel_of v)" if "havereset h" for i h
    using hart_next_havereset_sticky [OF that] by blast
  moreover have "\<not> havereset (hart_next p v (nat (hartsel_of v)) h)" if "bit v 28" for h
    using hart_next_ackhavereset that hartsel_of_range [of v] by simp
  ultimately show ?thesis
    using hartsel_of_range [of v]
    by (auto simp: inv_havereset_sticky_def Let_def for_harts_Nil_iff hart_at_snapshot hart_snapshot_def
        nat_less_iff)
qed

lemma havereset_sticky_same_clean:
  assumes "harts q = harts p" and "flds = None"
  shows "inv_havereset_sticky (Some (snapshot p)) op addr flds q = []"
  using assms by (simp add: inv_havereset_sticky_def Let_def for_harts_Nil_iff hart_snapshot_def)

lemma resethaltreq_per_hart_clean:
  "inv_resethaltreq_per_hart (Some (snapshot p)) (decode DMCONTROL v) (dmcontrol_next v p) = []"
  by (simp add: inv_resethaltreq_per_hart_def for_harts_Nil_iff hart_snapshot_def hart_next_resethaltreq)

lemma reset_release_clean:
  assumes "rc_inv p" and "length (harts q) = length (harts p)"
  shows "inv_reset_release (Some (snapshot p)) f q = []"
  using rc_inv_hart [OF assms(1)] assms(2)
  by (auto simp: inv_reset_release_def for_harts_Nil_iff hart_snapshot_def in_reset_def dest: hart_okD)

lemma dm_reset_state_clean: "inv_dm_reset_state (decode DMCONTROL v) (reset_dm False p) = []"
proof -
  let ?w = "expect_dmcontrol (reset_dm False p)"
  have "hartsel_of ?w = 0"
    by (simp add: dmcontrol_hartsel_readback)
  then have sel: "\<not> bit ?w n" if "6 \<le> n" "n < 26" for n
    using that bit_hartsel_of [of ?w "if n < 16 then n + 4 else n - 16"]
    by (auto split: if_splits)
  have sel10: "extract_field f ?w = 0" if "f_width f = 10" "f_lsb f = 16 \<or> f_lsb f = 6" for f
    using that by (intro bit_eqI) (auto simp: bit_extract_field sel)
  have "\<forall>f \<in> set (r_fields DMCONTROL). f_name f = ''dmactive'' \<or> f_reset f = None \<or> reads_zero f \<or>
      Some (extract_field f ?w) = f_reset f"
    unfolding DMCONTROL_def
    by (simp add: mkField_def reads_zero_def ACCESS_READS_ZERO_def sel10 extract_one_bit dmcontrol_bits
        dmcontrol_bits [unfolded One_nat_def])
  moreover have "\<not> halt_request (harts (reset_dm False p) ! i) \<and> \<not> reset_haltreq (harts (reset_dm False p) ! i)"
    if "i < nat (max (num_harts p) 1)" for i
    using that by (simp add: nth_reset_dm reset_hart_def HartState_default_def)
  ultimately show ?thesis
    by (auto simp: inv_dm_reset_state_def for_harts_Nil_iff hart_snapshot_def)
qed

subsection \<open>The whole check\<close>

lemma stimulus_rules_blame_stimulus:
  "list_all v_stimulus_legality (inv_dmi_access_during_ndmreset addr p)"
  "list_all v_stimulus_legality (inv_mutex_bits f)"
  by (simp_all add: inv_dmi_access_during_ndmreset_def inv_mutex_bits_def stimulus_violation_def Let_def)

lemma check_all_dmcontrol_next:
  assumes "rc_inv p" "take_bit 4 (version p) \<noteq> 0"
    and "bit d 30 \<Longrightarrow> \<not> ndmreset p \<and> \<not> hartreset_level p \<and> \<not> step_armed p" and "bit d 0"
  shows "list_all v_stimulus_legality
    (check_all (Some (snapshot p)) OP_WRITE ADDR_DMCONTROL (Some d) rb (dmcontrol_next (take_bit 32 d) p))"
proof -
  let ?q = "dmcontrol_next (take_bit 32 d) p"
  let ?f = "decode DMCONTROL d" and ?s = "Some (snapshot p)"
  have "inv_dm_reset_state ?f ?q = []" using assms(4) by (simp add: inv_dm_reset_state_def)
  moreover have "check_dmstatus_word (expect_dmstatus ?q) ?q = []"
    using assms(2) by (simp add: dmstatus_clean)
  moreover have "inv_halted_running_mutex ?q = []"
    using assms(1) by (simp add: mutex_clean rc_inv_dmcontrol_next)
  moreover have "inv_resumereq_ignored_when_haltreq ?s ?f ?q = []" "inv_halted_ignores_haltreq ?s ?f ?q = []"
    "inv_havereset_sticky ?s OP_WRITE 16 (Some ?f) ?q = []" "inv_resethaltreq_per_hart ?s ?f ?q = []"
    using resumereq_ignored_clean [OF assms(1), of "take_bit 32 d"]
      halted_ignores_haltreq_clean [OF assms(1), of "take_bit 32 d"]
      havereset_sticky_next_clean [of p "take_bit 32 d"] resethaltreq_per_hart_clean [of p "take_bit 32 d"]
    by (simp_all add: decode_take32)
  moreover have "inv_resumereq ?s ?f ?q = []"
    using resumereq_clean [OF assms(1), of "take_bit 32 d"] assms(3) by (simp add: decode_take32 bit_take_bit_iff)
  moreover have "inv_reset_release ?s ?f ?q = []" by (rule reset_release_clean [OF assms(1)]) simp
  ultimately show ?thesis
    by (simp add: check_all_def stimulus_rules_blame_stimulus)
qed

lemma check_all_dm_reset:
  assumes "rc_inv p" "take_bit 4 (version p) \<noteq> 0" "\<not> bit d 0"
  shows "list_all v_stimulus_legality
    (check_all (Some (snapshot p)) OP_WRITE ADDR_DMCONTROL (Some d) rb (reset_dm False p))"
proof -
  let ?q = "reset_dm False p" and ?f = "decode DMCONTROL d" and ?s = "Some (snapshot p)"
  have "inv_resumereq_ignored_when_haltreq ?s ?f ?q = []" "inv_halted_ignores_haltreq ?s ?f ?q = []"
    "inv_havereset_sticky ?s OP_WRITE 16 (Some ?f) ?q = []" "inv_resethaltreq_per_hart ?s ?f ?q = []"
    "inv_resumereq ?s ?f ?q = []" "inv_reset_release ?s ?f ?q = []"
    using assms(3) by (simp_all add: inv_resumereq_ignored_when_haltreq_def inv_halted_ignores_haltreq_def
        inv_havereset_sticky_def inv_resethaltreq_per_hart_def inv_resumereq_def inv_reset_release_def)
  moreover have "check_dmstatus_word (expect_dmstatus ?q) ?q = []"
    using assms(2) by (simp add: dmstatus_clean)
  moreover have "inv_halted_running_mutex ?q = []"
    using assms(1) by (simp add: mutex_clean rc_inv_reset_dm)
  ultimately show ?thesis
    by (simp add: check_all_def stimulus_rules_blame_stimulus dm_reset_state_clean)
qed

lemma check_all_same_harts:
  assumes "rc_inv p" "take_bit 4 (version p) \<noteq> 0" "rc_view q = rc_view p"
    and "op = OP_READ \<or> addr \<noteq> ADDR_DMCONTROL" and "op = OP_READ \<Longrightarrow> rb = Some (predict p addr)"
  shows "list_all v_stimulus_legality (check_all (Some (snapshot p)) op addr d rb q)"
proof -
  have "take_bit 4 (version q) \<noteq> 0" using assms(2) rc_viewD(8) [OF assms(3)] by simp
  then have "check_dmstatus_word (expect_dmstatus q) q = []" "check_dmstatus_word (expect_dmstatus p) q = []"
    using dmstatus_clean assms(2,3) by simp_all
  moreover have "inv_halted_running_mutex q = []"
    using assms(1) rc_inv_cong [OF assms(3)] by (simp add: mutex_clean)
  moreover have "predict p 17 = expect_dmstatus p" "predict p 16 = expect_dmcontrol p"
    by (simp_all add: predict_def is_data_def is_progbuf_def)
  moreover have "inv_havereset_sticky (Some (snapshot p)) op addr None q = []"
    by (rule havereset_sticky_same_clean) (simp_all add: rc_viewD(1) [OF assms(3)])
  ultimately show ?thesis
    using assms(4,5)
    by (cases op) (auto simp: check_all_def stimulus_rules_blame_stimulus dmcontrol_clean split: option.split bool.split)
qed

lemma check_all_write_clean:
  assumes "rc_inv p" "take_bit 4 (version p) \<noteq> 0"
    and "addr = ADDR_DMCONTROL \<and> bit d 30 \<longrightarrow> \<not> ndmreset p \<and> \<not> hartreset_level p \<and> \<not> step_armed p"
  shows "list_all v_stimulus_legality
    (check_all (Some (snapshot p)) OP_WRITE addr (Some d) None (on_write addr d p))"
proof (cases "addr = ADDR_DMCONTROL")
  case True
  then show ?thesis
    using assms(3) check_all_dmcontrol_next [OF assms(1,2)] check_all_dm_reset [OF assms(1,2)]
    by (simp only: on_write_dmcontrol) auto
next
  case False
  then show ?thesis
    by (intro check_all_same_harts assms rc_view_on_write) simp_all
qed

subsection \<open>Transitions the rules misjudge\<close>

lemma check_all_dmcontrolI:
  assumes "bit v 0" and "x \<in> set (inv_resumereq prev (decode DMCONTROL v) (dmcontrol_next (take_bit 32 v) p))"
  shows "x \<in> set (check_all prev OP_WRITE ADDR_DMCONTROL (Some v) rb (on_write ADDR_DMCONTROL v p))"
  using assms by (simp only: on_write_dmcontrol) (simp add: check_all_def)

lemma step_resume_flagged_rule:
  assumes "rc_inv p" "i < length (harts p)" "halted (harts p ! i)" "step_armed p" "\<not> hartreset_level p"
    "hartsel_of v = int i" "bit v 0" "bit v 30" "\<not> bit v 31" "\<not> bit v 1" "\<not> bit v 29"
  shows "dut_violation ''INV-RESUMEREQ-RESUMES-HALTED'' (Some (int i)) \<in>
    set (inv_resumereq (Some (snapshot p)) (decode DMCONTROL v) (dmcontrol_next v p))"
proof -
  have ok: "hart_ok (ndmreset p) (harts p ! i)" and ex: "\<not> is_nonexistent p (int i)"
    using assms(1,2) rc_inv_hart rc_inv_exists by blast+
  from hart_next_resume_halted [OF ok ex assms(3) assms(6) [symmetric] assms(8-11) assms(5)] assms hart_okD [OF ok]
  show ?thesis
    by (simp add: inv_resumereq_def is_reset_write_next hart_snapshot_def)
qed

lemma release_resume_flagged_rule:
  assumes "rc_inv p" "i < length (harts p)" "ndmreset p" "halt_request (harts p ! i)" "\<not> step_armed p"
    "\<not> hartreset_level p"
    "hartsel_of v = int i" "bit v 0" "bit v 30" "\<not> bit v 31" "\<not> bit v 1" "\<not> bit v 29"
  shows "dut_violation ''INV-RESUMEREQ-CLEARS-ACK'' (Some (int i)) \<in>
    set (inv_resumereq (Some (snapshot p)) (decode DMCONTROL v) (dmcontrol_next v p))"
proof -
  have ok: "hart_ok (ndmreset p) (harts p ! i)" and ex: "\<not> is_nonexistent p (int i)"
    using assms(1,2) rc_inv_hart rc_inv_exists by blast+
  have "resume_ack (hart_next p v i (harts p ! i))"
    using ok ex assms(3-12) by (auto simp: hart_next_defs hart_ok_def release_from_reset_def)
  then show ?thesis using assms hart_okD [OF ok]
    by (simp add: inv_resumereq_def is_reset_write_next hart_snapshot_def)
qed

subsection \<open>Soundness of the rules on the predicted behaviour\<close>

text \<open>
  C7. For a reachable predictor whose version field (its low four bits) is not 0, and for every DMI write but a
  \<^verbatim>\<open>dmcontrol\<close> write that requests a resume while \<^verbatim>\<open>ndmreset\<close> or \<^verbatim>\<open>hartreset\<close> is asserted or a single step is armed,
  no rule blames the device: every violation reported for the write is about the legality of the stimulus. The excluded
  resume requests are misjudged by the code, which the properties below on flagged resumes show.
\<close>

theorem check_all_write_sound:
  assumes "reachable p" and "take_bit 4 (version p) \<noteq> 0"
    and "addr = ADDR_DMCONTROL \<and> bit d 30 \<longrightarrow> \<not> ndmreset p \<and> \<not> hartreset_level p \<and> \<not> step_armed p"
  shows "list_all v_stimulus_legality
    (check_all (Some (snapshot p)) OP_WRITE addr (Some d) None (on_write addr d p))"
  using check_all_write_clean [OF reachable_rc_inv [OF assms(1)] assms(2,3)] .

theorem check_all_write_sound_witness:
  "list_all v_stimulus_legality
    (check_all (Some (snapshot sample_halted)) OP_WRITE ADDR_DMCONTROL (Some 0x40000001) None
      (on_write ADDR_DMCONTROL 0x40000001 sample_halted))"
proof -
  have "take_bit 4 (version sample_halted) \<noteq> 0"
    "\<not> ndmreset sample_halted \<and> \<not> hartreset_level sample_halted \<and> \<not> step_armed sample_halted"
    by code_simp+
  then show ?thesis using check_all_write_sound [OF reachable_samples(1)] by blast
qed

text \<open>
  C8. A DMI read of a reachable predictor whose version field is not 0 that returns the predicted word never makes a rule
  blame the device.
\<close>

theorem check_all_read_sound:
  assumes "reachable p" and "take_bit 4 (version p) \<noteq> 0"
  shows "list_all v_stimulus_legality
    (check_all (Some (snapshot p)) OP_READ addr None (Some (predict p addr)) (observe_read addr p))"
  by (intro check_all_same_harts reachable_rc_inv assms) simp_all

theorem check_all_read_sound_witness:
  "list_all v_stimulus_legality
    (check_all (Some (snapshot sample_halted)) OP_READ ADDR_DMSTATUS None
      (Some (predict sample_halted ADDR_DMSTATUS)) (observe_read ADDR_DMSTATUS sample_halted))"
proof -
  have "take_bit 4 (version sample_halted) \<noteq> 0" by code_simp
  then show ?thesis by (rule check_all_read_sound [OF reachable_samples(1)])
qed

subsection \<open>What the \<^verbatim>\<open>dmstatus\<close> rules catch\<close>

text \<open>
  C20. For an observed \<^verbatim>\<open>dmstatus\<close> word the rules report exactly three kinds of defect: an
  \<^verbatim>\<open>all*\<close> bit without its \<^verbatim>\<open>any*\<close> bit, version 0 of an active module out of reset, and a 1.0
  module that does not show the asserted \<^verbatim>\<open>ndmreset\<close> as pending.
\<close>

theorem check_dmstatus_word_complete:
  "check_dmstatus_word w p = [] \<longleftrightarrow>
     (bit w 19 \<longrightarrow> bit w 18) \<and> (bit w 17 \<longrightarrow> bit w 16) \<and> (bit w 15 \<longrightarrow> bit w 14) \<and>
     (bit w 13 \<longrightarrow> bit w 12) \<and> (bit w 11 \<longrightarrow> bit w 10) \<and> (bit w 9 \<longrightarrow> bit w 8) \<and>
     (dmactive p \<and> \<not> ndmreset p \<longrightarrow> take_bit 4 w \<noteq> 0) \<and>
     (version p \<ge> DMSTATUS_VERSION_1_0 \<and> ndmreset p \<longrightarrow> bit w 24)"
  by (auto simp: check_dmstatus_word_def Let_def DMSTATUS_ALL_ANY_PAIRS_def selected_indices_def)

theorem check_dmstatus_word_complete_witness:
  "check_dmstatus_word 0x203 sample_dm \<noteq> []"
proof -
  have "bit (0x203::int) 9" "\<not> bit (0x203::int) 8" by code_simp+
  then show ?thesis unfolding check_dmstatus_word_complete by blast
qed

subsection \<open>Rules that part from their documentation\<close>

text \<open>
  The release-from-reset rule (\<^verbatim>\<open>INV-HALT-ON-RESET\<close> and its two companions) never reports
  anything on a predictor state: it recognises a hart in reset as neither halted nor running,
  and a reachable predictor reports such a hart as running.
\<close>

lemma inv_reset_release_never_fires:
  assumes "reachable p"
  shows "inv_reset_release (Some (snapshot p)) f (on_write addr v p) = []"
proof (cases "addr = ADDR_DMCONTROL")
  case True
  have "length (harts (on_write ADDR_DMCONTROL v p)) = length (harts p)"
    using reachable_rc_inv [OF assms] unfolding on_write_dmcontrol by (auto simp: rc_inv_def)
  with True show ?thesis by (auto intro: reset_release_clean [OF reachable_rc_inv [OF assms]])
next
  case False
  then have "harts (on_write addr v p) = harts p" using rc_viewD(1) rc_view_on_write by blast
  then show ?thesis by (intro reset_release_clean [OF reachable_rc_inv [OF assms]]) simp
qed

text \<open>
  C21. A resume with \<^verbatim>\<open>dcsr.step\<close> armed is reported as \<^verbatim>\<open>INV-RESUMEREQ-RESUMES-HALTED\<close>, although
  the predictor (as the specification) steps one instruction and halts again.
\<close>

theorem step_resume_flagged:
  assumes "reachable p" "i < length (harts p)" "halted (harts p ! i)" "step_armed p" "\<not> hartreset_level p"
    "hartsel_of v = int i" "bit v 0" "bit v 30" "\<not> bit v 31" "\<not> bit v 1" "\<not> bit v 29"
  shows "dut_violation ''INV-RESUMEREQ-RESUMES-HALTED'' (Some (int i)) \<in>
    set (check_all (Some (snapshot p)) OP_WRITE ADDR_DMCONTROL (Some v) None (on_write ADDR_DMCONTROL v p))"
proof -
  have "hartsel_of (take_bit 32 v) = int i" "bit (take_bit 32 v) 0" "bit (take_bit 32 v) 30"
    "\<not> bit (take_bit 32 v) 31" "\<not> bit (take_bit 32 v) 1" "\<not> bit (take_bit 32 v) 29"
    using assms(6-11) by (simp_all add: bit_take_bit_iff)
  from step_resume_flagged_rule [OF reachable_rc_inv [OF assms(1)] assms(2-5) this]
  show ?thesis by (intro check_all_dmcontrolI assms(7)) (simp only: decode_take32)
qed

definition sample_step :: DMPredictor where
  "sample_step = on_write ADDR_COMMAND 0x002307B0 (on_write ADDR_DATA0 4 sample_halted)"

theorem step_resume_flagged_witness:
  "dut_violation ''INV-RESUMEREQ-RESUMES-HALTED'' (Some (int 0)) \<in>
    set (check_all (Some (snapshot sample_step)) OP_WRITE ADDR_DMCONTROL (Some 0x40000001) None
      (on_write ADDR_DMCONTROL 0x40000001 sample_step))"
proof (rule step_resume_flagged)
  show "reachable sample_step"
    unfolding sample_step_def by (intro reachable.dmi_write reachable_samples)
  show "0 < length (harts sample_step)" "halted (harts sample_step ! 0)" "step_armed sample_step"
    "\<not> hartreset_level sample_step" "hartsel_of 0x40000001 = int 0" by code_simp+
  show "bit (0x40000001::int) 0" "bit (0x40000001::int) 30" "\<not> bit (0x40000001::int) 31"
    "\<not> bit (0x40000001::int) 1" "\<not> bit (0x40000001::int) 29" by code_simp+
qed

text \<open>
  A write that releases \<^verbatim>\<open>ndmreset\<close> and resumes in one word, while a halt request is pending,
  is reported as \<^verbatim>\<open>INV-RESUMEREQ-CLEARS-ACK\<close>: the rule skips writes that assert a reset and
  not, as its documentation says, those that deassert one.
\<close>

lemma release_resume_flagged:
  assumes "reachable p" "i < length (harts p)" "ndmreset p" "halt_request (harts p ! i)" "\<not> step_armed p"
    "\<not> hartreset_level p"
    "hartsel_of v = int i" "bit v 0" "bit v 30" "\<not> bit v 31" "\<not> bit v 1" "\<not> bit v 29"
  shows "dut_violation ''INV-RESUMEREQ-CLEARS-ACK'' (Some (int i)) \<in>
    set (check_all (Some (snapshot p)) OP_WRITE ADDR_DMCONTROL (Some v) None (on_write ADDR_DMCONTROL v p))"
proof -
  have "hartsel_of (take_bit 32 v) = int i" "bit (take_bit 32 v) 0" "bit (take_bit 32 v) 30"
    "\<not> bit (take_bit 32 v) 31" "\<not> bit (take_bit 32 v) 1" "\<not> bit (take_bit 32 v) 29"
    using assms(7-12) by (simp_all add: bit_take_bit_iff)
  from release_resume_flagged_rule [OF reachable_rc_inv [OF assms(1)] assms(2-6) this]
  show ?thesis by (intro check_all_dmcontrolI assms(8)) (simp only: decode_take32)
qed

definition sample_halt_in_reset :: DMPredictor where
  "sample_halt_in_reset = on_write ADDR_DMCONTROL 0x80000003 sample_dm"

end
