(* ===== verification/Observer.thy ===== *)
theory Observer
  imports MockTransport InvariantsSound
begin

text \<open>
  \<^verbatim>\<open>src/src/pydebug/api/observer.py\<close>: the wrapper that shows every DMI transaction of a transport
  to observers. An observer is a step on the observers' own state that may raise and may look at
  the live delegate (the calling convention of \<^verbatim>\<open>invariants.py\<close> has it read the predictor there). The
  observers registered are named by numbers, which is how \<^verbatim>\<open>remove_observer\<close> tells them apart. The
  wrapper's own \<^verbatim>\<open>_connected\<close> flag is written and never read, and left out; attribute delegation
  (\<^verbatim>\<open>__getattr__\<close>) is Python object plumbing and not modelled.
\<close>

type_synonym ('s, 'o) observer =
  "dmi_op \<Rightarrow> int \<Rightarrow> int option \<Rightarrow> int option \<Rightarrow> 's \<Rightarrow> 'o \<Rightarrow> dbg_error + 'o"

record ('s, 'o) ObservingTransport =
  delegate :: 's
  observers :: "(nat \<times> ('s, 'o) observer) list"
  observed :: 'o

definition observing :: "'s \<Rightarrow> 'o \<Rightarrow> ('s, 'o) ObservingTransport" where
  "observing s obs = \<lparr>delegate = s, observers = [], observed = obs\<rparr>"

definition add_observer :: "nat \<Rightarrow> ('s, 'o) observer \<Rightarrow> ('s, 'o) ObservingTransport \<Rightarrow> ('s, 'o) ObservingTransport" where
  "add_observer n f t = t\<lparr>observers := observers t @ [(n, f)]\<rparr>"

text \<open>\<^verbatim>\<open>list.remove\<close>: the first occurrence, or \<^verbatim>\<open>ValueError\<close>.\<close>

definition remove_observer :: "nat \<Rightarrow> ('s, 'o) ObservingTransport \<Rightarrow> ('s, 'o) ObservingTransport result" where
  "remove_observer n t =
     (if n \<in> fst ` set (observers t)
      then Inr (t\<lparr>observers := takeWhile (\<lambda>x. fst x \<noteq> n) (observers t) @
                  tl (dropWhile (\<lambda>x. fst x \<noteq> n) (observers t))\<rparr>)
      else Inl (ValueError ''list.remove(x): x not in list''))"

text \<open>\<^verbatim>\<open>_notify\<close>: the observers in registration order, stopping at the first that raises.\<close>

fun notify ::
  "(nat \<times> ('s, 'o) observer) list \<Rightarrow> dmi_op \<Rightarrow> int \<Rightarrow> int option \<Rightarrow> int option \<Rightarrow> 's \<Rightarrow> 'o \<Rightarrow>
    dbg_error option \<times> 'o" where
  "notify [] op addr data readback s obs = (None, obs)"
| "notify ((n, f) # fs) op addr data readback s obs =
     (case f op addr data readback s obs of
        Inl e \<Rightarrow> (Some e, obs)
      | Inr obs' \<Rightarrow> notify fs op addr data readback s obs')"

text \<open>\<^verbatim>\<open>connect\<close>, \<^verbatim>\<open>disconnect\<close> and \<^verbatim>\<open>reset\<close> run the delegate's operation.\<close>

definition delegated :: "('s \<Rightarrow> (dbg_error + unit) \<times> 's) \<Rightarrow> ('s, 'o) ObservingTransport \<Rightarrow> (dbg_error + unit) \<times> ('s, 'o) ObservingTransport" where
  "delegated f t = (let (r, s) = f (delegate t) in (r, t\<lparr>delegate := s\<rparr>))"

definition observing_read ::
  "'s transport \<Rightarrow> int \<Rightarrow> ('s, 'o) ObservingTransport \<Rightarrow> (dbg_error + int) \<times> ('s, 'o) ObservingTransport" where
  "observing_read T addr t =
     (let (r, s) = t_read T addr (delegate t); t1 = t\<lparr>delegate := s\<rparr> in
      case r of
        Inl e \<Rightarrow> (Inl e, t1)
      | Inr readback \<Rightarrow>
          (let (e, obs) = notify (observers t) OP_READ addr None (Some readback) s (observed t)
           in (case e of Some x \<Rightarrow> Inl x | None \<Rightarrow> Inr readback, t1\<lparr>observed := obs\<rparr>)))"

definition observing_write ::
  "'s transport \<Rightarrow> int \<Rightarrow> int \<Rightarrow> ('s, 'o) ObservingTransport \<Rightarrow> (dbg_error + unit) \<times> ('s, 'o) ObservingTransport" where
  "observing_write T addr data t =
     (let (r, s) = t_write T addr data (delegate t); t1 = t\<lparr>delegate := s\<rparr> in
      case r of
        Inl e \<Rightarrow> (Inl e, t1)
      | Inr _ \<Rightarrow>
          (let (e, obs) = notify (observers t) OP_WRITE addr (Some data) None s (observed t)
           in (case e of Some x \<Rightarrow> Inl x | None \<Rightarrow> Inr (), t1\<lparr>observed := obs\<rparr>)))"

definition observing_transport :: "'s transport \<Rightarrow> ('s, 'o) ObservingTransport transport" where
  "observing_transport T =
     \<lparr>t_read = observing_read T, t_write = observing_write T,
      t_connect = delegated (t_connect T), t_disconnect = delegated (t_disconnect T),
      t_reset = delegated (t_reset T), t_connected = (\<lambda>t. t_connected T (delegate t)),
      t_monotonic = t_monotonic T\<rparr>"

subsection \<open>Observation is transparent\<close>

text \<open>Observers that never raise, as their contract asks.\<close>

definition quiet_observer :: "('s, 'o) observer \<Rightarrow> bool" where
  "quiet_observer f \<longleftrightarrow> (\<forall>op addr data readback s obs. \<exists>obs'. f op addr data readback s obs = Inr obs')"

definition nonraising :: "('s, 'o) ObservingTransport \<Rightarrow> bool" where
  "nonraising t \<longleftrightarrow> list_all quiet_observer (map snd (observers t))"

lemma notify_nonraising:
  "list_all quiet_observer (map snd fs) \<Longrightarrow> \<exists>obs'. notify fs op addr data readback s obs = (None, obs')"
proof (induction fs arbitrary: obs)
  case (Cons x fs)
  obtain n f where x: "x = (n, f)" by (cases x)
  with Cons.prems have "quiet_observer f" by simp
  then obtain obs1 where "f op addr data readback s obs = Inr obs1" unfolding quiet_observer_def by metis
  with Cons x show ?case by simp
qed simp

lemma nonraising_upd [simp]: "nonraising (t\<lparr>delegate := s, observed := obs\<rparr>) = nonraising t"
  by (simp add: nonraising_def)

lemma observing_write_run:
  assumes "nonraising t" "t_write T a v (delegate t) = (Inr (), s')"
  shows "\<exists>obs. observing_write T a v t = (Inr (), t\<lparr>delegate := s', observed := obs\<rparr>)"
proof -
  obtain obs where "notify (observers t) OP_WRITE a (Some v) None s' (observed t) = (None, obs)"
    using notify_nonraising assms(1) by (metis nonraising_def)
  then show ?thesis using assms(2) by (auto simp: observing_write_def)
qed

lemma observing_read_run:
  assumes "nonraising t" "t_read T a (delegate t) = (Inr r, s')"
  shows "\<exists>obs. observing_read T a t = (Inr r, t\<lparr>delegate := s', observed := obs\<rparr>)"
proof -
  obtain obs where "notify (observers t) OP_READ a None (Some r) s' (observed t) = (None, obs)"
    using notify_nonraising assms(1) by (metis nonraising_def)
  then show ?thesis using assms(2) by (auto simp: observing_read_def)
qed

context dm_target begin

text \<open>A target behind non-raising observers is a target with the same behaviour.\<close>

lemma observed_target:
  "dm_target (observing_transport T) (\<lambda>t p. reps (delegate t) p \<and> nonraising t) rd"
proof
  show "\<exists>s'. t_write (observing_transport T) a v s = (Inr (), s') \<and> reps (delegate s') (on_write a v p) \<and> nonraising s'"
    if "reps (delegate s) p \<and> nonraising s" for s :: "('s, 'o) ObservingTransport" and p a v
    using that write_law [of "delegate s" p a v] observing_write_run [of s T a v]
    by (fastforce simp: observing_transport_def)
  show "\<exists>s'. t_read (observing_transport T) a s = (Inr (predict p a), s') \<and> reps (delegate s') (rd a p) \<and> nonraising s'"
    if "reps (delegate s) p \<and> nonraising s" "has_model p a" for s :: "('s, 'o) ObservingTransport" and p a
    using that read_law [of "delegate s" p a] observing_read_run [of s T a]
    by (fastforce simp: observing_transport_def)
qed (simp_all add: quiet_reads data_reads)

end

interpretation observed_mock: dm_target "observing_transport (mock_transport clock)"
  "\<lambda>t p. predictor (delegate t) = p \<and> nonraising t" "\<lambda>_ p. p" for clock
  by (rule mock.observed_target)

context dm_bench begin

lemma observed_bench: "dm_bench (observing_transport T) (\<lambda>t p. reps (delegate t) p \<and> nonraising t)"
proof (rule dm_bench.intro [OF observed_target], unfold_locales)
  show "\<exists>v s'. t_read (observing_transport T) a s = (Inr v, s') \<and> (reps (delegate s') p \<and> nonraising s') \<and>
      (a = ADDR_ABSTRACTCS \<longrightarrow> abstractcs_check v = Inr True) \<and> (a = ADDR_SBCS \<longrightarrow> sbus_check v = Inr True)"
    if s: "reps (delegate s) p \<and> nonraising s" "\<not> has_model p a" for s :: "('s, 'o) ObservingTransport" and p a
  proof -
    obtain v s' where v: "t_read T a (delegate s) = (Inr v, s')" "reps s' p"
      "a = ADDR_ABSTRACTCS \<longrightarrow> abstractcs_check v = Inr True" "a = ADDR_SBCS \<longrightarrow> sbus_check v = Inr True"
      using canned_law s by blast
    with observing_read_run [of s T a] s(1) show ?thesis by (fastforce simp: observing_transport_def)
  qed
qed

end

interpretation observed_mock_bench: dm_bench "observing_transport (mock_transport clock)"
  "\<lambda>t p. predictor (delegate t) = p \<and> nonraising t" for clock
  by (rule mock_bench.observed_bench)

subsection \<open>Sessions under observation\<close>

text \<open>
  Halting through an observed mock does what halting through the bare mock does, whatever the
  (non-raising) observers.
\<close>

lemma observed_halt:
  assumes "nonraising (t_state d)" "reachable (predictor (delegate (t_state d)))"
    "drivable (predictor (delegate (t_state d))) i" "tracked_hartsel d = int i"
  shows "\<exists>d'. halt (observing_transport (mock_transport clock)) timeout d = Some (Inr (), d') \<and>
    halted (harts (predictor (delegate (t_state d'))) ! i)"
  using observed_mock.halt_run [of d "predictor (delegate (t_state d))" i clock timeout] assms by auto

text \<open>The recorder: an observer that appends what it is shown.\<close>

definition recorder :: "('s, (dmi_op \<times> int \<times> int option \<times> int option) list) observer" where
  "recorder op addr data readback s seen = Inr (seen @ [(op, addr, data, readback)])"

definition sample_observed ::
  "(ModelBackedMockTransport, (dmi_op \<times> int \<times> int option \<times> int option) list) ObservingTransport RISCVDebug" where
  "sample_observed = RISCVDebug_init (add_observer 0 recorder (observing (mock_init sample_dm) []))"

text \<open>One operation of a trace: a write, or a read with its data unused.\<close>

definition run_op :: "'s transport \<Rightarrow> dmi_op \<times> int \<times> int \<Rightarrow> 's \<Rightarrow> 's" where
  "run_op T x s = (case x of
      (OP_WRITE, addr, data) \<Rightarrow> snd (t_write T addr data s)
    | (OP_READ, addr, _) \<Rightarrow> snd (t_read T addr s))"

definition log_entry :: "dmi_op \<times> int \<times> int option \<times> int option \<Rightarrow> dmi_op \<times> int \<times> int" where
  "log_entry e = (case e of (op, addr, data, readback) \<Rightarrow>
     (op, addr, case data of Some v \<Rightarrow> v | None \<Rightarrow> (case readback of Some v \<Rightarrow> v | None \<Rightarrow> 0)))"

lemma recorder_step:
  assumes "observers t = [(0, recorder)]" "map log_entry (observed t) = mock_log (delegate t)"
  shows "observers (run_op (observing_transport (mock_transport clock)) x t) = [(0, recorder)] \<and>
    map log_entry (observed (run_op (observing_transport (mock_transport clock)) x t)) =
      mock_log (delegate (run_op (observing_transport (mock_transport clock)) x t))"
proof -
  obtain op addr data where x: "x = (op, addr, data)" by (cases x)
  have "\<exists>v. (if has_model (predictor m) addr then expect (predictor m) addr else Inr (canned addr m)) = Inr v" for m
    by (simp add: expect_def)
  then obtain v where "(if has_model (predictor (delegate t)) addr then expect (predictor (delegate t)) addr
      else Inr (canned addr (delegate t))) = Inr v" by blast
  then show ?thesis
    using assms x by (cases op) (simp_all add: run_op_def observing_transport_def observing_read_def observing_write_def
        mock_transport_def mock_read_def mock_write_def recorder_def log_entry_def)
qed

text \<open>
  C25. Observation is complete and in order: over any sequence of reads and writes, what a recorder
  has seen is exactly the trace the mock itself keeps.
\<close>

theorem recorder_sees_all:
  assumes "observers t = [(0, recorder)]" "observed t = []" "mock_log (delegate t) = []"
  shows "map log_entry (observed (fold (run_op (observing_transport (mock_transport clock))) xs t)) =
    mock_log (delegate (fold (run_op (observing_transport (mock_transport clock))) xs t))"
proof -
  have "observers t = [(0, recorder)] \<Longrightarrow> map log_entry (observed t) = mock_log (delegate t) \<Longrightarrow>
    map log_entry (observed (fold (run_op (observing_transport (mock_transport clock))) xs t)) =
      mock_log (delegate (fold (run_op (observing_transport (mock_transport clock))) xs t))" for t
  proof (induction xs arbitrary: t)
    case (Cons x xs)
    then show ?case using recorder_step [of t clock x] by simp
  qed simp
  with assms show ?thesis by simp
qed

theorem recorder_sees_all_witness:
  "map log_entry (observed (fold (run_op (observing_transport (mock_transport (\<lambda>k. int k))))
      [(OP_WRITE, ADDR_DMCONTROL, 0x80000001), (OP_READ, ADDR_DMSTATUS, 0)] (t_state sample_observed))) =
    mock_log (delegate (fold (run_op (observing_transport (mock_transport (\<lambda>k. int k))))
      [(OP_WRITE, ADDR_DMCONTROL, 0x80000001), (OP_READ, ADDR_DMSTATUS, 0)] (t_state sample_observed)))"
  by (rule recorder_sees_all)
    (simp_all add: sample_observed_def RISCVDebug_init_def add_observer_def observing_def mock_init_def)

end
