(* ===== verification/Monitor.thy ===== *)
theory Monitor
  imports Observer
begin

text \<open>
  The monitored set-up the calling convention of \<^verbatim>\<open>src/src/pydebug/model/invariants.py\<close> describes and
  \<^verbatim>\<open>src/tests/test_coverage_and_assertions.py\<close> runs: an observing transport over the mock that
  snapshots the predictor before each operation, with an observer that collects what
  \<^verbatim>\<open>check_all\<close> reports about it.
\<close>

subsection \<open>The monitor\<close>

type_synonym monitored = "(ModelBackedMockTransport, Snapshot option \<times> Violation list) ObservingTransport"

definition observe :: "(ModelBackedMockTransport, Snapshot option \<times> Violation list) observer" where
  "observe op addr data readback m obs =
     Inr (fst obs, snd obs @ check_all (fst obs) op addr data readback (predictor m))"

definition snapshot_before :: "monitored \<Rightarrow> monitored" where
  "snapshot_before t = t\<lparr>observed := (Some (snapshot (predictor (delegate t))), snd (observed t))\<rparr>"

definition monitored_transport :: "(nat \<Rightarrow> int) \<Rightarrow> monitored transport" where
  "monitored_transport clock =
     (observing_transport (mock_transport clock))
       \<lparr>t_read := \<lambda>addr t. observing_read (mock_transport clock) addr (snapshot_before t),
        t_write := \<lambda>addr data t. observing_write (mock_transport clock) addr data (snapshot_before t)\<rparr>"

definition monitored_init :: "DMPredictor \<Rightarrow> monitored" where
  "monitored_init p = add_observer 0 observe (observing (mock_init p) (None, []))"

text \<open>
  The resume requests whose judgement the rules get right: none is written while a reset is asserted
  or a single step is armed.
\<close>

fun judged :: "DMPredictor \<Rightarrow> (dmi_op \<times> int \<times> int) list \<Rightarrow> bool" where
  "judged p [] \<longleftrightarrow> True"
| "judged p ((OP_WRITE, addr, d) # xs) \<longleftrightarrow>
     (addr = ADDR_DMCONTROL \<and> bit d 30 \<longrightarrow> \<not> ndmreset p \<and> \<not> hartreset_level p \<and> \<not> step_armed p) \<and>
     judged (on_write addr d p) xs"
| "judged p ((OP_READ, addr, d) # xs) \<longleftrightarrow> judged p xs"

subsection \<open>A monitored run never blames the device\<close>

lemma check_all_mock_read:
  assumes "rc_inv p" "take_bit 4 (version p) \<noteq> 0" "has_model p addr \<longrightarrow> v = predict p addr"
  shows "list_all v_stimulus_legality (check_all (Some (snapshot p)) OP_READ addr None (Some v) p)"
proof (cases "has_model p addr")
  case True
  then show ?thesis using assms by (intro check_all_same_harts) simp_all
next
  case False
  then have "addr \<noteq> ADDR_DMCONTROL" "addr \<noteq> ADDR_DMSTATUS" by (auto simp: has_model_def)
  then have "check_all (Some (snapshot p)) OP_READ addr None (Some v) p =
      check_all (Some (snapshot p)) OP_READ addr None (Some (predict p addr)) p"
    by (simp add: check_all_def)
  then show ?thesis using assms check_all_same_harts [of p p OP_READ addr "Some (predict p addr)" None] by simp
qed

lemma version_on_write [simp]: "version (on_write addr d p) = version p"
proof (cases "addr = ADDR_DMCONTROL")
  case False
  then show ?thesis using rc_viewD(8) [OF rc_view_on_write] by simp
qed (simp only: on_write_dmcontrol, simp)

definition clean :: "monitored \<Rightarrow> bool" where
  "clean t \<longleftrightarrow> observers t = [(0, observe)] \<and> rc_inv (predictor (delegate t)) \<and>
     take_bit 4 (version (predictor (delegate t))) \<noteq> 0 \<and> list_all v_stimulus_legality (snd (observed t))"

lemma clean_write:
  assumes "clean t" and "judged (predictor (delegate t)) ((OP_WRITE, addr, d) # xs)"
  shows "clean (run_op (monitored_transport clock) (OP_WRITE, addr, d) t) \<and>
    predictor (delegate (run_op (monitored_transport clock) (OP_WRITE, addr, d) t)) = on_write addr d (predictor (delegate t))"
  using assms check_all_write_clean [of "predictor (delegate t)" addr d]
  by (simp add: clean_def run_op_def monitored_transport_def observing_write_def snapshot_before_def
      mock_transport_def mock_write_def observe_def rc_inv_on_write)

lemma clean_read:
  assumes "clean t"
  shows "clean (run_op (monitored_transport clock) (OP_READ, addr, d) t) \<and>
    predictor (delegate (run_op (monitored_transport clock) (OP_READ, addr, d) t)) = predictor (delegate t)"
proof -
  obtain v where v: "(if has_model (predictor (delegate t)) addr then expect (predictor (delegate t)) addr
      else Inr (canned addr (delegate t))) = Inr v"
    "has_model (predictor (delegate t)) addr \<longrightarrow> v = predict (predictor (delegate t)) addr"
    by (cases "has_model (predictor (delegate t)) addr") (simp_all add: expect_def)
  then show ?thesis
    using assms check_all_mock_read [of "predictor (delegate t)" addr v]
    by (simp add: clean_def run_op_def monitored_transport_def observing_read_def snapshot_before_def
        mock_transport_def mock_read_def observe_def)
qed

text \<open>
  Over any sequence of DMI reads and writes whose resume requests the rules can judge, a monitored
  mock session reports no violation that blames the device.
\<close>

lemma monitored_session_sound:
  assumes "reachable p" "take_bit 4 (version p) \<noteq> 0" "judged p xs"
  shows "list_all v_stimulus_legality
    (snd (observed (fold (run_op (monitored_transport clock)) xs (monitored_init p))))"
proof -
  have "clean (fold (run_op (monitored_transport clock)) xs t)"
    if "clean t" "judged (predictor (delegate t)) xs" for t
    using that
  proof (induction xs arbitrary: t)
    case (Cons x xs)
    obtain op addr d where x: "x = (op, addr, d)" by (cases x)
    with Cons clean_write [of t addr d xs clock] clean_read [of t clock addr d] show ?case
      by (cases op) simp_all
  qed simp
  moreover have "clean (monitored_init p)" "predictor (delegate (monitored_init p)) = p"
    using assms reachable_rc_inv
    by (simp_all add: clean_def monitored_init_def add_observer_def observing_def mock_init_def)
  ultimately show ?thesis using assms(3) unfolding clean_def by metis
qed

end
