(* ===== verification/DutConfig.thy ===== *)
theory DutConfig
  imports PredictorInv
begin

text \<open>
  \<^verbatim>\<open>src/src/pydebug/model/dut_config.py\<close>: the declared configuration of a target, read from
  \<^verbatim>\<open>dut_configs/<name>.json\<close>. The file system is a parameter: what \<^verbatim>\<open>json.loads\<close> makes of the file
  at a path, an exception where its text is not JSON, nothing where there is no file. JSON numbers
  are integers, as in every file of \<^verbatim>\<open>dut_configs\<close>.
\<close>

subsection \<open>JSON values\<close>

datatype json =
    JNull
  | JBool bool
  | JInt int
  | JStr string
  | JArr "json list"
  | JObj "(string \<times> json) list"

text \<open>\<^verbatim>\<open>raw[key]\<close> and \<^verbatim>\<open>bool(v)\<close>.\<close>

definition json_get :: "json \<Rightarrow> string \<Rightarrow> json result" where
  "json_get j k = (case j of
      JObj kvs \<Rightarrow> (case map_of kvs k of Some v \<Rightarrow> Inr v | None \<Rightarrow> Inl (KeyError k))
    | _ \<Rightarrow> Inl (TypeError ''indices''))"

fun json_bool :: "json \<Rightarrow> bool" where
  "json_bool JNull = False"
| "json_bool (JBool b) = b"
| "json_bool (JInt n) = (n \<noteq> 0)"
| "json_bool (JStr s) = (s \<noteq> [])"
| "json_bool (JArr js) = (js \<noteq> [])"
| "json_bool (JObj kvs) = (kvs \<noteq> [])"

text \<open>\<^verbatim>\<open>n == j\<close> of an integer and a JSON value; a Boolean is 0 or 1.\<close>

definition json_eq_int :: "int \<Rightarrow> json \<Rightarrow> bool" where
  "json_eq_int n j = (case j of JInt m \<Rightarrow> n = m | JBool b \<Rightarrow> n = int_of_bool b | _ \<Rightarrow> False)"

subsection \<open>\<^verbatim>\<open>int(s, 0)\<close>\<close>

definition digit_val :: "char \<Rightarrow> int option" where
  "digit_val c = (let n = of_char c :: int
     in if 48 \<le> n \<and> n \<le> 57 then Some (n - 48)
        else if 97 \<le> n \<and> n \<le> 122 then Some (n - 87)
        else if 65 \<le> n \<and> n \<le> 90 then Some (n - 55) else None)"

text \<open>Digits with single underscores between them; \<open>us\<close> where an underscore may not come next.\<close>

fun digits_val :: "int \<Rightarrow> bool \<Rightarrow> string \<Rightarrow> int \<Rightarrow> int option" where
  "digits_val b us [] acc = (if us then None else Some acc)"
| "digits_val b us (c # cs) acc =
     (if c = CHR ''_'' then (if us then None else digits_val b True cs acc)
      else case digit_val c of
             Some d \<Rightarrow> if d < b then digits_val b False cs (acc * b + d) else None
           | None \<Rightarrow> None)"

definition after_prefix :: "string \<Rightarrow> string" where
  "after_prefix s = (case s of c # cs \<Rightarrow> if c = CHR ''_'' then cs else s | [] \<Rightarrow> [])"

definition unsigned_int0 :: "string \<Rightarrow> int option" where
  "unsigned_int0 s = (case s of
      z # c # cs \<Rightarrow>
        if z \<noteq> CHR ''0'' then digits_val 10 True s 0
        else if lower_char c = CHR ''x'' then digits_val 16 True (after_prefix cs) 0
        else if lower_char c = CHR ''o'' then digits_val 8 True (after_prefix cs) 0
        else if lower_char c = CHR ''b'' then digits_val 2 True (after_prefix cs) 0
        else if digits_val 10 True s 0 = Some 0 then Some 0 else None
    | _ \<Rightarrow> digits_val 10 True s 0)"

definition py_int0 :: "string \<Rightarrow> int result" where
  "py_int0 s =
     (let t = strip s;
          (neg, u) = (case t of c # cs \<Rightarrow> if c = CHR ''-'' then (True, cs) else if c = CHR ''+'' then (False, cs) else (False, t)
                              | [] \<Rightarrow> (False, []))
      in case unsigned_int0 u of
           Some n \<Rightarrow> Inr (if neg then - n else n)
         | None \<Rightarrow> Inl (ValueError s))"

text \<open>\<^verbatim>\<open>int(s, 16)\<close> and \<^verbatim>\<open>int(s)\<close>; the sign and the surrounding blanks as in \<^verbatim>\<open>int(s, 0)\<close>.\<close>

definition unsigned_int16 :: "string \<Rightarrow> int option" where
  "unsigned_int16 s = (case s of
      z # c # cs \<Rightarrow>
        if z = CHR ''0'' \<and> lower_char c = CHR ''x'' then digits_val 16 True (after_prefix cs) 0
        else digits_val 16 True s 0
    | _ \<Rightarrow> digits_val 16 True s 0)"

definition py_int_by :: "(string \<Rightarrow> int option) \<Rightarrow> string \<Rightarrow> int result" where
  "py_int_by unsigned s =
     (let t = strip s;
          (neg, u) = (case t of c # cs \<Rightarrow> if c = CHR ''-'' then (True, cs) else if c = CHR ''+'' then (False, cs) else (False, t)
                              | [] \<Rightarrow> (False, []))
      in case unsigned u of
           Some n \<Rightarrow> Inr (if neg then - n else n)
         | None \<Rightarrow> Inl (ValueError s))"

subsection \<open>The declaration of one target\<close>

record DutConfig =
  dut :: json
  d_version :: int
  d_authenticated :: bool
  d_impebreak :: bool
  d_hasresethaltreq :: bool
  d_supports_hartreset :: bool
  d_supports_hasel :: bool
  d_resumeack_reset :: bool
  d_stickyunavail :: bool
  d_havereset_poweron :: bool
  raw :: json

text \<open>\<^verbatim>\<open>version_str in _VERSION_STRINGS\<close>, then the entry; lists and objects are not hashable.\<close>

definition version_number :: "string \<Rightarrow> json \<Rightarrow> int result" where
  "version_number path v = (case v of
      JStr s \<Rightarrow> if s = ''0.13'' then Inr DMSTATUS_VERSION_0_13
               else if s = ''1.0'' then Inr DMSTATUS_VERSION_1_0
               else Inl (ValueError path)
    | JArr _ \<Rightarrow> Inl (TypeError ''unhashable'')
    | JObj _ \<Rightarrow> Inl (TypeError ''unhashable'')
    | _ \<Rightarrow> Inl (ValueError path))"

definition flag :: "json \<Rightarrow> string \<Rightarrow> bool result" where
  "flag r k = bindR (json_get r k) (\<lambda>v. Inr (json_bool v))"

definition num :: "json \<Rightarrow> string \<Rightarrow> int result" where
  "num r k = bindR (json_get r k) (\<lambda>v. case v of
      JStr s \<Rightarrow> py_int0 s
    | JInt n \<Rightarrow> Inr n
    | JBool b \<Rightarrow> Inr (int_of_bool b)
    | _ \<Rightarrow> Inl (TypeError k))"

text \<open>\<^verbatim>\<open>Path(name)\<close> or \<^verbatim>\<open>_CONFIG_DIR / f"{name}.json"\<close>, where an absolute name replaces the directory.\<close>

definition config_path :: "string \<Rightarrow> string \<Rightarrow> string" where
  "config_path config_dir name =
     (if ends_with ''.json'' name then name
      else if take 1 name = ''/'' then name @ ''.json''
      else config_dir @ ''/'' @ name @ ''.json'')"

definition LOADED_FLAGS :: "string list" where
  "LOADED_FLAGS = [''authenticated'', ''impebreak'', ''hasresethaltreq'', ''supports_hartreset'',
     ''supports_hasel'', ''resumeack_reset'', ''stickyunavail'', ''havereset_poweron'']"

text \<open>The keyword \<open>k\<close> among those read.\<close>

definition kw :: "'a \<Rightarrow> (string \<times> 'a) list \<Rightarrow> string \<Rightarrow> 'a" where
  "kw d kvs k = (case map_of kvs k of Some v \<Rightarrow> v | None \<Rightarrow> d)"

definition make_dut :: "json \<Rightarrow> json \<Rightarrow> int \<Rightarrow> (string \<Rightarrow> bool) \<Rightarrow> DutConfig" where
  "make_dut r d v f =
     \<lparr>dut = d, d_version = v,
      d_authenticated = f ''authenticated'', d_impebreak = f ''impebreak'',
      d_hasresethaltreq = f ''hasresethaltreq'', d_supports_hartreset = f ''supports_hartreset'',
      d_supports_hasel = f ''supports_hasel'', d_resumeack_reset = f ''resumeack_reset'',
      d_stickyunavail = f ''stickyunavail'', d_havereset_poweron = f ''havereset_poweron'', raw = r\<rparr>"

definition load_dut_config :: "(string \<Rightarrow> json result option) \<Rightarrow> string \<Rightarrow> string \<Rightarrow> DutConfig result" where
  "load_dut_config files config_dir name =
     (let path = config_path config_dir name in
      case files path of
        None \<Rightarrow> Inl (FileNotFoundError path)
      | Some text \<Rightarrow>
          bindR text (\<lambda>r.
          bindR (json_get r ''version'') (\<lambda>version_str.
          bindR (version_number path version_str) (\<lambda>v.
          bindR (json_get r ''dut'') (\<lambda>d.
          bindR (mapR (flag r) LOADED_FLAGS) (\<lambda>bs.
            Inr (make_dut r d v (kw False (zip LOADED_FLAGS bs)))))))))"

text \<open>\<^verbatim>\<open>DMPredictor(**cfg.predictor_kwargs())\<close>, with \<^verbatim>\<open>num_harts\<close> at its default.\<close>

definition predictor_kwargs :: "DutConfig \<Rightarrow> DMPredictor" where
  "predictor_kwargs c = DMPredictor_init 1 (d_version c) (d_authenticated c) (d_impebreak c)
     (d_hasresethaltreq c) (d_supports_hartreset c) (d_supports_hasel c) (d_resumeack_reset c)
     (d_stickyunavail c) (d_havereset_poweron c)"

definition CONFIG_FLAGS :: "string list" where
  "CONFIG_FLAGS = [''sba_enable'', ''abstractauto_enable'', ''hartarray_enable'',
     ''authentication_enable'', ''haltgroups_enable'', ''relaxedpriv_reset'',
     ''progbuf_readable'', ''haltsum_groups_present'',
     ''dataaccess'', ''sbaccess_writable'', ''sbaccess128'', ''sbaccess64'',
     ''sbaccess32'', ''sbaccess16'', ''sbaccess8'']"

definition CONFIG_NUMBERS :: "string list" where
  "CONFIG_NUMBERS = [''progbufsize'', ''datacount'', ''nscratch'', ''datasize'', ''dataaddr'',
     ''sbversion'', ''sbasize'', ''sbaccess_reset'', ''nextdm'']"

definition make_config :: "DutConfig \<Rightarrow> int \<Rightarrow> (string \<Rightarrow> bool) \<Rightarrow> (string \<Rightarrow> int) \<Rightarrow> DeclaredConfig" where
  "make_config c n f g =
     \<lparr>cfg_sba_enable = f ''sba_enable'', cfg_abstractauto_enable = f ''abstractauto_enable'',
      cfg_hartarray_enable = f ''hartarray_enable'',
      cfg_authentication_enable = f ''authentication_enable'',
      cfg_haltgroups_enable = f ''haltgroups_enable'',
      cfg_progbuf_readable = f ''progbuf_readable'',
      cfg_haltsum_groups_present = f ''haltsum_groups_present'',
      cfg_num_harts = n, cfg_version = d_version c, cfg_authenticated = d_authenticated c,
      cfg_impebreak = d_impebreak c, cfg_hasresethaltreq = d_hasresethaltreq c,
      cfg_stickyunavail = d_stickyunavail c, cfg_havereset_poweron = d_havereset_poweron c,
      cfg_supports_hartreset = d_supports_hartreset c, cfg_supports_hasel = d_supports_hasel c,
      cfg_resumeack_reset = d_resumeack_reset c,
      cfg_progbufsize = g ''progbufsize'', cfg_datacount = g ''datacount'',
      cfg_relaxedpriv_reset = f ''relaxedpriv_reset'', cfg_nscratch = g ''nscratch'',
      cfg_dataaccess = f ''dataaccess'', cfg_datasize = g ''datasize'',
      cfg_dataaddr = g ''dataaddr'', cfg_sbversion = g ''sbversion'',
      cfg_sbasize = g ''sbasize'', cfg_sbaccess_reset = g ''sbaccess_reset'',
      cfg_sbaccess_writable = f ''sbaccess_writable'', cfg_sbaccess128 = f ''sbaccess128'',
      cfg_sbaccess64 = f ''sbaccess64'', cfg_sbaccess32 = f ''sbaccess32'',
      cfg_sbaccess16 = f ''sbaccess16'', cfg_sbaccess8 = f ''sbaccess8'',
      cfg_nextdm = g ''nextdm''\<rparr>"

definition declared_config :: "DutConfig \<Rightarrow> int \<Rightarrow> DeclaredConfig result" where
  "declared_config c n =
     bindR (mapR (flag (raw c)) CONFIG_FLAGS) (\<lambda>bs.
     bindR (mapR (num (raw c)) CONFIG_NUMBERS) (\<lambda>ns.
       Inr (make_config c n (kw False (zip CONFIG_FLAGS bs)) (kw 0 (zip CONFIG_NUMBERS ns)))))"

subsection \<open>What loading promises\<close>

lemma mapR_kw: "mapR f ks = Inr vs \<Longrightarrow> k \<in> set ks \<Longrightarrow> f k = Inr (kw d (zip ks vs) k)"
proof (induction ks arbitrary: vs)
  case (Cons x xs)
  then obtain y ys where "f x = Inr y" "mapR f xs = Inr ys" "vs = y # ys" by (auto simp: bindR_eq_Inr)
  with Cons show ?case by (cases "k = x") (auto simp: kw_def)
qed simp

text \<open>The declared Booleans and numbers of a configuration under their names in the file.\<close>

definition loaded_flags :: "DutConfig \<Rightarrow> (string \<times> bool) list" where
  "loaded_flags c =
    [(''authenticated'', d_authenticated c), (''impebreak'', d_impebreak c),
     (''hasresethaltreq'', d_hasresethaltreq c), (''supports_hartreset'', d_supports_hartreset c),
     (''supports_hasel'', d_supports_hasel c), (''resumeack_reset'', d_resumeack_reset c),
     (''stickyunavail'', d_stickyunavail c), (''havereset_poweron'', d_havereset_poweron c)]"

definition config_flags :: "DeclaredConfig \<Rightarrow> (string \<times> bool) list" where
  "config_flags dc =
    [(''authenticated'', cfg_authenticated dc), (''impebreak'', cfg_impebreak dc),
     (''hasresethaltreq'', cfg_hasresethaltreq dc),
     (''supports_hartreset'', cfg_supports_hartreset dc),
     (''supports_hasel'', cfg_supports_hasel dc), (''resumeack_reset'', cfg_resumeack_reset dc),
     (''stickyunavail'', cfg_stickyunavail dc), (''havereset_poweron'', cfg_havereset_poweron dc),
     (''sba_enable'', cfg_sba_enable dc), (''abstractauto_enable'', cfg_abstractauto_enable dc),
     (''hartarray_enable'', cfg_hartarray_enable dc),
     (''authentication_enable'', cfg_authentication_enable dc),
     (''haltgroups_enable'', cfg_haltgroups_enable dc),
     (''relaxedpriv_reset'', cfg_relaxedpriv_reset dc),
     (''progbuf_readable'', cfg_progbuf_readable dc),
     (''haltsum_groups_present'', cfg_haltsum_groups_present dc),
     (''dataaccess'', cfg_dataaccess dc), (''sbaccess_writable'', cfg_sbaccess_writable dc),
     (''sbaccess128'', cfg_sbaccess128 dc), (''sbaccess64'', cfg_sbaccess64 dc),
     (''sbaccess32'', cfg_sbaccess32 dc), (''sbaccess16'', cfg_sbaccess16 dc),
     (''sbaccess8'', cfg_sbaccess8 dc)]"

definition config_numbers :: "DeclaredConfig \<Rightarrow> (string \<times> int) list" where
  "config_numbers dc =
    [(''progbufsize'', cfg_progbufsize dc), (''datacount'', cfg_datacount dc),
     (''nscratch'', cfg_nscratch dc), (''datasize'', cfg_datasize dc),
     (''dataaddr'', cfg_dataaddr dc), (''sbversion'', cfg_sbversion dc),
     (''sbasize'', cfg_sbasize dc), (''sbaccess_reset'', cfg_sbaccess_reset dc),
     (''nextdm'', cfg_nextdm dc)]"

lemma loaded_flags_make: "loaded_flags (make_dut r d v f) = map (\<lambda>k. (k, f k)) LOADED_FLAGS"
  by (simp add: loaded_flags_def make_dut_def LOADED_FLAGS_def)

lemma config_flags_make:
  "config_flags (make_config c n f g) = loaded_flags c @ map (\<lambda>k. (k, f k)) CONFIG_FLAGS"
  by (simp add: config_flags_def make_config_def loaded_flags_def CONFIG_FLAGS_def)

lemma config_numbers_make: "config_numbers (make_config c n f g) = map (\<lambda>k. (k, g k)) CONFIG_NUMBERS"
  by (simp add: config_numbers_def make_config_def CONFIG_NUMBERS_def)

lemma load_dut_configD:
  assumes "load_dut_config files config_dir name = Inr c"
  shows "files (config_path config_dir name) = Some (Inr (raw c))"
    and "bindR (json_get (raw c) ''version'') (version_number (config_path config_dir name)) = Inr (d_version c)"
    and "list_all (\<lambda>(k, b). flag (raw c) k = Inr b) (loaded_flags c)"
proof -
  obtain r x v d bs where r: "files (config_path config_dir name) = Some (Inr r)" "json_get r ''version'' = Inr x"
      "version_number (config_path config_dir name) x = Inr v" "mapR (flag r) LOADED_FLAGS = Inr bs"
    and c: "c = make_dut r d v (kw False (zip LOADED_FLAGS bs))"
    using assms by (auto simp: load_dut_config_def bindR_eq_Inr Let_def split: option.splits)
  then have "raw c = r" "d_version c = v" by (simp_all add: make_dut_def)
  with r mapR_kw [OF r(4)] show "files (config_path config_dir name) = Some (Inr (raw c))"
    "bindR (json_get (raw c) ''version'') (version_number (config_path config_dir name)) = Inr (d_version c)"
    "list_all (\<lambda>(k, b). flag (raw c) k = Inr b) (loaded_flags c)"
    by (simp_all add: c loaded_flags_make list_all_iff)
qed

lemma version_number_cases:
  "version_number path x = Inr v \<Longrightarrow> v \<in> {DMSTATUS_VERSION_0_13, DMSTATUS_VERSION_1_0}"
  by (auto simp: version_number_def split: json.splits if_splits)

lemma loaded_version:
  assumes "load_dut_config files config_dir name = Inr c"
  shows "d_version c \<in> {DMSTATUS_VERSION_0_13, DMSTATUS_VERSION_1_0}"
  using load_dut_configD(2) [OF assms] version_number_cases by (auto simp: bindR_eq_Inr)

lemma declared_configD:
  assumes "declared_config c n = Inr dc"
  shows "cfg_num_harts dc = n" "cfg_version dc = d_version c"
    and "list_all (\<lambda>(k, b). flag (raw c) k = Inr b) (loaded_flags c) \<Longrightarrow>
      list_all (\<lambda>(k, b). flag (raw c) k = Inr b) (config_flags dc)"
    and "list_all (\<lambda>(k, v). num (raw c) k = Inr v) (config_numbers dc)"
proof -
  obtain bs ns where r: "mapR (flag (raw c)) CONFIG_FLAGS = Inr bs" "mapR (num (raw c)) CONFIG_NUMBERS = Inr ns"
    and dc: "dc = make_config c n (kw False (zip CONFIG_FLAGS bs)) (kw 0 (zip CONFIG_NUMBERS ns))"
    using assms by (auto simp: declared_config_def bindR_eq_Inr)
  show "cfg_num_harts dc = n" "cfg_version dc = d_version c" by (simp_all add: dc make_config_def)
  show "list_all (\<lambda>(k, b). flag (raw c) k = Inr b) (loaded_flags c) \<Longrightarrow>
      list_all (\<lambda>(k, b). flag (raw c) k = Inr b) (config_flags dc)"
    using mapR_kw [OF r(1)] by (auto simp: dc config_flags_make list_all_iff)
  show "list_all (\<lambda>(k, v). num (raw c) k = Inr v) (config_numbers dc)"
    using mapR_kw [OF r(2)] by (simp add: dc config_numbers_make list_all_iff)
qed

text \<open>
  C24. A configuration that loads says what its file declares, and nothing is guessed: each of the
  twenty-three Booleans and nine numbers is the value the file holds under that name (so a file that
  lacks one does not load), the version is the declared one, and the number of harts is the given one.
\<close>

theorem declared_config_faithful:
  assumes "load_dut_config files config_dir name = Inr c" and "declared_config c n = Inr dc"
  shows "files (config_path config_dir name) = Some (Inr (raw c)) \<and>
    bindR (json_get (raw c) ''version'') (version_number (config_path config_dir name)) = Inr (cfg_version dc) \<and>
    cfg_num_harts dc = n \<and>
    list_all (\<lambda>(k, b). flag (raw c) k = Inr b) (config_flags dc) \<and>
    list_all (\<lambda>(k, v). num (raw c) k = Inr v) (config_numbers dc)"
  using load_dut_configD [OF assms(1)] declared_configD [OF assms(2)] by simp

text \<open>The declaration of \<^verbatim>\<open>src/src/pydebug/dut_configs/ibex.json\<close>, without its notes.\<close>

definition ibex_json :: json where
  "ibex_json = JObj
   [(''dut'', JStr ''ibex''), (''version'', JStr ''0.13''), (''authenticated'', JBool True),
    (''impebreak'', JBool False), (''hasresethaltreq'', JBool False),
    (''supports_hartreset'', JBool False), (''supports_hasel'', JBool False),
    (''resumeack_reset'', JBool False), (''stickyunavail'', JBool False),
    (''havereset_poweron'', JBool True), (''progbufsize'', JInt 8), (''datacount'', JInt 2),
    (''relaxedpriv_reset'', JBool False), (''nscratch'', JInt 2), (''dataaccess'', JBool True),
    (''datasize'', JInt 2), (''dataaddr'', JStr ''0x380''), (''nextdm'', JStr ''0x0''),
    (''sbversion'', JInt 1), (''sbasize'', JInt 32), (''sbaccess_reset'', JInt 2),
    (''sbaccess_writable'', JBool True), (''sbaccess128'', JBool False),
    (''sbaccess64'', JBool False), (''sbaccess32'', JBool True), (''sbaccess16'', JBool True),
    (''sbaccess8'', JBool True), (''sba_enable'', JBool True),
    (''abstractauto_enable'', JBool True), (''hartarray_enable'', JBool False),
    (''authentication_enable'', JBool False), (''haltgroups_enable'', JBool False),
    (''progbuf_readable'', JBool True), (''haltsum_groups_present'', JBool True)]"

definition sample_files :: "string \<Rightarrow> json result option" where
  "sample_files path = (if path = ''dut_configs/ibex.json'' then Some (Inr ibex_json) else None)"

definition ibex_dut :: DutConfig where
  "ibex_dut = projr (load_dut_config sample_files ''dut_configs'' ''ibex'')"

definition ibex_config :: DeclaredConfig where
  "ibex_config = projr (declared_config ibex_dut 1)"

lemma ibex_loads:
  "load_dut_config sample_files ''dut_configs'' ''ibex'' = Inr ibex_dut"
  "declared_config ibex_dut 1 = Inr ibex_config"
  by code_simp+

theorem declared_config_faithful_witness:
  "num ibex_json ''dataaddr'' = Inr (cfg_dataaddr ibex_config) \<and> cfg_dataaddr ibex_config = 0x380"
proof -
  have "raw ibex_dut = ibex_json" "cfg_dataaddr ibex_config = 0x380" by code_simp+
  with declared_config_faithful [OF ibex_loads] show ?thesis by (simp add: config_numbers_def)
qed

end
