(* ===== verification/NativeTrigger.thy ===== *)
theory NativeTrigger
  imports Registers
begin

text \<open>
  \<^verbatim>\<open>src/src/pydebug/model/native_trigger.py\<close>: whether a trigger with \<^verbatim>\<open>action=0\<close> fires on an event of
  the hart, and what the breakpoint trap looks like. The trigger dictionary is a map from trigger
  index to trigger, with the sorted list of its indices; \<^verbatim>\<open>event\<close> threads the model's state, since
  counting triggers change. The report text of a \<^verbatim>\<open>Fire\<close> is not modelled. A privilege level the
  source's dictionary does not have raises \<^verbatim>\<open>KeyError\<close>, a negative shift \<^verbatim>\<open>ValueError\<close>.
\<close>

unbundle bit_operations_syntax

definition CAUSE_BREAKPOINT :: int where [simp]: "CAUSE_BREAKPOINT = 3"
definition PRV_U :: int where [simp]: "PRV_U = 0"
definition PRV_S :: int where [simp]: "PRV_S = 1"
definition PRV_M :: int where [simp]: "PRV_M = 3"

datatype Reentrancy = MIE_GATE | TCONTROL | NO_PROTECTION

datatype Event = EXECUTE | LOAD | STORE | RETIRE | EXCEPTION | INTERRUPT

record Trigger =
  tdata1 :: int
  tdata2 :: int
  xlen :: int

definition trigger_type :: "Trigger \<Rightarrow> int" where
  "trigger_type t = tdata1_type (tdata1 t) (xlen t)"

definition trigger_fields :: "Trigger \<Rightarrow> (string \<times> int) list" where
  "trigger_fields t =
     (case map_of TDATA1_LAYOUTS (trigger_type t) of
        Some layout \<Rightarrow> decode layout (tdata1 t)
      | None \<Rightarrow> [])"

text \<open>\<^verbatim>\<open>f.get(key, default)\<close> on decoded fields.\<close>

definition field_get :: "(string \<times> int) list \<Rightarrow> string \<Rightarrow> int \<Rightarrow> int" where
  "field_get f key dflt = (case map_of f key of Some v \<Rightarrow> v | None \<Rightarrow> dflt)"

definition mode_field :: "int \<Rightarrow> string result" where
  "mode_field prv =
     (if prv = PRV_M then Inr ''m'' else if prv = PRV_S then Inr ''s''
      else if prv = PRV_U then Inr ''u'' else Inl (KeyError ''prv''))"

definition enabled_in :: "Trigger \<Rightarrow> int \<Rightarrow> bool result" where
  "enabled_in t prv = bindR (mode_field prv) (\<lambda>nm. Inr (truth (field_get (trigger_fields t) nm 0)))"

record Fire =
  fire_trigger :: int
  fire_cause :: int
  fire_epc :: int
  fire_tval :: int

record NativeTriggerModel =
  reentrancy :: Reentrancy
  triggers :: "int \<rightharpoonup> Trigger"
  trigger_order :: "int list"
  pending :: "int \<rightharpoonup> bool"

definition NativeTriggerModel_init :: "Reentrancy \<Rightarrow> NativeTriggerModel" where
  "NativeTriggerModel_init r = \<lparr>reentrancy = r, triggers = Map.empty, trigger_order = [], pending = Map.empty\<rparr>"

definition configure :: "int \<Rightarrow> int \<Rightarrow> int \<Rightarrow> int \<Rightarrow> NativeTriggerModel \<Rightarrow> NativeTriggerModel" where
  "configure index td1 td2 xl m = m\<lparr>
     triggers := (triggers m)(index \<mapsto> \<lparr>tdata1 = td1, tdata2 = td2, xlen = xl\<rparr>),
     trigger_order := (if index \<in> set (trigger_order m) then trigger_order m
                       else insort index (trigger_order m)),
     pending := (pending m)(index \<mapsto> False)\<rparr>"

definition suppressed :: "NativeTriggerModel \<Rightarrow> int \<Rightarrow> bool \<Rightarrow> bool \<Rightarrow> bool" where
  "suppressed m prv mie mte =
     (case reentrancy m of
        MIE_GATE \<Rightarrow> prv = PRV_M \<and> \<not> mie
      | TCONTROL \<Rightarrow> \<not> mte
      | NO_PROTECTION \<Rightarrow> False)"

text \<open>The arguments of \<^verbatim>\<open>event\<close> after the kind and the privilege.\<close>

record event_args =
  ev_pc :: int
  ev_address :: int
  ev_cause :: int
  ev_handler :: int
  ev_next_pc :: int

definition mcontrol6_one :: "int \<Rightarrow> Trigger \<Rightarrow> Event \<Rightarrow> int \<Rightarrow> event_args \<Rightarrow> Fire option result" where
  "mcontrol6_one index t kind prv e =
     (let f = trigger_fields t;
          want = (case kind of EXECUTE \<Rightarrow> Some ''execute'' | LOAD \<Rightarrow> Some ''load''
                             | STORE \<Rightarrow> Some ''store'' | _ \<Rightarrow> None)
      in case want of
           None \<Rightarrow> Inr None
         | Some w \<Rightarrow>
             if \<not> truth (field_get f w 0) then Inr None
             else bindR (enabled_in t prv) (\<lambda>en.
               if \<not> en then Inr None
               else let val = (if kind = EXECUTE then ev_pc e else ev_address e)
                    in if val \<noteq> tdata2 t then Inr None
                       else Inr (Some \<lparr>fire_trigger = index, fire_cause = CAUSE_BREAKPOINT,
                                       fire_epc = ev_pc e, fire_tval = val\<rparr>)))"

definition icount_count_field :: Field where
  "icount_count_field = mkField ''count'' 10 14 ACCESS_WARL ''Sdtrig 5.7.13 count'' (Some 1)"

definition icount_one ::
  "int \<Rightarrow> Trigger \<Rightarrow> Event \<Rightarrow> int \<Rightarrow> event_args \<Rightarrow> NativeTriggerModel \<Rightarrow> (Fire option \<times> NativeTriggerModel) result" where
  "icount_one index t kind prv e m =
     (if kind \<noteq> RETIRE then Inr (None, m)
      else bindR (enabled_in t prv) (\<lambda>en.
        if \<not> en then Inr (None, m)
        else
          let count = field_get (trigger_fields t) ''count'' 0;
              m1 = (if count > 0 then
                      let count' = count - 1;
                          td = insert_field icount_count_field
                                 (tdata1 t AND NOT (field_mask icount_count_field)) count';
                          m0 = m\<lparr>triggers := (triggers m)(index \<mapsto> t\<lparr>tdata1 := td\<rparr>)\<rparr>
                      in if count' = 0 then m0\<lparr>pending := (pending m0)(index \<mapsto> True)\<rparr> else m0
                    else m)
          in case pending m1 index of
               None \<Rightarrow> Inl (KeyError ''pending'')
             | Some False \<Rightarrow> Inr (None, m1)
             | Some True \<Rightarrow>
                 Inr (Some \<lparr>fire_trigger = index, fire_cause = CAUSE_BREAKPOINT,
                            fire_epc = ev_next_pc e, fire_tval = 0\<rparr>,
                      m1\<lparr>pending := (pending m1)(index \<mapsto> False)\<rparr>)))"

definition trap_one :: "int \<Rightarrow> Trigger \<Rightarrow> Event \<Rightarrow> int \<Rightarrow> event_args \<Rightarrow> Fire option result" where
  "trap_one index t kind prv e =
     (let want = (if trigger_type t = TRIGGER_TYPE_ITRIGGER then INTERRUPT else EXCEPTION)
      in if kind \<noteq> want then Inr None
         else bindR (enabled_in t prv) (\<lambda>en.
           if \<not> en then Inr None
           else if ev_cause e < 0 then Inl (ValueError ''negative shift count'')
           else if \<not> truth (drop_bit (nat (ev_cause e)) (tdata2 t) AND 1) then Inr None
           else Inr (Some \<lparr>fire_trigger = index, fire_cause = CAUSE_BREAKPOINT,
                           fire_epc = ev_handler e, fire_tval = 0\<rparr>)))"

text \<open>\<^verbatim>\<open>_one\<close>: one trigger against one event.\<close>

definition trigger_one ::
  "int \<Rightarrow> Event \<Rightarrow> int \<Rightarrow> event_args \<Rightarrow> NativeTriggerModel \<Rightarrow> (Fire option \<times> NativeTriggerModel) result" where
  "trigger_one index kind prv e m =
     (case triggers m index of
        None \<Rightarrow> Inl (KeyError ''triggers'')
      | Some t \<Rightarrow>
          if field_get (trigger_fields t) ''action'' TRIGGER_ACTION_BREAKPOINT \<noteq> TRIGGER_ACTION_BREAKPOINT
          then Inr (None, m)
          else if trigger_type t = TRIGGER_TYPE_MCONTROL6
          then bindR (mcontrol6_one index t kind prv e) (\<lambda>r. Inr (r, m))
          else if trigger_type t = TRIGGER_TYPE_ICOUNT then icount_one index t kind prv e m
          else if trigger_type t \<in> {TRIGGER_TYPE_ITRIGGER, TRIGGER_TYPE_ETRIGGER}
          then bindR (trap_one index t kind prv e) (\<lambda>r. Inr (r, m))
          else Inr (None, m))"

fun first_fire ::
  "int list \<Rightarrow> Event \<Rightarrow> int \<Rightarrow> event_args \<Rightarrow> NativeTriggerModel \<Rightarrow> (Fire option \<times> NativeTriggerModel) result" where
  "first_fire [] kind prv e m = Inr (None, m)"
| "first_fire (i # is) kind prv e m =
     bindR (trigger_one i kind prv e m) (\<lambda>(fire, m1).
       case fire of Some x \<Rightarrow> Inr (Some x, m1) | None \<Rightarrow> first_fire is kind prv e m1)"

definition trigger_event ::
  "Event \<Rightarrow> int \<Rightarrow> event_args \<Rightarrow> bool \<Rightarrow> bool \<Rightarrow> NativeTriggerModel \<Rightarrow> (Fire option \<times> NativeTriggerModel) result" where
  "trigger_event kind prv e mie mte m =
     (if suppressed m prv mie mte then Inr (None, m)
      else first_fire (trigger_order m) kind prv e m)"

subsection \<open>Counting triggers\<close>

lemma tdata1_layouts [simp]:
  "map_of TDATA1_LAYOUTS 3 = Some ICOUNT" "map_of TDATA1_LAYOUTS 6 = Some MCONTROL6"
  by (simp_all add: TDATA1_LAYOUTS_def)

lemma icount_items [simp]:
  "field_get (decode ICOUNT w) ''count'' d = take_bit 14 (drop_bit 10 w)"
  "field_get (decode ICOUNT w) ''action'' d = take_bit 6 w"
  "field_get (decode ICOUNT w) ''m'' d = of_bool (bit w 9)"
  "field_get (decode ICOUNT w) ''s'' d = of_bool (bit w 7)"
  "field_get (decode ICOUNT w) ''u'' d = of_bool (bit w 6)"
  by (simp_all add: field_get_def decode_def ICOUNT_def mkField_def extract_field_eq mod_2_bit)

lemma icount_count_field_of_ICOUNT: "reg_field ICOUNT ''count'' = Inr icount_count_field"
  by (simp add: reg_field_def ICOUNT_def icount_count_field_def mkField_def)

text \<open>The tdata1 word after one count.\<close>

definition counted :: "int \<Rightarrow> int \<Rightarrow> int" where
  "counted w c = insert_field icount_count_field (w AND NOT (field_mask icount_count_field)) c"

lemma bit_counted: "bit (counted w c) n = (if 10 \<le> n \<and> n < 24 then bit c (n - 10) else bit w n)"
proof -
  have "bit (field_mask icount_count_field) n \<longleftrightarrow> 10 \<le> n \<and> n < 24"
    by (auto simp: field_mask_def value_mask_eq icount_count_field_def mkField_def bit_push_bit_iff bit_mask_iff)
  then show ?thesis
    by (auto simp: counted_def bit_insert_field bit_and_iff bit_not_iff icount_count_field_def mkField_def)
qed

lemma counted_parts:
  "take_bit 14 (drop_bit 10 (counted w c)) = take_bit 14 c" "take_bit 6 (counted w c) = take_bit 6 w"
  "drop_bit 60 (counted w c) = drop_bit 60 w" "drop_bit 28 (counted w c) = drop_bit 28 w"
  "bit (counted w c) 9 = bit w 9" "bit (counted w c) 7 = bit w 7" "bit (counted w c) 6 = bit w 6"
  by (rule bit_eqI; auto simp: bit_take_bit_iff bit_drop_bit_eq bit_counted)+ (simp_all add: bit_counted)

lemma counted_trigger:
  "trigger_type (t\<lparr>tdata1 := counted (tdata1 t) c\<rparr>) = trigger_type t"
  "trigger_type t = TRIGGER_TYPE_ICOUNT \<Longrightarrow> enabled_in (t\<lparr>tdata1 := counted (tdata1 t) c\<rparr>) prv = enabled_in t prv"
proof -
  show ty: "trigger_type (t\<lparr>tdata1 := counted (tdata1 t) c\<rparr>) = trigger_type t"
    by (simp add: trigger_type_def tdata1_type_def Let_def counted_parts TDATA1_TYPE_LSB_RV32_def TDATA1_TYPE_LSB_RV64_def)
  show "enabled_in (t\<lparr>tdata1 := counted (tdata1 t) c\<rparr>) prv = enabled_in t prv" if "trigger_type t = TRIGGER_TYPE_ICOUNT"
    using that by (simp add: enabled_in_def mode_field_def trigger_fields_def ty counted_parts)
qed

subsection \<open>Several triggers\<close>

text \<open>The keys of the three parts of the model agree, as every \<^verbatim>\<open>configure\<close> leaves them.\<close>

definition model_ok :: "NativeTriggerModel \<Rightarrow> bool" where
  "model_ok m \<longleftrightarrow> sorted (trigger_order m) \<and> distinct (trigger_order m) \<and>
     list_all (\<lambda>i. triggers m i \<noteq> None \<and> pending m i \<noteq> None) (trigger_order m)"

lemma model_ok_configure: "model_ok (NativeTriggerModel_init r)" "model_ok m \<Longrightarrow> model_ok (configure i td1 td2 xl m)"
  by (auto simp: model_ok_def NativeTriggerModel_init_def configure_def list_all_iff set_insort_key distinct_insort sorted_insort)

lemma icount_one_other:
  "icount_one i t kind prv e m = Inr (r, m') \<Longrightarrow> j \<noteq> i \<Longrightarrow> triggers m' j = triggers m j \<and> pending m' j = pending m j"
  by (auto simp: icount_one_def Let_def bindR_eq_Inr split: if_splits option.splits bool.splits)

lemma trigger_one_other:
  "trigger_one i kind prv e m = Inr (r, m') \<Longrightarrow> j \<noteq> i \<Longrightarrow> triggers m' j = triggers m j \<and> pending m' j = pending m j"
  by (auto simp: trigger_one_def bindR_eq_Inr dest: icount_one_other split: option.splits if_splits)

lemma icount_one_frame:
  "icount_one i t kind prv e m = Inr (r, m') \<Longrightarrow> triggers m i \<noteq> None \<Longrightarrow> reentrancy m' = reentrancy m \<and>
     trigger_order m' = trigger_order m \<and> (triggers m' j = None) = (triggers m j = None) \<and> (pending m i \<noteq> None \<longrightarrow> (pending m' j = None) = (pending m j = None)) \<and>
     (\<forall>f. r = Some f \<longrightarrow> fire_trigger f = i)"
  by (auto simp: icount_one_def Let_def bindR_eq_Inr split: if_splits option.splits bool.splits)

lemma trigger_one_frame:
  "trigger_one i kind prv e m = Inr (r, m') \<Longrightarrow> reentrancy m' = reentrancy m \<and> trigger_order m' = trigger_order m \<and>
     (model_ok m \<and> i \<in> set (trigger_order m) \<longrightarrow> model_ok m') \<and> (\<forall>f. r = Some f \<longrightarrow> fire_trigger f = i)"
proof -
  assume a: "trigger_one i kind prv e m = Inr (r, m')"
  then obtain t where t: "triggers m i = Some t" by (auto simp: trigger_one_def split: option.splits)
  have "m' = m \<and> (\<forall>f. r = Some f \<longrightarrow> fire_trigger f = i) \<or> icount_one i t kind prv e m = Inr (r, m')"
    using a t by (auto simp: trigger_one_def mcontrol6_one_def trap_one_def Let_def bindR_eq_Inr split: if_splits option.splits Event.splits)
  then show ?thesis using icount_one_frame [of i t kind prv e m r m'] t by (fastforce simp: model_ok_def list_all_iff)
qed

text \<open>
  Only the first trigger that fires sees the event: when the lowest-numbered trigger fires, every
  other trigger is left as it was, so an \<^verbatim>\<open>icount\<close> behind it does not count that instruction.
\<close>

lemma firing_shadows_later_triggers:
  assumes "trigger_order m = i # js" "trigger_one i kind prv e m = Inr (Some y, m1)" "\<not> suppressed m prv mie mte"
    "j \<noteq> i"
  shows "\<exists>m'. trigger_event kind prv e mie mte m = Inr (Some y, m') \<and> triggers m' j = triggers m j"
  using assms trigger_one_other [OF assms(2,4)] by (simp add: trigger_event_def)

text \<open>An event in a privilege mode that exists, with a cause that is a shift count, never raises on such a model.\<close>

lemma trigger_one_returns:
  assumes "model_ok m" "i \<in> set (trigger_order m)" "prv \<in> {PRV_U, PRV_S, PRV_M}" "0 \<le> ev_cause e"
  shows "\<exists>r m'. trigger_one i kind prv e m = Inr (r, m')"
proof -
  obtain t b where t: "triggers m i = Some t" "pending m i = Some b" using assms(1,2) by (auto simp: model_ok_def list_all_iff)
  have "\<exists>x. enabled_in t prv = Inr x" using assms(3) by (auto simp: enabled_in_def mode_field_def)
  then show ?thesis using t assms(4)
    by (auto simp: trigger_one_def mcontrol6_one_def trap_one_def icount_one_def Let_def split: Event.splits option.splits bool.splits)
qed

lemma first_fire_returns:
  assumes "model_ok m" "set is \<subseteq> set (trigger_order m)" "prv \<in> {PRV_U, PRV_S, PRV_M}" "0 \<le> ev_cause e"
  shows "\<exists>r m'. first_fire is kind prv e m = Inr (r, m') \<and> model_ok m' \<and> trigger_order m' = trigger_order m \<and> reentrancy m' = reentrancy m"
  using assms(1,2)
proof (induction "is" arbitrary: m)
  case (Cons i "is")
  obtain r m1 where m1: "trigger_one i kind prv e m = Inr (r, m1)" using trigger_one_returns [OF Cons.prems(1) _ assms(3,4), of i kind] Cons.prems(2) by auto
  with trigger_one_frame [OF m1] Cons show ?case by (cases r) fastforce+
qed simp

subsection \<open>A counting trigger among the others\<close>

text \<open>One thing the hart does, as the arguments of \<^verbatim>\<open>event\<close>.\<close>

record hart_event =
  he_kind :: Event
  he_prv :: int
  he_args :: event_args
  he_mie :: bool
  he_mte :: bool

definition event_ok :: "hart_event \<Rightarrow> bool" where
  "event_ok ev \<longleftrightarrow> he_prv ev \<in> {PRV_U, PRV_S, PRV_M} \<and> 0 \<le> ev_cause (he_args ev)"

definition event_of :: "hart_event \<Rightarrow> NativeTriggerModel \<Rightarrow> (Fire option \<times> NativeTriggerModel) result" where
  "event_of ev m = trigger_event (he_kind ev) (he_prv ev) (he_args ev) (he_mie ev) (he_mte ev) m"

fun event_run :: "hart_event list \<Rightarrow> NativeTriggerModel \<Rightarrow> (Fire option list \<times> NativeTriggerModel) result" where
  "event_run [] m = Inr ([], m)"
| "event_run (ev # evs) m = bindR (event_of ev m) (\<lambda>(r, m1). bindR (event_run evs m1) (\<lambda>(rs, m2). Inr (r # rs, m2)))"

text \<open>
  The events trigger \<open>i\<close>, an \<^verbatim>\<open>icount\<close> trigger \<open>t\<close>, counts: an instruction retired in a mode \<open>t\<close> is enabled in, not
  suppressed, on which no trigger with a smaller index fired.
\<close>

definition counts_event :: "Reentrancy \<Rightarrow> int \<Rightarrow> Trigger \<Rightarrow> hart_event \<times> Fire option \<Rightarrow> bool" where
  "counts_event re i t x = (case x of (ev, r) \<Rightarrow>
     he_kind ev = RETIRE \<and> \<not> suppressed (NativeTriggerModel_init re) (he_prv ev) (he_mie ev) (he_mte ev) \<and>
     enabled_in t (he_prv ev) = Inr True \<and> (case r of None \<Rightarrow> True | Some f \<Rightarrow> i \<le> fire_trigger f))"

definition armed :: "Reentrancy \<Rightarrow> int \<Rightarrow> Trigger \<Rightarrow> int \<Rightarrow> NativeTriggerModel \<Rightarrow> bool" where
  "armed re i t c m \<longleftrightarrow> reentrancy m = re \<and> model_ok m \<and> i \<in> set (trigger_order m) \<and> pending m i = Some False \<and>
     (case triggers m i of None \<Rightarrow> False | Some u \<Rightarrow>
        trigger_type u = TRIGGER_TYPE_ICOUNT \<and> take_bit 6 (tdata1 u) = TRIGGER_ACTION_BREAKPOINT \<and>
        take_bit 14 (drop_bit 10 (tdata1 u)) = c \<and> enabled_in u = enabled_in t)"

lemma counting_step:
  assumes "armed re i t c m" "trigger_one i kind prv e m = Inr (r, m')" 
  shows "if kind = RETIRE \<and> enabled_in t prv = Inr True
    then armed re i t (max 0 (c - 1)) m' \<and> r = (if c = 1 then Some \<lparr>fire_trigger = i, fire_cause = CAUSE_BREAKPOINT, fire_epc = ev_next_pc e, fire_tval = 0\<rparr> else None)
    else armed re i t c m' \<and> r = None"
proof -
  obtain u where u: "triggers m i = Some u" "trigger_type u = TRIGGER_TYPE_ICOUNT" "take_bit 6 (tdata1 u) = 0"
    "enabled_in u = enabled_in t" "take_bit 14 (drop_bit 10 (tdata1 u)) = c" "pending m i = Some False"
    "reentrancy m = re" "i \<in> set (trigger_order m)"
    using assms(1) by (auto simp: armed_def TRIGGER_ACTION_BREAKPOINT_def split: option.splits)
  have fr: "model_ok m'" "trigger_order m' = trigger_order m" "reentrancy m' = reentrancy m"
    using trigger_one_frame [OF assms(2)] assms(1) by (auto simp: armed_def)
  have c0: "0 \<le> c \<and> c < 2 ^ 14" using u(5) take_bit_range [of 14 "drop_bit 10 (tdata1 u)"] by simp
  then have c: "0 \<le> c" "c \<noteq> 0 \<Longrightarrow> take_bit 14 (c - 1) = c - 1"
    by (auto intro!: take_bit_int_eq_self)
  have f: "trigger_fields u = decode ICOUNT (tdata1 u)"
    using u(2) by (simp add: trigger_fields_def TRIGGER_TYPE_ICOUNT_def)
  have one: "icount_one i u kind prv e m = Inr (r, m')"
    using assms(2) u(1-3) f by (simp add: trigger_one_def TRIGGER_ACTION_BREAKPOINT_def TRIGGER_TYPE_ICOUNT_def)
  have en: "enabled_in (u\<lparr>tdata1 := counted (tdata1 u) z\<rparr>) = enabled_in t" for z
    using counted_trigger(2) [OF u(2)] u(4) by (simp add: fun_eq_iff)
  show ?thesis
  proof (cases "kind = RETIRE \<and> enabled_in t prv = Inr True")
    case False
    then have "r = None \<and> m' = m" using one u(4) by (cases "enabled_in t prv") (auto simp: icount_one_def split: if_splits)
    then show ?thesis using False assms(1) by auto
  next
    case True
    define u1 where "u1 = (if c = 0 then u else u\<lparr>tdata1 := counted (tdata1 u) (c - 1)\<rparr>)"
    have "icount_one i u kind prv e m = Inr (if c = 1 then Some \<lparr>fire_trigger = i, fire_cause = CAUSE_BREAKPOINT, fire_epc = ev_next_pc e, fire_tval = 0\<rparr> else None,
        if c = 0 then m else if c = 1 then m\<lparr>triggers := (triggers m)(i \<mapsto> u1), pending := (pending m)(i \<mapsto> False)\<rparr> else m\<lparr>triggers := (triggers m)(i \<mapsto> u1)\<rparr>)"
      using True u(4-6) c(1) by (simp add: icount_one_def f Let_def u1_def counted_def [symmetric])
    then have r: "r = (if c = 1 then Some \<lparr>fire_trigger = i, fire_cause = CAUSE_BREAKPOINT, fire_epc = ev_next_pc e, fire_tval = 0\<rparr> else None)"
      and m': "triggers m' i = Some u1" "pending m' i = Some False" using one u(1,6) by (auto simp: u1_def split: if_splits)
    have "trigger_type u1 = trigger_type u" "take_bit 6 (tdata1 u1) = take_bit 6 (tdata1 u)" "enabled_in u1 = enabled_in t"
      "take_bit 14 (drop_bit 10 (tdata1 u1)) = max 0 (c - 1)"
      using c counted_trigger(1) en counted_parts u(4,5) by (auto simp: u1_def)
    then show ?thesis using True r m' fr u by (simp add: armed_def)
  qed
qed

lemma armed_other:
  assumes "armed re i t c m" "trigger_one j kind prv e m = Inr (r, m')" "j \<noteq> i" "j \<in> set (trigger_order m)"
  shows "armed re i t c m'"
  using trigger_one_other [OF assms(2)] trigger_one_frame [OF assms(2)] assms(1,3,4) by (auto simp: armed_def)

text \<open>The triggers in front of \<open>i\<close>, then \<open>i\<close> and those behind it.\<close>

lemma first_fire_behind:
  assumes "armed re i t c m" "first_fire is kind prv e m = Inr (r, m')" "i \<notin> set is" "set is \<subseteq> set (trigger_order m)"
  shows "armed re i t c m' \<and> (\<forall>f. r = Some f \<longrightarrow> fire_trigger f \<in> set is)"
  using assms
proof (induction "is" arbitrary: m)
  case (Cons j "is")
  then obtain r1 m1 where 1: "trigger_one j kind prv e m = Inr (r1, m1)"
    "(case r1 of Some x \<Rightarrow> Inr (Some x, m1) | None \<Rightarrow> first_fire is kind prv e m1) = Inr (r, m')" by (auto simp: bindR_eq_Inr)
  then have "armed re i t c m1" "trigger_order m1 = trigger_order m"
    using armed_other [OF Cons.prems(1) 1(1)] trigger_one_frame [OF 1(1)] Cons.prems(3,4) by auto
  then show ?case using Cons.IH [of m1] Cons.prems(3,4) 1 trigger_one_frame [OF 1(1)] by (cases r1) auto
qed auto

lemma first_fire_counts:
  assumes "armed re i t c m" "first_fire is kind prv e m = Inr (r, m')" "i \<in> set is" "sorted is" "distinct is" "set is \<subseteq> set (trigger_order m)"
  shows "if kind = RETIRE \<and> enabled_in t prv = Inr True \<and> (case r of None \<Rightarrow> True | Some f \<Rightarrow> i \<le> fire_trigger f)
    then armed re i t (max 0 (c - 1)) m' \<and> (c = 1 \<longrightarrow> r = Some \<lparr>fire_trigger = i, fire_cause = CAUSE_BREAKPOINT, fire_epc = ev_next_pc e, fire_tval = 0\<rparr>) \<and>
      (c \<noteq> 1 \<longrightarrow> (\<forall>f. r = Some f \<longrightarrow> fire_trigger f \<noteq> i))
    else armed re i t c m' \<and> (\<forall>f. r = Some f \<longrightarrow> fire_trigger f \<noteq> i)"
  using assms
proof (induction "is" arbitrary: m)
  case (Cons j "is")
  then obtain r1 m1 where 1: "trigger_one j kind prv e m = Inr (r1, m1)"
    "(case r1 of Some x \<Rightarrow> Inr (Some x, m1) | None \<Rightarrow> first_fire is kind prv e m1) = Inr (r, m')" by (auto simp: bindR_eq_Inr)
  note fr = trigger_one_frame [OF 1(1)]
  show ?case
  proof (cases "j = i")
    case False
    then have lt: "j < i" "i \<in> set is" using Cons.prems(3,4,5) by (auto simp: le_less)
    have "armed re i t c m1" using armed_other [OF Cons.prems(1) 1(1) False] Cons.prems(6) by simp
    then show ?thesis using Cons.IH [of m1] Cons.prems(4-6) 1 fr lt by (cases r1) auto
  next
    case True
    note st = counting_step [OF Cons.prems(1) 1(1) [unfolded True]]
    have bh: "i < k" if "k \<in> set is" for k using that Cons.prems(4,5) True by (auto simp: le_less)
    show ?thesis
    proof (cases r1)
      case (Some x)
      then show ?thesis using st 1(2) by (auto split: if_splits)
    next
      case None
      then have ff: "first_fire is kind prv e m1 = Inr (r, m')" using 1(2) by simp
      have io: "i \<notin> set is" "set is \<subseteq> set (trigger_order m1)" using Cons.prems(5,6) True fr by auto
      have late: "\<forall>f. r = Some f \<longrightarrow> fire_trigger f \<in> set is" if "armed re i t c' m1" for c'
        using first_fire_behind [OF that ff io] by blast
      then show ?thesis
        using st None first_fire_behind [OF _ ff io, of re t] bh by (auto split: if_splits option.splits) (force dest: bh)+
    qed
  qed
qed simp

lemma event_counts:
  assumes "armed re i t c m" "event_ok ev"
  shows "\<exists>r m'. event_of ev m = Inr (r, m') \<and>
    (if counts_event re i t (ev, r)
     then armed re i t (max 0 (c - 1)) m' \<and> (c = 1 \<longrightarrow> r = Some \<lparr>fire_trigger = i, fire_cause = CAUSE_BREAKPOINT, fire_epc = ev_next_pc (he_args ev), fire_tval = 0\<rparr>) \<and>
       (c \<noteq> 1 \<longrightarrow> (\<forall>f. r = Some f \<longrightarrow> fire_trigger f \<noteq> i))
     else armed re i t c m' \<and> (\<forall>f. r = Some f \<longrightarrow> fire_trigger f \<noteq> i))"
proof (cases "suppressed m (he_prv ev) (he_mie ev) (he_mte ev)")
  case True
  then have "suppressed (NativeTriggerModel_init re) (he_prv ev) (he_mie ev) (he_mte ev)"
    using assms(1) by (simp add: armed_def suppressed_def NativeTriggerModel_init_def)
  then show ?thesis using True assms(1) by (simp add: event_of_def trigger_event_def counts_event_def)
next
  case False
  then have ns: "\<not> suppressed (NativeTriggerModel_init re) (he_prv ev) (he_mie ev) (he_mte ev)"
    using assms(1) by (simp add: armed_def suppressed_def NativeTriggerModel_init_def)
  have ok: "model_ok m" "i \<in> set (trigger_order m)" "sorted (trigger_order m)" "distinct (trigger_order m)"
    using assms(1) by (auto simp: armed_def model_ok_def)
  obtain r m' where r: "first_fire (trigger_order m) (he_kind ev) (he_prv ev) (he_args ev) m = Inr (r, m')"
    using first_fire_returns [OF ok(1) subset_refl, of "he_prv ev" "he_args ev" "he_kind ev"] assms(2) by (auto simp: event_ok_def)
  show ?thesis
    using first_fire_counts [OF assms(1) r ok(2-4) subset_refl] r False ns by (simp add: event_of_def trigger_event_def counts_event_def)
qed

text \<open>
  C26. An \<^verbatim>\<open>icount\<close> trigger \<open>t\<close> with the breakpoint action, count \<open>c\<close> and no fire pending, at index \<open>i\<close> among any other triggers, over any sequence of
  events of any kinds in the modes U, S and M, their causes not negative: no event raises, and trigger \<open>i\<close> fires on an event exactly when it counts that event and the event is
  the \<open>c\<close>-th it counts (so never with count 0, and never again afterwards); it then reports the next instruction in \<^verbatim>\<open>epc\<close> and 0 in \<^verbatim>\<open>tval\<close>.
  It counts the instructions retired in a mode it is enabled in, unless triggers are suppressed or a trigger with a smaller
  index fires on the same event.
\<close>

theorem icount_fires_once:
  assumes "armed re i t c m" "list_all event_ok evs"
  shows "\<exists>rs m'. event_run evs m = Inr (rs, m') \<and> length rs = length evs \<and>
    (\<forall>k < length evs. (\<exists>f. rs ! k = Some f \<and> fire_trigger f = i) =
        (counts_event re i t (evs ! k, rs ! k) \<and> int (length (filter (counts_event re i t) (take (Suc k) (zip evs rs)))) = c)) \<and>
    (\<forall>k < length evs. \<forall>f. rs ! k = Some f \<and> fire_trigger f = i \<longrightarrow>
        f = \<lparr>fire_trigger = i, fire_cause = CAUSE_BREAKPOINT, fire_epc = ev_next_pc (he_args (evs ! k)), fire_tval = 0\<rparr>)"
  using assms
proof (induction evs arbitrary: m c)
  case (Cons ev evs)
  from event_counts [OF Cons.prems(1)] Cons.prems(2) obtain r m1 where r: "event_of ev m = Inr (r, m1)"
    and c: "if counts_event re i t (ev, r)
     then armed re i t (max 0 (c - 1)) m1 \<and> (c = 1 \<longrightarrow> r = Some \<lparr>fire_trigger = i, fire_cause = CAUSE_BREAKPOINT, fire_epc = ev_next_pc (he_args ev), fire_tval = 0\<rparr>) \<and>
       (c \<noteq> 1 \<longrightarrow> (\<forall>f. r = Some f \<longrightarrow> fire_trigger f \<noteq> i))
     else armed re i t c m1 \<and> (\<forall>f. r = Some f \<longrightarrow> fire_trigger f \<noteq> i)" by force
  define c1 where "c1 = (if counts_event re i t (ev, r) then max 0 (c - 1) else c)"
  have a1: "armed re i t c1 m1" using c by (simp add: c1_def split: if_splits)
  obtain rs m2 where rs: "event_run evs m1 = Inr (rs, m2)" "length rs = length evs"
    "\<And>k. k < length evs \<Longrightarrow> (\<exists>f. rs ! k = Some f \<and> fire_trigger f = i) =
        (counts_event re i t (evs ! k, rs ! k) \<and> int (length (filter (counts_event re i t) (take (Suc k) (zip evs rs)))) = c1)"
    "\<And>k f. k < length evs \<Longrightarrow> rs ! k = Some f \<Longrightarrow> fire_trigger f = i \<Longrightarrow>
        f = \<lparr>fire_trigger = i, fire_cause = CAUSE_BREAKPOINT, fire_epc = ev_next_pc (he_args (evs ! k)), fire_tval = 0\<rparr>"
    using Cons.IH [OF a1] Cons.prems(2) by auto
  have pos: "0 < length (filter (counts_event re i t) (take (Suc k) (zip evs rs)))" if "k < length evs" "counts_event re i t (evs ! k, rs ! k)" for k
    using that rs(2) by (simp add: take_Suc_conv_app_nth)
  show ?case
  proof (intro exI [of _ "r # rs"] exI [of _ m2] conjI allI impI)
    show "event_run (ev # evs) m = Inr (r # rs, m2)" using r rs(1) by simp
    show "length (r # rs) = length (ev # evs)" using rs(2) by simp
    show "(\<exists>f. (r # rs) ! k = Some f \<and> fire_trigger f = i) = (counts_event re i t ((ev # evs) ! k, (r # rs) ! k) \<and>
        int (length (filter (counts_event re i t) (take (Suc k) (zip (ev # evs) (r # rs))))) = c)" if "k < length (ev # evs)" for k
    proof (cases k)
      case 0
      then show ?thesis using c by (auto split: if_splits)
    next
      case (Suc l)
      then have l: "l < length evs" using that by simp
      define n where "n = length (filter (counts_event re i t) (take (Suc l) (zip evs rs)))"
      then show ?thesis using pos [OF l] by (simp add: Suc rs(3) [OF l] flip: n_def) (auto simp: c1_def)
    qed
    show "f = \<lparr>fire_trigger = i, fire_cause = CAUSE_BREAKPOINT, fire_epc = ev_next_pc (he_args ((ev # evs) ! k)), fire_tval = 0\<rparr>"
      if "k < length (ev # evs)" "(r # rs) ! k = Some f \<and> fire_trigger f = i" for k f
      using that c rs(4) by (cases k) (auto split: if_splits)
  qed
qed simp

definition sample_icount :: NativeTriggerModel where
  "sample_icount = configure 1 0x3000000000000A00 0 64
     (configure 0 0x6000000000000044 0x1000 64 (NativeTriggerModel_init MIE_GATE))"

definition sample_retire :: "int \<Rightarrow> bool \<Rightarrow> hart_event" where
  "sample_retire prv mie = \<lparr>he_kind = RETIRE, he_prv = prv, he_args = \<lparr>ev_pc = 0x1000, ev_address = 0, ev_cause = 0, ev_handler = 0x80, ev_next_pc = 0x1004\<rparr>,
     he_mie = mie, he_mte = True\<rparr>"

text \<open>Two instructions counted in machine mode, around one in user mode, one under suppression, and an address match of the trigger in front.\<close>

definition sample_events :: "hart_event list" where
  "sample_events = [sample_retire PRV_M True, sample_retire PRV_U True, sample_retire PRV_M False,
     (sample_retire PRV_M True)\<lparr>he_kind := EXECUTE\<rparr>, sample_retire PRV_M True, sample_retire PRV_M True]"

theorem icount_fires_once_witness:
  "\<exists>rs m'. event_run sample_events sample_icount = Inr (rs, m') \<and> length rs = 6 \<and> (\<exists>f. rs ! 4 = Some f \<and> fire_trigger f = 1) \<and>
     (\<exists>f. rs ! 3 = Some f \<and> fire_trigger f = 0) \<and> rs ! 5 = None"
proof -
  let ?t = "\<lparr>tdata1 = 0x3000000000000A00, tdata2 = 0, xlen = 64\<rparr>"
  have "armed MIE_GATE 1 ?t 2 sample_icount"
  proof -
    have "reentrancy sample_icount = MIE_GATE \<and> model_ok sample_icount \<and> 1 \<in> set (trigger_order sample_icount) \<and> pending sample_icount 1 = Some False \<and>
      triggers sample_icount 1 = Some ?t \<and> trigger_type ?t = TRIGGER_TYPE_ICOUNT \<and> take_bit 6 (tdata1 ?t) = TRIGGER_ACTION_BREAKPOINT \<and>
      take_bit 14 (drop_bit 10 (tdata1 ?t)) = 2" by code_simp
    then show ?thesis by (simp add: armed_def)
  qed
  moreover have "list_all event_ok sample_events" by code_simp
  ultimately obtain rs m' where rs: "event_run sample_events sample_icount = Inr (rs, m')" "length rs = length sample_events"
    using icount_fires_once [of MIE_GATE 1 ?t 2 sample_icount sample_events] by blast
  have "(case event_run sample_events sample_icount of Inl _ \<Rightarrow> False | Inr (rs, _) \<Rightarrow>
     map (map_option fire_trigger) rs = [None, None, None, Some 0, Some 1, None])" by code_simp
  then have "map (map_option fire_trigger) rs = [None, None, None, Some 0, Some 1, None]" using rs(1) by simp
  then show ?thesis using rs(1) by (auto simp: map_eq_Cons_conv map_option_case split: option.splits)
qed

subsection \<open>Address matches\<close>

lemma mcontrol6_items [simp]:
  "field_get (decode MCONTROL6 w) ''action'' d = take_bit 4 (drop_bit 12 w)"
  "field_get (decode MCONTROL6 w) ''execute'' d = of_bool (bit w 2)"
  "field_get (decode MCONTROL6 w) ''store'' d = of_bool (bit w 1)"
  "field_get (decode MCONTROL6 w) ''load'' d = of_bool (bit w 0)"
  "field_get (decode MCONTROL6 w) ''m'' d = of_bool (bit w 6)"
  "field_get (decode MCONTROL6 w) ''s'' d = of_bool (bit w 4)"
  "field_get (decode MCONTROL6 w) ''u'' d = of_bool (bit w 3)"
  by (simp_all add: field_get_def decode_def MCONTROL6_def mkField_def extract_field_eq mod_2_bit)

text \<open>Where the mode bit of an \<^verbatim>\<open>mcontrol6\<close> trigger is, by privilege.\<close>

definition mode_bit :: "int \<Rightarrow> nat" where
  "mode_bit prv = (if prv = PRV_M then 6 else if prv = PRV_S then 4 else 3)"

text \<open>
  An \<^verbatim>\<open>mcontrol6\<close> trigger with \<^verbatim>\<open>action=0\<close> fires on an access exactly when the access kind and the
  privilege are enabled in \<^verbatim>\<open>tdata1\<close> and the address is the one in \<^verbatim>\<open>tdata2\<close>; the handler sees the
  instruction in \<^verbatim>\<open>epc\<close> and the address in \<^verbatim>\<open>tval\<close>, and the model is unchanged.
\<close>

lemma mcontrol6_fires_iff:
  assumes "tdata1_type td1 64 = TRIGGER_TYPE_MCONTROL6" "prv \<in> {PRV_U, PRV_S, PRV_M}"
    "kind \<in> {EXECUTE, LOAD, STORE}" "m = configure i td1 td2 64 (NativeTriggerModel_init r)"
    "\<not> suppressed m prv mie mte"
  shows "trigger_event kind prv e mie mte m =
    (let acc = (if kind = EXECUTE then ev_pc e else ev_address e)
     in Inr (if take_bit 4 (drop_bit 12 td1) = TRIGGER_ACTION_BREAKPOINT \<and>
               bit td1 (case kind of EXECUTE \<Rightarrow> 2 | STORE \<Rightarrow> 1 | _ \<Rightarrow> 0) \<and> bit td1 (mode_bit prv) \<and> acc = td2
             then Some \<lparr>fire_trigger = i, fire_cause = CAUSE_BREAKPOINT, fire_epc = ev_pc e, fire_tval = acc\<rparr>
             else None, m))"
proof -
  let ?t = "\<lparr>tdata1 = td1, tdata2 = td2, xlen = 64\<rparr>"
  have ty: "trigger_type ?t = TRIGGER_TYPE_MCONTROL6" using assms(1) by (simp add: trigger_type_def)
  then have f: "trigger_fields ?t = decode MCONTROL6 td1"
    by (simp add: trigger_fields_def TRIGGER_TYPE_MCONTROL6_def)
  have en: "enabled_in ?t prv = Inr (bit td1 (mode_bit prv))"
    using assms(2) by (auto simp: enabled_in_def mode_field_def mode_bit_def f)
  have m: "triggers m i = Some ?t" "trigger_order m = [i]"
    by (simp_all add: assms(4) configure_def NativeTriggerModel_init_def)
  from assms(3,5) show ?thesis
    by (cases kind) (auto simp: trigger_event_def trigger_one_def m ty f mcontrol6_one_def en Let_def)
qed

end
