(* ===== verification/Session.thy ===== *)
theory Session
  imports Prelude
begin

text \<open>
  \<^verbatim>\<open>src/src/pydebug/api/session.py\<close>: the runner of a sequence of debug steps. A step is a function
  on the state \<open>'s\<close> of the world its closure reaches; it may return any of the values the runner
  interprets, raise an \<^verbatim>\<open>Exception\<close> (caught) or raise past the runner (a \<^verbatim>\<open>KeyboardInterrupt\<close>).
  The answers typed in interactive mode are a list, its end being end of file. What the runner
  prints is not modelled; the output sink it prints through is, in the last section.
\<close>

subsection \<open>Steps and their results\<close>

record 'd StepResult =
  ok :: bool
  msg :: string
  data :: "'d option"

text \<open>What calling \<^verbatim>\<open>fn()\<close> gives; a returned dictionary by its \<^verbatim>\<open>ok\<close>, \<^verbatim>\<open>msg\<close> and \<^verbatim>\<open>data\<close> entries.\<close>

datatype 'd step_return =
    ReturnsNone
  | ReturnsStep "'d StepResult"
  | ReturnsDict "bool option" "string option" "'d option"
  | ReturnsOther string
  | RaisesException string
  | RaisesInterrupt

type_synonym ('s, 'd) step = "string \<times> ('s \<Rightarrow> 'd step_return \<times> 's)"

datatype mode = Interactive | Batch

record ('s, 'd) DebugSession =
  session_mode :: mode
  stop_on_error :: bool
  steps :: "('s, 'd) step list"
  results :: "'d StepResult list"

definition mode_of :: "string \<Rightarrow> mode option" where
  "mode_of m = (if m = ''interactive'' then Some Interactive else if m = ''batch'' then Some Batch else None)"

definition DebugSession_init :: "string \<Rightarrow> bool \<Rightarrow> ('s, 'd) DebugSession result" where
  "DebugSession_init m stop =
     (case mode_of m of
        None \<Rightarrow> Inl (ValueError m)
      | Some md \<Rightarrow> Inr \<lparr>session_mode = md, stop_on_error = stop, steps = [], results = []\<rparr>)"

definition add_step :: "string \<Rightarrow> ('s \<Rightarrow> 'd step_return \<times> 's) \<Rightarrow> ('s, 'd) DebugSession \<Rightarrow> ('s, 'd) DebugSession" where
  "add_step name fn d = d\<lparr>steps := steps d @ [(name, fn)]\<rparr>"

text \<open>\<^verbatim>\<open>_invoke\<close>; \<open>None\<close> when an interrupt passes through.\<close>

definition invoke :: "('s \<Rightarrow> 'd step_return \<times> 's) \<Rightarrow> 's \<Rightarrow> 'd StepResult option \<times> 's" where
  "invoke fn w =
     (let (ret, w1) = fn w in
      (case ret of
         RaisesException e \<Rightarrow> Some \<lparr>ok = False, msg = e, data = None\<rparr>
       | RaisesInterrupt \<Rightarrow> None
       | ReturnsNone \<Rightarrow> Some \<lparr>ok = True, msg = '''', data = None\<rparr>
       | ReturnsStep r \<Rightarrow> Some r
       | ReturnsDict o1 m1 d1 \<Rightarrow>
           Some \<lparr>ok = (case o1 of Some b \<Rightarrow> b | None \<Rightarrow> True),
                 msg = (case m1 of Some s \<Rightarrow> s | None \<Rightarrow> ''''), data = d1\<rparr>
       | ReturnsOther s \<Rightarrow> Some \<lparr>ok = True, msg = s, data = None\<rparr>, w1))"

text \<open>\<^verbatim>\<open>.strip().lower()\<close> of a typed line.\<close>

definition strip_lower :: "string \<Rightarrow> string" where
  "strip_lower s = map lower_char (strip s)"

text \<open>
  \<^verbatim>\<open>_run_step_interactive\<close>: ask until the answer is one the loop knows. End of input answers
  \<^verbatim>\<open>q\<close>. The result is \<open>None\<close> when the session is left by an interrupt.
\<close>

fun run_step_interactive ::
  "('s \<Rightarrow> 'd step_return \<times> 's) \<Rightarrow> string list \<Rightarrow> 's \<Rightarrow> 'd StepResult option \<times> string list \<times> 's" where
  "run_step_interactive fn [] w = (None, [], w)"
| "run_step_interactive fn (line # lines) w =
     (let choice = strip_lower line in
      if choice = ''e'' \<or> choice = '''' then
        (let (r, w1) = invoke fn w in (r, lines, w1))
      else if choice = ''s'' then
        (Some \<lparr>ok = True, msg = ''(skipped by user)'', data = None\<rparr>, lines, w)
      else if choice = ''q'' then (None, lines, w)
      else run_step_interactive fn lines w)"

definition run_step_batch :: "('s \<Rightarrow> 'd step_return \<times> 's) \<Rightarrow> 's \<Rightarrow> 'd StepResult option \<times> 's" where
  "run_step_batch fn w = invoke fn w"

text \<open>The loop of \<^verbatim>\<open>run\<close>: the results so far, whether an interrupt left it, the world.\<close>

fun run_steps ::
  "mode \<Rightarrow> bool \<Rightarrow> ('s, 'd) step list \<Rightarrow> string list \<Rightarrow> 'd StepResult list \<Rightarrow> 's \<Rightarrow> 'd StepResult list \<times> bool \<times> string list \<times> 's" where
  "run_steps md stop [] inp res w = (res, False, inp, w)"
| "run_steps md stop ((name, fn) # rest) inp res w =
     (let (r, inp1, w1) = (case md of
              Interactive \<Rightarrow> run_step_interactive fn inp w
            | Batch \<Rightarrow> (let (r, w1) = run_step_batch fn w in (r, inp, w1)))
      in case r of
           None \<Rightarrow> (res, True, inp1, w1)
         | Some x \<Rightarrow>
             let res1 = res @ [x] in
             if \<not> ok x \<and> stop then (res1, False, inp1, w1)
             else run_steps md stop rest inp1 res1 w1)"

definition run_session :: "('s, 'd) DebugSession \<Rightarrow> string list \<Rightarrow> 's \<Rightarrow> ('s, 'd) DebugSession \<times> bool \<times> string list \<times> 's" where
  "run_session d inp w =
     (let (res, interrupted, inp1, w1) = run_steps (session_mode d) (stop_on_error d) (steps d) inp [] w
      in (d\<lparr>results := res\<rparr>, interrupted, inp1, w1))"

definition all_passed :: "('s, 'd) DebugSession \<Rightarrow> bool" where
  "all_passed d \<longleftrightarrow> list_all ok (results d)"

definition failed_count :: "('s, 'd) DebugSession \<Rightarrow> nat" where
  "failed_count d = length (filter (\<lambda>r. \<not> ok r) (results d))"

subsection \<open>The output sink\<close>

record out_state =
  sink :: "string list option"
  pending_text :: string
  stdout :: string

definition set_output_sink :: "bool \<Rightarrow> out_state \<Rightarrow> out_state" where
  "set_output_sink on out = out\<lparr>sink := (if on then Some [] else None), pending_text := ''''\<rparr>"

fun split_lines :: "string \<Rightarrow> string list" where
  "split_lines [] = [[]]"
| "split_lines (c # cs) =
     (if c = CHR 0x0A then [] # split_lines cs
      else case split_lines cs of l # ls \<Rightarrow> (c # l) # ls | [] \<Rightarrow> [[c]])"

definition ends_with_newline :: "string \<Rightarrow> bool" where
  "ends_with_newline s = ends_with [CHR 0x0A] s"

definition out :: "string \<Rightarrow> string \<Rightarrow> out_state \<Rightarrow> out_state" where
  "out text end_text s =
     (case sink s of
        None \<Rightarrow> s\<lparr>stdout := stdout s @ text @ end_text\<rparr>
      | Some lines \<Rightarrow>
          let p = pending_text s @ text in
          if ends_with_newline end_text
          then s\<lparr>sink := Some (lines @ split_lines p), pending_text := ''''\<rparr>
          else s\<lparr>pending_text := p\<rparr>)"

subsection \<open>What a run reports\<close>

lemma run_steps_results:
  assumes "run_steps md stop ss inp res w = (res', intr, inp', w')"
  shows "\<exists>new. res' = res @ new \<and> length new \<le> length ss \<and>
    (stop \<longrightarrow> list_all ok (butlast new)) \<and>
    (length new < length ss \<and> \<not> intr \<longrightarrow> stop \<and> new \<noteq> [] \<and> \<not> ok (last new))"
  using assms
proof (induction md stop ss inp res w rule: run_steps.induct)
  case (1 md stop inp res w)
  then show ?case by simp
next
  case (2 md stop name fn rest inp res w)
  obtain r inp1 w1 where r: "(case md of Interactive \<Rightarrow> run_step_interactive fn inp w
      | Batch \<Rightarrow> (let (r, w1) = run_step_batch fn w in (r, inp, w1))) = (r, inp1, w1)" by (metis prod.exhaust)
  show ?case
  proof (cases r)
    case None
    with 2(2) r show ?thesis by auto
  next
    case (Some x)
    show ?thesis
    proof (cases "\<not> ok x \<and> stop")
      case True
      with 2(2) r Some show ?thesis by (intro exI [of _ "[x]"]) auto
    next
      case False
      with 2(2) r Some have "run_steps md stop rest inp1 (res @ [x]) w1 = (res', intr, inp', w')" by auto
      with 2(1) [OF r [symmetric] refl refl Some refl] False obtain new where
        new: "res' = (res @ [x]) @ new" "length new \<le> length rest" "stop \<longrightarrow> list_all ok (butlast new)"
        "length new < length rest \<and> \<not> intr \<longrightarrow> stop \<and> new \<noteq> [] \<and> \<not> ok (last new)" by auto
      with False show ?thesis by (intro exI [of _ "x # new"]) auto
    qed
  qed
qed

subsection \<open>The contract of a batch run\<close>

text \<open>
  What each outcome of a step is to be recorded as, and when a step passed: the documentation of \<^verbatim>\<open>add_step\<close>, except that it
  has an empty message where the code takes the text of a value of another kind.
\<close>

definition reports :: "'d step_return \<Rightarrow> 'd StepResult \<Rightarrow> bool" where
  "reports ret r = (case ret of
       ReturnsNone \<Rightarrow> ok r \<and> msg r = '''' \<and> data r = None
     | ReturnsStep s \<Rightarrow> r = s
     | ReturnsDict o1 m1 d1 \<Rightarrow> ok r = (o1 \<noteq> Some False) \<and> (m1 \<noteq> None \<longrightarrow> m1 = Some (msg r)) \<and> data r = d1
     | ReturnsOther s \<Rightarrow> ok r \<and> msg r = s
     | RaisesException e \<Rightarrow> \<not> ok r \<and> msg r = e
     | RaisesInterrupt \<Rightarrow> False)"

definition passed_return :: "'d step_return \<Rightarrow> bool" where
  "passed_return ret = (case ret of
       ReturnsStep s \<Rightarrow> ok s | ReturnsDict o1 _ _ \<Rightarrow> o1 \<noteq> Some False
     | RaisesException _ \<Rightarrow> False | RaisesInterrupt \<Rightarrow> False | _ \<Rightarrow> True)"

text \<open>What the steps give when each is called on the world the one before left.\<close>

fun step_returns :: "('s, 'd) step list \<Rightarrow> 's \<Rightarrow> 'd step_return list" where
  "step_returns [] w = []"
| "step_returns (st # sts) w = (let (ret, w1) = snd st w in ret # step_returns sts w1)"

text \<open>The outcomes that reach the report: those before an interrupt, and with \<^verbatim>\<open>stop_on_error\<close> up to the first that did not pass.\<close>

definition reported :: "bool \<Rightarrow> 'd step_return list \<Rightarrow> 'd step_return list" where
  "reported stop rets =
     (let ran = takeWhile (\<lambda>r. case r of RaisesInterrupt \<Rightarrow> False | _ \<Rightarrow> True) rets
      in if stop then take (Suc (length (takeWhile passed_return ran))) ran else ran)"

lemma invoke_reports:
  assumes "fn w = (ret, w1)"
  shows "(case ret of RaisesInterrupt \<Rightarrow> invoke fn w = (None, w1)
    | _ \<Rightarrow> \<exists>r. invoke fn w = (Some r, w1) \<and> reports ret r \<and> ok r = passed_return ret)"
  using assms by (auto simp: invoke_def reports_def passed_return_def split: step_return.splits option.splits)

lemma run_steps_batch:
  assumes "run_steps Batch stop ss inp res w = (res', intr, inp', w')"
  shows "\<exists>new. res' = res @ new \<and> list_all2 reports (reported stop (step_returns ss w)) new \<and> inp' = inp \<and>
    (intr \<longleftrightarrow> length new < length ss \<and> \<not> (stop \<and> new \<noteq> [] \<and> \<not> ok (last new)))"
  using assms
proof (induction ss arbitrary: res w)
  case Nil
  then show ?case by (simp add: reported_def)
next
  case (Cons st ss)
  obtain name fn where st: "st = (name, fn)" by (cases st)
  obtain ret w1 where f: "fn w = (ret, w1)" by fastforce
  show ?case
  proof (cases "ret = RaisesInterrupt")
    case True
    with f invoke_reports [where fn = fn and w = w] Cons.prems st show ?thesis by (auto simp: run_step_batch_def reported_def)
  next
    case False
    with invoke_reports [where fn = fn and w = w and ret = ret] f obtain r where r: "invoke fn w = (Some r, w1)" "reports ret r" "ok r = passed_return ret"
      by (cases ret) auto
    have rep: "reported stop (ret # rs) = (if stop \<and> \<not> passed_return ret then [ret] else ret # reported stop rs)" for rs
      using False by (cases ret) (auto simp: reported_def Let_def)
    show ?thesis
    proof (cases "stop \<and> \<not> ok r")
      case True
      with Cons.prems st r f rep show ?thesis by (intro exI [of _ "[r]"]) (auto simp: run_step_batch_def)
    next
      case go: False
      then have "run_steps Batch stop ss inp (res @ [r]) w1 = (res', intr, inp', w')"
        using Cons.prems st r by (auto simp: run_step_batch_def split: if_splits)
      from Cons.IH [OF this] obtain new where new: "res' = (res @ [r]) @ new" "list_all2 reports (reported stop (step_returns ss w1)) new" "inp' = inp"
        "intr \<longleftrightarrow> length new < length ss \<and> \<not> (stop \<and> new \<noteq> [] \<and> \<not> ok (last new))" by blast
      then show ?thesis using go st f r rep by (intro exI [of _ "r # new"]) auto
    qed
  qed
qed

text \<open>
  C27. What a run of a session reports. In batch mode the results are, in order, what \<open>reports\<close> asks for the
  outcomes of the steps, each step called on the world the one before left: an exception is a failed result with its text, a result
  object is taken as it is, a dictionary by its entries, \<^verbatim>\<open>None\<close> and other values pass; they stop before the first step that raises an
  interrupt and, with \<^verbatim>\<open>stop_on_error\<close>, after the first that did not pass, and nothing is read from the user. In both modes there are
  never more results than steps; with \<^verbatim>\<open>stop_on_error\<close> every result but the last passed; \<^verbatim>\<open>all_passed\<close> holds exactly when \<^verbatim>\<open>failed_count\<close>
  is 0; and a run that was not interrupted and either passed or has no \<^verbatim>\<open>stop_on_error\<close> has one result for every step.
\<close>

theorem session_reports:
  assumes "run_session d inp w = (d', intr, inp', w')"
  shows "(session_mode d = Batch \<longrightarrow>
      list_all2 reports (reported (stop_on_error d) (step_returns (steps d) w)) (results d') \<and> inp' = inp) \<and>
    length (results d') \<le> length (steps d) \<and>
    (stop_on_error d \<longrightarrow> list_all ok (butlast (results d'))) \<and>
    (all_passed d' \<longleftrightarrow> failed_count d' = 0) \<and>
    (\<not> intr \<and> (all_passed d' \<or> \<not> stop_on_error d) \<longrightarrow> length (results d') = length (steps d))"
proof -
  obtain res where run: "run_steps (session_mode d) (stop_on_error d) (steps d) inp [] w = (res, intr, inp', w')"
    "d' = d\<lparr>results := res\<rparr>"
    using assms by (auto simp: run_session_def split: prod.splits)
  from run_steps_results [OF run(1)] have n: "length res \<le> length (steps d)"
    "stop_on_error d \<longrightarrow> list_all ok (butlast res)"
    "length res < length (steps d) \<and> \<not> intr \<longrightarrow> stop_on_error d \<and> res \<noteq> [] \<and> \<not> ok (last res)" by auto
  have "failed_count d' = 0 \<longleftrightarrow> list_all ok res"
    by (auto simp: failed_count_def run(2) filter_empty_conv list_all_iff)
  moreover have "\<not> list_all ok res" if "res \<noteq> []" "\<not> ok (last res)" using that by (auto simp: list_all_iff)
  moreover have "list_all2 reports (reported (stop_on_error d) (step_returns (steps d) w)) res \<and> inp' = inp" if "session_mode d = Batch"
    using run_steps_batch run(1) [unfolded that] by fastforce
  ultimately show ?thesis using n by (auto simp: run(2) all_passed_def)
qed

definition sample_steps :: "(nat, unit) DebugSession" where
  "sample_steps = add_step ''third'' (\<lambda>w. (ReturnsNone, w))
     (add_step ''second'' (\<lambda>w. (RaisesException ''timeout'', w))
     (add_step ''first'' (\<lambda>w. (ReturnsDict (Some True) None None, Suc w))
       \<lparr>session_mode = Batch, stop_on_error = True, steps = [], results = []\<rparr>))"

theorem session_reports_witness:
  "failed_count (fst (run_session sample_steps [] 0)) \<noteq> 0 \<and> length (results (fst (run_session sample_steps [] 0))) = 2 \<and>
   list_all2 reports [ReturnsDict (Some True) None None, RaisesException ''timeout''] (results (fst (run_session sample_steps [] 0)))"
proof -
  obtain d' intr inp' w' where r: "run_session sample_steps [] 0 = (d', intr, inp', w')" by (metis prod.exhaust)
  have "\<not> all_passed (fst (run_session sample_steps [] 0))" "length (results (fst (run_session sample_steps [] 0))) = 2"
    by (simp_all add: sample_steps_def add_step_def run_session_def run_step_batch_def invoke_def all_passed_def)
  moreover have "session_mode sample_steps = Batch"
    "reported (stop_on_error sample_steps) (step_returns (steps sample_steps) 0) = [ReturnsDict (Some True) None None, RaisesException ''timeout'']"
    by (simp_all add: sample_steps_def add_step_def reported_def passed_return_def)
  ultimately show ?thesis using session_reports [OF r] r by auto
qed

text \<open>
  Through a sink a partial line loses its ending: two texts printed with an ending that is not a
  newline between them arrive joined, without it (on standard output the ending is printed).
\<close>

lemma sink_drops_partial_ending:
  assumes "sink s = Some lines" "\<not> ends_with_newline e1" "ends_with_newline e2"
  shows "sink (out b e2 (out a e1 s)) = Some (lines @ split_lines (pending_text s @ a @ b))"
  using assms by (simp add: out_def Let_def)

end
