(* ===== verification/CoverageBins.thy ===== *)
theory CoverageBins
  imports Registers
begin

text \<open>
  The bins of \<^verbatim>\<open>src/src/pydebug/model/coverage.py\<close>: what the constructor of \<^verbatim>\<open>DebugCoverageModel\<close>
  declares to be worth covering, and what it excludes. A bin carries its group, name, specification
  section and test case; its rationale \<^verbatim>\<open>why\<close> and the reason of an exclusion are prose and left out.
  A dictionary keyed by \<^verbatim>\<open>group.name\<close> is an association list, its newest entry first.
\<close>

subsection \<open>Observed states, bins and the model\<close>

datatype obs_state = ST_UNKNOWN | ST_HALTED | ST_RUNNING | ST_IN_RESET | ST_UNAVAIL | ST_NONEXISTENT

fun st_name :: "obs_state \<Rightarrow> string" where
  "st_name ST_UNKNOWN = ''unknown''"
| "st_name ST_HALTED = ''halted''"
| "st_name ST_RUNNING = ''running''"
| "st_name ST_IN_RESET = ''in_reset''"
| "st_name ST_UNAVAIL = ''unavailable''"
| "st_name ST_NONEXISTENT = ''nonexistent''"

record Bin =
  b_group :: string
  b_name :: string
  b_spec :: string
  b_tc :: "string option"

definition cov_key :: "string \<Rightarrow> string \<Rightarrow> string" where
  "cov_key grp nm = grp @ ''.'' @ nm"

definition bin_key :: "Bin \<Rightarrow> string" where
  "bin_key b = cov_key (b_group b) (b_name b)"

record ExcludedBin =
  e_group :: string
  e_name :: string

definition excluded_key :: "ExcludedBin \<Rightarrow> string" where
  "excluded_key e = cov_key (e_group e) (e_name e)"

record DebugCoverageModel =
  c_num_harts :: int
  c_hartsellen :: int
  c_supports_hasel :: bool
  c_stickyunavail :: bool
  c_bins :: "(string \<times> Bin) list"
  c_counts :: "string \<rightharpoonup> nat"
  c_excluded :: "(string \<times> ExcludedBin) list"
  c_excluded_hits :: "string \<rightharpoonup> nat"
  c_state :: obs_state
  c_state_hartsel :: "int option"
  c_hartsel :: int
  c_havereset :: "bool option"
  c_reset_haltreq :: "int \<rightharpoonup> bool"
  c_ndmreset :: bool
  c_staged_data0 :: int
  c_staged_data1 :: int

definition add_bin :: "string \<Rightarrow> string \<Rightarrow> string \<Rightarrow> string option \<Rightarrow> DebugCoverageModel \<Rightarrow> DebugCoverageModel" where
  "add_bin grp nm sp tc m =
     (let b = \<lparr>b_group = grp, b_name = nm, b_spec = sp, b_tc = tc\<rparr>
      in m\<lparr>c_bins := (bin_key b, b) # c_bins m, c_counts := (c_counts m)(bin_key b \<mapsto> 0)\<rparr>)"

definition exclude :: "string \<Rightarrow> string \<Rightarrow> DebugCoverageModel \<Rightarrow> DebugCoverageModel" where
  "exclude grp nm m =
     (let e = \<lparr>e_group = grp, e_name = nm\<rparr>
      in m\<lparr>c_excluded := (excluded_key e, e) # c_excluded m,
          c_excluded_hits := (c_excluded_hits m)(excluded_key e \<mapsto> 0)\<rparr>)"

text \<open>The nested function \<^verbatim>\<open>add\<close> and a run of \<^verbatim>\<open>_add\<close> calls of one group.\<close>

definition add_all :: "string \<Rightarrow> string list \<Rightarrow> string \<Rightarrow> DebugCoverageModel \<Rightarrow> DebugCoverageModel" where
  "add_all grp names sp m = fold (\<lambda>nm. add_bin grp nm sp None) names m"

definition add_bins :: "string \<Rightarrow> (string \<times> string \<times> string option) list \<Rightarrow> DebugCoverageModel \<Rightarrow> DebugCoverageModel" where
  "add_bins grp rows m = fold (\<lambda>(nm, sp, tc). add_bin grp nm sp tc) rows m"

subsection \<open>The external-debug covergroups\<close>

definition COV_DATA0 :: int where [simp]: "COV_DATA0 = 0x04"
definition COV_DATA11 :: int where [simp]: "COV_DATA11 = 0x0F"
definition COV_HARTINFO :: int where [simp]: "COV_HARTINFO = 0x12"
definition COV_ABSTRACTCS :: int where [simp]: "COV_ABSTRACTCS = 0x16"
definition COV_COMMAND :: int where [simp]: "COV_COMMAND = 0x17"
definition COV_PROGBUF0 :: int where [simp]: "COV_PROGBUF0 = 0x20"
definition COV_PROGBUF15 :: int where [simp]: "COV_PROGBUF15 = 0x2F"
definition COV_DMCS2 :: int where [simp]: "COV_DMCS2 = 0x32"
definition COV_SBCS :: int where [simp]: "COV_SBCS = 0x38"
definition COV_SBADDRESS0 :: int where [simp]: "COV_SBADDRESS0 = 0x39"
definition COV_SBDATA0 :: int where [simp]: "COV_SBDATA0 = 0x3C"
definition COV_HALTSUM0 :: int where [simp]: "COV_HALTSUM0 = 0x40"
definition COV_REGNO_CSR_HI :: int where [simp]: "COV_REGNO_CSR_HI = 0x0FFF"
definition COV_REGNO_GPR_LO :: int where [simp]: "COV_REGNO_GPR_LO = 0x1000"
definition COV_REGNO_GPR_HI :: int where [simp]: "COV_REGNO_GPR_HI = 0x101F"

definition TRIGGER_CSRS :: "(int \<times> string) list" where
  "TRIGGER_CSRS = [(0x07A0, ''tselect''), (0x07A1, ''tdata1''), (0x07A2, ''tdata2''),
     (0x07A3, ''tdata3''), (0x07A4, ''tinfo'')]"

definition TRIGGER_TYPES :: "(int \<times> string) list" where
  "TRIGGER_TYPES = [(2, ''mcontrol''), (3, ''icount''), (4, ''itrigger''),
     (5, ''etrigger''), (6, ''mcontrol6''), (7, ''tmexttrigger'')]"

definition build_external_debug_bins :: "DebugCoverageModel \<Rightarrow> DebugCoverageModel" where
  "build_external_debug_bins m =
     fold (\<lambda>grp. exclude grp ''(whole covergroup)'')
       [''cg_abstract_cmd'', ''cg_sba'', ''cg_debug_entry'', ''cg_step_external'', ''cg_hart_mode'']
    (add_all ''cg_trigger'' (map (\<lambda>(_, n). ''cp_trigger_type.'' @ n) TRIGGER_TYPES) ''Sdtrig Ch.5''
    (add_all ''cg_trigger'' (map (\<lambda>(_, n). ''cp_trigger_csr.'' @ n) TRIGGER_CSRS) ''Sdtrig Ch.5''
    (add_all ''cg_data0_access'' [''cp_op.read'', ''cp_op.write''] ''#3.14.11''
    (add_all ''cg_haltsum0_read'' [''cp_haltsum0.none_halted'', ''cp_haltsum0.some_halted''] ''#3.14.9''
    (add_all ''cg_hartinfo_read'' [''cp_dataaccess.observed''] ''#3.14.3''
    (add_all ''cg_dmcs2_write'' [''cp_hgselect.halt_group'', ''cp_hgselect.resume_group'',
       ''cp_grouptype.halt'', ''cp_grouptype.ext_trigger'', ''cp_group.ungrouped'', ''cp_group.grouped''] ''#3.14.17''
    (add_all ''cg_sb_access'' [''cp_access.addr_write'', ''cp_access.data_write'', ''cp_access.data_read''] ''#3.10''
    (add_all ''cg_sbcs'' [''cp_sbbusy.idle''] ''#3.14.20''
    (add_all ''cg_sbcs'' [''cp_readonaddr.off'', ''cp_readonaddr.on''] ''#3.14.20''
    (add_all ''cg_progbuf'' [''cp_written.written'', ''cp_executed.executed''] ''#3.14.15''
    (add_all ''cg_abstractcs_read'' [''cp_has_progbuf.present'', ''cp_has_data.present''] ''#3.14.6''
    (add_all ''cg_abstractcs_read'' [''cp_busy.idle'', ''cp_busy.busy''] ''#3.14.6''
    (add_all ''cg_command_write'' [''cp_regno_class.gpr'', ''cp_regno_class.csr''] ''#3.7.1.1''
    (add_all ''cg_command_write'' [''cp_write.read'', ''cp_write.write''] ''#3.14.14'' m))))))))))))))"

subsection \<open>Register accesses and the fields of \<^verbatim>\<open>dmcontrol\<close>\<close>

definition build_dmi_access_bins :: "DebugCoverageModel \<Rightarrow> DebugCoverageModel" where
  "build_dmi_access_bins m =
     exclude ''dmi_access'' ''write:dmstatus''
       (add_bins ''dmi_access''
          [(''read:dmcontrol'', ''#3.14.2'', Some ''TC-RST-002''),
           (''write:dmcontrol'', ''#3.14.2'', Some ''TC-RC-001''),
           (''read:dmstatus'', ''#3.14.1'', Some ''TC-RC-001'')] m)"

definition dmcontrol_tc_for_one :: "string \<Rightarrow> string option" where
  "dmcontrol_tc_for_one nm =
     (case map_of [(''haltreq'', Some ''TC-RC-001''), (''resumereq'', Some ''TC-RC-003''),
        (''hartreset'', Some ''TC-RST-002''), (''ackhavereset'', Some ''TC-RST-004''),
        (''ackunavail'', None), (''hasel'', None), (''setkeepalive'', None), (''clrkeepalive'', None),
        (''setresethaltreq'', Some ''TC-HOR-002''), (''clrresethaltreq'', Some ''TC-HOR-003''),
        (''ndmreset'', Some ''TC-RST-001''), (''dmactive'', Some ''TC-RC-001'')] nm of
        Some tc \<Rightarrow> tc | None \<Rightarrow> None)"

definition dmcontrol_tc_for_zero :: "string \<Rightarrow> string option" where
  "dmcontrol_tc_for_zero nm = (if nm = ''dmactive'' then None else Some ''TC-RC-001'')"

definition build_dmcontrol_field_bins :: "DebugCoverageModel \<Rightarrow> DebugCoverageModel" where
  "build_dmcontrol_field_bins m =
     fold (\<lambda>f m. if f_width f \<noteq> 1 then m
                 else add_bins (''dmcontrol.'' @ f_name f)
                   [(''0'', f_spec f, dmcontrol_tc_for_zero (f_name f)),
                    (''1'', f_spec f, dmcontrol_tc_for_one (f_name f))] m)
       (r_fields DMCONTROL) m"

definition build_hartsel_bins :: "DebugCoverageModel \<Rightarrow> DebugCoverageModel" where
  "build_hartsel_bins m =
     add_bins ''dmcontrol.hartsel''
       [(''zero'', ''#3.14.2 hartsel'', Some ''TC-RC-001''),
        (''nonzero'', ''#3.14.2 hartsel'', Some ''TC-HOR-004''),
        (''max_implemented'', ''#3.14.2 hartsel'', Some ''TC-HOR-004''),
        (''nonexistent'', ''#3.14.1 anynonexistent'', None),
        (''hartselhi_nonzero'', ''#3.14.2 hartselhi'', None),
        (''all_ones'', ''#3.14.2 hartsel'', None)] m"

subsection \<open>The fields of \<^verbatim>\<open>dmstatus\<close>\<close>

definition dmstatus_tc_for_one :: "string \<Rightarrow> string option" where
  "dmstatus_tc_for_one nm =
     map_of [(''ndmresetpending'', ''TC-RST-001''), (''allhavereset'', ''TC-RST-003''),
       (''anyhavereset'', ''TC-RST-003''), (''allresumeack'', ''TC-RC-003''), (''anyresumeack'', ''TC-RC-003''),
       (''allnonexistent'', ''TC-HS-002''), (''anynonexistent'', ''TC-HS-002''), (''allrunning'', ''TC-RC-003''),
       (''anyrunning'', ''TC-RC-003''), (''allhalted'', ''TC-RC-001''), (''anyhalted'', ''TC-RC-001''),
       (''authenticated'', ''TC-RC-001''), (''hasresethaltreq'', ''TC-HOR-001'')] nm"

definition dmstatus_tc_for_zero :: "string \<Rightarrow> string option" where
  "dmstatus_tc_for_zero nm =
     (case map_of [(''allhavereset'', ''TC-RST-004''), (''anyhavereset'', ''TC-RST-004''),
        (''allrunning'', ''TC-RC-001''), (''anyrunning'', ''TC-RC-001''), (''allhalted'', ''TC-RC-003''),
        (''anyhalted'', ''TC-RC-003''), (''allresumeack'', ''TC-RC-004''), (''anyresumeack'', ''TC-RC-004''),
        (''hasresethaltreq'', ''TC-HOR-001''), (''ndmresetpending'', ''TC-RST-001'')] nm of
        Some tc \<Rightarrow> Some tc | None \<Rightarrow> Some ''TC-RC-001'')"

definition out_of_slice :: "(string \<times> string) list" where
  "out_of_slice = [(''impebreak'', ''1''), (''authenticated'', ''0''), (''authbusy'', ''1''),
     (''confstrptrvalid'', ''1''), (''allunavail'', ''1''), (''anyunavail'', ''1'')]"

definition build_dmstatus_bin :: "Field \<Rightarrow> string \<Rightarrow> DebugCoverageModel \<Rightarrow> DebugCoverageModel" where
  "build_dmstatus_bin f val m =
     (let g = ''dmstatus.'' @ f_name f in
      if (f_name f, val) \<in> set out_of_slice then exclude g val m
      else if f_name f = ''stickyunavail'' \<and> val = ''1'' \<and> \<not> c_stickyunavail m then exclude g ''1'' m
      else add_bin g val (f_spec f)
             (if val = ''1'' then dmstatus_tc_for_one (f_name f) else dmstatus_tc_for_zero (f_name f)) m)"

definition build_version_bins :: "DebugCoverageModel \<Rightarrow> DebugCoverageModel" where
  "build_version_bins m =
     exclude ''dmstatus.version'' ''custom''
    (exclude ''dmstatus.version'' ''v0_11''
    (add_bins ''dmstatus.version''
       [(''v0_13'', ''#3.14.1 version'', Some ''TC-RC-001''),
        (''v1_0'', ''#3.14.1 version'', Some ''TC-RC-001'')]
    (exclude ''dmstatus.version'' ''none'' m)))"

definition build_dmstatus_field_bins :: "DebugCoverageModel \<Rightarrow> DebugCoverageModel" where
  "build_dmstatus_field_bins m =
     build_version_bins
       (fold (\<lambda>f m. if f_width f \<noteq> 1 then m
                    else build_dmstatus_bin f ''1'' (build_dmstatus_bin f ''0'' m))
          (r_fields DMSTATUS) m)"

subsection \<open>Pairs and crosses\<close>

text \<open>\<^verbatim>\<open>all_name.removeprefix("all")\<close>.\<close>

definition pair_state :: "string \<Rightarrow> string" where
  "pair_state all_name = (if take 3 all_name = ''all'' then drop 3 all_name else all_name)"

definition tc_by_pair :: "string \<Rightarrow> string option \<times> string option" where
  "tc_by_pair st =
     (case map_of [(''halted'', (Some ''TC-RC-003'', Some ''TC-RC-001'')),
        (''running'', (Some ''TC-RC-001'', Some ''TC-RC-003'')),
        (''havereset'', (Some ''TC-RST-004'', Some ''TC-RST-003'')),
        (''resumeack'', (Some ''TC-RC-004'', Some ''TC-RC-003'')),
        (''nonexistent'', (Some ''TC-RC-001'', Some ''TC-HS-002'')),
        (''unavail'', (Some ''TC-RC-001'', None))] st of
        Some p \<Rightarrow> p | None \<Rightarrow> (None, None))"

definition build_all_any_pair :: "string \<Rightarrow> DebugCoverageModel \<Rightarrow> DebugCoverageModel" where
  "build_all_any_pair all_name m =
     (let st = pair_state all_name;
          g = ''dmstatus.all_any.'' @ st;
          (tc_none, tc_all) = tc_by_pair st;
          m1 = add_bin g ''all0_any0'' ''#3.14.1'' tc_none m;
          m2 = (if st = ''unavail'' then exclude g ''all1_any1'' m1
                else add_bin g ''all1_any1'' ''#3.14.1'' tc_all m1)
      in exclude g ''all1_any0'' (exclude g ''all0_any1'' m2))"

definition build_all_any_bins :: "DebugCoverageModel \<Rightarrow> DebugCoverageModel" where
  "build_all_any_bins m = fold (\<lambda>(all_name, _). build_all_any_pair all_name) DMSTATUS_ALL_ANY_PAIRS m"

definition build_cross_bins :: "DebugCoverageModel \<Rightarrow> DebugCoverageModel" where
  "build_cross_bins m =
     add_bins ''cross.dmcontrol_mutex_bits''
       [(''none'', ''#3.14.2'', Some ''TC-RC-001''), (''one'', ''#3.14.2'', Some ''TC-RC-003''),
        (''multiple'', ''#3.14.2'', Some ''TC-HOR-005'')]
    (add_bins ''cross.resumereq_x_prior_state''
       [(''resumereq_when_halted'', ''#3.5'', Some ''TC-RC-003''),
        (''resumereq_when_running'', ''#3.5'', Some ''TC-RC-004''),
        (''resumereq_when_in_reset'', ''#3.2'', None)]
    (add_bins ''cross.ndmreset_x_reset_haltreq''
       [(''assert_rhr0'', ''#3.2'', Some ''TC-RST-001''), (''assert_rhr1'', ''#3.5'', Some ''TC-HOR-002''),
        (''deassert_rhr0'', ''#3.2'', Some ''TC-HOR-003''), (''deassert_rhr1'', ''#3.5'', Some ''TC-HOR-002'')]
    (add_bins ''cross.havereset_x_ackhavereset''
       [(''ack_when_set'', ''#3.14.2 ackhavereset'', Some ''TC-RST-004''),
        (''ack_when_clear'', ''#3.14.2 ackhavereset'', Some ''TC-RC-001''),
        (''noack_when_set'', ''#3.2'', Some ''TC-RST-003'')]
    (add_bins ''cross.hart_state_transition''
       [(''in_reset_to_running'', ''#3.2'', Some ''TC-RST-001''),
        (''in_reset_to_halted'', ''#3.5'', Some ''TC-RST-001'')]
    (exclude ''cross.hart_state_transition'' ''halted_to_in_reset''
    (add_bins ''cross.hart_state_transition''
       [(''running_to_halted'', ''#3.5'', Some ''TC-RC-001''), (''halted_to_running'', ''#3.5'', Some ''TC-RC-003''),
        (''running_to_in_reset'', ''#3.2'', Some ''TC-RST-001'')]
    (add_bins ''cross.haltreq_x_resumereq''
       [(''h0_r0'', ''#3.14.2'', Some ''TC-RC-001''), (''h1_r0'', ''#3.14.2'', Some ''TC-RC-001''),
        (''h0_r1'', ''#3.14.2'', Some ''TC-RC-003''), (''h1_r1'', ''#3.14.2 resumereq'', Some ''TC-RC-005'')] m)))))))"

definition build_bins :: "DebugCoverageModel \<Rightarrow> DebugCoverageModel" where
  "build_bins m =
     build_external_debug_bins (build_cross_bins (build_all_any_bins (build_dmstatus_field_bins
       (build_hartsel_bins (build_dmcontrol_field_bins (build_dmi_access_bins m))))))"

text \<open>The object before \<^verbatim>\<open>_build_bins\<close>.\<close>

definition cov_empty :: "int \<Rightarrow> int \<Rightarrow> bool \<Rightarrow> bool \<Rightarrow> DebugCoverageModel" where
  "cov_empty n hsl hs su =
     \<lparr>c_num_harts = n, c_hartsellen = hsl, c_supports_hasel = hs, c_stickyunavail = su,
      c_bins = [], c_counts = Map.empty, c_excluded = [], c_excluded_hits = Map.empty,
      c_state = ST_UNKNOWN, c_state_hartsel = None, c_hartsel = 0, c_havereset = None,
      c_reset_haltreq = Map.empty, c_ndmreset = False, c_staged_data0 = 0, c_staged_data1 = 0\<rparr>"

definition DebugCoverageModel_init :: "int \<Rightarrow> int \<Rightarrow> bool \<Rightarrow> bool \<Rightarrow> DebugCoverageModel" where
  "DebugCoverageModel_init n hsl hs su = build_bins (cov_empty n hsl hs su)"

end
