(* ===== verification/Coverage.thy ===== *)
theory Coverage
  imports CoverageBins Invariants "HOL-Library.List_Lexorder" "HOL-Library.Char_ord"
begin

text \<open>
  The functional coverage of \<^verbatim>\<open>src/src/pydebug/model/coverage.py\<close>: \<^verbatim>\<open>sample\<close>, the observer callback that
  infers the situations of the specification from the DMI transactions and counts them, and the
  reports. The percentage, a float, is left out; the two counts it is computed from are there. A
  callback that raises leaves its caller with the error only.
\<close>

unbundle bit_operations_syntax

subsection \<open>Hit accounting\<close>

definition hit :: "string \<Rightarrow> string \<Rightarrow> DebugCoverageModel \<Rightarrow> DebugCoverageModel result" where
  "hit grp nm m =
     (let key = cov_key grp nm in
      case c_counts m key of
        Some n \<Rightarrow> Inr (m\<lparr>c_counts := (c_counts m)(key \<mapsto> Suc n)\<rparr>)
      | None \<Rightarrow>
          (case c_excluded_hits m key of
             Some n \<Rightarrow> Inr (m\<lparr>c_excluded_hits := (c_excluded_hits m)(key \<mapsto> Suc n)\<rparr>)
           | None \<Rightarrow> Inl (KeyError key)))"

text \<open>Consecutive calls of \<^verbatim>\<open>_hit\<close>.\<close>

fun hits :: "(string \<times> string) list \<Rightarrow> DebugCoverageModel \<Rightarrow> DebugCoverageModel result" where
  "hits [] m = Inr m"
| "hits ((grp, nm) # xs) m = bindR (hit grp nm m) (hits xs)"

subsection \<open>Sampling a \<^verbatim>\<open>dmcontrol\<close> write\<close>

definition field_hits :: "string \<Rightarrow> Register \<Rightarrow> int \<Rightarrow> (string \<times> string) list" where
  "field_hits prefix r word =
     map (\<lambda>f. (prefix @ f_name f, str_int (extract_field f word))) (filter (\<lambda>f. f_width f = 1) (r_fields r))"

definition hartsel_hits :: "int \<Rightarrow> int \<Rightarrow> (string \<times> string) list" where
  "hartsel_hits sel n =
     map (\<lambda>nm. (''dmcontrol.hartsel'', nm))
       ([if sel = 0 then ''zero'' else ''nonzero'']
        @ (if sel = n - 1 then [''max_implemented''] else [])
        @ (if sel \<ge> n then [''nonexistent''] else [])
        @ (if sel > 0x3FF then [''hartselhi_nonzero''] else [])
        @ (if sel = push_bit HARTSEL_MAX_WIDTH 1 - 1 then [''all_ones''] else []))"

definition request_hits :: "(string \<times> int) list \<Rightarrow> (string \<times> string) list" where
  "request_hits f =
     (let n_mutex = sum_list (map (item f) DMCONTROL_MUTEX_BITS) in
      [(''cross.haltreq_x_resumereq'',
        ''h'' @ str_int (item f ''haltreq'') @ ''_r'' @ str_int (item f ''resumereq'')),
       (''cross.dmcontrol_mutex_bits'',
        if n_mutex = 0 then ''none'' else if n_mutex = 1 then ''one'' else ''multiple'')])"

definition resumereq_hits :: "(string \<times> int) list \<Rightarrow> bool \<Rightarrow> obs_state \<Rightarrow> (string \<times> string) list" where
  "resumereq_hits f selection_changed st =
     (if truth (item f ''resumereq'') \<and> \<not> selection_changed then
        (case st of
           ST_HALTED \<Rightarrow> [(''cross.resumereq_x_prior_state'', ''resumereq_when_halted'')]
         | ST_RUNNING \<Rightarrow> [(''cross.resumereq_x_prior_state'', ''resumereq_when_running'')]
         | ST_IN_RESET \<Rightarrow> [(''cross.resumereq_x_prior_state'', ''resumereq_when_in_reset'')]
         | _ \<Rightarrow> [])
      else [])"

definition havereset_hits :: "(string \<times> int) list \<Rightarrow> bool \<Rightarrow> bool option \<Rightarrow> (string \<times> string) list" where
  "havereset_hits f selection_changed hr =
     (case hr of
        None \<Rightarrow> []
      | Some b \<Rightarrow>
          if selection_changed then []
          else if truth (item f ''ackhavereset'')
          then [(''cross.havereset_x_ackhavereset'', if b then ''ack_when_set'' else ''ack_when_clear'')]
          else if b then [(''cross.havereset_x_ackhavereset'', ''noack_when_set'')] else [])"

definition acked_havereset :: "(string \<times> int) list \<Rightarrow> bool \<Rightarrow> bool option \<Rightarrow> bool option" where
  "acked_havereset f selection_changed hr =
     (if hr \<noteq> None \<and> \<not> selection_changed \<and> truth (item f ''ackhavereset'') then Some False else hr)"

definition shadow_haltreq :: "(string \<times> int) list \<Rightarrow> int \<Rightarrow> (int \<rightharpoonup> bool) \<Rightarrow> (int \<rightharpoonup> bool)" where
  "shadow_haltreq f sel rh =
     (if truth (item f ''clrresethaltreq'') then rh(sel \<mapsto> False)
      else if truth (item f ''setresethaltreq'') then rh(sel \<mapsto> True) else rh)"

definition ndmreset_hits :: "bool \<Rightarrow> bool \<Rightarrow> bool \<Rightarrow> (string \<times> string) list" where
  "ndmreset_hits now was rhr =
     (if now \<and> \<not> was
      then [(''cross.ndmreset_x_reset_haltreq'', ''assert_rhr'' @ str_int (int_of_bool rhr))]
      else if \<not> now \<and> was
      then [(''cross.ndmreset_x_reset_haltreq'', ''deassert_rhr'' @ str_int (int_of_bool rhr))]
      else [])"

definition sample_dmcontrol_write :: "int \<Rightarrow> DebugCoverageModel \<Rightarrow> DebugCoverageModel result" where
  "sample_dmcontrol_write word m =
     (let f = decode DMCONTROL word; sel = hartsel_of word in
      bindR (hits (field_hits ''dmcontrol.'' DMCONTROL word @ hartsel_hits sel (c_num_harts m) @ request_hits f) m)
        (\<lambda>m1. let changed = (sel \<noteq> c_hartsel m1); m2 = m1\<lparr>c_hartsel := sel\<rparr> in
      bindR (hits (resumereq_hits f changed (c_state m2) @ havereset_hits f changed (c_havereset m2)) m2)
        (\<lambda>m3. let m4 = m3\<lparr>c_havereset := acked_havereset f changed (c_havereset m3),
                           c_reset_haltreq := shadow_haltreq f sel (c_reset_haltreq m3)\<rparr> in
      if \<not> truth (item f ''dmactive'')
      then Inr (m4\<lparr>c_reset_haltreq := Map.empty, c_ndmreset := False, c_state := ST_UNKNOWN, c_havereset := None\<rparr>)
      else let now = truth (item f ''ndmreset'');
               rhr = (case c_reset_haltreq m4 sel of Some b \<Rightarrow> b | None \<Rightarrow> False)
           in bindR (hits (ndmreset_hits now (c_ndmreset m4) rhr) m4)
                (\<lambda>m5. Inr (m5\<lparr>c_ndmreset := now\<rparr>)))))"

subsection \<open>Sampling a \<^verbatim>\<open>dmstatus\<close> read\<close>

definition state_from_dmstatus :: "(string \<times> int) list \<Rightarrow> bool \<Rightarrow> obs_state" where
  "state_from_dmstatus f ndm =
     (if truth (item f ''anynonexistent'') then ST_NONEXISTENT
      else if truth (item f ''anyunavail'') then ST_UNAVAIL
      else if truth (item f ''anyhalted'') then ST_HALTED
      else if truth (item f ''anyrunning'') \<and> ndm then ST_IN_RESET
      else if truth (item f ''anyrunning'') then ST_RUNNING
      else ST_IN_RESET)"

definition version_hits :: "int \<Rightarrow> (string \<times> string) list" where
  "version_hits v =
     (case map_of [(DMSTATUS_VERSION_NONE, ''none''), (DMSTATUS_VERSION_0_11, ''v0_11''),
        (DMSTATUS_VERSION_0_13, ''v0_13''), (DMSTATUS_VERSION_1_0, ''v1_0''),
        (DMSTATUS_VERSION_CUSTOM, ''custom'')] v of
        Some nm \<Rightarrow> [(''dmstatus.version'', nm)] | None \<Rightarrow> [])"

definition all_any_hits :: "(string \<times> int) list \<Rightarrow> (string \<times> string) list" where
  "all_any_hits f =
     map (\<lambda>(all_name, any_name). (''dmstatus.all_any.'' @ pair_state all_name,
            ''all'' @ str_int (item f all_name) @ ''_any'' @ str_int (item f any_name)))
       DMSTATUS_ALL_ANY_PAIRS"

definition settled :: "obs_state \<Rightarrow> bool" where
  "settled st \<longleftrightarrow> st \<notin> {ST_UNKNOWN, ST_UNAVAIL, ST_NONEXISTENT}"

definition transition_hits :: "bool \<Rightarrow> obs_state \<Rightarrow> obs_state \<Rightarrow> (string \<times> string) list" where
  "transition_hits same_hart prev st =
     (if \<not> same_hart then []
      else if \<not> settled prev \<or> \<not> settled st then []
      else if prev \<noteq> st then [(''cross.hart_state_transition'', st_name prev @ ''_to_'' @ st_name st)]
      else [])"

definition sample_dmstatus_read :: "int \<Rightarrow> DebugCoverageModel \<Rightarrow> DebugCoverageModel result" where
  "sample_dmstatus_read word m =
     (let f = decode DMSTATUS word in
      bindR (hits (field_hits ''dmstatus.'' DMSTATUS word @ version_hits (item f ''version'') @ all_any_hits f) m)
        (\<lambda>m1. let st = state_from_dmstatus f (c_ndmreset m1) in
      hits (transition_hits (c_state_hartsel m1 = Some (c_hartsel m1)) (c_state m1) st)
        (m1\<lparr>c_havereset := Some (truth (item f ''anyhavereset'')),
            c_state := st, c_state_hartsel := Some (c_hartsel m1)\<rparr>)))"

subsection \<open>The external-debug covergroups\<close>

definition on_off :: "bool \<Rightarrow> string \<Rightarrow> string \<Rightarrow> string \<Rightarrow> string" where
  "on_off b prefix yes no = prefix @ (if b then yes else no)"

definition command_hits :: "int \<Rightarrow> int \<Rightarrow> int \<Rightarrow> (string \<times> string) list" where
  "command_hits w data0 data1 =
     (let transfer = truth (drop_bit 17 w AND 1); wr = truth (drop_bit 16 w AND 1);
          regno = w AND 0xFFFF; aarsize = drop_bit 20 w AND 0x7
      in (if transfer then
            [(''cg_command_write'', on_off wr ''cp_write.'' ''write'' ''read'')]
            @ (if regno \<le> COV_REGNO_CSR_HI then [(''cg_command_write'', ''cp_regno_class.csr'')]
               else if COV_REGNO_GPR_LO \<le> regno \<and> regno \<le> COV_REGNO_GPR_HI
               then [(''cg_command_write'', ''cp_regno_class.gpr'')] else [])
            @ (case map_of TRIGGER_CSRS regno of
                 None \<Rightarrow> []
               | Some csr \<Rightarrow>
                   [(''cg_trigger'', ''cp_trigger_csr.'' @ csr)]
                   @ (if regno = 0x07A1 \<and> wr then
                        let operand = (if aarsize = 3 then data1 else data0) in
                        (case map_of TRIGGER_TYPES (drop_bit 28 operand AND 0xF) of
                           Some nm \<Rightarrow> [(''cg_trigger'', ''cp_trigger_type.'' @ nm)] | None \<Rightarrow> [])
                      else []))
          else [])
        @ (if truth (drop_bit 18 w AND 1) then [(''cg_progbuf'', ''cp_executed.executed'')] else []))"

definition abstractcs_hits :: "int \<Rightarrow> (string \<times> string) list" where
  "abstractcs_hits r =
     [(''cg_abstractcs_read'', on_off (truth (drop_bit 12 r AND 1)) ''cp_busy.'' ''busy'' ''idle'')]
     @ (if truth (drop_bit 24 r AND 0x1F) then [(''cg_abstractcs_read'', ''cp_has_progbuf.present'')] else [])
     @ (if truth (r AND 0xF) then [(''cg_abstractcs_read'', ''cp_has_data.present'')] else [])"

definition sbcs_hits :: "dmi_op \<Rightarrow> int \<Rightarrow> int \<Rightarrow> (string \<times> string) list" where
  "sbcs_hits op w r =
     (let word = (if op = OP_WRITE then w else r) in
      [(''cg_sbcs'', on_off (truth (drop_bit 20 word AND 1)) ''cp_readonaddr.'' ''on'' ''off'')]
      @ (if op = OP_READ \<and> \<not> truth (drop_bit 21 r AND 1) then [(''cg_sbcs'', ''cp_sbbusy.idle'')] else []))"

definition dmcs2_hits :: "int \<Rightarrow> (string \<times> string) list" where
  "dmcs2_hits w =
     [(''cg_dmcs2_write'', on_off (truth (drop_bit 2 w AND 1)) ''cp_hgselect.'' ''resume_group'' ''halt_group''),
      (''cg_dmcs2_write'', on_off (truth (drop_bit 11 w AND 1)) ''cp_grouptype.'' ''ext_trigger'' ''halt''),
      (''cg_dmcs2_write'', on_off (truth (drop_bit 2 w AND 0x1F)) ''cp_group.'' ''grouped'' ''ungrouped'')]"

definition external_hits :: "dmi_op \<Rightarrow> int \<Rightarrow> int \<Rightarrow> int \<Rightarrow> int \<Rightarrow> int \<Rightarrow> (string \<times> string) list" where
  "external_hits op addr w r data0 data1 =
     (if COV_DATA0 \<le> addr \<and> addr \<le> COV_DATA11
      then [(''cg_data0_access'', on_off (op = OP_WRITE) ''cp_op.'' ''write'' ''read'')]
      else if op = OP_WRITE \<and> addr = COV_COMMAND then command_hits w data0 data1
      else if op = OP_READ \<and> addr = COV_ABSTRACTCS then abstractcs_hits r
      else if op = OP_WRITE \<and> COV_PROGBUF0 \<le> addr \<and> addr \<le> COV_PROGBUF15
      then [(''cg_progbuf'', ''cp_written.written'')]
      else if addr = COV_SBCS then sbcs_hits op w r
      else if addr = COV_SBADDRESS0 \<and> op = OP_WRITE then [(''cg_sb_access'', ''cp_access.addr_write'')]
      else if addr = COV_SBDATA0
      then [(''cg_sb_access'', on_off (op = OP_WRITE) ''cp_access.data_'' ''write'' ''read'')]
      else if op = OP_WRITE \<and> addr = COV_DMCS2 then dmcs2_hits w
      else if op = OP_READ \<and> addr = COV_HARTINFO then [(''cg_hartinfo_read'', ''cp_dataaccess.observed'')]
      else if op = OP_READ \<and> addr = COV_HALTSUM0
      then [(''cg_haltsum0_read'', on_off (truth r) ''cp_haltsum0.'' ''some_halted'' ''none_halted'')]
      else [])"

text \<open>\<^verbatim>\<open>data or 0\<close>.\<close>

definition or_zero :: "int option \<Rightarrow> int" where
  "or_zero d = (case d of Some v \<Rightarrow> v | None \<Rightarrow> 0)"

definition sample_external_debug ::
  "dmi_op \<Rightarrow> int \<Rightarrow> int option \<Rightarrow> int option \<Rightarrow> DebugCoverageModel \<Rightarrow> DebugCoverageModel result" where
  "sample_external_debug op addr data readback m =
     (let w = or_zero data; r = or_zero readback;
          m1 = (if op = OP_WRITE \<and> addr = COV_DATA0 then m\<lparr>c_staged_data0 := w\<rparr>
                else if op = OP_WRITE \<and> addr = COV_DATA0 + 1 then m\<lparr>c_staged_data1 := w\<rparr> else m)
      in hits (external_hits op addr w r (c_staged_data0 m1) (c_staged_data1 m1)) m1)"

definition sample ::
  "dmi_op \<Rightarrow> int \<Rightarrow> int option \<Rightarrow> int option \<Rightarrow> DebugCoverageModel \<Rightarrow> DebugCoverageModel result" where
  "sample op addr data readback m =
     (if op = OP_WRITE \<and> addr = r_address DMCONTROL
      then bindR (hit ''dmi_access'' ''write:dmcontrol'' m) (sample_dmcontrol_write (or_zero data))
      else if op = OP_READ \<and> addr = r_address DMCONTROL then hit ''dmi_access'' ''read:dmcontrol'' m
      else if op = OP_READ \<and> addr = r_address DMSTATUS
      then bindR (hit ''dmi_access'' ''read:dmstatus'' m) (sample_dmstatus_read (or_zero readback))
      else if op = OP_WRITE \<and> addr = r_address DMSTATUS then hit ''dmi_access'' ''write:dmstatus'' m
      else sample_external_debug op addr data readback m)"

subsection \<open>Reporting\<close>

text \<open>\<^verbatim>\<open>sorted(d.items())\<close> of a dictionary.\<close>

definition sorted_items :: "(string \<times> 'a) list \<Rightarrow> (string \<times> 'a) list" where
  "sorted_items d = map (\<lambda>k. (k, the (map_of d k))) (sort (remdups (map fst d)))"

definition count_of :: "(string \<rightharpoonup> nat) \<Rightarrow> string \<Rightarrow> nat" where
  "count_of c k = (case c k of Some n \<Rightarrow> n | None \<Rightarrow> 0)"

definition unhit_bins :: "DebugCoverageModel \<Rightarrow> Bin list" where
  "unhit_bins m = map snd (filter (\<lambda>(k, _). count_of (c_counts m) k = 0) (sorted_items (c_bins m)))"

definition hit_counts :: "DebugCoverageModel \<Rightarrow> (string \<times> nat) list" where
  "hit_counts m = filter (\<lambda>(_, n). n > 0)
     (map (\<lambda>(k, _). (k, count_of (c_counts m) k)) (sorted_items (c_bins m)))"

definition excluded_hit_keys :: "DebugCoverageModel \<Rightarrow> string list" where
  "excluded_hit_keys m =
     map fst (filter (\<lambda>(k, _). count_of (c_excluded_hits m) k > 0) (sorted_items (c_excluded m)))"

record cov_summary =
  s_bins :: nat
  s_hit :: nat
  s_unhit :: nat
  s_excluded :: nat

record cov_report =
  rep_counts :: "(string \<times> nat) list"
  rep_hit :: "(string \<times> nat) list"
  rep_unhit :: "Bin list"
  rep_excluded :: "string list"
  rep_excluded_hits :: "string list"
  rep_summary :: cov_summary

definition report :: "DebugCoverageModel \<Rightarrow> cov_report" where
  "report m =
     \<lparr>rep_counts = map (\<lambda>(k, _). (k, count_of (c_counts m) k)) (sorted_items (c_bins m)),
      rep_hit = hit_counts m,
      rep_unhit = unhit_bins m,
      rep_excluded = map fst (sorted_items (c_excluded m)),
      rep_excluded_hits = excluded_hit_keys m,
      rep_summary = \<lparr>s_bins = length (sorted_items (c_bins m)), s_hit = length (hit_counts m),
        s_unhit = length (unhit_bins m), s_excluded = length (sorted_items (c_excluded m))\<rparr>\<rparr>"

text \<open>\<^verbatim>\<open>CoverageIncomplete\<close> with the bins and keys it names.\<close>

datatype coverage_error = CoverageIncomplete "Bin list" "string list"

definition assert_slice_complete :: "bool \<Rightarrow> DebugCoverageModel \<Rightarrow> coverage_error + Bin list" where
  "assert_slice_complete raise_on_incomplete m =
     (if raise_on_incomplete \<and> (unhit_bins m \<noteq> [] \<or> excluded_hit_keys m \<noteq> [])
      then Inl (CoverageIncomplete (unhit_bins m) (excluded_hit_keys m))
      else Inr (unhit_bins m))"

end
