(* ===== verification/CoverageProps.thy ===== *)
theory CoverageProps
  imports Coverage InvariantsSound
begin

text \<open>
  What the coverage model promises: sampling never raises and keeps the model well formed, counts
  are never lost, every bin is either hit or reported unhit, and the slice is complete exactly when
  every bin is hit and no excluded one. The exclusions are then held against the golden model.
\<close>

unbundle bit_operations_syntax

subsection \<open>Declared keys\<close>

definition known :: "DebugCoverageModel \<Rightarrow> string \<Rightarrow> bool" where
  "known m k \<longleftrightarrow> c_counts m k \<noteq> None \<or> c_excluded_hits m k \<noteq> None"

lemma known_add_bin [simp]: "known (add_bin g nm sp tc m) k \<longleftrightarrow> k = cov_key g nm \<or> known m k"
  by (auto simp: known_def add_bin_def bin_key_def Let_def)

lemma known_exclude [simp]: "known (exclude g nm m) k \<longleftrightarrow> k = cov_key g nm \<or> known m k"
  by (auto simp: known_def exclude_def excluded_key_def Let_def)

lemma known_add_bins [simp]: "known (add_bins g rows m) k \<longleftrightarrow> (\<exists>nm \<in> fst ` set rows. k = cov_key g nm) \<or> known m k"
proof (induction rows arbitrary: m)
  case (Cons r rows)
  then show ?case by (cases r) (auto simp: add_bins_def)
qed (simp add: add_bins_def)

lemma known_add_all [simp]: "known (add_all g nms sp m) k \<longleftrightarrow> (\<exists>nm \<in> set nms. k = cov_key g nm) \<or> known m k"
  by (induction nms arbitrary: m) (auto simp: add_all_def)

lemma known_fold:
  assumes "\<And>x m. known (f x m) k \<longleftrightarrow> P x \<or> known m k"
  shows "known (fold f xs m) k \<longleftrightarrow> (\<exists>x \<in> set xs. P x) \<or> known m k"
  using assms by (induction xs arbitrary: m) auto

lemma known_dmstatus_bin [simp]:
  "known (build_dmstatus_bin f val m) k \<longleftrightarrow> k = cov_key (''dmstatus.'' @ f_name f) val \<or> known m k"
  by (auto simp: build_dmstatus_bin_def Let_def)

lemma known_pair [simp]:
  "known (build_all_any_pair a m) k \<longleftrightarrow>
     (\<exists>nm \<in> {''all0_any0'', ''all1_any1'', ''all0_any1'', ''all1_any0''}.
        k = cov_key (''dmstatus.all_any.'' @ pair_state a) nm) \<or> known m k"
  by (auto simp: build_all_any_pair_def Let_def split: prod.split)

text \<open>The groups and their names, in the order they are built.\<close>

lemma known_dmi_access [simp]: "known (build_dmi_access_bins m) k \<longleftrightarrow>
    (\<exists>nm \<in> {''read:dmcontrol'', ''write:dmcontrol'', ''read:dmstatus'', ''write:dmstatus''}. k = cov_key ''dmi_access'' nm) \<or> known m k"
  by (auto simp: build_dmi_access_bins_def)

lemma known_dmcontrol_fields [simp]: "known (build_dmcontrol_field_bins m) k \<longleftrightarrow>
    (\<exists>f \<in> set (r_fields DMCONTROL). f_width f = 1 \<and> (\<exists>v \<in> {''0'', ''1''}. k = cov_key (''dmcontrol.'' @ f_name f) v)) \<or> known m k"
  unfolding build_dmcontrol_field_bins_def by (rule known_fold) auto

lemma known_hartsel [simp]: "known (build_hartsel_bins m) k \<longleftrightarrow>
    (\<exists>nm \<in> {''zero'', ''nonzero'', ''max_implemented'', ''nonexistent'', ''hartselhi_nonzero'', ''all_ones''}.
       k = cov_key ''dmcontrol.hartsel'' nm) \<or> known m k"
  by (auto simp: build_hartsel_bins_def)

lemma known_dmstatus_fields [simp]: "known (build_dmstatus_field_bins m) k \<longleftrightarrow>
    (\<exists>nm \<in> {''custom'', ''v0_11'', ''v0_13'', ''v1_0'', ''none''}. k = cov_key ''dmstatus.version'' nm) \<or>
    (\<exists>f \<in> set (r_fields DMSTATUS). f_width f = 1 \<and> (\<exists>v \<in> {''0'', ''1''}. k = cov_key (''dmstatus.'' @ f_name f) v)) \<or> known m k"
proof -
  have "known (fold (\<lambda>f m. if f_width f \<noteq> 1 then m else build_dmstatus_bin f ''1'' (build_dmstatus_bin f ''0'' m))
      (r_fields DMSTATUS) m) k \<longleftrightarrow>
    (\<exists>f \<in> set (r_fields DMSTATUS). f_width f = 1 \<and> (\<exists>v \<in> {''0'', ''1''}. k = cov_key (''dmstatus.'' @ f_name f) v)) \<or> known m k"
    by (rule known_fold) auto
  then show ?thesis by (auto simp: build_dmstatus_field_bins_def build_version_bins_def)
qed

lemma known_all_any [simp]: "known (build_all_any_bins m) k \<longleftrightarrow>
    (\<exists>x \<in> set DMSTATUS_ALL_ANY_PAIRS. \<exists>nm \<in> {''all0_any0'', ''all1_any1'', ''all0_any1'', ''all1_any0''}.
        k = cov_key (''dmstatus.all_any.'' @ pair_state (fst x)) nm) \<or> known m k"
  unfolding build_all_any_bins_def by (rule known_fold) (simp split: prod.split)

text \<open>The crosses and the external covergroups are only ever asked for the names below.\<close>

definition CROSS_KEYS :: "(string \<times> string list) list" where
  "CROSS_KEYS =
     [(''cross.haltreq_x_resumereq'', [''h0_r0'', ''h1_r0'', ''h0_r1'', ''h1_r1'']),
      (''cross.hart_state_transition'', [''running_to_halted'', ''halted_to_running'', ''running_to_in_reset'',
         ''halted_to_in_reset'', ''in_reset_to_running'', ''in_reset_to_halted'']),
      (''cross.havereset_x_ackhavereset'', [''ack_when_set'', ''ack_when_clear'', ''noack_when_set'']),
      (''cross.ndmreset_x_reset_haltreq'', [''assert_rhr0'', ''assert_rhr1'', ''deassert_rhr0'', ''deassert_rhr1'']),
      (''cross.resumereq_x_prior_state'', [''resumereq_when_halted'', ''resumereq_when_running'', ''resumereq_when_in_reset'']),
      (''cross.dmcontrol_mutex_bits'', [''none'', ''one'', ''multiple''])]"

definition EXTERNAL_KEYS :: "(string \<times> string list) list" where
  "EXTERNAL_KEYS =
     [(''cg_command_write'', [''cp_write.read'', ''cp_write.write'', ''cp_regno_class.gpr'', ''cp_regno_class.csr'']),
      (''cg_abstractcs_read'', [''cp_busy.idle'', ''cp_busy.busy'', ''cp_has_progbuf.present'', ''cp_has_data.present'']),
      (''cg_progbuf'', [''cp_written.written'', ''cp_executed.executed'']),
      (''cg_sbcs'', [''cp_readonaddr.off'', ''cp_readonaddr.on'', ''cp_sbbusy.idle'']),
      (''cg_sb_access'', [''cp_access.addr_write'', ''cp_access.data_write'', ''cp_access.data_read'']),
      (''cg_dmcs2_write'', [''cp_hgselect.halt_group'', ''cp_hgselect.resume_group'', ''cp_grouptype.halt'',
         ''cp_grouptype.ext_trigger'', ''cp_group.ungrouped'', ''cp_group.grouped'']),
      (''cg_hartinfo_read'', [''cp_dataaccess.observed'']),
      (''cg_haltsum0_read'', [''cp_haltsum0.none_halted'', ''cp_haltsum0.some_halted'']),
      (''cg_data0_access'', [''cp_op.read'', ''cp_op.write'']),
      (''cg_trigger'', map (\<lambda>(_, n). ''cp_trigger_type.'' @ n) TRIGGER_TYPES @ map (\<lambda>(_, n). ''cp_trigger_csr.'' @ n) TRIGGER_CSRS)]"

definition in_table :: "(string \<times> string list) list \<Rightarrow> string \<Rightarrow> bool" where
  "in_table tab k \<longleftrightarrow> (\<exists>(g, nms) \<in> set tab. \<exists>nm \<in> set nms. k = cov_key g nm)"

lemma known_cross [simp]: "known (build_cross_bins m) k \<longleftrightarrow> in_table CROSS_KEYS k \<or> known m k"
  by (simp add: build_cross_bins_def in_table_def CROSS_KEYS_def) blast

lemma known_external [simp]: "known (build_external_debug_bins m) k \<longleftrightarrow>
    in_table EXTERNAL_KEYS k \<or>
    (\<exists>g \<in> {''cg_abstract_cmd'', ''cg_sba'', ''cg_debug_entry'', ''cg_step_external'', ''cg_hart_mode''}.
       k = cov_key g ''(whole covergroup)'') \<or> known m k"
  by (simp add: build_external_debug_bins_def in_table_def EXTERNAL_KEYS_def bex_Un) blast

text \<open>What the constructor declares, whatever its arguments.\<close>

definition declared_key :: "string \<Rightarrow> bool" where
  "declared_key k \<longleftrightarrow> known (DebugCoverageModel_init 0 0 False False) k"

lemma known_empty [simp]: "\<not> known (cov_empty n hsl hs su) k"
  by (simp add: known_def cov_empty_def)

lemma known_init: "known (DebugCoverageModel_init n hsl hs su) = declared_key"
  by (rule ext) (simp add: declared_key_def DebugCoverageModel_init_def build_bins_def)

lemmas declared_key_iff = declared_key_def [unfolded DebugCoverageModel_init_def build_bins_def
  known_external known_cross known_all_any known_dmstatus_fields known_hartsel known_dmcontrol_fields known_dmi_access]

lemma declared_keyI:
  "in_table CROSS_KEYS k \<Longrightarrow> declared_key k" "in_table EXTERNAL_KEYS k \<Longrightarrow> declared_key k"
  "nm \<in> {''read:dmcontrol'', ''write:dmcontrol'', ''read:dmstatus'', ''write:dmstatus''} \<Longrightarrow> declared_key (cov_key ''dmi_access'' nm)"
  "f \<in> set (r_fields DMCONTROL) \<Longrightarrow> f_width f = 1 \<Longrightarrow> v \<in> {''0'', ''1''} \<Longrightarrow> declared_key (cov_key (''dmcontrol.'' @ f_name f) v)"
  "nm \<in> {''zero'', ''nonzero'', ''max_implemented'', ''nonexistent'', ''hartselhi_nonzero'', ''all_ones''} \<Longrightarrow>
     declared_key (cov_key ''dmcontrol.hartsel'' nm)"
  "nm \<in> {''custom'', ''v0_11'', ''v0_13'', ''v1_0'', ''none''} \<Longrightarrow> declared_key (cov_key ''dmstatus.version'' nm)"
  "f \<in> set (r_fields DMSTATUS) \<Longrightarrow> f_width f = 1 \<Longrightarrow> v \<in> {''0'', ''1''} \<Longrightarrow> declared_key (cov_key (''dmstatus.'' @ f_name f) v)"
  "x \<in> set DMSTATUS_ALL_ANY_PAIRS \<Longrightarrow> nm \<in> {''all0_any0'', ''all1_any1'', ''all0_any1'', ''all1_any0''} \<Longrightarrow>
     declared_key (cov_key (''dmstatus.all_any.'' @ pair_state (fst x)) nm)"
  by (simp_all add: declared_key_iff) metis+

subsection \<open>Growing counts\<close>

text \<open>Sampling keeps the declarations and only ever adds to the counts.\<close>

definition grows :: "DebugCoverageModel \<Rightarrow> DebugCoverageModel \<Rightarrow> bool" where
  "grows m m' \<longleftrightarrow> c_bins m' = c_bins m \<and> c_excluded m' = c_excluded m \<and> c_num_harts m' = c_num_harts m \<and>
     dom (c_counts m') = dom (c_counts m) \<and> dom (c_excluded_hits m') = dom (c_excluded_hits m) \<and>
     (\<forall>k. count_of (c_counts m) k \<le> count_of (c_counts m') k) \<and>
     (\<forall>k. count_of (c_excluded_hits m) k \<le> count_of (c_excluded_hits m') k)"

lemma grows_refl [simp]: "grows m m"
  by (simp add: grows_def)

lemma grows_trans: "grows a b \<Longrightarrow> grows b c \<Longrightarrow> grows a c"
  unfolding grows_def by (metis order_trans)

lemma grows_known: "grows m m' \<Longrightarrow> known m' = known m"
  by (rule ext) (simp add: grows_def known_def domIff set_eq_iff)

lemma hit_known:
  assumes "known m (cov_key g nm)"
  shows "\<exists>m'. hit g nm m = Inr m' \<and> grows m m'"
  using assms by (auto simp: hit_def Let_def known_def grows_def count_of_def split: option.split)

lemma hits_known:
  assumes "list_all (\<lambda>(g, nm). known m (cov_key g nm)) xs"
  shows "\<exists>m'. hits xs m = Inr m' \<and> grows m m'"
  using assms
proof (induction xs arbitrary: m)
  case (Cons x xs)
  obtain g nm where x: "x = (g, nm)" by (cases x)
  with Cons.prems obtain m1 where m1: "hit g nm m = Inr m1" "grows m m1" using hit_known [of m g nm] by auto
  then have "list_all (\<lambda>(g, nm). known m1 (cov_key g nm)) xs" using Cons.prems by (simp add: grows_known)
  from Cons.IH [OF this] m1 show ?case using grows_trans x by auto
qed simp

text \<open>Hits touch nothing else.\<close>

definition inferred :: "DebugCoverageModel \<Rightarrow> DebugCoverageModel" where
  "inferred m = m\<lparr>c_counts := Map.empty, c_excluded_hits := Map.empty\<rparr>"

lemma hit_inferred: "hit g nm m = Inr m' \<Longrightarrow> inferred m' = inferred m"
  by (auto simp: hit_def Let_def inferred_def split: option.splits)

lemma hits_inferred: "hits xs m = Inr m' \<Longrightarrow> inferred m' = inferred m"
  by (induction xs m rule: hits.induct) (auto simp: bindR_eq_Inr dest: hit_inferred)

definition cov_wf :: "DebugCoverageModel \<Rightarrow> bool" where
  "cov_wf m \<longleftrightarrow> known m = declared_key"

lemma hits_wf:
  assumes "cov_wf m" "list_all (\<lambda>(g, nm). declared_key (cov_key g nm)) xs"
  shows "\<exists>m'. hits xs m = Inr m' \<and> grows m m' \<and> cov_wf m' \<and> inferred m' = inferred m"
  using hits_known [of m xs] assms grows_known hits_inferred by (fastforce simp: cov_wf_def)

lemma hit_wf:
  assumes "cov_wf m" "declared_key (cov_key g nm)"
  shows "\<exists>m'. hit g nm m = Inr m' \<and> grows m m' \<and> cov_wf m' \<and> inferred m' = inferred m"
  using hits_wf [of m "[(g, nm)]"] assms by (auto simp: bindR_eq_Inr)

subsection \<open>The hits of a transaction are declared\<close>

abbreviation declared_hits :: "(string \<times> string) list \<Rightarrow> bool" where
  "declared_hits xs \<equiv> list_all (\<lambda>(g, nm). declared_key (cov_key g nm)) xs"

lemma str_extract_bit: "f_width f = 1 \<Longrightarrow> str_int (extract_field f w) \<in> {''0'', ''1''}"
  by (simp add: extract_field_def value_mask_def)

lemma field_hits_declared:
  "declared_hits (field_hits ''dmcontrol.'' DMCONTROL w)" "declared_hits (field_hits ''dmstatus.'' DMSTATUS w)"
proof -
  have "declared_key (cov_key (''dmcontrol.'' @ f_name f) (str_int (extract_field f w)))"
    if "f \<in> set (r_fields DMCONTROL)" "f_width f = 1" for f
    by (rule declared_keyI(4) [OF that str_extract_bit [OF that(2)]])
  moreover have "declared_key (cov_key (''dmstatus.'' @ f_name f) (str_int (extract_field f w)))"
    if "f \<in> set (r_fields DMSTATUS)" "f_width f = 1" for f
    by (rule declared_keyI(7) [OF that str_extract_bit [OF that(2)]])
  ultimately show "declared_hits (field_hits ''dmcontrol.'' DMCONTROL w)" "declared_hits (field_hits ''dmstatus.'' DMSTATUS w)"
    by (auto simp: field_hits_def list_all_iff)
qed

lemma hartsel_hits_declared: "declared_hits (hartsel_hits sel n)"
  by (simp add: hartsel_hits_def declared_keyI(5))

lemma in_tableI: "(g, nms) \<in> set tab \<Longrightarrow> nm \<in> set nms \<Longrightarrow> in_table tab (cov_key g nm)"
  by (auto simp: in_table_def)

lemma request_hits_declared: "declared_hits (request_hits (decode DMCONTROL w))"
  by (auto simp: request_hits_def Let_def CROSS_KEYS_def intro!: declared_keyI(1) in_tableI)

lemma resumereq_hits_declared: "declared_hits (resumereq_hits f c st)"
  by (auto simp: resumereq_hits_def CROSS_KEYS_def intro!: declared_keyI(1) in_tableI split: obs_state.split)

lemma havereset_hits_declared: "declared_hits (havereset_hits f c hr)"
  by (auto simp: havereset_hits_def CROSS_KEYS_def intro!: declared_keyI(1) in_tableI split: option.split)

lemma ndmreset_hits_declared: "declared_hits (ndmreset_hits now was rhr)"
  by (auto simp: ndmreset_hits_def int_of_bool_eq CROSS_KEYS_def intro!: declared_keyI(1) in_tableI)

lemma version_hits_declared: "declared_hits (version_hits v)"
  by (simp add: version_hits_def declared_keyI(6))

lemma all_any_hits_declared: "declared_hits (all_any_hits (decode DMSTATUS w))"
proof -
  have "''all'' @ str_int (of_bool a) @ ''_any'' @ str_int (of_bool b) \<in>
      {''all0_any0'', ''all1_any1'', ''all0_any1'', ''all1_any0''}" for a b
    by simp
  then have "declared_key (cov_key (''dmstatus.all_any.'' @ pair_state (fst x))
      (''all'' @ str_int (of_bool a) @ ''_any'' @ str_int (of_bool b)))" if "x \<in> set DMSTATUS_ALL_ANY_PAIRS" for x a b
    using declared_keyI(8) that by blast
  from this [of "(_, _)"] show ?thesis
    by (simp add: all_any_hits_def DMSTATUS_ALL_ANY_PAIRS_def)
qed

lemma transition_hits_declared: "declared_hits (transition_hits same prev st)"
  by (cases prev; cases st) (auto simp: transition_hits_def settled_def CROSS_KEYS_def intro!: declared_keyI(1) in_tableI)

lemma command_hits_declared: "declared_hits (command_hits w a b)"
proof -
  have csr: "in_table EXTERNAL_KEYS (cov_key ''cg_trigger'' (''cp_trigger_csr.'' @ n))" if "map_of TRIGGER_CSRS r = Some n" for r n
    using map_of_SomeD [OF that] by (intro in_tableI) (auto simp: EXTERNAL_KEYS_def)
  have ty: "in_table EXTERNAL_KEYS (cov_key ''cg_trigger'' (''cp_trigger_type.'' @ n))" if "map_of TRIGGER_TYPES r = Some n" for r n
    using map_of_SomeD [OF that] by (intro in_tableI) (auto simp: EXTERNAL_KEYS_def)
  have "in_table EXTERNAL_KEYS (cov_key ''cg_command_write'' nm)" if "nm \<in> {''cp_write.read'', ''cp_write.write'', ''cp_regno_class.gpr'', ''cp_regno_class.csr''}" for nm
    using that by (intro in_tableI) (auto simp: EXTERNAL_KEYS_def)
  moreover have "in_table EXTERNAL_KEYS (cov_key ''cg_progbuf'' ''cp_executed.executed'')"
    by (rule in_tableI) (auto simp: EXTERNAL_KEYS_def)
  ultimately show ?thesis
    using csr ty by (simp add: command_hits_def Let_def on_off_def declared_keyI(2) split: option.split)
qed

lemma table_declared:
  "list_all (\<lambda>(g, nms). list_all (\<lambda>nm. declared_key (cov_key g nm)) nms) EXTERNAL_KEYS"
  by (auto simp: list_all_iff intro!: declared_keyI(2) in_tableI)

lemmas external_declared = table_declared [unfolded EXTERNAL_KEYS_def, simplified]

lemma external_hits_declared: "declared_hits (external_hits op addr w r a b)"
proof -
  have "declared_hits (abstractcs_hits r)" "declared_hits (sbcs_hits op w r)" "declared_hits (dmcs2_hits w)"
    using external_declared by (simp_all add: abstractcs_hits_def sbcs_hits_def dmcs2_hits_def on_off_def Let_def)
  then show ?thesis
    using command_hits_declared external_declared by (simp add: external_hits_def on_off_def)
qed

subsection \<open>Sampling never raises\<close>

definition sampled :: "DebugCoverageModel \<Rightarrow> DebugCoverageModel result \<Rightarrow> bool" where
  "sampled m r \<longleftrightarrow> (\<exists>m'. r = Inr m' \<and> grows m m' \<and> cov_wf m')"

lemma sampled_hits:
  assumes "cov_wf m'" "grows m m'" "declared_hits xs" and "\<And>m1. cov_wf m1 \<Longrightarrow> sampled m1 (k m1)"
  shows "sampled m (bindR (hits xs m') k)"
proof -
  obtain m1 where m1: "hits xs m' = Inr m1" "grows m' m1" "cov_wf m1" using hits_wf [OF assms(1,3)] by blast
  from assms(4) [OF m1(3)] obtain m2 where m2: "k m1 = Inr m2" "grows m1 m2" "cov_wf m2" by (auto simp: sampled_def)
  have "grows m m2" by (rule grows_trans [OF grows_trans [OF assms(2) m1(2)] m2(2)])
  with m1(1) m2 show ?thesis by (simp add: sampled_def)
qed

lemma sampled_last_hits:
  assumes "cov_wf m'" "grows m m'" "declared_hits xs"
  shows "sampled m (hits xs m')"
  using hits_wf [OF assms(1,3)] grows_trans [OF assms(2)] unfolding sampled_def by blast

lemma sampled_hit:
  assumes "cov_wf m'" "grows m m'" "declared_key (cov_key g nm)"
  shows "sampled m (hit g nm m')"
  using hit_wf [OF assms(1,3)] grows_trans [OF assms(2)] unfolding sampled_def by blast

lemma sampled_bind_hit:
  assumes "cov_wf m" "declared_key (cov_key g nm)" and "\<And>m1. cov_wf m1 \<Longrightarrow> sampled m1 (k m1)"
  shows "sampled m (bindR (hit g nm m) k)"
  using sampled_hits [of m m "[(g, nm)]" k] assms by (cases "hit g nm m") simp_all

lemma sampled_Inr: "cov_wf m' \<Longrightarrow> grows m m' \<Longrightarrow> sampled m (Inr m')"
  by (simp add: sampled_def)

text \<open>Updates of the inferred state change neither the declarations nor the counts.\<close>

lemma inferred_upd:
  "cov_wf (m\<lparr>c_hartsel := x\<rparr>) = cov_wf m" "grows a (m\<lparr>c_hartsel := x\<rparr>) = grows a m"
  "cov_wf (m\<lparr>c_havereset := y\<rparr>) = cov_wf m" "grows a (m\<lparr>c_havereset := y\<rparr>) = grows a m"
  "cov_wf (m\<lparr>c_reset_haltreq := z\<rparr>) = cov_wf m" "grows a (m\<lparr>c_reset_haltreq := z\<rparr>) = grows a m"
  "cov_wf (m\<lparr>c_ndmreset := u\<rparr>) = cov_wf m" "grows a (m\<lparr>c_ndmreset := u\<rparr>) = grows a m"
  "cov_wf (m\<lparr>c_state := v\<rparr>) = cov_wf m" "grows a (m\<lparr>c_state := v\<rparr>) = grows a m"
  "cov_wf (m\<lparr>c_state_hartsel := t\<rparr>) = cov_wf m" "grows a (m\<lparr>c_state_hartsel := t\<rparr>) = grows a m"
  "cov_wf (m\<lparr>c_staged_data0 := w\<rparr>) = cov_wf m" "grows a (m\<lparr>c_staged_data0 := w\<rparr>) = grows a m"
  "cov_wf (m\<lparr>c_staged_data1 := w\<rparr>) = cov_wf m" "grows a (m\<lparr>c_staged_data1 := w\<rparr>) = grows a m"
  by (simp_all add: cov_wf_def known_def grows_def fun_eq_iff)

lemma sampled_dmcontrol: "cov_wf m \<Longrightarrow> sampled m (sample_dmcontrol_write w m)"
  unfolding sample_dmcontrol_write_def Let_def
  by (rule sampled_hits, assumption, rule grows_refl,
      simp add: field_hits_declared hartsel_hits_declared request_hits_declared,
      rule sampled_hits, simp add: inferred_upd, simp add: inferred_upd,
      simp add: resumereq_hits_declared havereset_hits_declared)
    (auto simp: inferred_upd ndmreset_hits_declared intro!: sampled_hits sampled_Inr)

lemma sampled_dmstatus: "cov_wf m \<Longrightarrow> sampled m (sample_dmstatus_read w m)"
  unfolding sample_dmstatus_read_def Let_def
  by (rule sampled_hits, assumption, rule grows_refl,
      simp add: field_hits_declared version_hits_declared all_any_hits_declared)
    (rule sampled_last_hits, simp_all add: inferred_upd transition_hits_declared)

lemma sampled_external: "cov_wf m \<Longrightarrow> sampled m (sample_external_debug op addr d r m)"
proof -
  have "sampled m (hits (external_hits op addr w r' (c_staged_data0 m1) (c_staged_data1 m1)) m1)"
    if "cov_wf m1" "grows m m1" for w r' m1
    by (rule sampled_last_hits [OF that external_hits_declared])
  then show "cov_wf m \<Longrightarrow> ?thesis" by (simp add: sample_external_debug_def Let_def inferred_upd)
qed

lemma sample_wf: "cov_wf m \<Longrightarrow> sampled m (sample op addr d r m)"
  unfolding sample_def
  by (auto simp: declared_keyI(3) intro!: sampled_bind_hit sampled_dmcontrol sampled_dmstatus sampled_external sampled_hit)

fun cov_run :: "(dmi_op \<times> int \<times> int option \<times> int option) list \<Rightarrow> DebugCoverageModel \<Rightarrow> DebugCoverageModel result" where
  "cov_run [] m = Inr m"
| "cov_run ((op, addr, d, r) # xs) m = bindR (sample op addr d r m) (cov_run xs)"

lemma cov_run_wf: "cov_wf m \<Longrightarrow> sampled m (cov_run xs m)"
proof (induction xs arbitrary: m)
  case Nil
  then show ?case by (simp add: sampled_Inr)
next
  case (Cons x xs)
  obtain op addr d r where x: "x = (op, addr, d, r)" by (cases x)
  obtain m1 where m1: "sample op addr d r m = Inr m1" "grows m m1" "cov_wf m1"
    using sample_wf [OF Cons.prems, of op addr d r] by (auto simp: sampled_def)
  from Cons.IH [OF m1(3)] m1 x show ?case using grows_trans by (auto simp: sampled_def)
qed

lemma cov_wf_init: "cov_wf (DebugCoverageModel_init n hsl hs su)"
  by (simp add: cov_wf_def known_init)

text \<open>
  C28. The coverage callback is total: over any sequence of DMI transactions, whatever the configured
  model, \<^verbatim>\<open>sample\<close> never asks for an undeclared bin, the declarations stay as built, and what has
  been counted once stays counted.
\<close>

theorem sampling_never_raises:
  "\<exists>m1 m2. cov_run xs (DebugCoverageModel_init n hsl hs su) = Inr m1 \<and> cov_run ys m1 = Inr m2 \<and>
    c_bins m2 = c_bins (DebugCoverageModel_init n hsl hs su) \<and>
    c_excluded m2 = c_excluded (DebugCoverageModel_init n hsl hs su) \<and>
    (\<forall>k. count_of (c_counts m1) k \<le> count_of (c_counts m2) k) \<and>
    (\<forall>k. count_of (c_excluded_hits m1) k \<le> count_of (c_excluded_hits m2) k)"
proof -
  obtain m1 where m1: "cov_run xs (DebugCoverageModel_init n hsl hs su) = Inr m1"
    "grows (DebugCoverageModel_init n hsl hs su) m1" "cov_wf m1"
    using cov_run_wf [OF cov_wf_init] unfolding sampled_def by blast
  moreover obtain m2 where "cov_run ys m1 = Inr m2" "grows m1 m2"
    using cov_run_wf [OF m1(3)] unfolding sampled_def by blast
  ultimately show ?thesis by (auto simp: grows_def)
qed

subsection \<open>Reports\<close>

lemma set_sorted_items: "fst ` set (sorted_items d) = fst ` set d"
  by (auto simp: sorted_items_def image_image)

lemma hit_or_unhit: "length (hit_counts m) + length (unhit_bins m) = length (sorted_items (c_bins m))"
  using sum_length_filter_compl [of "\<lambda>(k, _). 0 < count_of (c_counts m) k" "sorted_items (c_bins m)"]
  by (simp add: hit_counts_def unhit_bins_def filter_map comp_def split_def)

lemma filter_empty_keys: "filter (\<lambda>(k, _). P k) (sorted_items d) = [] \<longleftrightarrow> (\<forall>k \<in> fst ` set d. \<not> P k)"
proof -
  have "filter (\<lambda>(k, _). P k) (sorted_items d) = [] \<longleftrightarrow> (\<forall>k \<in> fst ` set (sorted_items d). \<not> P k)"
    by (auto simp: filter_empty_conv split_def)
  then show ?thesis by (simp only: set_sorted_items)
qed

text \<open>
  The report lists the counts bin by bin, where the code lists its dictionaries of counts: the same entries, as a count is kept
  for exactly the declared bins. The declarations of a model establish this and sampling keeps it.
\<close>

definition keys_in_sync :: "DebugCoverageModel \<Rightarrow> bool" where
  "keys_in_sync m \<longleftrightarrow> dom (c_counts m) = fst ` set (c_bins m) \<and> dom (c_excluded_hits m) = fst ` set (c_excluded m)"

lemma sync_declare: "keys_in_sync m \<Longrightarrow> keys_in_sync (add_bin grp nm sp tc m)" "keys_in_sync m \<Longrightarrow> keys_in_sync (exclude grp nm m)"
  by (auto simp: keys_in_sync_def add_bin_def exclude_def Let_def)

lemma sync_fold: "(\<And>x m. keys_in_sync m \<Longrightarrow> keys_in_sync (f x m)) \<Longrightarrow> keys_in_sync m \<Longrightarrow> keys_in_sync (fold f xs m)"
  by (induction xs arbitrary: m) auto

lemma sync_folds: "keys_in_sync m \<Longrightarrow> keys_in_sync (add_all grp names sp m)" "keys_in_sync m \<Longrightarrow> keys_in_sync (add_bins grp rows m)"
  by (auto simp: add_all_def add_bins_def intro!: sync_fold sync_declare)

lemmas sync_intros = sync_declare sync_folds sync_fold

lemma sync_parts:
  assumes "keys_in_sync m"
  shows "keys_in_sync (build_dmi_access_bins m)" "keys_in_sync (build_dmcontrol_field_bins m)" "keys_in_sync (build_hartsel_bins m)"
    "keys_in_sync (build_dmstatus_field_bins m)" "keys_in_sync (build_all_any_bins m)" "keys_in_sync (build_cross_bins m)"
    "keys_in_sync (build_external_debug_bins m)"
  using assms
  by (auto simp: build_dmi_access_bins_def build_dmcontrol_field_bins_def build_hartsel_bins_def build_dmstatus_field_bins_def
      build_dmstatus_bin_def build_version_bins_def build_all_any_bins_def build_all_any_pair_def build_cross_bins_def
      build_external_debug_bins_def Let_def split: prod.split intro!: sync_intros)

lemma sync_init: "keys_in_sync (DebugCoverageModel_init n hsl hs su)"
  unfolding DebugCoverageModel_init_def build_bins_def
  by (intro sync_parts) (simp add: keys_in_sync_def cov_empty_def)

lemma sync_grows: "keys_in_sync m \<Longrightarrow> grows m m' \<Longrightarrow> keys_in_sync m'"
  by (simp add: keys_in_sync_def grows_def)

lemma map_of_keyed: "k \<in> fst ` set d \<Longrightarrow> map_of (map (\<lambda>(k, _). (k, f k)) (sorted_items d)) k = Some (f k)"
  by (rule map_of_is_SomeI) (auto simp: sorted_items_def o_def image_image)

lemma map_of_filter_value:
  "distinct (map fst xs) \<Longrightarrow> map_of (filter (\<lambda>(_, n). P n) xs) k = (case map_of xs k of Some n \<Rightarrow> if P n then Some n else None | None \<Rightarrow> None)"
  by (induction xs) (auto simp: map_of_eq_None_iff split: option.splits dest: map_of_SomeD intro: rev_image_eqI)

lemma report_lists_counts:
  assumes "keys_in_sync m"
  shows "map_of (rep_counts (report m)) = c_counts m"
    "map_of (rep_hit (report m)) = (\<lambda>k. case c_counts m k of Some n \<Rightarrow> if n > 0 then Some n else None | None \<Rightarrow> None)"
    "set (rep_excluded_hits (report m)) = {k. \<exists>n > 0. c_excluded_hits m k = Some n}"
proof -
  have s: "dom (c_counts m) = fst ` set (c_bins m)" "dom (c_excluded_hits m) = fst ` set (c_excluded m)" using assms by (simp_all add: keys_in_sync_def)
  let ?xs = "map (\<lambda>(k, _). (k, count_of (c_counts m) k)) (sorted_items (c_bins m))"
  have keys: "fst ` set ?xs = fst ` set (c_bins m)" using set_sorted_items [of "c_bins m"] by (simp add: image_image split_def)
  have c: "map_of ?xs k = c_counts m k" for k
  proof (cases "k \<in> fst ` set (c_bins m)")
    case True
    then obtain n where "c_counts m k = Some n" using s(1) by blast
    with map_of_keyed [OF True, of "count_of (c_counts m)"] show ?thesis by (simp add: count_of_def)
  next
    case False
    with keys have "map_of ?xs k = None" by (simp add: map_of_eq_None_iff)
    moreover have "c_counts m k = None" using False unfolding s(1) [symmetric] by (simp add: domIff)
    ultimately show ?thesis by simp
  qed
  then show "map_of (rep_counts (report m)) = c_counts m" by (simp add: report_def fun_eq_iff)
  have d: "distinct (map fst ?xs)" by (simp add: sorted_items_def o_def)
  have f: "map_of (filter (\<lambda>(_, n). n > 0) ?xs) k = (case c_counts m k of Some n \<Rightarrow> if n > 0 then Some n else None | None \<Rightarrow> None)" for k
    by (simp only: map_of_filter_value [OF d] c)
  then show "map_of (rep_hit (report m)) = (\<lambda>k. case c_counts m k of Some n \<Rightarrow> if n > 0 then Some n else None | None \<Rightarrow> None)"
    by (simp add: report_def hit_counts_def fun_eq_iff)
  have "set (rep_excluded_hits (report m)) = {k \<in> fst ` set (c_excluded m). 0 < count_of (c_excluded_hits m) k}"
    unfolding set_sorted_items [of "c_excluded m", symmetric] by (auto simp: report_def excluded_hit_keys_def)
  then show "set (rep_excluded_hits (report m)) = {k. \<exists>n > 0. c_excluded_hits m k = Some n}"
    unfolding s(2) [symmetric] by (auto simp: count_of_def split: option.splits)
qed

text \<open>
  C29. The report accounts for every bin, hit or unhit, and \<^verbatim>\<open>assert_slice_complete\<close> returns exactly
  when every declared bin was hit and no excluded one was; otherwise it raises, naming them.
\<close>

theorem slice_complete_iff:
  "s_hit (rep_summary (report m)) + s_unhit (rep_summary (report m)) = s_bins (rep_summary (report m)) \<and>
   (assert_slice_complete True m = Inr [] \<longleftrightarrow>
     (\<forall>k \<in> fst ` set (c_bins m). count_of (c_counts m) k > 0) \<and>
     (\<forall>k \<in> fst ` set (c_excluded m). count_of (c_excluded_hits m) k = 0)) \<and>
   (assert_slice_complete True m \<noteq> Inr [] \<longrightarrow>
     assert_slice_complete True m = Inl (CoverageIncomplete (unhit_bins m) (excluded_hit_keys m)))"
proof -
  have "unhit_bins m = [] \<longleftrightarrow> (\<forall>k \<in> fst ` set (c_bins m). count_of (c_counts m) k > 0)"
    "excluded_hit_keys m = [] \<longleftrightarrow> (\<forall>k \<in> fst ` set (c_excluded m). count_of (c_excluded_hits m) k = 0)"
    by (simp_all only: unhit_bins_def excluded_hit_keys_def map_is_Nil_conv filter_empty_keys neq0_conv not_gr0)
  then show ?thesis by (simp add: report_def hit_or_unhit assert_slice_complete_def)
qed

theorem slice_complete_iff_witness:
  "assert_slice_complete True (build_dmi_access_bins (cov_empty 1 20 False False)) =
     Inl (CoverageIncomplete (unhit_bins (build_dmi_access_bins (cov_empty 1 20 False False)))
       (excluded_hit_keys (build_dmi_access_bins (cov_empty 1 20 False False))))"
proof -
  let ?m = "build_dmi_access_bins (cov_empty 1 20 False False)"
  have "\<not> (\<forall>k \<in> fst ` set (c_bins ?m). count_of (c_counts ?m) k > 0)" by code_simp
  with slice_complete_iff show ?thesis by blast
qed

end
