(* ===== verification/CoverageSound.thy ===== *)
theory CoverageSound
  imports CoverageProps RiscvWords
begin

text \<open>
  The coverage model held against the golden model and the register definitions: an exclusion that
  the predicted words respect, one they contradict, and a bin that reads the wrong bit.
\<close>

unbundle bit_operations_syntax

subsection \<open>Counts that do not change\<close>

lemma hit_other:
  "hit g nm m = Inr m' \<Longrightarrow> k \<noteq> cov_key g nm \<Longrightarrow> c_counts m' k = c_counts m k \<and> c_excluded_hits m' k = c_excluded_hits m k"
  by (auto simp: hit_def Let_def split: option.splits)

lemma hits_other:
  "hits xs m = Inr m' \<Longrightarrow> list_all (\<lambda>(g, nm). k \<noteq> cov_key g nm) xs \<Longrightarrow>
    c_counts m' k = c_counts m k \<and> c_excluded_hits m' k = c_excluded_hits m k"
proof (induction xs m rule: hits.induct)
  case (2 g nm xs m)
  then show ?case using hit_other [of g nm m] by (auto simp: bindR_eq_Inr)
qed simp

text \<open>A key determines its bin where the name has no dot.\<close>

lemma split_at_first:
  "xs @ c # xs' = ys @ c # ys' \<Longrightarrow> c \<notin> set xs \<Longrightarrow> c \<notin> set ys \<Longrightarrow> xs = ys \<and> xs' = ys'"
proof (induction xs arbitrary: ys)
  case Nil
  then show ?case by (cases ys) auto
next
  case (Cons x xs)
  then show ?case by (cases ys) auto
qed

lemma cov_key_eqD:
  assumes "cov_key g nm = cov_key g' nm'" "CHR ''.'' \<notin> set nm" "CHR ''.'' \<notin> set nm'"
  shows "g = g' \<and> nm = nm'"
proof -
  have "rev (cov_key g nm) = rev (cov_key g' nm')" using assms(1) by simp
  then have "rev nm @ CHR ''.'' # rev g = rev nm' @ CHR ''.'' # rev g'" by (simp add: cov_key_def)
  from split_at_first [OF this] assms(2,3) show ?thesis by simp
qed

subsection \<open>An exclusion the golden model respects\<close>

text \<open>The names a \<^verbatim>\<open>dmstatus\<close> read can hit contain no dot.\<close>

lemma dmstatus_names:
  assumes "x \<in> set (field_hits ''dmstatus.'' DMSTATUS w @ version_hits v)"
  shows "snd x \<in> {''0'', ''1'', ''none'', ''v0_11'', ''v0_13'', ''v1_0'', ''custom''}"
proof (cases "x \<in> set (field_hits ''dmstatus.'' DMSTATUS w)")
  case True
  then obtain f where "f_width f = 1" "snd x = str_int (extract_field f w)" unfolding field_hits_def by auto
  then show ?thesis using str_extract_bit [of f w] by auto
next
  case False
  with assms have "x \<in> set (version_hits v)" by simp
  then show ?thesis by (auto simp: version_hits_def split: if_splits)
qed

lemma all_any_names:
  "snd ` set (all_any_hits (decode DMSTATUS (expect_dmstatus p))) \<subseteq> {''all0_any0'', ''all1_any1''}"
  by (simp add: all_any_hits_def DMSTATUS_ALL_ANY_PAIRS_def dmstatus_bits)

lemma hits_names_other:
  assumes "hits xs m = Inr m'" "nm \<notin> snd ` set xs" "CHR ''.'' \<notin> set nm" "\<forall>x \<in> set xs. CHR ''.'' \<notin> set (snd x)"
  shows "c_excluded_hits m' (cov_key g nm) = c_excluded_hits m (cov_key g nm)"
proof -
  have "cov_key g nm \<noteq> cov_key (fst x) (snd x)" if "x \<in> set xs" for x
    using cov_key_eqD [of g nm "fst x" "snd x"] assms(2-4) that by blast
  then have "list_all (\<lambda>(g', nm'). cov_key g nm \<noteq> cov_key g' nm') xs" by (simp add: list_all_iff split_def)
  with hits_other [OF assms(1)] show ?thesis by blast
qed

lemma transition_names:
  assumes "x \<in> set (transition_hits same a b)"
  shows "CHR ''.'' \<notin> set (snd x) \<and> snd x \<notin> {''all0_any1'', ''all1_any0''}"
  using assms by (cases a; cases b) (auto simp: transition_hits_def settled_def split: if_splits)

lemma sample_dmstatus_excluded:
  assumes "sample_dmstatus_read (expect_dmstatus p) m = Inr m'" and nm: "nm \<in> {''all0_any1'', ''all1_any0''}"
  shows "c_excluded_hits m' (cov_key g nm) = c_excluded_hits m (cov_key g nm)"
proof -
  let ?w = "expect_dmstatus p" and ?f = "decode DMSTATUS (expect_dmstatus p)"
  let ?xs = "field_hits ''dmstatus.'' DMSTATUS ?w @ version_hits (item ?f ''version'') @ all_any_hits ?f"
  have dot: "CHR ''.'' \<notin> set nm" using nm by auto
  obtain m1 m2 same a b where m1: "hits ?xs m = Inr m1"
    and m2: "hits (transition_hits same a b) m2 = Inr m'" "c_excluded_hits m2 = c_excluded_hits m1"
    using assms(1) unfolding sample_dmstatus_read_def Let_def bindR_eq_Inr
    by (metis (no_types, lifting) DebugCoverageModel.select_convs(8) DebugCoverageModel.surjective DebugCoverageModel.update_convs(9,10,12))
  have names: "snd x \<in> {''0'', ''1'', ''none'', ''v0_11'', ''v0_13'', ''v1_0'', ''custom''} \<or> snd x \<in> {''all0_any0'', ''all1_any1''}"
    if "x \<in> set ?xs" for x
  proof (cases "x \<in> set (all_any_hits ?f)")
    case True
    then show ?thesis using subsetD [OF all_any_names imageI] by blast
  next
    case False
    with that have "x \<in> set (field_hits ''dmstatus.'' DMSTATUS ?w @ version_hits (item ?f ''version''))" by simp
    from dmstatus_names [OF this] show ?thesis by (rule disjI1)
  qed
  have "snd x \<noteq> nm \<and> CHR ''.'' \<notin> set (snd x)" if "x \<in> set ?xs" for x
    using names [OF that] nm by auto
  then have "nm \<notin> snd ` set ?xs" "\<forall>x \<in> set ?xs. CHR ''.'' \<notin> set (snd x)" by blast+
  then have "c_excluded_hits m1 (cov_key g nm) = c_excluded_hits m (cov_key g nm)"
    using hits_names_other [OF m1 _ dot] by blast
  moreover have "c_excluded_hits m' (cov_key g nm) = c_excluded_hits m2 (cov_key g nm)"
  proof (rule hits_names_other [OF m2(1) _ dot])
    show "nm \<notin> snd ` set (transition_hits same a b)" using transition_names nm by fast
  qed (use transition_names in blast)
  ultimately show ?thesis by (simp add: m2(2))
qed

lemma sample_read_split:
  assumes "cov_wf m"
  obtains m1 where "cov_wf m1" "grows m m1" "inferred m1 = inferred m"
    "sample OP_READ ADDR_DMSTATUS None (Some w) m = sample_dmstatus_read w m1"
    "\<And>g nm. CHR ''.'' \<notin> set nm \<Longrightarrow> nm \<noteq> ''read:dmstatus'' \<Longrightarrow>
       c_excluded_hits m1 (cov_key g nm) = c_excluded_hits m (cov_key g nm)"
proof -
  obtain m1 where m1: "hit ''dmi_access'' ''read:dmstatus'' m = Inr m1" "grows m m1" "cov_wf m1" "inferred m1 = inferred m"
    using hit_wf [OF assms declared_keyI(3) [of "''read:dmstatus''"]] by auto
  have "c_excluded_hits m1 (cov_key g nm) = c_excluded_hits m (cov_key g nm)"
    if "CHR ''.'' \<notin> set nm" "nm \<noteq> ''read:dmstatus''" for g nm
    using hits_names_other [of "[(''dmi_access'', ''read:dmstatus'')]" m m1 nm g] m1(1) that by simp
  with m1 show thesis by (intro that [of m1]) (simp_all add: sample_def DMSTATUS_def DMCONTROL_def or_zero_def)
qed

text \<open>
  The exclusion of the split \<^verbatim>\<open>all*\<close>/\<^verbatim>\<open>any*\<close> pairs is right on the golden model: after any
  transactions, a \<^verbatim>\<open>dmstatus\<close> read that returns a word the predictor predicts hits none of the
  excluded bins \<^verbatim>\<open>all0_any1\<close> and \<^verbatim>\<open>all1_any0\<close>.
\<close>

lemma split_pairs_never_hit:
  "\<exists>m1 m2. cov_run xs (DebugCoverageModel_init n hsl hs su) = Inr m1 \<and>
    sample OP_READ ADDR_DMSTATUS None (Some (expect_dmstatus p)) m1 = Inr m2 \<and>
    (\<forall>st. c_excluded_hits m2 (cov_key (''dmstatus.all_any.'' @ st) ''all0_any1'') =
        c_excluded_hits m1 (cov_key (''dmstatus.all_any.'' @ st) ''all0_any1'') \<and>
      c_excluded_hits m2 (cov_key (''dmstatus.all_any.'' @ st) ''all1_any0'') =
        c_excluded_hits m1 (cov_key (''dmstatus.all_any.'' @ st) ''all1_any0''))"
proof -
  obtain m1 where m1: "cov_run xs (DebugCoverageModel_init n hsl hs su) = Inr m1" "cov_wf m1"
    using cov_run_wf [OF cov_wf_init] unfolding sampled_def by blast
  obtain m2 where m2: "cov_wf m2" "sample OP_READ ADDR_DMSTATUS None (Some (expect_dmstatus p)) m1 = sample_dmstatus_read (expect_dmstatus p) m2"
    "\<And>g nm. CHR ''.'' \<notin> set nm \<Longrightarrow> nm \<noteq> ''read:dmstatus'' \<Longrightarrow>
       c_excluded_hits m2 (cov_key g nm) = c_excluded_hits m1 (cov_key g nm)"
    by (rule sample_read_split [OF m1(2), of "expect_dmstatus p"]) blast
  obtain m3 where m3: "sample_dmstatus_read (expect_dmstatus p) m2 = Inr m3"
    using sampled_dmstatus [OF m2(1)] unfolding sampled_def by blast
  have "c_excluded_hits m3 (cov_key g ''all0_any1'') = c_excluded_hits m1 (cov_key g ''all0_any1'')"
    "c_excluded_hits m3 (cov_key g ''all1_any0'') = c_excluded_hits m1 (cov_key g ''all1_any0'')" for g
    using sample_dmstatus_excluded [OF m3, of _ g] m2(3) [of "''all0_any1''" g] m2(3) [of "''all1_any0''" g] by simp_all
  with m1 m2 m3 show ?thesis by auto
qed

subsection \<open>An exclusion the golden model contradicts\<close>

abbreviation halted_to_in_reset :: string where
  "halted_to_in_reset \<equiv> cov_key ''cross.hart_state_transition'' ''halted_to_in_reset''"

lemma counts_fold:
  assumes "\<And>x m. c_counts (f x m) k = c_counts m k"
  shows "c_counts (fold f xs m) k = c_counts m k"
  using assms by (induction xs arbitrary: m) auto

lemma counts_exclude [simp]: "c_counts (exclude g nm m) = c_counts m"
  by (simp add: exclude_def Let_def)

lemma counts_add_bin: "c_counts (add_bin g nm sp tc m) k = (if k = cov_key g nm then Some 0 else c_counts m k)"
  by (simp add: add_bin_def bin_key_def Let_def)

lemma other_group:
  assumes "2 \<le> length g" "take 2 g \<noteq> ''cr''"
  shows "halted_to_in_reset \<noteq> cov_key g nm"
proof
  assume "halted_to_in_reset = cov_key g nm"
  then have "take 2 halted_to_in_reset = take 2 (cov_key g nm)" by (rule arg_cong)
  with assms show False by (simp add: cov_key_def)
qed

lemma counts_other:
  assumes "2 \<le> length g" "take 2 g \<noteq> ''cr''"
  shows "c_counts (add_bin g nm sp tc m) halted_to_in_reset = c_counts m halted_to_in_reset"
    "c_counts (add_bins g rows m) halted_to_in_reset = c_counts m halted_to_in_reset"
    "c_counts (add_all g nms sp m) halted_to_in_reset = c_counts m halted_to_in_reset"
  using other_group [OF assms]
  by (auto simp: counts_add_bin add_bins_def add_all_def split_def intro!: counts_fold)

lemma counts_add_bins_dotless:
  assumes "list_all (\<lambda>(nm, _). CHR ''.'' \<notin> set nm \<and> (g \<noteq> ''cross.hart_state_transition'' \<or> nm \<noteq> ''halted_to_in_reset'')) rows"
  shows "c_counts (add_bins g rows m) halted_to_in_reset = c_counts m halted_to_in_reset"
  using assms
proof (induction rows arbitrary: m)
  case (Cons r rows)
  obtain nm sp tc where r: "r = (nm, sp, tc)" by (cases r)
  have "halted_to_in_reset \<noteq> cov_key g nm"
    using cov_key_eqD [of "''cross.hart_state_transition''" "''halted_to_in_reset''" g nm] Cons.prems r by auto
  with Cons r show ?case by (simp add: add_bins_def counts_add_bin)
qed (simp add: add_bins_def)

lemma counts_cross: "c_counts (build_cross_bins m) halted_to_in_reset = c_counts m halted_to_in_reset"
  by (simp add: build_cross_bins_def counts_add_bins_dotless)

lemma counts_init: "c_counts (DebugCoverageModel_init n hsl hs su) halted_to_in_reset = None"
proof -
  have "c_counts (build_external_debug_bins m) halted_to_in_reset = c_counts m halted_to_in_reset"
    "c_counts (build_hartsel_bins m) halted_to_in_reset = c_counts m halted_to_in_reset"
    "c_counts (build_dmi_access_bins m) halted_to_in_reset = c_counts m halted_to_in_reset" for m
    by (simp_all add: build_external_debug_bins_def build_hartsel_bins_def build_dmi_access_bins_def counts_other)
  moreover have "c_counts (build_dmcontrol_field_bins m) halted_to_in_reset = c_counts m halted_to_in_reset" for m
    unfolding build_dmcontrol_field_bins_def by (rule counts_fold) (simp add: counts_other)
  moreover have "c_counts (build_dmstatus_field_bins m) halted_to_in_reset = c_counts m halted_to_in_reset" for m
  proof -
    have "c_counts (build_version_bins m) halted_to_in_reset = c_counts m halted_to_in_reset" for m
      by (simp add: build_version_bins_def counts_other)
    moreover have "c_counts (build_dmstatus_bin f val m) halted_to_in_reset = c_counts m halted_to_in_reset" for f val m
      by (simp add: build_dmstatus_bin_def Let_def counts_other)
    ultimately show ?thesis unfolding build_dmstatus_field_bins_def by (simp add: counts_fold)
  qed
  moreover have "c_counts (build_all_any_bins m) halted_to_in_reset = c_counts m halted_to_in_reset" for m
    unfolding build_all_any_bins_def
    by (rule counts_fold) (simp add: build_all_any_pair_def Let_def counts_other split: prod.split)
  ultimately show ?thesis
    by (simp add: DebugCoverageModel_init_def build_bins_def counts_cross cov_empty_def)
qed

lemma inferredD:
  assumes "inferred m1 = inferred m"
  shows "c_state m1 = c_state m" "c_state_hartsel m1 = c_state_hartsel m" "c_hartsel m1 = c_hartsel m"
    "c_ndmreset m1 = c_ndmreset m" "c_num_harts m1 = c_num_harts m"
  using arg_cong [OF assms, of c_state] arg_cong [OF assms, of c_state_hartsel] arg_cong [OF assms, of c_hartsel]
    arg_cong [OF assms, of c_ndmreset] arg_cong [OF assms, of c_num_harts] by (simp_all add: inferred_def)

text \<open>What a read leaves behind, and what a write that keeps the module active does.\<close>

lemma dmstatus_read_state:
  assumes "cov_wf m"
  obtains m1 where "cov_wf m1" "grows m m1" "c_hartsel m1 = c_hartsel m" "c_ndmreset m1 = c_ndmreset m"
    "c_state m1 = state_from_dmstatus (decode DMSTATUS w) (c_ndmreset m)" "c_state_hartsel m1 = Some (c_hartsel m)"
    "sample OP_READ ADDR_DMSTATUS None (Some w) m =
      hits (transition_hits (c_state_hartsel m = Some (c_hartsel m)) (c_state m) (c_state m1)) m1"
proof -
  obtain m1 where m1: "cov_wf m1" "grows m m1" "inferred m1 = inferred m"
    "sample OP_READ ADDR_DMSTATUS None (Some w) m = sample_dmstatus_read w m1"
    by (rule sample_read_split [OF assms, of w]) blast
  let ?f = "decode DMSTATUS w"
  have "declared_hits (field_hits ''dmstatus.'' DMSTATUS w @ version_hits (item ?f ''version'') @ all_any_hits ?f)"
    by (simp add: field_hits_declared version_hits_declared all_any_hits_declared)
  from hits_wf [OF m1(1) this] obtain m2 where
    m2: "hits (field_hits ''dmstatus.'' DMSTATUS w @ version_hits (item ?f ''version'') @ all_any_hits ?f) m1 = Inr m2"
    "grows m1 m2" "cov_wf m2" "inferred m2 = inferred m1" by blast
  from m2(4) m1(3) have "inferred m2 = inferred m" by simp
  note i = inferredD [OF this]
  show thesis
    by (rule that [of "m2\<lparr>c_havereset := Some (truth (item ?f ''anyhavereset'')),
        c_state := state_from_dmstatus ?f (c_ndmreset m2), c_state_hartsel := Some (c_hartsel m2)\<rparr>"])
      (use m2 m1 i grows_trans [OF m1(2) m2(2)] in \<open>simp_all add: inferred_upd sample_dmstatus_read_def Let_def del: dmstatus_items\<close>)
qed

lemma dmcontrol_write_state:
  assumes "cov_wf m" "bit v 0"
  obtains m1 where "cov_wf m1" "grows m m1" "c_state m1 = c_state m" "c_state_hartsel m1 = c_state_hartsel m"
    "c_hartsel m1 = hartsel_of v" "c_ndmreset m1 = bit v 1"
    "sample OP_WRITE ADDR_DMCONTROL (Some v) None m = Inr m1"
proof -
  let ?f = "decode DMCONTROL v"
  obtain m1 where m1: "hit ''dmi_access'' ''write:dmcontrol'' m = Inr m1" "grows m m1" "cov_wf m1" "inferred m1 = inferred m"
    using hit_wf [OF assms(1) declared_keyI(3) [of "''write:dmcontrol''"]] by auto
  have "declared_hits (field_hits ''dmcontrol.'' DMCONTROL v @ hartsel_hits (hartsel_of v) (c_num_harts m1) @ request_hits ?f)"
    by (simp add: field_hits_declared hartsel_hits_declared request_hits_declared)
  from hits_wf [OF m1(3) this] obtain m2 where
    m2: "hits (field_hits ''dmcontrol.'' DMCONTROL v @ hartsel_hits (hartsel_of v) (c_num_harts m1) @ request_hits ?f) m1 = Inr m2"
    "grows m1 m2" "cov_wf m2" "inferred m2 = inferred m1" by blast
  let ?c = "hartsel_of v \<noteq> c_hartsel m2"
  have "declared_hits (resumereq_hits ?f ?c (c_state m2) @ havereset_hits ?f ?c (c_havereset m2))"
    by (simp add: resumereq_hits_declared havereset_hits_declared)
  from hits_wf [of "m2\<lparr>c_hartsel := hartsel_of v\<rparr>", OF _ this] m2(3) obtain m3 where
    m3: "hits (resumereq_hits ?f ?c (c_state m2) @ havereset_hits ?f ?c (c_havereset m2)) (m2\<lparr>c_hartsel := hartsel_of v\<rparr>) = Inr m3"
    "grows (m2\<lparr>c_hartsel := hartsel_of v\<rparr>) m3" "cov_wf m3" "inferred m3 = inferred (m2\<lparr>c_hartsel := hartsel_of v\<rparr>)"
    by (auto simp: inferred_upd)
  let ?m4 = "m3\<lparr>c_havereset := acked_havereset ?f ?c (c_havereset m3),
    c_reset_haltreq := shadow_haltreq ?f (hartsel_of v) (c_reset_haltreq m3)\<rparr>"
  obtain m5 where m5: "hits (ndmreset_hits (bit v 1) (c_ndmreset m3)
      (case c_reset_haltreq ?m4 (hartsel_of v) of Some b \<Rightarrow> b | None \<Rightarrow> False)) ?m4 = Inr m5"
    "grows ?m4 m5" "cov_wf m5" "inferred m5 = inferred ?m4"
    using hits_wf [of ?m4, OF _ ndmreset_hits_declared] m3(3) by (fastforce simp: inferred_upd)
  have i: "c_state m5 = c_state m" "c_state_hartsel m5 = c_state_hartsel m" "c_hartsel m5 = hartsel_of v"
    using inferredD [OF m5(4)] inferredD [OF m3(4)] inferredD [OF m2(4)] inferredD [OF m1(4)] by simp_all
  have "grows m2 m3" "grows m3 m5" using m3(2) m5(2) by (simp_all add: grows_def)
  then have g: "grows m m5" using m1(2) m2(2) grows_trans by metis
  show thesis
    by (rule that [of "m5\<lparr>c_ndmreset := bit v 1\<rparr>"])
      (use m1(1) m2(1) m3(1) m5(1,3) g i assms(2) in
        \<open>simp_all add: inferred_upd sample_def or_zero_def DMCONTROL_def [THEN arg_cong, of r_address] sample_dmcontrol_write_def\<close>)
qed

lemma hart_next_ndmreset:
  assumes "hart_ok (ndmreset p) h" "\<not> is_nonexistent p (int i)" "bit v 1"
  shows "\<not> halted (hart_next p v i h) \<and> running (hart_next p v i h)"
  using hart_next_ok [OF assms(1,2), of v] assms(3) by (auto simp: hart_ok_def)

lemma state_of_predicted:
  assumes "reachable p" "hartsel p = int i" "i < length (harts p)"
  shows "state_from_dmstatus (decode DMSTATUS (expect_dmstatus p)) ndm =
    (if halted (harts p ! i) then ST_HALTED else if ndm then ST_IN_RESET else ST_RUNNING)"
proof -
  let ?h = "harts p ! i"
  have ok: "hart_ok (ndmreset p) ?h" and ex: "\<not> is_nonexistent p (int i)"
    using reachable_hart [OF assms(1,3)] by blast+
  have "\<not> bit (expect_dmstatus p) 14" using ex assms(2) by (simp add: dmstatus_bits is_nonexistent_def)
  moreover have "\<not> bit (expect_dmstatus p) 12" "bit (expect_dmstatus p) 8 = halted ?h" "bit (expect_dmstatus p) 10 = running ?h"
    using assms(2,3) hart_okD [OF ok] by (simp_all add: dmstatus_bits sel_is_def selected_hart_def)
  moreover have "running ?h = (\<not> halted ?h)" using hart_okD [OF ok] by blast
  ultimately show ?thesis by (simp add: state_from_dmstatus_def)
qed

lemma halted_to_in_reset_hit:
  assumes "cov_wf m" "c_counts m halted_to_in_reset = None"
  shows "\<exists>m'. hits (transition_hits True ST_HALTED ST_IN_RESET) m = Inr m' \<and> count_of (c_excluded_hits m') halted_to_in_reset > 0"
proof -
  have "known m halted_to_in_reset"
    using assms(1) transition_hits_declared [of True ST_HALTED ST_IN_RESET] by (simp add: cov_wf_def transition_hits_def settled_def)
  then show ?thesis
    using assms(2) by (auto simp: known_def transition_hits_def settled_def hit_def count_of_def)
qed

text \<open>Declaring bins leaves what was observed alone.\<close>

definition observed_part :: "DebugCoverageModel \<Rightarrow> int option \<times> int" where
  "observed_part m = (c_state_hartsel m, c_hartsel m)"

lemma observed_fold:
  "(\<And>x m. observed_part (f x m) = observed_part m) \<Longrightarrow> observed_part (fold f xs m) = observed_part m"
  by (induction xs arbitrary: m) auto

lemma observed_add: "observed_part (add_bin g nm sp tc m) = observed_part m" "observed_part (exclude g nm m) = observed_part m"
  by (simp_all add: observed_part_def add_bin_def exclude_def Let_def)

lemma init_unread: "c_state_hartsel (DebugCoverageModel_init n hsl hs su) = None" "c_hartsel (DebugCoverageModel_init n hsl hs su) = 0"
proof -
  have rows: "observed_part (add_bins g rows m) = observed_part m" "observed_part (add_all g nms sp m) = observed_part m" for g rows nms sp m
    by (simp_all add: add_bins_def add_all_def split_def observed_fold observed_add)
  have "observed_part (build_dmstatus_bin f val m) = observed_part m" "observed_part (build_all_any_pair a m) = observed_part m" for f val a m
    by (simp_all add: build_dmstatus_bin_def build_all_any_pair_def Let_def observed_add split: prod.split)
  then have "observed_part (DebugCoverageModel_init n hsl hs su) = observed_part (cov_empty n hsl hs su)"
    by (simp add: DebugCoverageModel_init_def build_bins_def build_external_debug_bins_def build_cross_bins_def
        build_all_any_bins_def build_dmstatus_field_bins_def build_version_bins_def build_hartsel_bins_def
        build_dmcontrol_field_bins_def build_dmi_access_bins_def rows observed_fold observed_add split_def)
  then show "c_state_hartsel (DebugCoverageModel_init n hsl hs su) = None" "c_hartsel (DebugCoverageModel_init n hsl hs su) = 0"
    by (simp_all add: observed_part_def cov_empty_def)
qed

lemma grows_counts: "grows m m' \<Longrightarrow> c_counts m k = None \<Longrightarrow> c_counts m' k = None"
  unfolding grows_def by (metis domIff)

text \<open>
  C30. The exclusion of \<^verbatim>\<open>halted_to_in_reset\<close> is contradicted by the golden model: halt hart 0, read
  \<^verbatim>\<open>dmstatus\<close>, assert \<^verbatim>\<open>ndmreset\<close> and read \<^verbatim>\<open>dmstatus\<close> again, each read returning the predicted word, and
  the excluded bin is hit.
\<close>

theorem halted_exclusion_contradicted:
  assumes "reachable p" "hartsel p = 0" "halted (harts p ! 0)" "hartsel_of v = 0" "bit v 0" "bit v 1"
  shows "\<exists>m. cov_run [(OP_READ, ADDR_DMSTATUS, None, Some (expect_dmstatus p)),
      (OP_WRITE, ADDR_DMCONTROL, Some v, None),
      (OP_READ, ADDR_DMSTATUS, None, Some (expect_dmstatus (on_write ADDR_DMCONTROL v p)))]
      (DebugCoverageModel_init n hsl hs su) = Inr m \<and>
    count_of (c_excluded_hits m) (cov_key ''cross.hart_state_transition'' ''halted_to_in_reset'') > 0"
proof -
  let ?m0 = "DebugCoverageModel_init n hsl hs su" and ?q = "on_write ADDR_DMCONTROL v p"
  have 0: "0 < length (harts p)" using reachable_rc_inv [OF assms(1)] by (auto simp: rc_inv_def)
  obtain m1 where m1: "cov_wf m1" "grows ?m0 m1" "c_hartsel m1 = 0" "c_state m1 = ST_HALTED" "c_state_hartsel m1 = Some 0"
    "sample OP_READ ADDR_DMSTATUS None (Some (expect_dmstatus p)) ?m0 = Inr m1"
    by (rule dmstatus_read_state [OF cov_wf_init [of n hsl hs su], of "expect_dmstatus p"])
      (use state_of_predicted [of p 0] 0 assms(1-3) in \<open>simp add: init_unread transition_hits_def\<close>)
  obtain m2 where m2: "cov_wf m2" "grows m1 m2" "c_state m2 = ST_HALTED" "c_state_hartsel m2 = Some 0" "c_hartsel m2 = 0"
    "c_ndmreset m2" "sample OP_WRITE ADDR_DMCONTROL (Some v) None m1 = Inr m2"
    by (rule dmcontrol_write_state [OF m1(1) assms(5)]) (use m1 assms(4,6) in simp)
  have q: "hartsel ?q = int 0" "0 < length (harts ?q)" "\<not> halted (harts ?q ! 0)"
    using nth_on_write_dmcontrol [OF assms(5) 0] assms(4) 0 hart_next_ndmreset [OF reachable_hart [OF assms(1) 0], of "take_bit 32 v"] assms(6)
    by (simp_all add: bit_take_bit_iff)
  then have st: "state_from_dmstatus (decode DMSTATUS (expect_dmstatus ?q)) True = ST_IN_RESET"
    using state_of_predicted [OF reachable.dmi_write [OF assms(1)] q(1,2), of True] by simp
  obtain m3 where m3: "cov_wf m3" "grows m2 m3" "c_state m3 = ST_IN_RESET"
    "sample OP_READ ADDR_DMSTATUS None (Some (expect_dmstatus ?q)) m2 = hits (transition_hits True ST_HALTED ST_IN_RESET) m3"
    by (rule dmstatus_read_state [OF m2(1), of "expect_dmstatus ?q"]) (use m2(3-6) st in simp)
  have "c_counts m3 halted_to_in_reset = None"
    by (rule grows_counts [OF m3(2) grows_counts [OF m2(2) grows_counts [OF m1(2) counts_init]]])
  from halted_to_in_reset_hit [OF m3(1) this] m1(6) m2(7) m3(4) show ?thesis by auto
qed

theorem halted_exclusion_contradicted_witness:
  "\<exists>m. cov_run [(OP_READ, ADDR_DMSTATUS, None, Some (expect_dmstatus sample_halted)),
      (OP_WRITE, ADDR_DMCONTROL, Some 3, None),
      (OP_READ, ADDR_DMSTATUS, None, Some (expect_dmstatus (on_write ADDR_DMCONTROL 3 sample_halted)))]
      (DebugCoverageModel_init 2 20 False True) = Inr m \<and>
    count_of (c_excluded_hits m) (cov_key ''cross.hart_state_transition'' ''halted_to_in_reset'') > 0"
proof -
  have "hartsel sample_halted = 0" "halted (harts sample_halted ! 0)" "hartsel_of 3 = 0" "bit (3::int) 0" "bit (3::int) 1"
    by code_simp+
  then show ?thesis by (rule halted_exclusion_contradicted [OF reachable_samples(1)])
qed

subsection \<open>A bin of the wrong bit\<close>

text \<open>
  The \<^verbatim>\<open>hgselect\<close> bin of a \<^verbatim>\<open>dmcs2\<close> write follows bit 0 of the group number, not the \<^verbatim>\<open>hgselect\<close>
  bit that the encoder wrote and the register definition names.
\<close>

lemma hgselect_misbinned:
  "external_hits OP_WRITE COV_DMCS2 (dmcs2 g) r d0 d1 ! 0 =
     (''cg_dmcs2_write'', if bit (g_group g) 0 then ''cp_hgselect.resume_group'' else ''cp_hgselect.halt_group'') \<and>
   dmcs2_hgselect (dmcs2 g) = g_hgselect g"
proof -
  have "bit (dmcs2 g) 2 = bit (g_group g) 0" "bit (dmcs2 g) 0 = g_hgselect g" by (simp_all add: bit_dmcs2)
  then show ?thesis by (simp add: external_hits_def dmcs2_hits_def on_off_def dmcs2_hgselect_def)
qed

end
