(* ===== verification/Sequences.thy ===== *)
theory Sequences
  imports Session RiscvDM
begin

text \<open>
  What the test sequences of \<^verbatim>\<open>src/src/pydebug/sequences\<close> share. A step of a sequence is a method of
  the command library that ends in a \<^verbatim>\<open>StepResult\<close> (or in nothing, for a bare command), on the world
  of the \<^verbatim>\<open>RISCVDebug\<close> object and the variables \<open>'x\<close> the closures of the sequence share. A method that
  raises ends its step with the exception; one that would never return has no step result, and the
  session does not get past it, which the model shows as an interrupt. Of the message of a result
  only the test case it names is kept.
\<close>

unbundle bit_operations_syntax

subsection \<open>Steps over the command library\<close>

type_synonym ('s, 'x) seq_step = "('s RISCVDebug \<times> 'x, unit) step"
type_synonym ('s, 'x) seq_session = "('s RISCVDebug \<times> 'x, unit) DebugSession"
type_synonym 's check_method = "('s, unit step_return) dbg"

definition step_result :: "string \<Rightarrow> bool \<Rightarrow> 's check_method" where
  "step_result tc b = returnD (ReturnsStep \<lparr>ok = b, msg = tc, data = None\<rparr>)"

definition dbg_step :: "string \<Rightarrow> ('x \<Rightarrow> ('s, unit step_return \<times> 'x) dbg) \<Rightarrow> ('s, 'x) seq_step" where
  "dbg_step name m = (name, \<lambda>(d, x).
     case m x d of
       None \<Rightarrow> (RaisesInterrupt, (d, x))
     | Some (Inl e, d1) \<Rightarrow> (RaisesException '''', (d1, x))
     | Some (Inr (r, x1), d1) \<Rightarrow> (r, (d1, x1)))"

text \<open>A step that shares nothing, and one that is a bare command (\<^verbatim>\<open>lambda: dm.activate()\<close>).\<close>

definition check_step :: "string \<Rightarrow> 's check_method \<Rightarrow> ('s, 'x) seq_step" where
  "check_step name m = dbg_step name (\<lambda>x. bindD m (\<lambda>r. returnD (r, x)))"

definition command_step :: "string \<Rightarrow> ('s, unit) dbg \<Rightarrow> ('s, 'x) seq_step" where
  "command_step name m = check_step name (seqD m (returnD ReturnsNone))"

text \<open>\<^verbatim>\<open>DebugSession(mode, stop_on_error)\<close> followed by the calls of \<^verbatim>\<open>add_step\<close>.\<close>

definition session_of :: "string \<Rightarrow> bool \<Rightarrow> ('s, 'x) seq_step list \<Rightarrow> ('s, 'x) seq_session result" where
  "session_of md stop xs =
     bindR (DebugSession_init md stop) (\<lambda>s. Inr (fold (\<lambda>(name, fn). add_step name fn) xs s))"

text \<open>A whole batch run: every step gets a result, no interrupt, and every result is a pass.\<close>

definition run_batch :: "('s, 'x) seq_session \<Rightarrow> 's RISCVDebug \<times> 'x \<Rightarrow> bool \<times> 's RISCVDebug" where
  "run_batch s w =
     (case run_session s [] w of (s1, interrupted, _, (d1, _)) \<Rightarrow>
        (\<not> interrupted \<and> length (results s1) = length (steps s) \<and> all_passed s1, d1))"

definition session_passes :: "('s, 'x) seq_session \<Rightarrow> 's RISCVDebug \<times> 'x \<Rightarrow> bool" where
  "session_passes s w = fst (run_batch s w)"

text \<open>The verdicts of a batch run, one for each step that was run; none after an interrupt.\<close>

definition session_verdicts :: "('s, 'x) seq_session \<Rightarrow> 's RISCVDebug \<times> 'x \<Rightarrow> bool list option" where
  "session_verdicts s w =
     (case run_session s [] w of (s1, interrupted, _, _) \<Rightarrow> if interrupted then None else Some (map ok (results s1)))"

subsection \<open>Shared helpers\<close>

text \<open>
  \<^verbatim>\<open>_predictor(dm).expect(addr)\<close>: the word the golden model behind the transport predicts, or \<open>None\<close>
  when the transport carries no model (\<open>pred\<close> is the attribute \<^verbatim>\<open>dm.t.predictor\<close>).
\<close>

definition get_predictor :: "('s \<Rightarrow> DMPredictor option) \<Rightarrow> ('s, DMPredictor option) dbg" where
  "get_predictor pred = (\<lambda>d. Some (Inr (pred (t_state d)), d))"

definition predicted_by :: "DMPredictor \<Rightarrow> int \<Rightarrow> ('s, int) dbg" where
  "predicted_by q addr = (case expect q addr of Inl e \<Rightarrow> raiseD (Raised e) | Inr w \<Rightarrow> returnD w)"

definition expected :: "('s \<Rightarrow> DMPredictor option) \<Rightarrow> int \<Rightarrow> ('s, int option) dbg" where
  "expected pred addr = bindD (get_predictor pred) (\<lambda>p.
     case p of
       None \<Rightarrow> returnD None
     | Some q \<Rightarrow> bindD (predicted_by q addr) (\<lambda>w. returnD (Some w)))"

text \<open>A reading of a clock other than the one the poll loops use.\<close>

definition read_clock :: "(nat \<Rightarrow> int) \<Rightarrow> ('s, int) dbg" where
  "read_clock clk = (\<lambda>d. Some (Inr (clk (clock_reads d)), d\<lparr>clock_reads := Suc (clock_reads d)\<rparr>))"

text \<open>\<^verbatim>\<open>any(m() for _ in range(n))\<close>.\<close>

fun any_of_range :: "nat \<Rightarrow> ('s, bool) dbg \<Rightarrow> ('s, bool) dbg" where
  "any_of_range 0 m = returnD False"
| "any_of_range (Suc n) m = bindD m (\<lambda>b. if b then returnD True else any_of_range n m)"

text \<open>A list of methods, each result kept.\<close>

fun mapD :: "('a \<Rightarrow> ('s, 'b) dbg) \<Rightarrow> 'a list \<Rightarrow> ('s, 'b list) dbg" where
  "mapD f [] = returnD []"
| "mapD f (x # xs) = bindD (f x) (\<lambda>y. bindD (mapD f xs) (\<lambda>ys. returnD (y # ys)))"

fun forD :: "('a \<Rightarrow> ('s, unit) dbg) \<Rightarrow> 'a list \<Rightarrow> ('s, unit) dbg" where
  "forD f [] = returnD ()"
| "forD f (x # xs) = seqD (f x) (forD f xs)"

text \<open>\<^verbatim>\<open>try: m except: handler\<close>.\<close>

definition tryD :: "('s, 'a) dbg \<Rightarrow> (dbg_error \<Rightarrow> ('s, 'a) dbg) \<Rightarrow> ('s, 'a) dbg" where
  "tryD m handler = (\<lambda>d. case m d of
      None \<Rightarrow> None
    | Some (Inl e, d1) \<Rightarrow> handler e d1
    | Some (Inr x, d1) \<Rightarrow> Some (Inr x, d1))"

text \<open>
  \<^verbatim>\<open>while time.monotonic() < deadline: if m(): return True\<close>, and \<open>False\<close> when the clock has passed the deadline;
  no result when neither ever happens.
\<close>

partial_function (option) wait_until ::
  "'s transport \<Rightarrow> ('s, bool) dbg \<Rightarrow> int \<Rightarrow> 's RISCVDebug \<Rightarrow> ((dbg_error + bool) \<times> 's RISCVDebug) option" where
  "wait_until T m deadline d =
     (let now = t_monotonic T (clock_reads d); d1 = d\<lparr>clock_reads := Suc (clock_reads d)\<rparr>
      in if \<not> now < deadline then Some (Inr False, d1)
         else Option.bind (m d1) (\<lambda>(r, d2).
                case r of Inl e \<Rightarrow> Some (Inl e, d2) | Inr b \<Rightarrow> if b then Some (Inr True, d2) else wait_until T m deadline d2))"

text \<open>
  \<^verbatim>\<open>dm.write_dmcontrol(...)\<close>, its value unused; \<open>act\<close> and \<open>sel\<close> are \<^verbatim>\<open>dmactive\<close> and \<^verbatim>\<open>hartsel\<close> where the
  caller names them.
\<close>

definition put_fields :: "'s transport \<Rightarrow> bool option \<Rightarrow> int option \<Rightarrow> dmcontrol_args \<Rightarrow> ('s, unit) dbg" where
  "put_fields T act sel flds = bindD (write_dmcontrol_fields T act sel flds) (\<lambda>_. returnD ())"

definition put_dmcontrol :: "'s transport \<Rightarrow> dmcontrol_args \<Rightarrow> ('s, unit) dbg" where
  "put_dmcontrol T flds = put_fields T None None flds"

subsection \<open>\<^verbatim>\<open>hart_control.py\<close>\<close>

definition HC_DCSR :: int where [simp]: "HC_DCSR = 0x07B0"
definition HC_DPC :: int where [simp]: "HC_DPC = 0x07B1"
definition MSTATUS :: int where [simp]: "MSTATUS = 0x0300"
definition MIE :: int where [simp]: "MIE = 0x0304"
definition MCAUSE :: int where [simp]: "MCAUSE = 0x0342"
definition MEPC :: int where [simp]: "MEPC = 0x0341"
definition PMPCFG0 :: int where [simp]: "PMPCFG0 = 0x03A0"
definition PMPADDR0 :: int where [simp]: "PMPADDR0 = 0x03B0"
definition DCSR_EBREAKM :: int where [simp]: "DCSR_EBREAKM = push_bit 15 1"
definition DCSR_EBREAKS :: int where [simp]: "DCSR_EBREAKS = push_bit 13 1"
definition DCSR_EBREAKU :: int where [simp]: "DCSR_EBREAKU = push_bit 12 1"
definition DCSR_STEPIE :: int where [simp]: "DCSR_STEPIE = push_bit 11 1"
definition DCSR_STEP :: int where [simp]: "DCSR_STEP = push_bit 2 1"
definition DCSR_PRV_MASK :: int where [simp]: "DCSR_PRV_MASK = 0x3"
definition DCSR_CAUSE_LSB :: nat where [simp]: "DCSR_CAUSE_LSB = 6"
definition HC_PRV_U :: int where [simp]: "HC_PRV_U = 0"
definition HC_PRV_S :: int where [simp]: "HC_PRV_S = 1"
definition HC_PRV_M :: int where [simp]: "HC_PRV_M = 3"
definition CAUSE_EBREAK :: int where [simp]: "CAUSE_EBREAK = 1"
definition CAUSE_TRIGGER :: int where [simp]: "CAUSE_TRIGGER = 2"
definition CAUSE_HALTREQ :: int where [simp]: "CAUSE_HALTREQ = 3"
definition CAUSE_STEP :: int where [simp]: "CAUSE_STEP = 4"
definition MSTATUS_MIE :: int where [simp]: "MSTATUS_MIE = push_bit 3 1"
definition MIE_MTIE :: int where [simp]: "MIE_MTIE = push_bit 7 1"
definition ABSTRACTCS_CMDERR_W1C :: int where [simp]: "ABSTRACTCS_CMDERR_W1C = push_bit 8 0x7"

definition cause_of :: "int \<Rightarrow> int" where
  "cause_of dcsr = drop_bit DCSR_CAUSE_LSB dcsr AND 0x7"

definition hc_clear_cmderr :: "'s transport \<Rightarrow> ('s, unit) dbg" where
  "hc_clear_cmderr T = dmi_write T ADDR_ABSTRACTCS ABSTRACTCS_CMDERR_W1C"

definition wait_halted :: "'s transport \<Rightarrow> nat \<Rightarrow> ('s, bool) dbg" where
  "wait_halted T limit = any_of_range limit (is_halted T)"

definition ensure_halted :: "'s transport \<Rightarrow> nat \<Rightarrow> ('s, bool) dbg" where
  "ensure_halted T limit =
     seqD (hc_clear_cmderr T)
    (bindD (is_halted T) (\<lambda>b.
       if b then returnD True
       else seqD (halt T DEFAULT_TIMEOUT) (any_of_range limit (is_halted T))))"

definition open_pmp :: "'s transport \<Rightarrow> ('s, unit) dbg" where
  "open_pmp T =
     seqD (write_reg64 T PMPADDR0 (push_bit 54 1 - 1))
          (write_reg64 T PMPCFG0 0x1F)"

definition modify_dcsr :: "'s transport \<Rightarrow> int \<Rightarrow> int \<Rightarrow> int option \<Rightarrow> ('s, int) dbg" where
  "modify_dcsr T set_bits clear_bits prv =
     bindD (read_gpr T HC_DCSR) (\<lambda>dcsr0.
       let dcsr1 = (dcsr0 OR set_bits) AND NOT clear_bits;
           dcsr = (case prv of Some v \<Rightarrow> (dcsr1 AND NOT DCSR_PRV_MASK) OR v | None \<Rightarrow> dcsr1)
       in seqD (write_gpr T HC_DCSR dcsr) (returnD dcsr))"

definition place :: "'s transport \<Rightarrow> int \<Rightarrow> int \<Rightarrow> ('s, unit) dbg" where
  "place T pc prv =
     bindD (modify_dcsr T 0 0 (Some prv)) (\<lambda>_. write_reg64 T HC_DPC pc)"

definition step_once :: "'s transport \<Rightarrow> nat \<Rightarrow> ('s, bool) dbg" where
  "step_once T limit = seqD (resume_no_wait T) (wait_halted T limit)"

definition run_until_halted :: "'s transport \<Rightarrow> nat \<Rightarrow> ('s, bool) dbg" where
  "run_until_halted T limit = seqD (resume_no_wait T) (wait_halted T limit)"

end
