(* ===== verification/HartSeq.thy ===== *)
theory HartSeq
  imports Sequences
begin

text \<open>
  The sequences \<^verbatim>\<open>halt_on_reset_sequence.py\<close>, \<^verbatim>\<open>dm_activation_sequence.py\<close> and
  \<^verbatim>\<open>hart_selection_sequence.py\<close> of \<^verbatim>\<open>src/src/pydebug/sequences\<close>. The steps of the first share the
  variable \<^verbatim>\<open>state["has_resethaltreq"]\<close>, which the first test case sets.
\<close>

unbundle bit_operations_syntax

subsection \<open>\<^verbatim>\<open>halt_on_reset_sequence.py\<close>\<close>

definition tc_hor_001 :: "'s transport \<Rightarrow> bool option \<Rightarrow> ('s, unit step_return \<times> bool option) dbg" where
  "tc_hor_001 T x =
     bindD (read_dmstatus T) (\<lambda>word.
       let supported = hasresethaltreq_of word
       in bindD (step_result ''TC-HOR-001'' True) (\<lambda>r. returnD (r, Some supported)))"

text \<open>A step that only looks at the gate.\<close>

definition gated :: "(bool \<Rightarrow> 's check_method) \<Rightarrow> bool option \<Rightarrow> ('s, unit step_return \<times> bool option) dbg" where
  "gated m x = bindD (m (x = Some True)) (\<lambda>r. returnD (r, x))"

definition tc_hor_002 :: "'s transport \<Rightarrow> ('s \<Rightarrow> DMPredictor option) \<Rightarrow> bool \<Rightarrow> 's check_method" where
  "tc_hor_002 T pred has_resethaltreq =
     seqD (set_reset_haltreq T)
    (seqD (ndmreset_level T True)
    (bindD (read_dmstatus T) (\<lambda>_.
     seqD (ndmreset_level T False)
    (bindD (read_dmstatus T) (\<lambda>word.
       if \<not> has_resethaltreq then step_result ''TC-HOR-002'' True
       else bindD (expected pred ADDR_DMSTATUS) (\<lambda>predicted.
              step_result ''TC-HOR-002''
                (anyhalted word \<and> allhalted word \<and>
                 (case predicted of None \<Rightarrow> True | Some w \<Rightarrow> allhalted w))))))))"

definition tc_hor_003 :: "'s transport \<Rightarrow> bool \<Rightarrow> 's check_method" where
  "tc_hor_003 T has_resethaltreq =
     seqD (clr_reset_haltreq T)
    (seqD (ndmreset_level T True)
    (seqD (ndmreset_level T False)
    (bindD (read_dmstatus T) (\<lambda>word.
       if \<not> has_resethaltreq then step_result ''TC-HOR-003'' True
       else step_result ''TC-HOR-003'' (\<not> anyhalted word)))))"

definition tc_hor_004 :: "'s transport \<Rightarrow> int \<Rightarrow> bool \<Rightarrow> 's check_method" where
  "tc_hor_004 T n has_resethaltreq =
     (if \<not> has_resethaltreq then step_result ''TC-HOR-004'' True
      else if n < 2 then step_result ''TC-HOR-004'' True
      else let hart_a = 0; hart_b = n - 1 in
        seqD (select_hart T hart_a)
       (seqD (set_reset_haltreq T)
       (seqD (select_hart T hart_b)
       (seqD (ndmreset_level T True)
       (seqD (ndmreset_level T False)
       (seqD (select_hart T hart_a)
       (bindD (read_dmstatus T) (\<lambda>word_a.
        seqD (select_hart T hart_b)
       (bindD (read_dmstatus T) (\<lambda>word_b.
        seqD (select_hart T hart_a)
       (seqD (clr_reset_haltreq T)
             (step_result ''TC-HOR-004'' (anyhalted word_a \<and> \<not> anyhalted word_b)))))))))))))"

definition tc_hor_005 :: "'s transport \<Rightarrow> 's check_method" where
  "tc_hor_005 T =
     seqD (put_dmcontrol T (dmcontrol_defaults\<lparr>a_resumereq := True, a_hartreset := True\<rparr>))
    (seqD (put_dmcontrol T (dmcontrol_defaults\<lparr>a_resumereq := False, a_hartreset := False\<rparr>))
    (bindD (read_dmcontrol T) (\<lambda>readback.
     bindD (read_dmstatus T) (\<lambda>status.
       step_result ''TC-HOR-005'' (truth (readback AND 1) \<and> version_of status \<noteq> 0)))))"

definition halt_on_reset_tests ::
  "'s transport \<Rightarrow> ('s \<Rightarrow> DMPredictor option) \<Rightarrow> int \<Rightarrow> ('s, bool option) seq_step list" where
  "halt_on_reset_tests T pred n =
     [dbg_step ''TC-HOR-001: discover halt-on-reset support (dmstatus.hasresethaltreq)'' (tc_hor_001 T),
      dbg_step ''TC-HOR-002: setresethaltreq causes halt-on-reset (spec #3.5)'' (gated (tc_hor_002 T pred)),
      dbg_step ''TC-HOR-003: clrresethaltreq clears the halt-on-reset request (spec #3.14.2)'' (gated (tc_hor_003 T)),
      dbg_step ''TC-HOR-004: per-hart independence of set/clrresethaltreq (spec #3.14.2)'' (gated (tc_hor_004 T n)),
      check_step ''TC-HOR-005: illegal simultaneous dmcontrol mutex-bit write (spec #3.14.2, negative)'' (tc_hor_005 T)]"

definition halt_on_reset_steps ::
  "'s transport \<Rightarrow> ('s \<Rightarrow> DMPredictor option) \<Rightarrow> int \<Rightarrow> ('s, bool option) seq_step list" where
  "halt_on_reset_steps T pred n =
     command_step ''Activate Debug Module'' (activate T) # halt_on_reset_tests T pred n"

text \<open>The session starts with \<^verbatim>\<open>state["has_resethaltreq"]\<close> unset.\<close>

definition build_halt_on_reset_sequence ::
  "'s transport \<Rightarrow> ('s \<Rightarrow> DMPredictor option) \<Rightarrow> string \<Rightarrow> int \<Rightarrow> (('s, bool option) seq_session \<times> bool option) result" where
  "build_halt_on_reset_sequence T pred md n =
     bindR (session_of md False (halt_on_reset_steps T pred n)) (\<lambda>s. Inr (s, None))"

subsection \<open>\<^verbatim>\<open>dm_activation_sequence.py\<close>\<close>

definition POLL_READS :: nat where [simp]: "POLL_READS = 8"

definition poll_reads :: "('s, bool) dbg \<Rightarrow> ('s, bool) dbg" where
  "poll_reads predicate = any_of_range POLL_READS predicate"

definition tc_dma_001 :: "'s transport \<Rightarrow> 's check_method" where
  "tc_dma_001 T =
     seqD (put_fields T (Some False) None dmcontrol_defaults)
    (bindD (read_dmcontrol T) (\<lambda>readback.
     bindD (read_dmstatus T) (\<lambda>status.
       step_result ''TC-DMA-001'' (\<not> dmcontrol_dmactive readback))))"

definition tc_dma_002 :: "'s transport \<Rightarrow> 's check_method" where
  "tc_dma_002 T =
     seqD (put_fields T (Some False) None dmcontrol_defaults)
    (bindD (poll_reads (bindD (read_dmcontrol T) (\<lambda>w. returnD (\<not> dmcontrol_dmactive w)))) (\<lambda>deactivated.
     seqD (activate T)
    (bindD (poll_reads (bindD (read_dmcontrol T) (\<lambda>w. returnD (dmcontrol_dmactive w)))) (\<lambda>reactivated.
     bindD (read_dmstatus T) (\<lambda>status.
       step_result ''TC-DMA-002'' (deactivated \<and> reactivated \<and> version_of status \<noteq> 0))))))"

definition dm_activation_steps :: "'s transport \<Rightarrow> ('s, unit) seq_step list" where
  "dm_activation_steps T =
     [command_step ''Activate Debug Module (baseline)'' (activate T),
      check_step ''TC-DMA-001: deactivate Debug Module (write dmcontrol.dmactive=0)'' (tc_dma_001 T),
      check_step ''TC-DMA-002: known-state reset sequence (write0/poll/write1/poll, spec #3.14.2)'' (tc_dma_002 T)]"

definition build_dm_activation_sequence :: "'s transport \<Rightarrow> string \<Rightarrow> ('s, unit) seq_session result" where
  "build_dm_activation_sequence T md = session_of md False (dm_activation_steps T)"

subsection \<open>\<^verbatim>\<open>hart_selection_sequence.py\<close>\<close>

definition HARTSEL_ALL_ONES :: int where [simp]: "HARTSEL_ALL_ONES = push_bit 20 1 - 1"
definition LIKELY_NONEXISTENT_HARTSEL :: int where [simp]: "LIKELY_NONEXISTENT_HARTSEL = HARTSEL_ALL_ONES - 1"

definition tc_hs_001 :: "'s transport \<Rightarrow> 's check_method" where
  "tc_hs_001 T =
     seqD (put_fields T None (Some HARTSEL_ALL_ONES) dmcontrol_defaults)
    (bindD (read_dmcontrol T) (\<lambda>readback.
     seqD (put_fields T None (Some 0) dmcontrol_defaults)
          (step_result ''TC-HS-001'' True)))"

definition tc_hs_002 :: "'s transport \<Rightarrow> ('s \<Rightarrow> DMPredictor option) \<Rightarrow> 's check_method" where
  "tc_hs_002 T pred =
     seqD (put_fields T None (Some LIKELY_NONEXISTENT_HARTSEL) dmcontrol_defaults)
    (bindD (read_dmstatus T) (\<lambda>word.
     bindD (get_predictor pred) (\<lambda>p.
       let res = (p \<noteq> None \<longrightarrow> anynonexistent word \<and> allnonexistent word)
       in seqD (put_fields T None (Some 0) dmcontrol_defaults)
               (step_result ''TC-HS-002'' res))))"

definition tc_hs_003 :: "'s transport \<Rightarrow> 's check_method" where
  "tc_hs_003 T =
     seqD (put_dmcontrol T (dmcontrol_defaults\<lparr>a_hasel := True\<rparr>))
    (bindD (read_dmcontrol T) (\<lambda>readback.
     seqD (put_dmcontrol T (dmcontrol_defaults\<lparr>a_hasel := False\<rparr>))
          (step_result ''TC-HS-003'' True)))"

definition hart_selection_steps :: "'s transport \<Rightarrow> ('s \<Rightarrow> DMPredictor option) \<Rightarrow> ('s, unit) seq_step list" where
  "hart_selection_steps T pred =
     [command_step ''Activate Debug Module'' (activate T),
      check_step ''TC-HS-001: HARTSELLEN discovery (write all-1s to hartsel, read back)'' (tc_hs_001 T),
      check_step ''TC-HS-002: nonexistent hart index selected (spec #3.14.1 anynonexistent)'' (tc_hs_002 T pred),
      check_step ''TC-HS-003: hasel discovery write (spec #3.14.2)'' (tc_hs_003 T)]"

definition build_hart_selection_sequence ::
  "'s transport \<Rightarrow> ('s \<Rightarrow> DMPredictor option) \<Rightarrow> string \<Rightarrow> ('s, unit) seq_session result" where
  "build_hart_selection_sequence T pred md = session_of md False (hart_selection_steps T pred)"

end
