(* ===== verification/RunControlSeq.thy ===== *)
theory RunControlSeq
  imports Sequences
begin

text \<open>
  The sequences that drive run control and resets, \<^verbatim>\<open>run_control_sequence.py\<close> and
  \<^verbatim>\<open>reset_ctrl_sequence.py\<close> of \<^verbatim>\<open>src/src/pydebug/sequences\<close>. Every nested function is a definition;
  \<open>pred\<close> is the golden model a transport may carry and \<open>clk\<close> the clock the latency test reads
  (simulated time or \<^verbatim>\<open>time.perf_counter\<close>, in microseconds).
\<close>

unbundle bit_operations_syntax

subsection \<open>\<^verbatim>\<open>run_control_sequence.py\<close>\<close>

definition HALT_RESUME_RESPONSE_BOUND :: int where [simp]: "HALT_RESUME_RESPONSE_BOUND = 1000000"

definition tc_rc_001 :: "'s transport \<Rightarrow> ('s \<Rightarrow> DMPredictor option) \<Rightarrow> 's check_method" where
  "tc_rc_001 T pred =
     seqD (halt T DEFAULT_TIMEOUT)
    (bindD (read_dmstatus T) (\<lambda>word.
     bindD (expected pred ADDR_DMSTATUS) (\<lambda>predicted.
       step_result ''TC-RC-001''
         (anyhalted word \<and> allhalted word \<and> \<not> anyrunning word \<and>
          (case predicted of None \<Rightarrow> True | Some w \<Rightarrow> anyhalted w \<and> allhalted w)))))"

definition tc_rc_002 :: "'s transport \<Rightarrow> 's check_method" where
  "tc_rc_002 T =
     bindD (read_dmstatus T) (\<lambda>before.
     seqD (put_dmcontrol T (dmcontrol_defaults\<lparr>a_haltreq := True\<rparr>))
    (bindD (read_dmstatus T) (\<lambda>after.
       let no_change = (allhalted after = allhalted before \<and> anyhalted after = anyhalted before \<and>
                        allresumeack after = allresumeack before)
       in seqD (put_dmcontrol T (dmcontrol_defaults\<lparr>a_haltreq := False\<rparr>))
               (step_result ''TC-RC-002'' (no_change \<and> allhalted after)))))"

definition tc_rc_003 :: "'s transport \<Rightarrow> ('s \<Rightarrow> DMPredictor option) \<Rightarrow> 's check_method" where
  "tc_rc_003 T pred =
     seqD (resume T DEFAULT_TIMEOUT)
    (bindD (read_dmstatus T) (\<lambda>word.
     bindD (expected pred ADDR_DMSTATUS) (\<lambda>predicted.
       step_result ''TC-RC-003''
         (anyrunning word \<and> allrunning word \<and> \<not> anyhalted word \<and> allresumeack word \<and> anyresumeack word \<and>
          (case predicted of None \<Rightarrow> True | Some w \<Rightarrow> allrunning w \<and> allresumeack w)))))"

definition tc_rc_004 :: "'s transport \<Rightarrow> 's check_method" where
  "tc_rc_004 T =
     seqD (put_dmcontrol T (dmcontrol_defaults\<lparr>a_resumereq := True\<rparr>))
    (bindD (read_dmstatus T) (\<lambda>word.
       seqD (put_dmcontrol T (dmcontrol_defaults\<lparr>a_resumereq := False\<rparr>))
            (step_result ''TC-RC-004'' (allrunning word \<and> \<not> anyhalted word \<and> \<not> anyresumeack word))))"

definition tc_rc_005 :: "'s transport \<Rightarrow> 's check_method" where
  "tc_rc_005 T =
     bindD (read_dmstatus T) (\<lambda>before.
     seqD (put_dmcontrol T (dmcontrol_defaults\<lparr>a_haltreq := True, a_resumereq := True\<rparr>))
    (bindD (read_dmstatus T) (\<lambda>after.
       seqD (put_dmcontrol T (dmcontrol_defaults\<lparr>a_haltreq := False\<rparr>))
            (step_result ''TC-RC-005''
               (anyhalted after \<and> \<not> anyrunning after \<and> anyresumeack after = anyresumeack before)))))"

definition tc_rc_006 :: "'s transport \<Rightarrow> (nat \<Rightarrow> int) \<Rightarrow> 's check_method" where
  "tc_rc_006 T clk =
     bindD (read_clock clk) (\<lambda>t0.
     seqD (halt T DEFAULT_TIMEOUT)
    (bindD (read_clock clk) (\<lambda>t1.
     bindD (read_clock clk) (\<lambda>t2.
     seqD (resume T DEFAULT_TIMEOUT)
    (bindD (read_clock clk) (\<lambda>t3.
       step_result ''TC-RC-006''
         (t1 - t0 < HALT_RESUME_RESPONSE_BOUND \<and> t3 - t2 < HALT_RESUME_RESPONSE_BOUND)))))))"

definition tc_rc_007 :: "'s transport \<Rightarrow> 's check_method" where
  "tc_rc_007 T =
     seqD (ndmreset_level T True)
    (bindD (read_dmstatus T) (\<lambda>_.
     seqD (put_dmcontrol T (dmcontrol_defaults\<lparr>a_resumereq := True, a_ndmreset := True\<rparr>))
    (bindD (read_dmstatus T) (\<lambda>word.
     seqD (put_dmcontrol T (dmcontrol_defaults\<lparr>a_resumereq := False, a_ndmreset := True\<rparr>))
    (seqD (ndmreset_level T False)
          (step_result ''TC-RC-007'' (\<not> anyhalted word \<and> \<not> anyresumeack word)))))))"

definition run_control_tests ::
  "'s transport \<Rightarrow> ('s \<Rightarrow> DMPredictor option) \<Rightarrow> (nat \<Rightarrow> int) \<Rightarrow> ('s, unit) seq_step list" where
  "run_control_tests T pred clk =
     [check_step ''TC-RC-001: halt request on a running hart (write dmcontrol.haltreq=1)'' (tc_rc_001 T pred),
      check_step ''TC-RC-002: haltreq ignored once already halted (spec #3.5)'' (tc_rc_002 T),
      check_step ''TC-RC-003: resume request on a halted hart (write dmcontrol.resumereq=1)'' (tc_rc_003 T pred),
      check_step ''TC-RC-004: resumereq ignored on a running hart (spec #3.5)'' (tc_rc_004 T),
      check_step ''TC-RC-005: resumereq ignored when haltreq set in the same write (spec #3.14.2)'' (tc_rc_005 T),
      check_step ''TC-RC-006: halt/resume response latency under spec's 1s bound (#3.5)'' (tc_rc_006 T clk),
      check_step ''TC-RC-007: resumereq while the hart is in reset (spec #3.2)'' (tc_rc_007 T)]"

definition run_control_steps ::
  "'s transport \<Rightarrow> ('s \<Rightarrow> DMPredictor option) \<Rightarrow> (nat \<Rightarrow> int) \<Rightarrow> int \<Rightarrow> ('s, unit) seq_step list" where
  "run_control_steps T pred clk sel =
     [check_step ''Read dmstatus before DM activation (dmactive=0 baseline, spec #3.13/#3.14.2)''
        (bindD (read_dmstatus T) (\<lambda>_. step_result '''' True)),
      command_step ''Activate Debug Module (write dmcontrol.dmactive=1)'' (activate T)]
     @ (if sel \<noteq> 0
        then [command_step (''Select hart '' @ str_int sel @ '' (write dmcontrol.hartsel)'') (select_hart T sel)]
        else [])
     @ run_control_tests T pred clk"

definition build_run_control_sequence ::
  "'s transport \<Rightarrow> ('s \<Rightarrow> DMPredictor option) \<Rightarrow> (nat \<Rightarrow> int) \<Rightarrow> string \<Rightarrow> int \<Rightarrow> ('s, unit) seq_session result" where
  "build_run_control_sequence T pred clk md sel = session_of md False (run_control_steps T pred clk sel)"

subsection \<open>\<^verbatim>\<open>reset_ctrl_sequence.py\<close>\<close>

definition POLL_TIMEOUT :: int where [simp]: "POLL_TIMEOUT = 2000000"

definition tc_rst_001_assert :: "'s transport \<Rightarrow> ('s \<Rightarrow> DMPredictor option) \<Rightarrow> 's check_method" where
  "tc_rst_001_assert T pred =
     seqD (ndmreset_level T True)
    (bindD (read_dmstatus T) (\<lambda>word.
     bindD (get_predictor pred) (\<lambda>p.
       let mutex_ok = (\<not> (anyhalted word \<and> anyrunning word)) in
       (case p of
          Some q \<Rightarrow>
            if version q \<ge> DMSTATUS_VERSION_1_0
            then bindD (predicted_by q ADDR_DMSTATUS) (\<lambda>predicted.
                   step_result ''TC-RST-001'' (mutex_ok \<and> ndmresetpending predicted \<and> ndmresetpending word))
            else step_result ''TC-RST-001'' mutex_ok
        | None \<Rightarrow> step_result ''TC-RST-001'' mutex_ok))))"

definition tc_rst_001_deassert :: "'s transport \<Rightarrow> 's check_method" where
  "tc_rst_001_deassert T =
     seqD (ndmreset_level T False)
    (bindD (read_dmstatus T) (\<lambda>word. step_result ''TC-RST-001'' (\<not> anyhalted word)))"

text \<open>The loop that waits for the halt after the release from reset; \<^verbatim>\<open>time.sleep\<close> lets time pass.\<close>

partial_function (option) wait_release ::
  "'s transport \<Rightarrow> int \<Rightarrow> bool \<Rightarrow> 's RISCVDebug \<Rightarrow> ((dbg_error + bool) \<times> 's RISCVDebug) option" where
  "wait_release T deadline halted_on_release d =
     (if halted_on_release then Some (Inr True, d)
      else let now = t_monotonic T (clock_reads d); d1 = d\<lparr>clock_reads := Suc (clock_reads d)\<rparr> in
           if \<not> now < deadline then Some (Inr False, d1)
           else Option.bind (is_halted T d1) (\<lambda>(r, d2).
                  case r of Inl e \<Rightarrow> Some (Inl e, d2) | Inr b \<Rightarrow> wait_release T deadline b d2))"

definition tc_rst_001_haltreq_during_reset :: "'s transport \<Rightarrow> 's check_method" where
  "tc_rst_001_haltreq_during_reset T =
     seqD (ndmreset_level T True)
    (seqD (put_dmcontrol T (dmcontrol_defaults\<lparr>a_haltreq := True, a_ndmreset := True\<rparr>))
    (bindD (read_dmstatus T) (\<lambda>word.
     seqD (put_dmcontrol T (dmcontrol_defaults\<lparr>a_haltreq := True, a_ndmreset := False\<rparr>))
    (bindD (monotonic T) (\<lambda>now.
     bindD (is_halted T) (\<lambda>b.
     bindD (wait_release T (now + POLL_TIMEOUT) b) (\<lambda>halted_on_release.
       step_result ''TC-RST-001 (cont'd)'' (\<not> anyhalted word \<and> halted_on_release)))))))) "

definition tc_rst_002 :: "'s transport \<Rightarrow> 's check_method" where
  "tc_rst_002 T =
     seqD (halt T DEFAULT_TIMEOUT)
    (seqD (hartreset_request T True)
    (bindD (read_dmcontrol T) (\<lambda>readback.
       if \<not> dmcontrol_hartreset readback
       then seqD (hartreset_request T False)
           (seqD (resume T DEFAULT_TIMEOUT) (step_result ''TC-RST-002'' True))
       else bindD (read_dmstatus T) (\<lambda>_.
            seqD (hartreset_request T False)
           (bindD (read_dmstatus T) (\<lambda>after. step_result ''TC-RST-002'' (\<not> anyhalted after)))))))"

text \<open>What \<^verbatim>\<open>tc_rst_003\<close> notes for the cause \<^verbatim>\<open>hartreset\<close>: \<open>None\<close> where it is not implemented.\<close>

definition hartreset_cause :: "'s transport \<Rightarrow> ('s, bool option) dbg" where
  "hartreset_cause T =
     seqD (hartreset_request T True)
    (bindD (read_dmcontrol T) (\<lambda>readback.
       if dmcontrol_hartreset readback
       then seqD (hartreset_request T False)
           (bindD (read_dmstatus T) (\<lambda>word.
            seqD (ackhavereset T) (returnD (Some (anyhavereset word \<and> allhavereset word)))))
       else seqD (hartreset_request T False) (returnD None)))"

definition tc_rst_003 :: "'s transport \<Rightarrow> 's check_method" where
  "tc_rst_003 T =
     seqD (ndmreset_level T True)
    (seqD (ndmreset_level T False)
    (bindD (read_dmstatus T) (\<lambda>word.
     seqD (ackhavereset T)
    (bindD (hartreset_cause T) (\<lambda>hartreset_set.
       let causes = [Some (anyhavereset word \<and> allhavereset word), hartreset_set]
       in step_result ''TC-RST-003'' (list_all (\<lambda>v. v \<noteq> Some False) causes))))))"

definition tc_rst_004 :: "'s transport \<Rightarrow> 's check_method" where
  "tc_rst_004 T =
     seqD (ndmreset_level T True)
    (seqD (ndmreset_level T False)
    (bindD (read_dmstatus T) (\<lambda>before.
     seqD (ackhavereset T)
    (bindD (read_dmstatus T) (\<lambda>after.
       step_result ''TC-RST-004''
         ((anyhavereset before \<and> allhavereset before) \<and> \<not> anyhavereset after \<and> \<not> allhavereset after))))))"

text \<open>An abstract command in reset: an answer, even an error code, is survival; anything else is not.\<close>

definition survives_access :: "'s transport \<Rightarrow> ('s, bool) dbg" where
  "survives_access T =
     tryD (bindD (read_gpr T 0x1000) (\<lambda>_. returnD True))
       (\<lambda>e. returnD (case e of CmdError _ \<Rightarrow> True | _ \<Rightarrow> False))"

definition tc_rst_005 :: "'s transport \<Rightarrow> 's check_method" where
  "tc_rst_005 T =
     seqD (ndmreset_level T True)
    (bindD (survives_access T) (\<lambda>survived.
     seqD (ndmreset_level T False)
    (bindD (read_dmcontrol T) (\<lambda>post.
       step_result ''TC-RST-005'' (survived \<and> truth (post AND 1))))))"

definition tc_rst_006 :: "'s transport \<Rightarrow> 's check_method" where
  "tc_rst_006 T =
     seqD (ackhavereset T)
    (bindD (read_dmstatus T) (\<lambda>before.
     seqD (ackhavereset T)
    (bindD (read_dmstatus T) (\<lambda>after.
       step_result ''TC-RST-006''
         ((\<not> anyhavereset before \<and> \<not> allhavereset before) \<and> \<not> anyhavereset after \<and> \<not> allhavereset after)))))"

definition tc_dhs_006_probe :: "'s transport \<Rightarrow> 's check_method" where
  "tc_dhs_006_probe T =
     seqD (ackunavail T)
    (bindD (read_dmcontrol T) (\<lambda>readback.
       step_result ''TC-DHS-006 (write-only half)'' (truth (readback AND 1))))"

definition tc_ka_001 :: "'s transport \<Rightarrow> 's check_method" where
  "tc_ka_001 T =
     seqD (put_dmcontrol T (dmcontrol_defaults\<lparr>a_setkeepalive := True\<rparr>))
    (bindD (read_dmcontrol T) (\<lambda>after_set.
     seqD (put_dmcontrol T (dmcontrol_defaults\<lparr>a_clrkeepalive := True\<rparr>))
    (bindD (read_dmcontrol T) (\<lambda>after_clr.
       step_result ''TC-KA-001'' (truth (after_clr AND 1))))))"

definition reset_ctrl_tests :: "'s transport \<Rightarrow> ('s \<Rightarrow> DMPredictor option) \<Rightarrow> ('s, unit) seq_step list" where
  "reset_ctrl_tests T pred =
     [check_step ''TC-RST-001: assert dmcontrol.ndmreset=1 (spec #3.2)'' (tc_rst_001_assert T pred),
      check_step ''TC-RST-001: deassert dmcontrol.ndmreset=0'' (tc_rst_001_deassert T),
      check_step ''TC-RST-001 (cont'd): haltreq asserted while a hart is in ndmreset (spec #3.5)''
        (tc_rst_001_haltreq_during_reset T),
      check_step ''TC-RST-002: discover/exercise dmcontrol.hartreset (spec #3.14.2)'' (tc_rst_002 T),
      check_step ''TC-RST-003: havereset set regardless of reset cause (spec #3.2)'' (tc_rst_003 T),
      check_step ''TC-RST-004: ackhavereset clears the sticky havereset bit (spec #3.14.2)'' (tc_rst_004 T),
      check_step ''TC-RST-005: DMI access restrictions while ndmreset asserted (spec #3.2)'' (tc_rst_005 T),
      check_step ''TC-RST-006: ackhavereset is a no-op when havereset is already clear (spec #3.14.2)'' (tc_rst_006 T),
      check_step ''TC-DHS-006 (write-only half): ackunavail discovery probe (spec #3.14.2)'' (tc_dhs_006_probe T),
      check_step ''TC-KA-001: setkeepalive/clrkeepalive discovery probe (spec #3.14.2)'' (tc_ka_001 T)]"

definition reset_ctrl_steps :: "'s transport \<Rightarrow> ('s \<Rightarrow> DMPredictor option) \<Rightarrow> int \<Rightarrow> ('s, unit) seq_step list" where
  "reset_ctrl_steps T pred sel =
     [command_step ''Activate Debug Module'' (activate T)]
     @ (if sel \<noteq> 0 then [command_step (''Select hart '' @ str_int sel) (select_hart T sel)] else [])
     @ reset_ctrl_tests T pred"

definition build_reset_ctrl_sequence ::
  "'s transport \<Rightarrow> ('s \<Rightarrow> DMPredictor option) \<Rightarrow> string \<Rightarrow> int \<Rightarrow> ('s, unit) seq_session result" where
  "build_reset_ctrl_sequence T pred md sel = session_of md False (reset_ctrl_steps T pred sel)"

end
