(* ===== verification/SequenceRuns.thy ===== *)
theory SequenceRuns
  imports Sequences CommandRuns
begin

text \<open>
  Running test sequences on a target that follows the predictor. \<open>wp\<close> is the weakest precondition,
  for a normal return, of a method over the predictor state the target represents and the tracked
  \<^verbatim>\<open>hartsel\<close>; its backward rules execute a method symbolically, and \<open>session_passes\<close> lifts them to
  sessions. The run control of the selected hart is abstracted to the machine \<open>sel_step\<close> over the
  signals a debugger can observe or request, and \<open>view_next\<close> is the refinement.
\<close>

unbundle bit_operations_syntax

subsection \<open>Weakest preconditions of methods\<close>

context dm_target
begin

definition wp :: "('s, 'a) dbg \<Rightarrow> ('a \<Rightarrow> DMPredictor \<Rightarrow> int \<Rightarrow> bool) \<Rightarrow> DMPredictor \<Rightarrow> int \<Rightarrow> bool" where
  "wp m Q p h \<longleftrightarrow> (\<forall>d. reps (t_state d) p \<longrightarrow> tracked_hartsel d = h \<longrightarrow>
     (\<exists>x d' q. m d = Some (Inr x, d') \<and> reps (t_state d') q \<and> Q x q (tracked_hartsel d')))"

lemma wp_mono: "wp m Q p h \<Longrightarrow> (\<And>x q k. Q x q k \<Longrightarrow> Q' x q k) \<Longrightarrow> wp m Q' p h"
  unfolding wp_def by blast

lemma wp_return: "Q x p h \<Longrightarrow> wp (returnD x) Q p h"
  by (auto simp: wp_def)

lemma wp_get_hartsel: "Q h p h \<Longrightarrow> wp get_hartsel Q p h"
  by (auto simp: wp_def)

lemma wp_set_hartsel: "Q () p k \<Longrightarrow> wp (set_hartsel k) Q p h"
  by (auto simp: wp_def)

lemma wp_read_clock: "(\<And>t. Q (clk t) p h) \<Longrightarrow> wp (read_clock clk) Q p h"
  by (auto simp: wp_def read_clock_def)

lemma wp_monotonic: "(\<And>t. Q (t_monotonic T t) p h) \<Longrightarrow> wp (monotonic T) Q p h"
  by (auto simp: wp_def)

lemma wp_get_predictor:
  assumes "\<And>s p. reps s p \<Longrightarrow> pred s \<in> {None, Some p}" "\<And>x. x \<in> {None, Some p} \<Longrightarrow> Q x p h"
  shows "wp (get_predictor pred) Q p h"
  unfolding wp_def get_predictor_def
  by (intro allI impI exI conjI, rule refl, assumption) (use assms in \<open>simp only:\<close>)

lemma wp_if: "(b \<Longrightarrow> wp m Q p h) \<Longrightarrow> (\<not> b \<Longrightarrow> wp n Q p h) \<Longrightarrow> wp (if b then m else n) Q p h"
  by simp

lemma wp_case_option:
  "(x = None \<Longrightarrow> wp m Q p h) \<Longrightarrow> (\<And>y. x = Some y \<Longrightarrow> wp (f y) Q p h) \<Longrightarrow> wp (case x of None \<Rightarrow> m | Some y \<Rightarrow> f y) Q p h"
  by (cases x) simp_all

lemma wp_bind: "wp m (\<lambda>x. wp (f x) Q) p h \<Longrightarrow> wp (bindD m f) Q p h"
  unfolding wp_def by (metis bindD_simps(1))

lemma wp_seq: "wp m (\<lambda>_. wp n Q) p h \<Longrightarrow> wp (seqD m n) Q p h"
  unfolding seqD_def by (rule wp_bind)

lemma wp_try: "wp m Q p h \<Longrightarrow> wp (tryD m handler) Q p h"
  unfolding wp_def tryD_def by fastforce

lemma wp_predicted_by: "has_model q a \<Longrightarrow> Q (predict q a) p h \<Longrightarrow> wp (predicted_by q a) Q p h"
  unfolding predicted_by_def by (simp add: expect_def wp_return)

lemma wp_expected:
  assumes "\<And>s p. reps s p \<Longrightarrow> pred s \<in> {None, Some p}" "has_model p a" "Q None p h" "Q (Some (predict p a)) p h"
  shows "wp (expected pred a) Q p h"
  unfolding expected_def using assms
  by (intro wp_bind wp_get_predictor) (auto intro!: wp_return wp_bind wp_predicted_by)

lemma wp_dmi_write: "Q () (on_write a v p) h \<Longrightarrow> wp (dmi_write T a v) Q p h"
  unfolding wp_def by (metis dmi_write_run RISCVDebug.select_convs(1,2) RISCVDebug.surjective RISCVDebug.update_convs(1))

lemma wp_dmi_read: "has_model p a \<Longrightarrow> Q (predict p a) (rd a p) h \<Longrightarrow> wp (dmi_read T a) Q p h"
  unfolding wp_def by (metis dmi_read_run RISCVDebug.select_convs(1,2) RISCVDebug.surjective RISCVDebug.update_convs(1))

lemma wp_any_of_range: "wp m (\<lambda>b q k. b \<and> Q b q k) p h \<Longrightarrow> 0 < n \<Longrightarrow> wp (any_of_range n m) Q p h"
  by (cases n) (auto intro!: wp_bind elim!: wp_mono simp: wp_return)

subsection \<open>Status reads and \<^verbatim>\<open>dmcontrol\<close> writes\<close>

lemma predict_status_words:
  "predict p ADDR_DMSTATUS = expect_dmstatus p" "predict p ADDR_DMCONTROL = expect_dmcontrol p"
  "has_model p ADDR_DMSTATUS" "has_model p ADDR_DMCONTROL"
  by (simp_all add: predict_def has_model_def is_data_def is_progbuf_def)

lemma wp_status_reads:
  "Q (expect_dmstatus p) p h \<Longrightarrow> wp (dmi_read T ADDR_DMSTATUS) Q p h"
  "Q (expect_dmcontrol p) p h \<Longrightarrow> wp (dmi_read T ADDR_DMCONTROL) Q p h"
  by (rule wp_dmi_read; simp only: predict_status_words quiet_reads insert_iff simp_thms)+

lemma wp_read_dmstatus: "Q (expect_dmstatus p) p h \<Longrightarrow> wp (read_dmstatus T) Q p h"
  unfolding read_dmstatus_def by (rule wp_status_reads)

lemma wp_read_dmcontrol: "Q (expect_dmcontrol p) p h \<Longrightarrow> wp (read_dmcontrol T) Q p h"
  unfolding read_dmcontrol_def by (rule wp_status_reads)

lemma wp_expected_dmstatus:
  assumes "\<And>s p. reps s p \<Longrightarrow> pred s \<in> {None, Some p}" "\<And>w. w \<in> {None, Some (expect_dmstatus p)} \<Longrightarrow> Q w p h"
  shows "wp (expected pred ADDR_DMSTATUS) Q p h"
  by (rule wp_expected [OF assms(1)]) (simp_all add: predict_status_words assms(2) del: ADDR_DMSTATUS_def)

lemma wp_predicted_dmstatus: "Q (expect_dmstatus q) p h \<Longrightarrow> wp (predicted_by q ADDR_DMSTATUS) Q p h"
  by (rule wp_predicted_by) (simp_all only: predict_status_words)

lemma wp_is_halted: "Q (allhalted (expect_dmstatus p)) p h \<Longrightarrow> wp (is_halted T) Q p h"
  unfolding is_halted_def by (intro wp_bind wp_status_reads wp_return)

lemma wp_is_running: "Q (allrunning (expect_dmstatus p)) p h \<Longrightarrow> wp (is_running T) Q p h"
  unfolding is_running_def by (intro wp_bind wp_status_reads wp_return)

lemma wp_write_dmcontrol:
  "a_dmactive a \<Longrightarrow> Q () (dmcontrol_next (dmcontrol a) p) h \<Longrightarrow> wp (dmi_write T ADDR_DMCONTROL (dmcontrol a)) Q p h"
  by (rule wp_dmi_write) (simp only: dmcontrol_next_dmcontrol)

lemma wp_write_args:
  "a_dmactive (args h) \<Longrightarrow> Q () (dmcontrol_next (dmcontrol (args h)) p) h \<Longrightarrow> wp (write_args T args) Q p h"
  unfolding write_args_def by (intro wp_bind wp_get_hartsel wp_write_dmcontrol)

lemma wp_put_dmcontrol:
  assumes "Q () (dmcontrol_next (dmcontrol (flds\<lparr>a_dmactive := True, a_hartsel := h\<rparr>)) p) h"
  shows "wp (put_dmcontrol T flds) Q p h"
  unfolding put_dmcontrol_def put_fields_def write_dmcontrol_fields_def Let_def using assms
  by (intro wp_bind wp_seq wp_get_hartsel wp_write_dmcontrol wp_return) simp_all

lemma wp_dmstatus_poll:
  assumes "predicate (expect_dmstatus p) = Inr True" "Q () p h"
  shows "wp (poll_until T predicate ADDR_DMSTATUS what timeout) Q p h"
  unfolding wp_def
proof (intro allI impI)
  fix d :: "'s RISCVDebug" assume d: "reps (t_state d) p" "tracked_hartsel d = h"
  obtain s' where "poll_until T predicate ADDR_DMSTATUS what timeout d =
      Some (Inr (), d\<lparr>t_state := s', clock_reads := Suc (clock_reads d)\<rparr>)" "reps s' p"
    by (rule dmstatus_poll_run [where d = d and p = p and predicate = predicate]) (rule d assms)+
  then show "\<exists>x d' q. poll_until T predicate ADDR_DMSTATUS what timeout d = Some (Inr x, d') \<and>
      reps (t_state d') q \<and> Q x q (tracked_hartsel d')"
    using assms(2) d(2) by fastforce
qed

end

subsection \<open>The selected hart as a machine of its own\<close>

record hart_view =
  v_ndm :: bool
  v_hartreset :: bool
  v_halted :: bool
  v_ack :: bool
  v_havereset :: bool
  v_haltreq :: bool
  v_rhr :: bool

definition view :: "DMPredictor \<Rightarrow> nat \<Rightarrow> hart_view" where
  "view p i = (let h = harts p ! i in
     \<lparr>v_ndm = ndmreset p, v_hartreset = hartreset_level p, v_halted = halted h, v_ack = resume_ack h,
      v_havereset = havereset h, v_haltreq = halt_request h, v_rhr = reset_haltreq h\<rparr>)"

text \<open>
  One \<^verbatim>\<open>dmcontrol\<close> write that keeps the hart selected, with no single step armed; \<open>hor\<close>, \<open>shr\<close> and
  \<open>rack\<close> are the configuration (halt-on-reset, \<^verbatim>\<open>hartreset\<close>, resume acknowledge at reset).
\<close>

definition sel_step :: "bool \<Rightarrow> bool \<Rightarrow> bool \<Rightarrow> dmcontrol_args \<Rightarrow> hart_view \<Rightarrow> hart_view" where
  "sel_step hor shr rack a v =
     (let now = a_ndmreset a; hr = (a_hartreset a \<and> shr);
          pending = (v_rhr v \<or> v_haltreq v);
          halt0 = (if hr \<noteq> v_hartreset v then \<not> hr \<and> pending
                   else if now \<noteq> v_ndm v then \<not> now \<and> pending else v_halted v);
          ack0 = (if now \<and> \<not> v_ndm v \<or> hr \<and> \<not> v_hartreset v then rack else v_ack v)
      in \<lparr>v_ndm = now, v_hartreset = hr,
          v_halted = (\<not> now \<and> \<not> hr \<and> (a_haltreq a \<or> halt0 \<and> \<not> a_resumereq a)),
          v_ack = (if a_resumereq a \<and> \<not> a_haltreq a then halt0 else ack0),
          v_havereset = ((v_havereset v \<or> now \<noteq> v_ndm v \<or> \<not> hr \<and> v_hartreset v) \<and> \<not> a_ackhavereset a),
          v_haltreq = a_haltreq a,
          v_rhr = (if hor \<and> a_clrresethaltreq a then False
                   else if hor \<and> a_setresethaltreq a then True else v_rhr v)\<rparr>)"

text \<open>What the sequences rely on: hart \<open>i\<close> exists and its reset signal is the level last written.\<close>

definition seq_ready :: "DMPredictor \<Rightarrow> nat \<Rightarrow> bool" where
  "seq_ready p i \<longleftrightarrow> reachable p \<and> i < length (harts p) \<and> int i < 2 ^ 20 \<and> \<not> step_armed p \<and>
     hart_reset (harts p ! i) = hartreset_level p"

lemma step_armed_next: "\<not> step_armed p \<Longrightarrow> \<not> step_armed (dmcontrol_next v p)"
  by (simp add: step_armed_def dmcontrol_next_def dict_get_def)

lemma seq_ready_hartsel: "seq_ready p i \<Longrightarrow> take_bit 20 (int i) = int i"
  by (simp add: seq_ready_def take_bit_int_eq_self)

lemma hart_reset_next_eq:
  assumes "seq_ready p i" "a_hartsel a = int i"
  shows "hart_reset (hart_next p (dmcontrol a) i (harts p ! i)) = (a_hartreset a \<and> supports_hartreset p)"
  using assms seq_ready_hartsel [OF assms(1)]
  by (auto simp: seq_ready_def hart_next_def hart_ready_def hart_base_def hart_hartreset_def release_from_reset_def Let_def)

lemma seq_ready_next:
  assumes "seq_ready p i" "a_dmactive a" "a_hartsel a = int i"
  shows "seq_ready (dmcontrol_next (dmcontrol a) p) i"
  using assms hart_reset_next_eq [OF assms(1,3)] reachable_next step_armed_next by (simp add: seq_ready_def)

text \<open>The stages of a write, field by field.\<close>

lemma ndmreset_stage:
  "halted (hart_ndmreset now was rack h) =
     (if now \<and> \<not> was then False else if \<not> now \<and> was \<and> \<not> nonexistent h then reset_haltreq h \<or> halt_request h else halted h)"
  "resume_ack (hart_ndmreset now was rack h) = (if now \<and> \<not> was then rack else resume_ack h)"
  "halt_request (hart_ndmreset now was rack h) = halt_request h"
  "available (hart_ndmreset now was rack h) = available h"
  "unavail_sticky (hart_ndmreset now was rack h) = unavail_sticky h"
  by (auto simp: hart_ndmreset_def release_from_reset_def Let_def)

lemma hartreset_stage:
  "halted (hart_hartreset now was rack h) =
     (if now \<and> \<not> was then False else if \<not> now \<and> was \<and> \<not> nonexistent h then reset_haltreq h \<or> halt_request h else halted h)"
  "resume_ack (hart_hartreset now was rack h) = (if now \<and> \<not> was then rack else resume_ack h)"
  "halt_request (hart_hartreset now was rack h) = halt_request h"
  "reset_haltreq (hart_hartreset now was rack h) = reset_haltreq h"
  "nonexistent (hart_hartreset now was rack h) = nonexistent h"
  "available (hart_hartreset now was rack h) = available h"
  "unavail_sticky (hart_hartreset now was rack h) = unavail_sticky h"
  by (auto simp: hart_hartreset_def release_from_reset_def Let_def)

lemma requests_stage:
  "halted (hart_requests p v h) = halted h" "running (hart_requests p v h) = running h"
  "resume_ack (hart_requests p v h) = resume_ack h" "nonexistent (hart_requests p v h) = nonexistent h"
  "halt_request (hart_requests p v h) = bit v 31" "available (hart_requests p v h) = available h"
  "unavail_sticky (hart_requests p v h) = (unavail_sticky h \<and> \<not> (bit v 27 \<and> available h))"
  "reset_haltreq (hart_requests p v h) =
     (if hasresethaltreq p \<and> bit v 2 then False else if hasresethaltreq p \<and> bit v 3 then True else reset_haltreq h)"
  by (simp_all add: hart_requests_def Let_def)

lemma run_stage:
  assumes "\<not> nonexistent h" "available h" "\<not> unavail_sticky h"
  shows "halted (hart_run v False h) =
      (if bit v 31 then halted h \<or> running h else halted h \<and> \<not> bit v 30)"
    "resume_ack (hart_run v False h) = (if bit v 30 \<and> \<not> bit v 31 then halted h else resume_ack h)"
    "halt_request (hart_run v False h) = halt_request h" "reset_haltreq (hart_run v False h) = reset_haltreq h"
    "nonexistent (hart_run v False h) = nonexistent h"
  using assms by (auto simp: hart_run_def hart_resume_def halt_hart_def unavail_def)

lemma settle_stage:
  "halted (hart_settle ndm h) = (halted h \<and> \<not> ndm \<and> \<not> (hart_reset h \<and> \<not> nonexistent h))"
  "resume_ack (hart_settle ndm h) = resume_ack h" "halt_request (hart_settle ndm h) = halt_request h"
  by (simp_all add: hart_settle_def)

lemma running_ready:
  assumes "hart_ok (ndmreset p) h" "\<not> is_nonexistent p (int i)" "hart_reset h = hartreset_level p"
    "\<not> (bit v 29 \<and> supports_hartreset p)"
  shows "halted (hart_ready p v i h) \<or> running (hart_ready p v i h)"
  using assms by (auto simp: hart_ready_def hart_base_def requests_stage hart_hartreset_def hart_ndmreset_def
      release_from_reset_def Let_def hart_ok_def)

lemma ready_fields:
  assumes "\<not> is_nonexistent p (int i)"
  shows "halted (hart_ready p v i h) =
      (if (bit v 29 \<and> supports_hartreset p) \<noteq> hartreset_level p
       then \<not> (bit v 29 \<and> supports_hartreset p) \<and> (reset_haltreq h \<or> halt_request h)
       else if bit v 1 \<noteq> ndmreset p then \<not> bit v 1 \<and> (reset_haltreq h \<or> halt_request h) else halted h)"
    "resume_ack (hart_ready p v i h) =
      (if bit v 1 \<and> \<not> ndmreset p \<or> (bit v 29 \<and> supports_hartreset p) \<and> \<not> hartreset_level p
       then resumeack_reset p else resume_ack h)"
    "havereset (hart_ready p v i h) =
      ((havereset h \<or> bit v 1 \<noteq> ndmreset p \<or> \<not> (bit v 29 \<and> supports_hartreset p) \<and> hartreset_level p) \<and> \<not> bit v 28)"
  using assms by (auto simp: hart_ready_def hart_base_def requests_stage hartreset_stage ndmreset_stage)

lemma ready_requests:
  "halt_request (hart_ready p v i h) = bit v 31"
  "reset_haltreq (hart_ready p v i h) =
     (if hasresethaltreq p \<and> bit v 2 then False else if hasresethaltreq p \<and> bit v 3 then True else reset_haltreq h)"
  by (simp_all add: hart_ready_def hart_base_def requests_stage hartreset_stage)

lemma view_next:
  assumes "seq_ready p i" "a_dmactive a" "a_hartsel a = int i"
  shows "view (dmcontrol_next (dmcontrol a) p) i =
    sel_step (hasresethaltreq p) (supports_hartreset p) (resumeack_reset p) a (view p i)"
proof -
  let ?h = "harts p ! i" and ?v = "dmcontrol a"
  let ?r = "hart_ready p ?v i ?h"
  have r: "hart_ok (ndmreset p) ?h" "\<not> is_nonexistent p (int i)" "hart_reset ?h = hartreset_level p" "\<not> step_armed p"
    "i < length (harts p)"
    using assms(1) reachable_hart [of p i] by (auto simp: seq_ready_def)
  have n: "hart_next p ?v i ?h = hart_settle (a_ndmreset a) (hart_run ?v False ?r)"
    using assms(3) seq_ready_hartsel [OF assms(1)] r(4) by (simp add: hart_next_def)
  have avail: "\<not> nonexistent ?r" "available ?r" "\<not> unavail_sticky ?r"
    using hart_okD [OF r(1)] r(2) by (simp_all add: hart_ready_def hart_base_def requests_stage hartreset_stage ndmreset_stage)
  have hr: "hart_reset (hart_run ?v False ?r) = (a_hartreset a \<and> supports_hartreset p)"
    using hart_reset_next_eq [OF assms(1,3)] unfolding n by simp
  have "halted (hart_next p ?v i ?h) = (\<not> a_ndmreset a \<and> \<not> (a_hartreset a \<and> supports_hartreset p) \<and>
      (a_haltreq a \<or> halted ?r \<and> \<not> a_resumereq a))"
    using running_ready [OF r(1-3), of ?v] avail(1) hr unfolding n by (auto simp: settle_stage run_stage [OF avail])
  moreover have "resume_ack (hart_next p ?v i ?h) = (if a_resumereq a \<and> \<not> a_haltreq a then halted ?r else resume_ack ?r)"
    "halt_request (hart_next p ?v i ?h) = halt_request ?r" "reset_haltreq (hart_next p ?v i ?h) = reset_haltreq ?r"
    "havereset (hart_next p ?v i ?h) = havereset ?r"
    unfolding n by (simp_all add: settle_stage run_stage [OF avail])
  ultimately show ?thesis
    using r(5) by (intro hart_view.equality) (auto simp: view_def sel_step_def Let_def ready_fields [OF r(2)] ready_requests)
qed

text \<open>A write that selects another hart reaches this one through the reset level only.\<close>

definition other_step :: "bool \<Rightarrow> dmcontrol_args \<Rightarrow> hart_view \<Rightarrow> hart_view" where
  "other_step rack a v =
     (let now = a_ndmreset a in
      v\<lparr>v_ndm := now,
        v_halted := (if now \<noteq> v_ndm v then \<not> now \<and> (v_rhr v \<or> v_haltreq v) else v_halted v),
        v_ack := (if now \<and> \<not> v_ndm v then rack else v_ack v),
        v_havereset := (v_havereset v \<or> now \<noteq> v_ndm v)\<rparr>)"

lemma view_other:
  assumes "seq_ready p j" "a_dmactive a" "take_bit 20 (a_hartsel a) \<noteq> int j" "\<not> a_hartreset a" "\<not> hartreset_level p"
  shows "view (dmcontrol_next (dmcontrol a) p) j = other_step (resumeack_reset p) a (view p j)"
    "seq_ready (dmcontrol_next (dmcontrol a) p) j"
proof -
  let ?h = "harts p ! j" and ?v = "dmcontrol a"
  have r: "hart_ok (ndmreset p) ?h" "\<not> is_nonexistent p (int j)" "\<not> hart_reset ?h" "j < length (harts p)"
    using assms(1,5) reachable_hart [of p j] by (auto simp: seq_ready_def)
  have n: "hart_next p ?v j ?h = hart_settle (a_ndmreset a) (hart_base p ?v j ?h)"
    using assms(3) by (simp add: hart_next_def)
  have hr: "\<not> hart_reset (hart_base p ?v j ?h)" using r by (simp add: hart_base_def)
  show "view (dmcontrol_next ?v p) j = other_step (resumeack_reset p) a (view p j)"
    using r(2,4) hart_okD [OF r(1)] hr assms(4,5) unfolding view_def nth_dmcontrol_next [OF r(4)] n
    by (auto simp: other_step_def settle_stage hart_base_def ndmreset_stage Let_def)
  show "seq_ready (dmcontrol_next ?v p) j"
    using assms reachable_next step_armed_next hr r(4) unfolding seq_ready_def nth_dmcontrol_next [OF r(4)] n by simp
qed

subsection \<open>States a sequence can be in\<close>

text \<open>
  \<open>at i c v p\<close>: hart \<open>i\<close> is selected and seen as \<open>v\<close>, the module is active and its configuration is \<open>c\<close>
  (version, number of harts, halt-on-reset, \<^verbatim>\<open>hartreset\<close>, resume acknowledge at reset).
\<close>

type_synonym seq_config = "int \<times> int \<times> bool \<times> bool \<times> bool"

definition seq_config :: "DMPredictor \<Rightarrow> seq_config" where
  "seq_config p = (version p, num_harts p, hasresethaltreq p, supports_hartreset p, resumeack_reset p)"

definition at :: "nat \<Rightarrow> seq_config \<Rightarrow> hart_view \<Rightarrow> DMPredictor \<Rightarrow> bool" where
  "at i c v p \<longleftrightarrow> seq_ready p i \<and> dmactive p \<and> hartsel p = int i \<and> seq_config p = c \<and> view p i = v"

definition c_step :: "seq_config \<Rightarrow> dmcontrol_args \<Rightarrow> hart_view \<Rightarrow> hart_view" where
  "c_step c a v = (case c of (_, _, hor, shr, rack) \<Rightarrow> sel_step hor shr rack a v)"

lemma seq_config_next [simp]: "seq_config (dmcontrol_next v p) = seq_config p"
  by (simp add: seq_config_def dmcontrol_next_def)

lemma enter_next:
  assumes "seq_ready p i" "a_dmactive a" "a_hartsel a = int i"
  shows "at i (seq_config p) (c_step (seq_config p) a (view p i)) (dmcontrol_next (dmcontrol a) p)"
  using seq_ready_next [OF assms] view_next [OF assms] seq_ready_hartsel [OF assms(1)] assms
  by (simp add: at_def seq_config_def [of p] c_step_def)

lemma at_next:
  assumes "at i c v p" "a_dmactive a" "a_hartsel a = int i"
  shows "at i c (c_step c a v) (dmcontrol_next (dmcontrol a) p)"
  using enter_next [of p i a] assms by (simp add: at_def)

lemma at_status:
  assumes "at i c v p"
  shows "allhalted (expect_dmstatus p) = v_halted v" "anyhalted (expect_dmstatus p) = v_halted v"
    "allrunning (expect_dmstatus p) = (\<not> v_halted v)" "anyrunning (expect_dmstatus p) = (\<not> v_halted v)"
    "allresumeack (expect_dmstatus p) = v_ack v" "anyresumeack (expect_dmstatus p) = v_ack v"
    "allhavereset (expect_dmstatus p) = v_havereset v" "anyhavereset (expect_dmstatus p) = v_havereset v"
    "ndmresetpending (expect_dmstatus p) = (fst c \<ge> 3 \<and> v_ndm v)"
    "hasresethaltreq_of (expect_dmstatus p) = fst (snd (snd c))"
    "version_of (expect_dmstatus p) = take_bit 4 (fst c)"
proof -
  have r: "hartsel p = int i" "i < length (harts p)" "running (harts p ! i) = (\<not> halted (harts p ! i))"
    using assms hart_okD(4) [OF reachable_hart(1), of p i] by (auto simp: at_def seq_ready_def)
  have v: "v = view p i" "c = seq_config p" using assms by (simp_all add: at_def)
  note s = dmstatus_bits sel_is_def selected_hart_def r v view_def Let_def seq_config_def
  show "allhalted (expect_dmstatus p) = v_halted v" "anyhalted (expect_dmstatus p) = v_halted v"
    "allrunning (expect_dmstatus p) = (\<not> v_halted v)" "anyrunning (expect_dmstatus p) = (\<not> v_halted v)"
    "allresumeack (expect_dmstatus p) = v_ack v" "anyresumeack (expect_dmstatus p) = v_ack v"
    "allhavereset (expect_dmstatus p) = v_havereset v" "anyhavereset (expect_dmstatus p) = v_havereset v"
    "ndmresetpending (expect_dmstatus p) = (fst c \<ge> 3 \<and> v_ndm v)"
    "hasresethaltreq_of (expect_dmstatus p) = fst (snd (snd c))"
    by (simp_all add: s allhalted_def anyhalted_def allrunning_def anyrunning_def allresumeack_def anyresumeack_def
        allhavereset_def anyhavereset_def ndmresetpending_def hasresethaltreq_of_def)
  show "version_of (expect_dmstatus p) = take_bit 4 (fst c)"
    by (simp add: version_of_def dmstatus_version v seq_config_def)
qed

lemma at_control:
  assumes "at i c v p"
  shows "dmcontrol_hartreset (expect_dmcontrol p) = v_hartreset v" "dmcontrol_dmactive (expect_dmcontrol p)"
    "bit (expect_dmcontrol p) 0"
proof -
  have "rc_inv p" "dmactive p" "v_hartreset v = hartreset_level p"
    using assms reachable_rc_inv by (auto simp: at_def seq_ready_def view_def Let_def)
  then show "dmcontrol_hartreset (expect_dmcontrol p) = v_hartreset v" "dmcontrol_dmactive (expect_dmcontrol p)"
    "bit (expect_dmcontrol p) 0"
    by (auto simp: dmcontrol_bits dmcontrol_hartreset_def dmcontrol_dmactive_def rc_inv_def)
qed

text \<open>Writes outside \<^verbatim>\<open>dmcontrol\<close> leave run control alone, unless they arm a single step.\<close>

lemma at_other_write:
  assumes "at i c v p" "a \<noteq> ADDR_DMCONTROL" "\<not> step_armed (on_write a w p)"
  shows "at i c v (on_write a w p)"
proof -
  have "rc_view (on_write a w p) = rc_view p" by (rule rc_view_on_write [OF assms(2)])
  moreover have "reachable (on_write a w p)"
    using assms(1) reachable.dmi_write by (auto simp: at_def seq_ready_def)
  ultimately show ?thesis
    using assms(1,3) by (simp add: at_def seq_ready_def view_def seq_config_def rc_view_def)
qed

lemma read_command_step: "\<not> step_armed p \<Longrightarrow> \<not> step_armed (on_write ADDR_COMMAND (read_gpr_command r) p)"
proof (cases "observed_cmdbusy p")
  case True
  moreover assume "\<not> step_armed p"
  ultimately show ?thesis by (simp add: on_write_def guarded_while_busy_def)
next
  case False
  assume "\<not> step_armed p"
  with on_write_command [OF False, of 2 False r] show ?thesis
    by (simp add: command_words execute_lo_def execute_hi_def step_armed_def split: option.splits if_splits)
qed

subsection \<open>The requests of the command library\<close>

definition halt_args :: "int \<Rightarrow> dmcontrol_args" where
  "halt_args h = dmcontrol_defaults\<lparr>a_dmactive := True, a_haltreq := True, a_hartsel := h\<rparr>"

definition resume_args :: "int \<Rightarrow> dmcontrol_args" where
  "resume_args h = dmcontrol_defaults\<lparr>a_dmactive := True, a_resumereq := True, a_hartsel := h\<rparr>"

definition activate_args :: dmcontrol_args where
  "activate_args = dmcontrol_defaults\<lparr>a_dmactive := True, a_ackhavereset := True\<rparr>"

lemmas seq_args = halt_args_def resume_args_def activate_args_def idle_args_def

lemma c_step_halted:
  "a_haltreq a \<Longrightarrow> \<not> a_ndmreset a \<Longrightarrow> \<not> a_hartreset a \<Longrightarrow> v_halted (c_step c a v)"
  "a_resumereq a \<Longrightarrow> \<not> a_haltreq a \<Longrightarrow> \<not> v_halted (c_step c a v)"
  by (simp_all add: c_step_def sel_step_def Let_def split: prod.split)

lemmas view_step_simps = c_step_def sel_step_def Let_def seq_args split_beta

text \<open>A state from which a session can start on hart \<open>i\<close>, by activating the module with hart 0 selected.\<close>

definition startable :: "DMPredictor \<Rightarrow> nat \<Rightarrow> bool" where
  "startable p i \<longleftrightarrow> reachable p \<and> i < length (harts p) \<and> int i < 2 ^ 20 \<and> \<not> step_armed p \<and>
     \<not> hartreset_level p \<and> \<not> hart_reset (harts p ! i) \<and> \<not> hart_reset (harts p ! 0) \<and> take_bit 4 (version p) \<noteq> 0"

lemma startable_ready: "startable p i \<Longrightarrow> seq_ready p i" "startable p i \<Longrightarrow> seq_ready p 0"
  by (auto simp: startable_def seq_ready_def)

lemma startable_view: "startable p i \<Longrightarrow> \<not> v_hartreset (view p j)"
  by (simp add: startable_def view_def Let_def)

lemma startable_next:
  assumes "startable p i" "a_dmactive a" "\<not> a_hartreset a"
  shows "startable (dmcontrol_next (dmcontrol a) p) i"
proof -
  have "\<not> hart_reset (hart_next p (dmcontrol a) j (harts p ! j))" if "j = i \<or> j = 0" for j
    using hart_reset_next [of "dmcontrol a" p j "harts p ! j"] that assms(1,3) by (auto simp: startable_def)
  moreover have "0 < length (harts p)" using assms(1) by (auto simp: startable_def)
  ultimately show ?thesis
    using assms reachable_next step_armed_next by (simp add: startable_def)
qed

text \<open>
  What no \<^verbatim>\<open>dmcontrol\<close> write changes while the module stays active (a resume forgets the register
  values).
\<close>

definition rest :: "DMPredictor \<Rightarrow> DMPredictor" where
  "rest p = p\<lparr>shadow_regs := Map.empty, shadow_hi := Map.empty, harts := [], dmactive := False, ndmreset := False, hartsel := 0, hasel := False, hartreset_level := False\<rparr>"

lemma rest_next [simp]: "rest (dmcontrol_next v p) = rest p"
  by (simp add: rest_def dmcontrol_next_def map_harts_def)

context dm_target
begin

lemma wp_halt_rest:
  assumes "at i c v p"
    and "\<And>q. at i c (c_step c (idle_args (int i)) (c_step c (halt_args (int i)) v)) q \<Longrightarrow> rest q = rest p \<Longrightarrow> Q () q (int i)"
  shows "wp (halt T timeout) Q p (int i)"
proof -
  let ?q = "dmcontrol_next (dmcontrol (halt_args (int i))) p"
  have q: "at i c (c_step c (halt_args (int i)) v) ?q"
    by (rule at_next [OF assms(1)]) (simp_all add: halt_args_def)
  have "allhalted (expect_dmstatus ?q)" using at_status(1) [OF q] c_step_halted(1) by (simp add: halt_args_def)
  moreover have "Q () (dmcontrol_next (dmcontrol (idle_args (int i))) ?q) (int i)"
    by (rule assms(2), rule at_next [OF q]) simp_all
  ultimately show ?thesis
    unfolding halt_def halt_args_def idle_args_def
    by (intro wp_seq wp_write_args wp_dmstatus_poll) (simp_all add: dmcontrol_defaults_def)
qed

lemma wp_halt:
  assumes "at i c v p"
    and "\<And>q. at i c (c_step c (idle_args (int i)) (c_step c (halt_args (int i)) v)) q \<Longrightarrow> Q () q (int i)"
  shows "wp (halt T timeout) Q p (int i)"
  using assms by (rule wp_halt_rest)

lemma wp_resume_rest:
  assumes "at i c v p"
    and "\<And>q. at i c (c_step c (idle_args (int i)) (c_step c (resume_args (int i)) v)) q \<Longrightarrow> rest q = rest p \<Longrightarrow> Q () q (int i)"
  shows "wp (resume T timeout) Q p (int i)"
proof -
  let ?q = "dmcontrol_next (dmcontrol (resume_args (int i))) p"
  have q: "at i c (c_step c (resume_args (int i)) v) ?q"
    by (rule at_next [OF assms(1)]) (simp_all add: resume_args_def)
  have "allrunning (expect_dmstatus ?q)" using at_status(3) [OF q] c_step_halted(2) by (simp add: resume_args_def)
  moreover have "Q () (dmcontrol_next (dmcontrol (idle_args (int i))) ?q) (int i)"
    by (rule assms(2), rule at_next [OF q]) simp_all
  ultimately show ?thesis
    unfolding resume_def resume_args_def idle_args_def
    by (intro wp_seq wp_write_args wp_dmstatus_poll) (simp_all add: dmcontrol_defaults_def)
qed

lemma wp_resume:
  assumes "at i c v p"
    and "\<And>q. at i c (c_step c (idle_args (int i)) (c_step c (resume_args (int i)) v)) q \<Longrightarrow> Q () q (int i)"
  shows "wp (resume T timeout) Q p (int i)"
  using assms by (rule wp_resume_rest)

lemma wp_write_at:
  assumes "at i c v p"
    and "\<And>q. at i c (c_step c (flds\<lparr>a_dmactive := True, a_hartsel := int i\<rparr>) v) q \<Longrightarrow> Q () q (int i)"
  shows "wp (write_args T (\<lambda>h. flds\<lparr>a_dmactive := True, a_hartsel := h\<rparr>)) Q p (int i)"
  by (intro wp_write_args assms(2) at_next [OF assms(1)]) simp_all

lemma wp_library_writes:
  "at i c v p \<Longrightarrow> (\<And>q. at i c (c_step c (dmcontrol_defaults\<lparr>a_dmactive := True, a_ndmreset := b, a_hartsel := int i\<rparr>) v) q \<Longrightarrow>
     Q () q (int i)) \<Longrightarrow> wp (ndmreset_level T b) Q p (int i)"
  "at i c v p \<Longrightarrow> (\<And>q. at i c (c_step c (dmcontrol_defaults\<lparr>a_dmactive := True, a_hartreset := b, a_hartsel := int i\<rparr>) v) q \<Longrightarrow>
     Q () q (int i)) \<Longrightarrow> wp (hartreset_request T b) Q p (int i)"
  "at i c v p \<Longrightarrow> (\<And>q. at i c (c_step c (dmcontrol_defaults\<lparr>a_dmactive := True, a_ackhavereset := True, a_hartsel := int i\<rparr>) v) q \<Longrightarrow>
     Q () q (int i)) \<Longrightarrow> wp (ackhavereset T) Q p (int i)"
  "at i c v p \<Longrightarrow> (\<And>q. at i c (c_step c (dmcontrol_defaults\<lparr>a_dmactive := True, a_ackunavail := True, a_hartsel := int i\<rparr>) v) q \<Longrightarrow>
     Q () q (int i)) \<Longrightarrow> wp (ackunavail T) Q p (int i)"
  "at i c v p \<Longrightarrow> (\<And>q. at i c (c_step c (dmcontrol_defaults\<lparr>a_dmactive := True, a_setresethaltreq := True, a_hartsel := int i\<rparr>) v) q \<Longrightarrow>
     Q () q (int i)) \<Longrightarrow> wp (set_reset_haltreq T) Q p (int i)"
  "at i c v p \<Longrightarrow> (\<And>q. at i c (c_step c (dmcontrol_defaults\<lparr>a_dmactive := True, a_clrresethaltreq := True, a_hartsel := int i\<rparr>) v) q \<Longrightarrow>
     Q () q (int i)) \<Longrightarrow> wp (clr_reset_haltreq T) Q p (int i)"
  unfolding ndmreset_level_def hartreset_request_def ackhavereset_def ackunavail_def set_reset_haltreq_def clr_reset_haltreq_def
  by (rule wp_write_args; simp add: at_next)+

lemma wp_put_at:
  assumes "at i c v p"
    and "\<And>q. at i c (c_step c (flds\<lparr>a_dmactive := True, a_hartsel := int i\<rparr>) v) q \<Longrightarrow> Q () q (int i)"
  shows "wp (put_dmcontrol T flds) Q p (int i)"
  by (intro wp_put_dmcontrol assms(2) at_next [OF assms(1)]) simp_all

lemma wp_activate_rest:
  assumes "startable p i"
    and "\<And>q. startable q i \<Longrightarrow> at 0 (seq_config p) (c_step (seq_config p) activate_args (view p 0)) q \<Longrightarrow>
      reset_haltreq (harts q ! i) = reset_haltreq (harts p ! i) \<Longrightarrow> rest q = rest p \<Longrightarrow> Q () q 0"
  shows "wp (activate T) Q p h"
proof -
  let ?q = "dmcontrol_next (dmcontrol activate_args) p"
  have q: "at 0 (seq_config p) (c_step (seq_config p) activate_args (view p 0)) ?q" "startable ?q i"
    using enter_next [OF startable_ready(2) [OF assms(1)], of activate_args] startable_next [OF assms(1), of activate_args]
    by (simp_all add: activate_args_def)
  have i: "i < length (harts p)" using assms(1) by (simp add: startable_def)
  have "reset_haltreq (harts ?q ! i) = reset_haltreq (harts p ! i)"
  proof (cases "i = 0")
    case True
    then have "at 0 (seq_config p) (view ?q 0) ?q" using q(1) by (simp add: at_def)
    then have "v_rhr (view ?q 0) = v_rhr (view p 0)" using q(1) by (simp add: at_def view_step_simps)
    then show ?thesis using True by (simp add: view_def Let_def)
  next
    case False
    then show ?thesis
      using hart_next_resethaltreq [of i "dmcontrol activate_args" p "harts p ! i"] i by (simp add: activate_args_def)
  qed
  moreover have "version_of (expect_dmstatus ?q) \<noteq> 0"
    using at_status(11) [OF q(1)] assms(1) by (simp add: seq_config_def startable_def)
  ultimately have "wp (if version_of (expect_dmstatus ?q) = 0 then raiseD NoDebugModule else returnD ()) Q ?q 0"
    using assms(2) q by (simp add: wp_return)
  then show ?thesis
    unfolding activate_def activate_args_def
    by (intro wp_seq wp_bind wp_set_hartsel wp_write_dmcontrol wp_status_reads) simp_all
qed

lemma wp_activate:
  assumes "startable p i"
    and "\<And>q. startable q i \<Longrightarrow> at 0 (seq_config p) (c_step (seq_config p) activate_args (view p 0)) q \<Longrightarrow>
      reset_haltreq (harts q ! i) = reset_haltreq (harts p ! i) \<Longrightarrow> Q () q 0"
  shows "wp (activate T) Q p h"
  using assms by (rule wp_activate_rest)

lemma wp_select_hart:
  assumes "startable p i"
    and "\<And>q. at i (seq_config p) (c_step (seq_config p) (idle_args (int i)) (view p i)) q \<Longrightarrow> Q () q (int i)"
  shows "wp (select_hart T (int i)) Q p h"
proof -
  have "Q () (dmcontrol_next (dmcontrol (idle_args (int i))) p) (int i)"
    using enter_next [OF startable_ready(1) [OF assms(1)], of "idle_args (int i)"] by (intro assms(2)) simp_all
  then show ?thesis
    unfolding select_hart_def idle_args_def by (intro wp_seq wp_set_hartsel wp_write_dmcontrol) simp_all
qed

end

context dm_bench
begin

lemma wp_bench_read: "(\<And>v. Q v p h) \<Longrightarrow> wp (dmi_read T a) Q p h"
  unfolding wp_def dmi_read_def using read_law [of _ p a] canned_law [of _ p a] by (cases "has_model p a") fastforce+

lemma wp_bench_wait:
  assumes "Q () p h"
  shows "wp (wait_abstractcs T timeout) Q p h"
  unfolding wp_def
proof (intro allI impI)
  fix d :: "'s RISCVDebug" assume d: "reps (t_state d) p" "tracked_hartsel d = h"
  have "predict p ADDR_ABSTRACTCS = expect_abstractcs p"
    by (simp add: predict_def is_data_def is_progbuf_def)
  then obtain v s' where "t_read T ADDR_ABSTRACTCS (t_state d) = (Inr v, s')" "reps s' p" "abstractcs_check v = Inr True"
    using read_law [OF d(1), of ADDR_ABSTRACTCS] canned_law [OF d(1), of ADDR_ABSTRACTCS] abstractcs_idle [of p]
    by (cases "has_model p ADDR_ABSTRACTCS") auto
  then have "wait_abstractcs T timeout d = Some (Inr (), d\<lparr>t_state := s', clock_reads := Suc (clock_reads d)\<rparr>)"
    by (simp add: wait_abstractcs_def poll_until_def poll_loop_accept)
  with \<open>reps s' p\<close> d(2) assms show "\<exists>x d' q. wait_abstractcs T timeout d = Some (Inr x, d') \<and>
      reps (t_state d') q \<and> Q x q (tracked_hartsel d')" by fastforce
qed

lemma wp_bench_read_gpr:
  assumes "at i c v p" "\<And>w q. at i c v q \<Longrightarrow> Q w q h"
  shows "wp (read_gpr T r) Q p h"
proof -
  have "at i c v (on_write ADDR_COMMAND (read_gpr_command r) p)"
    using assms(1) read_command_step [of p r] by (intro at_other_write) (auto simp: at_def seq_ready_def)
  then show ?thesis
    unfolding read_gpr_def by (intro wp_seq wp_dmi_write wp_bench_wait wp_bench_read assms(2))
qed

end

subsection \<open>Sessions\<close>

definition passing :: "unit step_return \<Rightarrow> bool" where
  "passing r \<longleftrightarrow> r = ReturnsNone \<or> (\<exists>s. r = ReturnsStep s \<and> ok s)"

lemma passing_simps [simp]: "passing ReturnsNone" "passing (ReturnsStep s) = ok s"
  by (simp_all add: passing_def)

text \<open>A return value that makes a step pass or fail.\<close>

definition gives :: "unit step_return \<Rightarrow> bool \<Rightarrow> bool" where
  "gives r b \<longleftrightarrow> r = ReturnsNone \<and> b \<or> (\<exists>s. r = ReturnsStep s \<and> ok s = b)"

lemma invoke_passing: "fn w = (r, w1) \<Longrightarrow> passing r \<Longrightarrow> \<exists>x. invoke fn w = (Some x, w1) \<and> ok x"
  by (auto simp: invoke_def passing_def)

lemma fold_add_step: "steps (fold (\<lambda>(n, f). add_step n f) xs s) = steps s @ xs"
  "session_mode (fold (\<lambda>(n, f). add_step n f) xs s) = session_mode s"
  "stop_on_error (fold (\<lambda>(n, f). add_step n f) xs s) = stop_on_error s"
  by (induction xs arbitrary: s) (auto simp: add_step_def)

context dm_target
begin

text \<open>The weakest precondition of a step, and of steps in a row, for passing them.\<close>

definition swp :: "('s, 'x) seq_step \<Rightarrow> ('x \<Rightarrow> DMPredictor \<Rightarrow> int \<Rightarrow> bool) \<Rightarrow> 'x \<Rightarrow> DMPredictor \<Rightarrow> int \<Rightarrow> bool" where
  "swp st Q x p h \<longleftrightarrow> (\<forall>d. reps (t_state d) p \<longrightarrow> tracked_hartsel d = h \<longrightarrow>
     (\<exists>r d' x' q. snd st (d, x) = (r, (d', x')) \<and> passing r \<and> reps (t_state d') q \<and> Q x' q (tracked_hartsel d')))"

fun steps_wp :: "('s, 'x) seq_step list \<Rightarrow> ('x \<Rightarrow> DMPredictor \<Rightarrow> int \<Rightarrow> bool) \<Rightarrow> 'x \<Rightarrow> DMPredictor \<Rightarrow> int \<Rightarrow> bool" where
  "steps_wp [] Q x p h = Q x p h"
| "steps_wp (st # sts) Q x p h = swp st (steps_wp sts Q) x p h"

lemma swp_mono: "swp st Q x p h \<Longrightarrow> (\<And>x q k. Q x q k \<Longrightarrow> Q' x q k) \<Longrightarrow> swp st Q' x p h"
  unfolding swp_def by blast

lemma steps_wp_append: "steps_wp (xs @ ys) Q x p h = steps_wp xs (steps_wp ys Q) x p h"
proof (induction xs arbitrary: x p h)
  case (Cons st xs)
  then have "steps_wp (xs @ ys) Q = steps_wp xs (steps_wp ys Q)" by blast
  then show ?case by simp
qed simp

lemma swp_dbg_step:
  "wp (m x) (\<lambda>y q k. passing (fst y) \<and> Q (snd y) q k) p h \<Longrightarrow> swp (dbg_step name m) Q x p h"
  unfolding wp_def swp_def dbg_step_def by fastforce

lemma swp_check_step: "wp m (\<lambda>r q k. passing r \<and> Q x q k) p h \<Longrightarrow> swp (check_step name m) Q x p h"
  unfolding check_step_def by (intro swp_dbg_step wp_bind) (auto intro!: wp_return elim!: wp_mono)

lemma swp_command_step: "wp m (\<lambda>_. Q x) p h \<Longrightarrow> swp (command_step name m) Q x p h"
  unfolding command_step_def by (intro swp_check_step wp_seq) (auto intro!: wp_return elim!: wp_mono)

lemma wp_step_result: "b \<and> Q p h \<Longrightarrow> wp (step_result tc b) (\<lambda>r q k. passing r \<and> Q q k) p h"
  unfolding step_result_def by (rule wp_return) simp

lemma steps_nil: "Q x p h \<Longrightarrow> steps_wp [] Q x p h"
  by simp

lemma steps_check: "wp m (\<lambda>r q k. passing r \<and> steps_wp sts Q x q k) p h \<Longrightarrow> steps_wp (check_step name m # sts) Q x p h"
  by (simp add: swp_check_step)

lemma steps_command: "wp m (\<lambda>_. steps_wp sts Q x) p h \<Longrightarrow> steps_wp (command_step name m # sts) Q x p h"
  by (simp add: swp_command_step)

lemma run_steps_wp:
  assumes "steps_wp sts Q x p h" "reps (t_state d) p" "tracked_hartsel d = h" "list_all ok res"
  shows "\<exists>res' d' x' q. run_steps Batch stop sts inp res (d, x) = (res', False, inp, (d', x')) \<and> list_all ok res' \<and>
    length res' = length res + length sts \<and> reps (t_state d') q \<and> Q x' q (tracked_hartsel d')"
  using assms
proof (induction sts arbitrary: x p h d res)
  case (Cons st sts)
  from Cons.prems obtain r d' x' q where r: "snd st (d, x) = (r, (d', x'))" "passing r" "reps (t_state d') q"
    "steps_wp sts Q x' q (tracked_hartsel d')"
    unfolding steps_wp.simps swp_def by blast
  from invoke_passing [where fn = "snd st" and w = "(d, x)"] r(1,2) obtain y where y: "invoke (snd st) (d, x) = (Some y, (d', x'))" "ok y" by blast
  show ?case
    using Cons.IH [OF r(4,3) refl, of "res @ [y]"] Cons.prems(4) y by (cases st) (auto simp: run_step_batch_def)
qed auto

lemma run_batch_wp:
  assumes "steps_wp sts Q x p h" "reps (t_state d) p" "tracked_hartsel d = h"
  shows "\<exists>s d' x' q. session_of ''batch'' stop sts = Inr s \<and> run_batch s (d, x) = (True, d') \<and>
    reps (t_state d') q \<and> Q x' q (tracked_hartsel d')"
proof -
  let ?s = "fold (\<lambda>(n, f). add_step n f) sts \<lparr>session_mode = Batch, stop_on_error = stop, steps = [], results = []\<rparr>"
  obtain res d' x' q where "run_steps Batch stop sts [] [] (d, x) = (res, False, [], (d', x'))" "list_all ok res"
    "length res = length sts" and q: "reps (t_state d') q" "Q x' q (tracked_hartsel d')"
    using run_steps_wp [OF assms, of "[]" stop "[]"] by auto
  then have "run_batch ?s (d, x) = (True, d')"
    by (simp add: run_batch_def run_session_def fold_add_step all_passed_def)
  moreover have "session_of ''batch'' stop sts = Inr ?s"
    by (simp add: session_of_def DebugSession_init_def mode_of_def)
  ultimately show ?thesis using q by blast
qed

lemma session_passes_wp:
  assumes "steps_wp sts Q x p h" "reps (t_state d) p" "tracked_hartsel d = h"
  shows "\<exists>s. session_of ''batch'' stop sts = Inr s \<and> session_passes s (d, x)"
  using run_batch_wp [OF assms, of stop] by (auto simp: session_passes_def)

text \<open>The same for a given verdict of each step, in a session that goes on after a failed step.\<close>

definition vwp :: "('s, 'x) seq_step \<Rightarrow> bool \<Rightarrow> ('x \<Rightarrow> DMPredictor \<Rightarrow> int \<Rightarrow> bool) \<Rightarrow> 'x \<Rightarrow> DMPredictor \<Rightarrow> int \<Rightarrow> bool" where
  "vwp st b Q x p h \<longleftrightarrow> (\<forall>d. reps (t_state d) p \<longrightarrow> tracked_hartsel d = h \<longrightarrow>
     (\<exists>r d' x' q. snd st (d, x) = (r, (d', x')) \<and> gives r b \<and> reps (t_state d') q \<and> Q x' q (tracked_hartsel d')))"

fun verdicts_wp ::
  "('s, 'x) seq_step list \<Rightarrow> bool list \<Rightarrow> ('x \<Rightarrow> DMPredictor \<Rightarrow> int \<Rightarrow> bool) \<Rightarrow> 'x \<Rightarrow> DMPredictor \<Rightarrow> int \<Rightarrow> bool" where
  "verdicts_wp [] bs Q x p h \<longleftrightarrow> bs = [] \<and> Q x p h"
| "verdicts_wp (st # sts) bs Q x p h \<longleftrightarrow> (\<exists>b bs'. bs = b # bs' \<and> vwp st b (verdicts_wp sts bs' Q) x p h)"

lemma vwp_check_step: "wp m (\<lambda>r q k. gives r b \<and> Q x q k) p h \<Longrightarrow> vwp (check_step name m) b Q x p h"
  unfolding wp_def vwp_def check_step_def dbg_step_def by (fastforce simp: bindD_def)

lemma vwp_command_step: "wp m (\<lambda>_. Q x) p h \<Longrightarrow> vwp (command_step name m) True Q x p h"
  unfolding command_step_def by (intro vwp_check_step wp_seq) (auto intro!: wp_return elim!: wp_mono simp: gives_def)

lemma verdicts_check:
  "wp m (\<lambda>r q k. gives r b \<and> verdicts_wp sts bs Q x q k) p h \<Longrightarrow> verdicts_wp (check_step name m # sts) (b # bs) Q x p h"
  by (simp add: vwp_check_step)

lemma verdicts_command:
  "wp m (\<lambda>_. verdicts_wp sts bs Q x) p h \<Longrightarrow> verdicts_wp (command_step name m # sts) (True # bs) Q x p h"
  unfolding verdicts_wp.simps
  by (rule exI [of _ True], rule exI [of _ bs], rule conjI [OF refl], rule vwp_command_step)

lemma wp_step_verdict: "b = c \<and> Q p h \<Longrightarrow> wp (step_result tc b) (\<lambda>r q k. gives r c \<and> Q q k) p h"
  unfolding step_result_def by (rule wp_return) (simp add: gives_def)

lemma run_steps_verdicts:
  assumes "verdicts_wp sts bs Q x p h" "reps (t_state d) p" "tracked_hartsel d = h"
  shows "\<exists>res' w. run_steps Batch False sts inp res (d, x) = (res', False, inp, w) \<and> map ok res' = map ok res @ bs"
  using assms
proof (induction sts arbitrary: bs x p h d res)
  case (Cons st sts)
  from Cons.prems obtain b bs' r d' x' q where r: "bs = b # bs'" "snd st (d, x) = (r, (d', x'))" "gives r b" "reps (t_state d') q"
    "verdicts_wp sts bs' Q x' q (tracked_hartsel d')"
    unfolding verdicts_wp.simps vwp_def by blast
  then obtain y where y: "invoke (snd st) (d, x) = (Some y, (d', x'))" "ok y = b"
    by (auto simp: invoke_def gives_def)
  show ?case
    using Cons.IH [OF r(5,4) refl, of "res @ [y]"] r(1) y by (cases st) (auto simp: run_step_batch_def)
qed auto

lemma session_verdicts_wp:
  assumes "verdicts_wp sts bs Q x p h" "reps (t_state d) p" "tracked_hartsel d = h"
  shows "\<exists>s. session_of ''batch'' False sts = Inr s \<and> session_verdicts s (d, x) = Some bs"
proof -
  let ?s = "fold (\<lambda>(n, f). add_step n f) sts \<lparr>session_mode = Batch, stop_on_error = False, steps = [], results = []\<rparr>"
  obtain res w where "run_steps Batch False sts [] [] (d, x) = (res, False, [], w)" "map ok res = bs"
    using run_steps_verdicts [OF assms, of "[]" "[]"] by auto
  then have "session_verdicts ?s (d, x) = Some bs"
    by (simp add: session_verdicts_def run_session_def fold_add_step)
  moreover have "session_of ''batch'' False sts = Inr ?s"
    by (simp add: session_of_def DebugSession_init_def mode_of_def)
  ultimately show ?thesis by blast
qed

end

end
