(* ===== verification/RunControlRuns.thy ===== *)
theory RunControlRuns
  imports RunControlSeq SequenceRuns
begin

text \<open>The run-control sequences pass on every target that follows the predictor.\<close>

subsection \<open>\<^verbatim>\<open>run_control_sequence.py\<close>\<close>

text \<open>No reset is asserted; what a test case keeps of a standing halt-on-reset request.\<close>

definition no_reset :: "hart_view \<Rightarrow> bool" where
  "no_reset v \<longleftrightarrow> \<not> v_ndm v \<and> \<not> v_hartreset v"

context dm_target
begin

lemmas wp_intros = wp_seq wp_bind wp_read_dmstatus wp_read_dmcontrol wp_read_clock wp_step_result

lemmas wp_at = wp_put_at wp_halt wp_resume wp_library_writes

lemma run_tc_rc_001:
  assumes "at i c v p" "no_reset v" "\<And>s p. reps s p \<Longrightarrow> pred s \<in> {None, Some p}"
    and "\<And>q v'. at i c v' q \<Longrightarrow> no_reset v' \<Longrightarrow> v_halted v' \<Longrightarrow> v_rhr v' = v_rhr v \<Longrightarrow> Q q (int i)"
  shows "wp (tc_rc_001 T pred) (\<lambda>r q k. passing r \<and> Q q k) p (int i)"
  unfolding tc_rc_001_def using assms(1,2)
  by - ((rule wp_intros wp_expected_dmstatus [OF assms(3)] | (rule wp_at, assumption))+,
    auto simp: at_status no_reset_def view_step_simps intro!: wp_step_result assms(4))

lemma run_tc_rc_002:
  assumes "at i c v p" "no_reset v" "v_halted v"
    and "\<And>q v'. at i c v' q \<Longrightarrow> no_reset v' \<Longrightarrow> v_halted v' \<Longrightarrow> v_rhr v' = v_rhr v \<Longrightarrow> Q q (int i)"
  shows "wp (tc_rc_002 T) (\<lambda>r q k. passing r \<and> Q q k) p (int i)"
  unfolding tc_rc_002_def Let_def using assms(1-3)
  by - ((rule wp_intros | (rule wp_at, assumption))+, auto simp: at_status no_reset_def view_step_simps intro!: assms(4))

lemma run_tc_rc_003:
  assumes "at i c v p" "no_reset v" "v_halted v" "\<And>s p. reps s p \<Longrightarrow> pred s \<in> {None, Some p}"
    and "\<And>q v'. at i c v' q \<Longrightarrow> no_reset v' \<Longrightarrow> \<not> v_halted v' \<Longrightarrow> v_rhr v' = v_rhr v \<Longrightarrow> Q q (int i)"
  shows "wp (tc_rc_003 T pred) (\<lambda>r q k. passing r \<and> Q q k) p (int i)"
  unfolding tc_rc_003_def using assms(1-3)
  by - ((rule wp_intros wp_expected_dmstatus [OF assms(4)] | (rule wp_at, assumption))+,
    auto simp: at_status no_reset_def view_step_simps intro!: wp_step_result assms(5))

lemma run_tc_rc_004:
  assumes "at i c v p" "no_reset v" "\<not> v_halted v"
    and "\<And>q v'. at i c v' q \<Longrightarrow> no_reset v' \<Longrightarrow> \<not> v_halted v' \<Longrightarrow> v_rhr v' = v_rhr v \<Longrightarrow> Q q (int i)"
  shows "wp (tc_rc_004 T) (\<lambda>r q k. passing r \<and> Q q k) p (int i)"
  unfolding tc_rc_004_def using assms(1-3)
  by - ((rule wp_intros | (rule wp_at, assumption))+, auto simp: at_status no_reset_def view_step_simps intro!: assms(4))

lemma run_tc_rc_005:
  assumes "at i c v p" "no_reset v"
    and "\<And>q v'. at i c v' q \<Longrightarrow> no_reset v' \<Longrightarrow> v_rhr v' = v_rhr v \<Longrightarrow> Q q (int i)"
  shows "wp (tc_rc_005 T) (\<lambda>r q k. passing r \<and> Q q k) p (int i)"
  unfolding tc_rc_005_def using assms(1,2)
  by - ((rule wp_intros | (rule wp_at, assumption))+, auto simp: at_status no_reset_def view_step_simps intro!: assms(3))

lemma run_tc_rc_006:
  assumes "at i c v p" "no_reset v" "\<And>j k. clk k - clk j < HALT_RESUME_RESPONSE_BOUND"
    and "\<And>q v'. at i c v' q \<Longrightarrow> no_reset v' \<Longrightarrow> \<not> v_halted v' \<Longrightarrow> v_rhr v' = v_rhr v \<Longrightarrow> Q q (int i)"
  shows "wp (tc_rc_006 T clk) (\<lambda>r q k. passing r \<and> Q q k) p (int i)"
  unfolding tc_rc_006_def using assms(1,2)
  by - ((rule wp_intros | (rule wp_at, assumption))+,
    auto simp: no_reset_def view_step_simps assms(3) [simplified] intro!: assms(4))

lemma run_tc_rc_007:
  assumes "at i c v p" "no_reset v" "\<not> v_halted v"
    and "\<And>q v'. at i c v' q \<Longrightarrow> no_reset v' \<Longrightarrow> v_rhr v' = v_rhr v \<Longrightarrow> v_halted v' = v_rhr v \<Longrightarrow> Q q (int i)"
  shows "wp (tc_rc_007 T) (\<lambda>r q k. passing r \<and> Q q k) p (int i)"
  unfolding tc_rc_007_def using assms(1-3)
  by - ((rule wp_intros | (rule wp_at, assumption))+, auto simp: at_status no_reset_def view_step_simps intro!: assms(4))

lemma run_control_tests_wp:
  assumes "at i c v p" "no_reset v" "\<And>s p. reps s p \<Longrightarrow> pred s \<in> {None, Some p}"
    and "\<And>j k. clk k - clk j < HALT_RESUME_RESPONSE_BOUND"
    and "\<And>q v'. at i c v' q \<Longrightarrow> no_reset v' \<Longrightarrow> v_rhr v' = v_rhr v \<Longrightarrow> Q () q (int i)"
  shows "steps_wp (run_control_tests T pred clk) Q () p (int i)"
  unfolding run_control_tests_def
  apply (rule steps_check, rule run_tc_rc_001 [OF assms(1,2)], erule assms(3))
  apply (rule steps_check, erule run_tc_rc_002, assumption+)
  apply (rule steps_check, erule run_tc_rc_003, assumption+, erule assms(3))
  apply (rule steps_check, erule run_tc_rc_004, assumption+)
  apply (rule steps_check, erule run_tc_rc_005, assumption+)
  apply (rule steps_check, erule run_tc_rc_006, assumption+, rule assms(4))
  apply (rule steps_check, erule run_tc_rc_007, assumption+, rule steps_nil)
  apply (auto intro: assms(5))
  done

text \<open>Activation, and selection of another hart, give a state with no reset asserted.\<close>

lemma start_steps_wp:
  assumes "startable p i"
    and "\<And>q v. at i (seq_config p) v q \<Longrightarrow> no_reset v \<Longrightarrow> \<not> v_haltreq v \<Longrightarrow> v_rhr v = v_rhr (view p i) \<Longrightarrow>
      steps_wp sts Q x q (int i)"
  shows "steps_wp (command_step n1 (activate T) #
      (if int i \<noteq> 0 then [command_step n2 (select_hart T (int i))] else []) @ sts) Q x p h"
proof (rule steps_command, rule wp_activate [OF assms(1)])
  fix q assume q: "startable q i" "at 0 (seq_config p) (c_step (seq_config p) activate_args (view p 0)) q"
    "reset_haltreq (harts q ! i) = reset_haltreq (harts p ! i)"
  have c: "seq_config q = seq_config p" using q(2) by (simp add: at_def)
  have rhr: "v_rhr (view q i) = v_rhr (view p i)" using q(3) by (simp add: view_def Let_def)
  show "steps_wp ((if int i \<noteq> 0 then [command_step n2 (select_hart T (int i))] else []) @ sts) Q x q 0"
  proof (cases "i = 0")
    case True
    then have "steps_wp sts Q x q (int i)"
      using q(2) assms(1) rhr by (intro assms(2) [of "view q i"]) (auto simp: at_def no_reset_def view_step_simps startable_def)
    then show ?thesis using True by simp
  next
    case False
    have hr: "\<not> v_hartreset (view q i)" using q(1) by (simp add: view_def startable_def Let_def)
    have "steps_wp sts Q x q' (int i)"
      if "at i (seq_config q) (c_step (seq_config q) (idle_args (int i)) (view q i)) q'" for q'
      using hr rhr by (intro assms(2) [OF that [unfolded c]]) (simp_all add: no_reset_def view_step_simps)
    then have "wp (select_hart T (int i)) (\<lambda>_. steps_wp sts Q x) q 0" by (rule wp_select_hart [OF q(1)])
    then show ?thesis using False by (simp add: swp_command_step)
  qed
qed

lemma run_control_steps_wp:
  assumes "startable p i" "\<And>s p. reps s p \<Longrightarrow> pred s \<in> {None, Some p}"
    and "\<And>j k. clk k - clk j < HALT_RESUME_RESPONSE_BOUND"
    and "\<And>q v. at i (seq_config p) v q \<Longrightarrow> no_reset v \<Longrightarrow> v_rhr v = v_rhr (view p i) \<Longrightarrow> Q () q (int i)"
  shows "steps_wp (run_control_steps T pred clk (int i)) Q () p h"
  unfolding run_control_steps_def append_Cons append_Nil
  apply (rule steps_check, intro wp_bind wp_read_dmstatus wp_step_result conjI TrueI)
  apply (rule start_steps_wp [OF assms(1)])
  apply (rule run_control_tests_wp [OF _ _ assms(2,3)])
  apply (auto intro: assms(4))
  done

end

subsection \<open>\<^verbatim>\<open>reset_ctrl_sequence.py\<close>\<close>

text \<open>What holds between its test cases: no reset asserted, no halt-on-reset request standing.\<close>

definition calm :: "hart_view \<Rightarrow> bool" where
  "calm v \<longleftrightarrow> \<not> v_ndm v \<and> \<not> v_hartreset v \<and> \<not> v_rhr v"

context dm_bench
begin

lemma run_tc_rst_001_assert:
  assumes "at i c v p" "calm v" "\<And>s p. reps s p \<Longrightarrow> pred s \<in> {None, Some p}"
    and "\<And>q v'. at i c v' q \<Longrightarrow> v_ndm v' \<Longrightarrow> \<not> v_hartreset v' \<Longrightarrow> \<not> v_rhr v' \<Longrightarrow> \<not> v_haltreq v' \<Longrightarrow> Q q (int i)"
  shows "wp (tc_rst_001_assert T pred) (\<lambda>r q k. passing r \<and> Q q k) p (int i)"
  unfolding tc_rst_001_assert_def Let_def using assms(1,2)
  by - (((rule wp_intros wp_get_predictor [OF assms(3)] wp_case_option wp_if wp_predicted_dmstatus |
      (rule wp_at, assumption) | assumption)+,
    (auto simp: at_status calm_def view_step_simps at_def seq_config_def intro!: assms(4))[1])+)

lemma run_tc_rst_001_deassert:
  assumes "at i c v p" "v_ndm v" "\<not> v_hartreset v" "\<not> v_rhr v" "\<not> v_haltreq v"
    and "\<And>q v'. at i c v' q \<Longrightarrow> calm v' \<Longrightarrow> Q q (int i)"
  shows "wp (tc_rst_001_deassert T) (\<lambda>r q k. passing r \<and> Q q k) p (int i)"
  unfolding tc_rst_001_deassert_def using assms(1-5)
  by - ((rule wp_intros | (rule wp_at, assumption))+, auto simp: at_status calm_def view_step_simps intro!: assms(6))

lemma wp_wait_release: "Q True p h \<Longrightarrow> wp (wait_release T deadline True) Q p h"
  unfolding wp_def by (auto simp: wait_release.simps)

lemma run_tc_rst_001_haltreq:
  assumes "at i c v p" "calm v" and "\<And>q v'. at i c v' q \<Longrightarrow> calm v' \<Longrightarrow> Q q (int i)"
  shows "wp (tc_rst_001_haltreq_during_reset T) (\<lambda>r q k. passing r \<and> Q q k) p (int i)"
  unfolding tc_rst_001_haltreq_during_reset_def using assms(1,2)
  by - ((rule wp_intros wp_monotonic wp_is_halted | (rule wp_at, assumption))+,
    auto simp: at_status calm_def view_step_simps intro!: wp_wait_release wp_step_result assms(3))

lemma run_tc_rst_002:
  assumes "at i c v p" "calm v" and "\<And>q v'. at i c v' q \<Longrightarrow> calm v' \<Longrightarrow> Q q (int i)"
  shows "wp (tc_rst_002 T) (\<lambda>r q k. passing r \<and> Q q k) p (int i)"
  unfolding tc_rst_002_def using assms(1,2)
  by - (((rule wp_intros wp_if | (rule wp_at, assumption))+,
    (auto simp: at_status at_control calm_def view_step_simps intro!: assms(3))[1])+)

lemma run_tc_rst_003:
  assumes "at i c v p" "calm v" and "\<And>q v'. at i c v' q \<Longrightarrow> calm v' \<Longrightarrow> Q q (int i)"
  shows "wp (tc_rst_003 T) (\<lambda>r q k. passing r \<and> Q q k) p (int i)"
  unfolding tc_rst_003_def hartreset_cause_def Let_def using assms(1,2)
  by - (((rule wp_intros wp_if wp_return | (rule wp_at, assumption))+,
    (auto simp: at_status at_control calm_def view_step_simps intro!: assms(3))[1])+)

lemma run_tc_rst_004:
  assumes "at i c v p" "calm v" and "\<And>q v'. at i c v' q \<Longrightarrow> calm v' \<Longrightarrow> Q q (int i)"
  shows "wp (tc_rst_004 T) (\<lambda>r q k. passing r \<and> Q q k) p (int i)"
  unfolding tc_rst_004_def Let_def using assms(1,2)
  by - (((rule wp_intros wp_if wp_return | (rule wp_at, assumption))+,
    (auto simp: at_status at_control calm_def view_step_simps intro!: assms(3))[1])+)

lemma wp_survives_access:
  assumes "at i c v p" "\<And>q. at i c v q \<Longrightarrow> Q True q h"
  shows "wp (survives_access T) Q p h"
  unfolding survives_access_def
  by (intro wp_try wp_bind wp_bench_read_gpr [OF assms(1)] wp_return assms(2))

lemma run_tc_rst_005:
  assumes "at i c v p" "calm v" and "\<And>q v'. at i c v' q \<Longrightarrow> calm v' \<Longrightarrow> Q q (int i)"
  shows "wp (tc_rst_005 T) (\<lambda>r q k. passing r \<and> Q q k) p (int i)"
  unfolding tc_rst_005_def using assms(1,2)
  by - ((rule wp_intros | (rule wp_at wp_survives_access, assumption))+,
    auto simp: at_control calm_def view_step_simps intro!: assms(3))

lemma run_tc_rst_006:
  assumes "at i c v p" "calm v" and "\<And>q v'. at i c v' q \<Longrightarrow> calm v' \<Longrightarrow> Q q (int i)"
  shows "wp (tc_rst_006 T) (\<lambda>r q k. passing r \<and> Q q k) p (int i)"
  unfolding tc_rst_006_def Let_def using assms(1,2)
  by - (((rule wp_intros wp_if wp_return | (rule wp_at, assumption))+,
    (auto simp: at_status at_control calm_def view_step_simps intro!: assms(3))[1])+)

lemma run_tc_dhs_006_probe:
  assumes "at i c v p" "calm v" and "\<And>q v'. at i c v' q \<Longrightarrow> calm v' \<Longrightarrow> Q q (int i)"
  shows "wp (tc_dhs_006_probe T) (\<lambda>r q k. passing r \<and> Q q k) p (int i)"
  unfolding tc_dhs_006_probe_def Let_def using assms(1,2)
  by - (((rule wp_intros wp_if wp_return | (rule wp_at, assumption))+,
    (auto simp: at_status at_control calm_def view_step_simps intro!: assms(3))[1])+)

lemma run_tc_ka_001:
  assumes "at i c v p" "calm v" and "\<And>q v'. at i c v' q \<Longrightarrow> calm v' \<Longrightarrow> Q q (int i)"
  shows "wp (tc_ka_001 T) (\<lambda>r q k. passing r \<and> Q q k) p (int i)"
  unfolding tc_ka_001_def Let_def using assms(1,2)
  by - (((rule wp_intros wp_if wp_return | (rule wp_at, assumption))+,
    (auto simp: at_status at_control calm_def view_step_simps intro!: assms(3))[1])+)

lemma reset_ctrl_tests_wp:
  assumes "at i c v p" "calm v" "\<And>s p. reps s p \<Longrightarrow> pred s \<in> {None, Some p}"
    and "\<And>q v'. at i c v' q \<Longrightarrow> calm v' \<Longrightarrow> Q () q (int i)"
  shows "steps_wp (reset_ctrl_tests T pred) Q () p (int i)"
  unfolding reset_ctrl_tests_def
  apply (rule steps_check, rule run_tc_rst_001_assert [OF assms(1,2)], erule assms(3))
  apply (rule steps_check, erule run_tc_rst_001_deassert, assumption+)
  apply (rule steps_check, erule run_tc_rst_001_haltreq, assumption)
  apply (rule steps_check, erule run_tc_rst_002, assumption)
  apply (rule steps_check, erule run_tc_rst_003, assumption)
  apply (rule steps_check, erule run_tc_rst_004, assumption)
  apply (rule steps_check, erule run_tc_rst_005, assumption)
  apply (rule steps_check, erule run_tc_rst_006, assumption)
  apply (rule steps_check, erule run_tc_dhs_006_probe, assumption)
  apply (rule steps_check, erule run_tc_ka_001, assumption, rule steps_nil)
  apply (erule assms(4), assumption)
  done

lemma reset_ctrl_steps_wp:
  assumes "startable p i" "\<not> reset_haltreq (harts p ! i)" "\<And>s p. reps s p \<Longrightarrow> pred s \<in> {None, Some p}"
    and "\<And>q v. at i (seq_config p) v q \<Longrightarrow> calm v \<Longrightarrow> Q () q (int i)"
  shows "steps_wp (reset_ctrl_steps T pred (int i)) Q () p h"
  unfolding reset_ctrl_steps_def append_Cons append_Nil
  apply (rule start_steps_wp [OF assms(1)])
  apply (rule reset_ctrl_tests_wp [OF _ _ assms(3)], assumption)
  apply (auto simp: calm_def no_reset_def view_def Let_def assms(2) intro: assms(4))
  done

end

end
