(* ===== verification/HartRuns.thy ===== *)
theory HartRuns
  imports HartSeq RunControlRuns
begin

text \<open>
  The halt-on-reset, activation and hart selection sequences pass on every target that follows the
  predictor. Where a second hart matters, \<open>duo\<close> tracks the selected hart and one other.
\<close>

subsection \<open>Two harts\<close>

definition c_other :: "seq_config \<Rightarrow> dmcontrol_args \<Rightarrow> hart_view \<Rightarrow> hart_view" where
  "c_other c a v = (case c of (_, _, _, _, rack) \<Rightarrow> other_step rack a v)"

definition duo :: "nat \<Rightarrow> nat \<Rightarrow> seq_config \<Rightarrow> hart_view \<Rightarrow> hart_view \<Rightarrow> DMPredictor \<Rightarrow> bool" where
  "duo i j c v w p \<longleftrightarrow> at i c v p \<and> i \<noteq> j \<and> \<not> v_hartreset v \<and> seq_ready p j \<and> view p j = w"

lemmas duo_step_simps = view_step_simps c_other_def other_step_def

lemma duoD: "duo i j c v w p \<Longrightarrow> at i c v p"
  by (simp add: duo_def)

lemma duo_next:
  assumes "duo i j c v w p" "a_dmactive a" "a_hartsel a = int i" "\<not> a_hartreset a"
  shows "duo i j c (c_step c a v) (c_other c a w) (dmcontrol_next (dmcontrol a) p)"
proof -
  have p: "at i c v p" "i \<noteq> j" "seq_ready p j" "view p j = w" "\<not> hartreset_level p" "c = seq_config p"
    using assms(1) by (auto simp: duo_def at_def view_def Let_def)
  have "take_bit 20 (a_hartsel a) \<noteq> int j"
    using assms(3) p(1,2) seq_ready_hartsel [of p i] by (simp add: at_def)
  from view_other [OF p(3) assms(2) this assms(4) p(5)] at_next [OF p(1) assms(2,3)] p assms(4)
  show ?thesis by (simp add: duo_def c_other_def seq_config_def c_step_def sel_step_def Let_def)
qed

lemma duo_select:
  assumes "duo i j c v w p"
  shows "duo j i c (c_step c (idle_args (int j)) w) (c_other c (idle_args (int j)) v)
    (dmcontrol_next (dmcontrol (idle_args (int j))) p)"
proof -
  have p: "seq_ready p j" "i \<noteq> j" "seq_ready p i" "view p j = w" "view p i = v" "\<not> hartreset_level p" "c = seq_config p"
    using assms by (auto simp: duo_def at_def view_def Let_def)
  have "take_bit 20 (a_hartsel (idle_args (int j))) \<noteq> int i" using p(2) seq_ready_hartsel [OF p(1)] by simp
  from view_other [OF p(3) _ this _ p(6)] enter_next [OF p(1), of "idle_args (int j)"] p
  show ?thesis by (simp add: duo_def c_other_def seq_config_def c_step_def sel_step_def Let_def)
qed

context dm_target
begin

lemma wp_duo_writes:
  "duo i j c v w p \<Longrightarrow> (\<And>q. let a = dmcontrol_defaults\<lparr>a_dmactive := True, a_ndmreset := b, a_hartsel := int i\<rparr> in
     duo i j c (c_step c a v) (c_other c a w) q \<Longrightarrow> Q () q (int i)) \<Longrightarrow> wp (ndmreset_level T b) Q p (int i)"
  "duo i j c v w p \<Longrightarrow> (\<And>q. let a = dmcontrol_defaults\<lparr>a_dmactive := True, a_setresethaltreq := True, a_hartsel := int i\<rparr> in
     duo i j c (c_step c a v) (c_other c a w) q \<Longrightarrow> Q () q (int i)) \<Longrightarrow> wp (set_reset_haltreq T) Q p (int i)"
  "duo i j c v w p \<Longrightarrow> (\<And>q. let a = dmcontrol_defaults\<lparr>a_dmactive := True, a_clrresethaltreq := True, a_hartsel := int i\<rparr> in
     duo i j c (c_step c a v) (c_other c a w) q \<Longrightarrow> Q () q (int i)) \<Longrightarrow> wp (clr_reset_haltreq T) Q p (int i)"
  unfolding ndmreset_level_def set_reset_haltreq_def clr_reset_haltreq_def Let_def
  by (rule wp_write_args; simp add: duo_next)+

lemma wp_duo_select:
  "duo i j c v w p \<Longrightarrow>
    (\<And>q. duo j i c (c_step c (idle_args (int j)) w) (c_other c (idle_args (int j)) v) q \<Longrightarrow> Q () q (int j)) \<Longrightarrow>
    wp (select_hart T (int j)) Q p h"
  using duo_select [of i j c v w p] unfolding select_hart_def idle_args_def [symmetric]
  by (intro wp_seq wp_set_hartsel wp_write_dmcontrol) simp_all

lemma wp_duo_reselect:
  "duo i j c v w p \<Longrightarrow>
    (\<And>q. duo i j c (c_step c (idle_args (int i)) v) (c_other c (idle_args (int i)) w) q \<Longrightarrow> Q () q (int i)) \<Longrightarrow>
    wp (select_hart T (int i)) Q p h"
  using duo_next [of i j c v w p "idle_args (int i)"] unfolding select_hart_def idle_args_def [symmetric]
  by (intro wp_seq wp_set_hartsel wp_write_dmcontrol) simp_all

lemmas wp_duo = wp_duo_writes wp_duo_select wp_duo_reselect

lemmas wp_duo_zero = wp_duo_writes [where i = 0, unfolded of_nat_0] wp_duo_select [where j = 0, unfolded of_nat_0]
  wp_duo_reselect [where i = 0, unfolded of_nat_0]

subsection \<open>\<^verbatim>\<open>halt_on_reset_sequence.py\<close>\<close>

lemma steps_gated:
  "wp (m (x = Some True)) (\<lambda>r q k. passing r \<and> steps_wp sts Q x q k) p h \<Longrightarrow>
   steps_wp (dbg_step name (gated m) # sts) Q x p h"
  unfolding gated_def steps_wp.simps by (intro swp_dbg_step wp_bind) (auto intro!: wp_return elim!: wp_mono)

lemma steps_tc_hor_001:
  assumes "at i c v p" "steps_wp sts Q (Some (fst (snd (snd c)))) p (int i)"
  shows "steps_wp (dbg_step name (tc_hor_001 T) # sts) Q x p (int i)"
  unfolding tc_hor_001_def steps_wp.simps Let_def step_result_def
  by (intro swp_dbg_step wp_bind wp_read_dmstatus wp_return) (simp add: at_status [OF assms(1)] assms(2))

text \<open>The state between the test cases: no reset asserted, no request standing for the other hart.\<close>

lemma run_tc_hor_002:
  assumes "duo i j c v w p" "no_reset v" "\<not> v_rhr w" "\<And>s p. reps s p \<Longrightarrow> pred s \<in> {None, Some p}"
    "b = fst (snd (snd c))"
    and "\<And>q v' w'. duo i j c v' w' q \<Longrightarrow> no_reset v' \<Longrightarrow> \<not> v_rhr w' \<Longrightarrow> Q q (int i)"
  shows "wp (tc_hor_002 T pred b) (\<lambda>r q k. passing r \<and> Q q k) p (int i)"
  unfolding tc_hor_002_def using assms(1-3,5)
  by - (((rule wp_intros wp_if wp_expected_dmstatus [OF assms(4)] | (rule wp_duo, assumption, (unfold Let_def)?) | assumption)+,
    (auto simp: at_status [OF duoD] no_reset_def duo_step_simps intro!: wp_step_result assms(6))[1])+)

lemma run_tc_hor_003:
  assumes "duo i j c v w p" "no_reset v" "\<not> v_rhr w" "b = fst (snd (snd c))"
    and "\<And>q v' w'. duo i j c v' w' q \<Longrightarrow> no_reset v' \<Longrightarrow> \<not> v_rhr w' \<Longrightarrow> Q q (int i)"
  shows "wp (tc_hor_003 T b) (\<lambda>r q k. passing r \<and> Q q k) p (int i)"
  unfolding tc_hor_003_def using assms(1-4)
  by - (((rule wp_intros wp_if | (rule wp_duo, assumption, (unfold Let_def)?))+,
    (auto simp: at_status [OF duoD] no_reset_def duo_step_simps intro!: assms(5))[1])+)

lemma run_tc_hor_004:
  assumes "duo 0 j c v w p" "no_reset v" "\<not> v_rhr w" "b = fst (snd (snd c))" "n = int j + 1"
    and "\<And>q v' w'. duo 0 j c v' w' q \<Longrightarrow> no_reset v' \<Longrightarrow> Q q 0"
  shows "wp (tc_hor_004 T n b) (\<lambda>r q k. passing r \<and> Q q k) p 0"
proof -
  have n: "n - 1 = int j" using assms(5) by simp
  show ?thesis
    unfolding tc_hor_004_def Let_def n using assms(1-4)
    by - (((rule wp_intros wp_if | (rule wp_duo wp_duo_zero, assumption, (unfold Let_def)?))+,
      (auto simp: at_status [OF duoD] no_reset_def duo_step_simps intro!: assms(6))[1])+)
qed

lemma run_tc_hor_005:
  assumes "at i c v p" "no_reset v" "take_bit 4 (fst c) \<noteq> 0"
    and "\<And>q v'. at i c v' q \<Longrightarrow> no_reset v' \<Longrightarrow> Q q (int i)"
  shows "wp (tc_hor_005 T) (\<lambda>r q k. passing r \<and> Q q k) p (int i)"
  unfolding tc_hor_005_def using assms(1-3)
  by - ((rule wp_intros | (rule wp_at, assumption))+,
    auto simp: at_status at_control no_reset_def view_step_simps intro!: assms(4))

text \<open>The same two test cases on a target with one hart.\<close>

lemma run_tc_hor_002_single:
  assumes "at i c v p" "no_reset v" "\<And>s p. reps s p \<Longrightarrow> pred s \<in> {None, Some p}" "b = fst (snd (snd c))"
    and "\<And>q v'. at i c v' q \<Longrightarrow> no_reset v' \<Longrightarrow> Q q (int i)"
  shows "wp (tc_hor_002 T pred b) (\<lambda>r q k. passing r \<and> Q q k) p (int i)"
  unfolding tc_hor_002_def using assms(1,2,4)
  by - (((rule wp_intros wp_if wp_expected_dmstatus [OF assms(3)] | (rule wp_at, assumption) | assumption)+,
    (auto simp: at_status no_reset_def view_step_simps intro!: wp_step_result assms(5))[1])+)

lemma run_tc_hor_003_single:
  assumes "at i c v p" "no_reset v" "b = fst (snd (snd c))"
    and "\<And>q v'. at i c v' q \<Longrightarrow> no_reset v' \<Longrightarrow> Q q (int i)"
  shows "wp (tc_hor_003 T b) (\<lambda>r q k. passing r \<and> Q q k) p (int i)"
  unfolding tc_hor_003_def using assms(1-3)
  by - (((rule wp_intros wp_if | (rule wp_at, assumption))+,
    (auto simp: at_status no_reset_def view_step_simps intro!: assms(4))[1])+)

lemma run_tc_hor_004_na: "n < 2 \<or> \<not> b \<Longrightarrow> Q p h \<Longrightarrow> wp (tc_hor_004 T n b) (\<lambda>r q k. passing r \<and> Q q k) p h"
  by (auto simp: tc_hor_004_def intro: wp_step_result)

lemma halt_on_reset_single_wp:
  assumes "at 0 c v p" "no_reset v" "n < 2" "take_bit 4 (fst c) \<noteq> 0"
    and pr: "\<And>s p. reps s p \<Longrightarrow> pred s \<in> {None, Some p}"
    and Q: "\<And>q v x. at 0 c v q \<Longrightarrow> no_reset v \<Longrightarrow> Q x q 0"
  shows "steps_wp (halt_on_reset_tests T pred n) Q x p 0"
  unfolding halt_on_reset_tests_def
  apply (rule steps_tc_hor_001 [OF assms(1), unfolded of_nat_0], rule steps_gated)
  apply (rule run_tc_hor_002_single [OF assms(1,2) pr, unfolded of_nat_0], assumption, simp, rule steps_gated)
  apply (erule run_tc_hor_003_single [unfolded of_nat_0, where i = 0, unfolded of_nat_0], assumption, simp, rule steps_gated)
  apply (rule run_tc_hor_004_na, simp add: assms(3), rule steps_check)
  apply (erule run_tc_hor_005 [where i = 0, unfolded of_nat_0], assumption, rule assms(4), rule steps_nil)
  apply (erule Q, assumption)
  done

lemma halt_on_reset_duo_wp:
  assumes "duo 0 j c v w p" "no_reset v" "\<not> v_rhr w" "n = int j + 1" "take_bit 4 (fst c) \<noteq> 0"
    and pr: "\<And>s p. reps s p \<Longrightarrow> pred s \<in> {None, Some p}"
    and Q: "\<And>q v x. at 0 c v q \<Longrightarrow> no_reset v \<Longrightarrow> Q x q 0"
  shows "steps_wp (halt_on_reset_tests T pred n) Q x p 0"
  unfolding halt_on_reset_tests_def
  apply (rule steps_tc_hor_001 [OF duoD [OF assms(1)], unfolded of_nat_0], rule steps_gated)
  apply (rule run_tc_hor_002 [OF assms(1-3) pr, unfolded of_nat_0], assumption, simp, rule steps_gated)
  apply (erule run_tc_hor_003 [where i = 0, unfolded of_nat_0], assumption+, simp, rule steps_gated)
  apply (erule run_tc_hor_004, assumption+, simp, rule assms(4), rule steps_check, drule duoD)
  apply (erule run_tc_hor_005 [where i = 0, unfolded of_nat_0], assumption, rule assms(5), rule steps_nil)
  apply (erule Q, assumption)
  done

text \<open>\<open>j\<close> is the last of the \<open>n\<close> harts the sequence is told of.\<close>

lemma halt_on_reset_steps_wp:
  assumes "startable p j" "\<not> reset_haltreq (harts p ! j)" "n = int j + 1"
    and pr: "\<And>s p. reps s p \<Longrightarrow> pred s \<in> {None, Some p}"
    and Q: "\<And>q v x. at 0 (seq_config p) v q \<Longrightarrow> no_reset v \<Longrightarrow> Q x q 0"
  shows "steps_wp (halt_on_reset_steps T pred n) Q x p h"
  unfolding halt_on_reset_steps_def
proof (rule steps_command, rule wp_activate [OF assms(1)])
  let ?c = "seq_config p"
  fix q assume q: "startable q j" "at 0 ?c (c_step ?c activate_args (view p 0)) q"
    "reset_haltreq (harts q ! j) = reset_haltreq (harts p ! j)"
  have nr: "no_reset (c_step ?c activate_args (view p 0))"
    using startable_view [OF assms(1)] by (simp add: no_reset_def view_step_simps)
  have ver: "take_bit 4 (fst ?c) \<noteq> 0" using assms(1) by (simp add: startable_def seq_config_def)
  show "steps_wp (halt_on_reset_tests T pred n) Q x q 0"
  proof (cases "j = 0")
    case True
    then show ?thesis using assms(3) by (intro halt_on_reset_single_wp [OF q(2) nr _ ver]) (simp_all add: Q pr [simplified])
  next
    case False
    then have "duo 0 j ?c (c_step ?c activate_args (view p 0)) (view q j) q"
      using q(2) nr startable_ready(1) [OF q(1)] by (simp add: duo_def no_reset_def)
    moreover have "\<not> v_rhr (view q j)" using q(3) assms(2) by (simp add: view_def Let_def)
    ultimately show ?thesis by (rule halt_on_reset_duo_wp [OF _ nr _ assms(3) ver]) (rule pr Q, assumption+)+
  qed
qed

subsection \<open>\<^verbatim>\<open>dm_activation_sequence.py\<close>\<close>

lemma startable_reset:
  assumes "startable p 0"
  shows "startable (reset_dm False p) 0"
proof -
  have "rc_inv p" using assms reachable_rc_inv by (simp add: startable_def)
  then have "harts (reset_dm False p) ! 0 = reset_hart p False (harts p) 0" by (intro nth_reset_dm) (simp add: rc_inv_def)
  moreover have "reachable (reset_dm False p)"
    using assms reachable.dmi_write [of p ADDR_DMCONTROL 0] unfolding on_write_dmcontrol by (simp add: startable_def)
  moreover have "\<not> step_armed (reset_dm False p)"
    using assms by (simp add: startable_def step_armed_def reset_dm_def reset_declared_regs_def Let_def dict_get_def)
  ultimately show ?thesis using assms by (simp add: startable_def reset_hart_def HartState_default_def)
qed

lemma wp_deactivate:
  assumes "Q () (reset_dm False p) h"
  shows "wp (put_fields T (Some False) None dmcontrol_defaults) Q p h"
proof -
  have "on_write ADDR_DMCONTROL (dmcontrol (dmcontrol_defaults\<lparr>a_dmactive := False, a_hartsel := h\<rparr>)) p = reset_dm False p"
    unfolding on_write_dmcontrol by simp
  then show ?thesis
    unfolding put_fields_def write_dmcontrol_fields_def Let_def option.case using assms
    by (intro wp_bind wp_seq wp_get_hartsel wp_dmi_write wp_return) simp
qed

lemma wp_poll_reads: "wp m (\<lambda>b q k. b \<and> Q b q k) p h \<Longrightarrow> wp (poll_reads m) Q p h"
  unfolding poll_reads_def by (rule wp_any_of_range) simp_all

lemma seq_config_reset [simp]: "seq_config (reset_dm b p) = seq_config p"
  by (simp add: seq_config_def reset_dm_def reset_declared_regs_def Let_def)

lemma dmactive_reset: "\<not> dmcontrol_dmactive (expect_dmcontrol (reset_dm b p))"
  by (simp add: dmcontrol_dmactive_def dmcontrol_bits)

lemma run_tc_dma_002:
  assumes "startable p 0" and Q: "\<And>q v. at 0 (seq_config p) v q \<Longrightarrow> no_reset v \<Longrightarrow> Q q 0"
  shows "wp (tc_dma_002 T) (\<lambda>r q k. passing r \<and> Q q k) p h"
  unfolding tc_dma_002_def
proof (intro wp_seq wp_bind wp_deactivate wp_poll_reads wp_read_dmcontrol wp_return conjI)
  let ?r = "reset_dm False p" and ?c = "seq_config p"
  show "\<not> dmcontrol_dmactive (expect_dmcontrol ?r)" by (rule dmactive_reset)
  show "wp (activate T) (\<lambda>_. wp (bindD (poll_reads (bindD (read_dmcontrol T) (\<lambda>w. returnD (dmcontrol_dmactive w))))
      (\<lambda>reactivated. bindD (read_dmstatus T) (\<lambda>status. step_result ''TC-DMA-002''
        (\<not> dmcontrol_dmactive (expect_dmcontrol ?r) \<and> reactivated \<and> version_of status \<noteq> 0)))) (\<lambda>r q k. passing r \<and> Q q k)) ?r h"
  proof (rule wp_activate [OF startable_reset [OF assms(1)]])
    fix q assume "at 0 (seq_config ?r) (c_step (seq_config ?r) activate_args (view ?r 0)) q"
    then have q: "at 0 ?c (c_step ?c activate_args (view ?r 0)) q" by simp
    have "no_reset (c_step ?c activate_args (view ?r 0))"
      using startable_view [OF startable_reset [OF assms(1)]] by (simp add: no_reset_def view_step_simps)
    moreover have "take_bit 4 (fst ?c) \<noteq> 0" using assms(1) by (simp add: startable_def seq_config_def)
    ultimately show "wp (bindD (poll_reads (bindD (read_dmcontrol T) (\<lambda>w. returnD (dmcontrol_dmactive w))))
      (\<lambda>reactivated. bindD (read_dmstatus T) (\<lambda>status. step_result ''TC-DMA-002''
        (\<not> dmcontrol_dmactive (expect_dmcontrol ?r) \<and> reactivated \<and> version_of status \<noteq> 0)))) (\<lambda>r q k. passing r \<and> Q q k) q 0"
      by (intro wp_bind wp_poll_reads wp_read_dmcontrol wp_return wp_read_dmstatus wp_step_result conjI)
        (simp_all add: at_control [OF q] at_status [OF q] dmactive_reset Q [OF q])
  qed
qed

lemma dm_activation_steps_wp:
  assumes "startable p 0" and Q: "\<And>q v. at 0 (seq_config p) v q \<Longrightarrow> no_reset v \<Longrightarrow> Q () q 0"
  shows "steps_wp (dm_activation_steps T) Q () p h"
  unfolding dm_activation_steps_def
proof (rule steps_command, rule wp_activate [OF assms(1)], rule steps_check)
  fix q assume q: "startable q 0" "at 0 (seq_config p) (c_step (seq_config p) activate_args (view p 0)) q"
  then have c: "seq_config q = seq_config p" by (simp add: at_def)
  have "steps_wp [check_step name (tc_dma_002 T)] Q () (reset_dm False q) 0" for name
    by (rule steps_check, rule run_tc_dma_002 [OF startable_reset [OF q(1)]], rule steps_nil) (simp add: c Q)
  then show "wp (tc_dma_001 T) (\<lambda>r q k. passing r \<and> steps_wp
      [check_step ''TC-DMA-002: known-state reset sequence (write0/poll/write1/poll, spec #3.14.2)'' (tc_dma_002 T)] Q () q k) q 0"
    unfolding tc_dma_001_def
    by (intro wp_seq wp_bind wp_deactivate wp_read_dmcontrol wp_read_dmstatus wp_step_result conjI dmactive_reset)
qed

subsection \<open>\<^verbatim>\<open>hart_selection_sequence.py\<close>\<close>

lemma wp_put_hartsel:
  assumes "Q () (dmcontrol_next (dmcontrol (idle_args k)) p) h"
  shows "wp (put_fields T None (Some k) dmcontrol_defaults) Q p h"
  unfolding put_fields_def write_dmcontrol_fields_def Let_def option.case using assms
  by (intro wp_bind wp_seq wp_get_hartsel wp_write_dmcontrol wp_return) (simp_all add: idle_args_def)

lemma nonexistent_status:
  assumes "num_harts p \<le> hartsel p"
  shows "anynonexistent (expect_dmstatus p)" "allnonexistent (expect_dmstatus p)"
  using assms by (simp_all add: anynonexistent_def allnonexistent_def dmstatus_bits)

lemma hart_selection_steps_wp:
  assumes "startable p 0" "num_harts p \<le> LIKELY_NONEXISTENT_HARTSEL" "\<And>s p. reps s p \<Longrightarrow> pred s \<in> {None, Some p}"
  shows "steps_wp (hart_selection_steps T pred) (\<lambda>_ _ _. True) () p h"
  unfolding hart_selection_steps_def
proof (rule steps_command, rule wp_activate [OF assms(1)], rule steps_check)
  fix q assume "at 0 (seq_config p) (c_step (seq_config p) activate_args (view p 0)) q"
  then have n: "num_harts q = num_harts p" by (simp add: at_def seq_config_def)
  have last: "wp (tc_hs_003 T) (\<lambda>r q k. passing r \<and> steps_wp [] (\<lambda>_ _ _. True) () q k) q k" for q k
    unfolding tc_hs_003_def by (intro wp_intros wp_put_dmcontrol conjI TrueI steps_nil)
  have mid: "wp (tc_hs_002 T pred) (\<lambda>r q k. passing r \<and> Q q k) q k" if "num_harts q = num_harts p" "\<And>q k. Q q k" for q k Q
    using nonexistent_status [of "dmcontrol_next (dmcontrol (idle_args LIKELY_NONEXISTENT_HARTSEL)) q"] that assms(2)
    unfolding tc_hs_002_def Let_def
    by (intro wp_seq wp_bind wp_put_hartsel wp_read_dmstatus wp_get_predictor wp_step_result assms(3))
      (simp_all add: take_bit_int_eq_self)
  show "wp (tc_hs_001 T) (\<lambda>r q k. passing r \<and> steps_wp
      [check_step ''TC-HS-002: nonexistent hart index selected (spec #3.14.1 anynonexistent)'' (tc_hs_002 T pred),
       check_step ''TC-HS-003: hasel discovery write (spec #3.14.2)'' (tc_hs_003 T)] (\<lambda>_ _ _. True) () q k) q 0"
    unfolding tc_hs_001_def
    by (intro wp_seq wp_bind wp_put_hartsel wp_read_dmcontrol wp_step_result conjI TrueI steps_check mid last) (simp add: n)
qed

end

end
