(* ===== verification/SequenceProps.thy ===== *)
theory SequenceProps
  imports HartRuns MockTransport Observer
begin

text \<open>
  The run-control cluster of test sequences against the golden model: with the mock behind it, bare
  or observed, each of the five sessions ends with every step passed, from every state a session can
  start in, and so do the five of them one after the other.
\<close>

subsection \<open>The cluster\<close>

text \<open>One session of the cluster, its verdict put behind those of the earlier ones.\<close>

definition then_batch ::
  "('s, 'x) seq_session result \<Rightarrow> 'x \<Rightarrow> bool list \<times> 's RISCVDebug \<Rightarrow> (bool list \<times> 's RISCVDebug) result" where
  "then_batch b x r = (case r of (bs, d) \<Rightarrow>
     bindR b (\<lambda>s. let (v, d1) = run_batch s (d, x) in Inr (bs @ [v], d1)))"

text \<open>
  The stimulus of a regression pass over hart 0 (\<^verbatim>\<open>pass_a\<close> of \<^verbatim>\<open>src/tests/test_coverage_and_assertions.py\<close>
  with the number of harts \<open>n\<close> the sequence is told of left open).
\<close>

definition run_control_cluster ::
  "'s transport \<Rightarrow> ('s \<Rightarrow> DMPredictor option) \<Rightarrow> (nat \<Rightarrow> int) \<Rightarrow> int \<Rightarrow> 's RISCVDebug \<Rightarrow> (bool list \<times> 's RISCVDebug) result" where
  "run_control_cluster T pred clk n d =
     bindR (then_batch (build_run_control_sequence T pred clk ''batch'' 0) () ([], d))
    (\<lambda>r. bindR (then_batch (build_reset_ctrl_sequence T pred ''batch'' 0) () r)
    (\<lambda>r. bindR (bindR (build_halt_on_reset_sequence T pred ''batch'' n) (\<lambda>(s, x). then_batch (Inr s) x r))
    (\<lambda>r. bindR (then_batch (build_dm_activation_sequence T ''batch'') () r)
    (\<lambda>r. then_batch (build_hart_selection_sequence T pred ''batch'') () r))))"

lemma at_startable:
  assumes "at 0 c v q" "no_reset v" "take_bit 4 (fst c) \<noteq> 0"
  shows "startable q 0"
  using assms by (auto simp: at_def startable_def seq_ready_def no_reset_def view_def Let_def seq_config_def)

text \<open>On any target, whatever its reads do to the model behind it.\<close>

context dm_target
begin

lemma run_control_session:
  assumes "startable p i" "reps (t_state d) p" "\<And>s p. reps s p \<Longrightarrow> pred s \<in> {None, Some p}"
    "\<And>j k. clk k - clk j < HALT_RESUME_RESPONSE_BOUND"
  shows "\<exists>s. build_run_control_sequence T pred clk ''batch'' (int i) = Inr s \<and> session_passes s (d, ())"
  unfolding build_run_control_sequence_def
  by (rule session_passes_wp [OF run_control_steps_wp [OF assms(1,3,4), where Q = "\<lambda>_ _ _. True"] assms(2) refl]) simp_all

lemma halt_on_reset_session:
  assumes "startable p i" "\<not> reset_haltreq (harts p ! i)" "reps (t_state d) p" "\<And>s p. reps s p \<Longrightarrow> pred s \<in> {None, Some p}"
  shows "\<exists>s x. build_halt_on_reset_sequence T pred ''batch'' (int i + 1) = Inr (s, x) \<and> session_passes s (d, x)"
proof -
  have "\<exists>s. session_of ''batch'' False (halt_on_reset_steps T pred (int i + 1)) = Inr s \<and> session_passes s (d, None)"
    by (rule session_passes_wp [OF halt_on_reset_steps_wp [OF assms(1,2) refl assms(4), where Q = "\<lambda>_ _ _. True"] assms(3) refl]) simp_all
  then show ?thesis by (auto simp: build_halt_on_reset_sequence_def)
qed

lemma dm_activation_session:
  assumes "startable p 0" "reps (t_state d) p"
  shows "\<exists>s. build_dm_activation_sequence T ''batch'' = Inr s \<and> session_passes s (d, ())"
  unfolding build_dm_activation_sequence_def
  by (rule session_passes_wp [OF dm_activation_steps_wp [OF assms(1), where Q = "\<lambda>_ _ _. True"] assms(2) refl]) simp_all

lemma hart_selection_session:
  assumes "startable p 0" "num_harts p \<le> LIKELY_NONEXISTENT_HARTSEL" "reps (t_state d) p" "\<And>s p. reps s p \<Longrightarrow> pred s \<in> {None, Some p}"
  shows "\<exists>s. build_hart_selection_sequence T pred ''batch'' = Inr s \<and> session_passes s (d, ())"
  unfolding build_hart_selection_sequence_def
  by (rule session_passes_wp [OF hart_selection_steps_wp [OF assms(1,2,4)] assms(3) refl])

end

context dm_bench
begin

lemma reset_ctrl_session:
  assumes "startable p i" "\<not> reset_haltreq (harts p ! i)" "reps (t_state d) p" "\<And>s p. reps s p \<Longrightarrow> pred s \<in> {None, Some p}"
  shows "\<exists>s. build_reset_ctrl_sequence T pred ''batch'' (int i) = Inr s \<and> session_passes s (d, ())"
  unfolding build_reset_ctrl_sequence_def
  by (rule session_passes_wp [OF reset_ctrl_steps_wp [OF assms(1,2,4), where Q = "\<lambda>_ _ _. True"] assms(3) refl]) simp_all

lemma then_batch_wp:
  assumes "steps_wp sts Q x p (tracked_hartsel d)" "reps (t_state d) p"
  shows "\<exists>d' x' q. then_batch (session_of ''batch'' stop sts) x (bs, d) = Inr (bs @ [True], d') \<and>
    reps (t_state d') q \<and> Q x' q (tracked_hartsel d')"
  using run_batch_wp [OF assms refl, of stop] by (fastforce simp: then_batch_def)

lemma cluster_run:
  assumes start: "startable p 0" "\<not> reset_haltreq (harts p ! 0)" "reps (t_state d) p"
    and n: "num_harts p \<le> LIKELY_NONEXISTENT_HARTSEL"
    and clk: "\<And>j k. clk k - clk j < HALT_RESUME_RESPONSE_BOUND"
    and pr: "\<And>s p. reps s p \<Longrightarrow> pred s \<in> {None, Some p}"
  shows "\<exists>d'. run_control_cluster T pred clk 1 d = Inr ([True, True, True, True, True], d')"
proof -
  let ?c = "seq_config p"
  let ?I = "\<lambda>_ q _. \<exists>v. at 0 ?c v q \<and> no_reset v"
  let ?J = "\<lambda>_ q _. \<exists>v. at 0 ?c v q \<and> calm v"
  have ver: "take_bit 4 (fst ?c) \<noteq> 0" using start(1) by (simp add: startable_def seq_config_def)
  have st: "startable q 0" if "at 0 ?c v q" "no_reset v" for q v using that ver by (rule at_startable)
  have calm: "no_reset v \<and> \<not> v_rhr v" if "calm v" for v using that by (simp add: calm_def no_reset_def)
  have rhr: "reset_haltreq (harts q ! 0) = v_rhr v" if "at 0 ?c v q" for q v using that by (auto simp: at_def view_def Let_def)
  have cfg: "seq_config q = ?c" if "at 0 ?c v q" for q v using that by (simp add: at_def)
  have "\<not> v_rhr (view p 0)" using start(2) by (simp add: view_def Let_def)
  then have "steps_wp (run_control_steps T pred clk (int 0)) ?J () p (tracked_hartsel d)"
    by (intro run_control_steps_wp start(1) pr clk) (auto simp: calm_def no_reset_def)
  from then_batch_wp [OF this start(3), of False "[]"] obtain d1 q1 v1
    where 1: "then_batch (build_run_control_sequence T pred clk ''batch'' 0) () ([], d) = Inr ([True], d1)"
      "reps (t_state d1) q1" "at 0 ?c v1 q1" "calm v1" by (auto simp: build_run_control_sequence_def)
  have "steps_wp (reset_ctrl_steps T pred (int 0)) ?J () q1 (tracked_hartsel d1)"
    using 1(3,4) calm by (intro reset_ctrl_steps_wp pr) (auto simp: rhr cfg intro: st)
  from then_batch_wp [OF this 1(2), of False "[True]"] obtain d2 q2 v2
    where 2: "then_batch (build_reset_ctrl_sequence T pred ''batch'' 0) () ([True], d1) = Inr ([True, True], d2)"
      "reps (t_state d2) q2" "at 0 ?c v2 q2" "calm v2" by (auto simp: build_reset_ctrl_sequence_def)
  have "steps_wp (halt_on_reset_steps T pred 1) ?I None q2 (tracked_hartsel d2)"
    using 2(3,4) calm by (intro halt_on_reset_steps_wp [where j = 0] pr) (auto simp: rhr cfg intro: st)
  from then_batch_wp [OF this 2(2), of False "[True, True]"] obtain d3 q3 v3 s3
    where 3: "build_halt_on_reset_sequence T pred ''batch'' 1 = Inr (s3, None)"
      "then_batch (Inr s3) None ([True, True], d2) = Inr ([True, True, True], d3)"
      "reps (t_state d3) q3" "at 0 ?c v3 q3" "no_reset v3"
    by (cases "session_of ''batch'' False (halt_on_reset_steps T pred 1)") (auto simp: build_halt_on_reset_sequence_def then_batch_def)
  have "steps_wp (dm_activation_steps T) ?I () q3 (tracked_hartsel d3)"
    using 3(4,5) by (intro dm_activation_steps_wp) (auto simp: cfg intro: st)
  from then_batch_wp [OF this 3(3), of False "[True, True, True]"] obtain d4 q4 v4
    where 4: "then_batch (build_dm_activation_sequence T ''batch'') () ([True, True, True], d3) = Inr ([True, True, True, True], d4)"
      "reps (t_state d4) q4" "at 0 ?c v4 q4" "no_reset v4" by (auto simp: build_dm_activation_sequence_def)
  have "num_harts q4 = num_harts p" using cfg [OF 4(3)] by (simp add: seq_config_def)
  then have "steps_wp (hart_selection_steps T pred) (\<lambda>_ _ _. True) () q4 (tracked_hartsel d4)"
    using 4(3,4) n by (intro hart_selection_steps_wp pr) (auto intro: st)
  from then_batch_wp [OF this 4(2), of False "[True, True, True, True]"] obtain d5
    where "then_batch (build_hart_selection_sequence T pred ''batch'') () ([True, True, True, True], d4) =
        Inr ([True, True, True, True, True], d5)" by (auto simp: build_hart_selection_sequence_def)
  then show ?thesis using 1(1) 2(1) 3(1,2) 4(1) by (simp add: run_control_cluster_def)
qed

end

subsection \<open>The sequences on the mock\<close>

lemma sample_startable: "startable sample_dm 0" "startable sample_dm (Suc 0)" "\<not> reset_haltreq (harts sample_dm ! 0)"
  "\<not> reset_haltreq (harts sample_dm ! Suc 0)" "num_harts sample_dm \<le> LIKELY_NONEXISTENT_HARTSEL"
proof -
  have "length (harts sample_dm) = 2 \<and> \<not> step_armed sample_dm \<and> \<not> hartreset_level sample_dm \<and>
    list_all (\<lambda>h. \<not> hart_reset h \<and> \<not> reset_haltreq h) (harts sample_dm) \<and> take_bit 4 (version sample_dm) \<noteq> 0 \<and>
    num_harts sample_dm \<le> LIKELY_NONEXISTENT_HARTSEL" by code_simp
  then show "startable sample_dm 0" "startable sample_dm (Suc 0)" "\<not> reset_haltreq (harts sample_dm ! 0)"
    "\<not> reset_haltreq (harts sample_dm ! Suc 0)" "num_harts sample_dm \<le> LIKELY_NONEXISTENT_HARTSEL"
    using reachable_sample by (auto simp: startable_def list_all_length)
qed

text \<open>
  The run-control session (\<^verbatim>\<open>TC-RC-001\<close> to \<^verbatim>\<open>TC-RC-007\<close>: halt, resume, requests that must be ignored,
  the response bound) on any hart of a model that is out of reset runs to its end in batch mode and
  every step of it passes, when the clock the halt and resume times are measured with stays inside
  the bound.
\<close>

lemma run_control_passes:
  assumes "startable (predictor (t_state d)) i" "\<forall>j k. clk k - clk j < HALT_RESUME_RESPONSE_BOUND"
  shows "\<exists>s. build_run_control_sequence (mock_transport clock) (\<lambda>m. Some (predictor m)) clk ''batch'' (int i) = Inr s \<and>
    session_passes s (d, ())"
  using assms by (intro mock.run_control_session) auto

text \<open>
  The reset-control session (\<^verbatim>\<open>TC-RST-001\<close> to \<^verbatim>\<open>TC-RST-006\<close>, the \<^verbatim>\<open>ndmreset\<close> level, the halt request held
  through a reset, \<^verbatim>\<open>havereset\<close>, \<^verbatim>\<open>hartreset\<close>, the accesses that must survive, keepalive) passes every
  step on any hart with no halt-on-reset request pending, through any stack of observers that do not
  raise, whether or not the sequence can see the model.
\<close>

lemma reset_ctrl_passes:
  fixes d :: "(ModelBackedMockTransport, 'o) ObservingTransport RISCVDebug"
  assumes "startable (predictor (delegate (t_state d))) i" "\<not> reset_haltreq (harts (predictor (delegate (t_state d))) ! i)"
    "nonraising (t_state d)" "pred \<in> {\<lambda>t. None, \<lambda>t. Some (predictor (delegate t))}"
  shows "\<exists>s. build_reset_ctrl_sequence (observing_transport (mock_transport clock)) pred ''batch'' (int i) = Inr s \<and>
    session_passes s (d, ())"
  using assms by (intro observed_mock_bench.reset_ctrl_session [where p = "predictor (delegate (t_state d))"]) auto

lemma sample_observed_state: "predictor (delegate (t_state sample_observed)) = sample_dm" "nonraising (t_state sample_observed)"
  by (simp_all add: sample_observed_def RISCVDebug_init_def mock_init_def add_observer_def observing_def nonraising_def
      quiet_observer_def recorder_def)

text \<open>
  C6. The halt-on-reset session (\<^verbatim>\<open>TC-HOR-001\<close> to \<^verbatim>\<open>TC-HOR-005\<close>) passes every step when it is told of the
  \<open>i + 1\<close> harts up to \<open>i\<close>: the request of hart 0 halts hart 0 out of reset, does not halt hart \<open>i\<close>, and is
  cleared by \<^verbatim>\<open>clrresethaltreq\<close>; on a model without the feature the gated steps pass as well.
\<close>

theorem halt_on_reset_passes:
  assumes "startable (predictor (t_state d)) i" "\<not> reset_haltreq (harts (predictor (t_state d)) ! i)"
  shows "\<exists>s x. build_halt_on_reset_sequence (mock_transport clock) (\<lambda>m. Some (predictor m)) ''batch'' (int i + 1) = Inr (s, x) \<and>
    session_passes s (d, x)"
  using assms by (intro mock.halt_on_reset_session) auto

theorem halt_on_reset_passes_witness:
  "\<exists>s x. build_halt_on_reset_sequence (mock_transport (\<lambda>k. int k)) (\<lambda>m. Some (predictor m)) ''batch'' 2 = Inr (s, x) \<and>
    session_passes s (sample_session, x)"
  using halt_on_reset_passes [of sample_session 1 "\<lambda>k. int k"] by (simp add: sample_session_state sample_startable)

text \<open>
  C4. The five sessions of the run-control cluster, one after the other on the same debug module and
  the same connection, all pass: none leaves the module in a state in which a later one fails (a
  reset level held, a halt-on-reset request armed, the module deactivated, a nonexistent hart
  selected).
\<close>

theorem run_control_cluster_passes:
  assumes "startable (predictor (t_state d)) 0" "\<not> reset_haltreq (harts (predictor (t_state d)) ! 0)"
    "num_harts (predictor (t_state d)) \<le> LIKELY_NONEXISTENT_HARTSEL" "\<forall>j k. clk k - clk j < HALT_RESUME_RESPONSE_BOUND"
  shows "\<exists>d'. run_control_cluster (mock_transport clock) (\<lambda>m. Some (predictor m)) clk 1 d = Inr ([True, True, True, True, True], d')"
  using assms by (intro mock_bench.cluster_run [where p = "predictor (t_state d)"]) auto

theorem run_control_cluster_passes_witness:
  "\<exists>d'. run_control_cluster (mock_transport (\<lambda>k. int k)) (\<lambda>m. Some (predictor m)) (\<lambda>_. 0) 1 sample_session =
    Inr ([True, True, True, True, True], d')"
  using run_control_cluster_passes [of sample_session "\<lambda>_. 0" "\<lambda>k. int k"]
  by (simp add: sample_session_state sample_startable del: LIKELY_NONEXISTENT_HARTSEL_def)

end
