(* ===== verification/AccessSeq.thy ===== *)
theory AccessSeq
  imports Sequences
begin

text \<open>
  The register and memory access sequences: \<^verbatim>\<open>halt_sequence.py\<close>, \<^verbatim>\<open>gpr_write_sequence.py\<close>,
  \<^verbatim>\<open>read_dmstatus_sequence.py\<close>, \<^verbatim>\<open>report_halt_status_sequence.py\<close>, \<^verbatim>\<open>mem_scan_sequence.py\<close>,
  \<^verbatim>\<open>discovery_sequence.py\<close> and \<^verbatim>\<open>csr_access_sequence.py\<close> of \<^verbatim>\<open>src/src/pydebug/sequences\<close>. The addresses and
  register numbers a step name shows are left out of it.
\<close>

unbundle bit_operations_syntax

subsection \<open>\<^verbatim>\<open>halt_sequence.py\<close>\<close>

definition check_halted :: "'s transport \<Rightarrow> 's check_method" where
  "check_halted T = bindD (is_halted T) (\<lambda>b. step_result ''dmstatus.allhalted'' b)"

definition read_pc :: "'s transport \<Rightarrow> 's check_method" where
  "read_pc T = bindD (get_pc T) (\<lambda>pc. step_result ''PC'' True)"

definition read_ra :: "'s transport \<Rightarrow> 's check_method" where
  "read_ra T = bindD (read_gpr T 0x1001) (\<lambda>ra. step_result ''ra (x1)'' True)"

definition read_sp :: "'s transport \<Rightarrow> 's check_method" where
  "read_sp T = bindD (read_gpr T 0x1002) (\<lambda>sp. step_result ''sp (x2)'' True)"

definition read_memory :: "'s transport \<Rightarrow> int \<Rightarrow> 's check_method" where
  "read_memory T mem_addr = bindD (read_mem32 T mem_addr) (\<lambda>val. step_result ''mem'' True)"

definition resume_core :: "'s transport \<Rightarrow> 's check_method" where
  "resume_core T =
     seqD (resume T DEFAULT_TIMEOUT) (bindD (is_running T) (\<lambda>b. step_result ''dmstatus.allrunning'' b))"

definition halt_steps :: "'s transport \<Rightarrow> int \<Rightarrow> bool \<Rightarrow> ('s, unit) seq_step list" where
  "halt_steps T mem_addr resume_after =
     [command_step ''Activate Debug Module (write dmcontrol.dmactive=1)'' (activate T),
      command_step ''Halt hart (write dmcontrol.haltreq=1, poll dmstatus.allhalted)'' (halt T DEFAULT_TIMEOUT),
      check_step ''Verify hart is halted (read dmstatus)'' (check_halted T),
      check_step ''Read PC (abstract command on DPC CSR 0x7B1)'' (read_pc T),
      check_step ''Read ra / x1 (abstract GPR access regno=0x1001)'' (read_ra T),
      check_step ''Read sp / x2 (abstract GPR access regno=0x1002)'' (read_sp T),
      check_step ''Read memory word (system bus access)'' (read_memory T mem_addr)]
     @ (if resume_after
        then [check_step ''Resume hart (write dmcontrol.resumereq=1, poll dmstatus.allrunning)'' (resume_core T)]
        else [])"

definition build_halt_sequence :: "'s transport \<Rightarrow> string \<Rightarrow> int \<Rightarrow> bool \<Rightarrow> ('s, unit) seq_session result" where
  "build_halt_sequence T md mem_addr resume_after = session_of md True (halt_steps T mem_addr resume_after)"

subsection \<open>\<^verbatim>\<open>gpr_write_sequence.py\<close>\<close>

definition tc_ac_002_roundtrip :: "'s transport \<Rightarrow> int \<Rightarrow> int \<Rightarrow> 's check_method" where
  "tc_ac_002_roundtrip T regno pattern =
     seqD (write_gpr T regno pattern)
    (bindD (read_gpr T regno) (\<lambda>readback. step_result ''TC-AC-002'' (readback = pattern)))"

definition tc_ac_002_x0 :: "'s transport \<Rightarrow> 's check_method" where
  "tc_ac_002_x0 T =
     seqD (write_gpr T GPR_X0_REGNO 0xFFFFFFFF)
    (bindD (read_gpr T GPR_X0_REGNO) (\<lambda>readback. step_result ''TC-AC-002 (x0)'' (readback = 0)))"

definition gpr_write_steps :: "'s transport \<Rightarrow> int \<Rightarrow> int \<Rightarrow> ('s, unit) seq_step list" where
  "gpr_write_steps T regno pattern =
     [command_step ''Activate Debug Module'' (activate T),
      command_step ''Halt hart'' (halt T DEFAULT_TIMEOUT),
      check_step ''TC-AC-002: write/read-back'' (tc_ac_002_roundtrip T regno pattern),
      check_step ''TC-AC-002: x0 always reads back 0'' (tc_ac_002_x0 T)]"

definition build_gpr_write_sequence :: "'s transport \<Rightarrow> string \<Rightarrow> int \<Rightarrow> int \<Rightarrow> ('s, unit) seq_session result" where
  "build_gpr_write_sequence T md regno pattern = session_of md False (gpr_write_steps T regno pattern)"

subsection \<open>\<^verbatim>\<open>read_dmstatus_sequence.py\<close>\<close>

definition read_dmstatus_step :: "'s transport \<Rightarrow> 's check_method" where
  "read_dmstatus_step T = bindD (dmi_read T ADDR_DMSTATUS) (\<lambda>val. step_result ''dmstatus'' True)"

definition build_read_dmstatus_sequence :: "'s transport \<Rightarrow> string \<Rightarrow> ('s, unit) seq_session result" where
  "build_read_dmstatus_sequence T md = session_of md False [check_step ''Read dmstatus'' (read_dmstatus_step T)]"

subsection \<open>\<^verbatim>\<open>report_halt_status_sequence.py\<close>\<close>

definition tc_dhs_001_running :: "'s transport \<Rightarrow> nat \<Rightarrow> 's check_method" where
  "tc_dhs_001_running T hart =
     bindD (read_haltsum0 T) (\<lambda>summ. step_result ''TC-DHS-001'' (drop_bit hart summ AND 1 = 0))"

definition tc_dhs_001_halted :: "'s transport \<Rightarrow> nat \<Rightarrow> 's check_method" where
  "tc_dhs_001_halted T hart =
     bindD (read_haltsum0 T) (\<lambda>summ. step_result ''TC-DHS-001'' (drop_bit hart summ AND 1 = 1))"

definition report_halt_status_steps :: "'s transport \<Rightarrow> nat \<Rightarrow> ('s, unit) seq_step list" where
  "report_halt_status_steps T hart =
     [command_step ''Activate Debug Module'' (activate T),
      check_step ''TC-DHS-001: haltsum0 with hart running'' (tc_dhs_001_running T hart),
      command_step ''Halt hart'' (halt T DEFAULT_TIMEOUT),
      check_step ''TC-DHS-001: haltsum0 with hart halted'' (tc_dhs_001_halted T hart)]"

definition build_report_halt_status_sequence :: "'s transport \<Rightarrow> string \<Rightarrow> nat \<Rightarrow> ('s, unit) seq_session result" where
  "build_report_halt_status_sequence T md hart = session_of md False (report_halt_status_steps T hart)"

subsection \<open>\<^verbatim>\<open>mem_scan_sequence.py\<close>\<close>

text \<open>\<^verbatim>\<open>expected[i] if (expected and i < len(expected)) else None\<close>; an empty list is as good as none.\<close>

definition expected_word :: "int list option \<Rightarrow> nat \<Rightarrow> int option" where
  "expected_word exps i =
     (case exps of None \<Rightarrow> None | Some es \<Rightarrow> if es \<noteq> [] \<and> i < length es then Some (es ! i) else None)"

definition mem_scan_step :: "'s transport \<Rightarrow> int \<Rightarrow> int option \<Rightarrow> 's check_method" where
  "mem_scan_step T a e =
     bindD (read_mem32 T a) (\<lambda>val.
       case e of None \<Rightarrow> step_result ''mem'' True | Some w \<Rightarrow> step_result ''mem'' (val = w))"

definition mem_scan_steps :: "'s transport \<Rightarrow> int \<Rightarrow> nat \<Rightarrow> int list option \<Rightarrow> ('s, unit) seq_step list" where
  "mem_scan_steps T base_addr word_count exps =
     [command_step ''Activate DM'' (activate T), command_step ''Halt hart'' (halt T DEFAULT_TIMEOUT)]
     @ map (\<lambda>i. check_step ''Read mem'' (mem_scan_step T (base_addr + int i * 4) (expected_word exps i))) [0..<word_count]"

definition build_mem_scan_sequence ::
  "'s transport \<Rightarrow> int \<Rightarrow> nat \<Rightarrow> int list option \<Rightarrow> string \<Rightarrow> ('s, unit) seq_session result" where
  "build_mem_scan_sequence T base_addr word_count exps md = session_of md False (mem_scan_steps T base_addr word_count exps)"

subsection \<open>\<^verbatim>\<open>discovery_sequence.py\<close>\<close>

definition tc_dis_003 :: "'s transport \<Rightarrow> 's check_method" where
  "tc_dis_003 T =
     bindD (read_hartinfo T) (\<lambda>first. bindD (read_hartinfo T) (\<lambda>second. step_result ''TC-DIS-003'' (first = second)))"

definition discovery_steps :: "'s transport \<Rightarrow> ('s, unit) seq_step list" where
  "discovery_steps T =
     [command_step ''Activate Debug Module'' (activate T), check_step ''TC-DIS-003: hartinfo discovery'' (tc_dis_003 T)]"

definition build_discovery_sequence :: "'s transport \<Rightarrow> string \<Rightarrow> ('s, unit) seq_session result" where
  "build_discovery_sequence T md = session_of md False (discovery_steps T)"

subsection \<open>\<^verbatim>\<open>csr_access_sequence.py\<close>\<close>

definition DSCRATCH0_REGNO :: int where [simp]: "DSCRATCH0_REGNO = 0x07B2"
definition DSCRATCH1_REGNO :: int where [simp]: "DSCRATCH1_REGNO = 0x07B3"

definition tc_ac_005 :: "'s transport \<Rightarrow> int \<Rightarrow> 's check_method" where
  "tc_ac_005 T pattern0 =
     seqD (write_gpr T DSCRATCH0_REGNO pattern0)
    (bindD (read_abstractcs T) (\<lambda>w.
       if drop_bit 8 w AND 0x7 = CMDERR_NOT_SUPPORTED then step_result ''TC-AC-005'' True
       else bindD (read_gpr T DSCRATCH0_REGNO) (\<lambda>readback. step_result ''TC-AC-005'' (readback = pattern0))))"

definition tc_dcsr_003a :: "'s transport \<Rightarrow> int \<Rightarrow> int \<Rightarrow> 's check_method" where
  "tc_dcsr_003a T pattern0 pattern1 =
     seqD (write_gpr T DSCRATCH0_REGNO pattern0)
    (seqD (write_gpr T DSCRATCH1_REGNO pattern1)
    (bindD (read_gpr T DSCRATCH0_REGNO) (\<lambda>r0.
     bindD (read_gpr T DSCRATCH1_REGNO) (\<lambda>r1.
       step_result ''TC-DCSR-003'' (r0 = pattern0 \<and> r1 = pattern1)))))"

definition tc_dcsr_003b :: "'s transport \<Rightarrow> int \<Rightarrow> int \<Rightarrow> 's check_method" where
  "tc_dcsr_003b T pattern0 pattern1 =
     bindD (read_hartinfo T) (\<lambda>info.
     let nscratch = drop_bit 20 info AND 0xF in
     seqD (write_gpr T DSCRATCH0_REGNO pattern0)
    (seqD (write_gpr T DSCRATCH1_REGNO pattern1)
    (seqD (resume T DEFAULT_TIMEOUT)
    (seqD (halt T DEFAULT_TIMEOUT)
    (bindD (read_gpr T DSCRATCH0_REGNO) (\<lambda>r0.
     bindD (read_gpr T DSCRATCH1_REGNO) (\<lambda>r1.
     bindD (read_abstractcs T) (\<lambda>w.
       let cmderr = drop_bit 8 w AND 0x7;
           kept = (r0 = pattern0 \<and> r1 = pattern1)
       in step_result ''TC-DCSR-003'' (if truth nscratch then cmderr = 0 else kept \<and> cmderr = 0)))))))))"

definition csr_access_steps :: "'s transport \<Rightarrow> int \<Rightarrow> int \<Rightarrow> ('s, unit) seq_step list" where
  "csr_access_steps T pattern0 pattern1 =
     [command_step ''Activate Debug Module'' (activate T),
      command_step ''Halt hart'' (halt T DEFAULT_TIMEOUT),
      check_step ''TC-AC-005: dscratch0 write/read-back'' (tc_ac_005 T pattern0),
      check_step ''TC-DCSR-003: dscratch0/1 hold their value while halted'' (tc_dcsr_003a T pattern0 pattern1),
      check_step ''TC-DCSR-003: dscratch ownership across a resume'' (tc_dcsr_003b T pattern0 pattern1)]"

definition build_csr_access_sequence :: "'s transport \<Rightarrow> string \<Rightarrow> int \<Rightarrow> int \<Rightarrow> ('s, unit) seq_session result" where
  "build_csr_access_sequence T md pattern0 pattern1 = session_of md False (csr_access_steps T pattern0 pattern1)"

end
