(* ===== verification/AccessRuns.thy ===== *)
theory AccessRuns
  imports AccessSeq SequenceRuns PredictorProps
begin

text \<open>
  Running the register and memory access sequences on a target that follows the predictor: the
  backward rules of the abstract commands and of the system bus, with the values of the registers
  and of the memory words as the predictor knows them.
\<close>

unbundle bit_operations_syntax

subsection \<open>A hart selected on a module that takes commands\<close>

definition engine :: "DMPredictor \<Rightarrow> bool" where
  "engine p \<longleftrightarrow> cfg_valid p \<and> \<not> observed_cmdbusy p \<and> abstractauto p = 0 \<and> 1 \<le> cfg_datacount (cfg p)"

definition cmd_at :: "nat \<Rightarrow> seq_config \<Rightarrow> hart_view \<Rightarrow> DMPredictor \<Rightarrow> bool" where
  "cmd_at i c v p \<longleftrightarrow> at i c v p \<and> engine p"

lemma cmd_atD: "cmd_at i c v p \<Longrightarrow> at i c v p" "cmd_at i c v p \<Longrightarrow> command_ready p"
  "cmd_at i c v p \<Longrightarrow> cfg_valid p" "cmd_at i c v p \<Longrightarrow> dmactive p"
  by (auto simp: cmd_at_def engine_def command_ready_def at_def)

lemma rest_cong:
  assumes "rest q = rest p"
  shows "engine q = engine p" "cfg q = cfg p" "cfg_valid q = cfg_valid p" "shadow_mem q = shadow_mem p"
proof -
  have "engine (rest x) = engine x" "cfg (rest x) = cfg x" "cfg_valid (rest x) = cfg_valid x" "shadow_mem (rest x) = shadow_mem x" for x
    by (simp_all add: rest_def engine_def)
  then show "engine q = engine p" "cfg q = cfg p" "cfg_valid q = cfg_valid p" "shadow_mem q = shadow_mem p"
    using assms by metis+
qed

lemma step_armed_upd: "r \<noteq> DCSR_REGNO \<Longrightarrow> shadow_regs q = (shadow_regs p)(r \<mapsto> x) \<Longrightarrow> step_armed q = step_armed p"
  by (simp add: step_armed_def dict_get_def)

lemma command_write_state:
  assumes "command_ready p" "q = on_write ADDR_COMMAND (access_word True 2 r) (on_write ADDR_DATA0 x p)"
  shows "shadow_regs q = (shadow_regs p)(take_bit 16 r \<mapsto> take_bit 32 x)" "engine q = engine p" "cfg q = cfg p"
  using assms on_write_data0 [OF assms(1)]
  by (simp_all add: on_write_command command_ready_def execute_lo_def execute_hi_def engine_def del: ADDR_COMMAND_def ADDR_DATA0_def)

lemma command_read_state:
  assumes "command_ready p" "q = on_write ADDR_COMMAND (access_word False 2 r) p"
  shows "shadow_regs q = shadow_regs p" "engine q = engine p" "cfg q = cfg p"
    "take_bit 16 r = GPR_X0_REGNO \<Longrightarrow> data0_pending_valid q \<and> data0_pending_value q = 0"
    "shadow_regs p (take_bit 16 r) = Some x \<Longrightarrow> reads_back_as_written (take_bit 16 r) \<Longrightarrow> take_bit 16 r \<noteq> GPR_X0_REGNO \<Longrightarrow>
      data0_pending_valid q \<and> data0_pending_value q = x"
  using assms
  by (simp_all add: on_write_command command_ready_def execute_lo_def execute_hi_def engine_def del: ADDR_COMMAND_def
      split: option.split)

lemma cmd_at_write:
  assumes "cmd_at i c v p" "take_bit 16 r \<noteq> DCSR_REGNO"
    "q = on_write ADDR_COMMAND (access_word True 2 r) (on_write ADDR_DATA0 x p)"
  shows "cmd_at i c v q"
proof -
  have p: "\<not> step_armed p" using assms(1) by (simp add: cmd_at_def at_def seq_ready_def)
  have "at i c v (on_write ADDR_DATA0 x p)"
    using p cmd_atD(1) [OF assms(1)] on_write_data0 [OF cmd_atD(2) [OF assms(1)], of x]
    by (intro at_other_write) (simp_all add: step_armed_def del: ADDR_DATA0_def, simp)
  moreover have "\<not> step_armed q"
    using p step_armed_upd [OF assms(2) command_write_state(1) [OF cmd_atD(2) [OF assms(1)] assms(3)]] by simp
  ultimately have "at i c v q" using assms(3) by (auto intro: at_other_write)
  then show ?thesis
    using assms(1) command_write_state(2) [OF cmd_atD(2) [OF assms(1)] assms(3)] by (simp add: cmd_at_def)
qed

lemma cmd_at_read:
  assumes "cmd_at i c v p" "q = on_write ADDR_COMMAND (access_word False 2 r) p"
  shows "cmd_at i c v q"
proof -
  have "\<not> step_armed q"
    using assms(1) command_read_state(1) [OF cmd_atD(2) [OF assms(1)] assms(2)]
    by (simp add: cmd_at_def at_def seq_ready_def step_armed_def)
  then have "at i c v q" unfolding assms(2) using cmd_atD(1) [OF assms(1)] by (intro at_other_write) simp_all
  then show ?thesis
    using assms(1) command_read_state(2) [OF cmd_atD(2) [OF assms(1)] assms(2)] by (simp add: cmd_at_def)
qed

lemma predict_other_words:
  "predict p ADDR_HARTINFO = expect_hartinfo (cfg p)" "predict p ADDR_ABSTRACTCS = expect_abstractcs p"
  "predict p ADDR_HALTSUM0 = expect_haltsum0 p"
  "cfg_valid p \<Longrightarrow> dmactive p \<Longrightarrow> has_model p ADDR_HARTINFO"
  "cfg_valid p \<Longrightarrow> dmactive p \<Longrightarrow> has_model p ADDR_ABSTRACTCS"
  "cfg_valid p \<Longrightarrow> dmactive p \<Longrightarrow> has_model p ADDR_HALTSUM0"
  by (simp_all add: predict_def has_model_def is_data_def is_progbuf_def)

lemma abstractcs_no_error: "take_bit 3 (drop_bit 8 (expect_abstractcs p)) = 0"
  using abstractcs_idle [of p] by (simp add: abstractcs_check_def Let_def truth_def split: if_splits)

lemma hartinfo_nscratch: "take_bit 4 (drop_bit 20 (expect_hartinfo c)) = take_bit 4 (cfg_nscratch c)"
proof (rule bit_eqI)
  fix n
  show "bit (take_bit 4 (drop_bit 20 (expect_hartinfo c))) n = bit (take_bit 4 (cfg_nscratch c)) n"
    by (auto simp: expect_hartinfo_def bit_or_iff bit_push_bit_iff bit_take_bit_iff bit_drop_bit_eq int_of_bool_eq bit_of_bool_int)
qed

lemma haltsum0_selected:
  assumes "at 0 c v p" "1 \<le> fst (snd c)"
  shows "drop_bit 0 (expect_haltsum0 p) AND 1 = of_bool (v_halted v)"
proof -
  have "bit (expect_haltsum0 p) 0 = v_halted v"
    using assms haltsum0_bits [of p 0] by (auto simp: at_def seq_ready_def view_def Let_def seq_config_def)
  then show ?thesis by (simp add: bit_0 and_one_eq mod_2_eq_odd)
qed

text \<open>The words of the scan: what each step finds.\<close>

definition scan_ok :: "DMPredictor \<Rightarrow> int \<Rightarrow> int list option \<Rightarrow> nat \<Rightarrow> bool" where
  "scan_ok p base_addr exps i =
     (case expected_word exps i of None \<Rightarrow> True | Some w \<Rightarrow> shadow_mem p (take_bit 32 (base_addr + int i * 4)) = Some w)"

lemma scan_ok_cong: "shadow_mem q = shadow_mem p \<Longrightarrow> scan_ok q = scan_ok p"
  by (auto simp: scan_ok_def fun_eq_iff split: option.split)

subsection \<open>Backward rules\<close>

context dm_bench
begin

lemma wp_write_gpr:
  assumes "cmd_at i c v p" "take_bit 16 r \<noteq> DCSR_REGNO"
    and "\<And>q. cmd_at i c v q \<Longrightarrow> cfg q = cfg p \<Longrightarrow> shadow_regs q = (shadow_regs p)(take_bit 16 r \<mapsto> take_bit 32 x) \<Longrightarrow> Q () q h"
  shows "wp (write_gpr T r x) Q p h"
  unfolding write_gpr_def command_words
  by (intro wp_seq wp_dmi_write wp_bench_wait assms(3) cmd_at_write [OF assms(1,2) refl]
      command_write_state [OF cmd_atD(2) [OF assms(1)] refl])

lemma wp_read_data0:
  assumes "cmd_at i c v q" "data0_pending_valid q \<and> data0_pending_value q = x" "Q x q h"
  shows "wp (dmi_read T ADDR_DATA0) Q q h"
  using assms cmd_atD [OF assms(1)]
  by (intro wp_dmi_read) (simp_all add: has_model_def predict_def is_data_def command_ready_def)

lemma wp_read_gpr:
  assumes "cmd_at i c v p" "shadow_regs p (take_bit 16 r) = Some x" "reads_back_as_written (take_bit 16 r)"
    "take_bit 16 r \<noteq> GPR_X0_REGNO" "\<And>q. cmd_at i c v q \<Longrightarrow> cfg q = cfg p \<Longrightarrow> shadow_regs q = shadow_regs p \<Longrightarrow> Q x q h"
  shows "wp (read_gpr T r) Q p h"
proof -
  note st = command_read_state [OF cmd_atD(2) [OF assms(1)] refl, of r] and q = cmd_at_read [OF assms(1) refl, of r]
  show ?thesis
    unfolding read_gpr_def command_words
    by (intro wp_seq wp_dmi_write wp_bench_wait wp_read_data0 [OF q st(5) [OF assms(2-4)]] assms(5) q st(1,3))
qed

lemma wp_read_x0:
  assumes "cmd_at i c v p" "take_bit 16 r = GPR_X0_REGNO" "\<And>q. cmd_at i c v q \<Longrightarrow> Q 0 q h"
  shows "wp (read_gpr T r) Q p h"
proof -
  note st = command_read_state [OF cmd_atD(2) [OF assms(1)] refl, of r] and q = cmd_at_read [OF assms(1) refl, of r]
  show ?thesis
    unfolding read_gpr_def command_words
    by (intro wp_seq wp_dmi_write wp_bench_wait wp_read_data0 [OF q st(4) [OF assms(2)]] assms(3) q)
qed

lemma wp_read_any:
  assumes "cmd_at i c v p" "\<And>w q. cmd_at i c v q \<Longrightarrow> cfg q = cfg p \<Longrightarrow> Q w q h"
  shows "wp (read_gpr T r) Q p h"
  unfolding read_gpr_def command_words using command_read_state(3) [OF cmd_atD(2) [OF assms(1)] refl]
  by (intro wp_seq wp_dmi_write wp_bench_wait wp_bench_read assms(2) cmd_at_read [OF assms(1) refl])

lemma wp_read_abstractcs: "cmd_at i c v p \<Longrightarrow> Q (expect_abstractcs p) p h \<Longrightarrow> wp (read_abstractcs T) Q p h"
  unfolding read_abstractcs_def
  by (rule wp_dmi_read) (simp_all add: predict_other_words cmd_atD del: ADDR_ABSTRACTCS_def)

lemma wp_read_hartinfo: "cmd_at i c v p \<Longrightarrow> Q (expect_hartinfo (cfg p)) p h \<Longrightarrow> wp (read_hartinfo T) Q p h"
  unfolding read_hartinfo_def
  by (rule wp_dmi_read) (simp_all add: predict_other_words cmd_atD del: ADDR_HARTINFO_def)

lemma wp_read_haltsum0: "cmd_at i c v p \<Longrightarrow> Q (expect_haltsum0 p) p h \<Longrightarrow> wp (read_haltsum0 T) Q p h"
  unfolding read_haltsum0_def
  by (rule wp_dmi_read) (simp_all add: predict_other_words cmd_atD del: ADDR_HALTSUM0_def)

lemma wp_halt_cmd:
  assumes "cmd_at i c v p"
    and "\<And>q. cmd_at i c (c_step c (idle_args (int i)) (c_step c (halt_args (int i)) v)) q \<Longrightarrow> cfg q = cfg p \<Longrightarrow>
      shadow_mem q = shadow_mem p \<Longrightarrow> Q () q (int i)"
  shows "wp (halt T timeout) Q p (int i)"
  using assms by (intro wp_halt_rest [OF cmd_atD(1) [OF assms(1)]]) (auto simp: cmd_at_def dest: rest_cong)

lemma wp_resume_cmd:
  assumes "cmd_at i c v p"
    and "\<And>q. cmd_at i c (c_step c (idle_args (int i)) (c_step c (resume_args (int i)) v)) q \<Longrightarrow> cfg q = cfg p \<Longrightarrow> Q () q (int i)"
  shows "wp (resume T timeout) Q p (int i)"
  using assms by (intro wp_resume_rest [OF cmd_atD(1) [OF assms(1)]]) (auto simp: cmd_at_def dest: rest_cong)

lemma wp_activate_cmd:
  assumes "startable p 0" "engine p"
    and "\<And>q. cmd_at 0 (seq_config p) (c_step (seq_config p) activate_args (view p 0)) q \<Longrightarrow> cfg q = cfg p \<Longrightarrow>
      shadow_mem q = shadow_mem p \<Longrightarrow> Q () q 0"
  shows "wp (activate T) Q p h"
  using assms by (intro wp_activate_rest [OF assms(1)]) (auto simp: cmd_at_def dest: rest_cong)

lemmas wp_halt_cmd0 = wp_halt_cmd [where i = 0, unfolded of_nat_0]


subsection \<open>Reading memory\<close>

lemma wp_bench_wait_sbus:
  assumes "Q () p h"
  shows "wp (wait_sbus T timeout) Q p h"
  unfolding wp_def
proof (intro allI impI)
  fix d :: "'s RISCVDebug" assume d: "reps (t_state d) p" "tracked_hartsel d = h"
  have "predict p ADDR_SBCS = expect_sbcs p" by (simp add: predict_def is_data_def is_progbuf_def)
  then obtain v s' where "t_read T ADDR_SBCS (t_state d) = (Inr v, s')" "reps s' p" "sbus_check v = Inr True"
    using read_law [OF d(1), of ADDR_SBCS] canned_law [OF d(1), of ADDR_SBCS] sbcs_idle [of p]
    by (cases "has_model p ADDR_SBCS") auto
  then have "wait_sbus T timeout d = Some (Inr (), d\<lparr>t_state := s', clock_reads := Suc (clock_reads d)\<rparr>)"
    by (simp add: wait_sbus_def poll_until_def poll_loop_accept)
  with \<open>reps s' p\<close> d(2) assms show "\<exists>x d' q. wait_sbus T timeout d = Some (Inr x, d') \<and>
      reps (t_state d') q \<and> Q x q (tracked_hartsel d')" by fastforce
qed

lemma at_mem_read:
  assumes "at i c v p" "q = on_write ADDR_SBADDRESS0 a (on_write ADDR_SBCS (push_bit 20 1 OR push_bit 17 2) p)"
  shows "at i c v q" "shadow_mem q = shadow_mem p" "sba_ready q = sba_ready p"
proof -
  have sr: "shadow_regs (on_write ADDR_SBCS w p) = shadow_regs p" "shadow_regs (on_write ADDR_SBADDRESS0 w p) = shadow_regs p"
    "shadow_mem (on_write ADDR_SBCS w p) = shadow_mem p" "shadow_mem (on_write ADDR_SBADDRESS0 w p) = shadow_mem p"
    "sba_ready (on_write ADDR_SBCS w p) = sba_ready p" "sba_ready (on_write ADDR_SBADDRESS0 w p) = sba_ready p" for w p
    unfolding on_write_sba
    by (simp_all add: write_sbcs_def write_sbaddress0_def sba_arm_read_def sba_autoincrement_def Let_def sba_ready_def split: option.split)
  have st: "\<not> step_armed (on_write ADDR_SBCS w p)" "\<not> step_armed (on_write ADDR_SBADDRESS0 w p)" if "\<not> step_armed p" for w p
    using that sr(1,2) [of w p] unfolding step_armed_def by metis+
  have np: "\<not> step_armed p" using assms(1) by (simp add: at_def seq_ready_def)
  show "at i c v q" unfolding assms(2) by (intro at_other_write st assms(1) np) simp_all
  show "shadow_mem q = shadow_mem p" "sba_ready q = sba_ready p" using sr assms(2) by metis+
qed

lemma wp_read_mem_any:
  assumes "at i c v p" "\<And>w q. at i c v q \<Longrightarrow> Q w q h"
  shows "wp (read_mem32 T a) Q p h"
  unfolding read_mem32_def by (intro wp_seq wp_dmi_write wp_bench_wait_sbus wp_bench_read assms(2) at_mem_read(1) [OF assms(1) refl])

lemma wp_read_mem:
  assumes "at i c v p" "sba_ready p" "shadow_mem p (take_bit 32 a) = Some x"
    and "\<And>q. at i c v q \<Longrightarrow> sba_ready q \<Longrightarrow> shadow_mem q = shadow_mem p \<Longrightarrow> Q x q h"
  shows "wp (read_mem32 T a) Q p h"
proof -
  let ?q = "on_write ADDR_SBADDRESS0 a (on_write ADDR_SBCS (push_bit 20 1 OR push_bit 17 2) p)"
  note q = at_mem_read [OF assms(1) refl, of a] and m = mem_read32 [OF refl assms(3)]
  have "has_model ?q ADDR_SBDATA0" "predict ?q ADDR_SBDATA0 = x"
    using m assms(2) by (simp_all add: has_model_def predict_def is_data_def is_progbuf_def sba_ready_def)
  then show ?thesis
    unfolding read_mem32_def using q assms(2)
    by (intro wp_seq wp_dmi_write wp_bench_wait_sbus wp_dmi_read) (simp_all add: assms(4))
qed

subsection \<open>The sequences\<close>

lemma gpr_write_steps_wp:
  assumes "startable p 0" "engine p" "take_bit 32 x = x"
    and r: "take_bit 16 r \<noteq> DCSR_REGNO" "reads_back_as_written (take_bit 16 r)" "take_bit 16 r \<noteq> GPR_X0_REGNO"
  shows "steps_wp (gpr_write_steps T r x) (\<lambda>_ _ _. True) () p h"
  unfolding gpr_write_steps_def tc_ac_002_roundtrip_def tc_ac_002_x0_def
  apply (rule steps_command, rule wp_activate_cmd [OF assms(1,2)])
  apply (rule steps_command, erule wp_halt_cmd0)
  apply (rule steps_check, rule wp_seq, erule wp_write_gpr, rule r(1))
  apply (rule wp_bind, erule wp_read_gpr [OF _ _ r(2,3)], simp, rule wp_step_result, simp add: assms(3))
  apply (rule swp_check_step, rule wp_seq, erule wp_write_gpr, simp)
  apply (rule wp_bind, erule wp_read_x0, simp, rule wp_step_result, simp)
  done

lemma csr_access_steps_wp:
  assumes "startable p 0" "engine p" "take_bit 32 x = x" "take_bit 32 y = y" "take_bit 4 (cfg_nscratch (cfg p)) \<noteq> 0"
  shows "steps_wp (csr_access_steps T x y) (\<lambda>_ _ _. True) () p h"
proof -
  have r: "take_bit 16 DSCRATCH0_REGNO \<noteq> DCSR_REGNO" "reads_back_as_written (take_bit 16 DSCRATCH0_REGNO)"
    "take_bit 16 DSCRATCH0_REGNO \<noteq> GPR_X0_REGNO" "take_bit 16 DSCRATCH1_REGNO \<noteq> DCSR_REGNO"
    "reads_back_as_written (take_bit 16 DSCRATCH1_REGNO)" "take_bit 16 DSCRATCH1_REGNO \<noteq> GPR_X0_REGNO"
    by (simp_all add: reads_back_as_written_def)
  have scratch: "truth (take_bit 4 (drop_bit 20 (expect_hartinfo (cfg p))))"
    using assms(5) by (simp add: hartinfo_nscratch truth_def)
  show ?thesis
    unfolding csr_access_steps_def tc_ac_005_def tc_dcsr_003a_def tc_dcsr_003b_def Let_def
    apply (rule steps_command, rule wp_activate_cmd [OF assms(1,2)])
    apply (rule steps_command, erule wp_halt_cmd0)
    apply (rule steps_check, rule wp_seq, erule wp_write_gpr, rule r)
    apply (rule wp_bind, rule wp_read_abstractcs, assumption, rule wp_if, simp add: abstractcs_no_error)
    apply (rule wp_bind, erule wp_read_gpr [OF _ _ r(2,3)], simp, rule wp_step_result, rule conjI, simp add: assms(3))
    apply (rule steps_check, rule wp_seq, erule wp_write_gpr, rule r, rule wp_seq, erule wp_write_gpr, rule r)
    apply (rule wp_bind, erule wp_read_gpr [OF _ _ r(2,3)], simp)
    apply (rule wp_bind, erule wp_read_gpr [OF _ _ r(5,6)], simp, rule wp_step_result, rule conjI, simp add: assms(3,4))
    apply (rule steps_check, rule wp_bind, rule wp_read_hartinfo, assumption)
    apply (rule wp_seq, erule wp_write_gpr, rule r, rule wp_seq, erule wp_write_gpr, rule r)
    apply (rule wp_seq, erule wp_resume_cmd [where i = 0, unfolded of_nat_0], rule wp_seq, erule wp_halt_cmd0)
    apply (rule wp_bind, erule wp_read_any, rule wp_bind, erule wp_read_any)
    apply (rule wp_bind, rule wp_read_abstractcs, assumption, rule wp_step_result)
    apply (simp add: abstractcs_no_error scratch)
    done
qed

lemma discovery_steps_wp:
  assumes "startable p 0" "engine p"
  shows "steps_wp (discovery_steps T) (\<lambda>_ _ _. True) () p h"
  unfolding discovery_steps_def tc_dis_003_def
  by (rule steps_command, rule wp_activate_cmd [OF assms], rule steps_check, rule wp_bind, rule wp_read_hartinfo, assumption,
    rule wp_bind, rule wp_read_hartinfo, assumption, rule wp_step_result) simp

lemma report_halt_status_steps_wp:
  assumes "startable p 0" "engine p" "\<not> halted (harts p ! 0)" "\<not> ndmreset p" "1 \<le> num_harts p"
  shows "steps_wp (report_halt_status_steps T 0) (\<lambda>_ _ _. True) () p h"
proof -
  let ?c = "seq_config p" and ?v = "c_step (seq_config p) activate_args (view p 0)"
  have "\<not> v_halted ?v" using assms(3,4) startable_view [OF assms(1)] by (simp add: view_step_simps view_def)
  moreover have "v_halted (c_step ?c (idle_args 0) (c_step ?c (halt_args 0) ?v))"
    by (simp add: view_step_simps)
  moreover have "drop_bit 0 (expect_haltsum0 q) AND 1 = of_bool (v_halted v)" if "cmd_at 0 ?c v q" for q v
    using haltsum0_selected [OF cmd_atD(1) [OF that]] assms(5) by (simp add: seq_config_def)
  ultimately show ?thesis
    unfolding report_halt_status_steps_def tc_dhs_001_running_def tc_dhs_001_halted_def
    apply -
    apply (rule steps_command, rule wp_activate_cmd [OF assms(1,2)])
    apply (rule steps_check, rule wp_bind, rule wp_read_haltsum0, assumption, rule wp_step_result, rule conjI, simp)
    apply (rule steps_command, erule wp_halt_cmd0)
    apply (rule steps_check, rule wp_bind, rule wp_read_haltsum0, assumption, rule wp_step_result, simp)
    done
qed

lemma mem_scan_reads:
  assumes "at i c v p" "sba_ready p" "\<forall>k \<in> set ks. shadow_mem p (take_bit 32 (base_addr + int k * 4)) \<noteq> None"
  shows "verdicts_wp (map (\<lambda>k. check_step ''Read mem'' (mem_scan_step T (base_addr + int k * 4) (expected_word exps k))) ks)
    (map (scan_ok p base_addr exps) ks) (\<lambda>_ _ _. True) () p h"
  using assms
proof (induction ks arbitrary: p)
  case (Cons k ks)
  then obtain x where x: "shadow_mem p (take_bit 32 (base_addr + int k * 4)) = Some x" by auto
  have IH: "verdicts_wp (map (\<lambda>k. check_step ''Read mem'' (mem_scan_step T (base_addr + int k * 4) (expected_word exps k))) ks)
      (map (scan_ok p base_addr exps) ks) (\<lambda>_ _ _. True) () q h"
    if "at i c v q" "sba_ready q" "shadow_mem q = shadow_mem p" for q
    using Cons.IH [OF that(1,2)] Cons.prems(3) that(3) by (simp add: scan_ok_cong [OF that(3)])
  show ?case
    unfolding list.map
    by (rule verdicts_check, unfold mem_scan_step_def [of _ "base_addr + int k * 4"], rule wp_bind,
        rule wp_read_mem [OF Cons.prems(1,2) x])
      (auto intro!: wp_case_option wp_step_verdict IH simp: scan_ok_def x)
qed simp

lemma mem_scan_verdicts_wp:
  assumes "startable p 0" "engine p" "cfg_sba_enable (cfg p)"
    "\<forall>k < n. shadow_mem p (take_bit 32 (base_addr + int k * 4)) \<noteq> None"
  shows "verdicts_wp (mem_scan_steps T base_addr n exps) ([True, True] @ map (scan_ok p base_addr exps) [0..<n]) (\<lambda>_ _ _. True) () p h"
  unfolding mem_scan_steps_def append_Cons append_Nil
proof (rule verdicts_command, rule wp_activate_cmd [OF assms(1,2)], rule verdicts_command, erule wp_halt_cmd0)
  fix q1 q assume q: "cmd_at 0 (seq_config p) (c_step (seq_config p) (idle_args 0)
      (c_step (seq_config p) (halt_args 0) (c_step (seq_config p) activate_args (view p 0)))) q"
    and m: "cfg q1 = cfg p" "shadow_mem q1 = shadow_mem p" "cfg q = cfg q1" "shadow_mem q = shadow_mem q1"
  then have "sba_ready q" using assms(3) by (simp add: sba_ready_def cmd_atD)
  then show "verdicts_wp (map (\<lambda>i. check_step ''Read mem'' (mem_scan_step T (base_addr + int i * 4) (expected_word exps i))) [0..<n])
      (map (scan_ok p base_addr exps) [0..<n]) (\<lambda>_ _ _. True) () q 0"
    using mem_scan_reads [OF cmd_atD(1) [OF q], of "[0..<n]" base_addr exps 0] m assms(4) by (simp add: scan_ok_cong [of q p])
qed

lemma halt_steps_wp:
  assumes "startable p 0"
  shows "steps_wp (halt_steps T mem_addr resume_after) (\<lambda>_ _ _. True) () p h"
  unfolding halt_steps_def check_halted_def read_pc_def get_pc_def read_ra_def read_sp_def read_memory_def resume_core_def
    append_Cons append_Nil
  apply (rule steps_command, rule wp_activate [OF assms])
  apply (rule steps_command, erule wp_halt [where i = 0, unfolded of_nat_0])
  apply (rule steps_check, rule wp_bind, rule wp_is_halted, rule wp_step_result, rule conjI, simp add: at_status view_step_simps)
  apply ((rule steps_check, rule wp_bind, erule wp_bench_read_gpr, rule wp_step_result, rule conjI, rule TrueI)+)
  apply (rule steps_check, rule wp_bind, erule wp_read_mem_any, rule wp_step_result, rule conjI, rule TrueI)
  apply (cases resume_after)
   apply (simp only: if_True, rule steps_check, rule wp_seq, erule wp_resume [where i = 0, unfolded of_nat_0])
   apply (rule wp_bind, rule wp_is_running, rule wp_step_result, simp add: at_status view_step_simps)
  apply simp
  done

end

end
