(* ===== verification/ResetValuesSeq.thy ===== *)
theory ResetValuesSeq
  imports Sequences DutConfig
begin

text \<open>
  \<^verbatim>\<open>src/src/pydebug/sequences/reset_values_sequence.py\<close>: every register of the module after a reset of
  the module, against the reset values of the specification and the presets the target declares. The
  declaration is the JSON object of \<^verbatim>\<open>load_dut_config(dut).raw\<close>, read as the source reads it: where a key
  is missing or a value has another type the step raises.
\<close>

unbundle bit_operations_syntax

subsection \<open>Reading the declaration\<close>

definition liftR :: "'a result \<Rightarrow> ('s, 'a) dbg" where
  "liftR r = (case r of Inl e \<Rightarrow> raiseD (Raised e) | Inr x \<Rightarrow> returnD x)"

text \<open>\<^verbatim>\<open>int(cfg[k], 16)\<close>, \<^verbatim>\<open>int(cfg[k])\<close> and \<^verbatim>\<open>range(cfg[k])\<close>.\<close>

definition cfg_hex :: "json \<Rightarrow> string \<Rightarrow> int result" where
  "cfg_hex r k = bindR (json_get r k) (\<lambda>v. case v of JStr s \<Rightarrow> py_int_by unsigned_int16 s | _ \<Rightarrow> Inl (TypeError k))"

definition cfg_int :: "json \<Rightarrow> string \<Rightarrow> int result" where
  "cfg_int r k = bindR (json_get r k) (\<lambda>v. case v of
      JStr s \<Rightarrow> py_int_by (\<lambda>u. digits_val 10 True u 0) s
    | JInt n \<Rightarrow> Inr n
    | JBool b \<Rightarrow> Inr (int_of_bool b)
    | _ \<Rightarrow> Inl (TypeError k))"

definition cfg_range :: "json \<Rightarrow> string \<Rightarrow> int list result" where
  "cfg_range r k = bindR (json_get r k) (\<lambda>v. case v of
      JInt n \<Rightarrow> Inr [0..n - 1]
    | JBool b \<Rightarrow> Inr [0..int_of_bool b - 1]
    | _ \<Rightarrow> Inl (TypeError k))"

subsection \<open>Comparing fields\<close>

type_synonym field_pos = "string \<times> nat \<times> nat"

definition SBCS_FIELDS :: "field_pos list" where
  "SBCS_FIELDS =
     [(''sbversion'', 29, 3), (''sbbusyerror'', 22, 1), (''sbbusy'', 21, 1), (''sbreadonaddr'', 20, 1), (''sbaccess'', 17, 3),
      (''sbautoincrement'', 16, 1), (''sbreadondata'', 15, 1), (''sberror'', 12, 3), (''sbasize'', 5, 7), (''sbaccess128'', 4, 1),
      (''sbaccess64'', 3, 1), (''sbaccess32'', 2, 1), (''sbaccess16'', 1, 1), (''sbaccess8'', 0, 1)]"

definition DTMCS_FIELDS :: "field_pos list" where
  "DTMCS_FIELDS =
     [(''dmihardreset'', 17, 1), (''dmireset'', 16, 1), (''idle'', 12, 3), (''dmistat'', 10, 2), (''abits'', 4, 6), (''version'', 0, 4)]"

definition register_fields :: "Register \<Rightarrow> field_pos list" where
  "register_fields reg = map (\<lambda>f. (f_name f, f_lsb f, f_width f)) (r_fields reg)"

definition field_value :: "int \<Rightarrow> nat \<Rightarrow> nat \<Rightarrow> int" where
  "field_value word lsb width = drop_bit lsb word AND (push_bit width 1 - 1)"

text \<open>The names of the fields that differ.\<close>

definition diff :: "(string \<times> json) list \<Rightarrow> int \<Rightarrow> field_pos list \<Rightarrow> string list" where
  "diff exps word fs =
     map fst (filter (\<lambda>(name, lsb, width). case map_of exps name of
         None \<Rightarrow> False
       | Some e \<Rightarrow> \<not> json_eq_int (field_value word lsb width) e) fs)"

text \<open>A dictionary of the declaration: each entry evaluated in turn.\<close>

fun dictR :: "(string \<times> json result) list \<Rightarrow> (string \<times> json) list result" where
  "dictR [] = Inr []"
| "dictR ((k, r) # kvs) = bindR r (\<lambda>v. bindR (dictR kvs) (\<lambda>vs. Inr ((k, v) # vs)))"

definition as_json :: "int result \<Rightarrow> json result" where
  "as_json r = bindR r (\<lambda>n. Inr (JInt n))"

subsection \<open>The steps\<close>

definition dm_reset :: "'s transport \<Rightarrow> 's check_method" where
  "dm_reset T =
     seqD (dmi_write T (r_address DMCONTROL) (dmcontrol (dmcontrol_defaults\<lparr>a_dmactive := False\<rparr>)))
    (seqD (dmi_write T (r_address DMCONTROL) (dmcontrol (dmcontrol_defaults\<lparr>a_dmactive := True\<rparr>)))
          (step_result ''DM reset'' True))"

text \<open>The later entries, of the fields that read zero, replace the earlier ones.\<close>

definition dmcontrol_reset :: "(string \<times> json) list" where
  "dmcontrol_reset =
     map (\<lambda>f. (f_name f, JInt 0)) (filter reads_zero (r_fields DMCONTROL))
     @ List.map_filter (\<lambda>f. if f_name f = ''dmactive'' then Some (f_name f, JInt 1)
         else case f_reset f of Some n \<Rightarrow> Some (f_name f, JInt n) | None \<Rightarrow> None) (r_fields DMCONTROL)"

definition rst_030 :: "'s transport \<Rightarrow> 's check_method" where
  "rst_030 T = bindD (dmi_read T (r_address DMCONTROL)) (\<lambda>word.
     step_result ''RST-030-C'' (diff dmcontrol_reset word (register_fields DMCONTROL) = []))"

definition hartinfo_expected :: "json \<Rightarrow> (string \<times> json) list result" where
  "hartinfo_expected r = dictR
     [(''nscratch'', json_get r ''nscratch''), (''dataaccess'', as_json (cfg_int r ''dataaccess'')),
      (''datasize'', json_get r ''datasize''), (''dataaddr'', as_json (cfg_hex r ''dataaddr''))]"

definition rst_032 :: "'s transport \<Rightarrow> json \<Rightarrow> 's check_method" where
  "rst_032 T r = bindD (dmi_read T (r_address HARTINFO)) (\<lambda>word. bindD (liftR (hartinfo_expected r)) (\<lambda>exps.
     step_result ''RST-032-C'' (diff exps word (register_fields HARTINFO) = [])))"

definition abstractcs_expected :: "json \<Rightarrow> (string \<times> json) list result" where
  "abstractcs_expected r = dictR
     [(''busy'', Inr (JInt 0)), (''cmderr'', Inr (JInt 0)), (''progbufsize'', json_get r ''progbufsize''),
      (''datacount'', json_get r ''datacount''), (''relaxedpriv'', as_json (cfg_int r ''relaxedpriv_reset''))]"

definition rst_033 :: "'s transport \<Rightarrow> json \<Rightarrow> 's check_method" where
  "rst_033 T r = bindD (dmi_read T (r_address ABSTRACTCS)) (\<lambda>word. bindD (liftR (abstractcs_expected r)) (\<lambda>exps.
     step_result ''RST-033-C'' (diff exps word (register_fields ABSTRACTCS) = [])))"

definition rst_034 :: "'s transport \<Rightarrow> 's check_method" where
  "rst_034 T = bindD (dmi_read T (r_address COMMAND)) (\<lambda>word. step_result ''RST-034-C'' (word = 0))"

definition rst_035 :: "'s transport \<Rightarrow> 's check_method" where
  "rst_035 T = bindD (dmi_read T (r_address ABSTRACTAUTO)) (\<lambda>word. step_result ''RST-035-C'' (word = 0))"

definition rst_036 :: "'s transport \<Rightarrow> json \<Rightarrow> 's check_method" where
  "rst_036 T r = bindD (liftR (cfg_range r ''datacount'')) (\<lambda>is.
     bindD (mapD (\<lambda>i. bindD (liftR (data_address i)) (dmi_read T)) is) (\<lambda>vals.
       step_result ''RST-036-C'' (list_all (\<lambda>v. v = 0) vals)))"

definition rst_037 :: "'s transport \<Rightarrow> json \<Rightarrow> 's check_method" where
  "rst_037 T r = bindD (liftR (cfg_range r ''progbufsize'')) (\<lambda>is.
     bindD (mapD (\<lambda>i. bindD (liftR (progbuf_address i)) (dmi_read T)) is) (\<lambda>vals.
       step_result ''RST-037-C'' (list_all (\<lambda>v. v = 0) vals)))"

definition sbcs_expected :: "json \<Rightarrow> (string \<times> json) list result" where
  "sbcs_expected r = dictR
     [(''sbversion'', json_get r ''sbversion''), (''sbbusy'', Inr (JInt 0)), (''sbbusyerror'', Inr (JInt 0)),
      (''sberror'', Inr (JInt 0)), (''sbreadonaddr'', Inr (JInt 0)), (''sbreadondata'', Inr (JInt 0)),
      (''sbautoincrement'', Inr (JInt 0)), (''sbasize'', json_get r ''sbasize''), (''sbaccess'', json_get r ''sbaccess_reset''),
      (''sbaccess128'', as_json (cfg_int r ''sbaccess128'')), (''sbaccess64'', as_json (cfg_int r ''sbaccess64'')),
      (''sbaccess32'', as_json (cfg_int r ''sbaccess32'')), (''sbaccess16'', as_json (cfg_int r ''sbaccess16'')),
      (''sbaccess8'', as_json (cfg_int r ''sbaccess8''))]"

definition rst_038 :: "'s transport \<Rightarrow> json \<Rightarrow> 's check_method" where
  "rst_038 T r = bindD (dmi_read T ADDR_SBCS) (\<lambda>word. bindD (liftR (sbcs_expected r)) (\<lambda>exps.
     step_result ''RST-038-C'' (diff exps word SBCS_FIELDS = [])))"

definition rst_039 :: "'s transport \<Rightarrow> 's check_method" where
  "rst_039 T = bindD (mapD (dmi_read T)
       (map (\<lambda>i. ADDR_SBADDRESS0 + i) [0..2] @ [ADDR_SBADDRESS3] @ map (\<lambda>i. ADDR_SBDATA0 + i) [0..3])) (\<lambda>vals.
     step_result ''RST-039-C'' (list_all (\<lambda>v. v = 0) vals))"

definition rst_040 :: "'s transport \<Rightarrow> 's check_method" where
  "rst_040 T = bindD (mapD (dmi_read T) (map r_address HALTSUM_LEVELS)) (\<lambda>vals.
     step_result ''RST-040-C'' (list_all (\<lambda>v. v = 0) vals))"

text \<open>\<^verbatim>\<open>word != 0 and not cfg["authentication_enable"]\<close>: the declaration is read for a nonzero word only.\<close>

definition authdata_bad :: "json \<Rightarrow> int \<Rightarrow> bool result" where
  "authdata_bad r word =
     (if word = 0 then Inr False
      else bindR (json_get r ''authentication_enable'') (\<lambda>v. Inr (\<not> json_bool v)))"

definition rst_042 :: "'s transport \<Rightarrow> json \<Rightarrow> 's check_method" where
  "rst_042 T r =
     bindD (dmi_read T NEXTDM) (\<lambda>nextdm.
     bindD (liftR (cfg_hex r ''nextdm'')) (\<lambda>declared.
     bindD (mapD (dmi_read T) (map (\<lambda>i. CONFSTRPTR0 + i) [0..3])) (\<lambda>ptrs.
     bindD (dmi_read T AUTHDATA) (\<lambda>auth.
     bindD (liftR (authdata_bad r auth)) (\<lambda>bad.
       step_result ''RST-042-C'' (nextdm = declared \<and> list_all (\<lambda>v. v = 0) ptrs \<and> \<not> bad))))))"

text \<open>\<^verbatim>\<open>dtmcs\<close> is the method of the transport, where it has one.\<close>

definition rst_043 :: "('s, int) dbg option \<Rightarrow> 's check_method" where
  "rst_043 dtmcs = (case dtmcs of
      None \<Rightarrow> step_result ''RST-043-C'' True
    | Some m \<Rightarrow> bindD m (\<lambda>word. step_result ''RST-043-C''
        (diff [(''dmistat'', JInt 0), (''dmireset'', JInt 0), (''dmihardreset'', JInt 0)] word DTMCS_FIELDS = [])))"

definition reset_values_steps :: "'s transport \<Rightarrow> ('s, int) dbg option \<Rightarrow> json \<Rightarrow> ('s, unit) seq_step list" where
  "reset_values_steps T dtmcs r =
     [check_step ''Reset the Debug Module'' (dm_reset T),
      check_step ''RST-030-C: dmcontrol reset value'' (rst_030 T),
      check_step ''RST-032-C: hartinfo presets'' (rst_032 T r),
      check_step ''RST-033-C: abstractcs reset value'' (rst_033 T r),
      check_step ''RST-034-C: command reads zero'' (rst_034 T),
      check_step ''RST-035-C: abstractauto reset value'' (rst_035 T),
      check_step ''RST-036-C: data registers after reset'' (rst_036 T r),
      check_step ''RST-037-C: program buffer after reset'' (rst_037 T r),
      check_step ''RST-038-C: sbcs reset value'' (rst_038 T r),
      check_step ''RST-039-C: SBA address/data after reset'' (rst_039 T),
      check_step ''RST-040-C: halt summaries with nothing halted'' (rst_040 T),
      check_step ''RST-042-C: nextdm and confstrptr'' (rst_042 T r),
      check_step ''RST-043-C: dtmcs reset value'' (rst_043 dtmcs)]"

text \<open>The mode is checked first, then the declaration is loaded.\<close>

definition build_reset_values_sequence ::
  "(string \<Rightarrow> json result option) \<Rightarrow> string \<Rightarrow> 's transport \<Rightarrow> ('s, int) dbg option \<Rightarrow> string \<Rightarrow> string \<Rightarrow> ('s, unit) seq_session result" where
  "build_reset_values_sequence files config_dir T dtmcs md name =
     bindR (session_of md False ([] :: ('s, unit) seq_step list)) (\<lambda>_.
     bindR (load_dut_config files config_dir name) (\<lambda>c. session_of md False (reset_values_steps T dtmcs (raw c))))"

end
