(* ===== verification/ResetValuesRuns.thy ===== *)
theory ResetValuesRuns
  imports ResetValuesSeq SequenceRuns PredictorProps
begin

text \<open>
  The reset-value sequence on a target that follows the predictor: what the module reads after a
  reset of the module, field by field, and the verdict of each step.
\<close>

unbundle bit_operations_syntax

subsection \<open>The module just reset\<close>

definition dm_fresh :: "DeclaredConfig \<Rightarrow> DMPredictor \<Rightarrow> bool" where
  "dm_fresh c q \<longleftrightarrow>
     cfg q = c \<and> cfg_valid q \<and> dmactive q \<and> \<not> ndmreset q \<and> hartsel q = 0 \<and> \<not> hasel q \<and> \<not> hartreset_level q \<and>
     abstractauto q = 0 \<and> relaxedpriv q = cfg_relaxedpriv_reset c \<and>
     data0_pending_valid q \<and> data0_pending_value q = 0 \<and> data_q q = replicate 12 0 \<and> data_known q = replicate 12 True \<and>
     progbuf_q q = replicate 16 0 \<and> \<not> sbreadonaddr q \<and> sbaccess q = cfg_sbaccess_reset c \<and> \<not> sbautoincrement q \<and>
     \<not> sbreadondata q \<and> sbaddress0 q = 0 \<and> sbaddress1 q = 0 \<and> sbdata0_pending_valid q \<and> sbdata0_pending_value q = 0 \<and>
     sbdata1 q = 0 \<and> sbdata1_known q \<and> list_all (\<lambda>h. \<not> halted h) (harts q)"

lemma hart_next_not_halted:
  assumes "\<not> halted h" "\<not> ndmreset p" "\<not> hartreset_level p" "\<not> bit v 1" "\<not> bit v 29" "\<not> bit v 30" "\<not> bit v 31"
  shows "\<not> halted (hart_next p v i h)"
  using assms by (auto simp: hart_next_defs release_from_reset_def)

lemma reset_dm_not_halted:
  assumes "list_all (\<lambda>h. \<not> halted h) (harts p)"
  shows "list_all (\<lambda>h. \<not> halted h) (harts (reset_dm False p))"
  using assms by (auto simp: reset_dm_def reset_declared_regs_def Let_def reset_hart_def list_all_length HartState_default_def)

lemma dm_fresh_reset:
  assumes "cfg_valid p" "list_all (\<lambda>h. \<not> halted h) (harts p)"
  shows "dm_fresh (cfg p) (dmcontrol_next (dmcontrol (dmcontrol_defaults\<lparr>a_dmactive := True\<rparr>)) (reset_dm False p))"
proof -
  let ?p = "reset_dm False p" and ?v = "dmcontrol (dmcontrol_defaults\<lparr>a_dmactive := True\<rparr>)"
  let ?q = "dmcontrol_next ?v ?p"
  have "list_all (\<lambda>h. \<not> halted h) (harts ?q)"
    using reset_dm_not_halted [OF assms(2)] hart_next_not_halted [of _ ?p ?v]
    by (simp add: list_all_length reset_dm_def reset_declared_regs_def Let_def)
  moreover have "rest ?q = rest ?p" by simp
  then have "cfg ?q = cfg ?p \<and> cfg_valid ?q = cfg_valid ?p \<and> abstractauto ?q = abstractauto ?p \<and> relaxedpriv ?q = relaxedpriv ?p"
    by (simp add: dmcontrol_next_def map_harts_def)
  ultimately show ?thesis
    using assms(1)
    by (simp add: dm_fresh_def dmcontrol_next_def map_harts_def dmcontrol_next_more reset_dm_def reset_declared_regs_def Let_def)
qed

subsection \<open>Fields of the predicted words\<close>

lemma field_value_eq: "field_value w l n = take_bit n (drop_bit l w)"
  by (simp add: field_value_def take_bit_eq_mask mask_eq_exp_minus_1 push_bit_of_1)

lemma dmcontrol_fresh: "dm_fresh c q \<Longrightarrow> expect_dmcontrol q = 1"
  by (rule bit_eqI) (auto simp: bit_expect_dmcontrol dm_fresh_def bit_1_iff)

lemma hartinfo_fields:
  "field_value (expect_hartinfo c) 20 4 = take_bit 4 (cfg_nscratch c)"
  "field_value (expect_hartinfo c) 16 1 = int_of_bool (cfg_dataaccess c)"
  "field_value (expect_hartinfo c) 12 4 = take_bit 4 (cfg_datasize c)"
  "field_value (expect_hartinfo c) 0 12 = take_bit 12 (cfg_dataaddr c)"
  unfolding field_value_eq
  by (rule bit_eqI; auto simp: expect_hartinfo_def bit_or_iff bit_push_bit_iff bit_take_bit_iff bit_drop_bit_eq int_of_bool_eq bit_of_bool_int)+

lemma abstractcs_fields:
  "field_value (expect_abstractcs p) 24 5 = take_bit 5 (cfg_progbufsize (cfg p))"
  "field_value (expect_abstractcs p) 12 1 = 0"
  "field_value (expect_abstractcs p) 11 1 = int_of_bool (relaxedpriv p)"
  "field_value (expect_abstractcs p) 8 3 = 0"
  "field_value (expect_abstractcs p) 0 4 = take_bit 4 (cfg_datacount (cfg p))"
  unfolding field_value_eq
  by (rule bit_eqI; auto simp: expect_abstractcs_def bit_or_iff bit_push_bit_iff bit_take_bit_iff bit_drop_bit_eq int_of_bool_eq bit_of_bool_int)+

lemma bit_expect_sbcs:
  assumes "cfg_sba_enable (cfg p)"
  shows "bit (expect_sbcs p) n \<longleftrightarrow>
    29 \<le> n \<and> n < 32 \<and> bit (cfg_sbversion (cfg p)) (n - 29) \<or> n = 20 \<and> sbreadonaddr p \<or>
    17 \<le> n \<and> n < 20 \<and> bit (sbaccess p) (n - 17) \<or> n = 16 \<and> sbautoincrement p \<or> n = 15 \<and> sbreadondata p \<or>
    5 \<le> n \<and> n < 12 \<and> bit (cfg_sbasize (cfg p)) (n - 5) \<or> n = 4 \<and> cfg_sbaccess128 (cfg p) \<or> n = 3 \<and> cfg_sbaccess64 (cfg p) \<or>
    n = 2 \<and> cfg_sbaccess32 (cfg p) \<or> n = 1 \<and> cfg_sbaccess16 (cfg p) \<or> n = 0 \<and> cfg_sbaccess8 (cfg p)"
proof -
  have bits: "bit (push_bit k (x AND 7)) n \<longleftrightarrow> k \<le> n \<and> n < k + 3 \<and> bit x (n - k)"
    "bit (push_bit k (x AND 0x7F)) n \<longleftrightarrow> k \<le> n \<and> n < k + 7 \<and> bit x (n - k)"
    "bit (push_bit k (int_of_bool b)) n \<longleftrightarrow> n = k \<and> b" "bit (int_of_bool b) n \<longleftrightarrow> n = 0 \<and> b" for k and x :: int and b
    by (simp_all only: bit_push_bit_iff and_literal_masks bit_take_bit_iff int_of_bool_eq bit_of_bool_int) auto
  show ?thesis by (simp only: expect_sbcs_def Let_def assms simp_thms if_False bit_or_iff bits) auto
qed

lemma even_expect_sbcs: "cfg_sba_enable (cfg p) \<Longrightarrow> even (expect_sbcs p) = (\<not> cfg_sbaccess8 (cfg p))"
  using bit_expect_sbcs [of p 0] by (auto simp: bit_0)

lemma sbcs_fields:
  assumes "cfg_sba_enable (cfg p)"
  shows "field_value (expect_sbcs p) 29 3 = take_bit 3 (cfg_sbversion (cfg p))"
    "field_value (expect_sbcs p) 22 1 = 0" "field_value (expect_sbcs p) 21 1 = 0"
    "field_value (expect_sbcs p) 20 1 = int_of_bool (sbreadonaddr p)"
    "field_value (expect_sbcs p) 17 3 = take_bit 3 (sbaccess p)"
    "field_value (expect_sbcs p) 16 1 = int_of_bool (sbautoincrement p)"
    "field_value (expect_sbcs p) 15 1 = int_of_bool (sbreadondata p)"
    "field_value (expect_sbcs p) 12 3 = 0"
    "field_value (expect_sbcs p) 5 7 = take_bit 7 (cfg_sbasize (cfg p))"
    "field_value (expect_sbcs p) 4 1 = int_of_bool (cfg_sbaccess128 (cfg p))"
    "field_value (expect_sbcs p) 3 1 = int_of_bool (cfg_sbaccess64 (cfg p))"
    "field_value (expect_sbcs p) 2 1 = int_of_bool (cfg_sbaccess32 (cfg p))"
    "field_value (expect_sbcs p) 1 1 = int_of_bool (cfg_sbaccess16 (cfg p))"
    "field_value (expect_sbcs p) 0 1 = int_of_bool (cfg_sbaccess8 (cfg p))"
  unfolding field_value_eq
  by (rule bit_eqI; auto simp: bit_expect_sbcs [OF assms] even_expect_sbcs [OF assms] bit_take_bit_iff bit_drop_bit_eq int_of_bool_eq bit_of_bool_int)+

lemma haltsums_none_halted:
  assumes "list_all (\<lambda>h. \<not> halted h) (harts p)"
  shows "expect_haltsum0 p = 0" "expect_haltsum n p = 0"
  using assms by (auto intro!: bit_eqI simp: haltsum0_bits haltsum_bits list_all_length)

subsection \<open>Declarations both readers understand\<close>

text \<open>
  The number of a preset is written as a number, an address as a string with the prefix \<^verbatim>\<open>0x\<close>, a
  Boolean as a Boolean; every value fits its field.
\<close>

definition is_number :: "json \<Rightarrow> string \<Rightarrow> bool" where
  "is_number r k = (case json_get r k of Inr (JInt _) \<Rightarrow> True | _ \<Rightarrow> False)"

definition is_boolean :: "json \<Rightarrow> string \<Rightarrow> bool" where
  "is_boolean r k = (case json_get r k of Inr (JBool _) \<Rightarrow> True | _ \<Rightarrow> False)"

definition is_hex :: "json \<Rightarrow> string \<Rightarrow> bool" where
  "is_hex r k = (case json_get r k of Inr (JStr s) \<Rightarrow> take 2 s = ''0x'' \<and> strip s = s | _ \<Rightarrow> False)"

definition plain_presets :: "json \<Rightarrow> bool" where
  "plain_presets r \<longleftrightarrow>
     list_all (is_number r) [''nscratch'', ''datasize'', ''progbufsize'', ''datacount'', ''sbversion'', ''sbasize'', ''sbaccess_reset''] \<and>
     list_all (is_boolean r) [''dataaccess'', ''relaxedpriv_reset'', ''sbaccess128'', ''sbaccess64'', ''sbaccess32'', ''sbaccess16'',
       ''sbaccess8'', ''authentication_enable''] \<and>
     list_all (is_hex r) [''dataaddr'', ''nextdm'']"

definition presets_fit :: "DeclaredConfig \<Rightarrow> bool" where
  "presets_fit c \<longleftrightarrow>
     list_all (\<lambda>(n, m). 0 \<le> n \<and> n < m)
       [(cfg_nscratch c, 16), (cfg_datasize c, 16), (cfg_dataaddr c, 2 ^ 12), (cfg_progbufsize c, 17), (cfg_datacount c, 13),
        (cfg_sbversion c, 8), (cfg_sbasize c, 65), (cfg_sbaccess_reset c, 8), (cfg_nextdm c, 2 ^ 32)] \<and>
     \<not> cfg_sbaccess128 c"

lemma number_declared: "is_number r k \<Longrightarrow> num r k = Inr n \<Longrightarrow> json_get r k = Inr (JInt n)"
  by (auto simp: is_number_def num_def split: sum.splits json.splits)

lemma boolean_declared: "is_boolean r k \<Longrightarrow> flag r k = Inr b \<Longrightarrow> json_get r k = Inr (JBool b)"
  by (auto simp: is_boolean_def flag_def split: sum.splits json.splits)

lemma boolean_int: "json_get r k = Inr (JBool b) \<Longrightarrow> cfg_int r k = Inr (int_of_bool b)"
  by (simp add: cfg_int_def)

lemma hex_declared:
  assumes "is_hex r k" "num r k = Inr n"
  shows "cfg_hex r k = Inr n"
proof -
  obtain s where s: "json_get r k = Inr (JStr s)" "take 2 s = ''0x''" "strip s = s"
    using assms(1) by (auto simp: is_hex_def split: sum.splits json.splits)
  then obtain cs where "s = ''0x'' @ cs" by (metis append_take_drop_id)
  moreover have "lower_char CHR ''x'' = CHR ''x''" by code_simp
  ultimately show ?thesis
    using s assms(2) by (simp add: cfg_hex_def num_def py_int_by_def py_int0_def unsigned_int16_def unsigned_int0_def Let_def)
qed

text \<open>What the steps expect, for a declaration \<open>r\<close> and the configuration \<open>c\<close> made from it.\<close>

definition declares :: "json \<Rightarrow> DeclaredConfig \<Rightarrow> bool" where
  "declares r c \<longleftrightarrow> plain_presets r \<and> presets_fit c \<and>
     list_all (\<lambda>(k, v). num r k = Inr v) (config_numbers c) \<and> list_all (\<lambda>(k, b). flag r k = Inr b) (config_flags c)"

lemma declared_values:
  assumes "declares r c"
  shows "json_get r ''nscratch'' = Inr (JInt (cfg_nscratch c))" "json_get r ''datasize'' = Inr (JInt (cfg_datasize c))"
    "json_get r ''progbufsize'' = Inr (JInt (cfg_progbufsize c))" "json_get r ''datacount'' = Inr (JInt (cfg_datacount c))"
    "json_get r ''sbversion'' = Inr (JInt (cfg_sbversion c))" "json_get r ''sbasize'' = Inr (JInt (cfg_sbasize c))"
    "json_get r ''sbaccess_reset'' = Inr (JInt (cfg_sbaccess_reset c))"
    "cfg_int r ''dataaccess'' = Inr (int_of_bool (cfg_dataaccess c))"
    "cfg_int r ''relaxedpriv_reset'' = Inr (int_of_bool (cfg_relaxedpriv_reset c))"
    "cfg_int r ''sbaccess128'' = Inr (int_of_bool (cfg_sbaccess128 c))" "cfg_int r ''sbaccess64'' = Inr (int_of_bool (cfg_sbaccess64 c))"
    "cfg_int r ''sbaccess32'' = Inr (int_of_bool (cfg_sbaccess32 c))" "cfg_int r ''sbaccess16'' = Inr (int_of_bool (cfg_sbaccess16 c))"
    "cfg_int r ''sbaccess8'' = Inr (int_of_bool (cfg_sbaccess8 c))"
    "json_get r ''authentication_enable'' = Inr (JBool (cfg_authentication_enable c))"
    "cfg_hex r ''dataaddr'' = Inr (cfg_dataaddr c)" "cfg_hex r ''nextdm'' = Inr (cfg_nextdm c)"
  using assms
  by (simp_all add: declares_def plain_presets_def config_numbers_def config_flags_def number_declared boolean_int [OF boolean_declared]
      boolean_declared hex_declared)

lemma presets_in_field:
  assumes "presets_fit c"
  shows "take_bit 4 (cfg_nscratch c) = cfg_nscratch c" "take_bit 4 (cfg_datasize c) = cfg_datasize c"
    "take_bit 12 (cfg_dataaddr c) = cfg_dataaddr c" "take_bit 5 (cfg_progbufsize c) = cfg_progbufsize c"
    "take_bit 4 (cfg_datacount c) = cfg_datacount c" "take_bit 3 (cfg_sbversion c) = cfg_sbversion c"
    "take_bit 7 (cfg_sbasize c) = cfg_sbasize c" "take_bit 3 (cfg_sbaccess_reset c) = cfg_sbaccess_reset c"
    "take_bit 32 (cfg_nextdm c) = cfg_nextdm c"
  using assms by (simp_all add: presets_fit_def take_bit_int_eq_self)

text \<open>What \<^verbatim>\<open>RST-038-C\<close> finds: with the system bus absent \<^verbatim>\<open>sbcs\<close> reads 0, whatever the declared presets.\<close>

definition sbcs_as_declared :: "DeclaredConfig \<Rightarrow> bool" where
  "sbcs_as_declared c \<longleftrightarrow> cfg_sba_enable c \<or>
     cfg_sbversion c = 0 \<and> cfg_sbasize c = 0 \<and> cfg_sbaccess_reset c = 0 \<and>
     \<not> cfg_sbaccess64 c \<and> \<not> cfg_sbaccess32 c \<and> \<not> cfg_sbaccess16 c \<and> \<not> cfg_sbaccess8 c"

lemma expected_dicts:
  assumes "declares r c" "dm_fresh c q"
  shows "\<exists>e. hartinfo_expected r = Inr e \<and> diff e (expect_hartinfo c) (register_fields HARTINFO) = []"
    "\<exists>e. abstractcs_expected r = Inr e \<and> diff e (expect_abstractcs q) (register_fields ABSTRACTCS) = []"
    "\<exists>e. sbcs_expected r = Inr e \<and> (diff e (expect_sbcs q) SBCS_FIELDS = []) = sbcs_as_declared c"
proof -
  have c: "cfg q = c" "relaxedpriv q = cfg_relaxedpriv_reset c" "\<not> sbreadonaddr q" "\<not> sbautoincrement q" "\<not> sbreadondata q"
    "sbaccess q = cfg_sbaccess_reset c" using assms(2) by (simp_all add: dm_fresh_def)
  have fit: "presets_fit c" using assms(1) by (simp add: declares_def)
  note vals = declared_values [OF assms(1)] presets_in_field [OF fit]
  show "\<exists>e. hartinfo_expected r = Inr e \<and> diff e (expect_hartinfo c) (register_fields HARTINFO) = []"
    by (simp add: hartinfo_expected_def as_json_def vals diff_def register_fields_def HARTINFO_def mkField_def json_eq_int_def hartinfo_fields
        del: One_nat_def)
  show "\<exists>e. abstractcs_expected r = Inr e \<and> diff e (expect_abstractcs q) (register_fields ABSTRACTCS) = []"
    by (simp add: abstractcs_expected_def as_json_def vals diff_def register_fields_def ABSTRACTCS_def mkField_def json_eq_int_def
        abstractcs_fields c del: One_nat_def)
  have sb: "\<not> cfg_sbaccess128 c" using fit by (simp add: presets_fit_def)
  show "\<exists>e. sbcs_expected r = Inr e \<and> (diff e (expect_sbcs q) SBCS_FIELDS = []) = sbcs_as_declared c"
  proof (cases "cfg_sba_enable c")
    case True
    then have "cfg_sba_enable (cfg q)" by (simp add: c(1))
    from sbcs_fields [OF this] show ?thesis
      using sb True by (simp add: sbcs_expected_def as_json_def vals diff_def SBCS_FIELDS_def json_eq_int_def c sbcs_as_declared_def
          int_of_bool_eq del: One_nat_def)
  next
    case False
    then have "expect_sbcs q = 0" by (simp add: expect_sbcs_def c(1))
    moreover have "field_value 0 l n = 0" for l n by (simp add: field_value_def)
    ultimately show ?thesis
      using sb False by (auto simp: sbcs_expected_def as_json_def vals diff_def SBCS_FIELDS_def json_eq_int_def sbcs_as_declared_def
          int_of_bool_eq)
  qed
qed

subsection \<open>The registers that read zero\<close>

lemma fresh_zero:
  assumes "dm_fresh c q"
  shows "has_model q ADDR_COMMAND \<and> predict q ADDR_COMMAND = 0" "has_model q ADDR_ABSTRACTAUTO \<and> predict q ADDR_ABSTRACTAUTO = 0"
    "0 \<le> i \<Longrightarrow> i < cfg_datacount c \<Longrightarrow> cfg_datacount c < 13 \<Longrightarrow> has_model q (DATA0 + i) \<and> predict q (DATA0 + i) = 0"
    "0 \<le> i \<Longrightarrow> i < cfg_progbufsize c \<Longrightarrow> cfg_progbufsize c < 17 \<Longrightarrow> has_model q (PROGBUF0 + i) \<and> predict q (PROGBUF0 + i) = 0"
    "presets_fit c \<Longrightarrow> a \<in> {ADDR_SBADDRESS0, ADDR_SBADDRESS1, ADDR_SBADDRESS2, ADDR_SBADDRESS3, ADDR_SBDATA0, ADDR_SBDATA1,
        ADDR_SBDATA2, ADDR_SBDATA3} \<Longrightarrow> has_model q a \<and> predict q a = 0"
    "a \<in> {ADDR_HALTSUM0, ADDR_HALTSUM1, ADDR_HALTSUM2, ADDR_HALTSUM3} \<Longrightarrow> has_model q a \<and> predict q a = 0"
    "0 \<le> i \<Longrightarrow> i < 4 \<Longrightarrow> has_model q (CONFSTRPTR0 + i) \<and> predict q (CONFSTRPTR0 + i) = 0"
proof -
  note q = assms [unfolded dm_fresh_def]
  show "has_model q ADDR_COMMAND \<and> predict q ADDR_COMMAND = 0" "has_model q ADDR_ABSTRACTAUTO \<and> predict q ADDR_ABSTRACTAUTO = 0"
    using q by (simp_all add: has_model_def predict_def is_data_def is_progbuf_def expect_abstractauto_def)
  show "has_model q (DATA0 + i) \<and> predict q (DATA0 + i) = 0" if "0 \<le> i" "i < cfg_datacount c" "cfg_datacount c < 13"
  proof -
    have "i \<in> {0, 1, 2, 3, 4, 5, 6, 7, 8, 9, 10, 11}" using that(1) less_le_trans [OF that(2), of 12] that(3) by (simp, presburger)
    then show ?thesis
      using q that(2) by (elim insertE emptyE; simp add: has_model_def predict_def is_data_def)
  qed
  show "has_model q (PROGBUF0 + i) \<and> predict q (PROGBUF0 + i) = 0" if "0 \<le> i" "i < cfg_progbufsize c" "cfg_progbufsize c < 17"
  proof -
    have "i \<in> {0, 1, 2, 3, 4, 5, 6, 7, 8, 9, 10, 11, 12, 13, 14, 15}" using that(1) less_le_trans [OF that(2), of 16] that(3) by (simp, presburger)
    then show ?thesis
      using q that(2) by (elim insertE emptyE; simp add: has_model_def predict_def is_data_def is_progbuf_def)
  qed
  show "has_model q a \<and> predict q a = 0" if "presets_fit c" "a \<in> {ADDR_SBADDRESS0, ADDR_SBADDRESS1, ADDR_SBADDRESS2, ADDR_SBADDRESS3,
      ADDR_SBDATA0, ADDR_SBDATA1, ADDR_SBDATA2, ADDR_SBDATA3}"
  proof -
    have "\<not> cfg_sbaccess128 c" "cfg_sbasize c \<le> 64" using that(1) by (simp_all add: presets_fit_def)
    with that(2) show ?thesis
      using q by (elim insertE emptyE; simp add: has_model_def predict_def is_data_def is_progbuf_def)
  qed
  have "expect_haltsum0 q = 0" "expect_haltsum n q = 0" for n using q haltsums_none_halted by blast+
  then show "has_model q a \<and> predict q a = 0" if "a \<in> {ADDR_HALTSUM0, ADDR_HALTSUM1, ADDR_HALTSUM2, ADDR_HALTSUM3}"
    using that q by (elim insertE emptyE; simp add: has_model_def predict_def is_data_def is_progbuf_def)
  show "has_model q (CONFSTRPTR0 + i) \<and> predict q (CONFSTRPTR0 + i) = 0" if "0 \<le> i" "i < 4"
  proof -
    have "i \<in> {0, 1, 2, 3}" using that by auto
    then show ?thesis
      using q by (elim insertE emptyE; simp add: has_model_def predict_def is_data_def is_progbuf_def)
  qed
qed

subsection \<open>The session\<close>

context dm_bench
begin

lemma wp_liftR: "r = Inr x \<Longrightarrow> Q x p h \<Longrightarrow> wp (liftR r) Q p h"
  by (simp add: liftR_def wp_return)

text \<open>A list of reads that each give zero.\<close>

lemma wp_zeros:
  assumes "\<And>x R. x \<in> set xs \<Longrightarrow> R 0 q h \<Longrightarrow> wp (f x) R q h" "\<And>vs. list_all (\<lambda>v. v = 0) vs \<Longrightarrow> Q vs q h"
  shows "wp (mapD f xs) Q q h"
  using assms
proof (induction xs arbitrary: Q)
  case (Cons x xs)
  have "wp (mapD f xs) (\<lambda>ys. wp (returnD (0 # ys)) Q) q h"
    using Cons.prems by (intro Cons.IH wp_return) auto
  then show ?case unfolding mapD.simps by (intro wp_bind Cons.prems(1) [of x]) simp_all
qed (simp add: wp_return)

lemma wp_zero_read: "has_model q a \<and> predict q a = 0 \<Longrightarrow> R 0 q h \<Longrightarrow> wp (dmi_read T a) R q h"
  by (rule wp_dmi_read) simp_all

lemma fresh_steps:
  assumes q: "dm_fresh c q" and r: "declares r c" and R: "R q h"
  shows "wp (rst_030 T) (\<lambda>x q k. gives x True \<and> R q k) q h" "wp (rst_032 T r) (\<lambda>x q k. gives x True \<and> R q k) q h"
    "wp (rst_033 T r) (\<lambda>x q k. gives x True \<and> R q k) q h" "wp (rst_034 T) (\<lambda>x q k. gives x True \<and> R q k) q h"
    "wp (rst_035 T) (\<lambda>x q k. gives x True \<and> R q k) q h" "wp (rst_036 T r) (\<lambda>x q k. gives x True \<and> R q k) q h"
    "wp (rst_037 T r) (\<lambda>x q k. gives x True \<and> R q k) q h"
    "wp (rst_038 T r) (\<lambda>x q k. gives x (sbcs_as_declared c) \<and> R q k) q h"
    "wp (rst_039 T) (\<lambda>x q k. gives x True \<and> R q k) q h" "wp (rst_040 T) (\<lambda>x q k. gives x True \<and> R q k) q h"
    "wp (rst_042 T r) (\<lambda>x q k. gives x True \<and> R q k) q h" "wp (rst_043 None) (\<lambda>x q k. gives x True \<and> R q k) q h"
proof -
  have c: "cfg q = c" "cfg_valid q" "dmactive q" using q by (simp_all add: dm_fresh_def)
  have fit: "presets_fit c" "cfg_datacount c < 13" "cfg_progbufsize c < 17" using r by (auto simp: declares_def presets_fit_def)
  note zero = fresh_zero [OF q] and vals = declared_values [OF r]
  obtain e1 e2 e3 where e: "hartinfo_expected r = Inr e1" "diff e1 (expect_hartinfo c) (register_fields HARTINFO) = []"
    "abstractcs_expected r = Inr e2" "diff e2 (expect_abstractcs q) (register_fields ABSTRACTCS) = []"
    "sbcs_expected r = Inr e3" "(diff e3 (expect_sbcs q) SBCS_FIELDS = []) = sbcs_as_declared c"
    using expected_dicts [OF r q] by auto
  have m: "has_model q 16" "predict q 16 = 1" "has_model q 18" "predict q 18 = expect_hartinfo c"
    "has_model q 22" "predict q 22 = expect_abstractcs q" "has_model q ADDR_SBCS" "predict q ADDR_SBCS = expect_sbcs q"
    "has_model q NEXTDM" "predict q NEXTDM = cfg_nextdm c"
    using c dmcontrol_fresh [OF q] presets_in_field(9) [OF fit(1)] by (simp_all add: has_model_def predict_def is_data_def is_progbuf_def)
  have addr: "r_address DMCONTROL = 16" "r_address HARTINFO = 18" "r_address ABSTRACTCS = 22" "r_address COMMAND = ADDR_COMMAND"
    "r_address ABSTRACTAUTO = ADDR_ABSTRACTAUTO"
    by (simp_all add: DMCONTROL_def HARTINFO_def ABSTRACTCS_def COMMAND_def ABSTRACTAUTO_def)
  have "diff dmcontrol_reset 1 (register_fields DMCONTROL) = []" by code_simp
  then show "wp (rst_030 T) (\<lambda>x q k. gives x True \<and> R q k) q h"
    unfolding rst_030_def addr by (intro wp_bind wp_dmi_read m wp_step_verdict) (simp add: m R)
  show "wp (rst_032 T r) (\<lambda>x q k. gives x True \<and> R q k) q h" "wp (rst_033 T r) (\<lambda>x q k. gives x True \<and> R q k) q h"
    unfolding rst_032_def rst_033_def addr by (intro wp_bind wp_dmi_read m wp_liftR e wp_step_verdict; simp add: m R e)+
  show "wp (rst_034 T) (\<lambda>x q k. gives x True \<and> R q k) q h" "wp (rst_035 T) (\<lambda>x q k. gives x True \<and> R q k) q h"
    unfolding rst_034_def rst_035_def addr by (intro wp_bind wp_zero_read zero(1,2) wp_step_verdict; simp add: R)+
  have bufs: "i \<in> set [0..cfg_datacount c - 1] \<Longrightarrow> S 0 q h \<Longrightarrow> wp (bindD (liftR (data_address i)) (dmi_read T)) S q h"
    "i \<in> set [0..cfg_progbufsize c - 1] \<Longrightarrow> S 0 q h \<Longrightarrow> wp (bindD (liftR (progbuf_address i)) (dmi_read T)) S q h" for i S
  proof -
    show "wp (bindD (liftR (data_address i)) (dmi_read T)) S q h" if "i \<in> set [0..cfg_datacount c - 1]" "S 0 q h"
      using that fit(2) by (intro wp_bind wp_liftR [of _ "DATA0 + i"] wp_zero_read zero(3)) (auto simp: data_address_def)
    show "wp (bindD (liftR (progbuf_address i)) (dmi_read T)) S q h" if "i \<in> set [0..cfg_progbufsize c - 1]" "S 0 q h"
      using that fit(3) by (intro wp_bind wp_liftR [of _ "PROGBUF0 + i"] wp_zero_read zero(4)) (auto simp: progbuf_address_def)
  qed
  show "wp (rst_036 T r) (\<lambda>x q k. gives x True \<and> R q k) q h" "wp (rst_037 T r) (\<lambda>x q k. gives x True \<and> R q k) q h"
    unfolding rst_036_def rst_037_def cfg_range_def vals bindR_simps json.case
    by (rule wp_bind, rule wp_liftR [OF refl], rule wp_bind, rule wp_zeros, erule bufs, assumption, rule wp_step_verdict, simp add: R)+
  show "wp (rst_038 T r) (\<lambda>x q k. gives x (sbcs_as_declared c) \<and> R q k) q h"
    unfolding rst_038_def
    by (rule wp_bind, rule wp_dmi_read [OF m(7)], rule wp_bind, rule wp_liftR [OF e(5)], rule wp_step_verdict) (simp only: m R e simp_thms)
  show "wp (rst_039 T) (\<lambda>x q k. gives x True \<and> R q k) q h"
    unfolding rst_039_def by (intro wp_bind wp_zeros wp_zero_read zero(5) [OF fit(1)] wp_step_verdict) (auto simp: R)
  show "wp (rst_040 T) (\<lambda>x q k. gives x True \<and> R q k) q h"
    unfolding rst_040_def
    by (intro wp_bind wp_zeros wp_zero_read zero(6) wp_step_verdict) (auto simp: R HALTSUM_LEVELS_def HALTSUM0_def HALTSUM1_def HALTSUM2_def HALTSUM3_def)
  show "wp (rst_043 None) (\<lambda>x q k. gives x True \<and> R q k) q h"
    unfolding rst_043_def option.case by (rule wp_step_verdict) (simp add: R)
  have auth: "wp (dmi_read T AUTHDATA) S q h" if "\<And>v. authdata_bad r v = Inr False \<Longrightarrow> S v q h" for S
  proof (cases "cfg_authentication_enable c")
    case True
    then show ?thesis using vals(15) by (intro wp_bench_read that) (simp add: authdata_bad_def)
  next
    case False
    then have "has_model q AUTHDATA \<and> predict q AUTHDATA = 0"
      using c by (simp add: has_model_def predict_def is_data_def is_progbuf_def)
    then show ?thesis by (rule wp_zero_read) (simp add: that authdata_bad_def)
  qed
  have ptrs: "wp (mapD (dmi_read T) (map (\<lambda>i. CONFSTRPTR0 + i) [0..3])) S q h" if "\<And>vs. list_all (\<lambda>v. v = 0) vs \<Longrightarrow> S vs q h" for S
    by (rule wp_zeros) (use zero(7) [of "_ - CONFSTRPTR0"] in \<open>auto intro!: wp_zero_read that\<close>)
  show "wp (rst_042 T r) (\<lambda>x q k. gives x True \<and> R q k) q h"
    unfolding rst_042_def
    by (rule wp_bind, rule wp_dmi_read [OF m(9)], rule wp_bind, rule wp_liftR [OF vals(17)], rule wp_bind, rule ptrs, rule wp_bind, rule auth,
        rule wp_bind, erule wp_liftR, rule wp_step_verdict) (simp only: m R simp_thms)
qed

lemma reset_values_verdicts_wp:
  assumes p: "cfg_valid p" "list_all (\<lambda>h. \<not> halted h) (harts p)" and r: "declares r (cfg p)"
  shows "verdicts_wp (reset_values_steps T None r) (replicate 8 True @ [sbcs_as_declared (cfg p)] @ replicate 4 True) (\<lambda>_ _ _. True) () p h"
proof -
  let ?v = "\<lambda>b. dmcontrol (dmcontrol_defaults\<lparr>a_dmactive := b\<rparr>)"
  note steps = fresh_steps [OF dm_fresh_reset [OF p] r]
  have "on_write (r_address DMCONTROL) (?v True) (on_write (r_address DMCONTROL) (?v False) p) = dmcontrol_next (?v True) (reset_dm False p)"
    using on_write_dmcontrol by (simp add: DMCONTROL_def)
  then have reset: "wp (dm_reset T) (\<lambda>x q k. gives x True \<and> R q k) p h" if "R (dmcontrol_next (?v True) (reset_dm False p)) h" for R h
    unfolding dm_reset_def using that by (intro wp_seq wp_dmi_write wp_step_verdict) simp
  have "replicate 8 True @ [b] @ replicate 4 True = [True, True, True, True, True, True, True, True, b, True, True, True, True]" for b
    by (simp add: numeral_eq_Suc)
  then show ?thesis
    unfolding reset_values_steps_def by (simp only:) (intro verdicts_check reset steps; simp)
qed

end

end
