(* ===== verification/AccessProps.thy ===== *)
theory AccessProps
  imports AccessRuns ResetValuesRuns MockTransport
begin

text \<open>
  The register and memory access sequences and the reset-value sequence against the golden model:
  what the sessions report with the mock behind them.
\<close>

context dm_bench
begin

lemma halt_session:
  assumes "startable p 0" "reps (t_state d) p"
  shows "\<exists>s. build_halt_sequence T ''batch'' mem_addr resume_after = Inr s \<and> session_passes s (d, ())"
  unfolding build_halt_sequence_def by (rule session_passes_wp [OF halt_steps_wp [OF assms(1)] assms(2) refl])

lemma discovery_session:
  assumes "startable p 0" "engine p" "reps (t_state d) p"
  shows "\<exists>s. build_discovery_sequence T ''batch'' = Inr s \<and> session_passes s (d, ())"
  unfolding build_discovery_sequence_def by (rule session_passes_wp [OF discovery_steps_wp [OF assms(1,2)] assms(3) refl])

lemma gpr_write_session:
  assumes "startable p 0" "engine p" "reps (t_state d) p" "take_bit 32 x = x"
    "take_bit 16 r \<noteq> DCSR_REGNO" "reads_back_as_written (take_bit 16 r)" "take_bit 16 r \<noteq> GPR_X0_REGNO"
  shows "\<exists>s. build_gpr_write_sequence T ''batch'' r x = Inr s \<and> session_passes s (d, ())"
  unfolding build_gpr_write_sequence_def by (rule session_passes_wp [OF gpr_write_steps_wp [OF assms(1,2,4-7)] assms(3) refl])

lemma csr_access_session:
  assumes "startable p 0" "engine p" "reps (t_state d) p" "take_bit 32 x = x" "take_bit 32 y = y"
    "take_bit 4 (cfg_nscratch (cfg p)) \<noteq> 0"
  shows "\<exists>s. build_csr_access_sequence T ''batch'' x y = Inr s \<and> session_passes s (d, ())"
  unfolding build_csr_access_sequence_def by (rule session_passes_wp [OF csr_access_steps_wp [OF assms(1,2,4-6)] assms(3) refl])

lemma report_halt_status_session:
  assumes "startable p 0" "engine p" "reps (t_state d) p" "\<not> halted (harts p ! 0)" "\<not> ndmreset p" "1 \<le> num_harts p"
  shows "\<exists>s. build_report_halt_status_sequence T ''batch'' 0 = Inr s \<and> session_passes s (d, ())"
  unfolding build_report_halt_status_sequence_def
  by (rule session_passes_wp [OF report_halt_status_steps_wp [OF assms(1,2,4-6)] assms(3) refl])

lemma read_dmstatus_session:
  assumes "reps (t_state d) p"
  shows "\<exists>s. build_read_dmstatus_sequence T ''batch'' = Inr s \<and> session_passes s (d, ())"
proof -
  have "steps_wp [check_step ''Read dmstatus'' (read_dmstatus_step T)] (\<lambda>_ _ _. True) () p (tracked_hartsel d)"
    unfolding read_dmstatus_step_def by (intro steps_check wp_bind wp_status_reads wp_step_result conjI TrueI steps_nil)
  from session_passes_wp [OF this assms refl] show ?thesis by (simp add: build_read_dmstatus_sequence_def)
qed

lemma mem_scan_session:
  assumes "startable p 0" "engine p" "reps (t_state d) p" "cfg_sba_enable (cfg p)"
    "\<forall>k < n. shadow_mem p (take_bit 32 (base_addr + int k * 4)) \<noteq> None"
  shows "\<exists>s. build_mem_scan_sequence T base_addr n exps ''batch'' = Inr s \<and>
    session_verdicts s (d, ()) = Some ([True, True] @ map (scan_ok p base_addr exps) [0..<n])"
  unfolding build_mem_scan_sequence_def
  by (rule session_verdicts_wp [OF mem_scan_verdicts_wp [OF assms(1,2,4,5)] assms(3) refl])

lemma reset_values_session:
  assumes "cfg_valid p" "list_all (\<lambda>h. \<not> halted h) (harts p)" "reps (t_state d) p"
    and "load_dut_config files config_dir name = Inr c" "declares (raw c) (cfg p)"
  shows "\<exists>s. build_reset_values_sequence files config_dir T None ''batch'' name = Inr s \<and>
    session_verdicts s (d, ()) = Some (replicate 8 True @ [sbcs_as_declared (cfg p)] @ replicate 4 True)"
proof -
  have "\<exists>s. session_of ''batch'' False ([] :: ('s, unit) seq_step list) = Inr s"
    by (simp add: session_of_def DebugSession_init_def mode_of_def)
  with session_verdicts_wp [OF reset_values_verdicts_wp [OF assms(1,2,5)] assms(3) refl] show ?thesis
    by (auto simp: build_reset_values_sequence_def assms(4))
qed

end

lemma declared_declares:
  assumes "load_dut_config files config_dir name = Inr c" "declared_config c n = Inr dc" "plain_presets (raw c)" "presets_fit dc"
  shows "declares (raw c) dc"
  using declared_configD [OF assms(2)] load_dut_configD(3) [OF assms(1)] assms(3,4) by (simp add: declares_def)

subsection \<open>Targets and states of the examples\<close>

definition ibex_session :: "ModelBackedMockTransport RISCVDebug" where
  "ibex_session = RISCVDebug_init (mock_init (set_config (predictor_kwargs ibex_dut) ibex_config))"

lemma ibex_session_state: "predictor (t_state ibex_session) = set_config (predictor_kwargs ibex_dut) ibex_config"
  by (simp add: ibex_session_def RISCVDebug_init_def mock_init_def)

lemma ibex_startable:
  defines "p \<equiv> set_config (predictor_kwargs ibex_dut) ibex_config"
  shows "startable p 0" "engine p" "take_bit 4 (cfg_nscratch (cfg p)) \<noteq> 0" "\<not> halted (harts p ! 0)" "\<not> ndmreset p" "1 \<le> num_harts p"
proof -
  have "reachable p" unfolding p_def predictor_kwargs_def by (intro reachable.config reachable.init) code_simp+
  moreover have "0 < length (harts p) \<and> \<not> step_armed p \<and> \<not> hartreset_level p \<and> \<not> hart_reset (harts p ! 0) \<and> take_bit 4 (version p) \<noteq> 0"
    unfolding p_def by code_simp
  ultimately show "startable p 0" by (simp add: startable_def)
  show "engine p" "take_bit 4 (cfg_nscratch (cfg p)) \<noteq> 0" "\<not> halted (harts p ! 0)" "\<not> ndmreset p" "1 \<le> num_harts p"
    unfolding p_def by code_simp+
qed

text \<open>The declaration of \<^verbatim>\<open>src/src/pydebug/dut_configs/multihart.json\<close>, without its notes.\<close>

definition multihart_json :: json where
  "multihart_json = JObj
   [(''dut'', JStr ''multihart''), (''version'', JStr ''1.0''), (''authenticated'', JBool True),
    (''impebreak'', JBool False), (''hasresethaltreq'', JBool False),
    (''supports_hartreset'', JBool False), (''supports_hasel'', JBool False),
    (''resumeack_reset'', JBool False), (''stickyunavail'', JBool True),
    (''havereset_poweron'', JBool True), (''progbufsize'', JInt 8), (''datacount'', JInt 2),
    (''relaxedpriv_reset'', JBool False), (''nscratch'', JInt 2), (''dataaccess'', JBool True),
    (''datasize'', JInt 2), (''dataaddr'', JStr ''0x380''), (''nextdm'', JStr ''0x0''),
    (''sbversion'', JInt 1), (''sbasize'', JInt 64), (''sbaccess_reset'', JInt 3),
    (''sbaccess_writable'', JBool False), (''sbaccess128'', JBool False),
    (''sbaccess64'', JBool True), (''sbaccess32'', JBool False), (''sbaccess16'', JBool False),
    (''sbaccess8'', JBool False), (''sba_enable'', JBool False),
    (''abstractauto_enable'', JBool True), (''hartarray_enable'', JBool True),
    (''authentication_enable'', JBool False), (''haltgroups_enable'', JBool True),
    (''progbuf_readable'', JBool False), (''haltsum_groups_present'', JBool True)]"

definition multihart_files :: "string \<Rightarrow> json result option" where
  "multihart_files path = (if path = ''dut_configs/multihart.json'' then Some (Inr multihart_json) else None)"

definition multihart_dut :: DutConfig where
  "multihart_dut = projr (load_dut_config multihart_files ''dut_configs'' ''multihart'')"

definition multihart_config :: DeclaredConfig where
  "multihart_config = projr (declared_config multihart_dut 2)"

lemma multihart_loads:
  "load_dut_config multihart_files ''dut_configs'' ''multihart'' = Inr multihart_dut"
  "declared_config multihart_dut 2 = Inr multihart_config"
  by code_simp+

lemma example_presets:
  "plain_presets (raw ibex_dut)" "presets_fit ibex_config" "sbcs_as_declared ibex_config"
  "plain_presets (raw multihart_dut)" "presets_fit multihart_config" "\<not> sbcs_as_declared multihart_config"
  by code_simp+

definition multihart_session :: "ModelBackedMockTransport RISCVDebug" where
  "multihart_session = RISCVDebug_init (mock_init (set_config DMPredictor_default multihart_config))"

text \<open>Two words of memory the model knows.\<close>

definition memory_session :: "ModelBackedMockTransport RISCVDebug" where
  "memory_session = RISCVDebug_init (mock_init (on_write ADDR_SBDATA0 9 (on_write ADDR_SBDATA0 7 sample_sba)))"

subsection \<open>What the sessions report\<close>

text \<open>
  C9. The reset-value sweep reads the declaration the way the model does: for a configuration that
  loads, with its numbers as numbers and its addresses as strings with the prefix \<^verbatim>\<open>0x\<close>, and a model
  configured from it with no hart halted, every step passes, except that \<^verbatim>\<open>RST-038-C\<close> passes exactly
  when the system bus is declared present or every preset of \<^verbatim>\<open>sbcs\<close> is zero.
\<close>

theorem reset_values_exact:
  assumes "load_dut_config files config_dir name = Inr c" "declared_config c n = Inr dc" "plain_presets (raw c)" "presets_fit dc"
    "cfg (predictor (t_state d)) = dc" "cfg_valid (predictor (t_state d))"
    "list_all (\<lambda>h. \<not> halted h) (harts (predictor (t_state d)))"
  shows "\<exists>s. build_reset_values_sequence files config_dir (mock_transport clock) None ''batch'' name = Inr s \<and>
    session_verdicts s (d, ()) = Some (replicate 8 True @ [sbcs_as_declared dc] @ replicate 4 True)"
  using mock_bench.reset_values_session [OF assms(6,7) refl assms(1)] declared_declares [OF assms(1-4)] assms(5) by simp

theorem reset_values_exact_witness:
  "(\<exists>s. build_reset_values_sequence sample_files ''dut_configs'' (mock_transport (\<lambda>k. int k)) None ''batch'' ''ibex'' = Inr s \<and>
     session_verdicts s (ibex_session, ()) = Some (replicate 13 True)) \<and>
   (\<exists>s. build_reset_values_sequence multihart_files ''dut_configs'' (mock_transport (\<lambda>k. int k)) None ''batch'' ''multihart'' = Inr s \<and>
     session_verdicts s (multihart_session, ()) = Some (replicate 8 True @ [False] @ replicate 4 True))"
proof
  have d: "predictor (t_state multihart_session) = set_config DMPredictor_default multihart_config"
    by (simp add: multihart_session_def RISCVDebug_init_def mock_init_def)
  have ib: "cfg (set_config (predictor_kwargs ibex_dut) ibex_config) = ibex_config" "cfg_valid (set_config (predictor_kwargs ibex_dut) ibex_config)"
    "cfg (set_config DMPredictor_default multihart_config) = multihart_config" "cfg_valid (set_config DMPredictor_default multihart_config)"
    by (simp_all add: set_config_def reset_dm_def reset_declared_regs_def Let_def)
  have nh: "list_all (\<lambda>h. \<not> halted h) (harts (set_config (predictor_kwargs ibex_dut) ibex_config))"
    "list_all (\<lambda>h. \<not> halted h) (harts (set_config DMPredictor_default multihart_config))" by code_simp+
  have "replicate 8 True @ [True] @ replicate 4 True = replicate 13 True" by (simp add: numeral_eq_Suc)
  then show "\<exists>s. build_reset_values_sequence sample_files ''dut_configs'' (mock_transport (\<lambda>k. int k)) None ''batch'' ''ibex'' = Inr s \<and>
     session_verdicts s (ibex_session, ()) = Some (replicate 13 True)"
    using reset_values_exact [OF ibex_loads example_presets(1,2), of ibex_session] ib nh example_presets(3) by (simp add: ibex_session_state)
  show "\<exists>s. build_reset_values_sequence multihart_files ''dut_configs'' (mock_transport (\<lambda>k. int k)) None ''batch'' ''multihart'' = Inr s \<and>
     session_verdicts s (multihart_session, ()) = Some (replicate 8 True @ [False] @ replicate 4 True)"
    using reset_values_exact [OF multihart_loads example_presets(4,5), of multihart_session] ib nh example_presets(6) by (simp add: d)
qed

text \<open>
  C10. The memory scan reports exactly the words that differ: over a block the model knows, the two
  set-up steps pass and the step of word \<open>i\<close> passes if and only if no word is expected there or the
  expected word is the one in memory.
\<close>

theorem mem_scan_exact:
  assumes "startable (predictor (t_state d)) 0" "engine (predictor (t_state d))" "cfg_sba_enable (cfg (predictor (t_state d)))"
    "\<forall>k < n. shadow_mem (predictor (t_state d)) (take_bit 32 (base_addr + int k * 4)) \<noteq> None"
  shows "\<exists>s. build_mem_scan_sequence (mock_transport clock) base_addr n exps ''batch'' = Inr s \<and>
    session_verdicts s (d, ()) = Some ([True, True] @ map (scan_ok (predictor (t_state d)) base_addr exps) [0..<n])"
  using mock_bench.mem_scan_session [OF assms(1,2) refl assms(3,4)] .

theorem mem_scan_exact_witness:
  "\<exists>s. build_mem_scan_sequence (mock_transport (\<lambda>k. int k)) 0x100 2 (Some [7, 8]) ''batch'' = Inr s \<and>
    session_verdicts s (memory_session, ()) = Some [True, True, True, False]"
proof -
  let ?p = "on_write ADDR_SBDATA0 9 (on_write ADDR_SBDATA0 7 sample_sba)"
  have d: "predictor (t_state memory_session) = ?p" by (simp add: memory_session_def RISCVDebug_init_def mock_init_def)
  have "reachable ?p" by (intro reachable.dmi_write reachable_samples)
  moreover have "0 < length (harts ?p) \<and> \<not> step_armed ?p \<and> \<not> hartreset_level ?p \<and> \<not> hart_reset (harts ?p ! 0) \<and>
    take_bit 4 (version ?p) \<noteq> 0 \<and> engine ?p \<and> cfg_sba_enable (cfg ?p)" by code_simp
  ultimately have p: "startable ?p 0" "engine ?p" "cfg_sba_enable (cfg ?p)" by (simp_all add: startable_def)
  have m: "list_all (\<lambda>k. shadow_mem ?p (take_bit 32 (0x100 + int k * 4)) \<noteq> None) [0..<2]"
    "map (scan_ok ?p 0x100 (Some [7, 8])) [0..<2] = [True, False]" by code_simp+
  have "\<forall>k < 2. shadow_mem ?p (take_bit 32 (0x100 + int k * 4)) \<noteq> None" using m(1) by (simp add: list_all_iff)
  then show ?thesis using mem_scan_exact [where d = memory_session and n = 2 and base_addr = "0x100" and clock = "\<lambda>k. int k" and exps = "Some [7, 8]"] p m(2) by (simp add: d)
qed

text \<open>
  C16. The access sessions pass against a configured model whose command engine is idle and whose
  hart 0 runs out of reset: halt and inspect (with or without the resume at its end), \<^verbatim>\<open>hartinfo\<close>
  discovery, the round trip through any general register or plain CSR and through \<^verbatim>\<open>x0\<close>, the scratch CSRs
  of a module that declares it uses them, and the halt summary before and after the halt.
\<close>

theorem access_sessions_pass:
  assumes p: "startable (predictor (t_state d)) 0" "engine (predictor (t_state d))"
    "\<not> halted (harts (predictor (t_state d)) ! 0)" "\<not> ndmreset (predictor (t_state d))" "1 \<le> num_harts (predictor (t_state d))"
    "take_bit 4 (cfg_nscratch (cfg (predictor (t_state d)))) \<noteq> 0"
    and r: "take_bit 32 x = x" "take_bit 32 y = y" "take_bit 16 r \<noteq> DCSR_REGNO" "reads_back_as_written (take_bit 16 r)"
      "take_bit 16 r \<noteq> GPR_X0_REGNO"
  shows "list_all (\<lambda>b. case b of Inl _ \<Rightarrow> False | Inr s \<Rightarrow> session_passes s (d, ()))
    [build_halt_sequence (mock_transport clock) ''batch'' mem_addr resume_after,
     build_discovery_sequence (mock_transport clock) ''batch'',
     build_gpr_write_sequence (mock_transport clock) ''batch'' r x,
     build_csr_access_sequence (mock_transport clock) ''batch'' x y,
     build_report_halt_status_sequence (mock_transport clock) ''batch'' 0,
     build_read_dmstatus_sequence (mock_transport clock) ''batch'']"
  using mock_bench.halt_session [OF p(1) refl, of clock mem_addr resume_after] mock_bench.discovery_session [OF p(1,2) refl, of clock]
    mock_bench.gpr_write_session [OF p(1,2) refl r(1,3-5), of clock] mock_bench.csr_access_session [OF p(1,2) refl r(1,2) p(6), of clock]
    mock_bench.report_halt_status_session [OF p(1,2) refl p(3-5), of clock] mock_bench.read_dmstatus_session [OF refl, where d = d and clock = clock]
  by auto

theorem access_sessions_pass_witness:
  "list_all (\<lambda>b. case b of Inl _ \<Rightarrow> False | Inr s \<Rightarrow> session_passes s (ibex_session, ()))
    [build_halt_sequence (mock_transport (\<lambda>k. int k)) ''batch'' 0x80000000 True,
     build_discovery_sequence (mock_transport (\<lambda>k. int k)) ''batch'',
     build_gpr_write_sequence (mock_transport (\<lambda>k. int k)) ''batch'' 0x1005 0xA5A5A5A5,
     build_csr_access_sequence (mock_transport (\<lambda>k. int k)) ''batch'' 0xA5A5A5A5 0x3A3A3A3A,
     build_report_halt_status_sequence (mock_transport (\<lambda>k. int k)) ''batch'' 0,
     build_read_dmstatus_sequence (mock_transport (\<lambda>k. int k)) ''batch'']"
  by (rule access_sessions_pass; (simp only: ibex_session_state ibex_startable not_False_eq_True | code_simp)?)

end
