(* ===== verification/SbaSeq.thy ===== *)
theory SbaSeq
  imports Sequences
begin

text \<open>
  \<^verbatim>\<open>src/src/pydebug/sequences/sba_sequence.py\<close>: system bus access, from the discovery of \<^verbatim>\<open>sbcs\<close> over
  bursts and streams to the errors and the access widths.
\<close>

unbundle bit_operations_syntax

definition SBADDRESS1 :: int where [simp]: "SBADDRESS1 = 0x3A"
definition SBDATA1 :: int where [simp]: "SBDATA1 = 0x3D"
definition SB_BUSYERROR :: nat where [simp]: "SB_BUSYERROR = 22"
definition SB_READONADDR :: nat where [simp]: "SB_READONADDR = 20"
definition SB_ACCESS_LSB :: nat where [simp]: "SB_ACCESS_LSB = 17"
definition SB_AUTOINCREMENT :: nat where [simp]: "SB_AUTOINCREMENT = 16"
definition SB_READONDATA :: nat where [simp]: "SB_READONDATA = 15"
definition SB_ERROR_LSB :: nat where [simp]: "SB_ERROR_LSB = 12"

definition effective_stride :: "'s transport \<Rightarrow> ('s, int) dbg" where
  "effective_stride T = bindD (dmi_read T ADDR_SBCS) (\<lambda>sbcs. returnD (push_bit (nat (drop_bit SB_ACCESS_LSB sbcs AND 0x7)) 1))"

definition tc_sba_001 :: "'s transport \<Rightarrow> 's check_method" where
  "tc_sba_001 T = bindD (dmi_read T ADDR_SBCS) (\<lambda>sbcs. step_result ''TC-SBA-001'' (sbcs \<noteq> 0))"

definition tc_sba_003_002 :: "'s transport \<Rightarrow> int \<Rightarrow> int \<Rightarrow> 's check_method" where
  "tc_sba_003_002 T addr pattern =
     seqD (write_mem32 T addr pattern)
    (bindD (read_mem32 T addr) (\<lambda>readback. step_result ''TC-SBA-002/003'' (readback = pattern)))"

definition burst_words :: "int \<Rightarrow> int list" where
  "burst_words n = map (\<lambda>i. 0xA5A50000 OR i) [0..n - 1]"

definition tc_sba_004 :: "'s transport \<Rightarrow> int \<Rightarrow> 's check_method" where
  "tc_sba_004 T addr =
     seqD (dmi_write T ADDR_SBCS (push_bit SB_ACCESS_LSB 2 OR push_bit SB_AUTOINCREMENT 1))
    (bindD (effective_stride T) (\<lambda>stride.
     seqD (dmi_write T ADDR_SBADDRESS0 addr)
    (seqD (forD (\<lambda>w. seqD (dmi_write T ADDR_SBDATA0 w) (wait_sbus T DEFAULT_TIMEOUT)) (burst_words 4))
    (bindD (dmi_read T ADDR_SBADDRESS0) (\<lambda>end_addr.
     bindD (mapD (\<lambda>i. read_mem32 T (addr + stride * i)) [0..3]) (\<lambda>got.
       step_result ''TC-SBA-004'' (got = burst_words 4 \<and> end_addr = addr + stride * 4)))))))"

definition tc_sba_005 :: "'s transport \<Rightarrow> int \<Rightarrow> 's check_method" where
  "tc_sba_005 T addr =
     seqD (dmi_write T ADDR_SBCS (push_bit SB_ACCESS_LSB 2 OR push_bit SB_AUTOINCREMENT 1
             OR push_bit SB_READONADDR 1 OR push_bit SB_READONDATA 1))
    (seqD (dmi_write T ADDR_SBADDRESS0 addr)
    (seqD (wait_sbus T DEFAULT_TIMEOUT)
    (bindD (mapD (\<lambda>_. bindD (dmi_read T ADDR_SBDATA0) (\<lambda>v. seqD (wait_sbus T DEFAULT_TIMEOUT) (returnD v))) [0..2]) (\<lambda>seen.
     seqD (dmi_write T ADDR_SBCS (push_bit SB_ACCESS_LSB 2))
          (step_result ''TC-SBA-005'' (seen = burst_words 3))))))"

definition tc_sba_006 :: "'s transport \<Rightarrow> 's check_method" where
  "tc_sba_006 T =
     seqD (dmi_write T SBADDRESS1 0)
    (bindD (dmi_read T SBADDRESS1) (\<lambda>hi_addr.
     seqD (dmi_write T ADDR_SBCS (push_bit SB_ACCESS_LSB 2))
    (seqD (dmi_write T SBDATA1 0)
    (bindD (dmi_read T SBDATA1) (\<lambda>hi_data.
       step_result ''TC-SBA-006'' (hi_addr = 0 \<and> hi_data = 0))))))"

definition tc_sba_007 :: "'s transport \<Rightarrow> 's check_method" where
  "tc_sba_007 T =
     seqD (dmi_write T ADDR_SBCS (push_bit SB_READONADDR 1 OR push_bit SB_ACCESS_LSB 2))
    (seqD (dmi_write T ADDR_SBADDRESS0 0xF0000000)
    (seqD (wait_sbus T DEFAULT_TIMEOUT)
    (bindD (dmi_read T ADDR_SBCS) (\<lambda>sbcs.
     seqD (dmi_write T ADDR_SBCS (push_bit SB_ERROR_LSB 0x7 OR push_bit SB_ACCESS_LSB 2))
    (bindD (dmi_read T ADDR_SBCS) (\<lambda>after.
       step_result ''TC-SBA-007'' (drop_bit SB_ERROR_LSB after AND 0x7 = 0)))))))"

text \<open>\<^verbatim>\<open>ok and dm.read_mem32(addr) is not None\<close>: the read happens only when the flag cleared.\<close>

definition tc_sba_009 :: "'s transport \<Rightarrow> int \<Rightarrow> 's check_method" where
  "tc_sba_009 T addr =
     seqD (dmi_write T ADDR_SBCS (push_bit SB_READONADDR 1 OR push_bit SB_ACCESS_LSB 2))
    (seqD (dmi_write T ADDR_SBADDRESS0 addr)
    (bindD (dmi_read T ADDR_SBDATA0) (\<lambda>_.
     seqD (dmi_write T ADDR_SBDATA0 0xDEADBEEF)
    (seqD (wait_sbus T DEFAULT_TIMEOUT)
    (bindD (dmi_read T ADDR_SBCS) (\<lambda>sbcs.
     seqD (dmi_write T ADDR_SBCS (push_bit SB_BUSYERROR 1 OR push_bit SB_ERROR_LSB 0x7 OR push_bit SB_ACCESS_LSB 2))
    (bindD (dmi_read T ADDR_SBCS) (\<lambda>after.
       if drop_bit SB_BUSYERROR after AND 1 = 0
       then bindD (read_mem32 T addr) (\<lambda>_. step_result ''TC-SBA-009'' True)
       else step_result ''TC-SBA-009'' False))))))))"

definition tc_sba_010 :: "'s transport \<Rightarrow> int \<Rightarrow> 's check_method" where
  "tc_sba_010 T addr =
     seqD (resume T DEFAULT_TIMEOUT)
    (bindD (read_mem32 T addr) (\<lambda>val.
     seqD (halt T DEFAULT_TIMEOUT) (step_result ''TC-SBA-010'' True)))"

text \<open>The widths \<^verbatim>\<open>sbcs\<close> advertises, it being read again for each; then an access of each width that sticks.\<close>

definition advertised :: "'s transport \<Rightarrow> ('s, int list) dbg" where
  "advertised T =
     bindD (mapD (\<lambda>bit. bindD (dmi_read T ADDR_SBCS) (\<lambda>w. returnD (truth (drop_bit bit w AND 1)))) [0, 1, 2, 3]) (\<lambda>bs.
       returnD (map fst (filter snd (zip [0, 1, 2, 3] bs))))"

definition access_width :: "'s transport \<Rightarrow> int \<Rightarrow> int \<Rightarrow> ('s, unit) dbg" where
  "access_width T addr code =
     bindD (dmi_read T ADDR_SBCS) (\<lambda>w.
     let base = w AND NOT (push_bit SB_ACCESS_LSB 0x7) in
     seqD (dmi_write T ADDR_SBCS (base OR push_bit SB_ACCESS_LSB code OR push_bit SB_READONADDR 1))
    (bindD (dmi_read T ADDR_SBCS) (\<lambda>w1.
       if drop_bit SB_ACCESS_LSB w1 AND 0x7 \<noteq> code then returnD ()
       else seqD (dmi_write T ADDR_SBADDRESS0 addr)
           (seqD (wait_sbus T DEFAULT_TIMEOUT)
           (bindD (dmi_read T ADDR_SBDATA0) (\<lambda>_. returnD ()))))))"

definition tc_sba_019 :: "'s transport \<Rightarrow> int \<Rightarrow> 's check_method" where
  "tc_sba_019 T addr =
     bindD (advertised T) (\<lambda>codes.
     seqD (forD (access_width T addr) codes)
    (bindD (dmi_read T ADDR_SBCS) (\<lambda>w.
     let base = w AND NOT (push_bit SB_ACCESS_LSB 0x7) in
     seqD (dmi_write T ADDR_SBCS (base OR push_bit SB_ACCESS_LSB 2))
          (step_result ''TC-SBA-019'' True))))"

definition sba_steps :: "'s transport \<Rightarrow> int \<Rightarrow> int \<Rightarrow> ('s, unit) seq_step list" where
  "sba_steps T addr pattern =
     [command_step ''Activate Debug Module'' (activate T),
      command_step ''Halt hart'' (halt T DEFAULT_TIMEOUT),
      check_step ''TC-SBA-001: sbcs discovery'' (tc_sba_001 T),
      check_step ''TC-SBA-002/003: SBA write + read-back round-trip'' (tc_sba_003_002 T addr pattern),
      check_step ''TC-SBA-004: sbautoincrement burst'' (tc_sba_004 T addr),
      check_step ''TC-SBA-005: sbreadondata streaming'' (tc_sba_005 T addr),
      check_step ''TC-SBA-006: 64-bit address/data halves'' (tc_sba_006 T),
      check_step ''TC-SBA-007: sberror set and write-1-to-clear'' (tc_sba_007 T),
      check_step ''TC-SBA-009: sbbusyerror on a raced access'' (tc_sba_009 T addr),
      check_step ''TC-SBA-010: SBA with the hart running'' (tc_sba_010 T addr),
      check_step ''TC-SBA-019: each advertised access width'' (tc_sba_019 T addr)]"

definition build_sba_sequence :: "'s transport \<Rightarrow> string \<Rightarrow> int \<Rightarrow> int \<Rightarrow> ('s, unit) seq_session result" where
  "build_sba_sequence T md addr pattern = session_of md False (sba_steps T addr pattern)"

end
