(* ===== verification/SbaRuns.thy ===== *)
theory SbaRuns
  imports SbaSeq AccessRuns ResetValuesRuns
begin

text \<open>
  The system bus sequence on a target that follows the predictor and whose reads have no effect on
  it, as those of the mock: the writes to the bus registers as the predictor performs them, the words
  a burst leaves in memory, and the verdict of each step.
\<close>

unbundle bit_operations_syntax

subsection \<open>The bus registers\<close>

text \<open>A selected hart and a bus whose access size is a value of its field.\<close>

definition sba_at :: "seq_config \<Rightarrow> hart_view \<Rightarrow> DeclaredConfig \<Rightarrow> DMPredictor \<Rightarrow> bool" where
  "sba_at c v k p \<longleftrightarrow> at 0 c v p \<and> sba_ready p \<and> cfg p = k \<and> 0 \<le> sbaccess p \<and> sbaccess p < 8"

lemma sba_atD: "sba_at c v k p \<Longrightarrow> at 0 c v p" "sba_at c v k p \<Longrightarrow> sba_ready p"
  by (simp_all add: sba_at_def)

lemma sba_at_upd:
  assumes "sba_at c v k p" "q = on_write a w p" "a \<noteq> ADDR_DMCONTROL" "shadow_regs q = shadow_regs p" "cfg q = cfg p"
    "cfg_valid q = cfg_valid p" "dmactive q = dmactive p" "0 \<le> sbaccess q" "sbaccess q < 8"
  shows "sba_at c v k q"
proof -
  have "\<not> step_armed (on_write a w p)" using assms(1,2,4) by (simp add: sba_at_def at_def seq_ready_def step_armed_def)
  then have "at 0 c v q" using assms(1,2,3) at_other_write by (auto simp: sba_at_def)
  then show ?thesis using assms by (auto simp: sba_at_def sba_ready_def)
qed

lemma sba_autoincrement_kept:
  "shadow_regs (sba_autoincrement p) = shadow_regs p" "cfg (sba_autoincrement p) = cfg p" "cfg_valid (sba_autoincrement p) = cfg_valid p"
  "dmactive (sba_autoincrement p) = dmactive p"
  by (simp_all add: sba_autoincrement_def Let_def)

lemma sba_arm_read_kept:
  "shadow_regs (sba_arm_read a p) = shadow_regs p" "cfg_valid (sba_arm_read a p) = cfg_valid p" "dmactive (sba_arm_read a p) = dmactive p"
  by (simp_all add: sba_arm_read_def Let_def split: option.split)

lemmas sba_same = sba_autoincrement_kept sba_arm_read_kept

lemma sba_at_writes:
  assumes "sba_at c v k p"
  shows "sba_at c v k (on_write ADDR_SBCS w p)" "sba_at c v k (on_write ADDR_SBADDRESS0 w p)" "sba_at c v k (on_write ADDR_SBDATA0 w p)"
    "sba_at c v k (on_write SBADDRESS1 w p)" "sba_at c v k (on_write SBDATA1 w p)"
proof -
  have acc: "0 \<le> sbaccess p" "sbaccess p < 8" using assms by (simp_all add: sba_at_def)
  show "sba_at c v k (on_write ADDR_SBCS w p)"
    by (rule sba_at_upd [OF assms refl]; (unfold on_write_sba)?; simp add: write_sbcs_def Let_def acc take_bit_int_less_exp [of 3, simplified])
  show "sba_at c v k (on_write ADDR_SBADDRESS0 w p)"
    by (rule sba_at_upd [OF assms refl]; (unfold on_write_sba)?; simp add: write_sbaddress0_def Let_def sba_same acc)
  show "sba_at c v k (on_write ADDR_SBDATA0 w p)"
    by (rule sba_at_upd [OF assms refl]; (unfold on_write_sba)?; simp add: write_sbdata0_def Let_def sba_same acc)
  show "sba_at c v k (on_write SBADDRESS1 w p)" "sba_at c v k (on_write SBDATA1 w p)"
    by (rule sba_at_upd [OF assms refl]; simp add: on_write_def is_data_def is_progbuf_def guarded_while_busy_def acc)+
qed

lemma predict_sba:
  assumes "sba_at c v k p"
  shows "has_model p ADDR_SBCS" "predict p ADDR_SBCS = expect_sbcs p" "has_model p ADDR_SBADDRESS0" "predict p ADDR_SBADDRESS0 = sbaddress0 p"
    "sbdata0_pending_valid p \<Longrightarrow> has_model p ADDR_SBDATA0" "predict p ADDR_SBDATA0 = sbdata0_pending_value p"
    "has_model p SBADDRESS1" "sbaddress1 p = 0 \<Longrightarrow> predict p SBADDRESS1 = 0"
    "sbdata1_known p \<Longrightarrow> has_model p SBDATA1" "sbdata1 p = 0 \<Longrightarrow> predict p SBDATA1 = 0"
  using assms by (auto simp: sba_at_def sba_ready_def has_model_def predict_def is_data_def is_progbuf_def)

lemma sbcs_access_field:
  assumes "sba_at c v k p"
  shows "take_bit 3 (drop_bit 17 (expect_sbcs p)) = sbaccess p" "take_bit 3 (drop_bit 12 (expect_sbcs p)) = 0"
    "\<not> bit (expect_sbcs p) 22" "drop_bit 22 (expect_sbcs p) AND 1 = 0" "take_bit 3 (drop_bit 29 (expect_sbcs p)) = take_bit 3 (cfg_sbversion k)"
proof -
  have e: "cfg_sba_enable (cfg p)" and "take_bit 3 (sbaccess p) = sbaccess p" "cfg p = k"
    using assms by (auto simp: sba_at_def sba_ready_def take_bit_int_eq_self)
  then show "take_bit 3 (drop_bit 17 (expect_sbcs p)) = sbaccess p" "take_bit 3 (drop_bit 12 (expect_sbcs p)) = 0"
    "take_bit 3 (drop_bit 29 (expect_sbcs p)) = take_bit 3 (cfg_sbversion k)"
    using sbcs_fields [OF e] by (simp_all add: field_value_eq)
  show b: "\<not> bit (expect_sbcs p) 22" using e by (simp add: bit_expect_sbcs)
  then show "drop_bit 22 (expect_sbcs p) AND 1 = 0" by (simp add: and_one_eq bit_iff_odd_drop_bit)
qed

subsection \<open>Backward rules\<close>

context dm_bench
begin

lemma wp_sba_write:
  assumes "sba_at c v k p" "a \<in> {ADDR_SBCS, ADDR_SBADDRESS0, ADDR_SBDATA0, SBADDRESS1, SBDATA1}"
    "\<And>q. sba_at c v k q \<Longrightarrow> q = on_write a w p \<Longrightarrow> Q () q h"
  shows "wp (dmi_write T a w) Q p h"
  using assms(2) sba_at_writes [OF assms(1)] by (intro wp_dmi_write assms(3)) auto

lemma wp_sba_sbcs: "sba_at c v k p \<Longrightarrow> Q (expect_sbcs p) p h \<Longrightarrow> wp (dmi_read T ADDR_SBCS) Q p h"
  using predict_sba(1,2) by (intro wp_dmi_read) (simp_all del: ADDR_SBCS_def)

lemma wp_sba_read_any: "sba_at c v k p \<Longrightarrow> (\<And>w q. sba_at c v k q \<Longrightarrow> Q w q h) \<Longrightarrow> wp (read_mem32 T a) Q p h"
  unfolding read_mem32_def by (intro wp_seq wp_dmi_write wp_bench_wait_sbus wp_bench_read) (simp add: sba_at_writes del: ADDR_SBCS_def ADDR_SBADDRESS0_def)

lemma wp_sba_read:
  assumes "sba_at c v k p" "shadow_mem p (take_bit 32 a) = Some x"
    and "\<And>q. sba_at c v k q \<Longrightarrow> shadow_mem q = shadow_mem p \<Longrightarrow> Q x q h"
  shows "wp (read_mem32 T a) Q p h"
proof -
  let ?q = "on_write ADDR_SBADDRESS0 a (on_write ADDR_SBCS (push_bit 20 1 OR push_bit 17 2) p)"
  have q: "sba_at c v k ?q" by (intro sba_at_writes assms(1))
  note m = mem_read32 [OF refl assms(2)]
  have "has_model ?q ADDR_SBDATA0" "predict ?q ADDR_SBDATA0 = x" using predict_sba(5,6) [OF q] m(1,2) by simp_all
  moreover have "shadow_mem ?q = shadow_mem p" using at_mem_read(2) [OF sba_atD(1) [OF assms(1)] refl] .
  ultimately show ?thesis
    unfolding read_mem32_def using q by (intro wp_seq wp_dmi_write wp_bench_wait_sbus wp_dmi_read) (simp_all add: assms(3))
qed

lemma wp_sba_write_mem:
  assumes "sba_at c v k p" "\<And>q. sba_at c v k q \<Longrightarrow> shadow_mem q (take_bit 32 a) = Some (take_bit 32 x) \<Longrightarrow> Q () q h"
  shows "wp (write_mem32 T a x) Q p h"
proof -
  let ?q = "on_write ADDR_SBDATA0 x (on_write ADDR_SBADDRESS0 a (on_write ADDR_SBCS (push_bit 17 2) p))"
  have "Q () ?q h" by (intro assms(2) sba_at_writes assms(1) mem_write32(1) [OF refl])
  then show ?thesis unfolding write_mem32_def by (intro wp_seq wp_dmi_write wp_bench_wait_sbus)
qed

text \<open>A burst of writes is the fold of the writes, and a list of reads of known words gives those words.\<close>

lemma wp_burst:
  "Q () (fold (on_write ADDR_SBDATA0) ws p) h \<Longrightarrow> wp (forD (\<lambda>w. seqD (dmi_write T ADDR_SBDATA0 w) (wait_sbus T timeout)) ws) Q p h"
  by (induction ws arbitrary: p) (auto intro!: wp_return wp_seq wp_dmi_write wp_bench_wait_sbus simp del: ADDR_SBDATA0_def)

lemma wp_read_words:
  assumes "sba_at c v k p" "list_all2 (\<lambda>i x. shadow_mem p (take_bit 32 (f i)) = Some x) is xs"
    and "\<And>q. sba_at c v k q \<Longrightarrow> shadow_mem q = shadow_mem p \<Longrightarrow> Q xs q h"
  shows "wp (mapD (\<lambda>i. read_mem32 T (f i)) is) Q p h"
  using assms
proof (induction "is" arbitrary: xs p Q)
  case (Cons i "is")
  then obtain x ys where xs: "xs = x # ys" "shadow_mem p (take_bit 32 (f i)) = Some x"
    "list_all2 (\<lambda>i x. shadow_mem p (take_bit 32 (f i)) = Some x) is ys" by (auto simp: list_all2_Cons1)
  show ?case unfolding mapD.simps
  proof (rule wp_bind, rule wp_sba_read [OF Cons.prems(1) xs(2)], rule wp_bind)
    fix q assume q: "sba_at c v k q" "shadow_mem q = shadow_mem p"
    then show "wp (mapD (\<lambda>i. read_mem32 T (f i)) is) (\<lambda>zs. wp (returnD (x # zs)) Q) q h"
      using xs Cons.prems(3) by (intro Cons.IH wp_return) (simp_all add: q)
  qed
qed (simp add: wp_return)

end

lemma sba_at_burst: "sba_at c v k p \<Longrightarrow> sba_at c v k (fold (on_write ADDR_SBDATA0) ws p)"
  by (induction ws arbitrary: p) (auto intro: sba_at_writes simp del: ADDR_SBDATA0_def)

subsection \<open>The steps\<close>

text \<open>A system bus that a session can use, before the module is activated.\<close>

definition sba_bus :: "DMPredictor \<Rightarrow> bool" where
  "sba_bus p \<longleftrightarrow> cfg_valid p \<and> cfg_sba_enable (cfg p) \<and> 0 \<le> sbaccess p \<and> sbaccess p < 8 \<and> take_bit 3 (cfg_sbversion (cfg p)) \<noteq> 0"

lemma sba_bus_rest: "rest q = rest p \<Longrightarrow> sba_bus q = sba_bus p"
proof -
  have "sba_bus (rest x) = sba_bus x" for x by (simp add: rest_def sba_bus_def)
  then show "rest q = rest p \<Longrightarrow> sba_bus q = sba_bus p" by metis
qed

lemma sba_at_start: "at 0 c v q \<Longrightarrow> rest q = rest p \<Longrightarrow> sba_bus p \<Longrightarrow> sba_at c v (cfg p) q"
  using sba_bus_rest [of q p] rest_cong [of q p] by (auto simp: sba_at_def sba_bus_def sba_ready_def at_def)

lemma burst_armed:
  assumes "sba_at c v k p" "0 \<le> addr" "addr + 512 < 2 ^ 32"
    "q = on_write ADDR_SBADDRESS0 addr (on_write ADDR_SBCS (push_bit 17 2 OR push_bit 16 1) p)"
  shows "sbautoincrement q" "sbaddress0 q = addr"
    "push_bit (nat (take_bit 3 (drop_bit 17 (expect_sbcs (on_write ADDR_SBCS (push_bit 17 2 OR push_bit 16 1) p))))) 1 = sba_stride q"
    "sba_stride q \<le> 128"
proof -
  let ?r = "on_write ADDR_SBCS (push_bit 17 2 OR push_bit 16 1) p"
  have r: "sba_at c v k ?r" by (rule sba_at_writes [OF assms(1)])
  have st: "sbautoincrement q \<and> sbaddress0 q = take_bit 32 addr \<and> sbaccess q = sbaccess ?r"
    unfolding assms(4) on_write_sba by (simp add: write_sbcs_def write_sbaddress0_def Let_def)
  then show "sbautoincrement q" "sbaddress0 q = addr" using assms(2,3) by (simp_all add: take_bit_int_eq_self)
  have "take_bit 3 (drop_bit 17 (expect_sbcs ?r)) = sbaccess q" using sbcs_access_field(1) [OF r] st by simp
  then show "push_bit (nat (take_bit 3 (drop_bit 17 (expect_sbcs ?r)))) 1 = sba_stride q"
    by (simp only: sba_stride_def push_bit_eq_mult mult_1)
  have "sbaccess q < 8" using st r by (simp add: sba_at_def del: ADDR_SBCS_def)
  then have "nat (sbaccess q) \<le> 7" by linarith
  then have "(2::int) ^ nat (sbaccess q) \<le> 2 ^ 7" by (intro power_increasing) simp_all
  then show "sba_stride q \<le> 128" by (simp add: sba_stride_def)
qed

lemma burst_words_eq: "burst_words 4 = [0xA5A50000, 0xA5A50001, 0xA5A50002, 0xA5A50003]" "burst_words 3 = [0xA5A50000, 0xA5A50001, 0xA5A50002]"
  by code_simp+

lemma burst_stored:
  assumes "sbautoincrement q" "sbaddress0 q = addr" "sba_stride q \<le> 128" "0 \<le> addr" "addr + 512 < 2 ^ 32"
    "r = fold (on_write ADDR_SBDATA0) (burst_words 4) q"
  shows "sbaddress0 r = addr + sba_stride q * 4"
    "list_all2 (\<lambda>i x. shadow_mem r (take_bit 32 (addr + sba_stride q * i)) = Some x) [0..3] (burst_words 4)"
    "shadow_mem r addr = Some 0xA5A50000"
proof -
  let ?s = "sba_stride q"
  have len: "length (burst_words 4) = 4" by (simp add: burst_words_eq)
  have w: "sbaddress0 r = addr + ?s * 4" "shadow_mem r = store_words ?s addr (burst_words 4) (shadow_mem q)"
    using sba_block_write_steps [of q "burst_words 4"] assms len by simp_all
  have nth: "shadow_mem r (take_bit 32 (addr + ?s * int j)) = Some (take_bit 32 (burst_words 4 ! j))" if "j < 4" for j
  proof -
    have "?s * int j \<le> ?s * 4" "0 \<le> ?s * int j" using that sba_stride_pos [of q] by (simp_all add: mult_left_mono)
    then have "take_bit 32 (addr + ?s * int j) = addr + ?s * int j" using assms(3-5) by (simp add: take_bit_int_eq_self)
    then show ?thesis using store_words_nth [OF sba_stride_pos(1) [of q], of j "burst_words 4" addr] that by (simp add: w(2) len)
  qed
  show "sbaddress0 r = addr + ?s * 4" by (rule w)
  show "list_all2 (\<lambda>i x. shadow_mem r (take_bit 32 (addr + ?s * i)) = Some x) [0..3] (burst_words 4)"
  proof -
    have "[0..3] = map int [0..<4]" by code_simp
    then show ?thesis using nth by (auto simp: list_all2_conv_all_nth len burst_words_eq nth_Cons split: nat.split)
  qed
  show "shadow_mem r addr = Some 0xA5A50000" using nth [of 0] assms(4,5) by (simp add: burst_words_eq take_bit_int_eq_self)
qed

context dm_bench
begin

lemma tc_sba_wp:
  assumes p: "sba_at c v k p" and R: "\<And>q. sba_at c v k q \<Longrightarrow> R q h" and k: "take_bit 3 (cfg_sbversion k) \<noteq> 0"
  shows "wp (tc_sba_001 T) (\<lambda>x q k. gives x True \<and> R q k) p h"
    "take_bit 32 pattern = pattern \<Longrightarrow> wp (tc_sba_003_002 T addr pattern) (\<lambda>x q k. gives x True \<and> R q k) p h"
    "wp (tc_sba_007 T) (\<lambda>x q k. gives x True \<and> R q k) p h"
    "wp (tc_sba_009 T addr) (\<lambda>x q k. gives x True \<and> R q k) p h"
proof -
  have "expect_sbcs p \<noteq> 0" using sbcs_access_field(5) [OF p] k by auto
  then show "wp (tc_sba_001 T) (\<lambda>x q k. gives x True \<and> R q k) p h"
    unfolding tc_sba_001_def by (intro wp_bind wp_sba_sbcs [OF p] wp_step_verdict) (simp add: R p)
  show "wp (tc_sba_003_002 T addr pattern) (\<lambda>x q k. gives x True \<and> R q k) p h" if "take_bit 32 pattern = pattern"
    unfolding tc_sba_003_002_def
    by (rule wp_seq, rule wp_sba_write_mem [OF p], rule wp_bind, erule wp_sba_read, assumption, rule wp_step_verdict) (simp add: R that)
  show "wp (tc_sba_007 T) (\<lambda>x q k. gives x True \<and> R q k) p h"
    unfolding tc_sba_007_def
    apply (rule wp_seq, rule wp_sba_write [OF p], simp, rule wp_seq, erule wp_sba_write, simp, rule wp_seq, rule wp_bench_wait_sbus)
    apply (rule wp_bind, rule wp_sba_sbcs, assumption, rule wp_seq, erule wp_sba_write, simp, rule wp_bind, rule wp_sba_sbcs, assumption)
    apply (rule wp_step_verdict, simp add: sbcs_access_field R)
    done
  show "wp (tc_sba_009 T addr) (\<lambda>x q k. gives x True \<and> R q k) p h"
    unfolding tc_sba_009_def
    apply (rule wp_seq, rule wp_sba_write [OF p], simp, rule wp_seq, erule wp_sba_write, simp, rule wp_bind, rule wp_bench_read)
    apply (rule wp_seq, erule wp_sba_write, simp, rule wp_seq, rule wp_bench_wait_sbus)
    apply (rule wp_bind, rule wp_sba_sbcs, assumption, rule wp_seq, erule wp_sba_write, simp, rule wp_bind, rule wp_sba_sbcs, assumption)
    apply (rule wp_if, rule wp_bind, erule wp_sba_read_any, rule wp_step_verdict, simp add: R)
    apply (simp add: sbcs_access_field del: ADDR_SBCS_def)
    done
qed

lemma tc_sba_004_wp:
  assumes p: "sba_at c v k p" and R: "\<And>q. sba_at c v k q \<Longrightarrow> shadow_mem q addr = Some 0xA5A50000 \<Longrightarrow> R q h"
    and addr: "0 \<le> addr" "addr + 512 < 2 ^ 32"
  shows "wp (tc_sba_004 T addr) (\<lambda>x q k. gives x True \<and> R q k) p h"
proof -
  let ?r = "on_write ADDR_SBCS (push_bit 17 2 OR push_bit 16 1) p"
  let ?q = "on_write ADDR_SBADDRESS0 addr ?r"
  let ?b = "fold (on_write ADDR_SBDATA0) (burst_words 4) ?q"
  have r: "sba_at c v k ?r" and b: "sba_at c v k ?b" by (intro sba_at_burst sba_at_writes p)+
  note armed = burst_armed [OF p addr refl]
  note st = burst_stored [OF armed(1,2,4) addr refl]
  have e: "drop_bit 17 w AND 0x7 = take_bit 3 (drop_bit 17 w)" for w :: int by simp
  show ?thesis
    unfolding tc_sba_004_def effective_stride_def SB_ACCESS_LSB_def SB_AUTOINCREMENT_def e
    apply (rule wp_seq, rule wp_dmi_write, rule wp_bind, rule wp_bind, rule wp_sba_sbcs [OF r], rule wp_return, unfold armed(3))
    apply (rule wp_seq, rule wp_dmi_write, rule wp_seq, rule wp_burst, rule wp_bind, rule wp_dmi_read [OF predict_sba(3) [OF b]])
    apply (rule wp_bind, rule wp_read_words [OF b st(2)], rule wp_step_verdict, unfold predict_sba(4) [OF b] st(1))
    apply (simp only: R st(3) simp_thms)
    done
qed

lemma stream_armed:
  assumes "sba_at c v k p" "shadow_mem p addr = Some x" "0 \<le> addr" "addr + 512 < 2 ^ 32"
    "q = on_write ADDR_SBADDRESS0 addr (on_write ADDR_SBCS w p)" "bit w 20"
  shows "has_model q ADDR_SBDATA0" "predict q ADDR_SBDATA0 = x"
proof -
  have q: "sba_at c v k q" unfolding assms(5) by (intro sba_at_writes assms(1))
  have "sbdata0_pending_valid q" "sbdata0_pending_value q = x"
    using assms(2-4,6) unfolding assms(5) on_write_sba
    by (simp_all add: write_sbcs_def write_sbaddress0_def sba_arm_read_def Let_def take_bit_int_eq_self bit_take_bit_iff)
  then show "has_model q ADDR_SBDATA0" "predict q ADDR_SBDATA0 = x" using predict_sba(5,6) [OF q] by simp_all
qed

lemma tc_sba_005_wp:
  assumes p: "sba_at c v k p" "shadow_mem p addr = Some 0xA5A50000" and R: "\<And>q. sba_at c v k q \<Longrightarrow> R q h"
    and addr: "0 \<le> addr" "addr + 512 < 2 ^ 32"
  shows "wp (tc_sba_005 T addr) (\<lambda>x q k. gives x False \<and> R q k) p h"
proof -
  let ?w = "push_bit SB_ACCESS_LSB (2 :: int) OR push_bit SB_AUTOINCREMENT 1 OR push_bit SB_READONADDR 1 OR push_bit SB_READONDATA 1"
  let ?q = "on_write ADDR_SBADDRESS0 addr (on_write ADDR_SBCS ?w p)"
  have q: "sba_at c v k ?q" by (intro sba_at_writes p(1))
  have "bit ?w 20" by (simp add: bit_or_iff bit_push_bit_iff)
  note m = stream_armed [OF p addr refl this]
  have one: "wp (bindD (dmi_read T ADDR_SBDATA0) (\<lambda>v. seqD (wait_sbus T DEFAULT_TIMEOUT) (returnD v))) S ?q h" if "S 0xA5A50000 ?q h" for S
    by (rule wp_bind, rule wp_dmi_read [OF m(1)], rule wp_seq, rule wp_bench_wait_sbus, rule wp_return, unfold m(2), rule that)
  have seen: "wp (mapD (\<lambda>_. bindD (dmi_read T ADDR_SBDATA0) (\<lambda>v. seqD (wait_sbus T DEFAULT_TIMEOUT) (returnD v))) [0..2]) S ?q h"
    if "S [0xA5A50000, 0xA5A50000, 0xA5A50000] ?q h" for S
  proof -
    have "[0..2] = [0, 1, 2 :: int]" by code_simp
    with that show ?thesis by (simp only: mapD.simps) (intro wp_bind [OF one] wp_bind wp_return)
  qed
  show ?thesis
    unfolding tc_sba_005_def
    by (rule wp_seq, rule wp_dmi_write, rule wp_seq, rule wp_dmi_write, rule wp_seq, rule wp_bench_wait_sbus, rule wp_bind, rule seen,
      rule wp_seq, rule wp_sba_write [OF q], simp, rule wp_step_verdict) (simp add: R burst_words_eq)
qed

lemma tc_sba_006_wp:
  assumes p: "sba_at c v k p" and R: "\<And>q. sba_at c v k q \<Longrightarrow> R q h"
  shows "wp (tc_sba_006 T) (\<lambda>x q k. gives x True \<and> R q k) p h"
proof -
  have w: "sbaddress1 (on_write SBADDRESS1 0 q) = 0" "sbdata1_known (on_write SBDATA1 0 q)" "sbdata1 (on_write SBDATA1 0 q) = 0" for q
    by (simp_all add: on_write_def is_data_def is_progbuf_def guarded_while_busy_def)
  have r: "sba_at c v k (on_write SBADDRESS1 0 p)" by (intro sba_at_writes p)
  show ?thesis
    unfolding tc_sba_006_def
    apply (rule wp_seq, rule wp_dmi_write, rule wp_bind, rule wp_dmi_read [OF predict_sba(7) [OF r]], unfold predict_sba(8) [OF r w(1)])
    apply (rule wp_seq, rule wp_sba_write [OF r], simp, rule wp_seq, erule wp_sba_write, simp, rule wp_bind, rule wp_dmi_read)
    apply (erule predict_sba, simp only: w, rule wp_step_verdict)
    apply (simp only: predict_sba w R simp_thms)
    done
qed

lemma tc_sba_010_wp:
  assumes "at 0 c v p" "\<And>v q. at 0 c v q \<Longrightarrow> R q 0"
  shows "wp (tc_sba_010 T addr) (\<lambda>x q k. gives x True \<and> R q k) p 0"
  unfolding tc_sba_010_def
  by (rule wp_seq, rule wp_resume [where i = 0, unfolded of_nat_0], rule assms(1), rule wp_bind, erule wp_read_mem_any, rule wp_seq,
    erule wp_halt [where i = 0, unfolded of_nat_0], rule wp_step_verdict) (simp add: assms(2))

lemma wp_mapD_any:
  assumes "\<And>x R. (\<And>v. R v p h) \<Longrightarrow> wp (f x) R p h" "\<And>ys. Q ys p h"
  shows "wp (mapD f xs) Q p h"
  using assms(2) by (induction xs arbitrary: Q) (simp_all add: wp_return wp_bind assms(1))

lemma tc_sba_019_wp:
  assumes "\<And>q. R q h"
  shows "wp (tc_sba_019 T addr) (\<lambda>x q k. gives x True \<and> R q k) p h"
proof -
  have width: "wp (access_width T addr code) Q p h" if "\<And>q. Q () q h" for code Q p
    unfolding access_width_def Let_def using that
    by (intro wp_bind wp_seq wp_bench_read wp_dmi_write wp_if wp_return wp_bench_wait_sbus)
  have loop: "wp (forD (access_width T addr) codes) Q p h" if "\<And>q. Q () q h" for codes Q p
    using that by (induction codes arbitrary: p) (auto intro!: wp_return wp_seq width)
  show ?thesis
    unfolding tc_sba_019_def advertised_def Let_def
    by (intro wp_bind wp_mapD_any wp_return wp_seq loop wp_bench_read wp_dmi_write wp_step_verdict) (assumption | rule conjI [OF refl assms])+
qed

lemma sba_verdicts_wp:
  assumes "startable p 0" "sba_bus p" "take_bit 32 pattern = pattern" "0 \<le> addr" "addr + 512 < 2 ^ 32"
  shows "verdicts_wp (sba_steps T addr pattern) (replicate 5 True @ [False] @ replicate 5 True) (\<lambda>_ _ _. True) () p h"
proof -
  have k: "take_bit 3 (cfg_sbversion (cfg p)) \<noteq> 0" using assms(2) by (simp add: sba_bus_def)
  have bs: "replicate 5 True @ [False] @ replicate 5 True = [True, True, True, True, True, False, True, True, True, True, True]"
    by (simp add: numeral_eq_Suc)
  show ?thesis
    unfolding sba_steps_def bs
    apply (rule verdicts_command, rule wp_activate_rest [OF assms(1)], rule verdicts_command, erule wp_halt_rest [where i = 0, unfolded of_nat_0])
    apply (drule sba_at_start [OF _ trans assms(2)], assumption, assumption)
    apply (rule verdicts_check, rule tc_sba_wp(1) [OF _ _ k], assumption)
    apply (rule verdicts_check, rule tc_sba_wp(2) [OF _ _ k assms(3)], assumption)
    apply (rule verdicts_check, erule tc_sba_004_wp [OF _ _ assms(4,5)])
    apply (rule verdicts_check, erule (1) tc_sba_005_wp [OF _ _ _ assms(4,5)])
    apply (rule verdicts_check, erule tc_sba_006_wp)
    apply (rule verdicts_check, rule tc_sba_wp(3) [OF _ _ k], assumption)
    apply (rule verdicts_check, rule tc_sba_wp(4) [OF _ _ k], assumption)
    apply (rule verdicts_check, rule tc_sba_010_wp, erule sba_atD)
    apply (rule verdicts_check, rule tc_sba_019_wp, simp)
    done
qed

end

end
