(* ===== verification/SbaProps.thy ===== *)
theory SbaProps
  imports SbaRuns AccessProps
begin

text \<open>The system bus sequence against the golden model: the verdict of every step with the mock behind it.\<close>

context dm_bench
begin

lemma sba_session:
  assumes "startable p 0" "sba_bus p" "reps (t_state d) p" "take_bit 32 pattern = pattern" "0 \<le> addr" "addr + 512 < 2 ^ 32"
  shows "\<exists>s. build_sba_sequence T ''batch'' addr pattern = Inr s \<and>
    session_verdicts s (d, ()) = Some (replicate 5 True @ [False] @ replicate 5 True)"
  unfolding build_sba_sequence_def
  by (rule session_verdicts_wp [OF sba_verdicts_wp [OF assms(1,2,4-6)] assms(3) refl])

end

text \<open>
  C15. The system bus session against the mock, for any 32-bit pattern and any access size the module
  keeps: discovery, the round trip, the autoincrement burst with its end address, the upper halves, the
  clearing of \<^verbatim>\<open>sberror\<close> and \<^verbatim>\<open>sbbusyerror\<close>, the access with the hart running and the widths
  all pass; the stream of \<^verbatim>\<open>TC-SBA-005\<close> fails, since a read of the mock does not reach the
  predictor and \<^verbatim>\<open>sbreadondata\<close> never advances.
\<close>

theorem sba_session_exact:
  assumes "startable (predictor (t_state d)) 0" "sba_bus (predictor (t_state d))" "take_bit 32 pattern = pattern"
    "0 \<le> addr" "addr + 512 < 2 ^ 32"
  shows "\<exists>s. build_sba_sequence (mock_transport clock) ''batch'' addr pattern = Inr s \<and>
    session_verdicts s (d, ()) = Some (replicate 5 True @ [False] @ replicate 5 True)"
  using mock_bench.sba_session [OF assms(1,2) refl assms(3-5)] .

lemma memory_session_ready: "startable (predictor (t_state memory_session)) 0" "sba_bus (predictor (t_state memory_session))"
  "take_bit 32 0xC0FFEE00 = (0xC0FFEE00 :: int)"
proof -
  let ?p = "on_write ADDR_SBDATA0 9 (on_write ADDR_SBDATA0 7 sample_sba)"
  have d: "predictor (t_state memory_session) = ?p" by (simp add: memory_session_def RISCVDebug_init_def mock_init_def)
  have "reachable ?p" by (intro reachable.dmi_write reachable_samples)
  moreover have "0 < length (harts ?p) \<and> \<not> step_armed ?p \<and> \<not> hartreset_level ?p \<and> \<not> hart_reset (harts ?p ! 0) \<and>
    take_bit 4 (version ?p) \<noteq> 0 \<and> sba_bus ?p \<and> take_bit 32 0xC0FFEE00 = (0xC0FFEE00 :: int)" by code_simp
  ultimately show "startable (predictor (t_state memory_session)) 0" "sba_bus (predictor (t_state memory_session))"
    "take_bit 32 0xC0FFEE00 = (0xC0FFEE00 :: int)" by (simp_all add: d startable_def)
qed

theorem sba_session_exact_witness:
  "\<exists>s. build_sba_sequence (mock_transport (\<lambda>k. int k)) ''batch'' 0x80000000 0xC0FFEE00 = Inr s \<and>
    session_verdicts s (memory_session, ()) = Some [True, True, True, True, True, False, True, True, True, True, True]"
proof -
  have "replicate 5 True @ [False] @ replicate 5 True = [True, True, True, True, True, False, True, True, True, True, True]"
    by (simp add: numeral_eq_Suc)
  then show ?thesis
    using sba_session_exact [where d = memory_session and addr = "0x80000000" and pattern = "0xC0FFEE00" and clock = "\<lambda>k. int k"]
      memory_session_ready by simp
qed

end
