(* ===== verification/CmdSeq.thy ===== *)
theory CmdSeq
  imports Sequences
begin

text \<open>
  The sequences on the outcome of abstract commands, under \<^verbatim>\<open>src/src/pydebug/sequences\<close>:
  \<^verbatim>\<open>cmderr_sequence.py\<close>, which drives one command per error class, \<^verbatim>\<open>cmd_busy_sequence.py\<close>, which races
  register accesses against a command in flight, and \<^verbatim>\<open>cmd_outcome_sequence.py\<close>, which drives each kind
  of command into each outcome. The dictionary \<^verbatim>\<open>seen\<close> of the first, which only feeds a message, is left out.
\<close>

unbundle bit_operations_syntax

subsection \<open>\<^verbatim>\<open>cmderr_sequence.py\<close>\<close>

definition ABS_CMDERR_LSB :: nat where [simp]: "ABS_CMDERR_LSB = 8"
definition ABS_CMDERR_MASK :: int where [simp]: "ABS_CMDERR_MASK = push_bit ABS_CMDERR_LSB 0x7"
definition ABS_BUSY :: int where [simp]: "ABS_BUSY = push_bit 12 1"
definition CMD_WRITE :: int where [simp]: "CMD_WRITE = push_bit 16 1"
definition CMD_TRANSFER :: int where [simp]: "CMD_TRANSFER = push_bit 17 1"
definition CMD_POSTEXEC :: int where [simp]: "CMD_POSTEXEC = push_bit 18 1"
definition REGNO_GPR_S0 :: int where [simp]: "REGNO_GPR_S0 = 0x1008"
definition REGNO_UNIMPLEMENTED :: int where [simp]: "REGNO_UNIMPLEMENTED = 0x0FFF"

text \<open>
  The variable of the session is \<^verbatim>\<open>WIDTH["aarsize"]\<close> of the module; \<open>None\<close> for \<^verbatim>\<open>aarsize\<close> means this width.
\<close>

definition access_register :: "int \<Rightarrow> int \<Rightarrow> bool \<Rightarrow> int option \<Rightarrow> bool \<Rightarrow> int \<Rightarrow> int" where
  "access_register width regno wr aarsize postexec cmdtype =
     (let size = (case aarsize of None \<Rightarrow> width | Some n \<Rightarrow> n);
          w = push_bit 24 cmdtype OR push_bit 20 size OR (regno AND 0xFFFF);
          w1 = w OR CMD_TRANSFER;
          w2 = (if wr then w1 OR CMD_WRITE else w1)
      in if postexec then w2 OR CMD_POSTEXEC else w2)"

definition ce_read_cmderr :: "'s transport \<Rightarrow> ('s, int) dbg" where
  "ce_read_cmderr T = bindD (dmi_read T ADDR_ABSTRACTCS) (\<lambda>w. returnD (drop_bit ABS_CMDERR_LSB (w AND ABS_CMDERR_MASK)))"

definition ce_clear_cmderr :: "'s transport \<Rightarrow> ('s, unit) dbg" where
  "ce_clear_cmderr T = dmi_write T ADDR_ABSTRACTCS ABS_CMDERR_MASK"

definition ce_wait_not_busy :: "'s transport \<Rightarrow> int \<Rightarrow> ('s, bool) dbg" where
  "ce_wait_not_busy T timeout =
     bindD (monotonic T) (\<lambda>now.
       wait_until T (bindD (dmi_read T ADDR_ABSTRACTCS) (\<lambda>w. returnD (\<not> truth (w AND ABS_BUSY)))) (now + timeout))"

definition CE_TIMEOUT :: int where "CE_TIMEOUT = 1000000"

definition drive :: "'s transport \<Rightarrow> string \<Rightarrow> (int \<Rightarrow> int) \<Rightarrow> int \<Rightarrow> int \<Rightarrow> 's check_method" where
  "drive T name cmd_word exps width =
     (let word = cmd_word width in
      seqD (ce_clear_cmderr T)
     (seqD (dmi_write T ADDR_COMMAND word)
     (bindD (ce_wait_not_busy T CE_TIMEOUT) (\<lambda>completed.
      bindD (ce_read_cmderr T) (\<lambda>err.
      seqD (ce_clear_cmderr T)
           (step_result name (err = exps)))))))"

definition probe_width :: "'s transport \<Rightarrow> int \<Rightarrow> ('s, unit step_return \<times> int) dbg" where
  "probe_width T width =
     seqD (ce_clear_cmderr T)
    (seqD (dmi_write T ADDR_COMMAND (access_register width REGNO_GPR_S0 False (Some 3) False 0))
    (bindD (ce_wait_not_busy T CE_TIMEOUT) (\<lambda>_.
     bindD (ce_read_cmderr T) (\<lambda>err.
     seqD (ce_clear_cmderr T)
    (bindD (step_result ''Probe the hart's register width'' True) (\<lambda>r.
       returnD (r, if err = CMDERR_NOT_SUPPORTED then 2 else 3)))))))"

definition confirm_halted :: "'s transport \<Rightarrow> 's check_method" where
  "confirm_halted T = bindD (dmi_read T ADDR_DMSTATUS) (\<lambda>status. step_result ''Confirm hart halted'' (allhalted status \<and> anyhalted status))"

definition busy_case :: "'s transport \<Rightarrow> int \<Rightarrow> 's check_method" where
  "busy_case T width =
     bindD (dmi_read T ADDR_ABSTRACTCS) (\<lambda>w.
     let progbufsize = drop_bit 24 w AND 0x1F; nops = max 0 (min progbufsize 8 - 1) in
     seqD (ce_clear_cmderr T)
    (seqD (forD (\<lambda>i. dmi_write T (ADDR_PROGBUF0 + i) 0x00000013) [0..nops - 1])
    (seqD (dmi_write T (ADDR_PROGBUF0 + nops) 0x00100073)
    (seqD (dmi_write T ADDR_COMMAND (access_register width REGNO_GPR_S0 False None True 0))
    (seqD (dmi_write T ADDR_COMMAND (access_register width REGNO_GPR_S0 False None False 0))
    (bindD (ce_wait_not_busy T CE_TIMEOUT) (\<lambda>_.
     bindD (ce_read_cmderr T) (\<lambda>err.
     seqD (ce_clear_cmderr T)
          (step_result ''busy'' (err = CMDERR_BUSY \<or> err = CMDERR_NONE))))))))))"

definition sticky_case :: "'s transport \<Rightarrow> int \<Rightarrow> 's check_method" where
  "sticky_case T width =
     seqD (ce_clear_cmderr T)
    (seqD (dmi_write T ADDR_COMMAND (access_register width REGNO_GPR_S0 False (Some 4) False 0))
    (bindD (ce_wait_not_busy T CE_TIMEOUT) (\<lambda>_.
     bindD (ce_read_cmderr T) (\<lambda>after_fail.
     seqD (dmi_write T ADDR_COMMAND (access_register width REGNO_GPR_S0 False None False 0))
    (bindD (ce_wait_not_busy T CE_TIMEOUT) (\<lambda>_.
     bindD (ce_read_cmderr T) (\<lambda>after_ok.
       step_result ''sticky'' (after_fail \<noteq> CMDERR_NONE \<and> after_ok = after_fail))))))))"

definition recovery_case :: "'s transport \<Rightarrow> int \<Rightarrow> 's check_method" where
  "recovery_case T width =
     seqD (ce_clear_cmderr T)
    (bindD (ce_read_cmderr T) (\<lambda>before.
     seqD (dmi_write T ADDR_COMMAND (access_register width REGNO_GPR_S0 False None False 0))
    (bindD (ce_wait_not_busy T CE_TIMEOUT) (\<lambda>_.
     bindD (ce_read_cmderr T) (\<lambda>after.
       step_result ''recovery'' (before = CMDERR_NONE \<and> after = CMDERR_NONE))))))"

text \<open>A step that reads the shared variable and leaves it alone.\<close>

definition reader_step :: "string \<Rightarrow> ('x \<Rightarrow> 's check_method) \<Rightarrow> ('s, 'x) seq_step" where
  "reader_step name m = dbg_step name (\<lambda>x. bindD (m x) (\<lambda>r. returnD (r, x)))"

definition cmderr_steps :: "'s transport \<Rightarrow> ('s, int) seq_step list" where
  "cmderr_steps T =
     [command_step ''Activate Debug Module'' (activate T),
      command_step ''Halt hart (to probe the register width)'' (halt T DEFAULT_TIMEOUT),
      dbg_step ''Probe the hart's register width'' (probe_width T),
      command_step ''Resume hart (for the halt/resume case)'' (resume T DEFAULT_TIMEOUT),
      reader_step ''cmderr=4 (halt/resume): command while the hart is running''
        (drive T ''halt_resume'' (\<lambda>w. access_register w REGNO_GPR_S0 False None False 0) CMDERR_HALT_RESUME),
      command_step ''Halt hart'' (halt T DEFAULT_TIMEOUT),
      check_step ''Confirm hart halted'' (confirm_halted T),
      reader_step ''cmderr=0 (none): a valid GPR read''
        (drive T ''none'' (\<lambda>w. access_register w REGNO_GPR_S0 False None False 0) CMDERR_NONE),
      reader_step ''cmderr=2 (not supported): aarsize=128-bit''
        (drive T ''size128'' (\<lambda>w. access_register w REGNO_GPR_S0 False (Some 4) False 0) CMDERR_NOT_SUPPORTED),
      reader_step ''cmderr=2 (not supported): cmdtype=1 (Quick Access)''
        (drive T ''quick_access'' (\<lambda>w. access_register w REGNO_GPR_S0 False None False 1) CMDERR_NOT_SUPPORTED),
      reader_step ''cmderr=2 (not supported): cmdtype=2 (Access Memory)''
        (drive T ''access_memory'' (\<lambda>w. access_register w REGNO_GPR_S0 False None False 2) CMDERR_NOT_SUPPORTED),
      reader_step ''reserved cmdtype=3: rejected, DM still usable''
        (drive T ''reserved_cmdtype'' (\<lambda>w. access_register w REGNO_GPR_S0 False None False 3) CMDERR_NOT_SUPPORTED),
      reader_step ''cmderr=3 (exception): read an unimplemented CSR''
        (drive T ''bad_regno'' (\<lambda>w. access_register w REGNO_UNIMPLEMENTED False None False 0) CMDERR_EXCEPTION),
      reader_step ''cmderr=1 (busy): command issued while busy'' (busy_case T),
      reader_step ''cmderr is sticky across a successful command'' (sticky_case T),
      reader_step ''cmderr clears on W1C and the DM recovers'' (recovery_case T),
      check_step ''Record which cmderr encodings were produced'' (step_result ''summary'' True)]"

definition build_cmderr_sequence :: "'s transport \<Rightarrow> string \<Rightarrow> ('s, int) seq_session result" where
  "build_cmderr_sequence T md = session_of md False (cmderr_steps T)"

subsection \<open>\<^verbatim>\<open>cmd_busy_sequence.py\<close>\<close>

definition LI_T0_400 :: int where [simp]: "LI_T0_400 = 0x19000293"
definition ADDI_T0_M1 :: int where [simp]: "ADDI_T0_M1 = 0xFFF28293"
definition BNEZ_T0_BACK :: int where [simp]: "BNEZ_T0_BACK = 0xFE029EE3"
definition EBREAK :: int where [simp]: "EBREAK = 0x00100073"
definition CMD_POSTEXEC_ONLY :: int where [simp]: "CMD_POSTEXEC_ONLY = push_bit 20 2 OR push_bit 18 1"
definition ABSTRACTCS_BUSY :: nat where [simp]: "ABSTRACTCS_BUSY = 12"
definition ABSTRACTCS_CMDERR :: nat where [simp]: "ABSTRACTCS_CMDERR = 8"
definition DMC_HASEL :: nat where [simp]: "DMC_HASEL = 26"
definition DMC_SETKEEPALIVE :: nat where [simp]: "DMC_SETKEEPALIVE = 5"
definition DMC_CLRKEEPALIVE :: nat where [simp]: "DMC_CLRKEEPALIVE = 4"
definition DMC_SETRESETHALTREQ :: nat where [simp]: "DMC_SETRESETHALTREQ = 3"
definition DMC_CLRRESETHALTREQ :: nat where [simp]: "DMC_CLRRESETHALTREQ = 2"
definition X5_REGNO :: int where [simp]: "X5_REGNO = 0x1005"
definition UNMAPPED_DMI_ADDR :: int where [simp]: "UNMAPPED_DMI_ADDR = 0x2F"

definition cmderr_of :: "int \<Rightarrow> int" where
  "cmderr_of abstractcs = drop_bit ABSTRACTCS_CMDERR abstractcs AND 0x7"

definition busy_of :: "int \<Rightarrow> bool" where
  "busy_of abstractcs = truth (drop_bit ABSTRACTCS_BUSY abstractcs AND 1)"

definition wait_not_busy :: "'s transport \<Rightarrow> nat \<Rightarrow> ('s, bool) dbg" where
  "wait_not_busy T limit = any_of_range limit (bindD (dmi_read T ADDR_ABSTRACTCS) (\<lambda>w. returnD (\<not> busy_of w)))"

definition cb_clear_cmderr :: "'s transport \<Rightarrow> ('s, unit) dbg" where
  "cb_clear_cmderr T = bindD (wait_not_busy T 200) (\<lambda>_. dmi_write T ADDR_ABSTRACTCS (push_bit ABSTRACTCS_CMDERR 0x7))"

definition arm_long_command :: "'s transport \<Rightarrow> ('s, unit) dbg" where
  "arm_long_command T =
     seqD (write_progbuf T 0 LI_T0_400)
    (seqD (write_progbuf T 1 ADDI_T0_M1)
    (seqD (write_progbuf T 2 BNEZ_T0_BACK)
    (seqD (write_progbuf T 3 EBREAK)
    (seqD (cb_clear_cmderr T)
          (dmi_write T ADDR_COMMAND CMD_POSTEXEC_ONLY)))))"

text \<open>\<^verbatim>\<open>_race\<close>: the accesses that were not refused, by name.\<close>

fun race_each :: "'s transport \<Rightarrow> (string \<times> ('s, unit) dbg) list \<Rightarrow> ('s, string list) dbg" where
  "race_each T [] = returnD []"
| "race_each T ((name, access) # rest) =
     seqD (arm_long_command T)
    (seqD access
    (bindD (dmi_read T ADDR_ABSTRACTCS) (\<lambda>acs.
     bindD (race_each T rest) (\<lambda>bad. returnD (if cmderr_of acs \<noteq> CMDERR_BUSY then name # bad else bad)))))"

definition cb_race :: "'s transport \<Rightarrow> (string \<times> ('s, unit) dbg) list \<Rightarrow> ('s, string list) dbg" where
  "cb_race T accesses = bindD (race_each T accesses) (\<lambda>bad. seqD (cb_clear_cmderr T) (returnD bad))"

text \<open>A read whose value is not used.\<close>

definition just_read :: "'s transport \<Rightarrow> int \<Rightarrow> ('s, unit) dbg" where
  "just_read T addr = bindD (dmi_read T addr) (\<lambda>_. returnD ())"

definition tc_ac_020 :: "'s transport \<Rightarrow> 's check_method" where
  "tc_ac_020 T =
     bindD (cb_race T [(''data0 write'', dmi_write T ADDR_DATA0 0x11111111), (''data0 read'', just_read T ADDR_DATA0),
                       (''progbuf0 write'', dmi_write T ADDR_PROGBUF0 0x22222222), (''progbuf0 read'', just_read T ADDR_PROGBUF0)]) (\<lambda>bad.
       step_result ''TC-AC-020'' (bad = []))"

definition tc_ac_021 :: "'s transport \<Rightarrow> 's check_method" where
  "tc_ac_021 T =
     bindD (cb_race T [(''command write'', dmi_write T ADDR_COMMAND CMD_POSTEXEC_ONLY),
                       (''abstractauto write'', dmi_write T ADDR_ABSTRACTAUTO 0),
                       (''abstractcs write'', seqD (dmi_write T ADDR_ABSTRACTCS 0) (dmi_write T ADDR_ABSTRACTCS 0))]) (\<lambda>bad.
     seqD (just_read T ADDR_ABSTRACTAUTO)
          (step_result ''TC-AC-021'' (bad = [])))"

definition tc_ac_022 :: "'s transport \<Rightarrow> 's check_method" where
  "tc_ac_022 T =
     bindD (wait_not_busy T 200) (\<lambda>settled.
     if \<not> settled then step_result ''TC-AC-022'' False
     else seqD (dmi_write T ADDR_ABSTRACTAUTO 0)
         (seqD (forD (\<lambda>i. write_progbuf T i EBREAK) [0..3])
         (seqD (cb_clear_cmderr T)
         (bindD (dmi_read T ADDR_ABSTRACTCS) (\<lambda>pre_acs.
          bindD (dmi_read T ADDR_ABSTRACTAUTO) (\<lambda>pre_auto.
          bindD (dmi_read T ADDR_DMSTATUS) (\<lambda>pre_dms.
          bindD (tryD (seqD (write_gpr T X5_REGNO 0xABCD) (bindD (read_gpr T X5_REGNO) (\<lambda>v. returnD (Some v))))
                   (\<lambda>e. seqD (just_read T ADDR_ABSTRACTCS) (returnD None))) (\<lambda>got.
          case got of
            None \<Rightarrow> step_result ''TC-AC-022'' False
          | Some val \<Rightarrow> bindD (dmi_read T ADDR_ABSTRACTCS) (\<lambda>acs.
              step_result ''TC-AC-022'' (val = 0xABCD \<and> cmderr_of acs = CMDERR_NONE))))))))))"

definition tc_ac_023 :: "'s transport \<Rightarrow> 's check_method" where
  "tc_ac_023 T =
     bindD (dmi_read T ADDR_DMSTATUS) (\<lambda>before_s.
     bindD (dmi_read T ADDR_HARTINFO) (\<lambda>before_h.
     seqD (dmi_write T ADDR_DMSTATUS 0xFFFFFFFF)
    (seqD (dmi_write T ADDR_HARTINFO 0xFFFFFFFF)
    (bindD (dmi_read T ADDR_DMSTATUS) (\<lambda>after_s.
     bindD (dmi_read T ADDR_HARTINFO) (\<lambda>after_h.
       step_result ''TC-AC-023'' (after_s = before_s \<and> after_h = before_h)))))))"

definition tc_ac_024 :: "'s transport \<Rightarrow> 's check_method" where
  "tc_ac_024 T =
     seqD (dmi_write T ADDR_ABSTRACTAUTO 0)
    (bindD (dmi_read T ADDR_ABSTRACTAUTO) (\<lambda>zero.
     seqD (dmi_write T ADDR_ABSTRACTAUTO 1)
    (bindD (dmi_read T ADDR_ABSTRACTAUTO) (\<lambda>one.
     seqD (dmi_write T ADDR_ABSTRACTAUTO 0)
    (seqD (cb_clear_cmderr T)
          (step_result ''TC-AC-024'' (zero = 0)))))))"

definition tc_ac_025 :: "'s transport \<Rightarrow> 's check_method" where
  "tc_ac_025 T =
     bindD (dmi_read T ADDR_DMCONTROL) (\<lambda>base.
     seqD (dmi_write T ADDR_DMCONTROL (base OR push_bit DMC_SETKEEPALIVE 1))
    (seqD (just_read T ADDR_DMCONTROL)
    (seqD (dmi_write T ADDR_DMCONTROL (base OR push_bit DMC_CLRKEEPALIVE 1))
    (seqD (just_read T ADDR_DMCONTROL)
    (seqD (dmi_write T ADDR_DMCONTROL (base OR push_bit DMC_HASEL 1))
    (seqD (dmi_write T ADDR_DMCONTROL (base OR push_bit DMC_SETRESETHALTREQ 1))
    (seqD (dmi_write T ADDR_DMCONTROL (base OR push_bit DMC_CLRRESETHALTREQ 1))
    (seqD (dmi_write T ADDR_DMCONTROL base)
    (bindD (is_halted T) (\<lambda>b. step_result ''TC-AC-025'' b))))))))))"

definition regno_probes :: "(int \<times> int) list" where
  "regno_probes = [(r, w). r \<leftarrow> [0xC001, 0x100A, 0x1020], w \<leftarrow> [1, 0]]"

definition tc_ac_026 :: "'s transport \<Rightarrow> 's check_method" where
  "tc_ac_026 T =
     seqD (forD (\<lambda>(regno, wr).
        seqD (cb_clear_cmderr T)
       (seqD (dmi_write T ADDR_DATA0 0x5A5A5A5A)
       (seqD (dmi_write T ADDR_COMMAND (push_bit 20 2 OR push_bit 17 1 OR push_bit 16 wr OR regno))
       (bindD (wait_not_busy T 200) (\<lambda>_. just_read T ADDR_ABSTRACTCS))))) regno_probes)
    (seqD (cb_clear_cmderr T)
    (bindD (read_gpr T X5_REGNO) (\<lambda>_. step_result ''TC-AC-026'' True)))"

definition tc_ac_027 :: "'s transport \<Rightarrow> 's check_method" where
  "tc_ac_027 T =
     seqD (resume T DEFAULT_TIMEOUT)
    (bindD (is_running T) (\<lambda>was_running.
     seqD (resume T DEFAULT_TIMEOUT)
    (bindD (is_running T) (\<lambda>still_running.
     seqD (halt T DEFAULT_TIMEOUT)
          (step_result ''TC-AC-027'' (was_running \<and> still_running))))))"

definition tc_ac_028 :: "'s transport \<Rightarrow> 's check_method" where
  "tc_ac_028 T =
     bindD (dmi_read T ADDR_COMMAND) (\<lambda>command.
     seqD (dmi_write T UNMAPPED_DMI_ADDR 0xFFFFFFFF)
    (bindD (is_halted T) (\<lambda>b. step_result ''TC-AC-028'' (command = 0 \<and> b))))"

definition cmd_busy_steps :: "'s transport \<Rightarrow> ('s, unit) seq_step list" where
  "cmd_busy_steps T =
     [command_step ''Activate Debug Module'' (activate T),
      command_step ''Halt hart'' (halt T DEFAULT_TIMEOUT),
      check_step ''TC-AC-020: data0/progbuf access while busy'' (tc_ac_020 T),
      check_step ''TC-AC-021: command/abstractauto/abstractcs access while busy'' (tc_ac_021 T),
      check_step ''TC-AC-022: DM usable after a busy collision'' (tc_ac_022 T),
      check_step ''TC-AC-023: writes to R/O registers ignored'' (tc_ac_023 T),
      check_step ''TC-AC-024: abstractauto round-trip'' (tc_ac_024 T),
      check_step ''TC-AC-025: keepalive set/clear'' (tc_ac_025 T),
      check_step ''TC-AC-026: abstract-command regno corners'' (tc_ac_026 T),
      check_step ''TC-AC-027: resume while already running'' (tc_ac_027 T),
      check_step ''TC-AC-028: command reads 0, unmapped write ignored'' (tc_ac_028 T)]"

definition build_cmd_busy_sequence :: "'s transport \<Rightarrow> string \<Rightarrow> ('s, unit) seq_session result" where
  "build_cmd_busy_sequence T md = session_of md False (cmd_busy_steps T)"

subsection \<open>\<^verbatim>\<open>cmd_outcome_sequence.py\<close>\<close>

definition JR_T1 :: int where [simp]: "JR_T1 = 0x00030067"
definition ILLEGAL :: int where [simp]: "ILLEGAL = 0x00000000"
definition LOOP_ADDR :: int where [simp]: "LOOP_ADDR = 0x80180000"
definition CO_SBDATA1 :: int where [simp]: "CO_SBDATA1 = 0x3D"
definition T0_REGNO :: int where [simp]: "T0_REGNO = 0x1005"
definition T1_REGNO :: int where [simp]: "T1_REGNO = 0x1006"
definition T2_REGNO :: int where [simp]: "T2_REGNO = 0x1007"
definition OTHER_REGNO :: int where [simp]: "OTHER_REGNO = 0xC001"
definition AARSIZE_RESERVED :: int where [simp]: "AARSIZE_RESERVED = push_bit 20 5"
definition CMD_NEITHER :: int where [simp]: "CMD_NEITHER = push_bit 20 2"
definition CMD_XFER_READ_X5 :: int where [simp]: "CMD_XFER_READ_X5 = push_bit 20 2 OR push_bit 17 1 OR X5_REGNO"
definition CMD_XFER_READ_X5_POST :: int where [simp]: "CMD_XFER_READ_X5_POST = CMD_XFER_READ_X5 OR push_bit 18 1"

text \<open>
  The dictionary \<^verbatim>\<open>saved\<close> of the session; a step that raises half way keeps what it has saved so far, so
  its assignments are phases of their own.
\<close>

type_synonym saved = "string \<rightharpoonup> int"

fun run_phases :: "('x \<Rightarrow> ('s, 'x) dbg) list \<Rightarrow> 's RISCVDebug \<Rightarrow> 'x \<Rightarrow> (dbg_error option \<times> 's RISCVDebug \<times> 'x) option" where
  "run_phases [] d x = Some (None, d, x)"
| "run_phases (m # ms) d x =
     (case m x d of
        None \<Rightarrow> None
      | Some (Inl e, d1) \<Rightarrow> Some (Some e, d1, x)
      | Some (Inr x1, d1) \<Rightarrow> run_phases ms d1 x1)"

definition phased_step :: "string \<Rightarrow> ('x \<Rightarrow> ('s, 'x) dbg) list \<Rightarrow> ('x \<Rightarrow> 's check_method) \<Rightarrow> ('s, 'x) seq_step" where
  "phased_step name phases m = (name, \<lambda>(d, x).
     case run_phases phases d x of
       None \<Rightarrow> (RaisesInterrupt, (d, x))
     | Some (Some e, d1, x1) \<Rightarrow> (RaisesException '''', (d1, x1))
     | Some (None, d1, x1) \<Rightarrow> snd (reader_step name m) (d1, x1))"

definition saved_item :: "saved \<Rightarrow> string \<Rightarrow> ('s, int) dbg" where
  "saved_item saved k = (case saved k of None \<Rightarrow> raiseD (Raised (KeyError k)) | Some v \<Rightarrow> returnD v)"

definition co_clear_cmderr :: "'s transport \<Rightarrow> ('s, unit) dbg" where
  "co_clear_cmderr T = bindD (wait_not_busy T 400) (\<lambda>_. dmi_write T ADDR_ABSTRACTCS (push_bit ABSTRACTCS_CMDERR 0x7))"

definition run_cmd :: "'s transport \<Rightarrow> int \<Rightarrow> ('s, int) dbg" where
  "run_cmd T cmd =
     seqD (co_clear_cmderr T)
    (seqD (dmi_write T ADDR_COMMAND cmd)
    (bindD (wait_not_busy T 400) (\<lambda>_.
     bindD (dmi_read T ADDR_ABSTRACTCS) (\<lambda>acs. returnD (cmderr_of acs)))))"

definition co_race :: "'s transport \<Rightarrow> int \<Rightarrow> ('s, unit) dbg list \<Rightarrow> ('s, int \<times> bool) dbg" where
  "co_race T cmd during =
     seqD (co_clear_cmderr T)
    (seqD (dmi_write T ADDR_COMMAND CMD_POSTEXEC_ONLY)
    (seqD (forD (\<lambda>access. access) during)
    (seqD (dmi_write T ADDR_COMMAND cmd)
    (bindD (dmi_read T ADDR_ABSTRACTCS) (\<lambda>acs.
     bindD (wait_not_busy T 400) (\<lambda>_.
     bindD (dmi_read T ADDR_ABSTRACTCS) (\<lambda>acs1. returnD (cmderr_of acs1, busy_of acs))))))))"

definition point_t1_at_loop :: "'s transport \<Rightarrow> ('s, unit) dbg" where
  "point_t1_at_loop T = write_reg64 T T1_REGNO LOOP_ADDR"

definition while_running :: "'s transport \<Rightarrow> saved \<Rightarrow> int \<Rightarrow> ('s, int) dbg" where
  "while_running T saved cmd =
     seqD (co_clear_cmderr T)
    (bindD (saved_item saved ''t0'') (\<lambda>t0.
     seqD (write_reg64 T T0_REGNO t0)
    (bindD (saved_item saved ''t1'') (\<lambda>t1.
     seqD (write_reg64 T T1_REGNO t1)
    (seqD (resume T DEFAULT_TIMEOUT)
    (bindD (run_cmd T cmd) (\<lambda>err.
     seqD (halt T DEFAULT_TIMEOUT)
    (seqD (co_clear_cmderr T)
    (seqD (point_t1_at_loop T)
    (seqD (dmi_write T ADDR_DATA0 0)
          (returnD err)))))))))))"

definition sba_write64 :: "'s transport \<Rightarrow> int \<Rightarrow> int \<Rightarrow> ('s, unit) dbg" where
  "sba_write64 T addr val =
     seqD (dmi_write T ADDR_SBCS (push_bit 17 3))
    (seqD (dmi_write T ADDR_SBADDRESS0 addr)
    (seqD (dmi_write T CO_SBDATA1 (drop_bit 32 val))
    (seqD (dmi_write T ADDR_SBDATA0 (val AND 0xFFFFFFFF))
          (wait_sbus T DEFAULT_TIMEOUT))))"

definition sba_read64 :: "'s transport \<Rightarrow> int \<Rightarrow> ('s, int) dbg" where
  "sba_read64 T addr =
     seqD (dmi_write T ADDR_SBCS (push_bit 20 1 OR push_bit 17 3))
    (seqD (dmi_write T ADDR_SBADDRESS0 addr)
    (seqD (wait_sbus T DEFAULT_TIMEOUT)
    (bindD (dmi_read T CO_SBDATA1) (\<lambda>hi.
     bindD (dmi_read T ADDR_SBDATA0) (\<lambda>lo. returnD (push_bit 32 hi OR lo))))))"

text \<open>\<^verbatim>\<open>verdict\<close>: each code found against the codes wanted for it.\<close>

definition verdict :: "string \<Rightarrow> (string \<times> int) list \<Rightarrow> (string \<times> int list) list \<Rightarrow> 's check_method" where
  "verdict tc got want =
     (case filter (\<lambda>(k, v). map_of want k = None) got of
        (k, _) # _ \<Rightarrow> raiseD (Raised (KeyError k))
      | [] \<Rightarrow> step_result tc (\<forall>(k, v) \<in> set got. v \<in> set (the (map_of want k))))"

definition loop_words :: "int list" where
  "loop_words = [push_bit 32 ADDI_T0_M1 OR LI_T0_400, push_bit 32 EBREAK OR BNEZ_T0_BACK]"

definition save_reg :: "'s transport \<Rightarrow> string \<Rightarrow> int \<Rightarrow> saved \<Rightarrow> ('s, saved) dbg" where
  "save_reg T k regno saved = bindD (read_reg64 T regno) (\<lambda>v. returnD (saved(k \<mapsto> v)))"

definition co_setup :: "'s transport \<Rightarrow> 's check_method" where
  "co_setup T =
     seqD (forD (\<lambda>(i, w). sba_write64 T (LOOP_ADDR + 8 * i) w) (zip [0..1] loop_words))
    (bindD (mapD (\<lambda>i. sba_read64 T (LOOP_ADDR + 8 * i)) [0..1]) (\<lambda>back.
     seqD (point_t1_at_loop T)
          (step_result ''setup'' (back = loop_words))))"

definition tc_pb_010 :: "'s transport \<Rightarrow> saved \<Rightarrow> 's check_method" where
  "tc_pb_010 T saved =
     seqD (write_progbuf T 0 JR_T1)
    (bindD (co_race T CMD_POSTEXEC_ONLY [just_read T ADDR_DMSTATUS, dmi_write T ADDR_DMCONTROL 1, just_read T ADDR_SBCS])
      (\<lambda>(busy_err, in_window).
     seqD (write_progbuf T 0 ILLEGAL)
    (bindD (run_cmd T CMD_POSTEXEC_ONLY) (\<lambda>exc_err.
     bindD (while_running T saved CMD_POSTEXEC_ONLY) (\<lambda>hr_err.
       verdict ''TC-PB-010'' [(''busy'', busy_err), (''exception'', exc_err), (''halt_resume'', hr_err)]
         [(''busy'', [CMDERR_BUSY]), (''exception'', [CMDERR_EXCEPTION]), (''halt_resume'', [CMDERR_HALT_RESUME])])))))"

definition tc_pb_011 :: "'s transport \<Rightarrow> saved \<Rightarrow> 's check_method" where
  "tc_pb_011 T saved =
     seqD (forD (\<lambda>i. write_progbuf T i EBREAK) [1..3])
    (seqD (write_progbuf T 0 ILLEGAL)
    (bindD (run_cmd T CMD_POSTEXEC_ONLY) (\<lambda>exc_err.
     bindD (while_running T saved CMD_POSTEXEC_ONLY) (\<lambda>hr_err.
       verdict ''TC-PB-011'' [(''exception'', exc_err), (''halt_resume'', hr_err)]
         [(''exception'', [CMDERR_EXCEPTION]), (''halt_resume'', [CMDERR_HALT_RESUME])]))))"

definition tc_pb_012 :: "'s transport \<Rightarrow> saved \<Rightarrow> 's check_method" where
  "tc_pb_012 T saved =
     seqD (forD (\<lambda>i. write_progbuf T i EBREAK) [4..7])
    (seqD (write_progbuf T 0 JR_T1)
    (bindD (co_race T CMD_POSTEXEC_ONLY []) (\<lambda>(busy_err, in_window).
     seqD (write_progbuf T 0 ILLEGAL)
    (bindD (run_cmd T CMD_POSTEXEC_ONLY) (\<lambda>exc_err.
     bindD (while_running T saved CMD_POSTEXEC_ONLY) (\<lambda>hr_err.
       verdict ''TC-PB-012'' [(''busy'', busy_err), (''exception'', exc_err), (''halt_resume'', hr_err)]
         [(''busy'', [CMDERR_BUSY]), (''exception'', [CMDERR_EXCEPTION]), (''halt_resume'', [CMDERR_HALT_RESUME])]))))))"

definition tc_ac_030 :: "'s transport \<Rightarrow> 's check_method" where
  "tc_ac_030 T =
     seqD (write_progbuf T 0 JR_T1)
    (bindD (mapD (\<lambda>(name, cmdtype). bindD (co_race T (push_bit 24 cmdtype) []) (\<lambda>(err, _). returnD (name, err)))
             [(''quick_access'', 1), (''access_memory'', 2), (''reserved'', 3)]) (\<lambda>got.
       verdict ''TC-AC-030'' got (map (\<lambda>(k, _). (k, [CMDERR_BUSY])) got)))"

definition tc_ac_031 :: "'s transport \<Rightarrow> 's check_method" where
  "tc_ac_031 T =
     seqD (write_progbuf T 0 EBREAK)
    (bindD (run_cmd T (AARSIZE_RESERVED OR push_bit 18 1)) (\<lambda>err.
       verdict ''TC-AC-031'' [(''postexec_only'', err)] [(''postexec_only'', [CMDERR_NONE])]))"

definition tc_ac_032 :: "'s transport \<Rightarrow> saved \<Rightarrow> 's check_method" where
  "tc_ac_032 T saved =
     seqD (write_progbuf T 0 JR_T1)
    (bindD (co_race T CMD_XFER_READ_X5_POST []) (\<lambda>(busy_err, _).
     bindD (run_cmd T (AARSIZE_RESERVED OR push_bit 17 1 OR push_bit 18 1 OR X5_REGNO)) (\<lambda>notsup.
     seqD (write_progbuf T 0 ILLEGAL)
    (bindD (run_cmd T CMD_XFER_READ_X5_POST) (\<lambda>exc.
     seqD (dmi_write T ADDR_DATA0 0)
    (bindD (while_running T saved CMD_XFER_READ_X5_POST) (\<lambda>hr.
     seqD (write_progbuf T 0 EBREAK)
          (verdict ''TC-AC-032'' [(''busy'', busy_err), (''not_supported'', notsup), (''exception'', exc), (''halt_resume'', hr)]
             [(''busy'', [CMDERR_BUSY]), (''not_supported'', [CMDERR_NOT_SUPPORTED]),
              (''exception'', [CMDERR_EXCEPTION]), (''halt_resume'', [CMDERR_HALT_RESUME])]))))))))"

definition tc_ac_033 :: "'s transport \<Rightarrow> saved \<Rightarrow> 's check_method" where
  "tc_ac_033 T saved =
     bindD (run_cmd T CMD_NEITHER) (\<lambda>none.
     seqD (write_progbuf T 0 JR_T1)
    (bindD (co_race T CMD_NEITHER []) (\<lambda>(busy_err, _).
     seqD (write_progbuf T 0 EBREAK)
    (bindD (while_running T saved CMD_NEITHER) (\<lambda>hr.
       verdict ''TC-AC-033'' [(''halted'', none), (''busy'', busy_err), (''running'', hr)]
         [(''halted'', [CMDERR_NONE]), (''busy'', [CMDERR_BUSY]), (''running'', [CMDERR_NONE, CMDERR_HALT_RESUME])])))))"

definition tc_ac_034 :: "'s transport \<Rightarrow> 's check_method" where
  "tc_ac_034 T =
     bindD (run_cmd T (AARSIZE_RESERVED OR push_bit 17 1 OR X5_REGNO)) (\<lambda>err.
     seqD (dmi_write T ADDR_DATA0 0)
          (verdict ''TC-AC-034'' [(''not_supported'', err)] [(''not_supported'', [CMDERR_NOT_SUPPORTED])]))"

definition tc_ac_035 :: "'s transport \<Rightarrow> 's check_method" where
  "tc_ac_035 T =
     bindD (run_cmd T (push_bit 20 3 OR push_bit 17 1 OR OTHER_REGNO)) (\<lambda>err.
     seqD (dmi_write T ADDR_DATA0 0)
          (verdict ''TC-AC-035'' [(''other_regno'', err)] [(''other_regno'', [CMDERR_NOT_SUPPORTED, CMDERR_EXCEPTION])]))"

definition co_restore :: "'s transport \<Rightarrow> saved \<Rightarrow> 's check_method" where
  "co_restore T saved =
     seqD (co_clear_cmderr T)
    (seqD (forD (\<lambda>i. write_progbuf T i EBREAK) [0..7])
    (bindD (saved_item saved ''t0'') (\<lambda>t0.
     seqD (write_reg64 T T0_REGNO t0)
    (bindD (saved_item saved ''t1'') (\<lambda>t1.
     seqD (write_reg64 T T1_REGNO t1)
    (bindD (read_reg64 T T2_REGNO) (\<lambda>t2.
     seqD (write_gpr T T2_REGNO 0xABCD)
    (bindD (read_gpr T T2_REGNO) (\<lambda>val.
     seqD (write_reg64 T T2_REGNO t2)
    (bindD (dmi_read T ADDR_ABSTRACTCS) (\<lambda>acs.
       step_result ''restore'' (val = 0xABCD \<and> cmderr_of acs = CMDERR_NONE))))))))))))"

definition cmd_outcome_steps :: "'s transport \<Rightarrow> ('s, saved) seq_step list" where
  "cmd_outcome_steps T =
     [command_step ''Activate Debug Module'' (activate T),
      command_step ''Halt hart'' (halt T DEFAULT_TIMEOUT),
      phased_step ''Load the delay loop into RAM, t1 -> loop''
        [save_reg T ''t0'' T0_REGNO, save_reg T ''t1'' T1_REGNO] (\<lambda>_. co_setup T),
      reader_step ''TC-PB-010: one-word Program Buffer outcomes'' (tc_pb_010 T),
      reader_step ''TC-PB-011: four-word Program Buffer outcomes'' (tc_pb_011 T),
      reader_step ''TC-PB-012: full Program Buffer outcomes'' (tc_pb_012 T),
      check_step ''TC-AC-030: busy for Quick Access, Access Memory, reserved'' (tc_ac_030 T),
      check_step ''TC-AC-031: postexec-only command with a reserved aarsize'' (tc_ac_031 T),
      reader_step ''TC-AC-032: transfer+postexec failures'' (tc_ac_032 T),
      reader_step ''TC-AC-033: no-op command (neither transfer nor postexec)'' (tc_ac_033 T),
      check_step ''TC-AC-034: reserved aarsize on a GPR'' (tc_ac_034 T),
      check_step ''TC-AC-035: 64-bit access outside GPR/FPR/CSR'' (tc_ac_035 T),
      reader_step ''DM usable afterwards; registers restored'' (co_restore T)]"

definition build_cmd_outcome_sequence :: "'s transport \<Rightarrow> string \<Rightarrow> ('s, saved) seq_session result" where
  "build_cmd_outcome_sequence T md = session_of md False (cmd_outcome_steps T)"

end
