(* ===== verification/CmdRuns.thy ===== *)
theory CmdRuns
  imports CmdSeq AccessProps
begin

text \<open>
  Running the command outcome sequences on a target that follows the predictor. The golden model has
  no error classes of abstract commands, so every \<^verbatim>\<open>abstractcs\<close> word it stands for reads as idle and
  without an error; run control and the command engine go through these sequences unharmed.
\<close>

unbundle bit_operations_syntax

subsection \<open>Writes that leave the engine as it is\<close>

definition harmless :: "int \<Rightarrow> int \<Rightarrow> bool" where
  "harmless a w \<longleftrightarrow> a \<noteq> ADDR_DMCONTROL \<and> (a = ADDR_ABSTRACTAUTO \<longrightarrow> w = 0) \<and>
     (a = ADDR_COMMAND \<longrightarrow> bit w 16 \<longrightarrow> take_bit 16 w \<noteq> DCSR_REGNO)"

lemma engine_execute:
  "abstractauto (execute_command w p) = abstractauto p" "cfg (execute_command w p) = cfg p"
  "cfg_valid (execute_command w p) = cfg_valid p" "observed_cmdbusy (execute_command w p) = observed_cmdbusy p"
  by (simp_all add: execute_command_def execute_hi_def execute_lo_def Let_def split: option.split)

lemma step_armed_execute:
  assumes "\<not> step_armed p" "bit w 16 \<longrightarrow> take_bit 16 w \<noteq> DCSR_REGNO"
  shows "\<not> step_armed (execute_command w p)"
proof -
  have "shadow_regs (execute_command w p) DCSR_REGNO \<in> {None, shadow_regs p DCSR_REGNO}"
    using assms(2) by (auto simp: execute_command_def execute_hi_def execute_lo_def Let_def split: option.split)
  then show ?thesis using assms(1) by (auto simp: step_armed_def dict_get_def)
qed

text \<open>What a write has to keep for the engine and the single step to stay as they are.\<close>

definition kept :: "DMPredictor \<Rightarrow> bool \<times> DeclaredConfig \<times> bool \<times> bool \<times> bool" where
  "kept p = (cfg_valid p, cfg p, observed_cmdbusy p, abstractauto p = 0, step_armed p)"

lemma kept_engine: "kept q = kept p \<Longrightarrow> engine q = engine p \<and> cfg q = cfg p \<and> step_armed q = step_armed p"
  by (simp add: kept_def engine_def)

lemma kept_simps:
  "kept (p\<lparr>sbaddress1 := x\<rparr>) = kept p" "kept (p\<lparr>sbdata1 := x, sbdata1_known := b\<rparr>) = kept p"
  "kept (p\<lparr>hawindow := m\<rparr>) = kept p" "kept (p\<lparr>hawindowsel := x\<rparr>) = kept p" "kept (p\<lparr>relaxedpriv := b\<rparr>) = kept p"
  "abstractauto p = 0 \<Longrightarrow> kept (p\<lparr>abstractauto := 0\<rparr>) = kept p"
  "kept (write_sbcs x p) = kept p" "kept (write_sbaddress0 x p) = kept p" "kept (write_sbdata0 x p) = kept p"
  by (simp_all add: kept_def step_armed_def write_sbcs_def write_sbaddress0_def write_sbdata0_def sba_arm_read_def
      sba_autoincrement_def Let_def split: option.split)

lemma kept_buffer: "abstractauto p = 0 \<Longrightarrow> kept (write_buffer a x p) = kept p"
  by (auto simp: write_buffer_def autoexec_def autoexec_armed_def kept_def step_armed_def Let_def)

lemma kept_command:
  assumes "\<not> step_armed p" "bit w 16 \<longrightarrow> take_bit 16 w \<noteq> DCSR_REGNO"
  shows "kept (write_command w p) = kept p"
proof -
  have "\<not> step_armed (p\<lparr>last_command := w\<rparr>)" using assms(1) by (simp add: step_armed_def)
  then show ?thesis using step_armed_execute [OF _ assms(2)] assms(1) by (simp add: kept_def write_command_def engine_execute)
qed

lemma kept_write:
  assumes "engine p" "\<not> step_armed p" "harmless a w"
  shows "kept (on_write a w p) = kept p"
proof -
  have e: "abstractauto p = 0" "\<not> observed_cmdbusy p" using assms(1) by (simp_all add: engine_def)
  have v: "w AND MASK32 = take_bit 32 w" by simp
  have c: "a = ADDR_COMMAND \<Longrightarrow> kept (write_command (take_bit 32 w) p) = kept p"
    using assms(2,3) by (intro kept_command) (simp_all add: harmless_def bit_take_bit_iff)
  show ?thesis
    using assms(3) e kept_simps(6) [OF e(1)] c unfolding on_write_def v Let_def
    by (auto simp: harmless_def kept_simps(1-5,7-9) kept_buffer [OF e(1)])
qed

lemma cmd_at_harmless:
  assumes "cmd_at i c v p" "harmless a w"
  shows "cmd_at i c v (on_write a w p)" "cfg (on_write a w p) = cfg p"
proof -
  have p: "at i c v p" "engine p" "\<not> step_armed p" using assms(1) by (simp_all add: cmd_at_def at_def seq_ready_def)
  have "engine (on_write a w p) = engine p \<and> cfg (on_write a w p) = cfg p \<and> step_armed (on_write a w p) = step_armed p"
    by (intro kept_engine kept_write p assms(2))
  moreover have "a \<noteq> ADDR_DMCONTROL" using assms(2) by (simp add: harmless_def)
  ultimately show "cmd_at i c v (on_write a w p)" "cfg (on_write a w p) = cfg p"
    using p by (auto simp: cmd_at_def intro!: at_other_write)
qed

lemma expect_dmcontrol_word:
  "expect_dmcontrol p = dmcontrol (dmcontrol_defaults\<lparr>a_dmactive := dmactive p, a_ndmreset := ndmreset p, a_hasel := hasel p,
     a_hartreset := hartreset_level p \<and> supports_hartreset p, a_hartsel := hartsel p\<rparr>)"
proof (rule bit_eqI)
  fix n :: nat
  consider "6 \<le> n \<and> n < 26" | "32 \<le> n" | "n = 0 \<or> n = 1 \<or> n = 2 \<or> n = 3 \<or> n = 4 \<or> n = 5 \<or> n = 26 \<or> n = 27 \<or> n = 28 \<or> n = 29 \<or> n = 30 \<or> n = 31"
    by atomize_elim arith
  then show "bit (expect_dmcontrol p) n = bit (dmcontrol (dmcontrol_defaults\<lparr>a_dmactive := dmactive p, a_ndmreset := ndmreset p,
     a_hasel := hasel p, a_hartreset := hartreset_level p \<and> supports_hartreset p, a_hartsel := hartsel p\<rparr>)) n"
  proof cases
    case 1
    then show ?thesis by (auto simp: bit_dmcontrol expect_dmcontrol_def bit_with_hartsel)
  next
    case 2
    then have "\<not> bit (expect_dmcontrol p) n" using w32_bit [OF w32_dmcontrol, of p n] by auto
    with 2 show ?thesis by (simp add: bit_dmcontrol)
  next
    case 3
    then show ?thesis by (auto simp: dmcontrol_bits dmcontrol_bits(11) [unfolded One_nat_def] dmcontrol_flags dmcontrol_defaults_def)
  qed
qed

subsection \<open>Triples over the states of a session\<close>

text \<open>Hart 0 selected with nothing requested, halted or running, and the declared configuration \<open>g\<close>.\<close>

definition calm :: "bool \<Rightarrow> DeclaredConfig \<Rightarrow> DMPredictor \<Rightarrow> bool" where
  "calm b g p \<longleftrightarrow> (\<exists>c v. cmd_at 0 c v p \<and> v_halted v = b \<and> \<not> v_ndm v \<and> \<not> v_hartreset v \<and> cfg p = g)"

lemma calmI: "cmd_at 0 c v p \<Longrightarrow> cfg p = g \<Longrightarrow> v_halted v = b \<Longrightarrow> \<not> v_ndm v \<Longrightarrow> \<not> v_hartreset v \<Longrightarrow> calm b g p"
  unfolding calm_def by blast

lemma calmE:
  assumes "calm b g p"
  obtains c v where "cmd_at 0 c v p" "at 0 c v p" "v_halted v = b" "\<not> v_ndm v" "\<not> v_hartreset v" "cfg p = g"
  using assms cmd_atD(1) unfolding calm_def by blast

lemma calm_harmless: "calm b g p \<Longrightarrow> harmless a w \<Longrightarrow> calm b g (on_write a w p)"
  unfolding calm_def using cmd_at_harmless by metis

lemma dmcontrol_or_flags:
  "dmcontrol a OR push_bit DMC_SETKEEPALIVE 1 = dmcontrol (a\<lparr>a_setkeepalive := True\<rparr>)"
  "dmcontrol a OR push_bit DMC_CLRKEEPALIVE 1 = dmcontrol (a\<lparr>a_clrkeepalive := True\<rparr>)"
  "dmcontrol a OR push_bit DMC_HASEL 1 = dmcontrol (a\<lparr>a_hasel := True\<rparr>)"
  "dmcontrol a OR push_bit DMC_SETRESETHALTREQ 1 = dmcontrol (a\<lparr>a_setresethaltreq := True\<rparr>)"
  "dmcontrol a OR push_bit DMC_CLRRESETHALTREQ 1 = dmcontrol (a\<lparr>a_clrresethaltreq := True\<rparr>)"
proof -
  have "bit (push_bit k (1 :: int)) n \<longleftrightarrow> n = k" for k n unfolding bit_push_bit_iff bit_1_iff by auto
  then show "dmcontrol a OR push_bit DMC_SETKEEPALIVE 1 = dmcontrol (a\<lparr>a_setkeepalive := True\<rparr>)"
    "dmcontrol a OR push_bit DMC_CLRKEEPALIVE 1 = dmcontrol (a\<lparr>a_clrkeepalive := True\<rparr>)"
    "dmcontrol a OR push_bit DMC_HASEL 1 = dmcontrol (a\<lparr>a_hasel := True\<rparr>)"
    "dmcontrol a OR push_bit DMC_SETRESETHALTREQ 1 = dmcontrol (a\<lparr>a_setresethaltreq := True\<rparr>)"
    "dmcontrol a OR push_bit DMC_CLRRESETHALTREQ 1 = dmcontrol (a\<lparr>a_clrresethaltreq := True\<rparr>)"
    by (intro bit_eqI; simp only: bit_or_iff bit_dmcontrol, auto)+
qed

definition calm_args :: "dmcontrol_args \<Rightarrow> bool" where
  "calm_args a \<longleftrightarrow> a_dmactive a \<and> a_hartsel a = 0 \<and> \<not> a_haltreq a \<and> \<not> a_resumereq a \<and> \<not> a_ndmreset a \<and> \<not> a_hartreset a"

lemma calm_next:
  assumes "calm b g p" "calm_args a"
  shows "calm b g (dmcontrol_next (dmcontrol a) p)"
proof -
  obtain c v where p: "cmd_at 0 c v p" "at 0 c v p" "v_halted v = b" "\<not> v_ndm v" "\<not> v_hartreset v" "cfg p = g"
    using assms(1) by (rule calmE)
  have "at 0 c (c_step c a v) (dmcontrol_next (dmcontrol a) p)"
    by (rule at_next [OF p(2)]) (use assms(2) in \<open>simp_all add: calm_args_def\<close>)
  then have "cmd_at 0 c (c_step c a v) (dmcontrol_next (dmcontrol a) p)"
    using p(1) rest_cong(1) [OF rest_next, of "dmcontrol a" p] by (simp add: cmd_at_def)
  then show ?thesis
    by (rule calmI) (use assms(2) p rest_cong(2) [OF rest_next, of "dmcontrol a" p] in
      \<open>simp_all add: calm_args_def c_step_def sel_step_def Let_def split: prod.split\<close>)
qed

lemma no_error:
  assumes "abstractcs_check w = Inr True"
  shows "cmderr_of w = 0" "\<not> busy_of w" "drop_bit ABS_CMDERR_LSB (w AND ABS_CMDERR_MASK) = 0" "\<not> truth (w AND ABS_BUSY)"
proof -
  have b: "take_bit 3 (drop_bit 8 w) = 0" "\<not> bit w 12"
    using assms by (auto simp: abstractcs_check_def truth_def Let_def split: if_splits)
  have "drop_bit 8 (w AND push_bit 8 7) = drop_bit 8 w AND 7" by (simp add: drop_bit_and flip: push_bit_eq_mult)
  moreover have "w AND push_bit 12 1 = 0"
    using b(2) and_exp_eq_0_iff_not_bit [of w 12] by simp
  ultimately show "cmderr_of w = 0" "\<not> busy_of w" "drop_bit ABS_CMDERR_LSB (w AND ABS_CMDERR_MASK) = 0" "\<not> truth (w AND ABS_BUSY)"
    using b by (simp_all add: cmderr_of_def busy_of_def truth_def)
qed

context dm_bench
begin

definition triple :: "(DMPredictor \<Rightarrow> bool) \<Rightarrow> ('s, 'a) dbg \<Rightarrow> ('a \<Rightarrow> DMPredictor \<Rightarrow> bool) \<Rightarrow> bool" where
  "triple P m Q \<longleftrightarrow> (\<forall>p. P p \<longrightarrow> wp m (\<lambda>x q k. k = 0 \<and> Q x q) p 0)"

lemma triple_wp: "triple P m Q \<Longrightarrow> P p \<Longrightarrow> (\<And>x q. Q x q \<Longrightarrow> R x q 0) \<Longrightarrow> wp m R p 0"
  unfolding triple_def by (blast intro: wp_mono)

lemma triple_bind: "triple P m R \<Longrightarrow> (\<And>x. triple (R x) (f x) Q) \<Longrightarrow> triple P (bindD m f) Q"
  unfolding triple_def by (blast intro: wp_bind wp_mono)

lemma triple_seq: "triple P m (\<lambda>_. R) \<Longrightarrow> triple R n Q \<Longrightarrow> triple P (seqD m n) Q"
  unfolding seqD_def by (rule triple_bind)

lemma triple_pure: "(c \<Longrightarrow> triple P m Q) \<Longrightarrow> triple (\<lambda>p. c \<and> P p) m Q"
  unfolding triple_def by blast

lemma triple_post: "triple P m R \<Longrightarrow> (\<And>x q. R x q \<Longrightarrow> Q x q) \<Longrightarrow> triple P m Q"
  unfolding triple_def by (blast intro: wp_mono)

lemma triple_return: "(\<And>q. P q \<Longrightarrow> Q x q) \<Longrightarrow> triple P (returnD x) Q"
  unfolding triple_def by (blast intro: wp_return)

lemma triple_keep: "triple P (returnD x) (\<lambda>_. P)"
  by (rule triple_return)

lemma triple_forD: "(\<And>x. x \<in> set xs \<Longrightarrow> triple P (f x) (\<lambda>_. P)) \<Longrightarrow> triple P (forD f xs) (\<lambda>_. P)"
  by (induction xs) (auto intro: triple_return triple_seq)

lemma triple_mapD: "(\<And>x. triple P (f x) (\<lambda>y q. R x y \<and> P q)) \<Longrightarrow> triple P (mapD f xs) (\<lambda>ys q. list_all2 R xs ys \<and> P q)"
proof (induction xs)
  case (Cons x xs)
  show ?case unfolding mapD.simps
    by (rule triple_bind, rule Cons.prems, rule triple_pure, rule triple_bind, rule Cons.IH [OF Cons.prems], rule triple_pure,
        rule triple_return) simp
qed (auto intro: triple_return)

subsection \<open>Rules of the operations\<close>

lemma triple_write: "harmless a w \<Longrightarrow> triple (calm b g) (dmi_write T a w) (\<lambda>_. calm b g)"
  unfolding triple_def by (blast intro: wp_dmi_write calm_harmless)

lemma triple_read: "triple (calm b g) (dmi_read T a) (\<lambda>_. calm b g)"
  unfolding triple_def by (blast intro: wp_bench_read)

lemma triple_abstractcs: "triple (calm b g) (dmi_read T ADDR_ABSTRACTCS) (\<lambda>w q. abstractcs_check w = Inr True \<and> calm b g q)"
  unfolding triple_def
proof (intro allI impI)
  fix p assume "calm b g p"
  then have "has_model p ADDR_ABSTRACTCS" by (auto simp: calm_def cmd_atD predict_other_words simp del: ADDR_ABSTRACTCS_def)
  then show "wp (dmi_read T ADDR_ABSTRACTCS) (\<lambda>w q k. k = 0 \<and> abstractcs_check w = Inr True \<and> calm b g q) p 0"
    using \<open>calm b g p\<close> abstractcs_idle [of p] by (intro wp_dmi_read) (simp_all add: predict_other_words del: ADDR_ABSTRACTCS_def)
qed

lemma triple_monotonic: "triple P (monotonic T) (\<lambda>_. P)"
  unfolding triple_def by (blast intro: wp_monotonic)

lemma triple_wait_until:
  assumes "triple P m (\<lambda>b q. b \<and> P q)"
  shows "triple P (wait_until T m deadline) (\<lambda>_. P)"
  unfolding triple_def wp_def
proof (intro allI impI)
  fix p and d :: "'s RISCVDebug" assume p: "P p" "reps (t_state d) p" "tracked_hartsel d = 0"
  let ?d = "d\<lparr>clock_reads := Suc (clock_reads d)\<rparr>"
  from p obtain x d' q where "m ?d = Some (Inr x, d')" "x" "reps (t_state d') q" "tracked_hartsel d' = 0" "P q"
    using assms unfolding triple_def wp_def by (metis RISCVDebug.select_convs(1,2) RISCVDebug.surjective RISCVDebug.update_convs(3))
  with p show "\<exists>x d' q. wait_until T m deadline d = Some (Inr x, d') \<and> reps (t_state d') q \<and> tracked_hartsel d' = 0 \<and> P q"
    by (subst wait_until.simps) (auto simp: Let_def)
qed

lemma triple_any_of_range: "triple P m (\<lambda>b q. b \<and> P q) \<Longrightarrow> 0 < n \<Longrightarrow> triple P (any_of_range n m) (\<lambda>b q. b \<and> P q)"
  unfolding triple_def by (blast intro: wp_any_of_range [where Q = "\<lambda>b q k. k = 0 \<and> b \<and> P q"] wp_mono)

lemma triple_not_busy: "triple (calm b g) (bindD (dmi_read T ADDR_ABSTRACTCS) (\<lambda>w. returnD (\<not> busy_of w))) (\<lambda>x q. x \<and> calm b g q)"
  by (rule triple_bind, rule triple_abstractcs, rule triple_return) (simp add: no_error)

lemma triple_wait_not_busy: "0 < n \<Longrightarrow> triple (calm b g) (wait_not_busy T n) (\<lambda>x q. x \<and> calm b g q)"
  unfolding wait_not_busy_def by (rule triple_any_of_range [OF triple_not_busy])

lemma triple_ce_wait: "triple (calm b g) (ce_wait_not_busy T timeout) (\<lambda>_. calm b g)"
  unfolding ce_wait_not_busy_def
  by (rule triple_bind [OF triple_monotonic], rule triple_wait_until, rule triple_bind, rule triple_abstractcs, rule triple_return)
    (simp add: no_error del: ABS_BUSY_def)

lemma triple_ce_read: "triple (calm b g) (ce_read_cmderr T) (\<lambda>x q. x = 0 \<and> calm b g q)"
  unfolding ce_read_cmderr_def
  by (rule triple_bind, rule triple_abstractcs, rule triple_return) (elim conjE, intro conjI no_error(3))

lemma triple_step: "(\<And>q. P q \<Longrightarrow> x = y) \<Longrightarrow> triple P (step_result tc x) (\<lambda>r q. gives r y \<and> P q)"
  unfolding step_result_def by (rule triple_return) (auto simp: gives_def)

lemma triple_bench_wait: "triple P (wait_abstractcs T timeout) (\<lambda>_. P)"
  unfolding triple_def by (blast intro: wp_bench_wait)

lemma triple_wait_sbus: "triple P (wait_sbus T timeout) (\<lambda>_. P)"
  unfolding triple_def by (blast intro: wp_bench_wait_sbus)

lemma triple_halt: "triple (calm b g) (halt T timeout) (\<lambda>_. calm True g)"
  unfolding triple_def
proof (intro allI impI)
  fix p assume "calm b g p"
  then obtain c v where p: "cmd_at 0 c v p" "cfg p = g" by (rule calmE)
  show "wp (halt T timeout) (\<lambda>_ q k. k = 0 \<and> calm True g q) p 0"
    by (rule wp_halt_cmd0 [OF p(1)], rule conjI [OF refl], erule calmI) (simp_all add: p(2) view_step_simps)
qed

lemma triple_resume: "triple (calm b g) (resume T timeout) (\<lambda>_. calm False g)"
  unfolding triple_def
proof (intro allI impI)
  fix p assume "calm b g p"
  then obtain c v where p: "cmd_at 0 c v p" "cfg p = g" by (rule calmE)
  show "wp (resume T timeout) (\<lambda>_ q k. k = 0 \<and> calm False g q) p 0"
    by (rule wp_resume_cmd [where i = 0, unfolded of_nat_0, OF p(1)], rule conjI [OF refl], erule calmI)
      (simp_all add: p(2) view_step_simps)
qed

lemma wp_activate_calm:
  assumes "startable p 0" "engine p" "\<And>q b. calm b (cfg p) q \<Longrightarrow> Q () q 0"
  shows "wp (activate T) Q p h"
  by (rule wp_activate_cmd [OF assms(1,2)], rule assms(3), erule calmI) (simp_all add: view_step_simps)

lemma triple_status: "triple (calm b g) (dmi_read T ADDR_DMSTATUS) (\<lambda>w q. (allhalted w = b \<and> anyhalted w = b \<and> allrunning w = (\<not> b)) \<and> calm b g q)"
  unfolding triple_def
proof (intro allI impI)
  fix p assume p: "calm b g p"
  then obtain c v where v: "at 0 c v p" "v_halted v = b" by (rule calmE)
  show "wp (dmi_read T ADDR_DMSTATUS) (\<lambda>w q k. k = 0 \<and> (allhalted w = b \<and> anyhalted w = b \<and> allrunning w = (\<not> b)) \<and> calm b g q) p 0"
    by (rule wp_status_reads) (simp add: p at_status(1-3) [OF v(1)] v(2))
qed

lemma triple_is_halted: "triple (calm b g) (is_halted T) (\<lambda>x q. x = b \<and> calm b g q)"
  unfolding is_halted_def by (rule triple_bind, rule triple_status, rule triple_return) simp

lemma triple_is_running: "triple (calm b g) (is_running T) (\<lambda>x q. x = (\<not> b) \<and> calm b g q)"
  unfolding is_running_def by (rule triple_bind, rule triple_status, rule triple_return) simp

text \<open>The library's register transfers, the value aside.\<close>

lemma harmless_simps:
  "harmless ADDR_ABSTRACTCS w" "harmless ADDR_DATA0 w" "harmless ADDR_DATA1 w" "harmless ADDR_SBCS w" "harmless ADDR_SBADDRESS0 w"
  "harmless ADDR_SBDATA0 w" "harmless CO_SBDATA1 w" "harmless ADDR_ABSTRACTAUTO 0" "0 \<le> k \<Longrightarrow> harmless (ADDR_PROGBUF0 + k) w"
  "harmless ADDR_PROGBUF0 w" "harmless UNMAPPED_DMI_ADDR w"
  by (simp_all add: harmless_def)

lemma harmless_command: "\<not> bit w 16 \<or> take_bit 16 w \<noteq> DCSR_REGNO \<Longrightarrow> harmless ADDR_COMMAND w"
  by (auto simp: harmless_def)

lemma triple_progbuf: "0 \<le> k \<Longrightarrow> triple (calm b g) (write_progbuf T k w) (\<lambda>_. calm b g)"
  unfolding write_progbuf_def by (intro triple_write harmless_simps)

lemma triple_read_gpr: "harmless ADDR_COMMAND (read_gpr_command r) \<Longrightarrow> triple (calm b g) (read_gpr T r) (\<lambda>_. calm b g)"
  unfolding read_gpr_def by (rule triple_seq, erule triple_write, rule triple_seq, rule triple_bench_wait, rule triple_read)

lemma triple_read_reg64: "harmless ADDR_COMMAND (read_reg64_command r) \<Longrightarrow> triple (calm b g) (read_reg64 T r) (\<lambda>_. calm b g)"
  unfolding read_reg64_def
  by (rule triple_seq, erule triple_write, rule triple_seq, rule triple_bench_wait, rule triple_bind, rule triple_read,
      rule triple_bind, rule triple_read, rule triple_return)

lemma triple_write_reg64: "harmless ADDR_COMMAND (write_reg64_command r) \<Longrightarrow> triple (calm b g) (write_reg64 T r x) (\<lambda>_. calm b g)"
  unfolding write_reg64_def by (rule triple_seq triple_write triple_bench_wait harmless_simps | assumption)+

lemma triple_just_read: "triple (calm b g) (just_read T a) (\<lambda>_. calm b g)"
  unfolding just_read_def by (rule triple_bind, rule triple_read, rule triple_return)


lemma harmless_library:
  assumes "take_bit 16 r \<noteq> DCSR_REGNO"
  shows "harmless ADDR_COMMAND (read_gpr_command r)" "harmless ADDR_COMMAND (read_reg64_command r)"
    "harmless ADDR_COMMAND (write_reg64_command r)"
proof -
  have "bit (read_gpr_command r) 16 = False" "bit (read_reg64_command r) 16 = False" "take_bit 16 (write_reg64_command r) = take_bit 16 r"
    unfolding command_words access_word_def by (simp_all add: bit_or_iff bit_take_bit_iff take_bit_or)
  then show "harmless ADDR_COMMAND (read_gpr_command r)" "harmless ADDR_COMMAND (read_reg64_command r)"
    "harmless ADDR_COMMAND (write_reg64_command r)"
    using assms by (simp_all add: harmless_command del: ADDR_COMMAND_def)
qed

lemma harmless_access_register: "harmless ADDR_COMMAND (access_register width r False s pe ct)"
  by (rule harmless_command) (simp add: access_register_def Let_def bit_or_iff bit_push_bit_iff bit_take_bit_iff)

lemmas triples = triple_pure triple_seq triple_abstractcs triple_write triple_read triple_wait_not_busy triple_ce_wait triple_ce_read
  triple_halt triple_resume triple_status triple_is_halted triple_is_running triple_progbuf triple_just_read triple_bench_wait
  triple_wait_sbus triple_bind harmless_simps harmless_access_register

subsection \<open>\<^verbatim>\<open>cmderr\<close>\<close>

lemma triple_ce_clear: "triple (calm b g) (ce_clear_cmderr T) (\<lambda>_. calm b g)"
  unfolding ce_clear_cmderr_def by (rule triples)+

lemma triple_drive:
  assumes "\<And>w. harmless ADDR_COMMAND (f w)" "y = (e = 0)"
  shows "triple (calm b g) (drive T name f e width) (\<lambda>r q. gives r y \<and> calm b g q)"
  unfolding drive_def Let_def by (rule triples triple_ce_clear assms(1) triple_step | simp add: assms(2))+

lemma triple_probe: "triple (calm b g) (probe_width T width) (\<lambda>y q. gives (fst y) True \<and> calm b g q)"
  unfolding probe_width_def
  by (rule triples triple_ce_clear triple_step triple_return | simp)+

lemma triple_busy_case: "triple (calm b g) (busy_case T width) (\<lambda>r q. gives r True \<and> calm b g q)"
  unfolding busy_case_def Let_def
  by (rule triples triple_ce_clear triple_step triple_forD | simp)+

lemma triple_sticky_case: "triple (calm b g) (sticky_case T width) (\<lambda>r q. gives r False \<and> calm b g q)"
  unfolding sticky_case_def by (rule triples triple_ce_clear triple_step | simp)+

lemma triple_recovery_case: "triple (calm b g) (recovery_case T width) (\<lambda>r q. gives r True \<and> calm b g q)"
  unfolding recovery_case_def by (rule triples triple_ce_clear triple_step | simp)+

lemma triple_confirm_halted: "triple (calm True g) (confirm_halted T) (\<lambda>r q. gives r True \<and> calm True g q)"
  unfolding confirm_halted_def by (rule triples triple_step | simp)+

text \<open>Steps in a row, from states of one kind to states of another.\<close>

lemma verdicts_dbg:
  assumes "wp (m x) (\<lambda>y q k. gives (fst y) b \<and> verdicts_wp sts bs Q (snd y) q k) p h"
  shows "verdicts_wp (dbg_step name m # sts) (b # bs) Q x p h"
proof -
  have "vwp (dbg_step name m) b (verdicts_wp sts bs Q) x p h"
    using assms unfolding wp_def vwp_def dbg_step_def by fastforce
  then show ?thesis by simp
qed

lemma verdicts_reader:
  "wp (m x) (\<lambda>r q k. gives r b \<and> verdicts_wp sts bs Q x q k) p h \<Longrightarrow> verdicts_wp (reader_step name m # sts) (b # bs) Q x p h"
  unfolding reader_step_def by (intro verdicts_dbg wp_bind) (auto intro!: wp_return elim!: wp_mono)

lemma verdicts_commandT:
  "triple P m (\<lambda>_. R) \<Longrightarrow> P p \<Longrightarrow> (\<And>q. R q \<Longrightarrow> verdicts_wp sts bs Q x q 0) \<Longrightarrow>
   verdicts_wp (command_step name m # sts) (True # bs) Q x p 0"
  by (rule verdicts_command, erule triple_wp, assumption) simp

lemma verdicts_checkT:
  "triple P m (\<lambda>r q. gives r b \<and> R q) \<Longrightarrow> P p \<Longrightarrow> (\<And>q. R q \<Longrightarrow> verdicts_wp sts bs Q x q 0) \<Longrightarrow>
   verdicts_wp (check_step name m # sts) (b # bs) Q x p 0"
  by (rule verdicts_check, erule triple_wp, assumption) simp

lemma verdicts_readerT:
  "triple P (m x) (\<lambda>r q. gives r b \<and> R q) \<Longrightarrow> P p \<Longrightarrow> (\<And>q. R q \<Longrightarrow> verdicts_wp sts bs Q x q 0) \<Longrightarrow>
   verdicts_wp (reader_step name m # sts) (b # bs) Q x p 0"
  by (rule verdicts_reader, erule triple_wp, assumption) simp

lemma cmderr_verdicts_wp:
  assumes "startable p 0" "engine p"
  shows "verdicts_wp (cmderr_steps T)
    [True, True, True, True, False, True, True, True, False, False, False, False, False, True, False, True, True] (\<lambda>_ _ _. True) x p h"
proof -
  show ?thesis
    unfolding cmderr_steps_def
    apply (rule verdicts_command, rule wp_activate_calm [OF assms])
    apply (erule verdicts_commandT [OF triple_halt])
    apply (rule verdicts_dbg, erule triple_wp [OF triple_probe], erule conjE, erule conjI)
    apply (erule verdicts_commandT [OF triple_resume])
    apply (rule verdicts_readerT, rule triple_drive [OF harmless_access_register], simp, assumption)
    apply (erule verdicts_commandT [OF triple_halt], erule verdicts_checkT [OF triple_confirm_halted])
    apply ((rule verdicts_readerT, rule triple_drive [OF harmless_access_register], simp, assumption)+)
    apply (rule verdicts_readerT, rule triple_busy_case, assumption, rule verdicts_readerT, rule triple_sticky_case, assumption)
    apply (rule verdicts_readerT, rule triple_recovery_case, assumption, rule verdicts_checkT, rule triple_step, rule refl, assumption)
    apply simp
    done
qed

subsection \<open>\<^verbatim>\<open>cmd_busy\<close>\<close>

lemma triple_try: "triple P m Q \<Longrightarrow> triple P (tryD m handler) Q"
  unfolding triple_def by (blast intro: wp_try)

lemma triple_cb_clear: "triple (calm b g) (cb_clear_cmderr T) (\<lambda>_. calm b g)"
  unfolding cb_clear_cmderr_def by (rule triples | simp)+

lemma harmless_literals:
  "harmless ADDR_COMMAND CMD_POSTEXEC_ONLY" "harmless ADDR_COMMAND CMD_NEITHER" "harmless ADDR_COMMAND CMD_XFER_READ_X5_POST"
  "harmless ADDR_COMMAND (AARSIZE_RESERVED OR push_bit 18 1)" "harmless ADDR_COMMAND (AARSIZE_RESERVED OR push_bit 17 1 OR X5_REGNO)"
  "harmless ADDR_COMMAND (AARSIZE_RESERVED OR push_bit 17 1 OR push_bit 18 1 OR X5_REGNO)"
  "harmless ADDR_COMMAND (push_bit 20 3 OR push_bit 17 1 OR OTHER_REGNO)" "harmless ADDR_COMMAND (push_bit 24 k)"
  by (rule harmless_command; simp add: bit_push_bit_iff)+

lemma harmless_probes: "(r, w) \<in> set regno_probes \<Longrightarrow> harmless ADDR_COMMAND (push_bit 20 2 OR push_bit 17 1 OR push_bit 16 w OR r)"
  by (rule harmless_command) (auto simp: regno_probes_def)

lemma triple_arm: "triple (calm b g) (arm_long_command T) (\<lambda>_. calm b g)"
  unfolding arm_long_command_def by (rule triples triple_cb_clear harmless_literals | simp)+

lemma triple_race_each:
  assumes "\<And>a. a \<in> snd ` set xs \<Longrightarrow> triple (calm b g) a (\<lambda>_. calm b g)"
  shows "triple (calm b g) (race_each T xs) (\<lambda>bad q. bad = map fst xs \<and> calm b g q)"
  using assms
proof (induction xs)
  case (Cons x xs)
  obtain n a where x: "x = (n, a)" by (cases x)
  have a: "triple (calm b g) a (\<lambda>_. calm b g)" by (rule Cons.prems) (simp add: x)
  have IH: "triple (calm b g) (race_each T xs) (\<lambda>bad q. bad = map fst xs \<and> calm b g q)"
    by (rule Cons.IH, rule Cons.prems) (simp add: image_iff)
  show ?case unfolding x race_each.simps
    by (rule triple_arm a IH triples triple_return | simp add: no_error)+
qed (auto intro: triple_return)

lemma triple_cb_race:
  assumes "\<And>a. a \<in> snd ` set xs \<Longrightarrow> triple (calm b g) a (\<lambda>_. calm b g)"
  shows "triple (calm b g) (cb_race T xs) (\<lambda>bad q. bad = map fst xs \<and> calm b g q)"
  unfolding cb_race_def by (rule triple_race_each assms triple_cb_clear triples triple_return | simp)+

lemma triple_tc_ac_020: "triple (calm b g) (tc_ac_020 T) (\<lambda>r q. gives r False \<and> calm b g q)"
  unfolding tc_ac_020_def
  by (rule triple_bind, rule triple_cb_race)
    (auto intro!: triple_write triple_just_read harmless_simps triple_pure triple_step simp del: ADDR_DATA0_def ADDR_PROGBUF0_def)

lemma triple_tc_ac_021: "triple (calm b g) (tc_ac_021 T) (\<lambda>r q. gives r False \<and> calm b g q)"
  unfolding tc_ac_021_def
  apply (rule triple_bind, rule triple_cb_race)
   apply (auto intro!: triple_write triple_seq [OF triple_write triple_write] harmless_simps harmless_literals
     simp del: ADDR_ABSTRACTCS_def ADDR_ABSTRACTAUTO_def ADDR_COMMAND_def CMD_POSTEXEC_ONLY_def)[1]
  apply (rule triples triple_step | simp)+
  done

lemma triple_round_trip:
  assumes "take_bit 16 r \<notin> {DCSR_REGNO, GPR_X0_REGNO}" "reads_back_as_written (take_bit 16 r)" "take_bit 32 x = x"
  shows "triple (calm b g) (write_gpr T r x) (\<lambda>_ q. shadow_regs q (take_bit 16 r) = Some x \<and> calm b g q)"
    "triple (\<lambda>q. shadow_regs q (take_bit 16 r) = Some x \<and> calm b g q) (read_gpr T r) (\<lambda>y q. y = x \<and> calm b g q)"
proof -
  have r: "take_bit 16 r \<noteq> DCSR_REGNO" "take_bit 16 r \<noteq> GPR_X0_REGNO" using assms(1) by simp_all
  show "triple (calm b g) (write_gpr T r x) (\<lambda>_ q. shadow_regs q (take_bit 16 r) = Some x \<and> calm b g q)"
    unfolding triple_def
    by (intro allI impI, erule calmE, erule wp_write_gpr, rule r(1)) (auto simp: assms(3) intro: calmI)
  show "triple (\<lambda>q. shadow_regs q (take_bit 16 r) = Some x \<and> calm b g q) (read_gpr T r) (\<lambda>y q. y = x \<and> calm b g q)"
    unfolding triple_def
    by (intro allI impI, elim conjE, erule calmE, erule wp_read_gpr, assumption, rule assms(2), rule r(2)) (auto intro: calmI)
qed

lemma triple_tc_ac_022: "triple (calm b g) (tc_ac_022 T) (\<lambda>r q. gives r True \<and> calm b g q)"
proof -
  have r: "take_bit 16 X5_REGNO \<notin> {DCSR_REGNO, GPR_X0_REGNO}" "reads_back_as_written (take_bit 16 X5_REGNO)"
    "take_bit 32 0xABCD = (0xABCD :: int)" by (simp_all add: reads_back_as_written_def)
  have trip: "triple (calm b g) (tryD (seqD (write_gpr T X5_REGNO 0xABCD) (bindD (read_gpr T X5_REGNO) (\<lambda>v. returnD (Some v)))) handler)
      (\<lambda>y q. y = Some 0xABCD \<and> calm b g q)" for handler
    by (rule triple_try, rule triple_seq, rule triple_round_trip(1) [OF r], rule triple_bind, rule triple_round_trip(2) [OF r], rule triple_return) simp
  show ?thesis
    unfolding tc_ac_022_def
    apply (rule triple_bind, rule triple_wait_not_busy, simp, rule triple_pure, simp only: not_True_eq_False if_False)
    apply (rule triple_forD triple_cb_clear trip triples triple_step | simp add: no_error del: ADDR_ABSTRACTCS_def)+
    done
qed

lemma triple_tc_ac_026: "triple (calm b g) (tc_ac_026 T) (\<lambda>r q. gives r True \<and> calm b g q)"
  unfolding tc_ac_026_def
  apply (rule triple_seq, rule triple_forD, clarify, drule harmless_probes)
   apply (rule triple_cb_clear triples triple_step | assumption | simp)+
  apply (rule triple_read_gpr, rule harmless_library, simp)
  apply (rule triple_step, rule refl)
  done

lemma triple_tc_ac_027: "triple (calm b g) (tc_ac_027 T) (\<lambda>r q. gives r True \<and> calm True g q)"
  unfolding tc_ac_027_def by (rule triples triple_step | simp)+

lemma triple_tc_ac_028: "triple (calm True g) (tc_ac_028 T) (\<lambda>r q. gives r True \<and> calm True g q)"
proof -
  have "triple (calm b g) (dmi_read T ADDR_COMMAND) (\<lambda>w q. w = 0 \<and> calm b g q)" for b
    unfolding triple_def
    by (intro allI impI wp_dmi_read; erule calmE) (auto simp: has_model_def predict_def is_data_def is_progbuf_def cmd_atD intro: calmI)
  then show ?thesis unfolding tc_ac_028_def by (rule triple_bind) (rule triples triple_step | simp)+
qed

lemma triple_dmcontrol: "calm_args a \<Longrightarrow> triple (calm b g) (dmi_write T ADDR_DMCONTROL (dmcontrol a)) (\<lambda>_. calm b g)"
  unfolding triple_def by (intro allI impI wp_write_dmcontrol) (simp_all add: calm_args_def calm_next)

lemma triple_read_dmcontrol:
  "triple (calm b g) (dmi_read T ADDR_DMCONTROL) (\<lambda>w q. (\<exists>a. w = dmcontrol a \<and> calm_args a) \<and> calm b g q)"
  unfolding triple_def
proof (intro allI impI, rule wp_status_reads(2))
  fix p assume p: "calm b g p"
  then obtain c v where "at 0 c v p" "\<not> v_ndm v" "\<not> v_hartreset v" by (rule calmE)
  then have "calm_args (dmcontrol_defaults\<lparr>a_dmactive := dmactive p, a_ndmreset := ndmreset p, a_hasel := hasel p,
      a_hartreset := hartreset_level p \<and> supports_hartreset p, a_hartsel := hartsel p\<rparr>)"
    by (auto simp: calm_args_def at_def view_def Let_def dmcontrol_defaults_def)
  then have "\<exists>a. expect_dmcontrol p = dmcontrol a \<and> calm_args a" using expect_dmcontrol_word [of p] by blast
  with p show "0 = (0 :: int) \<and> (\<exists>a. expect_dmcontrol p = dmcontrol a \<and> calm_args a) \<and> calm b g p" by blast
qed

lemma triple_tc_ac_025: "triple (calm True g) (tc_ac_025 T) (\<lambda>r q. gives r True \<and> calm True g q)"
  unfolding tc_ac_025_def
  apply (rule triple_bind, rule triple_read_dmcontrol, rule triple_pure, elim exE conjE, simp only: dmcontrol_or_flags)
  apply (rule triple_dmcontrol triples triple_step | simp add: calm_args_def)+
  done

lemma triple_tc_ac_023: "triple (calm b g) (tc_ac_023 T) (\<lambda>r q. gives r True \<and> calm b g q)"
  unfolding triple_def tc_ac_023_def
proof (intro allI impI wp_bind wp_seq wp_status_reads wp_dmi_write)
  fix p assume p: "calm b g p"
  have w: "on_write ADDR_HARTINFO x p = p" "on_write ADDR_DMSTATUS x p = p" for x
    by (simp_all add: on_write_def is_data_def is_progbuf_def guarded_while_busy_def)
  have h: "has_model p ADDR_HARTINFO" using p by (auto elim!: calmE simp: predict_other_words cmd_atD simp del: ADDR_HARTINFO_def)
  show "wp (dmi_read T ADDR_HARTINFO) (\<lambda>before_h. wp (seqD (dmi_write T ADDR_DMSTATUS 0xFFFFFFFF)
      (seqD (dmi_write T ADDR_HARTINFO 0xFFFFFFFF) (bindD (dmi_read T ADDR_DMSTATUS) (\<lambda>after_s. bindD (dmi_read T ADDR_HARTINFO) (\<lambda>after_h.
        step_result ''TC-AC-023'' (after_s = expect_dmstatus p \<and> after_h = before_h))))))
      (\<lambda>r q k. k = 0 \<and> gives r True \<and> calm b g q)) p 0"
    by (rule wp_dmi_read [OF h], rule wp_seq, rule wp_dmi_write, unfold w, rule wp_seq, rule wp_dmi_write, unfold w,
        rule wp_bind, rule wp_status_reads, rule wp_bind, rule wp_dmi_read [OF h])
      (simp add: step_result_def wp_return gives_def p)
qed

lemma triple_tc_ac_024: "triple (calm b g) (tc_ac_024 T) (\<lambda>r q. gives r True \<and> calm b g q)"
proof -
  have zero: "wp (dmi_read T ADDR_ABSTRACTAUTO) Q p h" if "calm b g p" "Q 0 p h" for Q p h
  proof -
    have "cfg_valid p" "dmactive p" "abstractauto p = 0" using that(1) by (auto elim!: calmE simp: cmd_at_def engine_def at_def)
    then have "has_model p ADDR_ABSTRACTAUTO" "predict p ADDR_ABSTRACTAUTO = 0"
      by (simp_all add: has_model_def predict_def is_data_def is_progbuf_def expect_abstractauto_def)
    with that(2) show ?thesis by (intro wp_dmi_read) (simp_all del: ADDR_ABSTRACTAUTO_def)
  qed
  have flip: "calm b g (on_write ADDR_ABSTRACTAUTO 0 (on_write ADDR_ABSTRACTAUTO 1 p))" if "calm b g p" for p
  proof -
    have "\<not> observed_cmdbusy p" "abstractauto p = 0" using that by (auto elim!: calmE simp: cmd_at_def engine_def)
    then have "on_write ADDR_ABSTRACTAUTO 0 (on_write ADDR_ABSTRACTAUTO 1 p) = p"
      by (simp add: on_write_def is_data_def is_progbuf_def)
    with that show ?thesis by (simp del: ADDR_ABSTRACTAUTO_def)
  qed
  have tail: "triple (calm b g) (seqD (cb_clear_cmderr T) (step_result ''TC-AC-024'' (z = 0))) (\<lambda>r q. gives r (z = 0) \<and> calm b g q)" for z :: int
    by (rule triple_cb_clear triple_seq triple_step | simp)+
  show ?thesis
    unfolding triple_def tc_ac_024_def
    apply (intro allI impI wp_seq wp_bind wp_dmi_write)
    apply (rule zero, erule calm_harmless, rule harmless_simps)
    apply (rule wp_seq, rule wp_dmi_write, rule wp_bind, rule wp_bench_read, rule wp_seq, rule wp_dmi_write)
    apply (rule triple_wp [OF tail], rule flip, erule calm_harmless, rule harmless_simps, simp)
    done
qed

lemma cmd_busy_verdicts_wp:
  assumes "startable p 0" "engine p"
  shows "verdicts_wp (cmd_busy_steps T)
    [True, True, False, False, True, True, True, True, True, True, True] (\<lambda>_ _ _. True) x p h"
  unfolding cmd_busy_steps_def
  apply (rule verdicts_command, rule wp_activate_calm [OF assms], erule verdicts_commandT [OF triple_halt])
  apply (erule verdicts_checkT [OF triple_tc_ac_020], erule verdicts_checkT [OF triple_tc_ac_021])
  apply (erule verdicts_checkT [OF triple_tc_ac_022], erule verdicts_checkT [OF triple_tc_ac_023])
  apply (erule verdicts_checkT [OF triple_tc_ac_024], erule verdicts_checkT [OF triple_tc_ac_025])
  apply (erule verdicts_checkT [OF triple_tc_ac_026], erule verdicts_checkT [OF triple_tc_ac_027])
  apply (erule verdicts_checkT [OF triple_tc_ac_028], simp)
  done

end

subsection \<open>\<^verbatim>\<open>cmd_outcome\<close>\<close>

definition in_memory :: "(int \<rightharpoonup> int) \<Rightarrow> bool \<Rightarrow> DeclaredConfig \<Rightarrow> DMPredictor \<Rightarrow> bool" where
  "in_memory m b g p \<longleftrightarrow> shadow_mem p = m \<and> calm b g p"

lemma mem_write64:
  "shadow_mem (on_write ADDR_SBDATA0 v (on_write CO_SBDATA1 u (on_write ADDR_SBADDRESS0 a (on_write ADDR_SBCS (push_bit 17 3) p)))) =
     (shadow_mem p)(take_bit 32 a \<mapsto> take_bit 32 v)"
  by (simp add: on_write_def is_data_def is_progbuf_def guarded_while_busy_def write_sbcs_def write_sbaddress0_def write_sbdata0_def
      sba_autoincrement_def Let_def)

lemma mem_read64:
  assumes "q = on_write ADDR_SBADDRESS0 a (on_write ADDR_SBCS (push_bit 20 1 OR push_bit 17 3) p)" "shadow_mem p (take_bit 32 a) = Some x"
  shows "shadow_mem q = shadow_mem p" "sbdata0_pending_valid q \<and> sbdata0_pending_value q = x"
  using assms by (simp_all add: on_write_def is_data_def is_progbuf_def guarded_while_busy_def write_sbcs_def write_sbaddress0_def
      sba_autoincrement_def sba_arm_read_def Let_def)

lemma predict_narrow:
  assumes "cfg_valid q" "dmactive q" "sbdata0_pending_valid q" "\<not> sba_wider_than_32 q"
  shows "has_model q CO_SBDATA1" "has_model q ADDR_SBDATA0" "predict q CO_SBDATA1 = 0"
    "predict q ADDR_SBDATA0 = (if cfg_sba_enable (cfg q) then sbdata0_pending_value q else 0)"
  using assms by (simp_all add: has_model_def predict_def is_data_def is_progbuf_def Let_def)

context dm_bench
begin

lemma triple_sba_write64:
  "triple (in_memory m b g) (sba_write64 T a v) (\<lambda>_. in_memory (m(take_bit 32 a \<mapsto> take_bit 32 v)) b g)"
  unfolding triple_def sba_write64_def
  by (intro allI impI wp_seq wp_dmi_write wp_bench_wait_sbus)
    (simp only: in_memory_def mem_write64,
     auto simp del: ADDR_SBDATA0_def CO_SBDATA1_def ADDR_SBADDRESS0_def ADDR_SBCS_def intro!: calm_harmless harmless_simps)

lemma triple_sba_read64:
  assumes "m (take_bit 32 a) = Some x" "\<not> (cfg_sba_enable g \<and> (cfg_sbaccess64 g \<or> cfg_sbaccess128 g))"
  shows "triple (in_memory m b g) (sba_read64 T a) (\<lambda>w q. w = (if cfg_sba_enable g then x else 0) \<and> in_memory m b g q)"
  unfolding triple_def sba_read64_def
proof (intro allI impI wp_seq wp_dmi_write wp_bench_wait_sbus)
  fix p assume p: "in_memory m b g p"
  let ?q = "on_write ADDR_SBADDRESS0 a (on_write ADDR_SBCS (push_bit 20 1 OR push_bit 17 3) p)"
  have q: "shadow_mem ?q = m" "sbdata0_pending_valid ?q" "sbdata0_pending_value ?q = x" "calm b g ?q"
    using p mem_read64 [OF refl, of p a x] assms(1) by (auto simp: in_memory_def intro!: calm_harmless harmless_simps simp del: ADDR_SBADDRESS0_def ADDR_SBCS_def)
  then have "cfg_valid ?q" "dmactive ?q" "cfg ?q = g" by (auto elim!: calmE simp: cmd_atD)
  then have v: "has_model ?q CO_SBDATA1" "has_model ?q ADDR_SBDATA0" "predict ?q CO_SBDATA1 = 0"
      "predict ?q ADDR_SBDATA0 = (if cfg_sba_enable g then x else 0)"
    using predict_narrow [of ?q] q assms(2) by (simp_all only: sba_wider_than_32_def simp_thms)
  show "wp (bindD (dmi_read T CO_SBDATA1) (\<lambda>hi. bindD (dmi_read T ADDR_SBDATA0) (\<lambda>lo. returnD (push_bit 32 hi OR lo))))
      (\<lambda>w q k. k = 0 \<and> w = (if cfg_sba_enable g then x else 0) \<and> in_memory m b g q) ?q 0"
    by (rule wp_bind, rule wp_dmi_read [OF v(1)], rule wp_bind, rule wp_dmi_read [OF v(2)], rule wp_return)
      (simp only: v(3,4) push_bit_of_0 or.left_neutral in_memory_def q(1,4) simp_thms)
qed

lemma triple_saved: "saved k = Some v \<Longrightarrow> triple P (saved_item saved k) (\<lambda>_. P)"
  unfolding saved_item_def by (simp add: triple_return)

lemma triple_co_clear: "triple (calm b g) (co_clear_cmderr T) (\<lambda>_. calm b g)"
  unfolding co_clear_cmderr_def by (rule triples | simp)+

lemma triple_run_cmd: "harmless ADDR_COMMAND w \<Longrightarrow> triple (calm b g) (run_cmd T w) (\<lambda>x q. x = 0 \<and> calm b g q)"
  unfolding run_cmd_def by (rule triple_co_clear triples triple_return | assumption | simp add: no_error)+

lemma triple_co_race:
  assumes "harmless ADDR_COMMAND w" "\<And>a. a \<in> set xs \<Longrightarrow> triple (calm b g) a (\<lambda>_. calm b g)"
  shows "triple (calm b g) (co_race T w xs) (\<lambda>x q. fst x = 0 \<and> calm b g q)"
  unfolding co_race_def by (rule triple_forD triple_co_clear triples triple_return harmless_literals assms | simp add: no_error)+

lemma triple_while_running:
  assumes "harmless ADDR_COMMAND w" "saved ''t0'' = Some t0" "saved ''t1'' = Some t1"
  shows "triple (calm b g) (while_running T saved w) (\<lambda>x q. x = 0 \<and> calm True g q)"
  unfolding while_running_def point_t1_at_loop_def
  by (rule triple_run_cmd [OF assms(1)] triple_saved [of saved "''t0''", OF assms(2)]
      triple_saved [of saved "''t1''", OF assms(3)] triple_write_reg64 harmless_library
      triple_co_clear triples triple_return | simp)+

lemma triple_verdict:
  assumes "filter (\<lambda>(k, v). map_of want k = None) got = []" "y = (\<forall>(k, v) \<in> set got. v \<in> set (the (map_of want k)))"
  shows "triple P (verdict tc got want) (\<lambda>r q. gives r y \<and> P q)"
  unfolding verdict_def using assms by (auto intro: triple_step)

lemmas triples_outcome = triple_co_race triple_run_cmd triple_while_running triple_forD triple_verdict triples harmless_literals

lemma dmcontrol_one: "1 = dmcontrol (dmcontrol_defaults\<lparr>a_dmactive := True\<rparr>)"
  by (rule bit_eqI) (auto simp: bit_dmcontrol dmcontrol_defaults_def bit_1_iff)

lemma triple_dmactive: "triple (calm b g) (dmi_write T ADDR_DMCONTROL 1) (\<lambda>_. calm b g)"
  unfolding dmcontrol_one by (rule triple_dmcontrol) (simp add: calm_args_def dmcontrol_defaults_def)

lemma triple_during:
  assumes "a \<in> set [just_read T ADDR_DMSTATUS, dmi_write T ADDR_DMCONTROL 1, just_read T ADDR_SBCS]"
  shows "triple (calm b g) a (\<lambda>_. calm b g)"
proof -
  consider "a = just_read T ADDR_DMSTATUS" | "a = dmi_write T ADDR_DMCONTROL 1" | "a = just_read T ADDR_SBCS"
    using assms by (auto simp del: ADDR_DMSTATUS_def ADDR_DMCONTROL_def ADDR_SBCS_def)
  then show ?thesis by cases (simp_all only: triple_just_read triple_dmactive)
qed

lemma triple_tc_pb:
  assumes "saved ''t0'' = Some t0" "saved ''t1'' = Some t1"
  shows "triple (calm b g) (tc_pb_010 T saved) (\<lambda>r q. gives r False \<and> calm True g q)"
    "triple (calm b g) (tc_pb_011 T saved) (\<lambda>r q. gives r False \<and> calm True g q)"
    "triple (calm b g) (tc_pb_012 T saved) (\<lambda>r q. gives r False \<and> calm True g q)"
  unfolding tc_pb_010_def tc_pb_011_def tc_pb_012_def case_prod_beta
  by (rule triples_outcome | rule assms | erule triple_during | simp | arith)+

lemma triple_tc_ac_03:
  assumes "saved ''t0'' = Some t0" "saved ''t1'' = Some t1"
  shows "triple (calm b g) (tc_ac_031 T) (\<lambda>r q. gives r True \<and> calm b g q)"
    "triple (calm b g) (tc_ac_032 T saved) (\<lambda>r q. gives r False \<and> calm True g q)"
    "triple (calm b g) (tc_ac_033 T saved) (\<lambda>r q. gives r False \<and> calm True g q)"
    "triple (calm b g) (tc_ac_034 T) (\<lambda>r q. gives r False \<and> calm b g q)"
    "triple (calm b g) (tc_ac_035 T) (\<lambda>r q. gives r False \<and> calm b g q)"
  unfolding tc_ac_031_def tc_ac_032_def tc_ac_033_def tc_ac_034_def tc_ac_035_def case_prod_beta
  by (rule triples_outcome | rule assms | simp)+

lemma triple_tc_ac_030: "triple (calm b g) (tc_ac_030 T) (\<lambda>r q. gives r False \<and> calm b g q)"
proof -
  have one: "triple (calm b g) (bindD (co_race T (push_bit 24 (snd x)) []) (\<lambda>z. returnD (fst x, fst z)))
      (\<lambda>y q. y = (fst x, 0) \<and> calm b g q)" for x :: "string \<times> int"
    by (rule triples_outcome triple_return | simp)+
  show ?thesis
    unfolding tc_ac_030_def case_prod_beta
    apply (rule triple_seq, rule triple_progbuf, simp, rule triple_bind, rule triple_mapD, rule one, rule triple_pure)
    apply (rule triple_verdict)
     apply (auto simp: list_all2_Cons1)
    done
qed

lemma triple_restore:
  assumes "saved ''t0'' = Some t0" "saved ''t1'' = Some t1"
  shows "triple (calm b g) (co_restore T saved) (\<lambda>r q. gives r True \<and> calm b g q)"
proof -
  have r: "take_bit 16 T2_REGNO \<notin> {DCSR_REGNO, GPR_X0_REGNO}" "reads_back_as_written (take_bit 16 T2_REGNO)"
    "take_bit 32 0xABCD = (0xABCD :: int)" by (simp_all add: reads_back_as_written_def)
  show ?thesis
    unfolding co_restore_def
    apply (rule triple_seq, rule triple_co_clear, rule triple_seq, rule triple_forD, rule triple_progbuf, simp)
    apply (rule triple_bind, rule triple_saved [of saved "''t0''", OF assms(1)], rule triple_seq, rule triple_write_reg64, rule harmless_library, simp)
    apply (rule triple_bind, rule triple_saved [of saved "''t1''", OF assms(2)], rule triple_seq, rule triple_write_reg64, rule harmless_library, simp)
    apply (rule triple_bind, rule triple_read_reg64, rule harmless_library, simp)
    apply (rule triple_seq, rule triple_round_trip(1) [OF r], rule triple_bind, rule triple_round_trip(2) [OF r], rule triple_pure)
    apply (rule triple_seq, rule triple_write_reg64, rule harmless_library, simp)
    apply (rule triple_bind, rule triple_abstractcs, rule triple_pure, rule triple_step, simp add: no_error)
    done
qed

lemma triple_any_memory: "(\<And>m. triple (in_memory m b g) n Q) \<Longrightarrow> triple (calm b g) n Q"
  unfolding triple_def in_memory_def by blast

lemma triple_forget: "triple (calm b g) n Q \<Longrightarrow> triple (in_memory m b g) n Q"
  unfolding triple_def in_memory_def by blast

text \<open>
  The delay loop does not read back, whatever the first two reads give, as long as they do not give the two words of
  the loop; on a bus of at most 32 bits they cannot, since its high word reads as zero.
\<close>

abbreviation loop_addr :: "int \<Rightarrow> int" where "loop_addr i \<equiv> LOOP_ADDR + 8 * i"

definition loop_memory :: "(int \<rightharpoonup> int) \<Rightarrow> bool" where
  "loop_memory m \<longleftrightarrow> m (take_bit 32 (loop_addr 0)) = Some (take_bit 32 (loop_words ! 0)) \<and>
     m (take_bit 32 (loop_addr 1)) = Some (take_bit 32 (loop_words ! 1))"

definition misread_loop :: "bool \<Rightarrow> DeclaredConfig \<Rightarrow> bool" where
  "misread_loop b g \<longleftrightarrow> (\<forall>m. loop_memory m \<longrightarrow>
     triple (in_memory m b g) (mapD (\<lambda>i. sba_read64 T (loop_addr i)) [0, 1]) (\<lambda>ys q. ys \<noteq> loop_words \<and> in_memory m b g q))"

lemma misread_narrow:
  assumes "\<not> (cfg_sba_enable g \<and> (cfg_sbaccess64 g \<or> cfg_sbaccess128 g))"
  shows "misread_loop b g"
  unfolding misread_loop_def loop_memory_def mapD.simps
proof (intro allI impI, elim conjE)
  fix m assume k: "m (take_bit 32 (loop_addr 0)) = Some (take_bit 32 (loop_words ! 0))" "m (take_bit 32 (loop_addr 1)) = Some (take_bit 32 (loop_words ! 1))"
  have n: "x # xs \<noteq> loop_words" if "x \<in> {0, take_bit 32 (loop_words ! 0)}" for x xs
    using that by (auto simp: loop_words_def)
  show "triple (in_memory m b g) (bindD (sba_read64 T (loop_addr 0)) (\<lambda>y. bindD (bindD (sba_read64 T (loop_addr 1)) (\<lambda>y. bindD (returnD []) (\<lambda>ys. returnD (y # ys)))) (\<lambda>ys. returnD (y # ys))))
     (\<lambda>ys q. ys \<noteq> loop_words \<and> in_memory m b g q)"
    apply (rule triple_bind, rule triple_sba_read64, rule k(1), rule assms, rule triple_pure)
    apply (rule triple_bind, rule triple_bind, rule triple_sba_read64, rule k(2), rule assms, rule triple_pure, rule triple_bind)
      apply (rule triple_keep, rule triple_keep, rule triple_return)
    apply (rule conjI, rule n, simp, assumption)
    done
qed

lemma triple_setup:
  assumes "misread_loop b g"
  shows "triple (calm b g) (co_setup T) (\<lambda>r q. gives r False \<and> calm b g q)"
proof (rule triple_any_memory)
  fix m
  let ?w = "\<lambda>i. loop_words ! nat i" and ?a = "\<lambda>i. LOOP_ADDR + 8 * i"
  have z: "[0..1] = [0, 1 :: int]" "zip [0, 1 :: int] loop_words = [(0, ?w 0), (1, ?w 1)]" by code_simp+
  let ?m = "(m(take_bit 32 (?a 0) \<mapsto> take_bit 32 (?w 0)))(take_bit 32 (?a 1) \<mapsto> take_bit 32 (?w 1))"
  have "loop_memory ?m" by (simp add: loop_memory_def)
  then have rd: "triple (in_memory ?m b g) (mapD (\<lambda>i. sba_read64 T (?a i)) [0, 1]) (\<lambda>ys q. ys \<noteq> loop_words \<and> in_memory ?m b g q)"
    using assms unfolding misread_loop_def by blast
  show "triple (in_memory m b g) (co_setup T) (\<lambda>r q. gives r False \<and> calm b g q)"
    unfolding co_setup_def z forD.simps case_prod_conv point_t1_at_loop_def
    apply (rule triple_seq, rule triple_seq, rule triple_sba_write64, rule triple_seq, rule triple_sba_write64, rule triple_return, assumption)
    apply (rule triple_bind, rule rd, rule triple_pure, rule triple_forget, rule triple_seq, rule triple_write_reg64, rule harmless_library, simp)
    apply (rule triple_step, simp)
    done
qed

lemma verdicts_phased:
  assumes "wp (m x) (\<lambda>x1. wp (n x1) (\<lambda>x2. wp (f x2) (\<lambda>r q k. gives r b \<and> verdicts_wp sts bs Q x2 q k))) p h"
  shows "verdicts_wp (phased_step name [m, n] f # sts) (b # bs) Q x p h"
proof -
  have "vwp (phased_step name [m, n] f) b (verdicts_wp sts bs Q) x p h"
    unfolding vwp_def
  proof (intro allI impI)
    fix d :: "'s RISCVDebug" assume d: "reps (t_state d) p" "tracked_hartsel d = h"
    from assms d obtain x1 d1 p1 where 1: "m x d = Some (Inr x1, d1)" "reps (t_state d1) p1"
      "wp (n x1) (\<lambda>x2. wp (f x2) (\<lambda>r q k. gives r b \<and> verdicts_wp sts bs Q x2 q k)) p1 (tracked_hartsel d1)"
      unfolding wp_def by blast
    then obtain x2 d2 p2 where 2: "n x1 d1 = Some (Inr x2, d2)" "reps (t_state d2) p2"
      "wp (f x2) (\<lambda>r q k. gives r b \<and> verdicts_wp sts bs Q x2 q k) p2 (tracked_hartsel d2)"
      unfolding wp_def by blast
    then obtain r d3 p3 where 3: "f x2 d2 = Some (Inr r, d3)" "reps (t_state d3) p3" "gives r b"
      "verdicts_wp sts bs Q x2 p3 (tracked_hartsel d3)"
      unfolding wp_def by blast
    show "\<exists>r d' x' q. snd (phased_step name [m, n] f) (d, x) = (r, d', x') \<and> gives r b \<and> reps (t_state d') q \<and>
        verdicts_wp sts bs Q x' q (tracked_hartsel d')"
      using 1(1) 2(1) 3 by (auto simp: phased_step_def reader_step_def dbg_step_def bindD_def returnD_def)
  qed
  then show ?thesis by simp
qed

lemma cmd_outcome_verdicts_wp:
  assumes "startable p 0" "engine p" "misread_loop True (cfg p)"
  shows "verdicts_wp (cmd_outcome_steps T)
    [True, True, False, False, False, False, False, True, False, False, False, False, True] (\<lambda>_ _ _. True) x p h"
proof -
  have save: "triple (calm b g) (save_reg T k r y) (\<lambda>y1 q. (\<exists>v. y1 = y(k \<mapsto> v)) \<and> calm b g q)" if "take_bit 16 r \<noteq> DCSR_REGNO" for b g k r y
    unfolding save_reg_def by (rule triple_bind, rule triple_read_reg64, rule harmless_library [OF that], rule triple_return) blast
  have t: "take_bit 16 T0_REGNO \<noteq> DCSR_REGNO" "take_bit 16 T1_REGNO \<noteq> DCSR_REGNO" by simp_all
  have tests: "verdicts_wp (drop 3 (cmd_outcome_steps T))
      [False, False, False, False, True, False, False, False, False, True] (\<lambda>_ _ _. True) s q 0"
    if q: "calm True (cfg p) q" and s: "s ''t0'' = Some a" "s ''t1'' = Some c" for s q a c
  proof -
    have drop: "drop 3 (u # v # w # xs) = xs" for u v w :: "('s, saved) seq_step" and xs by (simp add: numeral_3_eq_3)
    show ?thesis
      unfolding cmd_outcome_steps_def drop
      apply (rule verdicts_readerT, rule triple_tc_pb [OF s], rule q)
      apply (rule verdicts_readerT, rule triple_tc_pb [OF s], assumption, rule verdicts_readerT, rule triple_tc_pb [OF s], assumption)
      apply (rule verdicts_checkT, rule triple_tc_ac_030, assumption, rule verdicts_checkT, rule triple_tc_ac_03 [OF s], assumption)
      apply (rule verdicts_readerT, rule triple_tc_ac_03 [OF s], assumption, rule verdicts_readerT, rule triple_tc_ac_03 [OF s], assumption)
      apply (rule verdicts_checkT, rule triple_tc_ac_03 [OF s], assumption, rule verdicts_checkT, rule triple_tc_ac_03 [OF s], assumption)
      apply (rule verdicts_readerT, rule triple_restore [OF s], assumption, simp)
      done
  qed
  have all: "cmd_outcome_steps T =
      command_step ''Activate Debug Module'' (activate T) # command_step ''Halt hart'' (halt T DEFAULT_TIMEOUT) #
      phased_step ''Load the delay loop into RAM, t1 -> loop'' [save_reg T ''t0'' T0_REGNO, save_reg T ''t1'' T1_REGNO] (\<lambda>_. co_setup T) #
      drop 3 (cmd_outcome_steps T)"
    by (simp add: cmd_outcome_steps_def numeral_3_eq_3)
  show ?thesis
    apply (subst all)
    apply (rule verdicts_command, rule wp_activate_calm [OF assms(1,2)], erule verdicts_commandT [OF triple_halt])
    apply (rule verdicts_phased, erule triple_wp [OF save [OF t(1)]], elim conjE exE)
    apply (erule triple_wp [OF save [OF t(2)]], elim conjE exE, erule triple_wp [OF triple_setup [OF assms(3)]])
    apply (erule conjE, erule conjI, erule tests, simp_all)
    done
qed

end

end
