(* ===== verification/CmdProps.thy ===== *)
theory CmdProps
  imports CmdRuns
begin

text \<open>The command outcome sequences against the golden model: the verdict of every step with the mock behind it.\<close>

context dm_bench
begin

lemma command_outcome_sessions:
  assumes "startable p 0" "engine p" "misread_loop True (cfg p)" "reps (t_state d) p"
  shows "\<exists>s. build_cmderr_sequence T ''batch'' = Inr s \<and> session_verdicts s (d, width) =
      Some [True, True, True, True, False, True, True, True, False, False, False, False, False, True, False, True, True]"
    "\<exists>s. build_cmd_busy_sequence T ''batch'' = Inr s \<and> session_verdicts s (d, ()) =
      Some [True, True, False, False, True, True, True, True, True, True, True]"
    "\<exists>s. build_cmd_outcome_sequence T ''batch'' = Inr s \<and> session_verdicts s (d, saved) =
      Some [True, True, False, False, False, False, False, True, False, False, False, False, True]"
  unfolding build_cmderr_sequence_def build_cmd_busy_sequence_def build_cmd_outcome_sequence_def
  by (rule session_verdicts_wp [OF cmderr_verdicts_wp [OF assms(1,2)] assms(4) refl]
      session_verdicts_wp [OF cmd_busy_verdicts_wp [OF assms(1,2)] assms(4) refl]
      session_verdicts_wp [OF cmd_outcome_verdicts_wp [OF assms(1-3)] assms(4) refl])+

end

subsection \<open>A bus wider than 32 bits on the mock\<close>

text \<open>
  After a read is armed the model makes no prediction for the high word of a wide bus, and the mock answers with what was
  last written there: the same word for every read, so that two words with different high halves do not both read back.
\<close>

lemma predict_wide:
  assumes "q = on_write ADDR_SBADDRESS0 a (on_write ADDR_SBCS (push_bit 20 1 OR push_bit 17 3) p)" "shadow_mem p (take_bit 32 a) = Some x"
    and "calm b g q" "cfg_sba_enable g" "cfg_sbaccess64 g \<or> cfg_sbaccess128 g"
  shows "\<not> has_model q CO_SBDATA1" "has_model q ADDR_SBDATA0" "predict q ADDR_SBDATA0 = x"
proof -
  have q: "cfg_valid q" "dmactive q" "cfg q = g" using assms(3) by (auto elim!: calmE simp: cmd_atD)
  have "\<not> sbdata1_known q"
    using assms(1,2) by (simp add: on_write_def is_data_def is_progbuf_def guarded_while_busy_def write_sbcs_def write_sbaddress0_def
      sba_autoincrement_def sba_arm_read_def Let_def)
  with q mem_read64 [OF assms(1,2)] assms(4,5) show "\<not> has_model q CO_SBDATA1" "has_model q ADDR_SBDATA0" "predict q ADDR_SBDATA0 = x"
    by (simp_all add: has_model_def predict_def is_data_def is_progbuf_def Let_def sba_wider_than_32_def)
qed

lemma canned_sbcs: "sbus_check (canned ADDR_SBCS m) = Inr True"
  by (simp add: canned_def sbus_check_def)

lemma mock_wait_sbus:
  "\<exists>m. wait_sbus (mock_transport clock) timeout d = Some (Inr (), d\<lparr>t_state := m, clock_reads := Suc (clock_reads d)\<rparr>) \<and>
     predictor m = predictor (t_state d) \<and> regfile m = regfile (t_state d)"
proof -
  let ?p = "predictor (t_state d)"
  have "predict ?p ADDR_SBCS = expect_sbcs ?p" by (simp add: predict_def is_data_def is_progbuf_def)
  then obtain v m where "mock_read ADDR_SBCS (t_state d) = (Inr v, m)" "predictor m = ?p" "regfile m = regfile (t_state d)" "sbus_check v = Inr True"
    using sbcs_idle [of ?p] canned_sbcs [of "t_state d"] by (cases "has_model ?p ADDR_SBCS") (auto simp: mock_read_def expect_def simp del: ADDR_SBCS_def)
  then show ?thesis by (intro exI [of _ m]) (simp add: wait_sbus_def poll_until_def poll_loop_accept mock_transport_def)
qed

lemma mock_read64:
  assumes "in_memory m b g (predictor (t_state d))" "m (take_bit 32 a) = Some x" "cfg_sba_enable g" "cfg_sbaccess64 g \<or> cfg_sbaccess128 g"
  shows "\<exists>d'. sba_read64 (mock_transport clock) a d = Some (Inr (push_bit 32 (dict_get (regfile (t_state d)) CO_SBDATA1 0) OR x), d') \<and>
    in_memory m b g (predictor (t_state d')) \<and> tracked_hartsel d' = tracked_hartsel d \<and> regfile (t_state d') CO_SBDATA1 = regfile (t_state d) CO_SBDATA1"
proof -
  let ?p = "predictor (t_state d)"
  let ?q = "on_write ADDR_SBADDRESS0 a (on_write ADDR_SBCS (push_bit 20 1 OR push_bit 17 3) ?p)"
  let ?d = "d\<lparr>t_state := snd (mock_write ADDR_SBADDRESS0 a (snd (mock_write ADDR_SBCS (push_bit 20 1 OR push_bit 17 3) (t_state d))))\<rparr>"
  have q: "in_memory m b g ?q" "calm b g ?q"
    using assms(1,2) mem_read64 [OF refl, of ?p a x]
    by (auto simp: in_memory_def intro!: calm_harmless mock_bench.harmless_simps simp del: ADDR_SBADDRESS0_def ADDR_SBCS_def)
  have v: "\<not> has_model ?q CO_SBDATA1" "has_model ?q ADDR_SBDATA0" "predict ?q ADDR_SBDATA0 = x"
    using predict_wide [OF refl _ q(2) assms(3,4), of x] assms(1,2) by (simp_all add: in_memory_def)
  obtain m1 where m1: "wait_sbus (mock_transport clock) DEFAULT_TIMEOUT ?d = Some (Inr (), ?d\<lparr>t_state := m1, clock_reads := Suc (clock_reads ?d)\<rparr>)"
    "predictor m1 = ?q" "regfile m1 CO_SBDATA1 = regfile (t_state d) CO_SBDATA1"
    using mock_wait_sbus [of clock DEFAULT_TIMEOUT ?d] by (auto simp: mock_write_def)
  have hi: "mock_read CO_SBDATA1 m2 = (Inr (dict_get (regfile m2) CO_SBDATA1 0), m2\<lparr>mock_log := mock_log m2 @ [(OP_READ, CO_SBDATA1, dict_get (regfile m2) CO_SBDATA1 0)]\<rparr>)"
    if "predictor m2 = ?q" for m2
    using v(1) that by (simp add: mock_read_def canned_def)
  have lo: "mock_read ADDR_SBDATA0 m2 = (Inr x, m2\<lparr>mock_log := mock_log m2 @ [(OP_READ, ADDR_SBDATA0, x)]\<rparr>)" if "predictor m2 = ?q" for m2
    using v(2,3) that by (simp add: mock_read_def expect_def)
  have hd: "dict_get (regfile m1) CO_SBDATA1 0 = dict_get (regfile (t_state d)) CO_SBDATA1 0" using m1(3) by (simp add: dict_get_def)
  have w: "dmi_write (mock_transport clock) z u e = Some (Inr (), e\<lparr>t_state := snd (mock_write z u (t_state e))\<rparr>)" for z u e
    by (simp add: dmi_write_def mock_transport_def mock_write_def)
  have r: "dmi_read (mock_transport clock) z e = (case mock_read z (t_state e) of (v, s) \<Rightarrow> Some (v, e\<lparr>t_state := s\<rparr>))" for z e
    by (simp add: dmi_read_def mock_transport_def)
  show ?thesis
    unfolding sba_read64_def seqD_simps w using m1 q(1)
    by (simp add: seqD_def bindD_def w r hi lo hd returnD_def del: ADDR_SBDATA0_def CO_SBDATA1_def ADDR_SBADDRESS0_def ADDR_SBCS_def DEFAULT_TIMEOUT_def)
qed

lemma mock_misread: "dm_bench.misread_loop (mock_transport clock) (\<lambda>m p. predictor m = p) b g"
proof (cases "cfg_sba_enable g \<and> (cfg_sbaccess64 g \<or> cfg_sbaccess128 g)")
  case False
  then show ?thesis by (rule mock_bench.misread_narrow)
next
  case True
  let ?T = "mock_transport clock"
  have "\<exists>ys d'. mapD (\<lambda>i. sba_read64 ?T (LOOP_ADDR + 8 * i)) [0, 1] d = Some (Inr ys, d') \<and>
      tracked_hartsel d' = 0 \<and> ys \<noteq> loop_words \<and> in_memory m b g (predictor (t_state d'))"
    if m: "mock_bench.loop_memory m" and d: "in_memory m b g (predictor (t_state d))" "tracked_hartsel d = 0"
    for m and d :: "ModelBackedMockTransport RISCVDebug"
  proof -
    let ?h = "dict_get (regfile (t_state d)) CO_SBDATA1 0"
    obtain d1 where d1: "sba_read64 ?T (LOOP_ADDR + 8 * 0) d = Some (Inr (push_bit 32 ?h OR take_bit 32 (loop_words ! 0)), d1)"
      "in_memory m b g (predictor (t_state d1))" "tracked_hartsel d1 = 0" "dict_get (regfile (t_state d1)) CO_SBDATA1 0 = ?h"
      using mock_read64 [OF d(1), of "LOOP_ADDR + 8 * 0" "take_bit 32 (loop_words ! 0)" clock] m True d(2) by (auto simp: mock_bench.loop_memory_def dict_get_def)
    obtain d2 where d2: "sba_read64 ?T (LOOP_ADDR + 8 * 1) d1 = Some (Inr (push_bit 32 ?h OR take_bit 32 (loop_words ! 1)), d2)"
      "in_memory m b g (predictor (t_state d2))" "tracked_hartsel d2 = 0"
      using mock_read64 [OF d1(2), of "LOOP_ADDR + 8 * 1" "take_bit 32 (loop_words ! 1)" clock] m True d1(3,4) by (auto simp: mock_bench.loop_memory_def)
    have h: "drop_bit 32 (push_bit 32 ?h OR take_bit 32 w) = ?h" for w by (rule bit_eqI) (auto simp: bit_simps)
    have "drop_bit 32 (loop_words ! 0) \<noteq> drop_bit 32 (loop_words ! 1)" by code_simp
    then have "[push_bit 32 ?h OR take_bit 32 (loop_words ! 0), push_bit 32 ?h OR take_bit 32 (loop_words ! 1)] \<noteq> loop_words"
      using h by (metis nth_Cons_0 nth_Cons_Suc One_nat_def)
    with d1(1) d2 show ?thesis by (simp add: bindD_def returnD_def)
  qed
  then show ?thesis
    unfolding mock_bench.misread_loop_def mock_bench.triple_def dm_target.wp_def [OF mock.dm_target_axioms] by fastforce
qed

text \<open>
  C11. The golden model has no error classes of abstract commands, and the three sessions that provoke
  them say exactly that against the mock, from any module that can start with an idle command engine, whatever width is in
  \<^verbatim>\<open>WIDTH\<close> and whatever registers were saved. They run to their ends, and the steps that fail are: in \<^verbatim>\<open>cmderr\<close> and
  \<^verbatim>\<open>cmd_busy\<close> those that wait for \<^verbatim>\<open>cmderr\<close> to name an error; in \<^verbatim>\<open>cmd_outcome\<close> those too, and the third step, which loads
  the delay loop over the system bus and reads it back: with a bus of at most 32 bits the high words read as zero, with a wider one they
  both read as the word written last. Recovery, ignored writes, keepalive, unsupported register numbers and a second resume pass.
\<close>

theorem command_outcome_exact:
  assumes "startable (predictor (t_state d)) 0" "engine (predictor (t_state d))"
  shows "(\<exists>s. build_cmderr_sequence (mock_transport clock) ''batch'' = Inr s \<and> session_verdicts s (d, width) =
      Some [True, True, True, True, False, True, True, True, False, False, False, False, False, True, False, True, True]) \<and>
    (\<exists>s. build_cmd_busy_sequence (mock_transport clock) ''batch'' = Inr s \<and> session_verdicts s (d, ()) =
      Some [True, True, False, False, True, True, True, True, True, True, True]) \<and>
    (\<exists>s. build_cmd_outcome_sequence (mock_transport clock) ''batch'' = Inr s \<and> session_verdicts s (d, saved) =
      Some [True, True, False, False, False, False, False, True, False, False, False, False, True])"
  by (intro conjI mock_bench.command_outcome_sessions [OF assms mock_misread refl])

theorem command_outcome_exact_witness:
  "(\<exists>s. build_cmderr_sequence (mock_transport (\<lambda>k. int k)) ''batch'' = Inr s \<and> session_verdicts s (ibex_session, 3) =
      Some [True, True, True, True, False, True, True, True, False, False, False, False, False, True, False, True, True]) \<and>
    (\<exists>s. build_cmd_busy_sequence (mock_transport (\<lambda>k. int k)) ''batch'' = Inr s \<and> session_verdicts s (ibex_session, ()) =
      Some [True, True, False, False, True, True, True, True, True, True, True]) \<and>
    (\<exists>s. build_cmd_outcome_sequence (mock_transport (\<lambda>k. int k)) ''batch'' = Inr s \<and> session_verdicts s (ibex_session, Map.empty) =
      Some [True, True, False, False, False, False, False, True, False, False, False, False, True])"
  by (rule command_outcome_exact; simp only: ibex_session_state; (rule ibex_startable | code_simp))

end
