(* ===== verification/JsonText.thy ===== *)
theory JsonText
  imports DutConfig
begin

text \<open>
  The JSON text of the wire protocol: \<^verbatim>\<open>json.dumps\<close> of the standard library with its default separators
  and ASCII escapes, a reader for the flat objects the protocol exchanges, and the facts that make
  the text safe to frame by newlines.
\<close>

subsection \<open>Decimal digits\<close>

definition is_digit :: "char \<Rightarrow> bool" where
  "is_digit c \<longleftrightarrow> (let n = of_char c :: nat in 48 \<le> n \<and> n \<le> 57)"

definition digits_nat :: "string \<Rightarrow> nat" where
  "digits_nat s = fold (\<lambda>c acc. 10 * acc + (of_char c - 48)) s 0"

lemma of_char_digit: "n < 10 \<Longrightarrow> of_char (char_of (48 + n) :: char) = (48 + n :: nat)"
  by (simp add: of_char_of)

lemma str_nat_digits: "list_all is_digit (str_nat n)" "digits_nat (str_nat n) = n" "str_nat n \<noteq> []"
proof (induction n rule: str_nat.induct)
  case (1 n)
  have d: "is_digit (char_of (48 + k))" if "k < 10" for k :: nat
    using that by (simp add: is_digit_def of_char_digit)
  { case 1 show ?case using "1.IH"(1) d [of n] d [of "n mod 10"] by (subst str_nat.simps) simp }
  { case 2 show ?case using "1.IH"(2) by (subst str_nat.simps) (simp add: digits_nat_def of_char_digit) }
  { case 3 show ?case by (subst str_nat.simps) simp }
qed

lemma digits_prefix:
  assumes "list_all is_digit s" "rest = [] \<or> \<not> is_digit (hd rest)"
  shows "takeWhile is_digit (s @ rest) = s" "dropWhile is_digit (s @ rest) = rest"
proof -
  have "takeWhile is_digit rest = []" "dropWhile is_digit rest = rest" using assms(2) by (cases rest; simp)+
  moreover have "\<And>x. x \<in> set s \<Longrightarrow> is_digit x" using assms(1) by (simp add: list_all_iff)
  ultimately show "takeWhile is_digit (s @ rest) = s" "dropWhile is_digit (s @ rest) = rest"
    by (simp_all add: takeWhile_append2 dropWhile_append2)
qed

subsection \<open>\<^verbatim>\<open>json.dumps\<close>\<close>

definition hex_digit :: "nat \<Rightarrow> char" where
  "hex_digit n = char_of (if n < 10 then 48 + n else 87 + n)"

definition escape_char :: "char \<Rightarrow> string" where
  "escape_char c = (let n = of_char c :: nat in
     if n = 0x22 then [CHR 0x5C, CHR 0x22] else if n = 0x5C then [CHR 0x5C, CHR 0x5C]
     else if n = 10 then [CHR 0x5C, CHR ''n''] else if n = 13 then [CHR 0x5C, CHR ''r'']
     else if n = 9 then [CHR 0x5C, CHR ''t''] else if n = 8 then [CHR 0x5C, CHR ''b'']
     else if n = 12 then [CHR 0x5C, CHR ''f'']
     else if n < 32 \<or> 127 < n then [CHR 0x5C, CHR ''u'', CHR ''0'', CHR ''0'', hex_digit (n div 16), hex_digit (n mod 16)]
     else [c])"

definition quoted :: "string \<Rightarrow> string" where
  "quoted s = CHR 0x22 # concat (map escape_char s) @ [CHR 0x22]"

fun join :: "string \<Rightarrow> string list \<Rightarrow> string" where
  "join sep [] = []"
| "join sep [s] = s"
| "join sep (s # t # ts) = s @ sep @ join sep (t # ts)"

fun dumps :: "json \<Rightarrow> string" where
  "dumps JNull = ''null''"
| "dumps (JBool b) = (if b then ''true'' else ''false'')"
| "dumps (JInt i) = str_int i"
| "dumps (JStr s) = quoted s"
| "dumps (JArr js) = ''['' @ join '', '' (map dumps js) @ '']''"
| "dumps (JObj kvs) = ''{'' @ join '', '' (map (\<lambda>kv. quoted (fst kv) @ '': '' @ dumps (snd kv)) kvs) @ ''}''"

subsection \<open>One line per message\<close>

text \<open>Every character of the text is a printable ASCII character, or DEL, so none is a newline.\<close>

definition plain_char :: "char \<Rightarrow> bool" where
  "plain_char c \<longleftrightarrow> (let n = of_char c :: nat in 32 \<le> n \<and> n \<le> 127)"

lemma hex_digit_plain: "n < 16 \<Longrightarrow> plain_char (hex_digit n)"
  by (auto simp: hex_digit_def plain_char_def of_char_of)

lemma is_digit_plain: "is_digit c \<Longrightarrow> plain_char c"
  by (simp add: is_digit_def plain_char_def Let_def)

lemma of_char_bound: "(of_char c :: nat) < 256"
  using range_nat_of_char by (metis atLeastLessThan_iff rangeI)

lemma escape_plain: "list_all plain_char (escape_char c)"
proof -
  have n: "(of_char c :: nat) < 256" by (rule of_char_bound)
  have h: "plain_char (hex_digit (of_char c div 16))" "plain_char (hex_digit (of_char c mod 16))"
    using less_mult_imp_div_less [of "of_char c" 16 16] n by (auto intro: hex_digit_plain)
  have "plain_char (CHR 0x5C) \<and> plain_char (CHR 0x22) \<and> list_all plain_char ''nrtbfu0''" by code_simp
  with h show ?thesis by (auto simp: escape_char_def Let_def plain_char_def [of c])
qed

lemma quoted_plain: "list_all plain_char (quoted s)"
proof -
  have "plain_char (CHR 0x22)" by code_simp
  then show ?thesis using escape_plain by (induction s) (auto simp: quoted_def)
qed

lemma join_plain: "list_all (list_all plain_char) ss \<Longrightarrow> list_all plain_char sep \<Longrightarrow> list_all plain_char (join sep ss)"
  by (induction sep ss rule: join.induct) auto

lemma dumps_plain: "list_all plain_char (dumps j)"
proof (induction j)
  case (JBool b)
  have "list_all plain_char ''true''" "list_all plain_char ''false''" by code_simp+
  then show ?case by simp
next
  case (JInt i)
  have "plain_char (CHR ''-'')" by code_simp
  moreover have "list_all plain_char (str_nat n)" for n
    using str_nat_digits(1) [of n] is_digit_plain by (auto simp: list_all_iff)
  ultimately show ?case by (auto simp: str_int_def)
next
  case (JStr s)
  show ?case by (simp add: quoted_plain)
next
  case (JArr js)
  have "list_all plain_char ''[]''" "list_all plain_char '', ''" by code_simp+
  moreover have "list_all (list_all plain_char) (map dumps js)" using JArr by (auto simp: list_all_iff)
  ultimately show ?case using join_plain by auto
next
  case (JObj kvs)
  have "list_all plain_char ''{}''" "list_all plain_char '', ''" "list_all plain_char '': ''" by code_simp+
  moreover from this(3) have "list_all (list_all plain_char) (map (\<lambda>kv. quoted (fst kv) @ '': '' @ dumps (snd kv)) kvs)"
    using JObj quoted_plain by (force simp: list_all_iff snds.simps)
  ultimately show ?case using join_plain by auto
qed (code_simp+)

subsection \<open>Reading flat objects back\<close>

text \<open>A reader for what \<open>dumps\<close> writes of an object whose values are numbers and strings.\<close>

definition hex_val :: "char \<Rightarrow> nat" where
  "hex_val c = (let n = of_char c in if n \<le> 57 then n - 48 else n - 87)"

definition unescape_letter :: "char \<Rightarrow> char" where
  "unescape_letter c = (if c = CHR ''n'' then CHR 0x0A else if c = CHR ''r'' then CHR 0x0D else if c = CHR ''t'' then CHR 0x09
     else if c = CHR ''b'' then CHR 0x08 else if c = CHR ''f'' then CHR 0x0C else c)"

fun read_string :: "string \<Rightarrow> (string \<times> string) option" where
  "read_string [] = None"
| "read_string (c # cs) =
     (if c = CHR 0x22 then Some ([], cs)
      else if c \<noteq> CHR 0x5C then map_option (\<lambda>(s, r). (c # s, r)) (read_string cs)
      else case cs of
             [] \<Rightarrow> None
           | e # es \<Rightarrow>
               if e \<noteq> CHR ''u'' then map_option (\<lambda>(s, r). (unescape_letter e # s, r)) (read_string es)
               else (case es of
                       _ # _ # h # l # r' \<Rightarrow> map_option (\<lambda>(s, r). (char_of (16 * hex_val h + hex_val l) # s, r)) (read_string r')
                     | _ \<Rightarrow> None))"

definition read_value :: "string \<Rightarrow> (json \<times> string) option" where
  "read_value s = (case s of
       [] \<Rightarrow> None
     | c # cs \<Rightarrow> if c = CHR 0x22 then map_option (\<lambda>(t, r). (JStr t, r)) (read_string cs)
         else if c = CHR ''-'' then Some (JInt (- int (digits_nat (takeWhile is_digit cs))), dropWhile is_digit cs)
         else if is_digit c then Some (JInt (int (digits_nat (takeWhile is_digit s))), dropWhile is_digit s)
         else None)"

fun read_members :: "nat \<Rightarrow> string \<Rightarrow> ((string \<times> json) list \<times> string) option" where
  "read_members 0 s = None"
| "read_members (Suc n) s =
     (case read_value s of
        Some (JStr k, r) \<Rightarrow>
          (if take 2 r \<noteq> '': '' then None
           else case read_value (drop 2 r) of
                  None \<Rightarrow> None
                | Some (v, r') \<Rightarrow>
                    if take 2 r' = '', '' then map_option (\<lambda>(kvs, t). ((k, v) # kvs, t)) (read_members n (drop 2 r'))
                    else Some ([(k, v)], r'))
      | _ \<Rightarrow> None)"

definition read_object :: "string \<Rightarrow> (string \<times> json) list option" where
  "read_object s = (case s of
       c # cs \<Rightarrow> if c \<noteq> CHR ''{'' then None
         else (case read_members (length s) cs of Some (kvs, r) \<Rightarrow> if r = ''}'' then Some kvs else None | None \<Rightarrow> None)
     | [] \<Rightarrow> None)"

definition flat_value :: "json \<Rightarrow> bool" where
  "flat_value j \<longleftrightarrow> (case j of JInt _ \<Rightarrow> True | JStr _ \<Rightarrow> True | _ \<Rightarrow> False)"

lemma hex_val_digit: "n < 16 \<Longrightarrow> hex_val (hex_digit n) = n"
  by (auto simp: hex_val_def hex_digit_def of_char_of)

lemma char_lits:
  "(char_of (0x22 :: nat) :: char) = CHR 0x22" "(char_of (0x5C :: nat) :: char) = CHR 0x5C" "(char_of (10 :: nat) :: char) = CHR 0x0A"
  "(char_of (13 :: nat) :: char) = CHR 0x0D" "(char_of (9 :: nat) :: char) = CHR 0x09" "(char_of (8 :: nat) :: char) = CHR 0x08"
  "(char_of (12 :: nat) :: char) = CHR 0x0C"
  by code_simp+

lemma special_chars:
  "n \<in> {0x22, 0x5C, 10, 13, 9, 8, 12 :: nat} \<Longrightarrow> char_of n \<in> {CHR 0x22, CHR 0x5C, CHR 0x0A, CHR 0x0D, CHR 0x09, CHR 0x08, CHR 0x0C}"
  by (elim insertE emptyE; simp add: char_lits)

lemma read_escape: "read_string (escape_char c @ rest) = map_option (\<lambda>(s, r). (c # s, r)) (read_string rest)"
proof -
  let ?n = "of_char c :: nat"
  consider "?n \<in> {0x22, 0x5C, 10, 13, 9, 8, 12}" | "?n \<notin> {0x22, 0x5C, 10, 13, 9, 8, 12}" "?n < 32 \<or> 127 < ?n"
    | "?n \<notin> {0x22, 0x5C, 10, 13, 9, 8, 12}" "\<not> (?n < 32 \<or> 127 < ?n)" by blast
  then show ?thesis
  proof cases
    case 1
    then have "c \<in> {CHR 0x22, CHR 0x5C, CHR 0x0A, CHR 0x0D, CHR 0x09, CHR 0x08, CHR 0x0C}" using special_chars [of ?n] by simp
    then show ?thesis by (elim insertE emptyE; simp add: escape_char_def unescape_letter_def)
  next
    case 2
    have "hex_val (hex_digit (?n div 16)) = ?n div 16" "hex_val (hex_digit (?n mod 16)) = ?n mod 16"
      using less_mult_imp_div_less [of ?n 16 16] of_char_bound [of c] by (auto intro: hex_val_digit)
    then show ?thesis using 2 by (simp add: escape_char_def Let_def)
  next
    case 3
    then have "escape_char c = [c]" by (simp add: escape_char_def Let_def)
    moreover have "c \<noteq> CHR 0x22" "c \<noteq> CHR 0x5C" using 3(1) by auto
    ultimately show ?thesis by simp
  qed
qed

lemma read_quoted: "read_string (concat (map escape_char s) @ CHR 0x22 # rest) = Some (s, rest)"
  by (induction s) (simp_all add: read_escape)

text \<open>What may follow a value: nothing that continues a number.\<close>

definition ends_value :: "string \<Rightarrow> bool" where
  "ends_value rest \<longleftrightarrow> rest = [] \<or> \<not> is_digit (hd rest)"

lemma read_flat_value:
  assumes "flat_value v" "ends_value rest"
  shows "read_value (dumps v @ rest) = Some (v, rest)"
proof (cases v)
  case (JInt i)
  show ?thesis
  proof (cases "i < 0")
    case True
    note d = str_nat_digits [of "nat (- i)"]
    show ?thesis
      using digits_prefix [OF d(1) assms(2) [unfolded ends_value_def]] JInt True d(2) by (simp add: read_value_def str_int_def)
  next
    case False
    note d = str_nat_digits [of "nat i"]
    obtain c cs where c: "str_nat (nat i) = c # cs" using d(3) by (cases "str_nat (nat i)") auto
    moreover have "is_digit c" using d(1) c by simp
    moreover have "c \<noteq> CHR 0x22" "c \<noteq> CHR ''-''" using \<open>is_digit c\<close> by (auto simp: is_digit_def)
    ultimately show ?thesis
      using digits_prefix [OF d(1) assms(2) [unfolded ends_value_def]] JInt False d(2) by (simp add: read_value_def str_int_def)
  qed
next
  case (JStr s)
  then show ?thesis by (simp add: read_value_def quoted_def read_quoted)
qed (use assms in \<open>simp_all add: flat_value_def\<close>)

lemma read_key: "read_value (quoted k @ rest) = Some (JStr k, rest)"
  by (simp add: read_value_def quoted_def read_quoted)

lemma read_members_dumps:
  assumes "kvs \<noteq> []" "list_all (\<lambda>kv. flat_value (snd kv)) kvs" "length kvs \<le> n"
  shows "read_members n (join '', '' (map (\<lambda>kv. quoted (fst kv) @ '': '' @ dumps (snd kv)) kvs) @ ''}'') = Some (kvs, ''}'')"
  using assms
proof (induction n arbitrary: kvs)
  case (Suc n)
  obtain k v rest where kvs: "kvs = (k, v) # rest" using Suc.prems(1) by (cases kvs) auto
  have ends: "ends_value ''}''" "ends_value ('', '' @ s)" for s by (simp_all add: ends_value_def is_digit_def)
  have v: "flat_value v" using Suc.prems(2) kvs by simp
  show ?case
  proof (cases rest)
    case Nil
    then show ?thesis using read_flat_value [OF v ends(1)] by (simp add: kvs read_key)
  next
    case (Cons kv rest')
    have "read_members n (join '', '' (map (\<lambda>kv. quoted (fst kv) @ '': '' @ dumps (snd kv)) rest) @ ''}'') = Some (rest, ''}'')"
      using Suc.IH [of rest] Suc.prems Cons by (simp add: kvs)
    then show ?thesis using read_flat_value [OF v ends(2)] Cons by (simp add: kvs read_key)
  qed
qed simp

lemma join_length: "length ss \<le> Suc (length (join '', '' ss))"
  by (induction "'', ''" ss rule: join.induct) auto

lemma read_object_dumps:
  assumes "kvs \<noteq> []" "list_all (\<lambda>kv. flat_value (snd kv)) kvs"
  shows "read_object (dumps (JObj kvs)) = Some kvs"
proof -
  let ?ss = "map (\<lambda>kv. quoted (fst kv) @ '': '' @ dumps (snd kv)) kvs"
  have "length kvs \<le> length (dumps (JObj kvs))" using join_length [of ?ss] by simp
  from read_members_dumps [OF assms this] show ?thesis by (simp add: read_object_def)
qed

end
