(* ===== verification/UvmTransport.thy ===== *)
theory UvmTransport
  imports JsonText MockTransport
begin

text \<open>
  \<^verbatim>\<open>src/src/pydebug/api/uvm_transport.py\<close>: the transport that talks to a simulation through the C bridge, one
  JSON object per line. The socket is a parameter: what sending a line and reading one do to the
  state of the wire. Of an error message only the fixed text is kept, and log messages are left out;
  the lock is not modelled, a session being one thread.
\<close>

unbundle bit_operations_syntax

subsection \<open>The socket\<close>

text \<open>
  A line as \<^verbatim>\<open>readline\<close> and \<^verbatim>\<open>json.loads\<close> give it: an \<^verbatim>\<open>OSError\<close> (a timeout is one), the end of the stream,
  bytes that are not UTF-8, text that is not JSON, or a value.
\<close>

datatype line = LError | LClosed | LUndecodable | LGarbage | LJson json

record 'w socket =
  sk_connect :: "'w \<Rightarrow> (unit + unit) \<times> 'w"
  sk_sendall :: "string \<Rightarrow> 'w \<Rightarrow> (unit + unit) \<times> 'w"
  sk_readline :: "'w \<Rightarrow> line \<times> 'w"
  sk_close :: "'w \<Rightarrow> 'w"

record 'w UVMTransport =
  u_connected :: bool
  u_id_counter :: int
  u_failed_steps :: "int option"
  u_wire :: 'w

definition UVMTransport_init :: "'w \<Rightarrow> 'w UVMTransport" where
  "UVMTransport_init w = \<lparr>u_connected = False, u_id_counter = 0, u_failed_steps = None, u_wire = w\<rparr>"

subsection \<open>Transactions\<close>

definition uvm_next_id :: "'w UVMTransport \<Rightarrow> int \<times> 'w UVMTransport" where
  "uvm_next_id u = (u_id_counter u + 1, u\<lparr>u_id_counter := u_id_counter u + 1\<rparr>)"

text \<open>\<^verbatim>\<open>resp.get(key)\<close>; a value that is not an object has no such attribute.\<close>

definition resp_get :: "json \<Rightarrow> string \<Rightarrow> json option result" where
  "resp_get resp k = (case resp of JObj kvs \<Rightarrow> Inr (map_of kvs k) | _ \<Rightarrow> Inl (AttributeError ''get''))"

definition check_reply :: "int \<Rightarrow> json \<Rightarrow> dbg_error + json" where
  "check_reply tx_id resp =
     (case resp_get resp ''id'' of
        Inl e \<Rightarrow> Inl (Raised e)
      | Inr i \<Rightarrow>
          if (case i of None \<Rightarrow> True | Some j \<Rightarrow> \<not> json_eq_int tx_id j) then Inl (TransportError ''UVMTransport: id mismatch'')
          else (case resp_get resp ''status'' of
                  Inl e \<Rightarrow> Inl (Raised e)
                | Inr st \<Rightarrow> if st \<noteq> Some (JStr ''ok'') then Inl (TransportError ''UVMTransport: remote error'') else Inr resp))"

definition read_reply :: "'w socket \<Rightarrow> int \<Rightarrow> 'w \<Rightarrow> (dbg_error + json) \<times> 'w" where
  "read_reply K tx_id w =
     (let (raw, w1) = sk_readline K w in
        (case raw of
           LError \<Rightarrow> Inl (TransportError ''UVMTransport transact'')
         | LClosed \<Rightarrow> Inl (TransportError ''UVMTransport: socket closed by remote'')
         | LUndecodable \<Rightarrow> Inl (Raised (ValueError ''UnicodeDecodeError''))
         | LGarbage \<Rightarrow> Inl (TransportError ''UVMTransport transact'')
         | LJson resp \<Rightarrow> check_reply tx_id resp, w1))"

definition request_line :: "(string \<times> json) list \<Rightarrow> string" where
  "request_line payload = dumps (JObj payload) @ [CHR 0x0A]"

definition transact :: "'w socket \<Rightarrow> (string \<times> json) list \<Rightarrow> 'w UVMTransport \<Rightarrow> (dbg_error + json) \<times> 'w UVMTransport" where
  "transact K payload u =
     (if \<not> u_connected u then (Inl (TransportError ''UVMTransport: not connected''), u)
      else let (tx_id, u1) = uvm_next_id u;
               (sent, w1) = sk_sendall K (request_line (payload @ [(''id'', JInt tx_id)])) (u_wire u1)
           in case sent of
                Inl _ \<Rightarrow> (Inl (TransportError ''UVMTransport transact''), u1\<lparr>u_wire := w1\<rparr>)
              | Inr _ \<Rightarrow> let (r, w2) = read_reply K tx_id w1 in (r, u1\<lparr>u_wire := w2\<rparr>))"

subsection \<open>Core operations\<close>

text \<open>\<^verbatim>\<open>{v:08x}\<close> in an error message: what it raises for a value that is not a number.\<close>

definition format_hex_error :: "json \<Rightarrow> py_error option" where
  "format_hex_error j = (case j of JInt _ \<Rightarrow> None | JBool _ \<Rightarrow> None | JStr _ \<Rightarrow> Some (ValueError ''format'') | _ \<Rightarrow> Some (TypeError ''format''))"

definition uvm_read_value :: "json \<Rightarrow> dbg_error + json" where
  "uvm_read_value resp =
     (case resp_get resp ''data'' of
        Inl e \<Rightarrow> Inl (Raised e)
      | Inr None \<Rightarrow> Inl (TransportError ''UVMTransport read: no data in response'')
      | Inr (Some val) \<Rightarrow>
          (case resp_get resp ''xmask'' of
             Inl e \<Rightarrow> Inl (Raised e)
           | Inr xm \<Rightarrow>
               let xmask = (case xm of None \<Rightarrow> JInt 0 | Some x \<Rightarrow> x) in
               if \<not> json_bool xmask then Inr val
               else (case format_hex_error xmask of
                       Some e \<Rightarrow> Inl (Raised e)
                     | None \<Rightarrow> (case format_hex_error val of
                         Some e \<Rightarrow> Inl (Raised e)
                       | None \<Rightarrow> Inl (TransportError ''UVMTransport read: X/Z'')))))"

definition uvm_read :: "'w socket \<Rightarrow> int \<Rightarrow> 'w UVMTransport \<Rightarrow> (dbg_error + json) \<times> 'w UVMTransport" where
  "uvm_read K addr u =
     (let (r, u1) = transact K [(''op'', JStr ''read''), (''addr'', JInt addr)] u
      in (case r of Inl e \<Rightarrow> Inl e | Inr resp \<Rightarrow> uvm_read_value resp, u1))"

definition transact_only :: "'w socket \<Rightarrow> (string \<times> json) list \<Rightarrow> 'w UVMTransport \<Rightarrow> (dbg_error + unit) \<times> 'w UVMTransport" where
  "transact_only K payload u = (let (r, u1) = transact K payload u in (case r of Inl e \<Rightarrow> Inl e | Inr _ \<Rightarrow> Inr (), u1))"

definition uvm_write :: "'w socket \<Rightarrow> int \<Rightarrow> int \<Rightarrow> 'w UVMTransport \<Rightarrow> (dbg_error + unit) \<times> 'w UVMTransport" where
  "uvm_write K addr data = transact_only K [(''op'', JStr ''write''), (''addr'', JInt addr), (''data'', JInt data)]"

definition uvm_reset :: "'w socket \<Rightarrow> 'w UVMTransport \<Rightarrow> (dbg_error + unit) \<times> 'w UVMTransport" where
  "uvm_reset K = transact_only K [(''op'', JStr ''reset'')]"

text \<open>\<^verbatim>\<open>rsp.get("data", 0) & mask\<close>; the mask is an integer, and so is the result.\<close>

definition and_data :: "json \<Rightarrow> int \<Rightarrow> dbg_error + int" where
  "and_data resp msk =
     (case resp_get resp ''data'' of
        Inl e \<Rightarrow> Inl (Raised e)
      | Inr None \<Rightarrow> Inr 0
      | Inr (Some (JInt v)) \<Rightarrow> Inr (v AND msk)
      | Inr (Some (JBool b)) \<Rightarrow> Inr (int_of_bool b AND msk)
      | Inr (Some _) \<Rightarrow> Inl (Raised (TypeError ''&'')))"

definition transact_masked :: "'w socket \<Rightarrow> (string \<times> json) list \<Rightarrow> int \<Rightarrow> 'w UVMTransport \<Rightarrow> (dbg_error + int) \<times> 'w UVMTransport" where
  "transact_masked K payload msk u =
     (let (r, u1) = transact K payload u in (case r of Inl e \<Rightarrow> Inl e | Inr resp \<Rightarrow> and_data resp msk, u1))"

definition dtmcs :: "'w socket \<Rightarrow> int \<Rightarrow> 'w UVMTransport \<Rightarrow> (dbg_error + json) \<times> 'w UVMTransport" where
  "dtmcs K wdata u =
     (let (r, u1) = transact K [(''op'', JStr ''dtmcs''), (''data'', JInt (wdata AND 0xFFFFFFFF))] u
      in (case r of
            Inl e \<Rightarrow> Inl e
          | Inr resp \<Rightarrow> (case resp_get resp ''data'' of
              Inl e \<Rightarrow> Inl (Raised e) | Inr None \<Rightarrow> Inr (JInt 0) | Inr (Some v) \<Rightarrow> Inr v), u1))"

definition dmi_scan :: "'w socket \<Rightarrow> int \<Rightarrow> int \<Rightarrow> int \<Rightarrow> 'w UVMTransport \<Rightarrow> (dbg_error + int) \<times> 'w UVMTransport" where
  "dmi_scan K op addr data =
     transact_masked K [(''op'', JStr ''dmi_scan''), (''dmiop'', JInt (op AND 0x3)), (''addr'', JInt (addr AND 0x7F)),
       (''data'', JInt (data AND 0xFFFFFFFF))] 0x3"

definition jtag_scan :: "'w socket \<Rightarrow> int \<Rightarrow> int \<Rightarrow> int \<Rightarrow> bool \<Rightarrow> 'w UVMTransport \<Rightarrow> (dbg_error + int) \<times> 'w UVMTransport" where
  "jtag_scan K ir dr_len data pause u =
     (if \<not> (1 \<le> dr_len \<and> dr_len \<le> 32) then (Inl (Raised (ValueError ''jtag_scan: dr_len'')), u)
      else transact_masked K [(''op'', JStr ''jtag_scan''), (''ir'', JInt (ir AND 0x1F)), (''drlen'', JInt dr_len),
             (''pause'', JInt (int_of_bool pause)), (''data'', JInt (data AND 0xFFFFFFFF))]
             (push_bit (nat dr_len) 1 - 1) u)"

text \<open>The simulator's time in its nanoseconds; the scaling to seconds is left to the caller.\<close>

definition sim_time_ns :: "'w socket \<Rightarrow> 'w UVMTransport \<Rightarrow> (dbg_error + json) \<times> 'w UVMTransport" where
  "sim_time_ns K u =
     (let (r, u1) = transact K [(''op'', JStr ''sim_time'')] u
      in (case r of
            Inl e \<Rightarrow> Inl e
          | Inr resp \<Rightarrow> (case resp_get resp ''data'' of
              Inl e \<Rightarrow> Inl (Raised e) | Inr None \<Rightarrow> Inr (JInt 0) | Inr (Some v) \<Rightarrow> Inr v), u1))"

definition tms_bits :: "bool list \<Rightarrow> int" where
  "tms_bits tms = sum_list (map (\<lambda>(i, b). push_bit i (int_of_bool b)) (enumerate 0 tms))"

definition tms_walk :: "'w socket \<Rightarrow> bool list \<Rightarrow> 'w UVMTransport \<Rightarrow> (dbg_error + unit) \<times> 'w UVMTransport" where
  "tms_walk K tms u =
     (if \<not> (1 \<le> length tms \<and> length tms \<le> 32) then (Inl (Raised (ValueError ''tms_walk'')), u)
      else transact_only K [(''op'', JStr ''tms_walk''), (''addr'', JInt (int (length tms))), (''data'', JInt (tms_bits tms))] u)"

subsection \<open>Lifecycle and log forwarding\<close>

definition uvm_connect :: "'w socket \<Rightarrow> 'w UVMTransport \<Rightarrow> (dbg_error + unit) \<times> 'w UVMTransport" where
  "uvm_connect K u =
     (if u_connected u then (Inr (), u)
      else let (r, w1) = sk_connect K (u_wire u)
           in case r of
                Inl _ \<Rightarrow> (Inl (TransportError ''UVMTransport: cannot connect''), u\<lparr>u_wire := w1\<rparr>)
              | Inr _ \<Rightarrow> (Inr (), u\<lparr>u_wire := w1, u_connected := True\<rparr>))"

definition set_session_result :: "int \<Rightarrow> 'w UVMTransport \<Rightarrow> 'w UVMTransport" where
  "set_session_result failed_steps u = u\<lparr>u_failed_steps := Some failed_steps\<rparr>"

text \<open>The acknowledgement is read and dropped; whatever goes wrong is swallowed.\<close>

definition send_shutdown :: "'w socket \<Rightarrow> 'w UVMTransport \<Rightarrow> 'w UVMTransport" where
  "send_shutdown K u =
     (let (tx_id, u1) = uvm_next_id u;
          (sent, w1) = sk_sendall K (request_line [(''id'', JInt tx_id), (''op'', JStr ''shutdown''),
             (''data'', JInt (case u_failed_steps u1 of None \<Rightarrow> 0 | Some n \<Rightarrow> n))]) (u_wire u1)
      in case sent of
           Inl _ \<Rightarrow> u1\<lparr>u_wire := w1\<rparr>
         | Inr _ \<Rightarrow> u1\<lparr>u_wire := snd (sk_readline K w1)\<rparr>)"

definition uvm_disconnect :: "'w socket \<Rightarrow> 'w UVMTransport \<Rightarrow> (dbg_error + unit) \<times> 'w UVMTransport" where
  "uvm_disconnect K u =
     (if \<not> u_connected u then (Inr (), u)
      else let u1 = send_shutdown K u in (Inr (), u1\<lparr>u_wire := sk_close K (u_wire u1), u_connected := False\<rparr>))"

text \<open>\<^verbatim>\<open>str.splitlines\<close> on the characters with code points below 256.\<close>

definition line_break :: "char \<Rightarrow> bool" where
  "line_break c \<longleftrightarrow> (let n = of_char c :: nat in 10 \<le> n \<and> n \<le> 13 \<or> 0x1C \<le> n \<and> n \<le> 0x1E \<or> n = 0x85)"

fun splitlines :: "string \<Rightarrow> string list" where
  "splitlines [] = []"
| "splitlines (c # cs) =
     (if line_break c then [] # splitlines (if c = CHR 0x0D \<and> cs \<noteq> [] \<and> hd cs = CHR 0x0A then tl cs else cs)
      else case splitlines cs of [] \<Rightarrow> [[c]] | l # ls \<Rightarrow> (c # l) # ls)"

fun log_lines :: "'w socket \<Rightarrow> int \<Rightarrow> string list \<Rightarrow> 'w UVMTransport \<Rightarrow> 'w UVMTransport" where
  "log_lines K verbosity [] u = u"
| "log_lines K verbosity (l # ls) u =
     (let (r, u1) = transact K [(''op'', JStr ''log''), (''text'', JStr l), (''data'', JInt verbosity)] u
      in case r of Inl _ \<Rightarrow> u1 | Inr _ \<Rightarrow> log_lines K verbosity ls u1)"

definition emit_log :: "'w socket \<Rightarrow> string \<Rightarrow> int \<Rightarrow> 'w UVMTransport \<Rightarrow> 'w UVMTransport" where
  "emit_log K txt verbosity u =
     (if \<not> u_connected u then u
      else log_lines K verbosity (if splitlines txt = [] then [[]] else splitlines txt) u)"

subsection \<open>As a transport\<close>

text \<open>
  The command library computes with what a read returns; a value that is not a number fails there with a
  \<^verbatim>\<open>TypeError\<close>.
\<close>

definition as_word :: "json \<Rightarrow> dbg_error + int" where
  "as_word j = (case j of JInt v \<Rightarrow> Inr v | JBool b \<Rightarrow> Inr (int_of_bool b) | _ \<Rightarrow> Inl (Raised (TypeError ''word'')))"

definition uvm_transport :: "'w socket \<Rightarrow> (nat \<Rightarrow> int) \<Rightarrow> 'w UVMTransport transport" where
  "uvm_transport K clock =
     \<lparr>t_read = (\<lambda>addr u. let (r, u1) = uvm_read K addr u in (case r of Inl e \<Rightarrow> Inl e | Inr j \<Rightarrow> as_word j, u1)),
      t_write = uvm_write K, t_connect = uvm_connect K, t_disconnect = uvm_disconnect K, t_reset = uvm_reset K,
      t_connected = u_connected, t_monotonic = clock\<rparr>"

subsection \<open>Transactions, case by case\<close>

text \<open>A reply that \<^verbatim>\<open>_transact\<close> accepts: an object with the identifier sent and the status \<^verbatim>\<open>ok\<close>.\<close>

definition accepts_reply :: "int \<Rightarrow> json \<Rightarrow> bool" where
  "accepts_reply tx_id resp \<longleftrightarrow> (case resp of
       JObj kvs \<Rightarrow> (case map_of kvs ''id'' of None \<Rightarrow> False | Some j \<Rightarrow> json_eq_int tx_id j) \<and> map_of kvs ''status'' = Some (JStr ''ok'')
     | _ \<Rightarrow> False)"

lemma check_reply_iff: "check_reply tx_id resp = Inr r \<longleftrightarrow> accepts_reply tx_id resp \<and> r = resp"
  by (cases resp) (auto simp: check_reply_def accepts_reply_def resp_get_def split: option.splits)

lemma transact_cases:
  assumes "transact K payload u = (r, u')"
  shows "u_connected u' = u_connected u" "u_failed_steps u' = u_failed_steps u"
    "u_id_counter u' = (if u_connected u then u_id_counter u + 1 else u_id_counter u)"
    "r = Inr resp \<longleftrightarrow> u_connected u \<and>
       (\<exists>w1. sk_sendall K (request_line (payload @ [(''id'', JInt (u_id_counter u + 1))])) (u_wire u) = (Inr (), w1) \<and>
             fst (sk_readline K w1) = LJson resp \<and> accepts_reply (u_id_counter u + 1) resp)"
proof -
  let ?n = "u_id_counter u + 1"
  obtain sent w1 where s: "sk_sendall K (request_line (payload @ [(''id'', JInt ?n)])) (u_wire u) = (sent, w1)" by fastforce
  obtain raw w2 where l: "sk_readline K w1 = (raw, w2)" by fastforce
  note d = assms [unfolded transact_def uvm_next_id_def, simplified, unfolded s]
  show "u_connected u' = u_connected u" "u_failed_steps u' = u_failed_steps u"
    "u_id_counter u' = (if u_connected u then ?n else u_id_counter u)"
    using d by (auto simp: read_reply_def l Let_def split: if_splits sum.splits prod.splits line.splits)
  show "r = Inr resp \<longleftrightarrow> u_connected u \<and>
       (\<exists>w1. sk_sendall K (request_line (payload @ [(''id'', JInt ?n)])) (u_wire u) = (Inr (), w1) \<and>
             fst (sk_readline K w1) = LJson resp \<and> accepts_reply ?n resp)"
    using d s l by (auto simp: read_reply_def check_reply_iff split: if_splits sum.splits prod.splits line.splits)
qed

lemma request_line_framed: "CHR 0x0A \<notin> set (butlast (request_line payload))" "last (request_line payload) = CHR 0x0A"
proof -
  have "\<not> plain_char (CHR 0x0A)" by code_simp
  then show "CHR 0x0A \<notin> set (butlast (request_line payload))" "last (request_line payload) = CHR 0x0A"
    using dumps_plain [of "JObj payload"] by (auto simp: request_line_def list_all_iff simp del: dumps.simps)
qed

lemma disconnect_total: "fst (uvm_disconnect K u) = Inr ()" "\<not> u_connected (snd (uvm_disconnect K u))"
  by (simp_all add: uvm_disconnect_def Let_def)

lemma jtag_scan_bounds: "jtag_scan K ir n data pause u = (Inr v, u') \<Longrightarrow> 1 \<le> n \<and> n \<le> 32 \<and> 0 \<le> v \<and> v < 2 ^ nat n"
proof -
  assume a: "jtag_scan K ir n data pause u = (Inr v, u')"
  then have n: "1 \<le> n \<and> n \<le> 32" by (simp add: jtag_scan_def split: if_splits)
  have "0 \<le> x AND (push_bit (nat n) 1 - 1)" "x AND (push_bit (nat n) 1 - 1) < 2 ^ nat n" for x :: int
    by (simp_all add: push_bit_eq_mult and_exp_minus_1 del: push_bit_of_1)
  then show ?thesis using a n
    by (auto simp: jtag_scan_def transact_masked_def and_data_def Let_def split: prod.splits sum.splits option.splits json.splits)
qed

end
