(* ===== verification/OpenOcdTransport.thy ===== *)
theory OpenOcdTransport
  imports JsonText MockTransport
begin

text \<open>
  \<^verbatim>\<open>src/src/pydebug/api/openocd_transport.py\<close>: the transport that sends TCL commands to OpenOCD and reads each
  response up to its end marker. The TCP connection is a parameter. Responses are taken to be ASCII (the
  bytes are kept as characters), of an error message only the fixed text is kept, and log messages
  and sleeps are left out.
\<close>

subsection \<open>Hexadecimal text\<close>

fun hex_nat :: "nat \<Rightarrow> string" where
  "hex_nat n = (if n < 16 then [hex_digit n] else hex_nat (n div 16) @ [hex_digit (n mod 16)])"

declare hex_nat.simps [simp del]

text \<open>\<^verbatim>\<open>{n:#x}\<close> and \<^verbatim>\<open>{n:#010x}\<close>: the zeros go between the prefix and the digits.\<close>

definition format_hex :: "int \<Rightarrow> string" where
  "format_hex n = (if n < 0 then ''-'' else []) @ ''0x'' @ hex_nat (nat \<bar>n\<bar>)"

definition format_hex010 :: "int \<Rightarrow> string" where
  "format_hex010 n = (let sign = (if n < 0 then ''-'' else []); digits = hex_nat (nat \<bar>n\<bar>)
     in sign @ ''0x'' @ replicate (8 - length sign - length digits) (CHR ''0'') @ digits)"

definition hex_char :: "char \<Rightarrow> bool" where
  "hex_char c \<longleftrightarrow> is_digit c \<or> (let n = of_char c :: nat in 97 \<le> n \<and> n \<le> 102 \<or> 65 \<le> n \<and> n \<le> 70)"

definition hex_char_val :: "char \<Rightarrow> nat" where
  "hex_char_val c = (let n = of_char c in if n \<le> 57 then n - 48 else if n \<le> 70 then n - 55 else n - 87)"

definition hex_digits_val :: "string \<Rightarrow> nat" where
  "hex_digits_val s = fold (\<lambda>c acc. 16 * acc + hex_char_val c) s 0"

subsection \<open>\<^verbatim>\<open>_parse_int\<close>\<close>

text \<open>The first match of \<^verbatim>\<open>0x([0-9a-fA-F]+)\<close>, its digits.\<close>

fun find_hex :: "string \<Rightarrow> string option" where
  "find_hex (z # x # c # cs) =
     (if z = CHR ''0'' \<and> x = CHR ''x'' \<and> hex_char c then Some (takeWhile hex_char (c # cs)) else find_hex (x # c # cs))"
| "find_hex _ = None"

text \<open>\<^verbatim>\<open>\w\<close> on ASCII.\<close>

definition is_word :: "char \<Rightarrow> bool" where
  "is_word c \<longleftrightarrow> is_digit c \<or> c = CHR ''_'' \<or> (let n = of_char c :: nat in 65 \<le> n \<and> n \<le> 90 \<or> 97 \<le> n \<and> n \<le> 122)"

text \<open>The first match of \<^verbatim>\<open>\b(\d+)\b\<close>: a run of digits with no word character on either side.\<close>

fun find_decimal :: "bool \<Rightarrow> string \<Rightarrow> string option" where
  "find_decimal after_word [] = None"
| "find_decimal after_word (c # cs) =
     (let rest = dropWhile is_digit (c # cs)
      in if \<not> after_word \<and> is_digit c \<and> (rest = [] \<or> \<not> is_word (hd rest)) then Some (takeWhile is_digit (c # cs))
         else find_decimal (is_word c) cs)"

definition parse_int :: "string \<Rightarrow> dbg_error + int" where
  "parse_int s0 =
     (let s = strip s0 in
      case find_hex s of
        Some ds \<Rightarrow> Inr (int (hex_digits_val ds))
      | None \<Rightarrow> (case find_decimal False s of
          Some ds \<Rightarrow> Inr (int (digits_nat ds))
        | None \<Rightarrow> Inl (TransportError ''OpenOCDTransport: cannot parse int'')))"

subsection \<open>The connection\<close>

text \<open>\<^verbatim>\<open>recv\<close> raises an \<^verbatim>\<open>OSError\<close> (a timeout is one) or gives the next bytes, none when the peer has closed.\<close>

record 'w tcp =
  tc_connect :: "'w \<Rightarrow> (unit + unit) \<times> 'w"
  tc_sendall :: "string \<Rightarrow> 'w \<Rightarrow> (unit + unit) \<times> 'w"
  tc_recv :: "'w \<Rightarrow> (unit + string) \<times> 'w"
  tc_close :: "'w \<Rightarrow> 'w"

record 'w OpenOCDTransport =
  oc_connected :: bool
  oc_wire :: 'w

definition OpenOCDTransport_init :: "'w \<Rightarrow> 'w OpenOCDTransport" where
  "OpenOCDTransport_init w = \<lparr>oc_connected = False, oc_wire = w\<rparr>"

definition EOF_MARKER :: char where "EOF_MARKER = CHR 0x1A"

text \<open>The loop of \<^verbatim>\<open>_recv_until_eof\<close>; a peer that keeps sending without the marker keeps it going.\<close>

partial_function (option) recv_until_eof :: "'w tcp \<Rightarrow> string \<Rightarrow> 'w \<Rightarrow> ((dbg_error + string) \<times> 'w) option" where
  "recv_until_eof C buf w =
     (case tc_recv C w of
        (Inl _, w1) \<Rightarrow> Some (Inl (TransportError ''OpenOCDTransport''), w1)
      | (Inr chunk, w1) \<Rightarrow>
          if chunk = [] then Some (Inl (TransportError ''OpenOCDTransport: connection closed''), w1)
          else if EOF_MARKER \<in> set (buf @ chunk) then Some (Inr (strip (takeWhile (\<lambda>c. c \<noteq> EOF_MARKER) (buf @ chunk))), w1)
          else recv_until_eof C (buf @ chunk) w1)"

definition send_tcl :: "'w tcp \<Rightarrow> string \<Rightarrow> 'w OpenOCDTransport \<Rightarrow> ((dbg_error + string) \<times> 'w OpenOCDTransport) option" where
  "send_tcl C cmd oc =
     (if \<not> oc_connected oc then Some (Inl (TransportError ''OpenOCDTransport: not connected''), oc)
      else case tc_sendall C (cmd @ [EOF_MARKER]) (oc_wire oc) of
             (Inl _, w1) \<Rightarrow> Some (Inl (TransportError ''OpenOCDTransport''), oc\<lparr>oc_wire := w1\<rparr>)
           | (Inr _, w1) \<Rightarrow> map_option (\<lambda>(r, w2). (r, oc\<lparr>oc_wire := w2\<rparr>)) (recv_until_eof C [] w1))"

definition tcl_read :: "int \<Rightarrow> string" where
  "tcl_read addr = ''riscv dmi_read '' @ format_hex addr"

definition tcl_write :: "int \<Rightarrow> int \<Rightarrow> string" where
  "tcl_write addr data = ''riscv dmi_write '' @ format_hex addr @ '' '' @ format_hex010 data"

definition openocd_read :: "'w tcp \<Rightarrow> int \<Rightarrow> 'w OpenOCDTransport \<Rightarrow> ((dbg_error + int) \<times> 'w OpenOCDTransport) option" where
  "openocd_read C addr oc =
     map_option (\<lambda>(r, oc1). (case r of Inl e \<Rightarrow> Inl e | Inr resp \<Rightarrow> parse_int resp, oc1)) (send_tcl C (tcl_read addr) oc)"

definition openocd_write :: "'w tcp \<Rightarrow> int \<Rightarrow> int \<Rightarrow> 'w OpenOCDTransport \<Rightarrow> ((dbg_error + unit) \<times> 'w OpenOCDTransport) option" where
  "openocd_write C addr data oc =
     map_option (\<lambda>(r, oc1). (case r of Inl e \<Rightarrow> Inl e | Inr _ \<Rightarrow> Inr (), oc1)) (send_tcl C (tcl_write addr data) oc)"

definition openocd_reset :: "'w tcp \<Rightarrow> 'w OpenOCDTransport \<Rightarrow> ((dbg_error + unit) \<times> 'w OpenOCDTransport) option" where
  "openocd_reset C oc =
     map_option (\<lambda>(r, oc1). (case r of Inl e \<Rightarrow> Inl e | Inr _ \<Rightarrow> Inr (), oc1)) (send_tcl C ''reset halt'' oc)"

subsection \<open>Lifecycle\<close>

text \<open>\<^verbatim>\<open>for _ in range(30)\<close>: the first attempt that succeeds ends the loop.\<close>

fun connect_attempts :: "'w tcp \<Rightarrow> nat \<Rightarrow> 'w OpenOCDTransport \<Rightarrow> (dbg_error + unit) \<times> 'w OpenOCDTransport" where
  "connect_attempts C 0 oc = (Inl (TransportError ''OpenOCDTransport: cannot connect''), oc)"
| "connect_attempts C (Suc n) oc =
     (case tc_connect C (oc_wire oc) of
        (Inr _, w1) \<Rightarrow> (Inr (), oc\<lparr>oc_wire := w1, oc_connected := True\<rparr>)
      | (Inl _, w1) \<Rightarrow> connect_attempts C n (oc\<lparr>oc_wire := w1\<rparr>))"

definition openocd_connect :: "'w tcp \<Rightarrow> 'w OpenOCDTransport \<Rightarrow> (dbg_error + unit) \<times> 'w OpenOCDTransport" where
  "openocd_connect C oc = (if oc_connected oc then (Inr (), oc) else connect_attempts C 30 oc)"

definition openocd_disconnect :: "'w tcp \<Rightarrow> 'w OpenOCDTransport \<Rightarrow> (dbg_error + unit) \<times> 'w OpenOCDTransport" where
  "openocd_disconnect C oc =
     (if \<not> oc_connected oc then (Inr (), oc) else (Inr (), oc\<lparr>oc_wire := tc_close C (oc_wire oc), oc_connected := False\<rparr>))"

text \<open>
  As a transport. Its operations return; one that would not, because a peer never ends a response, is
  given an error of its own here, and what is proved below of sessions shows that it does not occur.
\<close>

definition returned :: "'s \<Rightarrow> ((dbg_error + 'a) \<times> 's) option \<Rightarrow> (dbg_error + 'a) \<times> 's" where
  "returned s r = (case r of None \<Rightarrow> (Inl (TransportError ''OpenOCDTransport: does not return''), s) | Some x \<Rightarrow> x)"

definition openocd_transport :: "'w tcp \<Rightarrow> (nat \<Rightarrow> int) \<Rightarrow> 'w OpenOCDTransport transport" where
  "openocd_transport C clock =
     \<lparr>t_read = (\<lambda>addr oc. returned oc (openocd_read C addr oc)), t_write = (\<lambda>addr v oc. returned oc (openocd_write C addr v oc)),
      t_connect = openocd_connect C, t_disconnect = openocd_disconnect C, t_reset = (\<lambda>oc. returned oc (openocd_reset C oc)),
      t_connected = oc_connected, t_monotonic = clock\<rparr>"

subsection \<open>Receiving in pieces\<close>

text \<open>The peer hands over the pieces one by one.\<close>

fun delivers :: "'w tcp \<Rightarrow> 'w \<Rightarrow> string list \<Rightarrow> 'w \<Rightarrow> bool" where
  "delivers C w [] w' \<longleftrightarrow> w = w'"
| "delivers C w (c # cs) w' \<longleftrightarrow> (\<exists>w1. tc_recv C w = (Inr c, w1) \<and> delivers C w1 cs w')"

text \<open>What the loop does with the pieces up to the first that ends it.\<close>

lemma recv_exact:
  assumes "delivers C w cs w'" "[] \<notin> set (butlast cs)" "cs \<noteq> []" "EOF_MARKER \<notin> set (buf @ concat (butlast cs))"
  shows "recv_until_eof C buf w =
    (if last cs = [] then Some (Inl (TransportError ''OpenOCDTransport: connection closed''), w')
     else if EOF_MARKER \<in> set (last cs) then Some (Inr (strip (takeWhile (\<lambda>c. c \<noteq> EOF_MARKER) (buf @ concat cs))), w')
     else recv_until_eof C (buf @ concat cs) w')"
  using assms
proof (induction cs arbitrary: buf w)
  case (Cons c cs)
  obtain w1 where w1: "tc_recv C w = (Inr c, w1)" "delivers C w1 cs w'" using Cons.prems(1) by auto
  show ?case
  proof (cases "cs = []")
    case True
    then show ?thesis using w1 Cons.prems(4) by (subst recv_until_eof.simps) auto
  next
    case False
    then have "recv_until_eof C buf w = recv_until_eof C (buf @ c) w1" using w1(1) Cons.prems(2,4) by (subst recv_until_eof.simps) auto
    then show ?thesis using False Cons.prems Cons.IH [OF w1(2), of "buf @ c"] by simp
  qed
qed simp

subsection \<open>Numbers and their text\<close>

lemma hex_digit_hex: "n < 16 \<Longrightarrow> hex_char (hex_digit n)" "n < 16 \<Longrightarrow> hex_char_val (hex_digit n) = n"
  by (auto simp: hex_char_def is_digit_def hex_digit_def hex_char_val_def of_char_of Let_def)

lemma hex_nat_digits: "list_all hex_char (hex_nat n)" "hex_digits_val (hex_nat n) = n" "hex_nat n \<noteq> []"
proof (induction n rule: hex_nat.induct)
  case (1 n)
  { case 1 show ?case using "1.IH"(1) hex_digit_hex by (subst hex_nat.simps) simp }
  { case 2 show ?case using "1.IH"(2) hex_digit_hex by (subst hex_nat.simps) (simp add: hex_digits_val_def) }
  { case 3 show ?case by (subst hex_nat.simps) simp }
qed

lemma hex_not_space: "hex_char c \<Longrightarrow> \<not> is_space c" "hex_char c \<Longrightarrow> c \<noteq> CHR '' ''" "hex_char c \<Longrightarrow> c \<noteq> EOF_MARKER"
  by (auto simp: hex_char_def is_digit_def is_space_def EOF_MARKER_def Let_def)

lemma zeros_value: "hex_digits_val (replicate k (CHR ''0'') @ ds) = hex_digits_val ds"
proof -
  have "hex_char_val (CHR ''0'') = 0" by code_simp
  then have "fold (\<lambda>c acc. 16 * acc + hex_char_val c) (replicate k (CHR ''0'')) (0 :: nat) = 0" by (induction k) simp_all
  then show ?thesis by (simp add: hex_digits_val_def)
qed

lemma strip_id:
  assumes "s \<noteq> []" "\<not> is_space (hd s)" "\<not> is_space (last s)"
  shows "strip s = s"
proof -
  have "dropWhile is_space t = t" if "t \<noteq> []" "\<not> is_space (hd t)" for t using that by (cases t) simp_all
  with assms show ?thesis by (simp add: strip_def hd_rev)
qed

text \<open>A number written with its prefix, digits alone after it.\<close>

definition hex_text :: "string \<Rightarrow> nat \<Rightarrow> bool" where
  "hex_text s n \<longleftrightarrow> (\<exists>ds. s = ''0x'' @ ds \<and> ds \<noteq> [] \<and> list_all hex_char ds \<and> hex_digits_val ds = n)"

lemma hex_text_format:
  "0 \<le> n \<Longrightarrow> hex_text (format_hex n) (nat n)" "0 \<le> n \<Longrightarrow> hex_text (format_hex010 n) (nat n)"
  "n < 0 \<Longrightarrow> \<exists>t. format_hex n = CHR ''-'' # t \<and> hex_text t (nat (- n))"
  "n < 0 \<Longrightarrow> \<exists>t. format_hex010 n = CHR ''-'' # t \<and> hex_text t (nat (- n))"
proof -
  have z: "list_all hex_char (replicate k (CHR ''0''))" for k by (induction k) (simp_all add: hex_char_def is_digit_def)
  show "0 \<le> n \<Longrightarrow> hex_text (format_hex n) (nat n)" "n < 0 \<Longrightarrow> \<exists>t. format_hex n = CHR ''-'' # t \<and> hex_text t (nat (- n))"
    using hex_nat_digits by (auto simp: hex_text_def format_hex_def)
  show "0 \<le> n \<Longrightarrow> hex_text (format_hex010 n) (nat n)" "n < 0 \<Longrightarrow> \<exists>t. format_hex010 n = CHR ''-'' # t \<and> hex_text t (nat (- n))"
    using hex_nat_digits z zeros_value by (auto simp: hex_text_def format_hex010_def Let_def)
qed

lemma hex_text_parses:
  assumes "hex_text s n"
  shows "parse_int s = Inr (int n)" "strip s = s" "EOF_MARKER \<notin> set s" "CHR '' '' \<notin> set s" "s \<noteq> []"
proof -
  obtain ds where ds: "s = ''0x'' @ ds" "ds \<noteq> []" "list_all hex_char ds" "hex_digits_val ds = n" using assms by (auto simp: hex_text_def)
  obtain c cs where c: "ds = c # cs" "hex_char c" using ds(2,3) by (cases ds) auto
  have "hex_char (last ds)" using ds(2,3) by (simp add: list_all_iff)
  moreover have "\<not> is_space (CHR ''0'')" by code_simp
  ultimately show st: "strip s = s" using ds(1,2) by (intro strip_id) (simp_all add: hex_not_space)
  have "takeWhile hex_char ds = ds" using ds(3) by (auto simp: list_all_iff takeWhile_eq_all_conv)
  then have "find_hex s = Some ds" using ds(1) c by simp
  then show "parse_int s = Inr (int n)" by (simp add: parse_int_def st ds(4))
  show "EOF_MARKER \<notin> set s" "CHR '' '' \<notin> set s" "s \<noteq> []"
    using ds(1,3) hex_not_space(2,3) by (auto simp: list_all_iff EOF_MARKER_def)
qed

end
