(* ===== verification/OpenOcdServer.thy ===== *)
theory OpenOcdServer
  imports OpenOcdTransport SequenceProps
begin

text \<open>
  Sessions through OpenOCD: what the transport needs of the server and the device behind it, as a locale; that with such a server it
  is a target like any other; and a server of that kind in front of a device that follows the golden model, which sends
  its responses byte by byte.
\<close>

subsection \<open>The server\<close>

text \<open>A response: its text, then the marker, in pieces of any size.\<close>

definition responds :: "'w tcp \<Rightarrow> 'w \<Rightarrow> string \<Rightarrow> 'w \<Rightarrow> bool" where
  "responds C w r w' \<longleftrightarrow> EOF_MARKER \<notin> set r \<and> (\<exists>cs. delivers C w cs w' \<and> [] \<notin> set cs \<and> concat cs = r @ [EOF_MARKER])"

lemma recv_response:
  assumes "responds C w r w'"
  shows "recv_until_eof C [] w = Some (Inr (strip r), w')"
proof -
  obtain cs where cs: "EOF_MARKER \<notin> set r" "delivers C w cs w'" "[] \<notin> set cs" "concat cs = r @ [EOF_MARKER]"
    using assms by (auto simp: responds_def)
  from cs(4) have ne: "cs \<noteq> []" by auto
  have "last cs \<noteq> []" using ne cs(3) by (metis last_in_set)
  then obtain ys y where y: "last cs = ys @ [y]" by (metis append_butlast_last_id)
  have cc: "concat cs = concat (butlast cs) @ last cs" using ne by (metis append_butlast_last_id concat_append concat.simps append_Nil2)
  then have "r = concat (butlast cs) @ ys" "y = EOF_MARKER" using cs(4) y by simp_all
  then have "EOF_MARKER \<notin> set ([] @ concat (butlast cs))" using cs(1) by auto
  moreover have "EOF_MARKER \<in> set (last cs)" using y \<open>y = EOF_MARKER\<close> by simp
  moreover have "[] \<notin> set (butlast cs)" using cs(3) by (meson in_set_butlastD)
  moreover have "takeWhile (\<lambda>c. c \<noteq> EOF_MARKER) (r @ [EOF_MARKER]) = r" using cs(1) by (induction r) auto
  ultimately show ?thesis using recv_exact [OF cs(2) _ ne, of "[]"] \<open>last cs \<noteq> []\<close> cs(4) by simp
qed

text \<open>The device behind the server follows the golden model, with the effects \<open>observe_read\<close> gives a read.\<close>

locale tcl_server =
  fixes C :: "'w tcp" and serves :: "'w \<Rightarrow> DMPredictor \<Rightarrow> bool"
  assumes read_served: "serves w p \<Longrightarrow> has_model p a \<Longrightarrow> \<exists>r w1 w'. tc_sendall C (tcl_read a @ [EOF_MARKER]) w = (Inr (), w1) \<and>
      responds C w1 r w' \<and> parse_int (strip r) = Inr (predict p a) \<and> serves w' (observe_read a p)"
    and write_served: "serves w p \<Longrightarrow> \<exists>r w1 w'. tc_sendall C (tcl_write a x @ [EOF_MARKER]) w = (Inr (), w1) \<and> responds C w1 r w' \<and>
      serves w' (on_write a x p)"
begin

definition serving :: "'w OpenOCDTransport \<Rightarrow> DMPredictor \<Rightarrow> bool" where
  "serving oc p \<longleftrightarrow> oc_connected oc \<and> serves (oc_wire oc) p"

lemma send_answered:
  assumes "oc_connected oc" "tc_sendall C (cmd @ [EOF_MARKER]) (oc_wire oc) = (Inr (), w1)" "responds C w1 r w'"
  shows "send_tcl C cmd oc = Some (Inr (strip r), oc\<lparr>oc_wire := w'\<rparr>)"
  using assms recv_response [OF assms(3)] by (simp add: send_tcl_def)

lemma read_run:
  assumes "serving oc p" "has_model p a"
  shows "\<exists>oc'. t_read (openocd_transport C clock) a oc = (Inr (predict p a), oc') \<and> serving oc' (observe_read a p)"
proof -
  obtain r w1 w' where r: "tc_sendall C (tcl_read a @ [EOF_MARKER]) (oc_wire oc) = (Inr (), w1)" "responds C w1 r w'"
    "parse_int (strip r) = Inr (predict p a)" "serves w' (observe_read a p)"
    using read_served [of "oc_wire oc" p a] assms unfolding serving_def by blast
  have "t_read (openocd_transport C clock) a oc = (Inr (predict p a), oc\<lparr>oc_wire := w'\<rparr>)"
    using assms r(3) send_answered [OF _ r(1,2)] by (simp add: openocd_transport_def openocd_read_def returned_def serving_def)
  with r(4) assms show ?thesis by (auto simp: serving_def)
qed

lemma write_run:
  assumes "serving oc p"
  shows "\<exists>oc'. t_write (openocd_transport C clock) a x oc = (Inr (), oc') \<and> serving oc' (on_write a x p)"
proof -
  obtain r w1 w' where r: "tc_sendall C (tcl_write a x @ [EOF_MARKER]) (oc_wire oc) = (Inr (), w1)" "responds C w1 r w'"
    "serves w' (on_write a x p)" using write_served [of "oc_wire oc" p a x] assms unfolding serving_def by blast
  then show ?thesis
    using assms send_answered [OF _ r(1,2)] by (auto simp: openocd_transport_def openocd_write_def returned_def serving_def)
qed

lemma openocd_target: "dm_target (openocd_transport C clock) serving observe_read"
  by unfold_locales (use write_run read_run quiet_observe_read data_observe_read in \<open>blast+\<close>)

end

subsection \<open>A server in front of the golden model\<close>

record model_server =
  sv_model :: DMPredictor
  sv_pieces :: "string list"

definition signed_hex :: "string \<Rightarrow> int" where
  "signed_hex s = (if s \<noteq> [] \<and> hd s = CHR ''-'' then - int (hex_digits_val (drop 3 s)) else int (hex_digits_val (drop 2 s)))"

definition serve_command :: "string \<Rightarrow> DMPredictor \<Rightarrow> string \<times> DMPredictor" where
  "serve_command cmd p =
     (if take 15 cmd = ''riscv dmi_read '' then
        (let a = signed_hex (drop 15 cmd) in (format_hex010 (predict p a), observe_read a p))
      else if take 16 cmd = ''riscv dmi_write '' then
        (let args = drop 16 cmd; a = takeWhile (\<lambda>c. c \<noteq> CHR '' '') args; x = drop 1 (dropWhile (\<lambda>c. c \<noteq> CHR '' '') args)
         in ([], on_write (signed_hex a) (signed_hex x) p))
      else ([], p))"

definition model_tcp :: "model_server tcp" where
  "model_tcp =
     \<lparr>tc_connect = (\<lambda>b. (Inr (), b)),
      tc_sendall = (\<lambda>cmd b. let (r, m) = serve_command (butlast cmd) (sv_model b)
         in (Inr (), b\<lparr>sv_model := m, sv_pieces := map (\<lambda>c. [c]) (r @ [EOF_MARKER])\<rparr>)),
      tc_recv = (\<lambda>b. case sv_pieces b of [] \<Rightarrow> (Inr [], b) | c # cs \<Rightarrow> (Inr c, b\<lparr>sv_pieces := cs\<rparr>)),
      tc_close = (\<lambda>b. b)\<rparr>"

definition server_serves :: "model_server \<Rightarrow> DMPredictor \<Rightarrow> bool" where
  "server_serves b p \<longleftrightarrow> sv_model b = p \<and> reachable p \<and> sv_pieces b = []"

lemma signed_hex_format: "signed_hex (format_hex n) = n" "signed_hex (format_hex010 n) = n"
  using hex_nat_digits(2) zeros_value by (auto simp: signed_hex_def format_hex_def format_hex010_def Let_def)

lemma negative_hex_parses:
  assumes "hex_text t n"
  shows "parse_int (CHR ''-'' # t) = Inr (int n)" "strip (CHR ''-'' # t) = CHR ''-'' # t"
proof -
  obtain ds where ds: "t = ''0x'' @ ds" "ds \<noteq> []" "list_all hex_char ds" "hex_digits_val ds = n" using assms by (auto simp: hex_text_def)
  have "hex_char (last ds)" using ds(2,3) by (simp add: list_all_iff)
  moreover have "\<not> is_space (CHR ''-'')" by code_simp
  ultimately show st: "strip (CHR ''-'' # t) = CHR ''-'' # t" using ds(1,2) by (intro strip_id) (simp_all add: hex_not_space)
  have "takeWhile hex_char ds = ds" using ds(3) by (auto simp: list_all_iff takeWhile_eq_all_conv)
  then have "find_hex (CHR ''-'' # t) = Some ds" using ds(1-3) by (cases ds) simp_all
  then show "parse_int (CHR ''-'' # t) = Inr (int n)" by (simp add: parse_int_def st ds(4))
qed

lemma format_words:
  "CHR '' '' \<notin> set (format_hex n)" "EOF_MARKER \<notin> set (format_hex010 v)" "parse_int (strip (format_hex010 v)) = Inr \<bar>v\<bar>"
proof -
  have m: "CHR ''-'' \<noteq> EOF_MARKER" by code_simp
  show "CHR '' '' \<notin> set (format_hex n)"
  proof (cases "n < 0")
    case True
    with hex_text_format(3) [OF True] hex_text_parses(4) show ?thesis by fastforce
  next
    case False
    then show ?thesis using hex_text_parses(4) [OF hex_text_format(1)] by simp
  qed
  show "EOF_MARKER \<notin> set (format_hex010 v)" "parse_int (strip (format_hex010 v)) = Inr \<bar>v\<bar>"
  proof -
    have "EOF_MARKER \<notin> set (format_hex010 v) \<and> parse_int (strip (format_hex010 v)) = Inr \<bar>v\<bar>"
    proof (cases "v < 0")
      case True
      obtain t where t: "format_hex010 v = CHR ''-'' # t" "hex_text t (nat (- v))" using hex_text_format(4) [OF True] by blast
      then show ?thesis using hex_text_parses(3) [OF t(2)] negative_hex_parses [OF t(2)] m True by auto
    next
      case False
      then have h: "hex_text (format_hex010 v) (nat v)" using hex_text_format(2) by simp
      show ?thesis using hex_text_parses(1,2,3) [OF h] False by simp
    qed
    then show "EOF_MARKER \<notin> set (format_hex010 v)" "parse_int (strip (format_hex010 v)) = Inr \<bar>v\<bar>" by simp_all
  qed
qed

lemma model_delivers: "delivers model_tcp b (map (\<lambda>c. [c]) cs) (b\<lparr>sv_pieces := []\<rparr>)" if "sv_pieces b = map (\<lambda>c. [c]) cs"
  using that
proof (induction cs arbitrary: b)
  case (Cons c cs)
  have "tc_recv model_tcp b = (Inr [c], b\<lparr>sv_pieces := map (\<lambda>c. [c]) cs\<rparr>)" using Cons.prems by (simp add: model_tcp_def)
  then show ?case using Cons.IH [of "b\<lparr>sv_pieces := map (\<lambda>c. [c]) cs\<rparr>"] by simp
qed simp

lemma model_responds:
  assumes "EOF_MARKER \<notin> set r"
  shows "responds model_tcp (b\<lparr>sv_pieces := map (\<lambda>c. [c]) (r @ [EOF_MARKER])\<rparr>) r (b\<lparr>sv_pieces := []\<rparr>)"
  using model_delivers [of "b\<lparr>sv_pieces := map (\<lambda>c. [c]) (r @ [EOF_MARKER])\<rparr>" "r @ [EOF_MARKER]"] assms
  unfolding responds_def by (intro conjI exI [of _ "map (\<lambda>c. [c]) (r @ [EOF_MARKER])"]) (auto simp del: map_append)

lemma model_sendall:
  "tc_sendall model_tcp (cmd @ [EOF_MARKER]) b = (let (r, m) = serve_command cmd (sv_model b)
     in (Inr (), b\<lparr>sv_model := m, sv_pieces := map (\<lambda>c. [c]) (r @ [EOF_MARKER])\<rparr>))"
  by (simp add: model_tcp_def)

lemma serve_read: "serve_command (tcl_read a) p = (format_hex010 (predict p a), observe_read a p)"
  by (simp add: serve_command_def tcl_read_def signed_hex_format)

lemma serve_write: "serve_command (tcl_write a x) p = ([], on_write a x p)"
proof -
  have "takeWhile (\<lambda>c. c \<noteq> CHR '' '') (format_hex a @ CHR '' '' # t) = format_hex a"
    "dropWhile (\<lambda>c. c \<noteq> CHR '' '') (format_hex a @ CHR '' '' # t) = CHR '' '' # t" for t
    using format_words(1) [of a] by (induction "format_hex a") (auto simp: takeWhile_append dropWhile_append)
  then show ?thesis by (simp add: serve_command_def tcl_write_def signed_hex_format)
qed

interpretation model_server: tcl_server model_tcp server_serves
proof
  fix w p a assume w: "server_serves w p"
  have pos: "\<bar>predict p a\<bar> = predict p a" using w words_ok_predict [OF reachable_words_ok] by (simp add: server_serves_def w32_def)
  let ?q = "observe_read a p"
  let ?w1 = "w\<lparr>sv_model := ?q, sv_pieces := map (\<lambda>c. [c]) (format_hex010 (predict p a) @ [EOF_MARKER])\<rparr>"
  have "tc_sendall model_tcp (tcl_read a @ [EOF_MARKER]) w = (Inr (), ?w1)" using w by (simp add: model_sendall serve_read server_serves_def)
  moreover have "responds model_tcp ?w1 (format_hex010 (predict p a)) (w\<lparr>sv_model := ?q, sv_pieces := []\<rparr>)"
    using model_responds [where b = "w\<lparr>sv_model := ?q\<rparr>", OF format_words(2)] by simp
  moreover have "server_serves (w\<lparr>sv_model := ?q, sv_pieces := []\<rparr>) ?q" using w by (simp add: server_serves_def reachable.dmi_read)
  ultimately show "\<exists>r w1 w'. tc_sendall model_tcp (tcl_read a @ [EOF_MARKER]) w = (Inr (), w1) \<and> responds model_tcp w1 r w' \<and>
      parse_int (strip r) = Inr (predict p a) \<and> server_serves w' (observe_read a p)"
    using format_words(3) [of "predict p a"] unfolding pos by blast
next
  fix w p a x assume w: "server_serves w p"
  let ?q = "on_write a x p"
  let ?w1 = "w\<lparr>sv_model := ?q, sv_pieces := map (\<lambda>c. [c]) ([] @ [EOF_MARKER])\<rparr>"
  have "tc_sendall model_tcp (tcl_write a x @ [EOF_MARKER]) w = (Inr (), ?w1)" using w by (simp add: model_sendall serve_write server_serves_def)
  moreover have "responds model_tcp ?w1 [] (w\<lparr>sv_model := ?q, sv_pieces := []\<rparr>)"
    using model_responds [of "[]" "w\<lparr>sv_model := ?q\<rparr>"] by simp
  moreover have "server_serves (w\<lparr>sv_model := ?q, sv_pieces := []\<rparr>) ?q"
    using w by (simp add: server_serves_def reachable.dmi_write)
  ultimately show "\<exists>r w1 w'. tc_sendall model_tcp (tcl_write a x @ [EOF_MARKER]) w = (Inr (), w1) \<and> responds model_tcp w1 r w' \<and>
      server_serves w' (on_write a x p)" by blast
qed

subsection \<open>What the transport guarantees\<close>

text \<open>
  C14. A response is read whole and no further, however the connection cuts it: pieces whose text is
  a response, its end marker and anything after it in the piece of the marker give the stripped response;
  a connection that closes before the marker raises.
\<close>

theorem recv_until_eof_exact:
  assumes "delivers C w cs w'" "[] \<notin> set (butlast cs)" "cs \<noteq> []" "EOF_MARKER \<notin> set (concat (butlast cs))"
  shows "recv_until_eof C [] w =
    (if last cs = [] then Some (Inl (TransportError ''OpenOCDTransport: connection closed''), w')
     else if EOF_MARKER \<in> set (last cs) then Some (Inr (strip (takeWhile (\<lambda>c. c \<noteq> EOF_MARKER) (concat cs))), w')
     else recv_until_eof C (concat cs) w')"
  using recv_exact [OF assms(1-3), of "[]"] assms(4) by simp

theorem recv_until_eof_exact_witness:
  "recv_until_eof model_tcp [] \<lparr>sv_model = sample_dm, sv_pieces = ['' 0x'', ''2f'' @ [EOF_MARKER] @ ''0'']\<rparr> =
     Some (Inr ''0x2f'', \<lparr>sv_model = sample_dm, sv_pieces = []\<rparr>)"
proof -
  let ?w = "\<lambda>ps. \<lparr>sv_model = sample_dm, sv_pieces = ps\<rparr>"
  let ?cs = "['' 0x'', ''2f'' @ [EOF_MARKER] @ ''0'']"
  have "delivers model_tcp (?w ?cs) ?cs (?w [])" by (simp add: model_tcp_def)
  moreover have "strip '' 0x2f'' = ''0x2f'' \<and> EOF_MARKER \<notin> set '' 0x'' \<and> takeWhile (\<lambda>c. c \<noteq> EOF_MARKER) (concat ?cs) = '' 0x2f''" by code_simp
  ultimately show ?thesis using recv_until_eof_exact [of model_tcp "?w ?cs" ?cs "?w []"] by simp
qed

text \<open>
  Sessions through OpenOCD are sessions on the model too: with any server that answers the two DMI commands for a device that follows the
  golden model, in pieces of any size, each of four sessions passes every step.
\<close>

lemma openocd_sessions:
  assumes "tcl_server C serves" "oc_connected (t_state d)" "serves (oc_wire (t_state d)) p"
    and "startable p i" "\<not> reset_haltreq (harts p ! i)" "startable p 0" "num_harts p \<le> LIKELY_NONEXISTENT_HARTSEL"
    and "\<forall>j k. clk k - clk j < HALT_RESUME_RESPONSE_BOUND"
  shows "(\<exists>s. build_run_control_sequence (openocd_transport C clock) (\<lambda>_. None) clk ''batch'' (int i) = Inr s \<and> session_passes s (d, ())) \<and>
    (\<exists>s x. build_halt_on_reset_sequence (openocd_transport C clock) (\<lambda>_. None) ''batch'' (int i + 1) = Inr (s, x) \<and> session_passes s (d, x)) \<and>
    (\<exists>s. build_dm_activation_sequence (openocd_transport C clock) ''batch'' = Inr s \<and> session_passes s (d, ())) \<and>
    (\<exists>s. build_hart_selection_sequence (openocd_transport C clock) (\<lambda>_. None) ''batch'' = Inr s \<and> session_passes s (d, ()))"
proof -
  have T: "dm_target (openocd_transport C clock) (tcl_server.serving serves) observe_read" by (rule tcl_server.openocd_target [OF assms(1)])
  have d: "tcl_server.serving serves (t_state d) p" using assms(2,3) by (simp add: tcl_server.serving_def [OF assms(1)])
  show ?thesis
    using dm_target.run_control_session [OF T assms(4) d, of "\<lambda>_. None" clk] assms(8) dm_target.halt_on_reset_session [OF T assms(4,5) d, of "\<lambda>_. None"]
      dm_target.dm_activation_session [OF T assms(6) d] dm_target.hart_selection_session [OF T assms(6,7) d, of "\<lambda>_. None"] by simp
qed

end
