(* ===== verification/ModelCrosscheck.thy ===== *)
theory ModelCrosscheck
  imports DutConfig OpenOcdTransport
begin

text \<open>
  \<^verbatim>\<open>src/mk/model_crosscheck.py\<close>: replaying the trace of a simulation's reference model through the
  predictor and comparing the two at every read. The text of a trace is split into lines and words as Python
  does; the files are a parameter, paths are kept as text, and of the reason of a divergence the values are
  kept and not the wording. The markdown of the report is left out, its totals are not.
\<close>

unbundle bit_operations_syntax

subsection \<open>Lines and words\<close>

text \<open>\<^verbatim>\<open>str.splitlines\<close> and \<^verbatim>\<open>str.split\<close> on the characters with code points below 256.\<close>

definition line_break :: "char \<Rightarrow> bool" where
  "line_break c \<longleftrightarrow> (of_char c :: nat) \<in> {10, 11, 12, 13, 28, 29, 30, 133}"

fun crlf :: "string \<Rightarrow> string" where
  "crlf (c # d # cs) = (if c = CHR 0x0D \<and> d = CHR 0x0A then d # crlf cs else c # crlf (d # cs))"
| "crlf cs = cs"

fun break_lines :: "string \<Rightarrow> string list" where
  "break_lines [] = []"
| "break_lines (c # cs) =
     (if line_break c then [] # break_lines cs
      else case break_lines cs of [] \<Rightarrow> [[c]] | l # ls \<Rightarrow> (c # l) # ls)"

definition splitlines :: "string \<Rightarrow> string list" where
  "splitlines s = break_lines (crlf s)"

fun words_acc :: "string \<Rightarrow> string \<Rightarrow> string list" where
  "words_acc w [] = (if w = [] then [] else [w])"
| "words_acc w (c # cs) =
     (if is_space c then (if w = [] then words_acc [] cs else w # words_acc [] cs) else words_acc (w @ [c]) cs)"

definition words :: "string \<Rightarrow> string list" where
  "words s = words_acc [] s"

fun unwords :: "string list \<Rightarrow> string" where
  "unwords [] = []"
| "unwords [w] = w"
| "unwords (w # ws) = w @ '' '' @ unwords ws"

subsection \<open>The configuration a trace names\<close>

text \<open>\<^verbatim>\<open>Path(note).name\<close>.\<close>

definition file_name :: "string \<Rightarrow> string" where
  "file_name p = rev (takeWhile (\<lambda>c. c \<noteq> CHR ''/'') (rev p))"

definition trace_config_path :: "(string \<Rightarrow> bool) \<Rightarrow> string \<Rightarrow> string \<Rightarrow> string \<Rightarrow> string \<Rightarrow> string result" where
  "trace_config_path is_file cwd root parent note =
     (let cands = map (\<lambda>base. if take 1 note = ''/'' then note else base @ ''/'' @ note)
                    [cwd, root @ ''/cva6_sim'', root @ ''/ibex_sim'', parent];
          by_name = root @ ''/src/pydebug/dut_configs/'' @ file_name note
      in case find is_file cands of
           Some cand \<Rightarrow> Inr cand
         | None \<Rightarrow> if is_file by_name then Inr by_name else Inl (FileNotFoundError note))"

definition trace_config ::
  "(string \<Rightarrow> json result option) \<Rightarrow> string \<Rightarrow> string \<Rightarrow> string \<Rightarrow> string \<Rightarrow> string \<Rightarrow> DeclaredConfig result" where
  "trace_config files config_dir cwd root parent note =
     bindR (trace_config_path (\<lambda>p. files p \<noteq> None) cwd root parent note) (\<lambda>path.
     bindR (load_dut_config files config_dir path) (\<lambda>c. declared_config c 1))"

subsection \<open>Replay\<close>

record Tally =
  tl_reads :: nat
  tl_claimed :: nat
  tl_agree :: nat
  tl_sv_vs_rtl :: nat
  tl_py_vs_rtl :: nat

definition Tally_zero :: Tally where
  "Tally_zero = \<lparr>tl_reads = 0, tl_claimed = 0, tl_agree = 0, tl_sv_vs_rtl = 0, tl_py_vs_rtl = 0\<rparr>"

datatype divergence = HasModel bool bool | MaskDiffers int int | Prediction int int int

record CrossResult =
  cr_tallies :: "int \<times> string \<rightharpoonup> Tally"
  cr_divergences :: "(nat \<times> (int \<times> string) \<times> divergence) list"
  cr_inputs :: int

definition CrossResult_init :: CrossResult where
  "CrossResult_init = \<lparr>cr_tallies = Map.empty, cr_divergences = [], cr_inputs = 0\<rparr>"

text \<open>\<^verbatim>\<open>args[i]\<close>, \<^verbatim>\<open>int(args[i], 16)\<close> and \<^verbatim>\<open>args[i] == "1"\<close>.\<close>

definition arg :: "string list \<Rightarrow> nat \<Rightarrow> string result" where
  "arg args i = (if i < length args then Inr (args ! i) else Inl IndexError)"

definition arg_hex :: "string list \<Rightarrow> nat \<Rightarrow> int result" where
  "arg_hex args i = bindR (arg args i) (py_int_by unsigned_int16)"

definition arg_flag :: "string list \<Rightarrow> nat \<Rightarrow> bool result" where
  "arg_flag args i = bindR (arg args i) (\<lambda>s. Inr (s = ''1''))"

definition compare_read :: "nat \<Rightarrow> string \<Rightarrow> int \<Rightarrow> int \<Rightarrow> bool \<Rightarrow> int \<Rightarrow> int \<Rightarrow> DMPredictor \<Rightarrow> CrossResult \<Rightarrow> CrossResult" where
  "compare_read lineno kind addr rtl sv_has sv_mask sv_pred model res =
     (let py_has = has_model model addr; py_mask = predict_mask addr; py_pred = predict model addr;
          t0 = (case cr_tallies res (addr, kind) of Some t \<Rightarrow> t | None \<Rightarrow> Tally_zero);
          t1 = t0\<lparr>tl_reads := tl_reads t0 + 1\<rparr>;
          (t2, why) =
            (if sv_has \<noteq> py_has then (t1, Some (HasModel sv_has py_has))
             else if sv_has then
               (let (t, w) =
                  (if sv_mask \<noteq> py_mask then (t1, Some (MaskDiffers sv_mask py_mask))
                   else if sv_pred AND sv_mask \<noteq> py_pred AND py_mask
                   then (t1, Some (Prediction (sv_pred AND sv_mask) (py_pred AND py_mask) ((sv_pred XOR py_pred) AND sv_mask)))
                   else (t1\<lparr>tl_agree := tl_agree t1 + 1\<rparr>, None))
                in (t\<lparr>tl_claimed := tl_claimed t + 1,
                      tl_sv_vs_rtl := tl_sv_vs_rtl t + (if sv_pred AND sv_mask \<noteq> rtl AND sv_mask then 1 else 0),
                      tl_py_vs_rtl := tl_py_vs_rtl t + (if py_pred AND py_mask \<noteq> rtl AND py_mask then 1 else 0)\<rparr>, w))
             else (t1, None))
      in res\<lparr>cr_tallies := (cr_tallies res)((addr, kind) \<mapsto> t2),
             cr_divergences := cr_divergences res @ (case why of Some w \<Rightarrow> [(lineno, (addr, kind), w)] | None \<Rightarrow> [])\<rparr>)"

definition count_input :: "CrossResult \<Rightarrow> CrossResult" where
  "count_input res = res\<lparr>cr_inputs := cr_inputs res + 1\<rparr>"

definition replay_line ::
  "(string \<Rightarrow> DeclaredConfig result) \<Rightarrow> nat \<Rightarrow> string \<Rightarrow> DMPredictor \<times> CrossResult \<Rightarrow> (DMPredictor \<times> CrossResult) result" where
  "replay_line load lineno line st =
     (case words line of
        [] \<Rightarrow> Inr st
      | kind # args \<Rightarrow>
          (let (model, res) = st; input = (\<lambda>m. Inr (m, count_input res)) in
           if kind = ''C'' then bindR (load (unwords args)) (\<lambda>c. Inr (set_config model c, res))
           else if kind = ''B'' then bindR (arg_flag args 0) (\<lambda>b. input (set_observed_cmdbusy b model))
           else if kind = ''W'' then bindR (arg_hex args 0) (\<lambda>a. bindR (arg_hex args 1) (\<lambda>v. input (on_write a v model)))
           else if kind = ''S'' then bindR (arg_hex args 0) (\<lambda>w. input (sync_observed_hart_signals w model))
           else if kind = ''O'' then input (observe_sbdata0_read model)
           else if kind = ''A'' then bindR (arg_hex args 0) (\<lambda>a. input (observe_read a model))
           else if kind = ''R'' \<or> kind = ''V'' then
             bindR (arg_hex args 0) (\<lambda>addr. bindR (arg_hex args 1) (\<lambda>rtl.
             bindR (arg_flag args 2) (\<lambda>sv_has. bindR (arg_hex args 3) (\<lambda>sv_mask. bindR (arg_hex args 4) (\<lambda>sv_pred.
               Inr (model, compare_read lineno kind addr rtl sv_has sv_mask sv_pred model res))))))
           else Inl (ValueError line)))"

fun replay_lines ::
  "(string \<Rightarrow> DeclaredConfig result) \<Rightarrow> nat \<Rightarrow> string list \<Rightarrow> DMPredictor \<times> CrossResult \<Rightarrow> (DMPredictor \<times> CrossResult) result" where
  "replay_lines load n [] st = Inr st"
| "replay_lines load n (l # ls) st = bindR (replay_line load n l st) (replay_lines load (Suc n) ls)"

definition replay :: "(string \<Rightarrow> DeclaredConfig result) \<Rightarrow> string \<Rightarrow> CrossResult result" where
  "replay load text =
     bindR (replay_lines load 1 (splitlines text) (DMPredictor_default, CrossResult_init)) (\<lambda>(_, res). Inr res)"

subsection \<open>Totals and exit status\<close>

definition add_tally :: "Tally \<Rightarrow> Tally \<Rightarrow> Tally" where
  "add_tally a t =
     \<lparr>tl_reads = tl_reads a + tl_reads t, tl_claimed = tl_claimed a + tl_claimed t, tl_agree = tl_agree a + tl_agree t,
      tl_sv_vs_rtl = tl_sv_vs_rtl a + tl_sv_vs_rtl t, tl_py_vs_rtl = tl_py_vs_rtl a + tl_py_vs_rtl t\<rparr>"

definition add_tallies :: "(int \<times> string \<rightharpoonup> Tally) \<Rightarrow> CrossResult \<Rightarrow> (int \<times> string \<rightharpoonup> Tally)" where
  "add_tallies tot r = (\<lambda>k. case cr_tallies r k of
      None \<Rightarrow> tot k
    | Some t \<Rightarrow> Some (add_tally (case tot k of Some a \<Rightarrow> a | None \<Rightarrow> Tally_zero) t))"

definition render_totals :: "CrossResult list \<Rightarrow> (int \<times> string \<rightharpoonup> Tally) \<times> nat" where
  "render_totals rs = (fold (\<lambda>r tot. add_tallies tot r) rs Map.empty, sum_list (map (\<lambda>r. length (cr_divergences r)) rs))"

text \<open>Each trace with the configurations its notes name (the directory of the trace is one of those searched).\<close>

definition crosscheck_main :: "((string \<Rightarrow> DeclaredConfig result) \<times> string) list \<Rightarrow> int result" where
  "crosscheck_main traces =
     bindR (mapR (\<lambda>(load, text). replay load text) traces) (\<lambda>rs. Inr (int_of_bool (list_ex (\<lambda>r. cr_divergences r \<noteq> []) rs)))"

end
