(* ===== verification/CrosscheckProps.thy ===== *)
theory CrosscheckProps
  imports ModelCrosscheck
begin

text \<open>
  What the cross-check reports. \<open>record_text\<close> writes a trace in the format of the reference model, as
  the helper of \<^verbatim>\<open>src/tests/test_model_crosscheck.py\<close> does; the replay of such a text is a run over its records.
\<close>

unbundle bit_operations_syntax

subsection \<open>Records and their text\<close>

datatype trace_record =
    ConfigR "string list"
  | BusyR bool
  | WriteR int int
  | SyncR int
  | SbDataR
  | ObserveR int
  | CompareR bool int int bool int int

text \<open>\<^verbatim>\<open>{n:0kx}\<close>: the width counts the sign.\<close>

definition hex_pad :: "nat \<Rightarrow> int \<Rightarrow> string" where
  "hex_pad k n = (let sign = (if n < 0 then ''-'' else []); digits = hex_nat (nat \<bar>n\<bar>)
     in sign @ replicate (k - length sign - length digits) (CHR ''0'') @ digits)"

definition flag_text :: "bool \<Rightarrow> string" where
  "flag_text b = (if b then ''1'' else ''0'')"

text \<open>The mark of a comparison: before the hart signals are copied into the model, or after.\<close>

definition compare_kind :: "bool \<Rightarrow> string" where
  "compare_kind synced = (if synced then ''V'' else ''R'')"

fun record_words :: "trace_record \<Rightarrow> string list" where
  "record_words (ConfigR ws) = ''C'' # ws"
| "record_words (BusyR b) = [''B'', flag_text b]"
| "record_words (WriteR a v) = [''W'', hex_pad 2 a, hex_pad 8 v]"
| "record_words (SyncR w) = [''S'', hex_pad 8 w]"
| "record_words SbDataR = [''O'']"
| "record_words (ObserveR a) = [''A'', hex_pad 2 a]"
| "record_words (CompareR synced a rtl h m v) = [compare_kind synced, hex_pad 2 a, hex_pad 8 rtl, flag_text h, hex_pad 8 m, hex_pad 8 v]"

definition record_text :: "trace_record list \<Rightarrow> string" where
  "record_text rs = concat (map (\<lambda>r. unwords (record_words r) @ [CHR 0x0A]) rs)"

subsection \<open>Reading the text back\<close>

definition word :: "string \<Rightarrow> bool" where
  "word w \<longleftrightarrow> w \<noteq> [] \<and> list_all (\<lambda>c. \<not> is_space c) w"

lemma words_acc_word: "list_all (\<lambda>c. \<not> is_space c) w \<Longrightarrow> words_acc acc (w @ s) = words_acc (acc @ w) s"
  by (induction w arbitrary: acc) auto

lemma words_unwords: "list_all word ws \<Longrightarrow> words (unwords ws) = ws"
proof -
  have sp: "is_space CHR '' ''" by code_simp
  have "list_all word ws \<Longrightarrow> words_acc [] (unwords ws) = ws"
  proof (induction ws rule: unwords.induct)
    case (2 w)
    then show ?case using words_acc_word [of w "[]" "[]"] by (simp add: word_def)
  next
    case (3 w v ws)
    then show ?case using words_acc_word [of w "[]" "'' '' @ unwords (v # ws)"] by (simp add: word_def sp)
  qed simp
  then show "list_all word ws \<Longrightarrow> words (unwords ws) = ws" by (simp add: words_def)
qed

lemma break_space: "line_break c \<Longrightarrow> is_space c"
  by (auto simp: line_break_def is_space_def Let_def)

definition one_line :: "string \<Rightarrow> bool" where
  "one_line l \<longleftrightarrow> list_all (\<lambda>c. \<not> line_break c) l"

lemma break_lines_line: "one_line l \<Longrightarrow> break_lines (l @ CHR 0x0A # s) = l # break_lines s"
proof (induction l)
  case Nil
  have "line_break (CHR 0x0A)" by code_simp
  then show ?case by simp
qed (auto simp: one_line_def)

lemma crlf_id: "CHR 0x0D \<notin> set s \<Longrightarrow> crlf s = s"
  by (induction s rule: crlf.induct) auto

lemma splitlines_text:
  assumes "\<And>l. l \<in> set ls \<Longrightarrow> one_line l"
  shows "splitlines (concat (map (\<lambda>l. l @ [CHR 0x0A]) ls)) = ls"
proof -
  have cr: "line_break (CHR 0x0D)" by code_simp
  then have "CHR 0x0D \<notin> set (concat (map (\<lambda>l. l @ [CHR 0x0A]) ls))"
    using assms by (auto simp: one_line_def list_all_iff)
  moreover have "break_lines (concat (map (\<lambda>l. l @ [CHR 0x0A]) ls)) = ls"
    using assms by (induction ls) (simp_all add: break_lines_line)
  ultimately show ?thesis by (simp add: splitlines_def crlf_id)
qed

lemma one_line_unwords: "list_all word ws \<Longrightarrow> one_line (unwords ws)"
proof (induction ws rule: unwords.induct)
  case (3 w v ws)
  have "\<not> line_break CHR '' ''" by code_simp
  with 3 show ?case using break_space by (auto simp: one_line_def word_def list_all_iff)
qed (auto simp: one_line_def word_def list_all_iff dest: break_space)

subsection \<open>Numbers\<close>

lemma hex_char_digit:
  assumes "hex_char c"
  shows "digit_val c = Some (int (hex_char_val c))" "hex_char_val c < 16" "c \<noteq> CHR ''_''" "c \<noteq> CHR ''-''" "c \<noteq> CHR ''+''"
    "lower_char c \<noteq> CHR ''x''" "\<not> is_space c"
proof -
  have of_int: "(of_char c :: int) = int (of_char c)" by (rule of_nat_of_char [symmetric])
  have n: "48 \<le> (of_char c :: nat) \<and> (of_char c :: nat) \<le> 57 \<or> 97 \<le> (of_char c :: nat) \<and> (of_char c :: nat) \<le> 102 \<or>
      65 \<le> (of_char c :: nat) \<and> (of_char c :: nat) \<le> 70"
    using assms by (auto simp: hex_char_def is_digit_def Let_def)
  then show "digit_val c = Some (int (hex_char_val c))" "hex_char_val c < 16"
    unfolding digit_val_def hex_char_val_def of_int Let_def by auto
  show "c \<noteq> CHR ''_''" "c \<noteq> CHR ''-''" "c \<noteq> CHR ''+''" using n by auto
  show "\<not> is_space c" using assms by (rule hex_not_space)
  show "lower_char c \<noteq> CHR ''x''"
  proof
    assume "lower_char c = CHR ''x''"
    then have "(of_char (lower_char c) :: nat) = 120" by simp
    moreover have "(of_char (lower_char c) :: nat) = (of_char c :: nat) \<or> (of_char (lower_char c) :: nat) = of_char c + 32"
      using n by (auto simp: lower_char_def Let_def of_char_of)
    ultimately show False using n by auto
  qed
qed

lemma digits_val_hex:
  assumes "list_all hex_char ds" "ds \<noteq> [] \<or> \<not> us"
  shows "digits_val 16 us ds (int a) = Some (int (fold (\<lambda>c acc. 16 * acc + hex_char_val c) ds a))"
  using assms
proof (induction ds arbitrary: us a)
  case (Cons c cs)
  then show ?case using hex_char_digit [of c] Cons.IH [of False "16 * a + hex_char_val c"] by (simp add: mult.commute)
qed simp

lemma unsigned_hex:
  assumes "list_all hex_char ds" "ds \<noteq> []"
  shows "unsigned_int16 ds = Some (int (hex_digits_val ds))"
proof -
  have "digits_val 16 True ds 0 = Some (int (hex_digits_val ds))"
    using digits_val_hex [OF assms(1), of True 0] assms(2) by (simp add: hex_digits_val_def)
  moreover have "unsigned_int16 ds = digits_val 16 True ds 0"
    using assms hex_char_digit(6) by (auto simp: unsigned_int16_def split: list.split)
  ultimately show ?thesis by simp
qed

lemma hex_pad_text:
  "\<exists>ds. hex_pad k n = (if n < 0 then ''-'' else []) @ ds \<and> list_all hex_char ds \<and> ds \<noteq> [] \<and> hex_digits_val ds = nat \<bar>n\<bar>"
proof -
  have z: "list_all hex_char (replicate m (CHR ''0''))" for m by (simp add: list_all_iff hex_char_def is_digit_def)
  show ?thesis
    unfolding hex_pad_def Let_def
    by (rule exI, rule conjI, rule refl) (simp add: z hex_nat_digits zeros_value)
qed

lemma hex_pad_word: "word (hex_pad k n)"
proof -
  have "\<not> is_space (CHR ''-'')" by code_simp
  then show ?thesis using hex_pad_text [of k n] hex_char_digit(7) by (auto simp: word_def list_all_iff)
qed

lemma hex_pad_read: "py_int_by unsigned_int16 (hex_pad k n) = Inr n"
proof -
  obtain ds where ds: "hex_pad k n = (if n < 0 then ''-'' else []) @ ds" "list_all hex_char ds" "ds \<noteq> []" "hex_digits_val ds = nat \<bar>n\<bar>"
    using hex_pad_text by blast
  obtain c cs where c: "ds = c # cs" "hex_char c" using ds(2,3) by (cases ds) auto
  have "strip (hex_pad k n) = hex_pad k n"
    using hex_pad_word [of k n] by (intro strip_id) (auto simp: word_def list_all_iff)
  moreover have "unsigned_int16 ds = Some \<bar>n\<bar>" using unsigned_hex [OF ds(2,3)] ds(4) by simp
  ultimately show ?thesis
    using ds(1) c hex_char_digit(4,5) [OF c(2)] by (auto simp: py_int_by_def Let_def)
qed

lemma flag_word: "word (flag_text b)" "(flag_text b = ''1'') = b"
  by (auto simp: flag_text_def word_def is_space_def)

definition printable :: "trace_record \<Rightarrow> bool" where
  "printable r = (case r of ConfigR ws \<Rightarrow> list_all word ws | _ \<Rightarrow> True)"

lemma record_words_ok: "printable r \<Longrightarrow> list_all word (record_words r)"
proof -
  have "list_all word [''C'', ''B'', ''W'', ''S'', ''O'', ''A'', ''R'', ''V'']" by code_simp
  then show "printable r \<Longrightarrow> list_all word (record_words r)"
    by (cases r) (auto simp: printable_def hex_pad_word flag_word(1) compare_kind_def)
qed

lemma splitlines_records: "list_all printable rs \<Longrightarrow> splitlines (record_text rs) = map (\<lambda>r. unwords (record_words r)) rs"
  using splitlines_text [of "map (\<lambda>r. unwords (record_words r)) rs"] one_line_unwords record_words_ok
  by (auto simp: record_text_def list_all_iff comp_def)

subsection \<open>A replay is a run over the records\<close>

text \<open>The model after a record, and how a comparison can come out.\<close>

fun next_model :: "(string \<Rightarrow> DeclaredConfig result) \<Rightarrow> trace_record \<Rightarrow> DMPredictor \<Rightarrow> DMPredictor" where
  "next_model load (ConfigR ws) p = (case load (unwords ws) of Inr c \<Rightarrow> set_config p c | Inl _ \<Rightarrow> p)"
| "next_model load (BusyR b) p = set_observed_cmdbusy b p"
| "next_model load (WriteR a v) p = on_write a v p"
| "next_model load (SyncR w) p = sync_observed_hart_signals w p"
| "next_model load SbDataR p = observe_sbdata0_read p"
| "next_model load (ObserveR a) p = observe_read a p"
| "next_model load (CompareR synced a rtl h m v) p = p"

fun disagreement :: "DMPredictor \<Rightarrow> trace_record \<Rightarrow> ((int \<times> string) \<times> divergence) option" where
  "disagreement p (CompareR synced a rtl h m v) =
     (if h \<noteq> has_model p a then Some ((a, compare_kind synced), HasModel h (has_model p a))
      else if \<not> h then None
      else if m \<noteq> predict_mask a then Some ((a, compare_kind synced), MaskDiffers m (predict_mask a))
      else if v AND m \<noteq> predict p a AND m
      then Some ((a, compare_kind synced), Prediction (v AND m) (predict p a AND m) ((v XOR predict p a) AND m))
      else None)"
| "disagreement p _ = None"

fun disagreements :: "(string \<Rightarrow> DeclaredConfig result) \<Rightarrow> nat \<Rightarrow> DMPredictor \<Rightarrow> trace_record list \<Rightarrow>
    (nat \<times> (int \<times> string) \<times> divergence) list" where
  "disagreements load n p [] = []"
| "disagreements load n p (r # rs) =
     (case disagreement p r of Some d \<Rightarrow> [(n, d)] | None \<Rightarrow> []) @ disagreements load (Suc n) (next_model load r p) rs"

fun is_input :: "trace_record \<Rightarrow> bool" where
  "is_input (ConfigR ws) = False"
| "is_input (CompareR synced a rtl h m v) = False"
| "is_input _ = True"

fun compares :: "int \<times> string \<Rightarrow> trace_record \<Rightarrow> bool" where
  "compares key (CompareR synced a rtl h m v) = (key = (a, compare_kind synced))"
| "compares key _ = False"

definition reads_of :: "CrossResult \<Rightarrow> int \<times> string \<Rightarrow> nat" where
  "reads_of res key = (case cr_tallies res key of Some t \<Rightarrow> tl_reads t | None \<Rightarrow> 0)"

definition loads :: "(string \<Rightarrow> DeclaredConfig result) \<Rightarrow> trace_record \<Rightarrow> bool" where
  "loads load r = (case r of ConfigR ws \<Rightarrow> (case load (unwords ws) of Inl _ \<Rightarrow> False | Inr _ \<Rightarrow> True) | _ \<Rightarrow> True)"

lemma compare_read_effect:
  fixes n synced a rtl h m v p res
  defines "q \<equiv> compare_read n (compare_kind synced) a rtl h m v p res"
  shows "cr_inputs q = cr_inputs res"
    "cr_divergences q = cr_divergences res @ (case disagreement p (CompareR synced a rtl h m v) of Some d \<Rightarrow> [(n, d)] | None \<Rightarrow> [])"
    "reads_of q key = reads_of res key + (if key = (a, compare_kind synced) then 1 else 0)"
  unfolding q_def by (auto simp: compare_read_def Let_def reads_of_def Tally_zero_def split: option.split)

fun report_record :: "nat \<Rightarrow> trace_record \<Rightarrow> DMPredictor \<Rightarrow> CrossResult \<Rightarrow> CrossResult" where
  "report_record n (ConfigR ws) p res = res"
| "report_record n (CompareR synced a rtl h m v) p res = compare_read n (compare_kind synced) a rtl h m v p res"
| "report_record n _ p res = count_input res"

lemma report_record_effect:
  "cr_divergences (report_record n r p res) = cr_divergences res @ (case disagreement p r of Some d \<Rightarrow> [(n, d)] | None \<Rightarrow> [])"
  "cr_inputs (report_record n r p res) = cr_inputs res + (if is_input r then 1 else 0)"
  "reads_of (report_record n r p res) key = reads_of res key + (if compares key r then 1 else 0)"
proof -
  have c: "reads_of (count_input res) key = reads_of res key" by (simp add: reads_of_def count_input_def)
  show "cr_divergences (report_record n r p res) = cr_divergences res @ (case disagreement p r of Some d \<Rightarrow> [(n, d)] | None \<Rightarrow> [])"
    by (cases r) (simp_all add: compare_read_effect(2) count_input_def del: disagreement.simps(1))
  show "cr_inputs (report_record n r p res) = cr_inputs res + (if is_input r then 1 else 0)"
    by (cases r) (simp_all add: compare_read_effect(1) count_input_def)
  show "reads_of (report_record n r p res) key = reads_of res key + (if compares key r then 1 else 0)"
    by (cases r) (simp_all add: compare_read_effect(3) c)
qed

lemma arg_simps:
  "arg_hex (hex_pad k n # ws) 0 = Inr n" "arg_flag (flag_text b # ws) 0 = Inr b"
  "arg_hex (w # ws) (Suc i) = arg_hex ws i" "arg_flag (w # ws) (Suc i) = arg_flag ws i"
  by (simp_all add: arg_hex_def arg_flag_def arg_def hex_pad_read flag_word)

lemma replay_line_record:
  assumes "printable r" "loads load r"
  shows "replay_line load n (unwords (record_words r)) (p, res) = Inr (next_model load r p, report_record n r p res)"
proof -
  have n: "(1 :: nat) = Suc 0" "(2 :: nat) = Suc (Suc 0)" "(3 :: nat) = Suc (Suc (Suc 0))" "(4 :: nat) = Suc (Suc (Suc (Suc 0)))" by simp_all
  show ?thesis
    unfolding replay_line_def words_unwords [OF record_words_ok [OF assms(1)]]
    using assms(2) by (cases r) (auto simp: Let_def n arg_simps loads_def compare_kind_def split: sum.splits)
qed

fun report_all :: "(string \<Rightarrow> DeclaredConfig result) \<Rightarrow> nat \<Rightarrow> DMPredictor \<Rightarrow> trace_record list \<Rightarrow> CrossResult \<Rightarrow> CrossResult" where
  "report_all load n p [] res = res"
| "report_all load n p (r # rs) res = report_all load (Suc n) (next_model load r p) rs (report_record n r p res)"

lemma replay_lines_records:
  assumes "list_all printable rs" "list_all (loads load) rs"
  shows "\<exists>q. replay_lines load n (map (\<lambda>r. unwords (record_words r)) rs) (p, res) = Inr (q, report_all load n p rs res)"
  using assms by (induction rs arbitrary: n p res) (auto simp: replay_line_record)

lemma replay_records:
  assumes "list_all printable rs" "list_all (loads load) rs"
  shows "replay load (record_text rs) = Inr (report_all load 1 DMPredictor_default rs CrossResult_init)"
  using replay_lines_records [OF assms, of 1 DMPredictor_default CrossResult_init]
  by (auto simp: replay_def splitlines_records [OF assms(1)])

lemma init_simps [simp]: "cr_divergences CrossResult_init = []" "cr_inputs CrossResult_init = 0" "reads_of CrossResult_init key = 0"
  by (simp_all add: CrossResult_init_def reads_of_def)

lemma report_all_effect:
  "cr_divergences (report_all load n p rs res) = cr_divergences res @ disagreements load n p rs"
  "cr_inputs (report_all load n p rs res) = cr_inputs res + int (length (filter is_input rs))"
  "reads_of (report_all load n p rs res) key = reads_of res key + length (filter (compares key) rs)"
  by (induction rs arbitrary: n p res) (simp_all add: report_record_effect)

text \<open>A trace of a target that names its configuration by a relative path, one of its comparisons wrong.\<close>

definition sample_load :: "string \<Rightarrow> DeclaredConfig result" where
  "sample_load = trace_config sample_files ''dut_configs'' ''dut_configs'' ''/repo'' ''/runs''"

definition sample_records :: "trace_record list" where
  "sample_records = [ConfigR [''ibex.json''], WriteR 0x10 1, CompareR False 0x12 0 True 0xFFFFFFFF 0x00212380,
     CompareR False 0x17 0 True 0xFFFFFFFF 1, BusyR False]"

text \<open>
  C31. The cross-check reports exactly the comparisons in which the two models differ: a trace of any
  records whose configurations load is replayed to its end, each record written in the format of the
  reference model; the divergences are, in order and with their line numbers, the comparisons whose recorded claim,
  mask or masked prediction is not the predictor's at that point; every other record but a configuration
  counts as an input; and the reads of each register are counted as often as they occur.
\<close>

theorem crosscheck_exact:
  assumes "list_all printable rs" "list_all (loads load) rs"
  shows "\<exists>res. replay load (record_text rs) = Inr res \<and> cr_divergences res = disagreements load 1 DMPredictor_default rs \<and>
    cr_inputs res = int (length (filter is_input rs)) \<and> reads_of res key = length (filter (compares key) rs) \<and>
    crosscheck_main [(load, record_text rs)] = Inr (int_of_bool (disagreements load 1 DMPredictor_default rs \<noteq> []))"
  by (simp add: replay_records [OF assms] report_all_effect crosscheck_main_def)

theorem crosscheck_exact_witness:
  "\<exists>res. replay sample_load (record_text sample_records) = Inr res \<and>
    cr_divergences res = [(4, (0x17, ''R''), Prediction 1 0 1)] \<and> cr_inputs res = 2 \<and> reads_of res (0x12, ''R'') = 1 \<and>
    crosscheck_main [(sample_load, record_text sample_records)] = Inr 1"
proof -
  have "list_all printable sample_records" "list_all (loads sample_load) sample_records"
    "disagreements sample_load 1 DMPredictor_default sample_records = [(4, (0x17, ''R''), Prediction 1 0 1)]"
    "length (filter is_input sample_records) = 2" "length (filter (compares (0x12, ''R'')) sample_records) = 1"
    by code_simp+
  then show ?thesis using crosscheck_exact [of sample_records sample_load "(0x12, ''R'')"] by (simp add: int_of_bool_def)
qed

subsection \<open>Traces of the model itself\<close>

text \<open>The comparisons as a reference model that is the predictor writes them.\<close>

fun with_predictions :: "DMPredictor \<Rightarrow> trace_record \<Rightarrow> trace_record" where
  "with_predictions p (CompareR synced a rtl h m v) = CompareR synced a rtl (has_model p a) (predict_mask a) (predict p a)"
| "with_predictions p r = r"

fun recorded :: "(string \<Rightarrow> DeclaredConfig result) \<Rightarrow> DMPredictor \<Rightarrow> trace_record list \<Rightarrow> trace_record list" where
  "recorded load p [] = []"
| "recorded load p (r # rs) = with_predictions p r # recorded load (next_model load r p) rs"

lemma with_predictions_simps:
  "next_model load (with_predictions p r) q = next_model load r q" "printable (with_predictions p r) = printable r"
  "loads load (with_predictions p r) = loads load r" "disagreement p (with_predictions p r) = None"
  "is_input (with_predictions p r) = is_input r"
  by (cases r; simp add: printable_def loads_def)+

lemma recorded_ok: "list_all printable (recorded load p rs) = list_all printable rs" "list_all (loads load) (recorded load p rs) = list_all (loads load) rs"
  "length (filter is_input (recorded load p rs)) = length (filter is_input rs)"
  by (induction rs arbitrary: p) (simp_all add: with_predictions_simps)

lemma recorded_agrees: "disagreements load n p (recorded load p rs) = []"
  by (induction rs arbitrary: n p) (simp_all add: with_predictions_simps)

definition even_tallies :: "CrossResult \<Rightarrow> bool" where
  "even_tallies res \<longleftrightarrow> (\<forall>t \<in> ran (cr_tallies res). tl_agree t = tl_claimed t \<and> tl_sv_vs_rtl t = tl_py_vs_rtl t)"

lemma even_record: "even_tallies res \<Longrightarrow> even_tallies (report_record n (with_predictions p r) p res)"
  by (cases r; auto simp: even_tallies_def compare_read_def count_input_def Let_def Tally_zero_def ran_def split: option.splits if_splits; blast)

lemma even_recorded: "even_tallies res \<Longrightarrow> even_tallies (report_all load n p (recorded load p rs) res)"
  by (induction rs arbitrary: n p res) (simp_all add: with_predictions_simps even_record)

text \<open>
  The predictor agrees with itself: a trace whose comparisons carry the predictions of a predictor that
  received the same inputs, with any values for what the device returned, is replayed without a divergence and with exit
  status 0; every claimed read counts as agreeing and both models get the same verdict on the device.
\<close>

lemma recorded_trace_agrees:
  assumes "list_all printable rs" "list_all (loads load) rs"
  shows "\<exists>res. replay load (record_text (recorded load DMPredictor_default rs)) = Inr res \<and> cr_divergences res = [] \<and>
    even_tallies res \<and> cr_inputs res = int (length (filter is_input rs)) \<and>
    crosscheck_main [(load, record_text (recorded load DMPredictor_default rs))] = Inr 0"
proof -
  have e: "even_tallies CrossResult_init" by (simp add: even_tallies_def CrossResult_init_def)
  have "list_all printable (recorded load DMPredictor_default rs)" "list_all (loads load) (recorded load DMPredictor_default rs)"
    using assms by (simp_all add: recorded_ok)
  from replay_records [OF this] even_recorded [OF e] show ?thesis
    by (simp add: report_all_effect recorded_agrees recorded_ok crosscheck_main_def int_of_bool_def)
qed

end
