(* ===== verification/HartArraySeq.thy ===== *)
theory HartArraySeq
  imports Sequences DutConfig
begin

text \<open>
  \<^verbatim>\<open>sequences/hart_array_sequence.py\<close>: halting and resuming several harts, by selecting each in turn and
  through the hart array mask. The steps share \<^verbatim>\<open>state["hasel"]\<close>, whether the mask selection reads back.
\<close>

unbundle bit_operations_syntax

definition HALTSUM0_ADDR :: int where [simp]: "HALTSUM0_ADDR = 0x40"

text \<open>\<^verbatim>\<open>_selected(dm, hartsel, hasel, **bits)\<close>; \<open>bits\<close> are the other fields.\<close>

definition write_selected :: "'s transport \<Rightarrow> int \<Rightarrow> bool \<Rightarrow> dmcontrol_args \<Rightarrow> ('s, unit) dbg" where
  "write_selected T sel mask_on bits =
     dmi_write T ADDR_DMCONTROL (dmcontrol (bits\<lparr>a_dmactive := True, a_hartsel := sel, a_hasel := mask_on\<rparr>))"

text \<open>Shifts by a count that may be negative, which Python refuses.\<close>

definition shift_left :: "int \<Rightarrow> int \<Rightarrow> ('s, int) dbg" where
  "shift_left x n = (if n < 0 then raiseD (Raised (ValueError ''negative shift count'')) else returnD (push_bit (nat n) x))"

definition shift_right :: "int \<Rightarrow> int \<Rightarrow> ('s, int) dbg" where
  "shift_right x n = (if n < 0 then raiseD (Raised (ValueError ''negative shift count'')) else returnD (drop_bit (nat n) x))"

text \<open>\<^verbatim>\<open>dm._poll_until(predicate, DMI.DMSTATUS, what, dm.DEFAULT_TIMEOUT)\<close>.\<close>

definition poll_status :: "'s transport \<Rightarrow> (int \<Rightarrow> bool) \<Rightarrow> string \<Rightarrow> ('s, unit) dbg" where
  "poll_status T predicate what = poll_until T (\<lambda>s. Inr (predicate s)) ADDR_DMSTATUS what DEFAULT_TIMEOUT"

definition tc_hs_007 :: "'s transport \<Rightarrow> int \<Rightarrow> 's check_method" where
  "tc_hs_007 T other =
     seqD (write_selected T other False dmcontrol_defaults)
    (bindD (read_dmstatus T) (\<lambda>w.
       let nonexist = truth (drop_bit 14 w AND 1)
       in step_result ''TC-HS-007'' (\<not> nonexist)))"

definition tc_halt_010_one :: "'s transport \<Rightarrow> int \<Rightarrow> 's check_method" where
  "tc_halt_010_one T other =
     seqD (write_selected T other False (dmcontrol_defaults\<lparr>a_haltreq := True\<rparr>))
    (seqD (poll_status T allhalted ''allhalted'')
    (seqD (write_selected T other False dmcontrol_defaults)
    (bindD (dmi_read T HALTSUM0_ADDR) (\<lambda>summ.
     bindD (shift_right summ other) (\<lambda>x.
       step_result ''TC-HALT-010'' (x AND 1 = 1 \<and> summ AND 1 = 0))))))"

definition tc_hs_003_mask :: "'s transport \<Rightarrow> int \<Rightarrow> bool \<Rightarrow> ('s, unit step_return \<times> bool) dbg" where
  "tc_hs_003_mask T other x =
     (case hawindow_of 0 of (window, b) \<Rightarrow>
     seqD (dmi_write T (r_address HAWINDOWSEL) window)
    (bindD (shift_left 1 b) (\<lambda>m.
     seqD (dmi_write T (r_address HAWINDOW) m)
    (bindD (dmi_read T (r_address HAWINDOWSEL)) (\<lambda>read_sel.
     bindD (dmi_read T (r_address HAWINDOW)) (\<lambda>read_win.
     seqD (write_selected T other True dmcontrol_defaults)
    (bindD (read_dmcontrol T) (\<lambda>w.
     bindD (step_result ''TC-HS-003'' True) (\<lambda>r. returnD (r, dmcontrol_hasel w))))))))))"

text \<open>A step that is not applicable unless the mask is there.\<close>

definition with_mask :: "string \<Rightarrow> 's check_method \<Rightarrow> bool \<Rightarrow> ('s, unit step_return \<times> bool) dbg" where
  "with_mask tc m has = bindD (if \<not> has then step_result tc True else m) (\<lambda>r. returnD (r, has))"

definition tc_hs_008 :: "'s transport \<Rightarrow> 's check_method" where
  "tc_hs_008 T =
     bindD (read_dmstatus T) (\<lambda>w.
       let some_not_all = anyhalted w \<and> \<not> allhalted w; running_too = anyrunning w
       in step_result ''TC-HS-008'' (some_not_all \<and> running_too))"

definition tc_halt_010_all :: "'s transport \<Rightarrow> int \<Rightarrow> int \<Rightarrow> 's check_method" where
  "tc_halt_010_all T n other =
     seqD (write_selected T other True (dmcontrol_defaults\<lparr>a_haltreq := True\<rparr>))
    (seqD (poll_status T allhalted ''allhalted'')
    (seqD (write_selected T other True dmcontrol_defaults)
    (bindD (read_dmstatus T) (\<lambda>w.
     bindD (dmi_read T HALTSUM0_ADDR) (\<lambda>summ.
     bindD (shift_left 1 n) (\<lambda>top.
       let want = top - 1
       in step_result ''TC-HALT-010'' (allhalted w \<and> anyhalted w \<and> \<not> anyrunning w \<and> summ AND want = want)))))))"

text \<open>The last conjunct of the verdict is evaluated, and may raise, only where the others hold.\<close>

definition tc_res_010 :: "'s transport \<Rightarrow> int \<Rightarrow> int \<Rightarrow> 's check_method" where
  "tc_res_010 T n other =
     seqD (write_selected T other True (dmcontrol_defaults\<lparr>a_resumereq := True\<rparr>))
    (seqD (poll_status T allrunning ''allrunning'')
    (seqD (write_selected T other True dmcontrol_defaults)
    (bindD (read_dmstatus T) (\<lambda>w.
     bindD (dmi_read T HALTSUM0_ADDR) (\<lambda>summ.
       if allrunning w \<and> allresumeack w \<and> anyresumeack w \<and> \<not> anyhalted w
       then bindD (shift_left 1 n) (\<lambda>top. step_result ''TC-RES-010'' (summ AND (top - 1) = 0))
       else step_result ''TC-RES-010'' False)))))"

definition halt_one_hart :: "'s transport \<Rightarrow> int \<Rightarrow> ('s, unit) dbg" where
  "halt_one_hart T h =
     seqD (write_selected T h False (dmcontrol_defaults\<lparr>a_haltreq := True\<rparr>))
    (seqD (poll_status T allhalted (''hart '' @ str_int h @ '' allhalted''))
          (write_selected T h False dmcontrol_defaults))"

definition tc_halt_010_each :: "'s transport \<Rightarrow> int \<Rightarrow> 's check_method" where
  "tc_halt_010_each T n =
     seqD (forD (halt_one_hart T) (map int [0..<nat n]))
    (bindD (dmi_read T HALTSUM0_ADDR) (\<lambda>summ.
     bindD (shift_left 1 n) (\<lambda>top.
       let want = top - 1
       in step_result ''TC-HALT-010'' (summ AND want = want))))"

definition resume_one_hart :: "'s transport \<Rightarrow> int \<Rightarrow> ('s, bool) dbg" where
  "resume_one_hart T h =
     seqD (write_selected T h False (dmcontrol_defaults\<lparr>a_resumereq := True\<rparr>))
    (seqD (poll_status T allrunning (''hart '' @ str_int h @ '' allrunning''))
    (seqD (write_selected T h False dmcontrol_defaults)
    (bindD (read_dmstatus T) (\<lambda>w. returnD (allresumeack w)))))"

definition tc_res_010_each :: "'s transport \<Rightarrow> int \<Rightarrow> 's check_method" where
  "tc_res_010_each T n =
     bindD (mapD (resume_one_hart T) (map int [0..<nat n])) (\<lambda>acks.
     bindD (dmi_read T HALTSUM0_ADDR) (\<lambda>summ.
       if list_all id acks
       then bindD (shift_left 1 n) (\<lambda>top. step_result ''TC-RES-010'' (summ AND (top - 1) = 0))
       else step_result ''TC-RES-010'' False))"

definition tc_hs_008_neither :: "'s transport \<Rightarrow> 's check_method" where
  "tc_hs_008_neither T =
     seqD (write_selected T 0 False dmcontrol_defaults)
    (bindD (read_dmstatus T) (\<lambda>w. step_result ''TC-HS-008'' (\<not> anyhalted w \<and> \<not> allhalted w)))"

definition hart_array_steps :: "'s transport \<Rightarrow> int \<Rightarrow> ('s, bool) seq_step list" where
  "hart_array_steps T n =
     (let other = n - 1 in
     [command_step ''Activate Debug Module'' (activate T),
      check_step (''TC-HS-007: select hart '' @ str_int other @ '', the highest implemented'') (tc_hs_007 T other),
      check_step (''TC-HALT-010: halt hart '' @ str_int other @ '' alone'') (tc_halt_010_one T other),
      dbg_step ''TC-HS-003: hart array mask discovery'' (tc_hs_003_mask T other),
      dbg_step ''TC-HS-008: some selected harts halted, not all'' (with_mask ''TC-HS-008'' (tc_hs_008 T)),
      dbg_step ''TC-HALT-010: halt every selected hart'' (with_mask ''TC-HALT-010'' (tc_halt_010_all T n other)),
      dbg_step ''TC-RES-010: resume every selected hart'' (with_mask ''TC-RES-010'' (tc_res_010 T n other)),
      check_step ''TC-HALT-010: halt every hart, one selection at a time'' (tc_halt_010_each T n),
      check_step ''TC-RES-010: resume every hart, one selection at a time'' (tc_res_010_each T n),
      check_step ''TC-HS-008: neither all nor any, with nothing halted'' (tc_hs_008_neither T)])"

text \<open>The session starts with \<^verbatim>\<open>state["hasel"]\<close> false.\<close>

definition build_hart_array_sequence ::
  "'s transport \<Rightarrow> string \<Rightarrow> int \<Rightarrow> (('s, bool) seq_session \<times> bool) result" where
  "build_hart_array_sequence T md n = bindR (session_of md False (hart_array_steps T n)) (\<lambda>s. Inr (s, False))"

end
