(* ===== verification/HartArrayRuns.thy ===== *)
theory HartArrayRuns
  imports HartArraySeq CmdRuns
begin

text \<open>
  Running the hart array sequence on a target that follows the predictor. \<open>fleet\<close> describes the run
  control of the first \<open>n\<close> harts at once: \<open>f\<close> says which are halted and \<open>g\<close> which acknowledged a resume,
  and a \<^verbatim>\<open>dmcontrol\<close> write moves the two functions at the selected hart only.
\<close>

unbundle bit_operations_syntax

subsection \<open>Several harts at once\<close>

definition crew :: "nat \<Rightarrow> bool \<Rightarrow> (nat \<Rightarrow> bool) \<Rightarrow> (nat \<Rightarrow> bool) \<Rightarrow> DMPredictor \<Rightarrow> bool" where
  "crew n s f g p \<longleftrightarrow> cfg_valid p \<and> \<not> ndmreset p \<and> \<not> hartreset_level p \<and> supports_hasel p = s \<and>
     (\<forall>j<n. seq_ready p j \<and> halted (harts p ! j) = f j \<and> resume_ack (harts p ! j) = g j)"

definition fleet :: "nat \<Rightarrow> bool \<Rightarrow> (nat \<Rightarrow> bool) \<Rightarrow> (nat \<Rightarrow> bool) \<Rightarrow> nat \<Rightarrow> bool \<Rightarrow> DMPredictor \<Rightarrow> bool" where
  "fleet n s f g i m p \<longleftrightarrow> crew n s f g p \<and> i < n \<and> dmactive p \<and> hartsel p = int i \<and> hasel p = m"

definition quiet_args :: "dmcontrol_args \<Rightarrow> bool" where
  "quiet_args a \<longleftrightarrow> a_dmactive a \<and> \<not> a_ndmreset a \<and> \<not> a_hartreset a"

definition halted_by :: "dmcontrol_args \<Rightarrow> nat \<Rightarrow> (nat \<Rightarrow> bool) \<Rightarrow> nat \<Rightarrow> bool" where
  "halted_by a h f = f(h := a_haltreq a \<or> f h \<and> \<not> a_resumereq a)"

definition acked_by :: "dmcontrol_args \<Rightarrow> nat \<Rightarrow> (nat \<Rightarrow> bool) \<Rightarrow> (nat \<Rightarrow> bool) \<Rightarrow> nat \<Rightarrow> bool" where
  "acked_by a h f g = (if a_resumereq a \<and> \<not> a_haltreq a then g(h := f h) else g)"

lemma halted_view: "halted (harts p ! j) = v_halted (view p j)" "resume_ack (harts p ! j) = v_ack (view p j)"
  by (simp_all add: view_def Let_def)

lemma crew_hart:
  assumes "crew n s f g p" "h < n" "j < n" "quiet_args a" "a_hartsel a = int h"
  defines "q \<equiv> dmcontrol_next (dmcontrol a) p"
  shows "seq_ready q j \<and> v_halted (view q j) = halted_by a h f j \<and> v_ack (view q j) = acked_by a h f g j"
proof -
  have p: "\<not> ndmreset p" "\<not> hartreset_level p" "seq_ready p j" "seq_ready p h"
    and v: "v_halted (view p j) = f j" "v_ack (view p j) = g j"
    using assms(1-3) by (auto simp: crew_def simp flip: halted_view)
  note a = assms(4) [unfolded quiet_args_def]
  have n: "\<not> v_ndm (view p j)" "\<not> v_hartreset (view p j)" using p by (simp_all add: view_def Let_def)
  show ?thesis
  proof (cases "j = h")
    case True
    then have "view q j = sel_step (hasresethaltreq p) (supports_hartreset p) (resumeack_reset p) a (view p j)" "seq_ready q j"
      unfolding q_def using p a assms(5) by (auto intro: view_next seq_ready_next)
    with True n v a show ?thesis by (auto simp: halted_by_def acked_by_def sel_step_def Let_def)
  next
    case False
    then have "take_bit 20 (a_hartsel a) \<noteq> int j" using assms(5) seq_ready_hartsel [OF p(4)] by simp
    then have "view q j = other_step (resumeack_reset p) a (view p j)" "seq_ready q j"
      unfolding q_def using p a by (auto intro: view_other)
    with False n v a show ?thesis by (auto simp: halted_by_def acked_by_def other_step_def Let_def)
  qed
qed

lemma crew_next:
  assumes "crew n s f g p" "h < n" "quiet_args a" "a_hartsel a = int h"
  shows "fleet n s (halted_by a h f) (acked_by a h f g) h (s \<and> a_hasel a) (dmcontrol_next (dmcontrol a) p)"
proof -
  let ?q = "dmcontrol_next (dmcontrol a) p"
  have "take_bit 20 (int h) = int h" using assms(1,2) seq_ready_hartsel by (auto simp: crew_def)
  then have "\<not> ndmreset ?q" "\<not> hartreset_level ?q" "supports_hasel ?q = s" "dmactive ?q" "hartsel ?q = int h" "hasel ?q = (s \<and> a_hasel a)"
    using assms by (auto simp: crew_def quiet_args_def dmcontrol_next_def)
  then show ?thesis
    using crew_hart [OF assms(1,2) _ assms(3,4)] assms(1,2) rest_cong(3) [OF rest_next, of "dmcontrol a" p]
    by (simp add: fleet_def crew_def halted_view)
qed

lemma fleet_at: "fleet n s f g i m p \<Longrightarrow> at i (seq_config p) (view p i) p"
  by (simp add: fleet_def crew_def at_def)

lemma fleet_status:
  assumes "fleet n s f g i m p"
  shows "allhalted (expect_dmstatus p) = f i" "anyhalted (expect_dmstatus p) = f i" "allrunning (expect_dmstatus p) = (\<not> f i)"
    "anyrunning (expect_dmstatus p) = (\<not> f i)" "allresumeack (expect_dmstatus p) = g i" "anyresumeack (expect_dmstatus p) = g i"
  using assms at_status(1-6) [OF fleet_at [OF assms]] by (simp_all add: fleet_def crew_def view_def Let_def)

lemma fleet_summary: "fleet n s f g i m p \<Longrightarrow> n \<le> 32 \<Longrightarrow> j < n \<Longrightarrow> bit (expect_haltsum0 p) j = f j"
  using reachable_hart(2) [of p j] by (auto simp: fleet_def crew_def seq_ready_def haltsum0_bits is_nonexistent_def)

lemma low_bits:
  "x AND 2 ^ n - 1 = 2 ^ n - 1 \<longleftrightarrow> (\<forall>j<n. bit x j)" "x AND 2 ^ n - 1 = 0 \<longleftrightarrow> (\<forall>j<n. \<not> bit x j)" for x :: int
  by (auto simp: bit_eq_iff bit_and_iff bit_mask_iff simp flip: mask_eq_exp_minus_1)

lemma one_bit: "x AND 1 = 1 \<longleftrightarrow> bit x 0" "x AND 1 = 0 \<longleftrightarrow> \<not> bit x 0" "truth (x AND 1) = bit x 0" for x :: int
  by (simp_all add: bit_0 and_one_eq mod_2_eq_odd truth_def)

lemma selection_writes:
  "halted_by (b\<lparr>a_dmactive := x, a_hartsel := y, a_hasel := z\<rparr>) = halted_by b"
  "acked_by (b\<lparr>a_dmactive := x, a_hartsel := y, a_hasel := z\<rparr>) = acked_by b"
  by (simp_all add: halted_by_def acked_by_def fun_eq_iff)

lemma fleet_idle:
  "halted_by dmcontrol_defaults h f = f" "acked_by dmcontrol_defaults h f g = g"
  "halted_by (dmcontrol_defaults\<lparr>a_haltreq := True\<rparr>) h f = f(h := True)" "acked_by (dmcontrol_defaults\<lparr>a_haltreq := True\<rparr>) h f g = g"
  "halted_by (dmcontrol_defaults\<lparr>a_resumereq := True\<rparr>) h f = f(h := False)"
  "acked_by (dmcontrol_defaults\<lparr>a_resumereq := True\<rparr>) h f g = g(h := f h)"
  by (simp_all add: halted_by_def acked_by_def dmcontrol_defaults_def)

lemma fleet_window:
  assumes "fleet n s f g i m p" "a \<in> {r_address HAWINDOWSEL, r_address HAWINDOW}"
  shows "fleet n s f g i m (on_write a w p)"
proof -
  have a: "a \<noteq> ADDR_DMCONTROL" using assms(2) by (auto simp: HAWINDOWSEL_def HAWINDOW_def)
  have k: "cfg_valid (on_write a w p) = cfg_valid p" "step_armed (on_write a w p) = step_armed p"
    using assms(2) by (auto simp: on_write_def HAWINDOWSEL_def HAWINDOW_def Let_def guarded_while_busy_def is_data_def is_progbuf_def step_armed_def)
  show ?thesis
    using assms(1) rc_view_on_write [OF a, of w p] k reachable.dmi_write [of p a w]
    by (auto simp: fleet_def crew_def seq_ready_def rc_view_def)
qed

context dm_bench
begin

lemma wp_selected:
  assumes "crew n s f g p" "h < n" "\<not> a_ndmreset b" "\<not> a_hartreset b"
    and "\<And>q. fleet n s (halted_by b h f) (acked_by b h f g) h (s \<and> x) q \<Longrightarrow> Q () q k"
  shows "wp (write_selected T (int h) x b) Q p k"
  unfolding write_selected_def using crew_next [OF assms(1,2), of "b\<lparr>a_dmactive := True, a_hartsel := int h, a_hasel := x\<rparr>"] assms(3-5)
  by (intro wp_write_dmcontrol) (simp_all add: quiet_args_def selection_writes)

lemma fleet_crew: "fleet n s f g i m p \<Longrightarrow> crew n s f g p"
  by (simp add: fleet_def)

lemmas wp_selected_idle = wp_selected [where b = dmcontrol_defaults, unfolded fleet_idle, simplified]
lemmas wp_selected_halt = wp_selected [where b = "dmcontrol_defaults\<lparr>a_haltreq := True\<rparr>", unfolded fleet_idle, simplified]
lemmas wp_selected_resume = wp_selected [where b = "dmcontrol_defaults\<lparr>a_resumereq := True\<rparr>", unfolded fleet_idle, simplified]

lemma wp_poll_status: "predicate (expect_dmstatus p) \<Longrightarrow> Q () p k \<Longrightarrow> wp (poll_status T predicate what) Q p k"
  unfolding poll_status_def by (rule wp_dmstatus_poll) simp_all

lemma wp_haltsum0: "fleet n s f g i m p \<Longrightarrow> Q (expect_haltsum0 p) p k \<Longrightarrow> wp (dmi_read T HALTSUM0_ADDR) Q p k"
  using predict_other_words(3,6) [of p] quiet_reads [of ADDR_HALTSUM0 p]
  by (intro wp_dmi_read) (simp_all add: fleet_def crew_def)

lemma wp_window: "fleet n s f g i m p \<Longrightarrow> a \<in> {r_address HAWINDOWSEL, r_address HAWINDOW} \<Longrightarrow>
    (\<And>q. fleet n s f g i m q \<Longrightarrow> Q () q k) \<Longrightarrow> wp (dmi_write T a w) Q p k"
  by (rule wp_dmi_write) (simp add: fleet_window)

lemma wp_shifts:
  "Q (push_bit n x) p k \<Longrightarrow> wp (shift_left x (int n)) Q p k" "Q (drop_bit n x) p k \<Longrightarrow> wp (shift_right x (int n)) Q p k"
  by (simp_all add: shift_left_def shift_right_def wp_return)

lemma wp_halt_one:
  assumes "crew n s f g p" "h < n" "\<And>q m. fleet n s (f(h := True)) g h m q \<Longrightarrow> Q () q k"
  shows "wp (halt_one_hart T (int h)) Q p k"
  unfolding halt_one_hart_def
  by (rule wp_seq, rule wp_selected_halt [OF assms(1,2)], rule wp_seq, rule wp_poll_status, simp add: fleet_status,
      rule wp_selected_idle [OF fleet_crew], assumption, rule assms(2), rule assms(3))

lemma wp_resume_one:
  assumes "crew n s f g p" "h < n" "f h" "\<And>q m. fleet n s (f(h := False)) (g(h := True)) h m q \<Longrightarrow> Q True q k"
  shows "wp (resume_one_hart T (int h)) Q p k"
  unfolding resume_one_hart_def
  by (rule wp_seq, rule wp_selected_resume [OF assms(1,2)], rule wp_seq, rule wp_poll_status, simp add: fleet_status, rule wp_seq,
      rule wp_selected_idle [OF fleet_crew], assumption, rule assms(2), intro wp_bind wp_read_dmstatus wp_return,
      use assms(3,4) in \<open>simp add: fleet_status\<close>)

subsection \<open>The loops\<close>

lemma wp_halt_each:
  assumes "fleet n s f g i m p" "set hs \<subseteq> {..<n}"
    and "\<And>q i m. fleet n s (\<lambda>j. j \<in> set hs \<or> f j) g i m q \<Longrightarrow> Q () q k"
  shows "wp (forD (halt_one_hart T) (map int hs)) Q p k"
  using assms
proof (induction hs arbitrary: f i m p)
  case (Cons h hs)
  show ?case unfolding list.map forD.simps
  proof (rule wp_seq, rule wp_halt_one [OF fleet_crew [OF Cons.prems(1)]])
    show "h < n" using Cons.prems(2) by simp
    fix q m' assume q: "fleet n s (f(h := True)) g h m' q"
    have "(\<lambda>j. j \<in> set hs \<or> (f(h := True)) j) = (\<lambda>j. j \<in> set (h # hs) \<or> f j)" by auto
    then show "wp (forD (halt_one_hart T) (map int hs)) Q q k"
      using Cons.IH [OF q] Cons.prems(2,3) by simp
  qed
qed (simp add: wp_return)

lemma wp_resume_each:
  assumes "fleet n s f g i m p" "set hs \<subseteq> {..<n}" "distinct hs" "\<And>h. h \<in> set hs \<Longrightarrow> f h"
    and "\<And>q i m acks. fleet n s (\<lambda>j. j \<notin> set hs \<and> f j) (\<lambda>j. j \<in> set hs \<or> g j) i m q \<Longrightarrow> list_all id acks \<Longrightarrow> Q acks q k"
  shows "wp (mapD (resume_one_hart T) (map int hs)) Q p k"
  using assms
proof (induction hs arbitrary: f g i m p Q)
  case (Cons h hs)
  show ?case unfolding list.map mapD.simps
  proof (rule wp_bind, rule wp_resume_one [OF fleet_crew [OF Cons.prems(1)]])
    show "h < n" "f h" using Cons.prems(2,4) by simp_all
    fix q m' assume q: "fleet n s (f(h := False)) (g(h := True)) h m' q"
    have e: "(\<lambda>j. j \<notin> set hs \<and> (f(h := False)) j) = (\<lambda>j. j \<notin> set (h # hs) \<and> f j)"
      "(\<lambda>j. j \<in> set hs \<or> (g(h := True)) j) = (\<lambda>j. j \<in> set (h # hs) \<or> g j)" by auto
    show "wp (bindD (mapD (resume_one_hart T) (map int hs)) (\<lambda>ys. returnD (True # ys))) Q q k"
    proof (rule wp_bind, rule Cons.IH [OF q], unfold e)
      show "set hs \<subseteq> {..<n}" "distinct hs" "\<And>j. j \<in> set hs \<Longrightarrow> (f(h := False)) j" using Cons.prems(2-4) by auto
    qed (simp add: wp_return Cons.prems(5))
  qed
qed (simp add: wp_return)

subsection \<open>The test cases\<close>

lemma gives_result: "b = c \<Longrightarrow> Q p k \<Longrightarrow> wp (step_result tc b) (\<lambda>r q k. gives r c \<and> Q q k) p k"
  by (rule wp_step_verdict) simp

lemma run_tc_hs_007:
  assumes "fleet n s f g i m p" "h < n" "\<And>q m. fleet n s f g h m q \<Longrightarrow> Q q k"
  shows "wp (tc_hs_007 T (int h)) (\<lambda>r q k. gives r True \<and> Q q k) p k"
  unfolding tc_hs_007_def Let_def
proof (rule wp_seq, rule wp_selected_idle [OF fleet_crew [OF assms(1)] assms(2)], rule wp_bind, rule wp_read_dmstatus, rule gives_result)
  fix q assume q: "fleet n s f g h (s \<and> False) q"
  then have "hartsel q = int h" "seq_ready q h" by (auto simp: fleet_def crew_def)
  then have "\<not> bit (expect_dmstatus q) 14"
    using reachable_hart(2) [of q h] by (simp add: dmstatus_bits seq_ready_def is_nonexistent_def)
  then show "(\<not> truth (drop_bit 14 (expect_dmstatus q) AND 1)) = True" by (simp add: one_bit bit_drop_bit_eq)
  show "Q q k" using q by (rule assms(3))
qed

lemma run_tc_halt_010_one:
  assumes "fleet n s f g i m p" "h < n" "n \<le> 32" "\<not> f 0" "\<And>q m. fleet n s (f(h := True)) g h m q \<Longrightarrow> Q q k"
  shows "wp (tc_halt_010_one T (int h)) (\<lambda>r q k. gives r (h \<noteq> 0) \<and> Q q k) p k"
  unfolding tc_halt_010_one_def
proof (rule wp_seq, rule wp_selected_halt [OF fleet_crew [OF assms(1)] assms(2)], rule wp_seq, rule wp_poll_status, simp add: fleet_status,
    rule wp_seq, rule wp_selected_idle [OF fleet_crew], assumption, rule assms(2), rule wp_bind, rule wp_haltsum0, assumption, rule wp_bind, rule wp_shifts,
    rule gives_result)
  fix q q' assume "fleet n s (f(h := True)) g h (s \<and> False) q" and q: "fleet n s (f(h := True)) g h (s \<and> False) q'"
  show "(drop_bit h (expect_haltsum0 q') AND 1 = 1 \<and> expect_haltsum0 q' AND 1 = 0) = (h \<noteq> 0)"
    using fleet_summary [OF q assms(3), of h] fleet_summary [OF q assms(3), of 0] assms(2,4)
    by (auto simp: one_bit bit_drop_bit_eq)
  show "Q q' k" using q by (rule assms(5))
qed

lemma run_tc_hs_003_mask:
  assumes "fleet n s f g i m p" "h < n"
    and "\<And>q. fleet n s f g h s q \<Longrightarrow> verdicts_wp sts bs Q s q k"
  shows "wp (tc_hs_003_mask T (int h) x) (\<lambda>y q k. gives (fst y) True \<and> verdicts_wp sts bs Q (snd y) q k) p k"
proof -
  have "hawindow_of 0 = (0, int 0)" by (simp add: hawindow_of_def)
  then show ?thesis
    unfolding tc_hs_003_mask_def
  proof (simp only: prod.case, intro wp_seq wp_window [OF assms(1)] wp_bind wp_shifts, simp)
    fix q assume "fleet n s f g i m q"
    then show "wp (dmi_write T (r_address HAWINDOW) (push_bit 0 1)) (\<lambda>_. wp (bindD (dmi_read T (r_address HAWINDOWSEL)) (\<lambda>_.
        bindD (dmi_read T (r_address HAWINDOW)) (\<lambda>_. seqD (write_selected T (int h) True dmcontrol_defaults)
        (bindD (read_dmcontrol T) (\<lambda>w. bindD (step_result ''TC-HS-003'' True) (\<lambda>r. returnD (r, dmcontrol_hasel w)))))))
        (\<lambda>y q k. gives (fst y) True \<and> verdicts_wp sts bs Q (snd y) q k)) q k"
    proof (rule wp_window, simp, intro wp_bind wp_bench_read wp_seq)
      fix q assume "fleet n s f g i m q"
      then show "wp (write_selected T (int h) True dmcontrol_defaults) (\<lambda>_. wp (bindD (read_dmcontrol T) (\<lambda>w.
          bindD (step_result ''TC-HS-003'' True) (\<lambda>r. returnD (r, dmcontrol_hasel w))))
          (\<lambda>y q k. gives (fst y) True \<and> verdicts_wp sts bs Q (snd y) q k)) q k"
      proof (rule wp_selected_idle [OF fleet_crew assms(2)], intro wp_bind wp_read_dmcontrol)
        fix q assume q: "fleet n s f g h (s \<and> True) q"
        then have "dmcontrol_hasel (expect_dmcontrol q) = s" by (simp add: fleet_def dmcontrol_hasel_def dmcontrol_bits)
        with q assms(3) [of q] show "wp (step_result ''TC-HS-003'' True) (\<lambda>r. wp (returnD (r, dmcontrol_hasel (expect_dmcontrol q)))
            (\<lambda>y q k. gives (fst y) True \<and> verdicts_wp sts bs Q (snd y) q k)) q k"
          unfolding step_result_def by (intro wp_return) (simp add: gives_def)
      qed
    qed
  qed
qed

lemma verdicts_unmasked:
  "verdicts_wp sts bs Q False p k \<Longrightarrow> verdicts_wp (dbg_step name (with_mask tc m) # sts) (True # bs) Q False p k"
  unfolding with_mask_def step_result_def by (intro verdicts_dbg wp_bind) (auto intro!: wp_return simp: gives_def)

lemma verdicts_masked:
  "wp m (\<lambda>r q k. gives r b \<and> verdicts_wp sts bs Q True q k) p k \<Longrightarrow>
   verdicts_wp (dbg_step name (with_mask tc m) # sts) (b # bs) Q True p k"
  unfolding with_mask_def by (intro verdicts_dbg wp_bind) (auto intro!: wp_return elim!: wp_mono)

lemma run_tc_hs_008:
  "fleet n s f g i m p \<Longrightarrow> Q p k \<Longrightarrow> wp (tc_hs_008 T) (\<lambda>r q k. gives r False \<and> Q q k) p k"
  unfolding tc_hs_008_def Let_def
  by (intro wp_bind wp_read_dmstatus gives_result) (simp_all add: fleet_status)

lemma run_tc_halt_010_all:
  assumes "fleet n s f g i m p" "h < n" "n \<le> 32" "\<And>q m. fleet n s (f(h := True)) g h m q \<Longrightarrow> Q q k"
  shows "wp (tc_halt_010_all T (int n) (int h)) (\<lambda>r q k. gives r (\<forall>j<n. (f(h := True)) j) \<and> Q q k) p k"
  unfolding tc_halt_010_all_def Let_def
  by (rule wp_seq, rule wp_selected_halt [OF fleet_crew [OF assms(1)] assms(2)], rule wp_seq, rule wp_poll_status, simp add: fleet_status,
    rule wp_seq, rule wp_selected_idle [OF fleet_crew], assumption, rule assms(2), intro wp_bind wp_read_dmstatus, rule wp_haltsum0, assumption,
    rule wp_bind, rule wp_shifts, rule gives_result, simp add: fleet_status low_bits fleet_summary [OF _ assms(3)], erule assms(4))

lemma run_tc_res_010:
  assumes "fleet n s f g i m p" "h < n" "n \<le> 32" "f h" "\<And>q m. fleet n s (f(h := False)) (g(h := True)) h m q \<Longrightarrow> Q q k"
  shows "wp (tc_res_010 T (int n) (int h)) (\<lambda>r q k. gives r (\<forall>j<n. \<not> (f(h := False)) j) \<and> Q q k) p k"
  unfolding tc_res_010_def Let_def
  by (rule wp_seq, rule wp_selected_resume [OF fleet_crew [OF assms(1)] assms(2)], rule wp_seq, rule wp_poll_status, simp add: fleet_status,
    rule wp_seq, rule wp_selected_idle [OF fleet_crew], assumption, rule assms(2), intro wp_bind wp_read_dmstatus, rule wp_haltsum0, assumption,
    rule wp_if, rule wp_bind, rule wp_shifts, rule gives_result, simp add: low_bits fleet_summary [OF _ assms(3)],
    use assms(4,5) in \<open>simp_all add: fleet_status\<close>)

lemma run_tc_halt_010_each:
  assumes "fleet n s f g i m p" "n \<le> 32" "\<And>q i m. fleet n s (\<lambda>j. j < n \<or> f j) g i m q \<Longrightarrow> Q q k"
  shows "wp (tc_halt_010_each T (int n)) (\<lambda>r q k. gives r True \<and> Q q k) p k"
  unfolding tc_halt_010_each_def Let_def nat_int
  by (rule wp_seq, rule wp_halt_each [OF assms(1)], force, rule wp_bind, rule wp_haltsum0, assumption, rule wp_bind, rule wp_shifts,
    rule gives_result, simp add: low_bits fleet_summary [OF _ assms(2)], use assms(3) in simp)

lemma run_tc_res_010_each:
  assumes "fleet n s f g i m p" "n \<le> 32" "\<And>j. j < n \<Longrightarrow> f j"
    "\<And>q i m. fleet n s (\<lambda>j. \<not> j < n \<and> f j) (\<lambda>j. j < n \<or> g j) i m q \<Longrightarrow> Q q k"
  shows "wp (tc_res_010_each T (int n)) (\<lambda>r q k. gives r True \<and> Q q k) p k"
  unfolding tc_res_010_each_def Let_def nat_int
  by (rule wp_bind, rule wp_resume_each [OF assms(1)], force, simp, simp add: assms(3), rule wp_bind, rule wp_haltsum0, assumption, rule wp_if,
    rule wp_bind, rule wp_shifts, rule gives_result, simp add: low_bits fleet_summary [OF _ assms(2)], use assms(4) in simp_all)

lemma run_tc_hs_008_neither:
  assumes "fleet n s f g i m p" "\<not> f 0" "\<And>q m. fleet n s f g 0 m q \<Longrightarrow> Q q k"
  shows "wp (tc_hs_008_neither T) (\<lambda>r q k. gives r True \<and> Q q k) p k"
proof -
  have "0 < n" using assms(1) by (auto simp: fleet_def)
  then show ?thesis
    unfolding tc_hs_008_neither_def
    by (intro wp_seq wp_selected_idle [where h = 0, unfolded of_nat_0, OF fleet_crew [OF assms(1)]] wp_bind wp_read_dmstatus gives_result)
      (simp_all add: fleet_status assms(2) assms(3))
qed

subsection \<open>The session\<close>

lemma wp_activate_fleet:
  assumes "crew n s f g p" "0 < n" "take_bit 4 (version p) \<noteq> 0" "\<And>q m. fleet n s f g 0 m q \<Longrightarrow> Q () q 0"
  shows "wp (activate T) Q p k"
proof -
  let ?q = "dmcontrol_next (dmcontrol activate_args) p"
  have "fleet n s (halted_by activate_args 0 f) (acked_by activate_args 0 f g) 0 (s \<and> a_hasel activate_args) ?q"
    using assms(1,2) by (rule crew_next) (simp_all add: quiet_args_def activate_args_def)
  then have q: "fleet n s f g 0 False ?q" by (simp add: halted_by_def acked_by_def activate_args_def)
  have "version_of (expect_dmstatus ?q) \<noteq> 0"
    using at_status(11) [OF fleet_at [OF q]] assms(3) by (simp add: seq_config_def)
  then have "wp (if version_of (expect_dmstatus ?q) = 0 then raiseD NoDebugModule else returnD ()) Q ?q 0"
    using assms(4) [OF q] by (simp add: wp_return)
  then show ?thesis
    unfolding activate_def activate_args_def
    by (intro wp_seq wp_bind wp_set_hartsel wp_write_dmcontrol wp_status_reads) simp_all
qed

text \<open>The steps that select one hart after the other, from any state.\<close>

lemma each_verdicts_wp:
  assumes "fleet n s f g i m p" "n \<le> 32"
  shows "verdicts_wp
    [check_step a (tc_halt_010_each T (int n)), check_step b (tc_res_010_each T (int n)), check_step c (tc_hs_008_neither T)]
    [True, True, True] (\<lambda>_ _ _. True) x p k"
proof -
  have n: "0 < n" using assms(1) by (auto simp: fleet_def)
  show ?thesis
    by (rule verdicts_check, rule run_tc_halt_010_each [OF assms], rule verdicts_check, rule run_tc_res_010_each, assumption, rule assms(2), simp,
        rule verdicts_check, rule run_tc_hs_008_neither, assumption, use n in simp_all)
qed

lemma hart_array_verdicts_wp:
  assumes "crew n s (\<lambda>_. False) g p" "0 < n" "n \<le> 32" "take_bit 4 (version p) \<noteq> 0"
  shows "verdicts_wp (hart_array_steps T (int n))
    [True, True, n \<noteq> 1, True, \<not> s, \<not> s \<or> n = 1, True, True, True, True] (\<lambda>_ _ _. True) x p k"
proof -
  obtain h where h: "n = Suc h" using assms(2) gr0_implies_Suc by blast
  let ?f = "(\<lambda>_. False)(h := True)"
  have n: "int n - 1 = int h" "n \<noteq> 1 \<longleftrightarrow> h \<noteq> 0" "h < n" using h by simp_all
  have b: "(n = 1) = (\<forall>j<n. (?f(h := True)) j)" "True = (\<forall>j<n. \<not> (?f(h := True, h := False)) j)" using h by auto
  have tail: "verdicts_wp
     [dbg_step b1 (with_mask t1 (tc_hs_008 T)), dbg_step b2 (with_mask t2 (tc_halt_010_all T (int n) (int h))),
      dbg_step b3 (with_mask t3 (tc_res_010 T (int n) (int h))),
      check_step b4 (tc_halt_010_each T (int n)), check_step b5 (tc_res_010_each T (int n)), check_step b6 (tc_hs_008_neither T)]
     [\<not> s, \<not> s \<or> n = 1, True, True, True, True] (\<lambda>_ _ _. True) s q k"
    if q: "fleet n s ?f g h s q" for b1 b2 b3 b4 b5 b6 t1 t2 t3 q k
  proof (cases s)
    case False
    then show ?thesis by (simp only: not_False_eq_True simp_thms) (intro verdicts_unmasked each_verdicts_wp [OF q assms(3)])
  next
    case True
    then show ?thesis
      by (simp only: not_True_eq_False simp_thms b(1)) (rule verdicts_masked, rule run_tc_hs_008 [OF q],
        rule verdicts_masked, rule run_tc_halt_010_all [OF q n(3) assms(3)], rule verdicts_masked, subst b(2),
        rule run_tc_res_010, assumption, rule n, rule assms(3), simp, rule each_verdicts_wp, assumption, rule assms(3))
  qed
  show ?thesis
    unfolding hart_array_steps_def Let_def n
    by (rule verdicts_command, rule wp_activate_fleet [OF assms(1,2,4)], rule verdicts_check, rule run_tc_hs_007, assumption, rule n,
        rule verdicts_check, rule run_tc_halt_010_one, assumption, rule n, rule assms(3), simp,
        rule verdicts_dbg, rule run_tc_hs_003_mask, assumption, rule n, rule tail)
qed

end

end
