(* ===== verification/HartArrayProps.thy ===== *)
theory HartArrayProps
  imports HartArrayRuns
begin

text \<open>The hart array sequence against the golden model: the verdict of every step, for any number of harts.\<close>

definition harts_run :: "nat \<Rightarrow> DMPredictor \<Rightarrow> bool" where
  "harts_run n p \<longleftrightarrow> n \<le> length (harts p) \<and> cfg_valid p \<and> \<not> step_armed p \<and> \<not> ndmreset p \<and> \<not> hartreset_level p \<and>
     take_bit 4 (version p) \<noteq> 0 \<and> list_all (\<lambda>h. \<not> hart_reset h \<and> \<not> halted h) (take n (harts p))"

lemma harts_run_crew:
  assumes "reachable p" "harts_run n p" "n \<le> 32"
  shows "crew n (supports_hasel p) (\<lambda>_. False) (\<lambda>j. resume_ack (harts p ! j)) p"
  using assms by (auto simp: crew_def harts_run_def seq_ready_def list_all_length)

context dm_bench
begin

lemma hart_array_session:
  assumes "reachable p" "harts_run n p" "1 \<le> n" "n \<le> 32" "reps (t_state d) p"
  shows "\<exists>s. build_hart_array_sequence T ''batch'' (int n) = Inr (s, False) \<and> session_verdicts s (d, False) =
    Some [True, True, n \<noteq> 1, True, \<not> supports_hasel p, \<not> supports_hasel p \<or> n = 1, True, True, True, True]"
proof -
  have "0 < n" "take_bit 4 (version p) \<noteq> 0" using assms(2,3) by (simp_all add: harts_run_def)
  from session_verdicts_wp [OF hart_array_verdicts_wp [OF harts_run_crew [OF assms(1,2,4)] this(1) assms(4) this(2)] assms(5) refl, of False]
  obtain s where "session_of ''batch'' False (hart_array_steps T (int n)) = Inr s" "session_verdicts s (d, False) =
    Some [True, True, n \<noteq> 1, True, \<not> supports_hasel p, \<not> supports_hasel p \<or> n = 1, True, True, True, True]" by blast
  then show ?thesis unfolding build_hart_array_sequence_def by (intro exI [of _ s]) (simp only: bindR_simps simp_thms)
qed

end

text \<open>
  C32. The hart array session against the mock, for every number of harts up to 32 that are running and
  out of reset: the highest hart exists, halting it alone shows in \<^verbatim>\<open>haltsum0\<close> (unless it is the only hart,
  for which the check asks its bit to be set and clear), halting and resuming all harts one after the other
  shows in the acknowledges and in \<^verbatim>\<open>haltsum0\<close>, and at the end none is halted. The golden model keeps the selection bit of the
  hart array mask but not the mask: where it is declared to support \<^verbatim>\<open>hasel\<close>, the step that looks for
  some but not all harts halted fails, and so does halting all through the mask when there is more than one.
\<close>

theorem hart_array_exact:
  assumes "reachable (predictor (t_state d))" "harts_run n (predictor (t_state d))" "1 \<le> n" "n \<le> 32"
    "m = supports_hasel (predictor (t_state d))"
  shows "\<exists>s. build_hart_array_sequence (mock_transport clock) ''batch'' (int n) = Inr (s, False) \<and>
    session_verdicts s (d, False) = Some [True, True, n \<noteq> 1, True, \<not> m, \<not> m \<or> n = 1, True, True, True, True]"
  unfolding assms(5) by (rule mock_bench.hart_array_session [OF assms(1-4) refl])

lemma multihart_harts_run:
  "reachable (predictor (t_state multihart_session))" "harts_run 2 (predictor (t_state multihart_session))"
  "supports_hasel (predictor (t_state multihart_session)) = False"
proof -
  have d: "predictor (t_state multihart_session) = set_config DMPredictor_default multihart_config"
    by (simp add: multihart_session_def RISCVDebug_init_def mock_init_def)
  show "reachable (predictor (t_state multihart_session))"
    unfolding d DMPredictor_default_def by (intro reachable.config reachable.init) code_simp+
  show "harts_run 2 (predictor (t_state multihart_session))"
  "supports_hasel (predictor (t_state multihart_session)) = False" unfolding d by code_simp+
qed

theorem hart_array_exact_witness:
  "\<exists>s. build_hart_array_sequence (mock_transport (\<lambda>k. int k)) ''batch'' 2 = Inr (s, False) \<and>
    session_verdicts s (multihart_session, False) = Some (replicate 10 True)"
  using hart_array_exact [OF multihart_harts_run(1,2), of False "\<lambda>k. int k"] multihart_harts_run(3) by (simp add: numeral_eq_Suc)

end
