(* ===== verification/AbstractCmdBits.thy ===== *)
theory AbstractCmdBits
  imports Prelude
begin

text \<open>
  \<^verbatim>\<open>mk/dm_abstract_cmd_bits.py\<close>: the program the Debug Module generates for an abstract command, and the bits
  of it that no sampled command changes, on which coverage exclusions rest. The property is that the sample is
  good enough: a bit is constant over the sampled register numbers exactly when it is constant over all.
\<close>

unbundle bit_operations_syntax

subsection \<open>Encoders\<close>

definition enc_load :: "int \<Rightarrow> int \<Rightarrow> int \<Rightarrow> int \<Rightarrow> int" where
  "enc_load sz d b off = push_bit 20 off OR push_bit 15 b OR push_bit 12 sz OR push_bit 7 d OR 0x03"

definition enc_store :: "int \<Rightarrow> int \<Rightarrow> int \<Rightarrow> int \<Rightarrow> int" where
  "enc_store sz src b off =
     push_bit 25 (drop_bit 5 off) OR push_bit 20 src OR push_bit 15 b OR push_bit 12 sz OR push_bit 7 (off AND 0x1f) OR 0x23"

definition enc_fload :: "int \<Rightarrow> int \<Rightarrow> int \<Rightarrow> int \<Rightarrow> int" where
  "enc_fload sz d b off = push_bit 20 off OR push_bit 15 b OR push_bit 12 sz OR push_bit 7 d OR 0x07"

definition enc_fstore :: "int \<Rightarrow> int \<Rightarrow> int \<Rightarrow> int \<Rightarrow> int" where
  "enc_fstore sz src b off =
     push_bit 25 (drop_bit 5 off) OR push_bit 20 src OR push_bit 15 b OR push_bit 12 sz OR push_bit 7 (off AND 0x1f) OR 0x27"

definition csrw :: "int \<Rightarrow> int \<Rightarrow> int" where
  "csrw c r = push_bit 20 c OR push_bit 15 r OR push_bit 12 1 OR 0x73"

definition csrr :: "int \<Rightarrow> int \<Rightarrow> int" where
  "csrr c d = push_bit 20 c OR push_bit 12 2 OR push_bit 7 d OR 0x73"

definition auipc :: "int \<Rightarrow> int \<Rightarrow> int" where
  "auipc rd imm = push_bit 7 rd OR 0x17"

definition srli :: "int \<Rightarrow> int \<Rightarrow> int \<Rightarrow> int" where
  "srli rd rs sh = push_bit 20 sh OR push_bit 15 rs OR push_bit 12 5 OR push_bit 7 rd OR 0x13"

definition slli :: "int \<Rightarrow> int \<Rightarrow> int \<Rightarrow> int" where
  "slli rd rs sh = push_bit 20 sh OR push_bit 15 rs OR push_bit 12 1 OR push_bit 7 rd OR 0x13"

definition AC_EBREAK :: int where "AC_EBREAK = 0x00100073"
definition AC_NOP :: int where "AC_NOP = 0x13"
definition AC_ILLEGAL :: int where "AC_ILLEGAL = 0"
definition DS0 :: int where "DS0 = 0x7b2"
definition DS1 :: int where "DS1 = 0x7b3"
definition LB :: int where "LB = 10"
definition DA :: int where "DA = 0x380"

definition two_words :: "int \<Rightarrow> int \<Rightarrow> int" where
  "two_words lo hi = push_bit 32 hi OR lo"

subsection \<open>The generated program\<close>

definition setlo :: "nat \<Rightarrow> int \<Rightarrow> int list \<Rightarrow> int list" where
  "setlo i v s = s[i := push_bit 32 (drop_bit 32 (s ! i)) OR v]"

definition sethi :: "nat \<Rightarrow> int \<Rightarrow> int list \<Rightarrow> int list" where
  "sethi i v s = s[i := push_bit 32 v OR (s ! i AND 0xffffffff)]"

definition initial_slots :: "int list" where
  "initial_slots =
     [two_words AC_ILLEGAL (auipc 10 0), two_words (srli 10 10 12) (slli 10 10 12), two_words AC_NOP AC_NOP,
      two_words AC_NOP AC_NOP, two_words (csrr DS1 10) AC_EBREAK, 0, 0, 0]"

text \<open>The two transfers; the Boolean is \<^verbatim>\<open>uns\<close>, the command is not supported.\<close>

definition write_transfer :: "int \<Rightarrow> int \<Rightarrow> int list \<Rightarrow> int list \<times> bool" where
  "write_transfer sz regno s =
     (let r12 = drop_bit 12 regno AND 1; r5 = drop_bit 5 regno AND 1; r4 = regno AND 0x1f;
          s = setlo 0 (csrw DS1 10) s
      in if truth (drop_bit 14 regno) then (setlo 0 AC_EBREAK s, True)
         else if truth r12 \<and> \<not> truth r5 \<and> r4 = 10
         then (sethi 3 (csrr DS0 8) (setlo 3 (csrw DS1 8) (sethi 2 (enc_load sz 8 LB DA) (setlo 2 (csrw DS0 8) s))), False)
         else if truth r12
         then (setlo 2 ((if truth r5 then enc_fload else enc_load) sz r4 LB DA) s, False)
         else (sethi 3 (csrr DS0 8) (setlo 3 (csrw (regno AND 0xfff) 8)
                (sethi 2 (enc_load sz 8 LB DA) (setlo 2 (csrw DS0 8) s))), False))"

definition read_transfer :: "int \<Rightarrow> int \<Rightarrow> int list \<Rightarrow> int list \<times> bool" where
  "read_transfer sz regno s =
     (let r12 = drop_bit 12 regno AND 1; r5 = drop_bit 5 regno AND 1; r4 = regno AND 0x1f;
          s = setlo 0 (csrw DS1 LB) s
      in if truth (drop_bit 14 regno) then (setlo 0 AC_EBREAK s, True)
         else if truth r12 \<and> \<not> truth r5 \<and> r4 = 10
         then (sethi 3 (csrr DS0 8) (setlo 3 (enc_store sz 8 LB DA) (sethi 2 (csrr DS1 8) (setlo 2 (csrw DS0 8) s))), False)
         else if truth r12
         then (setlo 2 ((if truth r5 then enc_fstore else enc_store) sz r4 LB DA) s, False)
         else (sethi 3 (csrr DS0 8) (setlo 3 (enc_store sz 8 LB DA)
                (sethi 2 (csrr (regno AND 0xfff) 8) (setlo 2 (csrw DS0 8) s))), False))"

record command_shape =
  c_cmdtype :: int
  c_size :: int
  c_transfer :: bool
  c_write :: bool
  c_postexec :: bool
  c_postinc :: bool

definition gen :: "command_shape \<Rightarrow> int \<Rightarrow> int list" where
  "gen c regno =
     (if c_cmdtype c = 0
      then let (s, uns) =
                 (if c_size c < 4 \<and> c_transfer c \<and> c_write c then write_transfer (c_size c) regno initial_slots
                  else if c_size c < 4 \<and> c_transfer c \<and> \<not> c_write c then read_transfer (c_size c) regno initial_slots
                  else if 4 \<le> c_size c \<or> c_postinc c then (setlo 0 AC_EBREAK initial_slots, True)
                  else (initial_slots, False))
           in if c_postexec c \<and> \<not> uns then sethi 4 AC_NOP s else s
      else setlo 0 AC_EBREAK initial_slots)"

subsection \<open>The sample and its constant bits\<close>

definition sampled_regnos :: "int list" where
  "sampled_regnos =
     [push_bit 14 hi2 OR push_bit 12 b12 OR push_bit 5 b5 OR low5 OR (mid AND NOT 0x20 AND 0xfc0).
        hi2 \<leftarrow> [0, 1, 2, 3], b12 \<leftarrow> [0, 1], b5 \<leftarrow> [0, 1], low5 \<leftarrow> map int [0..<32], mid \<leftarrow> [0, 0x7c0, 0x1c0, 0x440]]
     @ map (\<lambda>k. push_bit k 1) [0..<16] @ [0xfff, 0x0]"

definition sampled_shapes :: "command_shape list" where
  "sampled_shapes =
     [\<lparr>c_cmdtype = cmdtype, c_size = sz, c_transfer = transfer, c_write = wr, c_postexec = postexec, c_postinc = postinc\<rparr>.
        cmdtype \<leftarrow> [0, 1], sz \<leftarrow> map int [0..<8], transfer \<leftarrow> [False, True], wr \<leftarrow> [False, True],
        postexec \<leftarrow> [False, True], postinc \<leftarrow> [False, True]]"

definition programs :: "int list list" where
  "programs = [gen c regno. c \<leftarrow> sampled_shapes, regno \<leftarrow> sampled_regnos]"

definition constant_bits :: "nat \<Rightarrow> nat list" where
  "constant_bits i =
     (let seen = map (\<lambda>p. p ! i) programs;
          ones = fold (\<lambda>v acc. acc AND v) seen (NOT 0);
          zeros = fold (\<lambda>v acc. acc AND NOT v) seen (NOT 0)
      in filter (\<lambda>b. bit ones b \<or> bit zeros b) [0..<64])"

subsection \<open>The sample covers every register number\<close>

definition regno_key :: "int \<Rightarrow> bool \<times> bool \<times> bool \<times> int" where
  "regno_key r = (truth (drop_bit 14 r), truth (drop_bit 12 r AND 1), truth (drop_bit 5 r AND 1), r AND 0x1f)"

definition csr_regno :: "int \<Rightarrow> bool" where
  "csr_regno r \<longleftrightarrow> \<not> truth (drop_bit 14 r) \<and> \<not> truth (drop_bit 12 r AND 1)"

lemma gen_cong:
  assumes "regno_key r = regno_key r'" "\<not> csr_regno r"
  shows "gen c r = gen c r'"
proof -
  have "truth (drop_bit 14 r) = truth (drop_bit 14 r')" "truth (drop_bit 12 r AND 1) = truth (drop_bit 12 r' AND 1)"
    "truth (drop_bit 5 r AND 1) = truth (drop_bit 5 r' AND 1)" "r AND 0x1f = r' AND 0x1f"
    "truth (drop_bit 14 r') \<or> truth (drop_bit 12 r' AND 1)"
    using assms by (auto simp: regno_key_def csr_regno_def)
  then show ?thesis by (auto simp: gen_def write_transfer_def read_transfer_def Let_def)
qed

text \<open>The program of a register number in the CSR space: one field of one slot carries it, bit by bit.\<close>

definition carried :: "nat \<Rightarrow> nat \<Rightarrow> nat" where
  "carried i b = (if i = 3 then b - 20 else b - 52)"

lemma two_regnos:
  assumes "bit r (b - 20) \<longleftrightarrow> bit r' (b - 20)"
  shows "bit (csrw (r AND 0xfff) 8) b = bit (csrw (r' AND 0xfff) 8) b" "bit (csrr (r AND 0xfff) 8) b = bit (csrr (r' AND 0xfff) 8) b"
  using assms unfolding csrw_def csrr_def by (simp_all add: bit_or_iff bit_push_bit_iff bit_take_bit_iff)

lemma slot_update:
  "length (setlo j v s) = length s" "length (sethi j v s) = length s"
  "i < length s \<Longrightarrow> setlo j v s ! i = (if i = j then push_bit 32 (drop_bit 32 (s ! i)) OR v else s ! i)"
  "i < length s \<Longrightarrow> sethi j v s ! i = (if i = j then push_bit 32 v OR (s ! i AND 0xffffffff) else s ! i)"
  by (simp_all add: setlo_def sethi_def nth_list_update)

lemma csr_transfers:
  assumes "csr_regno r"
  shows "write_transfer sz r s = (sethi 3 (csrr DS0 8) (setlo 3 (csrw (r AND 0xfff) 8)
      (sethi 2 (enc_load sz 8 LB DA) (setlo 2 (csrw DS0 8) (setlo 0 (csrw DS1 10) s)))), False)"
    "read_transfer sz r s = (sethi 3 (csrr DS0 8) (setlo 3 (enc_store sz 8 LB DA)
      (sethi 2 (csrr (r AND 0xfff) 8) (setlo 2 (csrw DS0 8) (setlo 0 (csrw DS1 LB) s)))), False)"
  using assms by (simp_all only: csr_regno_def write_transfer_def read_transfer_def Let_def simp_thms if_False)

lemma csr_program_bit:
  assumes "csr_regno r" "csr_regno r'" "bit r (carried i b) \<longleftrightarrow> bit r' (carried i b)" "i < 8"
  shows "bit (gen c r ! i) b = bit (gen c r' ! i) b"
proof -
  have l: "length initial_slots = 8" by (simp add: initial_slots_def)
  have "bit (csrw (r AND 0xfff) 8) b = bit (csrw (r' AND 0xfff) 8) b" if "i = 3"
    using two_regnos [of r b r'] assms(3) that by (simp add: carried_def)
  moreover have "bit (csrr (r AND 0xfff) 8) (b - 32) = bit (csrr (r' AND 0xfff) 8) (b - 32)" if "i = 2"
    using two_regnos [of r "b - 32" r'] assms(3) that by (simp add: carried_def)
  ultimately show ?thesis
    using assms(4) unfolding gen_def csr_transfers [OF assms(1)] csr_transfers [OF assms(2)]
    by (auto simp: l slot_update bit_or_iff bit_push_bit_iff bit_take_bit_iff)
qed

text \<open>The sampled register number that stands for \<open>r\<close>: its upper and lower bits, or one bit of the CSR number.\<close>

lemma regno_bits: "0 \<le> r \<Longrightarrow> r < 2 ^ 16 \<Longrightarrow> bit r n \<Longrightarrow> n < 16" for r :: int
  using take_bit_int_eq_self [of r 16] bit_take_bit_iff [of 16 r n] by auto

lemma core_bits: "bit (r AND 0xD03F) n \<longleftrightarrow> bit r n \<and> n \<in> {0, 1, 2, 3, 4, 5, 12, 14, 15}" for r :: int
proof -
  have "bit (0xD03F :: int) n \<Longrightarrow> n < 16" using regno_bits [of "0xD03F" n] by simp
  moreover have "bit (0xD03F :: int) n \<longleftrightarrow> n \<in> {0, 1, 2, 3, 4, 5, 12, 14, 15}" if "n < 16"
  proof -
    have "n = 0 \<or> n = 1 \<or> n = 2 \<or> n = 3 \<or> n = 4 \<or> n = 5 \<or> n = 6 \<or> n = 7 \<or> n = 8 \<or> n = 9 \<or> n = 10 \<or> n = 11 \<or> n = 12 \<or>
      n = 13 \<or> n = 14 \<or> n = 15" using that by arith
    then show ?thesis by (elim disjE) simp_all
  qed
  moreover have "n \<in> {0, 1, 2, 3, 4, 5, 12, 14, 15} \<Longrightarrow> n < 16" by auto
  ultimately have "bit (0xD03F :: int) n \<longleftrightarrow> n \<in> {0, 1, 2, 3, 4, 5, 12, 14, 15}" by metis
  then show ?thesis by (simp only: bit_and_iff)
qed

lemma comprehension5:
  "a \<in> set A \<Longrightarrow> b \<in> set B \<Longrightarrow> c \<in> set C \<Longrightarrow> d \<in> set D \<Longrightarrow> e \<in> set E \<Longrightarrow>
   f a b c d e \<in> set [f a b c d e. a \<leftarrow> A, b \<leftarrow> B, c \<leftarrow> C, d \<leftarrow> D, e \<leftarrow> E]"
  by (simp, intro bexI, rule imageI, assumption+)

lemma comprehension5E:
  assumes "x \<in> set [f a b c d e. a \<leftarrow> A, b \<leftarrow> B, c \<leftarrow> C, d \<leftarrow> D, e \<leftarrow> E]"
  obtains a b c d e where "x = f a b c d e" "a \<in> set A" "b \<in> set B" "c \<in> set C" "d \<in> set D" "e \<in> set E"
  using assms by auto

lemma comprehension6:
  "a \<in> set A \<Longrightarrow> b \<in> set B \<Longrightarrow> c \<in> set C \<Longrightarrow> d \<in> set D \<Longrightarrow> e \<in> set E \<Longrightarrow> g \<in> set G \<Longrightarrow>
   f a b c d e g \<in> set [f a b c d e g. a \<leftarrow> A, b \<leftarrow> B, c \<leftarrow> C, d \<leftarrow> D, e \<leftarrow> E, g \<leftarrow> G]"
  by (simp, intro bexI, rule imageI, assumption+)

lemma sampled_core:
  assumes "0 \<le> r" "r < 2 ^ 16"
  shows "r AND 0xD03F \<in> set sampled_regnos"
proof -
  have "0 \<le> r div 16384" "r div 16384 < 4" using assms by auto
  then have "drop_bit 14 r \<in> {0, 1, 2, 3}" unfolding drop_bit_eq_div by auto
  moreover have "drop_bit 12 r AND 1 \<in> {0, 1}" "drop_bit 5 r AND 1 \<in> {0, 1}" by (auto simp: and_one_eq)
  moreover have "r AND 0x1f \<in> set (map int [0..<32])"
  proof -
    have "r AND 0x1f = int (nat (take_bit 5 r))" "nat (take_bit 5 r) < 32" using take_bit_int_less_exp [of 5 r] by auto
    then show ?thesis unfolding set_map by (intro image_eqI) simp_all
  qed
  moreover have "r AND 0xD03F = push_bit 14 (drop_bit 14 r) OR push_bit 12 (drop_bit 12 r AND 1) OR push_bit 5 (drop_bit 5 r AND 1) OR
      (r AND 0x1f) OR (0 AND NOT 0x20 AND 0xfc0)"
  proof (rule bit_eqI)
    fix n
    have "bit r n \<Longrightarrow> n < 16" using assms by (rule regno_bits)
    then show "bit (r AND 0xD03F) n = bit (push_bit 14 (drop_bit 14 r) OR push_bit 12 (drop_bit 12 r AND 1) OR
        push_bit 5 (drop_bit 5 r AND 1) OR (r AND 0x1f) OR (0 AND NOT 0x20 AND 0xfc0)) n"
      unfolding core_bits
      by (auto simp: bit_or_iff bit_push_bit_iff bit_drop_bit_eq bit_take_bit_iff and_one_eq bit_of_bool_int le_less_Suc_eq elim: less_natE)
  qed
  ultimately show ?thesis unfolding sampled_regnos_def set_append
    by (intro UnI1) (simp only:, rule comprehension5 [where f = "\<lambda>a b c d e. push_bit 14 a OR push_bit 12 b OR push_bit 5 c OR d OR (e AND NOT 0x20 AND 0xfc0)"], simp_all)
qed

lemma sampled_csr: "k < 16 \<Longrightarrow> push_bit k 1 \<in> set sampled_regnos" "0 \<in> set sampled_regnos"
  unfolding sampled_regnos_def set_append by (simp_all only: set_map set_upt) auto

lemma truth_bit: "truth (drop_bit k x AND 1) = bit x k"
  by (simp add: truth_def and_one_eq mod_2_eq_odd bit_iff_odd_drop_bit)

lemma core_key:
  assumes "0 \<le> r" "r < 2 ^ 16"
  shows "regno_key (r AND 0xD03F) = regno_key r"
proof -
  have b: "bit r n \<Longrightarrow> n < 16" for n using assms by (rule regno_bits)
  have "drop_bit 14 (r AND 0xD03F) = drop_bit 14 r"
  proof (rule bit_eqI)
    fix n show "bit (drop_bit 14 (r AND 0xD03F)) n = bit (drop_bit 14 r) n"
      using b [of "14 + n"] unfolding bit_drop_bit_eq o_def core_bits by auto
  qed
  moreover have "(r AND 0xD03F) AND 0x1f = r AND 0x1f" unfolding and.assoc by simp
  ultimately show ?thesis
    unfolding regno_key_def truth_bit core_bits by simp
qed

lemma represented:
  assumes "0 \<le> r" "r < 2 ^ 16" "i < 8"
  shows "\<exists>r' \<in> set sampled_regnos. bit (gen c r ! i) b = bit (gen c r' ! i) b"
proof (cases "csr_regno r")
  case False
  then have "gen c r = gen c (r AND 0xD03F)" using core_key [OF assms(1,2)] by (intro gen_cong) simp_all
  then show ?thesis using sampled_core [OF assms(1,2)] by auto
next
  case True
  let ?k = "carried i b"
  define r' :: int where "r' = (if bit r ?k then push_bit ?k 1 else 0)"
  have z: "drop_bit 14 r = 0" "\<not> bit r 12" using True unfolding csr_regno_def truth_bit by (simp_all add: truth_def)
  have k: "?k < 14 \<and> ?k \<noteq> 12" if "bit r ?k"
  proof -
    have "\<not> bit (drop_bit 14 r) (?k - 14)" using z(1) by simp
    then have "?k < 14" using that unfolding bit_drop_bit_eq o_def by (cases "14 \<le> ?k") simp_all
    then show ?thesis using that z(2) by auto
  qed
  have "drop_bit 14 (push_bit ?k 1) = (0 :: int)" if "?k < 14"
    using that by (intro bit_eqI) (auto simp: bit_drop_bit_eq bit_exp_iff)
  then have "csr_regno r'"
    unfolding csr_regno_def truth_bit r'_def using k by (auto simp: truth_def bit_exp_iff)
  moreover have "bit r' ?k = bit r ?k" by (simp add: r'_def bit_exp_iff)
  moreover have "r' \<in> set sampled_regnos" using k sampled_csr by (auto simp: r'_def)
  ultimately show ?thesis using csr_program_bit [OF True, of r' i b c] assms(3) by blast
qed

subsection \<open>Constant bits\<close>

definition command_field :: "command_shape \<Rightarrow> bool" where
  "command_field c \<longleftrightarrow> 0 \<le> c_size c \<and> c_size c < 8"

lemma sampled_shape:
  assumes "command_field c"
  shows "\<exists>c' \<in> set sampled_shapes. gen c = gen c'"
proof -
  let ?c = "c\<lparr>c_cmdtype := (if c_cmdtype c = 0 then 0 else 1)\<rparr>"
  have "gen c = gen ?c" by (auto simp: gen_def fun_eq_iff)
  moreover have "c_size c \<in> set (map int [0..<8])"
    using assms unfolding command_field_def set_map by (intro image_eqI [of _ _ "nat (c_size c)"]) auto
  then have "?c \<in> set sampled_shapes"
    unfolding sampled_shapes_def
    using comprehension6 [where f = "\<lambda>a b c d e g. \<lparr>c_cmdtype = a, c_size = b, c_transfer = c, c_write = d, c_postexec = e, c_postinc = g\<rparr>"
        and a = "c_cmdtype ?c" and b = "c_size c" and c = "c_transfer c" and d = "c_write c" and e = "c_postexec c" and g = "c_postinc c"
        and A = "[0, 1]" and B = "map int [0..<8]" and C = "[False, True]" and D = "[False, True]" and E = "[False, True]" and G = "[False, True]"]
    by (cases c) (auto simp del: set_map set_upt set_concat)
  ultimately show ?thesis by blast
qed

lemma shape_in_range: "c \<in> set sampled_shapes \<Longrightarrow> command_field c"
  by (auto simp: sampled_shapes_def command_field_def)

definition regno_field :: "int \<Rightarrow> bool" where
  "regno_field r \<longleftrightarrow> 0 \<le> r \<and> r < 2 ^ 16"

lemma regno_field_or: "regno_field x \<Longrightarrow> regno_field y \<Longrightarrow> regno_field (x OR y)"
  using OR_upper [of x 16 y] by (simp add: regno_field_def)

lemma regno_in_range:
  assumes "r \<in> set sampled_regnos"
  shows "regno_field r"
proof -
  have p: "regno_field (push_bit k 1)" if "k < 16" for k
    using that power_strict_increasing [of k 16 "2 :: int"] by (simp add: regno_field_def)
  let ?f = "\<lambda>a b c d e. push_bit 14 a OR push_bit 12 b OR push_bit 5 c OR d OR (e AND NOT 0x20 AND 0xfc0)"
  from assms consider
      "r \<in> set [?f a b c d e. a \<leftarrow> [0, 1, 2, 3], b \<leftarrow> [0, 1], c \<leftarrow> [0, 1], d \<leftarrow> map int [0..<32], e \<leftarrow> [0, 0x7c0, 0x1c0, 0x440]]"
    | "r \<in> set (map (\<lambda>k. push_bit k 1) [0..<16])" | "r \<in> set [0xfff, 0]"
    unfolding sampled_regnos_def set_append by blast
  then show ?thesis
  proof cases
    case 1
    then obtain a b c d e where "r = ?f a b c d e" "a \<in> set [0, 1, 2, 3]" "b \<in> set [0, 1]" "c \<in> set [0, 1]" "d \<in> set (map int [0..<32])"
      "e \<in> set [0, 0x7c0, 0x1c0, 0x440]" by (rule comprehension5E)
    moreover from this(2-6) have "regno_field (push_bit 14 a)" "regno_field (push_bit 12 b)" "regno_field (push_bit 5 c)" "regno_field d"
      "regno_field (e AND NOT 0x20 AND 0xfc0)"
      by (auto simp: regno_field_def)
    ultimately show ?thesis by (simp only: regno_field_or)
  next
    case 2
    then show ?thesis using p by auto
  qed (auto simp: regno_field_def)
qed

lemma fold_and_bits:
  "bit (fold (\<lambda>v acc. acc AND v) vs a) b \<longleftrightarrow> bit a b \<and> (\<forall>v \<in> set vs. bit v b)"
  "bit (fold (\<lambda>v acc. acc AND NOT v) vs a) b \<longleftrightarrow> bit a b \<and> (\<forall>v \<in> set vs. \<not> bit v b)" for a :: int
  by (induction vs arbitrary: a) (auto simp: bit_and_iff bit_not_iff)

lemma in_constant_bits:
  "b \<in> set (constant_bits i) \<longleftrightarrow> b < 64 \<and> ((\<forall>p \<in> set programs. bit (p ! i) b) \<or> (\<forall>p \<in> set programs. \<not> bit (p ! i) b))"
  by (auto simp: constant_bits_def Let_def fold_and_bits)

lemma in_programs: "p \<in> set programs \<longleftrightarrow> (\<exists>c \<in> set sampled_shapes. \<exists>r \<in> set sampled_regnos. p = gen c r)"
  by (auto simp: programs_def)

text \<open>
  C33. The bits on which coverage exclusions rest are exactly the bits that never vary: for every slot of
  the generated program, \<^verbatim>\<open>constant_bits\<close> lists a bit, found by running a sample of register numbers, if and
  only if the bit has one value in the programs of all commands, with any command type, any of the eight sizes, any flags and
  any of the 65536 register numbers.
\<close>

theorem constant_bits_exact:
  assumes "i < 8"
  shows "b \<in> set (constant_bits i) \<longleftrightarrow>
    b < 64 \<and> (\<exists>v. \<forall>c r. command_field c \<and> regno_field r \<longrightarrow> bit (gen c r ! i) b = v)"
proof -
  have "\<exists>p \<in> set programs. bit (gen c r ! i) b = bit (p ! i) b" if cr: "command_field c" "regno_field r" for c r
  proof -
    obtain c' where c: "c' \<in> set sampled_shapes" "gen c = gen c'" using sampled_shape [OF cr(1)] by blast
    obtain r' where "r' \<in> set sampled_regnos" "bit (gen c' r ! i) b = bit (gen c' r' ! i) b"
      using represented [of r i c' b] cr(2) assms by (auto simp: regno_field_def)
    moreover from this c have "gen c' r' \<in> set programs" unfolding in_programs by blast
    ultimately show ?thesis using c(2) by (intro bexI [of _ "gen c' r'"]) simp_all
  qed
  moreover have "\<exists>c r. p = gen c r \<and> command_field c \<and> regno_field r" if "p \<in> set programs" for p
    using that shape_in_range regno_in_range unfolding in_programs by blast
  ultimately show ?thesis unfolding in_constant_bits by metis
qed

definition sample_command :: "bool \<Rightarrow> command_shape" where
  "sample_command wr = \<lparr>c_cmdtype = 0, c_size = 2, c_transfer = True, c_write = wr, c_postexec = False, c_postinc = False\<rparr>"

definition same_slot1 :: "int list \<Rightarrow> int list \<Rightarrow> bool" where
  "same_slot1 s t \<longleftrightarrow> 1 < length s \<and> length t = length s \<and> t ! 1 = s ! 1"

lemma same_slot1_update: "same_slot1 s t \<Longrightarrow> j \<noteq> 1 \<Longrightarrow> same_slot1 s (setlo j v t) \<and> same_slot1 s (sethi j v t)"
  by (simp add: same_slot1_def slot_update)

lemma transfer_kept: "same_slot1 s s \<Longrightarrow> same_slot1 s (fst (write_transfer sz r s)) \<and> same_slot1 s (fst (read_transfer sz r s))"
  unfolding write_transfer_def read_transfer_def Let_def by (simp only: if_distrib [of fst] fst_conv same_slot1_update split: if_split) (simp add: same_slot1_update)

text \<open>Bit 52 of slot 2 carries the lowest bit of a CSR number that is read; slot 1 never changes.\<close>

theorem constant_bits_exact_witness: "52 \<notin> set (constant_bits 2) \<and> 40 \<in> set (constant_bits 1)"
proof
  have "command_field (sample_command False) \<and> regno_field 0 \<and> regno_field 1 \<and> bit (gen (sample_command False) 1 ! 2) 52 \<and>
    \<not> bit (gen (sample_command False) 0 ! 2) 52" by code_simp
  then show "52 \<notin> set (constant_bits 2)" using constant_bits_exact [of 2 52] by auto
  have "same_slot1 initial_slots initial_slots" by (simp add: same_slot1_def initial_slots_def)
  then have "same_slot1 initial_slots (gen c r)" for c r
    using transfer_kept [of initial_slots] by (simp add: gen_def split_beta same_slot1_update)
  then have "gen c r ! 1 = initial_slots ! 1" for c r by (simp add: same_slot1_def)
  then show "40 \<in> set (constant_bits 1)" using constant_bits_exact [of 1 40] by auto
qed

end
