(* ===== verification/Liveness.thy ===== *)
theory Liveness
  imports Sequences
begin

text \<open>
  Whatever the device answers, the command library comes to an end. The locale \<open>live_transport\<close> asks of a transport
  only that its clock passes every deadline and that it raises errors of a kind \<open>E\<close>; in it every method of
  \<^verbatim>\<open>RISCVDebug\<close> and every helper the sequences share returns or raises an error of that kind.
\<close>

text \<open>
  A method that ends: it raises an error of the kind \<open>E\<close> or returns a value that satisfies \<open>P\<close>, and the clock has
  not gone back.
\<close>

definition outcome :: "(dbg_error \<Rightarrow> bool) \<Rightarrow> ('a \<Rightarrow> bool) \<Rightarrow> 's RISCVDebug \<Rightarrow> ((dbg_error + 'a) \<times> 's RISCVDebug) option \<Rightarrow> bool" where
  "outcome E P d o1 \<longleftrightarrow>
     (\<exists>r d'. o1 = Some (r, d') \<and> clock_reads d \<le> clock_reads d' \<and> (case r of Inl e \<Rightarrow> E e | Inr x \<Rightarrow> P x))"

definition ends :: "(dbg_error \<Rightarrow> bool) \<Rightarrow> ('a \<Rightarrow> bool) \<Rightarrow> ('s, 'a) dbg \<Rightarrow> bool" where
  "ends E P m \<longleftrightarrow> (\<forall>d. outcome E P d (m d))"

abbreviation "anything \<equiv> \<lambda>_. True"

lemma endsI: "(\<And>d. outcome E P d (m d)) \<Longrightarrow> ends E P m"
  unfolding ends_def by blast

lemma outcome_simps [simp]:
  "\<not> outcome E P d None"
  "outcome E P d (Some (Inl e, d')) \<longleftrightarrow> clock_reads d \<le> clock_reads d' \<and> E e"
  "outcome E P d (Some (Inr x, d')) \<longleftrightarrow> clock_reads d \<le> clock_reads d' \<and> P x"
  by (auto simp: outcome_def)

lemma outcomeE:
  assumes "outcome E P d o1"
  obtains (raises) e d' where "o1 = Some (Inl e, d')" "clock_reads d \<le> clock_reads d'" "E e"
    | (returns) x d' where "o1 = Some (Inr x, d')" "clock_reads d \<le> clock_reads d'" "P x"
  using assms unfolding outcome_def by (metis (no_types, lifting) sum.case sum.exhaust)

lemma endsE:
  assumes "ends E P m"
  obtains (raises) e d' where "m d = Some (Inl e, d')" "clock_reads d \<le> clock_reads d'" "E e"
    | (returns) x d' where "m d = Some (Inr x, d')" "clock_reads d \<le> clock_reads d'" "P x"
  using assms unfolding ends_def by (metis outcomeE)

lemma outcome_later: "outcome E P d' o1 \<Longrightarrow> clock_reads d \<le> clock_reads d' \<Longrightarrow> outcome E P d o1"
  unfolding outcome_def by (blast intro: le_trans)

named_theorems ends_intros

lemma ends_return [ends_intros]: "P x \<Longrightarrow> ends E P (returnD x)"
  by (simp add: ends_def)

lemma ends_raise [ends_intros]: "E e \<Longrightarrow> ends E P (raiseD e)"
  by (simp add: ends_def)

lemma ends_primitives [ends_intros]:
  "ends E anything get_hartsel" "ends E anything (set_hartsel h)" "ends E anything (monotonic T)"
  "ends E anything (read_clock clk)" "ends E anything (get_predictor pred)"
  by (simp_all add: ends_def read_clock_def get_predictor_def)

lemma ends_bind_values:
  assumes "ends E Q m" "\<And>x. Q x \<Longrightarrow> ends E P (f x)"
  shows "ends E P (bindD m f)"
proof (rule endsI)
  fix d
  show "outcome E P d (bindD m f d)"
  proof (rule endsE [OF assms(1), of d])
    fix x d' assume m: "m d = Some (Inr x, d')" "clock_reads d \<le> clock_reads d'" "Q x"
    then show ?thesis using assms(2) [OF m(3)] by (auto simp: ends_def intro: outcome_later [of E P d'])
  qed simp_all
qed

lemma ends_bind [ends_intros]: "ends E anything m \<Longrightarrow> (\<And>x. ends E P (f x)) \<Longrightarrow> ends E P (bindD m f)"
  by (rule ends_bind_values)

lemma ends_seq [ends_intros]: "ends E anything m \<Longrightarrow> ends E P n \<Longrightarrow> ends E P (seqD m n)"
  unfolding seqD_def by (rule ends_bind)

lemma ends_if [ends_intros]: "(b \<Longrightarrow> ends E P m) \<Longrightarrow> (\<not> b \<Longrightarrow> ends E P n) \<Longrightarrow> ends E P (if b then m else n)"
  by simp

lemma ends_option [ends_intros]:
  "(x = None \<Longrightarrow> ends E P m) \<Longrightarrow> (\<And>y. x = Some y \<Longrightarrow> ends E P (f y)) \<Longrightarrow> ends E P (case x of None \<Rightarrow> m | Some y \<Rightarrow> f y)"
  by (cases x) simp_all

lemma ends_sum [ends_intros]:
  "(\<And>y. x = Inl y \<Longrightarrow> ends E P (g y)) \<Longrightarrow> (\<And>y. x = Inr y \<Longrightarrow> ends E P (f y)) \<Longrightarrow> ends E P (case x of Inl y \<Rightarrow> g y | Inr y \<Rightarrow> f y)"
  by (cases x) simp_all

lemma ends_list [ends_intros]:
  "(x = [] \<Longrightarrow> ends E P m) \<Longrightarrow> (\<And>y ys. x = y # ys \<Longrightarrow> ends E P (f y ys)) \<Longrightarrow> ends E P (case x of [] \<Rightarrow> m | y # ys \<Rightarrow> f y ys)"
  by (cases x) simp_all

lemma ends_prod [ends_intros]: "(\<And>a b. x = (a, b) \<Longrightarrow> ends E P (f a b)) \<Longrightarrow> ends E P (case x of (a, b) \<Rightarrow> f a b)"
  by (cases x) simp

lemma ends_step_result [ends_intros]: "P (ReturnsStep \<lparr>ok = b, msg = tc, data = None\<rparr>) \<Longrightarrow> ends E P (step_result tc b)"
  unfolding step_result_def by (rule ends_return)

lemma ends_try:
  assumes "ends E' P m" "\<And>e. E' e \<Longrightarrow> ends E P (handler e)"
  shows "ends E P (tryD m handler)"
proof (rule endsI)
  fix d
  show "outcome E P d (tryD m handler d)"
  proof (rule endsE [OF assms(1), of d])
    fix e d' assume m: "m d = Some (Inl e, d')" "clock_reads d \<le> clock_reads d'" "E' e"
    then show ?thesis using assms(2) [OF m(3)] by (auto simp: ends_def tryD_def intro: outcome_later [of E P d'])
  qed (simp_all add: tryD_def)
qed

lemma ends_try_same [ends_intros]: "ends E P m \<Longrightarrow> (\<And>e. E e \<Longrightarrow> ends E P (handler e)) \<Longrightarrow> ends E P (tryD m handler)"
  by (rule ends_try)

lemma ends_any_of_range [ends_intros]: "ends E anything m \<Longrightarrow> ends E anything (any_of_range n m)"
  by (induction n) (auto intro!: ends_intros)

lemma ends_mapD [ends_intros]: "(\<And>x. x \<in> set xs \<Longrightarrow> ends E anything (f x)) \<Longrightarrow> ends E anything (mapD f xs)"
  by (induction xs) (auto intro!: ends_intros)

lemma ends_forD [ends_intros]: "(\<And>x. x \<in> set xs \<Longrightarrow> ends E anything (f x)) \<Longrightarrow> ends E anything (forD f xs)"
  by (induction xs) (auto intro!: ends_intros)

subsection \<open>Transports\<close>

text \<open>\<^verbatim>\<open>time.monotonic\<close>: from some reading on, any given time has passed.\<close>

definition passes :: "(nat \<Rightarrow> int) \<Rightarrow> bool" where
  "passes clk \<longleftrightarrow> (\<forall>t. \<exists>n. \<forall>k \<ge> n. t < clk k)"

lemma passes_int: "passes (\<lambda>k. int k)"
  unfolding passes_def
proof
  fix t show "\<exists>n. \<forall>k\<ge>n. t < int k" by (rule exI [of _ "nat (t + 1)"]) auto
qed

text \<open>A loop that gives up when the clock has passed its deadline, by induction on the readings left until then.\<close>

lemma clock_loops:
  assumes "passes clk"
    and "\<And>d i. (\<And>d' j. clock_reads d < clock_reads d' \<Longrightarrow> clk (clock_reads d) \<le> deadline \<Longrightarrow> outcome E P d (loop j d')) \<Longrightarrow>
      outcome E P d (loop i d)"
  shows "ends E P (loop i)"
proof -
  obtain n where n: "\<And>k. n \<le> k \<Longrightarrow> deadline < clk k" using assms(1) unfolding passes_def by metis
  have "outcome E P d (loop i d)" for d i
  proof (induction "n - clock_reads d" arbitrary: d i rule: less_induct)
    case less
    show ?case
    proof (rule assms(2))
      fix d' :: "'a RISCVDebug" and j assume d: "clock_reads d < clock_reads d'" "clk (clock_reads d) \<le> deadline"
      from d(2) n have "clock_reads d < n" by (metis linorder_not_le)
      with d(1) have "outcome E P d' (loop j d')" by (intro less) simp
      with d(1) show "outcome E P d (loop j d')" by (simp add: outcome_later)
    qed
  qed
  then show ?thesis by (rule endsI)
qed

lemma clock_loop:
  assumes "passes clk"
    and "\<And>d. (\<And>d'. clock_reads d < clock_reads d' \<Longrightarrow> clk (clock_reads d) \<le> deadline \<Longrightarrow> outcome E P d (loop d')) \<Longrightarrow>
      outcome E P d (loop d)"
  shows "ends E P loop"
  by (rule clock_loops [of clk deadline E P "\<lambda>_ :: unit. loop"]) (fact assms(1), rule assms(2), blast)

locale live_transport =
  fixes T :: "'s transport" and E :: "dbg_error \<Rightarrow> bool"
  assumes clock_passes: "passes (t_monotonic T)"
    and read_raises: "t_read T a s = (Inl e, s') \<Longrightarrow> E e"
    and write_raises: "t_write T a v s = (Inl e, s') \<Longrightarrow> E e"
    and library_errors: "is_debug_error e \<Longrightarrow> E e"
begin

lemma ends_dmi [ends_intros]: "ends E anything (dmi_read T a)" "ends E anything (dmi_write T a v)"
  using read_raises write_raises
  by (auto simp: ends_def dmi_read_def dmi_write_def outcome_def split: prod.split sum.split)

lemma ends_poll_loop:
  assumes "\<And>v e. predicate v = Inl e \<Longrightarrow> E e"
  shows "ends E anything (poll_loop T predicate reg what timeout deadline)"
proof (rule clock_loop [OF clock_passes, where deadline = deadline])
  fix d :: "'s RISCVDebug"
  let ?L = "poll_loop T predicate reg what timeout deadline"
  assume IH: "\<And>d'. clock_reads d < clock_reads d' \<Longrightarrow> t_monotonic T (clock_reads d) \<le> deadline \<Longrightarrow> outcome E anything d (?L d')"
  have "E (PollTimeout timeout what reg w)" for w by (rule library_errors) (simp add: is_debug_error_def)
  then show "outcome E anything d (?L d)"
    using read_raises assms IH
    by (subst poll_loop.simps) (auto simp: Let_def split: prod.split sum.split)
qed

lemma ends_poll_until: "(\<And>v e. predicate v = Inl e \<Longrightarrow> E e) \<Longrightarrow> ends E anything (poll_until T predicate reg what timeout)"
  unfolding poll_until_def by (intro ends_intros ends_poll_loop)

lemma ends_wait_until [ends_intros]:
  assumes "ends E anything m"
  shows "ends E anything (wait_until T m deadline)"
proof (rule clock_loop [OF clock_passes, where deadline = deadline])
  fix d :: "'s RISCVDebug"
  let ?L = "wait_until T m deadline" and ?d = "d\<lparr>clock_reads := Suc (clock_reads d)\<rparr>"
  assume IH: "\<And>d'. clock_reads d < clock_reads d' \<Longrightarrow> t_monotonic T (clock_reads d) \<le> deadline \<Longrightarrow> outcome E anything d (?L d')"
  show "outcome E anything d (?L d)"
  proof (rule endsE [OF assms, of ?d])
    fix b d' assume "m ?d = Some (Inr b, d')" "clock_reads ?d \<le> clock_reads d'"
    with IH [of d'] show ?thesis by (subst wait_until.simps) (auto simp: Let_def)
  qed (subst wait_until.simps, auto simp: Let_def)
qed

subsection \<open>The command library\<close>

lemma ends_waits [ends_intros]: "ends E anything (wait_abstractcs T timeout)" "ends E anything (wait_sbus T timeout)"
  unfolding wait_abstractcs_def wait_sbus_def
  by (rule ends_poll_until, rule library_errors,
    auto simp: abstractcs_check_def sbus_check_def is_debug_error_def Let_def split: if_splits)+

lemma ends_status_poll [ends_intros]: "ends E anything (poll_until T (\<lambda>s. Inr (f s)) reg what timeout)"
  by (rule ends_poll_until) simp

lemma ends_write_args [ends_intros]: "ends E anything (write_args T args)"
  unfolding write_args_def by (intro ends_intros)

lemma ends_run_control [ends_intros]:
  "ends E anything (activate T)" "ends E anything (deactivate T)" "ends E anything (select_hart T h)"
  "ends E anything (halt T timeout)" "ends E anything (resume T timeout)" "ends E anything (resume_no_wait T)"
  "ends E anything (ndmreset_level T b)" "ends E anything (hartreset_request T b)" "ends E anything (ackhavereset T)"
  "ends E anything (ackunavail T)" "ends E anything (set_reset_haltreq T)" "ends E anything (clr_reset_haltreq T)"
  unfolding activate_def deactivate_def select_hart_def halt_def resume_def resume_no_wait_def ndmreset_level_def hartreset_request_def
    ackhavereset_def ackunavail_def set_reset_haltreq_def clr_reset_haltreq_def
  by (intro ends_intros library_errors TrueI; simp add: is_debug_error_def)+

lemma ends_reads [ends_intros]:
  "ends E anything (read_dmstatus T)" "ends E anything (read_dmcontrol T)" "ends E anything (read_hartinfo T)"
  "ends E anything (read_haltsum0 T)" "ends E anything (read_abstractcs T)" "ends E anything (read_dmcs2 T)"
  "ends E anything (is_halted T)" "ends E anything (is_running T)" "ends E anything (read_progbuf T i)"
  unfolding read_dmstatus_def read_dmcontrol_def read_hartinfo_def read_haltsum0_def read_abstractcs_def read_dmcs2_def
    is_halted_def is_running_def read_progbuf_def
  by (intro ends_intros TrueI)+

lemma ends_writes [ends_intros]:
  "ends E anything (write_dmcontrol_fields T act sel flds)" "ends E anything (clear_cmderr T)"
  "ends E anything (write_progbuf T i v)" "ends E anything (write_dmcs2 T a)"
  unfolding write_dmcontrol_fields_def clear_cmderr_def write_progbuf_def write_dmcs2_def Let_def
  by (intro ends_intros TrueI)+

lemma ends_registers [ends_intros]:
  "ends E anything (read_gpr T r)" "ends E anything (write_gpr T r v)" "ends E anything (read_reg64 T r)"
  "ends E anything (write_reg64 T r v)" "ends E anything (execute_progbuf T)"
  "ends E anything (read_mem32 T a)" "ends E anything (write_mem32 T a v)"
  unfolding read_gpr_def write_gpr_def read_reg64_def write_reg64_def execute_progbuf_def read_mem32_def write_mem32_def
  by (intro ends_intros TrueI)+

lemma ends_cmderr [ends_intros]: "ends E anything (read_cmderr T)"
  unfolding read_cmderr_def by (intro ends_intros TrueI)

lemma ends_dcsr [ends_intros]: "ends E anything (read_dcsr T)" "ends E anything (write_dcsr T v)" "ends E anything (get_pc T)"
  unfolding read_dcsr_def write_dcsr_def get_pc_def by (intro ends_intros)+

lemma ends_step [ends_intros]: "ends E anything (set_step T b)" "ends E anything (get_dcsr_cause T)"
  unfolding set_step_def get_dcsr_cause_def by (intro ends_intros TrueI)+

subsection \<open>The helpers of the sequences\<close>

lemma ends_put_fields [ends_intros]: "ends E anything (put_fields T act sel flds)"
  unfolding put_fields_def by (intro ends_intros TrueI)

lemma ends_put_dmcontrol [ends_intros]: "ends E anything (put_dmcontrol T flds)"
  unfolding put_dmcontrol_def by (intro ends_intros)

lemma ends_hart_control [ends_intros]:
  "ends E anything (hc_clear_cmderr T)" "ends E anything (wait_halted T n)" "ends E anything (open_pmp T)"
  "ends E anything (modify_dcsr T s c p)"
  unfolding hc_clear_cmderr_def wait_halted_def open_pmp_def modify_dcsr_def Let_def
  by (intro ends_intros TrueI)+

lemma ends_hart_runs [ends_intros]:
  "ends E anything (ensure_halted T n)" "ends E anything (place T pc prv)" "ends E anything (step_once T n)"
  "ends E anything (run_until_halted T n)"
  unfolding ensure_halted_def place_def step_once_def run_until_halted_def
  by (intro ends_intros TrueI)+

end

subsection \<open>Steps and sessions\<close>

definition no_interrupt :: "'d step_return \<Rightarrow> bool" where
  "no_interrupt r \<longleftrightarrow> r \<noteq> RaisesInterrupt"

lemma no_interrupt_simps [simp]: "no_interrupt (ReturnsStep r)" "no_interrupt ReturnsNone" "no_interrupt (RaisesException e)"
  "no_interrupt (ReturnsDict a b c)" "no_interrupt (ReturnsOther t)"
  by (simp_all add: no_interrupt_def)

definition step_ends :: "('s, 'd) step \<Rightarrow> bool" where
  "step_ends st \<longleftrightarrow> (\<forall>w. no_interrupt (fst (snd st w)))"

lemma dbg_step_ends:
  assumes "\<And>x. ends E (\<lambda>r. no_interrupt (fst r)) (m x)"
  shows "step_ends (dbg_step name m)"
proof -
  have "no_interrupt (fst (snd (dbg_step name m) (d, x)))" for d x
    by (rule endsE [OF assms, of x d]) (auto simp: dbg_step_def split: prod.splits)
  then show ?thesis by (simp add: step_ends_def)
qed

lemma check_step_ends: "ends E no_interrupt m \<Longrightarrow> step_ends (check_step name m)"
  unfolding check_step_def by (rule dbg_step_ends, rule ends_bind_values, assumption) (simp add: ends_return)

lemma command_step_ends: "ends E anything m \<Longrightarrow> step_ends (command_step name m)"
  unfolding command_step_def by (rule check_step_ends, rule ends_seq, assumption) (simp add: ends_return)

lemma invoke_ends: "no_interrupt (fst (fn w)) \<Longrightarrow> \<exists>r w'. invoke fn w = (Some r, w')"
  by (auto simp: invoke_def no_interrupt_def split: prod.splits step_return.splits)

lemma run_steps_ends:
  assumes "list_all step_ends ss"
  shows "\<exists>res' inp' w'. run_steps Batch stop ss inp res w = (res', False, inp', w')"
  using assms
proof (induction ss arbitrary: res w)
  case (Cons st ss)
  obtain name fn where st: "st = (name, fn)" by (metis prod.exhaust)
  obtain r w' where "invoke fn w = (Some r, w')" using Cons.prems invoke_ends [of fn w] by (auto simp: st step_ends_def)
  then show ?case using Cons by (auto simp: st run_step_batch_def Let_def)
qed simp

text \<open>
  The verdicts of a batch session whose steps end: one for each step, or with \<^verbatim>\<open>stop_on_error\<close> up to and including
  the first that fails.
\<close>

definition complete_verdicts :: "('s, 'd) DebugSession \<Rightarrow> bool list \<Rightarrow> bool" where
  "complete_verdicts s vs \<longleftrightarrow>
     length vs \<le> length (steps s) \<and>
     (length vs = length (steps s) \<or> stop_on_error s \<and> vs \<noteq> [] \<and> \<not> last vs \<and> list_all (\<lambda>v. v) (butlast vs))"

lemma session_ends:
  assumes "list_all step_ends (steps s)" "session_mode s = Batch"
  shows "\<exists>vs. session_verdicts s w = Some vs \<and> complete_verdicts s vs"
proof -
  obtain res inp' w' where run: "run_steps Batch (stop_on_error s) (steps s) [] [] w = (res, False, inp', w')"
    using run_steps_ends [OF assms(1)] by metis
  then have "session_verdicts s w = Some (map ok res)" by (simp add: session_verdicts_def run_session_def assms(2))
  moreover from run_steps_results [OF run] have "complete_verdicts s (map ok res)"
    by (auto simp: complete_verdicts_def list_all_iff last_map simp flip: map_butlast)
  ultimately show ?thesis by blast
qed

lemma session_of_batch:
  "session_of ''batch'' stop xs = Inr \<lparr>session_mode = Batch, stop_on_error = stop, steps = xs, results = []\<rparr>"
proof -
  have "fold (\<lambda>(name, fn). add_step name fn) xs s = s\<lparr>steps := steps s @ xs\<rparr>" for s :: "('a, 'b) seq_session"
    by (induction xs arbitrary: s) (auto simp: add_step_def)
  then show ?thesis by (simp add: session_of_def DebugSession_init_def mode_of_def)
qed

lemma batch_session_ends:
  assumes "session_of ''batch'' stop xs = Inr s" "list_all step_ends xs"
  shows "\<exists>vs. session_verdicts s w = Some vs \<and> complete_verdicts s vs"
  using assms session_ends [of s w] unfolding session_of_batch by auto

subsection \<open>Transports whose clock passes\<close>

text \<open>With errors of any kind allowed, the passing clock is all that is asked.\<close>

locale timed_transport =
  fixes T :: "'s transport"
  assumes passing: "passes (t_monotonic T)"

sublocale timed_transport \<subseteq> live_transport T anything
  by unfold_locales (simp_all add: passing)

lemma ends_predicted [ends_intros]: "ends anything anything (predicted_by q a)"
  unfolding predicted_by_def by (intro ends_intros TrueI)

lemma ends_expected [ends_intros]: "ends anything anything (expected pred a)"
  unfolding expected_def by (intro ends_intros TrueI)

end
