(* ===== verification/SequencesEnd.thy ===== *)
theory SequencesEnd
  imports Liveness RunControlSeq HartSeq AccessSeq ResetValuesSeq SbaSeq CmdSeq HartArraySeq
begin

text \<open>
  Every step of the modelled test sequences ends, on any transport whose clock passes, whatever the device
  answers or raises.
\<close>

lemmas step_ends_intros =
  check_step_ends [where E = anything] command_step_ends [where E = anything] dbg_step_ends [where E = anything]

lemma ends_keep [ends_intros]: "ends E no_interrupt m \<Longrightarrow> ends E (\<lambda>r. no_interrupt (fst r)) (bindD m (\<lambda>r. returnD (r, x)))"
  by (rule ends_bind_values, assumption) (simp add: ends_return)

lemma reader_step_ends: "(\<And>x. ends anything no_interrupt (m x)) \<Longrightarrow> step_ends (reader_step name m)"
  unfolding reader_step_def by (intro step_ends_intros ends_keep)

lemma run_phases_end:
  assumes "\<And>m x. m \<in> set ms \<Longrightarrow> ends anything anything (m x)"
  shows "\<exists>r. run_phases ms d x = Some r"
  using assms
proof (induction ms arbitrary: d x)
  case (Cons m ms)
  have "ends anything anything (m x)" using Cons.prems by simp
  then show ?case by (rule endsE [of _ _ _ d]) (use Cons in auto)
qed simp

lemma phased_step_ends:
  assumes "\<And>m x. m \<in> set ms \<Longrightarrow> ends anything anything (m x)" "\<And>x. ends anything no_interrupt (m x)"
  shows "step_ends (phased_step name ms m)"
proof -
  have "no_interrupt (fst (snd (phased_step name ms m) (d, x)))" for d x
    using run_phases_end [of ms d x] assms(1) reader_step_ends [of m name] assms(2)
    by (auto simp: phased_step_def step_ends_def split: prod.splits option.splits)
  then show ?thesis by (simp add: step_ends_def)
qed

context timed_transport
begin

lemma ends_wait_release: "ends anything anything (wait_release T deadline b)"
proof (rule clock_loops [OF clock_passes, where deadline = deadline])
  fix d :: "'s RISCVDebug" and b
  let ?d = "d\<lparr>clock_reads := Suc (clock_reads d)\<rparr>"
  assume IH: "\<And>d' b. clock_reads d < clock_reads d' \<Longrightarrow> t_monotonic T (clock_reads d) \<le> deadline \<Longrightarrow>
    outcome anything anything d (wait_release T deadline b d')"
  show "outcome anything anything d (wait_release T deadline b d)"
  proof (rule endsE [OF ends_reads(7), of ?d])
    fix h d' assume "is_halted T ?d = Some (Inr h, d')" "clock_reads ?d \<le> clock_reads d'"
    with IH [of d' h] show ?thesis by (subst wait_release.simps) (auto simp: Let_def)
  qed (subst wait_release.simps, auto simp: Let_def)
qed

lemma run_control_end: "list_all step_ends (run_control_steps T pred clk sel)"
  unfolding run_control_steps_def run_control_tests_def tc_rc_001_def tc_rc_002_def tc_rc_003_def tc_rc_004_def tc_rc_005_def
    tc_rc_006_def tc_rc_007_def Let_def
  by (simp, intro conjI impI step_ends_intros ends_intros TrueI; simp)

lemma reset_ctrl_end: "list_all step_ends (reset_ctrl_steps T pred sel)"
  unfolding reset_ctrl_steps_def reset_ctrl_tests_def tc_rst_001_assert_def tc_rst_001_deassert_def tc_rst_001_haltreq_during_reset_def
    tc_rst_002_def hartreset_cause_def tc_rst_003_def tc_rst_004_def survives_access_def tc_rst_005_def tc_rst_006_def
    tc_dhs_006_probe_def tc_ka_001_def Let_def
  by (simp, intro conjI impI step_ends_intros ends_intros TrueI ends_wait_release; simp)

lemma halt_on_reset_end: "list_all step_ends (halt_on_reset_steps T pred n)"
  unfolding halt_on_reset_steps_def halt_on_reset_tests_def tc_hor_001_def gated_def tc_hor_002_def tc_hor_003_def tc_hor_004_def
    tc_hor_005_def Let_def
  by (simp, intro conjI impI step_ends_intros ends_intros TrueI; simp)

lemma dm_activation_end: "list_all step_ends (dm_activation_steps T)"
  unfolding dm_activation_steps_def tc_dma_001_def tc_dma_002_def poll_reads_def Let_def
  by (simp, intro conjI impI step_ends_intros ends_intros TrueI; simp)

lemma hart_selection_end: "list_all step_ends (hart_selection_steps T pred)"
  unfolding hart_selection_steps_def tc_hs_001_def tc_hs_002_def tc_hs_003_def Let_def
  by (simp, intro conjI impI step_ends_intros ends_intros TrueI; simp)

lemma access_steps_end:
  "list_all step_ends (halt_steps T a b)" "list_all step_ends (gpr_write_steps T r p)"
  "list_all step_ends [check_step name (read_dmstatus_step T)]" "list_all step_ends (report_halt_status_steps T h)"
  "list_all step_ends (discovery_steps T)" "list_all step_ends (csr_access_steps T p0 p1)"
  unfolding halt_steps_def check_halted_def read_pc_def read_ra_def read_sp_def read_memory_def resume_core_def gpr_write_steps_def
    tc_ac_002_roundtrip_def tc_ac_002_x0_def read_dmstatus_step_def report_halt_status_steps_def tc_dhs_001_running_def tc_dhs_001_halted_def
    discovery_steps_def tc_dis_003_def csr_access_steps_def tc_ac_005_def tc_dcsr_003a_def tc_dcsr_003b_def Let_def
  by (simp, intro conjI impI step_ends_intros ends_intros TrueI; simp)+

lemma mem_scan_end: "list_all step_ends (mem_scan_steps T a n exps)"
proof -
  have "ends anything no_interrupt (mem_scan_step T b e)" for b e
    unfolding mem_scan_step_def Let_def by (intro ends_intros TrueI; simp)
  then show ?thesis unfolding mem_scan_steps_def
    by (simp add: list_all_iff) (intro conjI ballI step_ends_intros ends_intros TrueI; simp)
qed

lemma ends_liftR: "ends anything anything (liftR r)"
  unfolding liftR_def by (intro ends_intros TrueI)

lemma reset_values_end:
  assumes "\<And>m. dtmcs = Some m \<Longrightarrow> ends anything anything m"
  shows "list_all step_ends (reset_values_steps T dtmcs r)"
  using assms
  unfolding reset_values_steps_def dm_reset_def rst_030_def rst_032_def rst_033_def rst_034_def rst_035_def rst_036_def rst_037_def
    rst_038_def rst_039_def rst_040_def rst_042_def rst_043_def Let_def
  by (simp only: list.pred_inject, intro conjI impI step_ends_intros ends_intros TrueI ends_liftR; simp)

lemma sba_end: "list_all step_ends (sba_steps T a p)"
  unfolding sba_steps_def effective_stride_def tc_sba_001_def tc_sba_003_002_def tc_sba_004_def tc_sba_005_def tc_sba_006_def tc_sba_007_def
    tc_sba_009_def tc_sba_010_def advertised_def access_width_def tc_sba_019_def Let_def
  by (simp only: list.pred_inject, intro conjI impI step_ends_intros ends_intros TrueI; simp)

lemma ends_commands [ends_intros]:
  "ends anything anything (ce_read_cmderr T)" "ends anything anything (ce_clear_cmderr T)" "ends anything anything (ce_wait_not_busy T t)"
  "ends anything anything (wait_not_busy T n)" "ends anything anything (just_read T a)"
  unfolding ce_read_cmderr_def ce_clear_cmderr_def ce_wait_not_busy_def wait_not_busy_def just_read_def
  by (intro ends_intros TrueI)+

lemma cmderr_end: "list_all step_ends (cmderr_steps T)"
  unfolding cmderr_steps_def drive_def probe_width_def confirm_halted_def busy_case_def sticky_case_def recovery_case_def Let_def
  by (simp only: list.pred_inject, intro conjI impI reader_step_ends step_ends_intros ends_intros TrueI; simp)

lemma ends_race_setup [ends_intros]: "ends anything anything (cb_clear_cmderr T)" "ends anything anything (arm_long_command T)"
  "ends anything anything (co_clear_cmderr T)"
  unfolding cb_clear_cmderr_def arm_long_command_def co_clear_cmderr_def by (intro ends_intros TrueI)+

lemma ends_race:
  assumes "\<And>x. x \<in> set xs \<Longrightarrow> ends anything anything (snd x)"
  shows "ends anything anything (cb_race T xs)"
proof -
  have "ends anything anything (race_each T xs)"
    using assms by (induction xs) (auto intro!: ends_intros simp: split_paired_all)
  then show ?thesis unfolding cb_race_def by (intro ends_intros TrueI)
qed

lemma cmd_busy_end: "list_all step_ends (cmd_busy_steps T)"
  unfolding cmd_busy_steps_def tc_ac_020_def tc_ac_021_def tc_ac_022_def tc_ac_023_def tc_ac_024_def tc_ac_025_def tc_ac_026_def
    tc_ac_027_def tc_ac_028_def Let_def
  by (simp only: list.pred_inject, intro conjI impI step_ends_intros ends_intros TrueI ends_race; auto intro!: ends_intros)

lemma ends_outcome_helpers [ends_intros]:
  "ends anything anything (saved_item saved k)" "ends anything anything (run_cmd T cmd)" "ends anything anything (point_t1_at_loop T)"
  "ends anything anything (sba_write64 T a v)" "ends anything anything (sba_read64 T a)" "ends anything anything (save_reg T k r saved)"
  unfolding saved_item_def run_cmd_def point_t1_at_loop_def sba_write64_def sba_read64_def save_reg_def
  by (intro ends_intros TrueI)+

lemma ends_outcome_runs [ends_intros]:
  "ends anything anything (while_running T saved cmd)" "ends anything no_interrupt (verdict tc got want)"
  unfolding while_running_def verdict_def by (intro ends_intros TrueI; simp)+

lemma ends_co_race: "(\<And>x. x \<in> set xs \<Longrightarrow> ends anything anything x) \<Longrightarrow> ends anything anything (co_race T cmd xs)"
  unfolding co_race_def by (intro ends_intros TrueI)

lemma cmd_outcome_end: "list_all step_ends (cmd_outcome_steps T)"
  unfolding cmd_outcome_steps_def co_setup_def tc_pb_010_def tc_pb_011_def tc_pb_012_def tc_ac_030_def tc_ac_031_def tc_ac_032_def
    tc_ac_033_def tc_ac_034_def tc_ac_035_def co_restore_def Let_def
  by (simp only: list.pred_inject, intro conjI impI phased_step_ends reader_step_ends step_ends_intros ends_intros TrueI ends_co_race;
    auto intro!: ends_intros)

lemma ends_hart_array [ends_intros]:
  "ends anything anything (write_selected T h b f)" "ends anything anything (shift_left x n)" "ends anything anything (shift_right x n)"
  "ends anything anything (poll_status T p what)"
  unfolding write_selected_def shift_left_def shift_right_def poll_status_def by (intro ends_intros TrueI)+

lemma ends_one_hart [ends_intros]: "ends anything anything (halt_one_hart T h)" "ends anything anything (resume_one_hart T h)"
  unfolding halt_one_hart_def resume_one_hart_def by (intro ends_intros TrueI)+

lemma ends_with_mask [ends_intros]: "ends E no_interrupt m \<Longrightarrow> ends E (\<lambda>r. no_interrupt (fst r)) (with_mask tc m b)"
  unfolding with_mask_def by (intro ends_keep ends_if ends_step_result) simp_all

lemma hart_array_end: "list_all step_ends (hart_array_steps T n)"
  unfolding hart_array_steps_def tc_hs_007_def tc_halt_010_one_def tc_hs_003_mask_def tc_hs_008_def tc_halt_010_all_def tc_res_010_def
    tc_halt_010_each_def tc_res_010_each_def tc_hs_008_neither_def Let_def
  by (simp only: list.pred_inject, intro conjI impI step_ends_intros ends_intros TrueI; simp)

end

end
