(* ===== verification/StepSeq.thy ===== *)
theory StepSeq
  imports CmdSeq
begin

text \<open>
  Sequences of \<^verbatim>\<open>src/src/pydebug/sequences\<close> on the Program Buffer, halt groups, single steps and triggers:
  \<^verbatim>\<open>sw_breakpoint_progbuf_sequence.py\<close>, \<^verbatim>\<open>external_trigger_sequence.py\<close>, \<^verbatim>\<open>program_buffer_sequence.py\<close>,
  \<^verbatim>\<open>single_step_sequence.py\<close>, \<^verbatim>\<open>step_classes_sequence.py\<close> and \<^verbatim>\<open>trigger_sequence.py\<close>. Of the lists and counts a
  step keeps, what only feeds its message is left out.
\<close>

unbundle bit_operations_syntax

subsection \<open>\<^verbatim>\<open>sw_breakpoint_progbuf_sequence.py\<close>\<close>

definition SB_EBREAK :: int where [simp]: "SB_EBREAK = 0x00100073"
definition SW_CAUSE_HALTREQ :: int where [simp]: "SW_CAUSE_HALTREQ = 3"

definition halt_and_record_cause :: "'s transport \<Rightarrow> 's check_method" where
  "halt_and_record_cause T =
     seqD (halt T DEFAULT_TIMEOUT)
    (bindD (get_dcsr_cause T) (\<lambda>cause. step_result '''' (cause = SW_CAUSE_HALTREQ)))"

definition tc_pb_ebreak_on_halted :: "'s transport \<Rightarrow> 's check_method" where
  "tc_pb_ebreak_on_halted T =
     bindD (read_abstractcs T) (\<lambda>abstractcs.
     let progbufsize = drop_bit 24 abstractcs AND 0x1F in
     if progbufsize < 1 then step_result ''N/A'' True
     else bindD (get_dcsr_cause T) (\<lambda>cause_before.
       seqD (write_progbuf T 0 SB_EBREAK)
      (seqD (execute_progbuf T)
      (bindD (get_dcsr_cause T) (\<lambda>cause_after.
       bindD (is_halted T) (\<lambda>still_halted. step_result '''' still_halted))))))"

definition sw_breakpoint_steps :: "'s transport \<Rightarrow> ('s, unit) seq_step list" where
  "sw_breakpoint_steps T =
     [command_step ''Activate Debug Module'' (activate T),
      check_step ''Halt hart, record baseline dcsr.cause'' (halt_and_record_cause T),
      check_step ''Execute lone ebreak via Program Buffer on already-halted hart'' (tc_pb_ebreak_on_halted T)]"

definition build_sw_breakpoint_progbuf_sequence :: "'s transport \<Rightarrow> string \<Rightarrow> ('s, unit) seq_session result" where
  "build_sw_breakpoint_progbuf_sequence T md = session_of md False (sw_breakpoint_steps T)"

subsection \<open>\<^verbatim>\<open>external_trigger_sequence.py\<close>\<close>

definition tc_hg_001 :: "'s transport \<Rightarrow> 's check_method" where
  "tc_hg_001 T =
     bindD (write_dmcs2 T (dmcs2_defaults\<lparr>g_hgselect := True, g_group := 0x5\<rparr>)) (\<lambda>written.
     bindD (read_dmcs2 T) (\<lambda>readback. step_result ''TC-HG-001'' True))"

definition tc_hg_001_sweep :: "'s transport \<Rightarrow> 's check_method" where
  "tc_hg_001_sweep T =
     bindD (write_dmcs2 T (dmcs2_defaults\<lparr>g_hgselect := False, g_group := 0\<rparr>)) (\<lambda>written_a.
     bindD (read_dmcs2 T) (\<lambda>readback_a.
     bindD (write_dmcs2 T (dmcs2_defaults\<lparr>g_grouptype := True\<rparr>)) (\<lambda>written_b.
     bindD (read_dmcs2 T) (\<lambda>readback_b.
     bindD (write_dmcs2 T (dmcs2_defaults\<lparr>g_hgselect := True, g_group := 0x5\<rparr>)) (\<lambda>_.
       step_result ''TC-HG-001'' True)))))"

definition external_trigger_steps :: "'s transport \<Rightarrow> ('s, unit) seq_step list" where
  "external_trigger_steps T =
     [command_step ''Activate Debug Module'' (activate T),
      check_step ''TC-HG-001: dmcs2 halt-group support discovery'' (tc_hg_001 T),
      check_step ''TC-HG-001 (cont'd): remaining dmcs2 field-combination discovery'' (tc_hg_001_sweep T)]"

definition build_external_trigger_sequence :: "'s transport \<Rightarrow> string \<Rightarrow> ('s, unit) seq_session result" where
  "build_external_trigger_sequence T md = session_of md False (external_trigger_steps T)"

subsection \<open>\<^verbatim>\<open>program_buffer_sequence.py\<close>\<close>

text \<open>The steps share \<^verbatim>\<open>progbufsize_holder\<close>, of which the size is used; it is unset until the first step ran.\<close>

definition ADDI_X5_X5_1 :: int where [simp]: "ADDI_X5_X5_1 = 0x00128293"
definition PB_EBREAK :: int where [simp]: "PB_EBREAK = 0x00100073"
definition PB_X5_REGNO :: int where [simp]: "PB_X5_REGNO = 0x1005"

definition tc_ac_013 :: "'s transport \<Rightarrow> int option \<Rightarrow> ('s, unit step_return \<times> int option) dbg" where
  "tc_ac_013 T held =
     bindD (read_abstractcs T) (\<lambda>abstractcs.
     bindD (step_result ''TC-AC-013'' True) (\<lambda>r. returnD (r, Some (drop_bit 24 abstractcs AND 0x1F))))"

definition held_size :: "int option \<Rightarrow> int" where
  "held_size held = (case held of Some n \<Rightarrow> n | None \<Rightarrow> 0)"

definition tc_pb_001 :: "'s transport \<Rightarrow> bool \<Rightarrow> int option \<Rightarrow> 's check_method" where
  "tc_pb_001 T progbuf_readable held =
     (if held_size held < 2 then step_result ''TC-PB-001'' True
      else seqD (write_progbuf T 0 ADDI_X5_X5_1)
          (seqD (write_progbuf T 1 PB_EBREAK)
          (bindD (read_progbuf T 0) (\<lambda>r0.
           bindD (read_progbuf T 1) (\<lambda>r1.
             step_result ''TC-PB-001''
               (if progbuf_readable then r0 = ADDI_X5_X5_1 \<and> r1 = PB_EBREAK else r0 = 0 \<and> r1 = 0))))))"

definition tc_pb_002 :: "'s transport \<Rightarrow> int option \<Rightarrow> 's check_method" where
  "tc_pb_002 T held =
     (if held_size held < 2 then step_result ''TC-PB-002'' True
      else bindD (read_progbuf T 1) (\<lambda>before.
           seqD (write_progbuf T 0 0xDEADBEEF)
          (bindD (read_progbuf T 1) (\<lambda>after. step_result ''TC-PB-002'' (before = after)))))"

definition tc_pb_003 :: "'s transport \<Rightarrow> int option \<Rightarrow> 's check_method" where
  "tc_pb_003 T held =
     (if held_size held < 2 then step_result ''TC-PB-003'' True
      else seqD (write_gpr T PB_X5_REGNO 0)
          (seqD (write_progbuf T 0 ADDI_X5_X5_1)
          (seqD (write_progbuf T 1 PB_EBREAK)
          (seqD (execute_progbuf T)
          (bindD (read_gpr T PB_X5_REGNO) (\<lambda>x5. step_result ''TC-PB-003'' (x5 = 1)))))))"

definition program_buffer_steps :: "'s transport \<Rightarrow> bool \<Rightarrow> ('s, int option) seq_step list" where
  "program_buffer_steps T progbuf_readable =
     [command_step ''Activate Debug Module'' (activate T),
      command_step ''Halt hart'' (halt T DEFAULT_TIMEOUT),
      dbg_step ''TC-AC-013: abstractcs discovery'' (tc_ac_013 T),
      reader_step ''TC-PB-001: progbuf0/1 write/read-back'' (tc_pb_001 T progbuf_readable),
      reader_step ''TC-PB-002: progbuf1 unaffected by progbuf0 write'' (tc_pb_002 T),
      reader_step ''TC-PB-003: execute addi x5,x5,1; ebreak via postexec'' (tc_pb_003 T)]"

definition build_program_buffer_sequence :: "'s transport \<Rightarrow> string \<Rightarrow> bool \<Rightarrow> (('s, int option) seq_session \<times> int option) result" where
  "build_program_buffer_sequence T md progbuf_readable =
     bindR (session_of md False (program_buffer_steps T progbuf_readable)) (\<lambda>s. Inr (s, None))"

subsection \<open>\<^verbatim>\<open>single_step_sequence.py\<close>\<close>

definition SS_CAUSE_STEP :: int where [simp]: "SS_CAUSE_STEP = 4"
definition SS_CAUSE_HALTREQ :: int where [simp]: "SS_CAUSE_HALTREQ = 3"
definition SS_POLL_TIMEOUT :: int where [simp]: "SS_POLL_TIMEOUT = 2000000"

text \<open>The poll of \<^verbatim>\<open>_wait_halted\<close>; its last read, after the deadline, decides in this module.\<close>

definition sees_halted :: "'s transport \<Rightarrow> ('s, bool) dbg" where
  "sees_halted T = bindD (dmi_read T ADDR_DMSTATUS) (\<lambda>status. returnD (allhalted status \<and> anyhalted status))"

definition ss_wait_halted :: "'s transport \<Rightarrow> int \<Rightarrow> ('s, bool) dbg" where
  "ss_wait_halted T timeout =
     bindD (monotonic T) (\<lambda>now.
     bindD (wait_until T (sees_halted T) (now + timeout)) (\<lambda>halted.
       if halted then returnD True else sees_halted T))"

definition ss_confirm_halted :: "'s transport \<Rightarrow> 's check_method" where
  "ss_confirm_halted T = bindD (ss_wait_halted T SS_POLL_TIMEOUT) (\<lambda>halted. step_result '''' halted)"

text \<open>The dictionary \<^verbatim>\<open>causes\<close> is shared; each assignment is a phase of its step.\<close>

definition save_pc :: "'s transport \<Rightarrow> saved \<Rightarrow> ('s, saved) dbg" where
  "save_pc T causes = bindD (get_pc T) (\<lambda>pc. returnD (causes(''pc_before'' \<mapsto> pc)))"

definition save_cause :: "'s transport \<Rightarrow> string \<Rightarrow> saved \<Rightarrow> ('s, saved) dbg" where
  "save_cause T k causes = bindD (get_dcsr_cause T) (\<lambda>cause. returnD (causes(k \<mapsto> cause)))"

definition judge_cause :: "string \<Rightarrow> int \<Rightarrow> saved \<Rightarrow> 's check_method" where
  "judge_cause k exps causes = bindD (saved_item causes k) (\<lambda>cause. step_result '''' (cause = exps))"

text \<open>The message formats \<^verbatim>\<open>before\<close> as a number, so the step raises where the first cause step did not get that far.\<close>

definition read_pc_at_end :: "'s transport \<Rightarrow> saved \<Rightarrow> 's check_method" where
  "read_pc_at_end T causes =
     bindD (get_pc T) (\<lambda>pc.
       case causes ''pc_before'' of
         None \<Rightarrow> raiseD (Raised (TypeError ''NoneType.__format__''))
       | Some before \<Rightarrow> step_result '''' True)"

definition single_step_steps :: "'s transport \<Rightarrow> ('s, saved) seq_step list" where
  "single_step_steps T =
     [command_step ''Activate Debug Module'' (activate T),
      command_step ''Halt hart'' (halt T DEFAULT_TIMEOUT),
      check_step ''Confirm hart halted (dmstatus allhalted/anyhalted)'' (ss_confirm_halted T),
      phased_step ''Read dcsr.cause after halt request'' [save_pc T, save_cause T ''halt''] (judge_cause ''halt'' SS_CAUSE_HALTREQ),
      command_step ''Set dcsr.step=1'' (set_step T True),
      command_step ''Resume (resumereq) to let the step execute'' (resume_no_wait T),
      check_step ''Wait for dmstatus allhalted and anyhalted'' (ss_confirm_halted T),
      phased_step ''Read dcsr.cause after single step'' [save_cause T ''step''] (judge_cause ''step'' SS_CAUSE_STEP),
      reader_step ''Read PC (dpc) at end of test'' (read_pc_at_end T)]"

definition build_single_step_sequence :: "'s transport \<Rightarrow> string \<Rightarrow> (('s, saved) seq_session \<times> saved) result" where
  "build_single_step_sequence T md = bindR (session_of md False (single_step_steps T)) (\<lambda>s. Inr (s, Map.empty))"

subsection \<open>\<^verbatim>\<open>step_classes_sequence.py\<close>\<close>

definition SC_POLL_TIMEOUT :: int where [simp]: "SC_POLL_TIMEOUT = 2000000"
definition SC_STEP_TIMEOUT :: int where [simp]: "SC_STEP_TIMEOUT = 500000"

text \<open>Here the read after the deadline only reports.\<close>

definition sc_wait_halted :: "'s transport \<Rightarrow> int \<Rightarrow> ('s, bool) dbg" where
  "sc_wait_halted T timeout =
     bindD (monotonic T) (\<lambda>now.
     bindD (wait_until T (sees_halted T) (now + timeout)) (\<lambda>halted.
       if halted then returnD True else seqD (just_read T ADDR_DMSTATUS) (returnD False)))"

definition sc_confirm_halted :: "'s transport \<Rightarrow> 's check_method" where
  "sc_confirm_halted T =
     bindD (sc_wait_halted T SC_POLL_TIMEOUT) (\<lambda>halted.
       if halted then bindD (get_pc T) (\<lambda>pc0. step_result '''' True) else step_result '''' False)"

definition sc_cause_after_halt :: "'s transport \<Rightarrow> 's check_method" where
  "sc_cause_after_halt T = bindD (get_dcsr_cause T) (\<lambda>c. step_result '''' (c = SW_CAUSE_HALTREQ))"

text \<open>\<^verbatim>\<open>try: x = m() except Exception: ...\<close>, the caught case as \<open>None\<close>.\<close>

definition attempt :: "('s, 'a) dbg \<Rightarrow> ('s, 'a option) dbg" where
  "attempt m = tryD (bindD m (\<lambda>x. returnD (Some x))) (\<lambda>_. returnD None)"

text \<open>
  The walk, with whether it had no failure so far. A wrong cause is recorded with the program counter; where that is
  not known formatting it raises inside the \<^verbatim>\<open>try\<close>, and the walk stops as for a \<^verbatim>\<open>dcsr\<close> that cannot be read.
\<close>

fun walk_steps :: "'s transport \<Rightarrow> nat \<Rightarrow> bool \<Rightarrow> ('s, bool) dbg" where
  "walk_steps T 0 fine = returnD fine"
| "walk_steps T (Suc n) fine =
     bindD (attempt (get_pc T)) (\<lambda>pc_before.
     seqD (resume_no_wait T)
    (bindD (sc_wait_halted T SC_STEP_TIMEOUT) (\<lambda>halted.
       if \<not> halted then returnD False
       else bindD (attempt (get_dcsr_cause T)) (\<lambda>cause.
         case cause of
           None \<Rightarrow> returnD False
         | Some c \<Rightarrow>
             if c = SS_CAUSE_STEP then walk_steps T n fine
             else if pc_before = None then returnD False
             else walk_steps T n False))))"

definition sc_walk :: "'s transport \<Rightarrow> int \<Rightarrow> 's check_method" where
  "sc_walk T count = bindD (walk_steps T (nat count) True) (\<lambda>fine. step_result '''' fine)"

definition sc_final_state :: "'s transport \<Rightarrow> 's check_method" where
  "sc_final_state T = bindD (sc_wait_halted T SC_POLL_TIMEOUT) (\<lambda>halted. step_result '''' halted)"

definition step_classes_steps :: "'s transport \<Rightarrow> int \<Rightarrow> ('s, unit) seq_step list" where
  "step_classes_steps T count =
     [command_step ''Activate Debug Module'' (activate T),
      command_step ''Halt hart'' (halt T DEFAULT_TIMEOUT),
      check_step ''Confirm hart halted'' (sc_confirm_halted T),
      check_step ''Read dcsr.cause after halt'' (sc_cause_after_halt T),
      command_step ''Set dcsr.step=1'' (set_step T True),
      check_step (''Step '' @ str_int count @ '' instructions across all classes'') (sc_walk T count),
      check_step ''Record what was covered'' (step_result '''' True),
      command_step ''Clear dcsr.step'' (set_step T False),
      check_step ''Confirm hart still responsive'' (sc_final_state T)]"

definition build_step_classes_sequence :: "'s transport \<Rightarrow> string \<Rightarrow> int \<Rightarrow> ('s, unit) seq_session result" where
  "build_step_classes_sequence T md count = session_of md False (step_classes_steps T count)"

subsection \<open>\<^verbatim>\<open>trigger_sequence.py\<close>\<close>

definition CSR_TSELECT :: int where [simp]: "CSR_TSELECT = 0x07A0"
definition CSR_TDATA1 :: int where [simp]: "CSR_TDATA1 = 0x07A1"
definition CSR_TDATA2 :: int where [simp]: "CSR_TDATA2 = 0x07A2"
definition CSR_TDATA3 :: int where [simp]: "CSR_TDATA3 = 0x07A3"
definition CSR_TINFO :: int where [simp]: "CSR_TINFO = 0x07A4"
definition CSR_MISA :: int where [simp]: "CSR_MISA = 0x0301"
definition TYPE_LSB_RV32 :: nat where [simp]: "TYPE_LSB_RV32 = 28"
definition TYPE_LSB_RV64 :: nat where [simp]: "TYPE_LSB_RV64 = 60"
definition MC6_ENABLES :: int where [simp]: "MC6_ENABLES = 0x5F"

definition TR_TYPES :: "(string \<times> int) list" where
  "TR_TYPES = [(''mcontrol'', 2), (''icount'', 3), (''itrigger'', 4), (''etrigger'', 5), (''mcontrol6'', 6), (''tmexttrigger'', 7)]"

text \<open>The dictionary \<^verbatim>\<open>width\<close> is changed as a whole, to that of a 64-bit hart: the Boolean says so.\<close>

definition width_lsb :: "bool \<Rightarrow> nat" where
  "width_lsb rv64 = (if rv64 then TYPE_LSB_RV64 else TYPE_LSB_RV32)"

definition width_rd :: "'s transport \<Rightarrow> bool \<Rightarrow> int \<Rightarrow> ('s, int) dbg" where
  "width_rd T rv64 = (if rv64 then read_reg64 T else read_gpr T)"

definition width_wr :: "'s transport \<Rightarrow> bool \<Rightarrow> int \<Rightarrow> int \<Rightarrow> ('s, unit) dbg" where
  "width_wr T rv64 = (if rv64 then write_reg64 T else write_gpr T)"

definition try_default :: "'s transport \<Rightarrow> 'a \<Rightarrow> ('s, 'a) dbg \<Rightarrow> ('s, 'a) dbg" where
  "try_default T dflt m =
     tryD m (\<lambda>_. tryD (seqD (clear_cmderr T) (returnD dflt)) (\<lambda>_. returnD dflt))"

definition safe :: "('s, unit) dbg \<Rightarrow> 's check_method" where
  "safe m = tryD (seqD m (step_result ''ok'' True)) (\<lambda>_. step_result ''continued'' True)"

definition probe_xlen :: "'s transport \<Rightarrow> bool \<Rightarrow> ('s, unit step_return \<times> bool) dbg" where
  "probe_xlen T rv64 =
     bindD (tryD (read_reg64 T CSR_MISA) (\<lambda>_. returnD 0)) (\<lambda>misa.
     bindD (safe (dmi_write T 0x16 (push_bit 8 0x7))) (\<lambda>_.
     bindD (step_result '''' True) (\<lambda>r. returnD (r, if drop_bit 62 misa = 2 then True else rv64))))"

definition tc_trig_001 :: "'s transport \<Rightarrow> 's check_method" where
  "tc_trig_001 T = bindD (try_default T 0 (read_gpr T CSR_TINFO)) (\<lambda>tinfo. step_result ''TC-TRIG-001'' True)"

definition tc_trig_002 :: "'s transport \<Rightarrow> 's check_method" where
  "tc_trig_002 T =
     seqD (try_default T () (write_gpr T CSR_TSELECT 0xFFFFFFFF))
    (bindD (try_default T 0 (read_gpr T CSR_TSELECT)) (\<lambda>readback.
     seqD (try_default T () (write_gpr T CSR_TSELECT 0)) (step_result ''TC-TRIG-002'' True)))"

definition read_optional :: "'s transport \<Rightarrow> int \<Rightarrow> ('s, int option) dbg" where
  "read_optional T regno = try_default T None (bindD (read_gpr T regno) (\<lambda>v. returnD (Some v)))"

definition tc_trig_004 :: "'s transport \<Rightarrow> 's check_method" where
  "tc_trig_004 T =
     seqD (try_default T () (write_gpr T CSR_TDATA1 0))
    (bindD (try_default T 0 (read_gpr T CSR_TDATA1)) (\<lambda>before1.
     bindD (read_optional T CSR_TDATA3) (\<lambda>before3.
     seqD (try_default T () (write_gpr T CSR_TDATA2 0xDEADBEEF))
    (bindD (try_default T 0 (read_gpr T CSR_TDATA1)) (\<lambda>after1.
     bindD (read_optional T CSR_TDATA3) (\<lambda>after3.
       step_result ''TC-TRIG-004'' (before1 = after1 \<and> before3 = after3)))))))"

definition make_type_step :: "'s transport \<Rightarrow> int \<Rightarrow> bool \<Rightarrow> 's check_method" where
  "make_type_step T ty rv64 =
     (let lsb = width_lsb rv64 in
      seqD (try_default T () (width_wr T rv64 CSR_TDATA1 0))
     (seqD (try_default T () (width_wr T rv64 CSR_TDATA1 (push_bit lsb ty)))
     (bindD (try_default T 0 (width_rd T rv64 CSR_TDATA1)) (\<lambda>rb. step_result ''TC-TRIG-005/012'' True))))"

definition arm_and_disarm :: "'s transport \<Rightarrow> bool \<Rightarrow> ('s, int \<times> int) dbg" where
  "arm_and_disarm T rv64 =
     seqD (write_gpr T CSR_TSELECT 0)
    (seqD (width_wr T rv64 CSR_TDATA2 0x80000000)
    (seqD (width_wr T rv64 CSR_TDATA1 (push_bit (width_lsb rv64) 6 OR push_bit 6 1 OR push_bit 2 1))
    (bindD (width_rd T rv64 CSR_TDATA1) (\<lambda>armed.
     seqD (width_wr T rv64 CSR_TDATA1 0)
    (bindD (width_rd T rv64 CSR_TDATA1) (\<lambda>after. returnD (armed, after)))))))"

definition tc_trig_006 :: "'s transport \<Rightarrow> bool \<Rightarrow> 's check_method" where
  "tc_trig_006 T rv64 =
     (let lsb = width_lsb rv64 in
      bindD (attempt (arm_and_disarm T rv64)) (\<lambda>got.
        case got of
          None \<Rightarrow> step_result ''TC-TRIG-006'' True
        | Some (armed, after) \<Rightarrow>
            if drop_bit lsb armed AND 0xF \<noteq> 6 then step_result ''TC-TRIG-006'' True
            else let ty = drop_bit lsb after AND 0xF
                 in step_result ''TC-TRIG-006'' ((ty = 0 \<or> ty = 15) \<and> after AND MC6_ENABLES = 0)))"

definition trigger_steps :: "'s transport \<Rightarrow> ('s, bool) seq_step list" where
  "trigger_steps T =
     [command_step ''Activate Debug Module'' (activate T),
      command_step ''Halt hart'' (halt T DEFAULT_TIMEOUT),
      dbg_step ''Probe hart XLEN'' (probe_xlen T),
      check_step ''Select trigger 0 (tselect=0)'' (safe (write_gpr T CSR_TSELECT 0)),
      check_step ''TC-TRIG-001: tinfo type enumeration'' (tc_trig_001 T),
      check_step ''TC-TRIG-002: tselect count discovery'' (tc_trig_002 T),
      check_step ''TC-TRIG-004: tdata write-isolation'' (tc_trig_004 T)]
     @ map (\<lambda>(name, ty). reader_step (''TC-TRIG config: tdata1.type='' @ name) (make_type_step T ty)) TR_TYPES
     @ [reader_step ''TC-TRIG-006: tdata1=0 disables a configured trigger'' (tc_trig_006 T),
        check_step ''Disable trigger (tdata1=0)'' (safe (write_gpr T CSR_TDATA1 0))]"

definition build_trigger_sequence :: "'s transport \<Rightarrow> string \<Rightarrow> (('s, bool) seq_session \<times> bool) result" where
  "build_trigger_sequence T md = bindR (session_of md False (trigger_steps T)) (\<lambda>s. Inr (s, False))"

end
