(* ===== verification/EntrySeq.thy ===== *)
theory EntrySeq
  imports StepSeq ModelCrosscheck
begin

text \<open>
  Sequences of \<^verbatim>\<open>src/src/pydebug/sequences\<close> that run code of a test program at addresses from its symbol table:
  \<^verbatim>\<open>debug_entry_sequence.py\<close>, \<^verbatim>\<open>priv_irq_sequence.py\<close>, \<^verbatim>\<open>step_stall_sequence.py\<close> and \<^verbatim>\<open>step_matrix_sequence.py\<close>. The
  output of the external program \<^verbatim>\<open>nm\<close> is a parameter, the exception of running it included.
\<close>

unbundle bit_operations_syntax

subsection \<open>The symbol table\<close>

definition liftE :: "dbg_error + 'a \<Rightarrow> ('s, 'a) dbg" where
  "liftE r = (case r of Inl e \<Rightarrow> raiseD e | Inr x \<Rightarrow> returnD x)"

fun find_symbol :: "string \<Rightarrow> string list list \<Rightarrow> dbg_error + int" where
  "find_symbol symbol [] = Inl (Raised (RuntimeError symbol))"
| "find_symbol symbol (parts # rest) =
     (if length parts = 3 \<and> parts ! 2 = symbol
      then (case py_int_by unsigned_int16 (parts ! 0) of Inl e \<Rightarrow> Inl (Raised e) | Inr a \<Rightarrow> Inr a)
      else find_symbol symbol rest)"

definition symbol_addr :: "(string \<Rightarrow> dbg_error + string) \<Rightarrow> string \<Rightarrow> string \<Rightarrow> dbg_error + int" where
  "symbol_addr nm elf symbol =
     (case nm elf of Inl e \<Rightarrow> Inl e | Inr out_text \<Rightarrow> find_symbol symbol (map words (splitlines out_text)))"

text \<open>\<^verbatim>\<open>addrs[sym] = symbol_addr(elf, sym)\<close>.\<close>

definition save_symbol :: "(string \<Rightarrow> dbg_error + string) \<Rightarrow> string \<Rightarrow> string \<Rightarrow> saved \<Rightarrow> ('s, saved) dbg" where
  "save_symbol nm elf s addrs = bindD (liftE (symbol_addr nm elf s)) (\<lambda>a. returnD (addrs(s \<mapsto> a)))"

subsection \<open>\<^verbatim>\<open>debug_entry_sequence.py\<close>\<close>

definition DE_TSELECT :: int where [simp]: "DE_TSELECT = 0x07A0"
definition DE_TDATA1 :: int where [simp]: "DE_TDATA1 = 0x07A1"
definition DE_TDATA2 :: int where [simp]: "DE_TDATA2 = 0x07A2"
definition MC6_TYPE :: int where [simp]: "MC6_TYPE = push_bit 60 6"
definition MC6_DMODE :: int where [simp]: "MC6_DMODE = push_bit 59 1"
definition MC6_ACTION_DBG :: int where [simp]: "MC6_ACTION_DBG = push_bit 12 1"
definition MC6_M :: int where [simp]: "MC6_M = push_bit 6 1"
definition MC6_EXECUTE :: int where [simp]: "MC6_EXECUTE = push_bit 2 1"
definition MCAUSE_BREAKPOINT :: int where [simp]: "MCAUSE_BREAKPOINT = 3"

definition EBREAK_BIT :: "int \<Rightarrow> int" where
  "EBREAK_BIT prv = (if prv = HC_PRV_M then DCSR_EBREAKM else if prv = HC_PRV_S then DCSR_EBREAKS else DCSR_EBREAKU)"

definition ENTRY_BITS :: int where
  "ENTRY_BITS = DCSR_EBREAKM OR DCSR_EBREAKS OR DCSR_EBREAKU OR DCSR_STEP"

text \<open>Every test case starts by making sure the hart is halted.\<close>

definition when_halted :: "'s transport \<Rightarrow> 's check_method \<Rightarrow> 's check_method" where
  "when_halted T m = bindD (ensure_halted T 200) (\<lambda>b. if b then m else step_result ''hart would not halt'' False)"

definition just_modify_dcsr :: "'s transport \<Rightarrow> int \<Rightarrow> int \<Rightarrow> int option \<Rightarrow> ('s, unit) dbg" where
  "just_modify_dcsr T set_bits clear_bits prv = bindD (modify_dcsr T set_bits clear_bits prv) (\<lambda>_. returnD ())"

definition recover_unless :: "'s transport \<Rightarrow> bool \<Rightarrow> ('s, unit) dbg" where
  "recover_unless T entered = (if entered then returnD () else bindD (ensure_halted T 200) (\<lambda>_. returnD ()))"

definition enter_via_ebreak :: "'s transport \<Rightarrow> saved \<Rightarrow> int \<Rightarrow> int \<Rightarrow> ('s, bool \<times> int \<times> int \<times> int) dbg" where
  "enter_via_ebreak T addrs prv ebreak_bits =
     seqD (just_modify_dcsr T ebreak_bits (ENTRY_BITS AND NOT ebreak_bits) None)
    (bindD (saved_item addrs ''cls_ebreak'') (\<lambda>a.
     seqD (place T a prv)
    (bindD (run_until_halted T 400) (\<lambda>entered.
     seqD (recover_unless T entered)
    (bindD (read_gpr T HC_DCSR) (\<lambda>dcsr.
     bindD (read_reg64 T HC_DPC) (\<lambda>dpc. returnD (entered, cause_of dcsr, dpc, dcsr AND 0x3))))))))"

definition tc_dcsr_012 :: "'s transport \<Rightarrow> saved \<Rightarrow> 's check_method" where
  "tc_dcsr_012 T addrs = when_halted T
    (seqD (write_reg64 T MCAUSE 0)
    (bindD (enter_via_ebreak T addrs HC_PRV_M 0) (\<lambda>(entered, cause, _, _).
     bindD (read_reg64 T MCAUSE) (\<lambda>mcause.
     bindD (read_reg64 T MEPC) (\<lambda>mepc.
     bindD (saved_item addrs ''cls_ebreak'') (\<lambda>a.
       let reached = (mcause = MCAUSE_BREAKPOINT \<and> (mepc = a \<or> mepc = a + 4))
       in step_result ''TC-DCSR-012'' (cause \<noteq> CAUSE_EBREAK \<and> reached)))))))"

definition ebreak_entry :: "'s transport \<Rightarrow> int \<Rightarrow> string \<Rightarrow> saved \<Rightarrow> 's check_method" where
  "ebreak_entry T prv tc addrs = when_halted T
    (bindD (enter_via_ebreak T addrs prv (EBREAK_BIT prv)) (\<lambda>(entered, cause, dpc, prv_seen).
     bindD (saved_item addrs ''cls_ebreak'') (\<lambda>a.
       step_result tc (entered \<and> cause = CAUSE_EBREAK \<and> dpc = a \<and> prv_seen = prv))))"

definition haltreq_entry :: "'s transport \<Rightarrow> int \<Rightarrow> saved \<Rightarrow> 's check_method" where
  "haltreq_entry T prv addrs = when_halted T
    (seqD (just_modify_dcsr T 0 ENTRY_BITS None)
    (bindD (saved_item addrs ''ebreak_park'') (\<lambda>a.
     seqD (place T a prv)
    (seqD (resume T DEFAULT_TIMEOUT)
    (bindD (is_running T) (\<lambda>running.
     seqD (halt T DEFAULT_TIMEOUT)
    (bindD (read_gpr T HC_DCSR) (\<lambda>dcsr.
     bindD (read_reg64 T HC_DPC) (\<lambda>dpc.
       step_result ''TC-DCSR-014'' (running \<and> cause_of dcsr = CAUSE_HALTREQ \<and> dcsr AND 0x3 = prv \<and> dpc = a))))))))))"

definition step_entry :: "'s transport \<Rightarrow> int \<Rightarrow> saved \<Rightarrow> 's check_method" where
  "step_entry T prv addrs = when_halted T
    (bindD (saved_item addrs ''step_loop'') (\<lambda>a.
     let start = a + 4 in
     seqD (just_modify_dcsr T DCSR_STEP (DCSR_EBREAKM OR DCSR_EBREAKS OR DCSR_EBREAKU) None)
    (seqD (place T start prv)
    (bindD (step_once T 400) (\<lambda>entered.
     bindD (read_gpr T HC_DCSR) (\<lambda>dcsr.
     bindD (read_reg64 T HC_DPC) (\<lambda>dpc.
     seqD (just_modify_dcsr T 0 DCSR_STEP None)
          (step_result ''TC-DCSR-015'' (entered \<and> cause_of dcsr = CAUSE_STEP \<and> dcsr AND 0x3 = prv \<and> dpc = start + 4)))))))))"

text \<open>\<open>None\<close> where a \<^verbatim>\<open>DebugError\<close> was caught; other errors pass.\<close>

definition attempt_debug :: "('s, 'a) dbg \<Rightarrow> ('s, 'a option) dbg" where
  "attempt_debug m = tryD (bindD m (\<lambda>x. returnD (Some x))) (\<lambda>e. if is_debug_error e then returnD None else raiseD e)"

definition arm_trigger :: "'s transport \<Rightarrow> int \<Rightarrow> ('s, int) dbg" where
  "arm_trigger T target =
     seqD (write_gpr T DE_TSELECT 0)
    (seqD (write_reg64 T DE_TDATA2 target)
    (seqD (write_reg64 T DE_TDATA1 (MC6_TYPE OR MC6_DMODE OR MC6_ACTION_DBG OR MC6_M OR MC6_EXECUTE))
          (read_reg64 T DE_TDATA1)))"

definition tc_dcsr_011 :: "'s transport \<Rightarrow> saved \<Rightarrow> 's check_method" where
  "tc_dcsr_011 T addrs = when_halted T
    (bindD (saved_item addrs ''cls_trigger_target'') (\<lambda>target.
     bindD (attempt_debug (arm_trigger T target)) (\<lambda>got.
     case got of
       None \<Rightarrow> bindD (ensure_halted T 200) (\<lambda>_. step_result ''TC-DCSR-011'' True)
     | Some readback \<Rightarrow>
         if drop_bit 60 readback \<noteq> 6 then step_result ''TC-DCSR-011'' True
         else seqD (just_modify_dcsr T 0 ENTRY_BITS None)
             (bindD (saved_item addrs ''trigger_lead'') (\<lambda>lead.
              seqD (place T lead HC_PRV_M)
             (bindD (run_until_halted T 400) (\<lambda>entered.
              seqD (recover_unless T entered)
             (bindD (read_gpr T HC_DCSR) (\<lambda>dcsr.
              bindD (read_reg64 T HC_DPC) (\<lambda>dpc.
              seqD (write_reg64 T DE_TDATA1 0)
                   (step_result ''TC-DCSR-011'' ((entered \<and> dpc = target) \<and> cause_of dcsr = CAUSE_TRIGGER))))))))))))"

definition de_restore :: "'s transport \<Rightarrow> saved \<Rightarrow> 's check_method" where
  "de_restore T addrs = when_halted T
    (seqD (just_modify_dcsr T 0 ENTRY_BITS (Some HC_PRV_M))
    (bindD (saved_item addrs ''ebreak_park'') (\<lambda>a.
     seqD (write_reg64 T HC_DPC a) (step_result ''restore'' True))))"

definition debug_entry_steps :: "'s transport \<Rightarrow> (string \<Rightarrow> dbg_error + string) \<Rightarrow> string \<Rightarrow> ('s, saved) seq_step list" where
  "debug_entry_steps T nm elf =
     [command_step ''Activate Debug Module'' (activate T),
      command_step ''Halt hart'' (halt T DEFAULT_TIMEOUT),
      phased_step ''Resolve entry points, open PMP''
        (map (save_symbol nm elf) [''cls_ebreak'', ''ebreak_park'', ''cls_trigger_target'', ''trigger_lead'', ''step_loop''])
        (\<lambda>_. seqD (open_pmp T) (step_result ''resolved'' True)),
      reader_step ''TC-DCSR-012: ebreakm=0 does not enter Debug Mode'' (tc_dcsr_012 T),
      reader_step ''TC-DCSR-010: ebreak enters Debug Mode from M'' (ebreak_entry T HC_PRV_M ''TC-DCSR-010''),
      reader_step ''TC-DCSR-013: ebreak enters Debug Mode from S'' (ebreak_entry T HC_PRV_S ''TC-DCSR-013''),
      reader_step ''TC-DCSR-013: ebreak enters Debug Mode from U'' (ebreak_entry T HC_PRV_U ''TC-DCSR-013''),
      reader_step ''TC-DCSR-014: haltreq from S'' (haltreq_entry T HC_PRV_S),
      reader_step ''TC-DCSR-014: haltreq from U'' (haltreq_entry T HC_PRV_U),
      reader_step ''TC-DCSR-015: step from S'' (step_entry T HC_PRV_S),
      reader_step ''TC-DCSR-015: step from U'' (step_entry T HC_PRV_U),
      reader_step ''TC-DCSR-011: trigger enters Debug Mode (cause=2)'' (tc_dcsr_011 T),
      reader_step ''Restore dcsr'' (de_restore T)]"

definition build_debug_entry_sequence ::
  "'s transport \<Rightarrow> (string \<Rightarrow> dbg_error + string) \<Rightarrow> string \<Rightarrow> string \<Rightarrow> (('s, saved) seq_session \<times> saved) result" where
  "build_debug_entry_sequence T nm md elf = bindR (session_of md False (debug_entry_steps T nm elf)) (\<lambda>s. Inr (s, Map.empty))"

subsection \<open>\<^verbatim>\<open>priv_irq_sequence.py\<close>\<close>

text \<open>
  The steps share \<^verbatim>\<open>state\<close>, by label the privileges a walk has seen (how often is not used). \<^verbatim>\<open>dm.t.tms_walk\<close> is a
  method of one transport only, and a parameter here.
\<close>

type_synonym privs_seen = "string \<rightharpoonup> int list"

definition PI_STEPIE :: int where [simp]: "PI_STEPIE = push_bit 11 1"
definition PI_STEP :: int where [simp]: "PI_STEP = push_bit 2 1"
definition PI_PRV_MASK :: int where [simp]: "PI_PRV_MASK = 0x3"
definition PI_CAUSE_STEP :: int where [simp]: "PI_CAUSE_STEP = 4"

definition pi_wait_halted :: "'s transport \<Rightarrow> int \<Rightarrow> ('s, bool) dbg" where
  "pi_wait_halted T timeout =
     bindD (monotonic T) (\<lambda>now.
     bindD (wait_until T (sees_halted T) (now + timeout)) (\<lambda>halted.
       if halted then returnD True else seqD (just_read T ADDR_DMSTATUS) (returnD False)))"

definition pi_confirm :: "'s transport \<Rightarrow> 's check_method" where
  "pi_confirm T = bindD (pi_wait_halted T 2000000) (\<lambda>halted. step_result '''' halted)"

definition set_stepie :: "'s transport \<Rightarrow> bool \<Rightarrow> 's check_method" where
  "set_stepie T enabled =
     bindD (read_dcsr T) (\<lambda>d.
     seqD (write_dcsr T (if enabled then d OR PI_STEP OR PI_STEPIE else (d OR PI_STEP) AND NOT PI_STEPIE))
    (bindD (read_dcsr T) (\<lambda>back_val.
       let got = truth (back_val AND PI_STEPIE)
       in step_result '''' (got = enabled \<and> truth (back_val AND PI_STEP)))))"

text \<open>The walk from step \<open>i\<close> with \<open>n\<close> steps to go: the number of failures and the privileges seen.\<close>

fun irq_walk :: "'s transport \<Rightarrow> nat \<Rightarrow> nat \<Rightarrow> nat \<Rightarrow> int list \<Rightarrow> ('s, nat \<times> int list) dbg" where
  "irq_walk T 0 i failures privs = returnD (failures, privs)"
| "irq_walk T (Suc n) i failures privs =
     seqD (resume_no_wait T)
    (bindD (pi_wait_halted T 500000) (\<lambda>halted.
       if \<not> halted then returnD (Suc failures, privs)
       else bindD (attempt (read_dcsr T)) (\<lambda>got.
         case got of
           None \<Rightarrow> returnD (Suc failures, privs)
         | Some d \<Rightarrow>
             let cause = drop_bit 6 d AND 0x7; privs1 = List.insert (d AND PI_PRV_MASK) privs in
             seqD (if i mod 8 = 0 then bindD (attempt (get_pc T)) (\<lambda>_. returnD ()) else returnD ())
                  (if cause \<noteq> PI_CAUSE_STEP \<and> Suc failures > 3 then returnD (Suc failures, privs1)
                   else irq_walk T n (Suc i) (if cause \<noteq> PI_CAUSE_STEP then Suc failures else failures) privs1))))"

definition pi_walk :: "'s transport \<Rightarrow> int \<Rightarrow> string \<Rightarrow> privs_seen \<Rightarrow> ('s, unit step_return \<times> privs_seen) dbg" where
  "pi_walk T count label st =
     bindD (irq_walk T (nat count) 0 0 []) (\<lambda>(failures, privs).
     bindD (step_result label (failures = 0 \<and> length privs > 1)) (\<lambda>r. returnD (r, st(label \<mapsto> privs))))"

function tick_walk :: "(bool list \<Rightarrow> ('s, unit) dbg) \<Rightarrow> nat \<Rightarrow> ('s, unit) dbg" where
  "tick_walk tms ticks =
     (if ticks = 0 then returnD ()
      else seqD (tms (replicate (min ticks 32) False)) (tick_walk tms (ticks - min ticks 32)))"
  by pat_completeness auto
termination by (relation "measure snd") auto

declare tick_walk.simps [simp del]

fun catch_loop :: "'s transport \<Rightarrow> (bool list \<Rightarrow> ('s, unit) dbg) \<Rightarrow> nat list \<Rightarrow> int list \<Rightarrow> ('s, int list) dbg" where
  "catch_loop T tms [] privs = returnD privs"
| "catch_loop T tms (i # is) privs =
     seqD (resume_no_wait T)
    (seqD (just_read T ADDR_DMSTATUS)
    (seqD (tick_walk tms (1 + (i * 13) mod 97))
    (seqD (halt T DEFAULT_TIMEOUT)
    (bindD (pi_wait_halted T 1000000) (\<lambda>halted.
       if \<not> halted then catch_loop T tms is privs
       else bindD (attempt (read_dcsr T)) (\<lambda>got.
         case got of
           None \<Rightarrow> catch_loop T tms is privs
         | Some d \<Rightarrow> catch_loop T tms is (List.insert (d AND PI_PRV_MASK) privs)))))))"

definition catch_privileges :: "'s transport \<Rightarrow> (bool list \<Rightarrow> ('s, unit) dbg) \<Rightarrow> privs_seen \<Rightarrow> ('s, unit step_return \<times> privs_seen) dbg" where
  "catch_privileges T tms st =
     bindD (catch_loop T tms [0..<20] []) (\<lambda>privs.
     bindD (step_result ''caught'' (length privs > 1)) (\<lambda>r. returnD (r, st(''caught'' \<mapsto> privs))))"

definition pi_summary :: "privs_seen \<Rightarrow> 's check_method" where
  "pi_summary st =
     (let p0 = (case st ''stepie=0'' of Some p \<Rightarrow> p | None \<Rightarrow> []); p1 = (case st ''stepie=1'' of Some p \<Rightarrow> p | None \<Rightarrow> [])
      in step_result '''' (length (remdups (p0 @ p1)) \<ge> 2))"

definition priv_irq_steps :: "'s transport \<Rightarrow> (bool list \<Rightarrow> ('s, unit) dbg) \<Rightarrow> int \<Rightarrow> ('s, privs_seen) seq_step list" where
  "priv_irq_steps T tms count =
     [command_step ''Activate Debug Module'' (activate T),
      command_step ''Halt hart'' (halt T DEFAULT_TIMEOUT),
      check_step ''Confirm hart halted'' (pi_confirm T),
      dbg_step ''Catch each privilege by halting a running hart'' (catch_privileges T tms),
      check_step ''Set dcsr.step=1, stepie=0'' (set_stepie T False),
      dbg_step (''Walk '' @ str_int count @ '' steps with stepie=0'') (pi_walk T count ''stepie=0''),
      check_step ''Set dcsr.step=1, stepie=1'' (set_stepie T True),
      dbg_step (''Walk '' @ str_int count @ '' steps with stepie=1'') (pi_walk T count ''stepie=1''),
      reader_step ''Record privileges covered'' pi_summary,
      command_step ''Clear dcsr.step'' (set_step T False)]"

definition build_priv_irq_sequence ::
  "'s transport \<Rightarrow> (bool list \<Rightarrow> ('s, unit) dbg) \<Rightarrow> string \<Rightarrow> int \<Rightarrow> (('s, privs_seen) seq_session \<times> privs_seen) result" where
  "build_priv_irq_sequence T tms md count = bindR (session_of md False (priv_irq_steps T tms count)) (\<lambda>s. Inr (s, Map.empty))"

subsection \<open>\<^verbatim>\<open>step_stall_sequence.py\<close>\<close>

definition MAX_STEPS_TO_FIND :: nat where [simp]: "MAX_STEPS_TO_FIND = 24"
definition DMSTATUS_SAMPLES :: nat where [simp]: "DMSTATUS_SAMPLES = 3"
definition ST_POLL_TIMEOUT :: int where [simp]: "ST_POLL_TIMEOUT = 2000000"
definition ST_CAUSE_STEP :: int where [simp]: "ST_CAUSE_STEP = 4"

fun st_find_symbol :: "string \<Rightarrow> string list list \<Rightarrow> dbg_error + int" where
  "st_find_symbol symbol [] = Inl (Raised (RuntimeError symbol))"
| "st_find_symbol symbol (parts # rest) =
     (if length parts = 3 \<and> parts ! 2 = symbol
      then (case py_int_by unsigned_int16 (parts ! 0) of Inl e \<Rightarrow> Inl (Raised e) | Inr a \<Rightarrow> Inr a)
      else st_find_symbol symbol rest)"

definition resolve_symbol :: "(string \<Rightarrow> dbg_error + string) \<Rightarrow> string \<Rightarrow> string \<Rightarrow> saved \<Rightarrow> ('s, saved) dbg" where
  "resolve_symbol nm elf symbol st =
     bindD (liftE (case nm elf of Inl e \<Rightarrow> Inl e | Inr t \<Rightarrow> st_find_symbol symbol (map words (splitlines t)))) (\<lambda>a.
       returnD (st(''wfi_addr'' \<mapsto> a)))"

definition st_wait_halted :: "'s transport \<Rightarrow> int \<Rightarrow> ('s, bool) dbg" where
  "st_wait_halted T timeout =
     bindD (monotonic T) (\<lambda>now.
     bindD (wait_until T (sees_halted T) (now + timeout)) (\<lambda>halted.
       if halted then returnD True else sees_halted T))"

definition st_confirm_halted :: "'s transport \<Rightarrow> 's check_method" where
  "st_confirm_halted T = bindD (st_wait_halted T ST_POLL_TIMEOUT) (\<lambda>halted. step_result '''' halted)"

fun advance_loop :: "'s transport \<Rightarrow> int \<Rightarrow> nat \<Rightarrow> 's check_method" where
  "advance_loop T target 0 = bindD (get_pc T) (\<lambda>_. step_result ''wfi not reached'' False)"
| "advance_loop T target (Suc n) =
     bindD (get_pc T) (\<lambda>pc.
       if pc = target then step_result '''' True
       else seqD (resume_no_wait T)
           (bindD (st_wait_halted T ST_POLL_TIMEOUT) (\<lambda>halted.
              if \<not> halted then step_result ''hart did not re-halt'' False else advance_loop T target n)))"

definition advance_to_wfi :: "'s transport \<Rightarrow> saved \<Rightarrow> 's check_method" where
  "advance_to_wfi T st = bindD (saved_item st ''wfi_addr'') (\<lambda>target. advance_loop T target MAX_STEPS_TO_FIND)"

definition step_over_wfi :: "'s transport \<Rightarrow> 's check_method" where
  "step_over_wfi T =
     bindD (get_pc T) (\<lambda>pc_before.
     seqD (resume_no_wait T)
    (bindD (any_of_range DMSTATUS_SAMPLES (sees_halted T)) (\<lambda>halted.
       if \<not> halted then step_result ''TC-SSTEP-002'' False
       else bindD (attempt (get_dcsr_cause T)) (\<lambda>got.
         case got of
           None \<Rightarrow> step_result ''TC-SSTEP-002'' False
         | Some cause \<Rightarrow>
             if cause \<noteq> ST_CAUSE_STEP then seqD (just_read T ADDR_DMSTATUS) (step_result ''TC-SSTEP-002'' False)
             else bindD (get_pc T) (\<lambda>pc_after. step_result ''TC-SSTEP-002'' (pc_after \<noteq> pc_before))))))"

definition step_stall_steps :: "'s transport \<Rightarrow> (string \<Rightarrow> dbg_error + string) \<Rightarrow> string \<Rightarrow> string \<Rightarrow> ('s, saved) seq_step list" where
  "step_stall_steps T nm elf symbol =
     [phased_step (''Resolve '' @ symbol @ '' from the ELF'') [resolve_symbol nm elf symbol] (\<lambda>_. step_result '''' True),
      command_step ''Activate Debug Module'' (activate T),
      command_step ''Halt hart'' (halt T DEFAULT_TIMEOUT),
      check_step ''Confirm hart halted'' (st_confirm_halted T),
      command_step ''Set dcsr.step=1'' (set_step T True),
      reader_step ''Step until dpc is the wfi'' (advance_to_wfi T),
      check_step ''TC-SSTEP-002: single-step over wfi (spec: treated as a nop)'' (step_over_wfi T),
      command_step ''Clear dcsr.step'' (set_step T False),
      check_step ''Read dmstatus at end of test'' (seqD (just_read T ADDR_DMSTATUS) (step_result '''' True))]"

definition build_step_stall_sequence ::
  "'s transport \<Rightarrow> (string \<Rightarrow> dbg_error + string) \<Rightarrow> string \<Rightarrow> string \<Rightarrow> string \<Rightarrow> (('s, saved) seq_session \<times> saved) result" where
  "build_step_stall_sequence T nm md elf symbol =
     bindR (session_of md True (step_stall_steps T nm elf symbol)) (\<lambda>s. Inr (s, Map.empty))"

subsection \<open>\<^verbatim>\<open>step_matrix_sequence.py\<close>\<close>

text \<open>
  The steps share \<^verbatim>\<open>addrs\<close> and, of \<^verbatim>\<open>deviations\<close>, whether there are any of each kind. A run that raises keeps the
  deviations it has recorded, so it hands its error on as a value and the step raises it.
\<close>

record matrix_state =
  mx_addrs :: saved
  trap_seen :: bool
  xret_seen :: bool

definition S0_REGNO :: int where [simp]: "S0_REGNO = 0x1008"
definition SEPC :: int where [simp]: "SEPC = 0x0141"
definition M_STEPS :: nat where [simp]: "M_STEPS = 40"
definition LOW_STEPS :: nat where [simp]: "LOW_STEPS = 24"

definition SYMBOLS :: "string list" where
  "SYMBOLS = [''step_loop'', ''cls_sret'', ''sret_insn'', ''scratch_area'', ''trap_handler'', ''handler_mret'', ''handler_end'']"

text \<open>What a method did, its error as a value.\<close>

definition caught :: "('s, 'a) dbg \<Rightarrow> ('s, dbg_error + 'a) dbg" where
  "caught m = tryD (bindD m (\<lambda>x. returnD (Inr x))) (\<lambda>e. returnD (Inl e))"

definition mx_symbol :: "(string \<Rightarrow> dbg_error + string) \<Rightarrow> string \<Rightarrow> string \<Rightarrow> matrix_state \<Rightarrow> ('s, matrix_state) dbg" where
  "mx_symbol nm elf s x = bindD (save_symbol nm elf s (mx_addrs x)) (\<lambda>a. returnD (x\<lparr>mx_addrs := a\<rparr>))"

definition mx_setup :: "'s transport \<Rightarrow> matrix_state \<Rightarrow> 's check_method" where
  "mx_setup T x =
     seqD (open_pmp T)
    (bindD (saved_item (mx_addrs x) ''scratch_area'') (\<lambda>a.
     seqD (write_reg64 T S0_REGNO a)
    (bindD (read_reg64 T MSTATUS) (\<lambda>mstatus.
     seqD (write_reg64 T MSTATUS (mstatus AND NOT MSTATUS_MIE)) (step_result '''' True)))))"

definition in_handler :: "saved \<Rightarrow> int \<Rightarrow> ('s, bool) dbg" where
  "in_handler addrs pc =
     bindD (saved_item addrs ''trap_handler'') (\<lambda>a.
       if a \<le> pc then bindD (saved_item addrs ''handler_end'') (\<lambda>e. returnD (pc < e)) else returnD False)"

text \<open>Where an \<^verbatim>\<open>xRET\<close> must land, read before it is stepped.\<close>

definition xret_target :: "'s transport \<Rightarrow> saved \<Rightarrow> int \<Rightarrow> int \<Rightarrow> ('s, (int \<times> int) option) dbg" where
  "xret_target T addrs prv pc =
     bindD (saved_item addrs ''handler_mret'') (\<lambda>h.
       if pc = h then bindD (read_reg64 T MEPC) (\<lambda>a. returnD (Some (a, prv)))
       else bindD (saved_item addrs ''sret_insn'') (\<lambda>i.
         if pc = i then bindD (read_reg64 T SEPC) (\<lambda>a. returnD (Some (a, HC_PRV_S))) else returnD None))"

text \<open>One step and what it landed on; \<open>None\<close> when it did not halt again by itself for the step.\<close>

definition observe_step :: "'s transport \<Rightarrow> saved \<Rightarrow> int \<Rightarrow> int \<Rightarrow> ('s, ((int \<times> int) option \<times> int \<times> int) option) dbg" where
  "observe_step T addrs prv pc =
     bindD (xret_target T addrs prv pc) (\<lambda>want.
     bindD (step_once T 400) (\<lambda>entered.
       if \<not> entered then returnD None
       else bindD (read_gpr T HC_DCSR) (\<lambda>dcsr.
         if cause_of dcsr \<noteq> CAUSE_STEP then returnD None
         else let new_prv = dcsr AND 0x3 in
           bindD (read_reg64 T HC_DPC) (\<lambda>dpc.
             if new_prv \<notin> {HC_PRV_U, HC_PRV_S, HC_PRV_M} then raiseD (Raised (KeyError (str_int new_prv)))
             else returnD (Some (want, dpc, new_prv))))))"

text \<open>Whether the stepped instruction trapped, with the read of its cause, and whether it landed past the entry of the handler.\<close>

definition trap_deviation :: "'s transport \<Rightarrow> saved \<Rightarrow> int \<Rightarrow> int \<Rightarrow> ('s, bool) dbg" where
  "trap_deviation T addrs pc dpc =
     bindD (in_handler addrs dpc) (\<lambda>b.
       if \<not> b then returnD False
       else bindD (in_handler addrs pc) (\<lambda>b1.
         if b1 then returnD False
         else bindD (read_reg64 T MCAUSE) (\<lambda>_.
           bindD (saved_item addrs ''trap_handler'') (\<lambda>a. returnD (dpc \<noteq> a)))))"

fun matrix_loop :: "'s transport \<Rightarrow> int \<Rightarrow> nat \<Rightarrow> int \<Rightarrow> matrix_state \<Rightarrow> ('s, (dbg_error + bool) \<times> matrix_state) dbg" where
  "matrix_loop T prv 0 pc x = returnD (Inr True, x)"
| "matrix_loop T prv (Suc n) pc x =
     bindD (caught (observe_step T (mx_addrs x) prv pc)) (\<lambda>seen.
     case seen of
       Inl e \<Rightarrow> returnD (Inl e, x)
     | Inr None \<Rightarrow> returnD (Inr False, x)
     | Inr (Some (Some (want_pc, want_prv), dpc, new_prv)) \<Rightarrow>
         if (dpc, new_prv) = (want_pc, want_prv) then matrix_loop T prv n dpc x
         else bindD (caught (place T want_pc want_prv)) (\<lambda>r.
           case r of
             Inl e \<Rightarrow> returnD (Inl e, x\<lparr>xret_seen := True\<rparr>)
           | Inr _ \<Rightarrow> matrix_loop T prv n want_pc (x\<lparr>xret_seen := True\<rparr>))
     | Inr (Some (None, dpc, new_prv)) \<Rightarrow>
         bindD (caught (trap_deviation T (mx_addrs x) pc dpc)) (\<lambda>r.
           case r of
             Inl e \<Rightarrow> returnD (Inl e, x)
           | Inr off \<Rightarrow> matrix_loop T prv n dpc (if off then x\<lparr>trap_seen := True\<rparr> else x)))"

definition matrix_prepare :: "'s transport \<Rightarrow> int \<Rightarrow> int \<Rightarrow> bool \<Rightarrow> bool \<Rightarrow> ('s, bool) dbg" where
  "matrix_prepare T start prv stepie irq =
     bindD (ensure_halted T 200) (\<lambda>b.
       if \<not> b then returnD False
       else seqD (write_reg64 T MIE (if irq then MIE_MTIE else 0))
           (seqD (just_modify_dcsr T (DCSR_STEP OR (if stepie then DCSR_STEPIE else 0)) (if stepie then 0 else DCSR_STEPIE) None)
           (seqD (place T start prv) (returnD True))))"

definition matrix_run :: "'s transport \<Rightarrow> string \<Rightarrow> int \<Rightarrow> int \<Rightarrow> nat \<Rightarrow> bool \<Rightarrow> bool \<Rightarrow> matrix_state \<Rightarrow> ('s, (dbg_error + bool) \<times> matrix_state) dbg" where
  "matrix_run T symbol offset prv n stepie irq x =
     bindD (caught (bindD (saved_item (mx_addrs x) symbol) (\<lambda>a.
                    bindD (matrix_prepare T (a + offset) prv stepie irq) (\<lambda>b. returnD (a + offset, b))))) (\<lambda>r.
     case r of
       Inl e \<Rightarrow> returnD (Inl e, x)
     | Inr (start, b) \<Rightarrow> if b then matrix_loop T prv n start x else returnD (Inr False, x))"

definition matrix_step :: "string \<Rightarrow> (matrix_state \<Rightarrow> ('s, (dbg_error + bool) \<times> matrix_state) dbg) \<Rightarrow> ('s, matrix_state) seq_step" where
  "matrix_step name m = dbg_step name (\<lambda>x. bindD (m x) (\<lambda>(r, x1).
     case r of
       Inl e \<Rightarrow> returnD (RaisesException '''', x1)
     | Inr ok1 \<Rightarrow> bindD (step_result name ok1) (\<lambda>q. returnD (q, x1))))"

definition m_combo :: "'s transport \<Rightarrow> bool \<Rightarrow> bool \<Rightarrow> ('s, matrix_state) seq_step" where
  "m_combo T stepie irq =
     matrix_step (''Step in M, stepie='' @ str_int (int_of_bool stepie) @ '', interrupt pending='' @ str_int (int_of_bool irq))
       (matrix_run T ''step_loop'' 0 HC_PRV_M M_STEPS stepie irq)"

definition spec_check :: "matrix_state \<Rightarrow> 's check_method" where
  "spec_check x = step_result ''TC-SSTEP-008/009'' (\<not> trap_seen x \<and> \<not> xret_seen x)"

definition mx_restore :: "'s transport \<Rightarrow> 's check_method" where
  "mx_restore T = when_halted T
    (seqD (write_reg64 T MIE 0)
    (seqD (just_modify_dcsr T 0 (DCSR_STEP OR DCSR_STEPIE) (Some HC_PRV_M)) (step_result ''restore'' True)))"

definition step_matrix_steps :: "'s transport \<Rightarrow> (string \<Rightarrow> dbg_error + string) \<Rightarrow> string \<Rightarrow> ('s, matrix_state) seq_step list" where
  "step_matrix_steps T nm elf =
     [command_step ''Activate Debug Module'' (activate T),
      command_step ''Halt hart'' (halt T DEFAULT_TIMEOUT),
      phased_step ''Resolve symbols, open PMP, disable M interrupts'' (map (mx_symbol nm elf) SYMBOLS) (mx_setup T),
      m_combo T False False, m_combo T False True, m_combo T True False, m_combo T True True,
      matrix_step ''Step in S'' (matrix_run T ''step_loop'' 4 HC_PRV_S LOW_STEPS False False),
      matrix_step ''Step in U'' (matrix_run T ''step_loop'' 4 HC_PRV_U LOW_STEPS False False),
      matrix_step ''Step a wfi in U'' (matrix_run T ''step_loop'' 0 HC_PRV_U 1 False False),
      matrix_step ''Step an sret in S'' (matrix_run T ''cls_sret'' 0 HC_PRV_S 8 False False),
      reader_step ''Check trap and xRET steps against Sdext'' spec_check,
      check_step ''Restore'' (mx_restore T)]"

definition build_step_matrix_sequence ::
  "'s transport \<Rightarrow> (string \<Rightarrow> dbg_error + string) \<Rightarrow> string \<Rightarrow> string \<Rightarrow> (('s, matrix_state) seq_session \<times> matrix_state) result" where
  "build_step_matrix_sequence T nm md elf =
     bindR (session_of md False (step_matrix_steps T nm elf)) (\<lambda>s. Inr (s, \<lparr>mx_addrs = Map.empty, trap_seen = False, xret_seen = False\<rparr>))"

end
