(* ===== verification/CornersSeq.thy ===== *)
theory CornersSeq
  imports StepSeq
begin

text \<open>
  \<^verbatim>\<open>dm_corners_sequence.py\<close> and \<^verbatim>\<open>dmi_error_sequence.py\<close> of \<^verbatim>\<open>src/src/pydebug/sequences\<close>: the corners of the Debug
  Module that no ordinary debugger reaches, and the sticky errors and resets of the transport module below it. Of
  the lists of problems a step collects, whether it is empty is kept. The access of a transport to the JTAG registers
  is a record of methods it may or may not have.
\<close>

unbundle bit_operations_syntax

subsection \<open>\<^verbatim>\<open>dm_corners_sequence.py\<close>\<close>

definition DC_SBADDRESS1 :: int where [simp]: "DC_SBADDRESS1 = 0x3A"
definition DC_SBDATA1 :: int where [simp]: "DC_SBDATA1 = 0x3D"
definition DC_SB_BUSYERROR :: nat where [simp]: "DC_SB_BUSYERROR = 22"
definition SB_BUSY :: nat where [simp]: "SB_BUSY = 21"
definition DC_SB_READONADDR :: nat where [simp]: "DC_SB_READONADDR = 20"
definition DC_SB_ACCESS_LSB :: nat where [simp]: "DC_SB_ACCESS_LSB = 17"
definition DC_SB_ERROR_LSB :: nat where [simp]: "DC_SB_ERROR_LSB = 12"
definition DM_WHERETO :: int where [simp]: "DM_WHERETO = 0x300"
definition DM_FLAGS :: int where [simp]: "DM_FLAGS = 0x400"
definition DM_UNDECODED :: int where [simp]: "DM_UNDECODED = 0x000"
definition STALL_ADDR :: int where [simp]: "STALL_ADDR = 0x80001000"
definition DMC_RESUMEREQ :: nat where [simp]: "DMC_RESUMEREQ = 30"
definition DMC_DMACTIVE :: nat where [simp]: "DMC_DMACTIVE = 0"
definition WHERETO_RESUME :: int where [simp]: "WHERETO_RESUME = 0x5040006f"
definition DM_HALTED :: int where [simp]: "DM_HALTED = 0x100"
definition DM_RESUMING :: int where [simp]: "DM_RESUMING = 0x108"
definition DC_ABSTRACTAUTO :: int where [simp]: "DC_ABSTRACTAUTO = 0x18"
definition DC_HALTSUM1 :: int where [simp]: "DC_HALTSUM1 = 0x13"
definition DC_HALTSUM2 :: int where [simp]: "DC_HALTSUM2 = 0x34"
definition DC_HALTSUM3 :: int where [simp]: "DC_HALTSUM3 = 0x35"
definition DC_EBREAK :: int where [simp]: "DC_EBREAK = 0x00100073"
definition DC_X5_REGNO :: int where [simp]: "DC_X5_REGNO = 0x1005"
definition ONES :: int where [simp]: "ONES = 0xFFFFFFFF"
definition SBCS_ZERO0 :: int where [simp]: "SBCS_ZERO0 = 0x1F800000"

definition ROM_WORDS :: "int list" where "ROM_WORDS = map (\<lambda>i. 0x800 + 8 * i) [0..18]"
definition ABSTRACT_WORDS :: "int list" where "ABSTRACT_WORDS = map (\<lambda>i. 0x338 + 8 * i) [0..4]"
definition PROGBUF_WORDS :: "int list" where "PROGBUF_WORDS = map (\<lambda>i. 0x360 + 8 * i) [0..3]"
definition DATA_WORD :: int where "DATA_WORD = 0x380"

definition DEBUG_ROM :: "int list" where
  "DEBUG_ROM =
     [0x07c0006f00c0006f, 0x0ff0000f04c0006f, 0x7b3510737b241073,
      0x00c5551300000517, 0xf140247300c51513, 0x00a4043310852023,
      0x0014741340044403, 0xf140247302041c63, 0x4004440300a40433,
      0xfa041ce300247413, 0x00000517fd5ff06f, 0x00c5151300c55513,
      0x7b30257310052623, 0x001000737b202473, 0x7b30257310052223,
      0xa85ff06f7b202473, 0x10852423f1402473, 0x7b2024737b302573,
      0x000000007b200073]"

definition sbcs_read_on_addr :: "int \<Rightarrow> int" where
  "sbcs_read_on_addr code = push_bit DC_SB_READONADDR 1 OR push_bit DC_SB_ACCESS_LSB code"

definition tc_dmc_001 :: "'s transport \<Rightarrow> 's check_method" where
  "tc_dmc_001 T =
     seqD (select_hart T 1)
    (bindD (mapD (\<lambda>_. attempt (dmi_read T ADDR_DMSTATUS)) [0 ..< 3]) (\<lambda>status.
     seqD (select_hart T 0)
    (bindD (is_halted T) (\<lambda>still_halted.
       step_result ''TC-DMC-001'' (list_all (\<lambda>v. case v of Some w \<Rightarrow> allnonexistent w | None \<Rightarrow> False) status \<and> still_halted)))))"

definition tc_dmc_002 :: "'s transport \<Rightarrow> int \<Rightarrow> 's check_method" where
  "tc_dmc_002 T dm_base =
     seqD (write_mem32 T DM_UNDECODED 0)
    (bindD (read_mem32 T (dm_base + DM_FLAGS)) (\<lambda>flags_mine.
     bindD (read_mem32 T (dm_base + DM_FLAGS + 8)) (\<lambda>flags_other.
     bindD (read_mem32 T DM_WHERETO) (\<lambda>idle_whereto.
     seqD (resume T DEFAULT_TIMEOUT)
    (seqD (dmi_write T ADDR_DMCONTROL (push_bit DMC_RESUMEREQ 1 OR push_bit DMC_DMACTIVE 1))
    (bindD (read_mem32 T DM_WHERETO) (\<lambda>resume_whereto.
     seqD (dmi_write T ADDR_DMCONTROL (push_bit DMC_DMACTIVE 1))
    (seqD (halt T DEFAULT_TIMEOUT)
          (step_result ''TC-DMC-002'' (flags_mine = 0 \<and> flags_other = 0 \<and> resume_whereto = WHERETO_RESUME))))))))))"

definition dc_sba_read64 :: "'s transport \<Rightarrow> int \<Rightarrow> ('s, int) dbg" where
  "dc_sba_read64 T addr =
     seqD (dmi_write T ADDR_SBADDRESS0 addr)
    (seqD (wait_sbus T DEFAULT_TIMEOUT)
    (bindD (dmi_read T DC_SBDATA1) (\<lambda>hi.
     bindD (dmi_read T ADDR_SBDATA0) (\<lambda>lo. returnD (push_bit 32 hi OR lo)))))"

definition dc_abstract :: "'s transport \<Rightarrow> int \<Rightarrow> ('s, int) dbg" where
  "dc_abstract T control =
     seqD (dmi_write T ADDR_COMMAND control)
    (seqD (poll_until T (\<lambda>v. Inr (\<not> truth (drop_bit 12 v AND 1))) ADDR_ABSTRACTCS ''abstractcs.busy=0'' DEFAULT_TIMEOUT)
    (bindD (dmi_read T ADDR_ABSTRACTCS) (\<lambda>w.
     seqD (dmi_write T ADDR_ABSTRACTCS (push_bit 8 0x7)) (returnD (drop_bit 8 w AND 0x7)))))"

definition tc_dmc_005 :: "'s transport \<Rightarrow> 's check_method" where
  "tc_dmc_005 T =
     seqD (dmi_write T ADDR_ABSTRACTCS ONES)
    (bindD (dmi_read T ADDR_ABSTRACTCS) (\<lambda>w.
     seqD (dmi_write T ADDR_ABSTRACTCS 0)
    (seqD (dmi_write T DC_ABSTRACTAUTO ONES)
    (bindD (dmi_read T DC_ABSTRACTAUTO) (\<lambda>auto_word.
     seqD (dmi_write T DC_ABSTRACTAUTO 0)
    (bindD (dc_abstract T (push_bit 23 1 OR push_bit 20 2 OR push_bit 19 1 OR push_bit 13 1)) (\<lambda>cmd_err.
       step_result ''TC-DMC-005'' (auto_word = 0x00FF0003))))))))"

definition tc_dmc_007 :: "'s transport \<Rightarrow> 's check_method" where
  "tc_dmc_007 T =
     seqD (dmi_write T ADDR_SBCS ONES)
    (bindD (dmi_read T ADDR_SBCS) (\<lambda>sbcs.
     seqD (dmi_write T ADDR_SBCS (sbcs_read_on_addr 2))
          (step_result ''TC-DMC-007'' (drop_bit 23 (sbcs AND SBCS_ZERO0) = 0))))"

definition tc_dmc_008 :: "'s transport \<Rightarrow> 's check_method" where
  "tc_dmc_008 T =
     bindD (dmi_read T ADDR_HALTSUM0) (\<lambda>w.
     let hart0_halted = w AND 1 in
     bindD (mapD (\<lambda>a. attempt (dmi_read T a)) [DC_HALTSUM1, DC_HALTSUM2, DC_HALTSUM3]) (\<lambda>seen.
       step_result ''TC-DMC-008'' (list_all (\<lambda>v. case v of Some u \<Rightarrow> u = 0 \<or> u = hart0_halted | None \<Rightarrow> False) seen)))"

text \<open>The parts of \<^verbatim>\<open>tc_dmc_006\<close>, each with whether it met no problem.\<close>

definition sba_pattern :: "'s transport \<Rightarrow> int \<Rightarrow> int \<Rightarrow> ('s, bool) dbg" where
  "sba_pattern T scratch_addr pattern =
     seqD (dmi_write T ADDR_SBCS (push_bit DC_SB_ACCESS_LSB 3))
    (seqD (dmi_write T ADDR_SBADDRESS0 scratch_addr)
    (seqD (dmi_write T DC_SBDATA1 pattern)
    (seqD (dmi_write T ADDR_SBDATA0 pattern)
    (seqD (wait_sbus T DEFAULT_TIMEOUT)
    (seqD (dmi_write T ADDR_SBCS (sbcs_read_on_addr 3))
    (bindD (dc_sba_read64 T scratch_addr) (\<lambda>got. returnD (got = (push_bit 32 pattern OR pattern)))))))))"

definition fill_progbuf :: "'s transport \<Rightarrow> int \<Rightarrow> ('s, unit) dbg" where
  "fill_progbuf T v = forD (\<lambda>i. write_progbuf T i v) [0..7]"

definition progbuf_pattern :: "'s transport \<Rightarrow> int \<Rightarrow> int \<Rightarrow> ('s, bool) dbg" where
  "progbuf_pattern T dm_base fill =
     seqD (fill_progbuf T fill)
    (bindD (mapD (\<lambda>w. dc_sba_read64 T (dm_base + w)) PROGBUF_WORDS) (\<lambda>got.
       returnD (list_all (\<lambda>v. v = (push_bit 32 fill OR fill)) got)))"

definition read_data64 :: "'s transport \<Rightarrow> ('s, int) dbg" where
  "read_data64 T = bindD (dmi_read T ADDR_DATA1) (\<lambda>hi. bindD (dmi_read T ADDR_DATA0) (\<lambda>lo. returnD (push_bit 32 hi OR lo)))"

definition gpr_pattern :: "'s transport \<Rightarrow> int \<Rightarrow> ('s, bool) dbg" where
  "gpr_pattern T pattern =
     seqD (dmi_write T ADDR_DATA0 pattern)
    (seqD (dmi_write T ADDR_DATA1 pattern)
    (bindD (dc_abstract T (push_bit 20 3 OR push_bit 17 1 OR push_bit 16 1 OR DC_X5_REGNO)) (\<lambda>werr.
     bindD (dc_abstract T (push_bit 20 3 OR push_bit 17 1 OR DC_X5_REGNO)) (\<lambda>rerr.
     bindD (read_data64 T) (\<lambda>v. returnD (werr = 0 \<and> rerr = 0 \<and> v = (push_bit 32 pattern OR pattern)))))))"

definition tc_dmc_006 :: "'s transport \<Rightarrow> int \<Rightarrow> int \<Rightarrow> 's check_method" where
  "tc_dmc_006 T scratch_addr dm_base =
     bindD (dmi_read T ADDR_SBCS) (\<lambda>w.
     if \<not> truth (drop_bit 3 w AND 1) then step_result ''TC-DMC-006'' True
     else seqD (dmi_write T ADDR_SBCS (push_bit DC_SB_ACCESS_LSB 3))
         (seqD (dmi_write T DC_SBADDRESS1 ONES)
         (seqD (dmi_write T DC_SBADDRESS1 0)
         (seqD (dmi_write T ADDR_SBADDRESS0 scratch_addr)
         (bindD (mapD (sba_pattern T scratch_addr) [ONES, 0]) (\<lambda>bus.
          bindD (dc_sba_read64 T (dm_base + DM_FLAGS + 3)) (\<lambda>_.
          bindD (mapD (progbuf_pattern T dm_base) [ONES, 0]) (\<lambda>progbuf.
          seqD (fill_progbuf T DC_EBREAK)
         (bindD (mapD (\<lambda>(w, want). bindD (dc_sba_read64 T (dm_base + w)) (\<lambda>got. returnD (got = want))) (zip ROM_WORDS DEBUG_ROM)) (\<lambda>rom.
          bindD (mapD (\<lambda>w. dc_sba_read64 T (dm_base + w)) ABSTRACT_WORDS) (\<lambda>_.
          bindD (read_data64 T) (\<lambda>data_now.
          bindD (dc_sba_read64 T DATA_WORD) (\<lambda>got.
          bindD (mapD (gpr_pattern T) [ONES, 0]) (\<lambda>gpr.
            step_result ''TC-DMC-006'' (list_all id (bus @ progbuf @ rom @ [got = data_now] @ gpr))))))))))))))))"

definition tc_dmc_009 :: "'s transport \<Rightarrow> 's check_method" where
  "tc_dmc_009 T =
     seqD (dmi_write T DC_SBDATA1 0)
    (seqD (write_mem32 T DM_HALTED 1)
    (seqD (write_mem32 T DM_RESUMING 1)
    (seqD (dmi_write T ADDR_DMCONTROL (push_bit 16 1 OR 1))
    (seqD (dmi_write T ADDR_DMCONTROL (push_bit DMC_RESUMEREQ 1 OR push_bit 16 1 OR 1))
    (seqD (dmi_write T ADDR_DMCONTROL (push_bit 16 1 OR 1))
    (seqD (select_hart T 0)
    (bindD (is_halted T) (\<lambda>halted. step_result ''TC-DMC-009'' halted))))))))"

definition WALK_REGNOS :: "int list" where
  "WALK_REGNOS = map (\<lambda>k. push_bit k 1) [0..<12] @ [0xFFF] @ map (\<lambda>k. 0x1000 OR push_bit k 1) [0..<5] @ [0x101F]
     @ map (\<lambda>k. 0x1020 OR push_bit k 1) [0..<5] @ [0x103F]"

definition walk_one :: "'s transport \<Rightarrow> int \<Rightarrow> int \<Rightarrow> ('s, (int \<times> int) \<times> int \<times> int option) dbg" where
  "walk_one T sz regno =
     (let base = push_bit 20 sz OR push_bit 17 1 OR regno in
      bindD (dc_abstract T base) (\<lambda>rerr.
        if sz = 3 then bindD (dc_abstract T (base OR push_bit 16 1)) (\<lambda>werr. returnD ((sz, regno), rerr, Some werr))
        else returnD ((sz, regno), rerr, None)))"

definition tc_dmc_010 :: "'s transport \<Rightarrow> 's check_method" where
  "tc_dmc_010 T =
     bindD (mapD (\<lambda>(sz, regno). walk_one T sz regno) [(sz, regno). sz \<leftarrow> [2, 3], regno \<leftarrow> WALK_REGNOS]) (\<lambda>errors.
     bindD (dc_abstract T (push_bit 20 4 OR push_bit 17 1 OR 0x1005)) (\<lambda>odd_size.
     seqD (write_progbuf T 0 DC_EBREAK)
    (bindD (dc_abstract T (push_bit 20 3 OR push_bit 18 1 OR push_bit 17 1 OR 0x1005)) (\<lambda>postexec.
       let gpr_ok = list_all (\<lambda>((sz, r), rerr, werr). 0x1000 < r \<and> r \<le> 0x101F \<longrightarrow>
             rerr = 0 \<and> werr = (if sz = 3 then Some 0 else None)) errors
       in if gpr_ok \<and> odd_size = 2 \<and> postexec = 0 then bindD (is_halted T) (\<lambda>b. step_result ''TC-DMC-010'' b)
          else step_result ''TC-DMC-010'' False))))"

definition tc_dmc_003 :: "'s transport \<Rightarrow> 's check_method" where
  "tc_dmc_003 T =
     seqD (resume T DEFAULT_TIMEOUT)
    (seqD (dmi_write T ADDR_SBCS (sbcs_read_on_addr 2))
    (seqD (ndmreset_level T True)
    (seqD (dmi_write T ADDR_SBADDRESS0 STALL_ADDR)
    (bindD (dmi_read T ADDR_SBCS) (\<lambda>busy.
     seqD (dmi_write T ADDR_SBCS (sbcs_read_on_addr 2))
    (seqD (just_read T DC_SBDATA1)
    (seqD (dmi_write T DC_SBADDRESS1 0)
    (seqD (dmi_write T DC_SBDATA1 0)
    (bindD (dmi_read T ADDR_SBCS) (\<lambda>after.
       step_result ''TC-DMC-003'' (truth (drop_bit SB_BUSY busy AND 1) \<and> truth (drop_bit DC_SB_BUSYERROR after AND 1))))))))))))"

text \<open>The verdict reads \<^verbatim>\<open>dmstatus\<close> where the rest holds, and the message reads it again.\<close>

definition tc_dmc_004 :: "'s transport \<Rightarrow> 's check_method" where
  "tc_dmc_004 T =
     seqD (ndmreset_level T False)
    (seqD (ackhavereset T)
    (bindD (dmi_read T ADDR_SBCS) (\<lambda>w.
     let busy_now = truth (drop_bit SB_BUSY w AND 1) in
     seqD (just_read T ADDR_ABSTRACTCS)
    (seqD (dmi_write T ADDR_SBCS (push_bit DC_SB_BUSYERROR 1 OR push_bit DC_SB_ERROR_LSB 0x7 OR sbcs_read_on_addr 2))
    (bindD (dmi_read T ADDR_SBCS) (\<lambda>after.
     let busyerr = truth (drop_bit DC_SB_BUSYERROR after AND 1) in
     seqD (deactivate T)
    (seqD (just_read T ADDR_ABSTRACTCS)
    (seqD (just_read T ADDR_SBCS)
    (seqD (activate T)
    (bindD (dmi_read T ADDR_SBCS) (\<lambda>w1.
     seqD (halt T DEFAULT_TIMEOUT)
    (bindD (if busyerr = busy_now \<and> drop_bit DC_SB_BUSYERROR w1 AND 1 = 0 then is_halted T else returnD False) (\<lambda>ok1.
     bindD (is_halted T) (\<lambda>_. step_result ''TC-DMC-004'' ok1))))))))))))))"

definition dm_corners_steps :: "'s transport \<Rightarrow> int \<Rightarrow> int \<Rightarrow> ('s, unit) seq_step list" where
  "dm_corners_steps T scratch_addr dm_base =
     [command_step ''Activate Debug Module'' (activate T),
      command_step ''Halt hart'' (halt T DEFAULT_TIMEOUT),
      check_step ''TC-DMC-002: SBA into the Debug Module's own memory'' (tc_dmc_002 T dm_base),
      check_step ''TC-DMC-005: every writable register bit, both ways'' (tc_dmc_005 T),
      check_step ''TC-DMC-007: sbcs reserved bits read 0'' (tc_dmc_007 T),
      check_step ''TC-DMC-008: haltsum1-3 defined on a single-hart DM'' (tc_dmc_008 T),
      check_step ''TC-DMC-006: 64-bit bus and data-path halves'' (tc_dmc_006 T scratch_addr dm_base),
      check_step ''TC-DMC-010: abstract-command program walk'' (tc_dmc_010 T),
      check_step ''TC-DMC-003: DMI access while sbbusy'' (tc_dmc_003 T),
      check_step ''TC-DMC-004: DM consistent after ndmreset release'' (tc_dmc_004 T),
      check_step ''TC-DMC-001: flag poll with a nonexistent hart selected'' (tc_dmc_001 T),
      check_step ''TC-DMC-009: another hart's state slots'' (tc_dmc_009 T)]"

definition build_dm_corners_sequence :: "'s transport \<Rightarrow> string \<Rightarrow> int \<Rightarrow> int \<Rightarrow> ('s, unit) seq_session result" where
  "build_dm_corners_sequence T md scratch_addr dm_base = session_of md False (dm_corners_steps T scratch_addr dm_base)"

subsection \<open>\<^verbatim>\<open>dmi_error_sequence.py\<close>\<close>

definition DTMCS_DMIHARDRESET :: int where [simp]: "DTMCS_DMIHARDRESET = push_bit 17 1"
definition DTMCS_DMIRESET :: int where [simp]: "DTMCS_DMIRESET = push_bit 16 1"
definition DTMCS_DMISTAT_LSB :: nat where [simp]: "DTMCS_DMISTAT_LSB = 10"
definition DTMCS_ABITS_LSB :: nat where [simp]: "DTMCS_ABITS_LSB = 4"
definition DTMCS_VERSION_MASK :: int where [simp]: "DTMCS_VERSION_MASK = 0xF"
definition UNIMPLEMENTED_DMI_ADDR :: int where [simp]: "UNIMPLEMENTED_DMI_ADDR = 0x2F"
definition DMI_NOP :: int where [simp]: "DMI_NOP = 0"
definition DMI_READ :: int where [simp]: "DMI_READ = 1"
definition DMI_WRITE :: int where [simp]: "DMI_WRITE = 2"
definition IR_IDCODE :: int where [simp]: "IR_IDCODE = 0x01"
definition IR_BYPASS0 :: int where [simp]: "IR_BYPASS0 = 0x00"
definition IR_BYPASS1 :: int where [simp]: "IR_BYPASS1 = 0x1F"

text \<open>
  What \<^verbatim>\<open>hasattr(dm.t, ...)\<close> finds: \<^verbatim>\<open>dtmcs(wdata)\<close>, \<^verbatim>\<open>dmi_scan(op, addr, data)\<close>, \<^verbatim>\<open>jtag_scan(ir, dr_len, data, pause)\<close> and
  \<^verbatim>\<open>tms_walk(tms)\<close>.
\<close>

record 's jtag_access =
  j_dtmcs :: "(int \<Rightarrow> ('s, int) dbg) option"
  j_dmi_scan :: "(int \<Rightarrow> int \<Rightarrow> int \<Rightarrow> ('s, int) dbg) option"
  j_jtag_scan :: "(int \<Rightarrow> int \<Rightarrow> int \<Rightarrow> bool \<Rightarrow> ('s, int) dbg) option"
  j_tms_walk :: "(bool list \<Rightarrow> ('s, unit) dbg) option"

text \<open>Calling a method the transport does not have.\<close>

definition with_method :: "string \<Rightarrow> 'f option \<Rightarrow> ('f \<Rightarrow> ('s, 'a) dbg) \<Rightarrow> ('s, 'a) dbg" where
  "with_method name f k = (case f of None \<Rightarrow> raiseD (Raised (AttributeError name)) | Some g \<Rightarrow> k g)"

definition dmi_reset :: "'s transport \<Rightarrow> ('s, unit) dbg" where
  "dmi_reset T = (\<lambda>d. let (r, s) = t_reset T (t_state d) in Some (r, d\<lparr>t_state := s\<rparr>))"

definition dmistat_of :: "int \<Rightarrow> int" where
  "dmistat_of w = drop_bit DTMCS_DMISTAT_LSB w AND 0x3"

definition dmi_usable :: "'s transport \<Rightarrow> ('s, bool) dbg" where
  "dmi_usable T = bindD (dmi_read T ADDR_DMSTATUS) (\<lambda>w. returnD (w \<noteq> 0))"

definition tc_dtm_010 :: "'s jtag_access \<Rightarrow> 's check_method" where
  "tc_dtm_010 J = (case j_dtmcs J of
      None \<Rightarrow> step_result ''TC-DTM-010'' True
    | Some dtmcs \<Rightarrow> bindD (dtmcs 0) (\<lambda>v.
        step_result ''TC-DTM-010'' (v AND DTMCS_VERSION_MASK = 1 \<and> drop_bit DTMCS_ABITS_LSB v AND 0x3F \<ge> 7)))"

definition tc_dtm_011 :: "'s transport \<Rightarrow> 's jtag_access \<Rightarrow> 's check_method" where
  "tc_dtm_011 T J = (case j_dtmcs J of
      None \<Rightarrow> step_result ''TC-DTM-011'' True
    | Some dtmcs \<Rightarrow>
        seqD (forD (\<lambda>_. seqD (just_read T ADDR_DMSTATUS) (just_read T ADDR_ABSTRACTCS)) [0..<12])
       (bindD (dtmcs 0) (\<lambda>before.
        bindD (dtmcs DTMCS_DMIRESET) (\<lambda>_.
        bindD (dtmcs 0) (\<lambda>after.
        bindD (dmi_usable T) (\<lambda>usable.
          step_result ''TC-DTM-011'' (dmistat_of after = 0 \<and> usable)))))))"

definition tc_dtm_012 :: "'s transport \<Rightarrow> 's jtag_access \<Rightarrow> 's check_method" where
  "tc_dtm_012 T J = (case (j_dtmcs J, j_dmi_scan J) of
      (Some dtmcs, Some dmi_scan) \<Rightarrow>
        seqD (just_read T ADDR_DMSTATUS)
       (bindD (dmi_scan DMI_READ ADDR_DMSTATUS 0) (\<lambda>s0.
        bindD (dmi_scan DMI_NOP 0 0) (\<lambda>s1.
        bindD (dmi_scan DMI_NOP 0 0) (\<lambda>s2.
        bindD (dtmcs 0) (\<lambda>before.
        bindD (dtmcs DTMCS_DMIHARDRESET) (\<lambda>_.
        bindD (dtmcs 0) (\<lambda>after.
        bindD (dtmcs DTMCS_DMIRESET) (\<lambda>_.
        bindD (dmi_read T ADDR_DMCONTROL) (\<lambda>dmcontrol.
          step_result ''TC-DTM-012'' (dmistat_of before = 3 \<and> dmistat_of after = 0 \<and> dmcontrol AND 1 = 1))))))))))
    | _ \<Rightarrow> step_result ''TC-DTM-012'' True)"

definition tc_dtm_002 :: "'s jtag_access \<Rightarrow> int \<Rightarrow> 's check_method" where
  "tc_dtm_002 J idcode = (case j_jtag_scan J of
      None \<Rightarrow> step_result ''TC-DTM-002'' True
    | Some scan \<Rightarrow>
        bindD (scan IR_IDCODE 32 0 False) (\<lambda>plain.
        bindD (scan IR_IDCODE 32 0xFFFFFFFF True) (\<lambda>paused.
          step_result ''TC-DTM-002'' (plain = idcode \<and> paused = idcode \<and> truth (plain AND 1)))))"

definition tc_dtm_017 :: "'s jtag_access \<Rightarrow> 's check_method" where
  "tc_dtm_017 J = (case j_jtag_scan J of
      None \<Rightarrow> step_result ''TC-DTM-017'' True
    | Some scan \<Rightarrow>
        let pattern = 0xB4; want = push_bit 1 pattern AND 0xFF in
        bindD (mapD (\<lambda>ir. scan ir 8 pattern (ir = IR_BYPASS0)) [IR_BYPASS0, IR_BYPASS1]) (\<lambda>got.
          step_result ''TC-DTM-017'' (list_all (\<lambda>v. v = want) got)))"

definition TAP_WALK :: "bool list" where
  "TAP_WALK = map (\<lambda>b. b = (1 :: nat))
     ([1, 0, 1, 0, 1, 0, 1, 1] @ [1] @ [1, 0, 1, 0, 1, 0] @ [0, 0, 0, 0, 1] @ [0, 1, 1] @ [1] @ [0, 0, 1, 1] @ [0])"

definition tc_dtm_019 :: "'s transport \<Rightarrow> 's jtag_access \<Rightarrow> 's check_method" where
  "tc_dtm_019 T J = (case j_tms_walk J of
      None \<Rightarrow> step_result ''TC-DTM-019'' True
    | Some walk \<Rightarrow> with_method ''jtag_scan'' (j_jtag_scan J) (\<lambda>scan.
        bindD (scan IR_BYPASS1 1 0 False) (\<lambda>_.
        seqD (walk TAP_WALK)
       (bindD (scan IR_BYPASS1 8 0xB4 False) (\<lambda>after.
        bindD (dmi_usable T) (\<lambda>usable.
          step_result ''TC-DTM-019'' (after = 0x68 \<and> usable)))))))"

definition tc_dtm_018 :: "'s jtag_access \<Rightarrow> 's check_method" where
  "tc_dtm_018 J = (case j_dtmcs J of
      None \<Rightarrow> step_result ''TC-DTM-018'' True
    | Some dtmcs \<Rightarrow>
        bindD (dtmcs 0) (\<lambda>before.
        bindD (dtmcs (0xFFFFFFFF AND NOT (DTMCS_DMIHARDRESET OR DTMCS_DMIRESET))) (\<lambda>_.
        bindD (dtmcs 0) (\<lambda>after. step_result ''TC-DTM-018'' (after = before)))))"

definition tc_dtm_013 :: "'s transport \<Rightarrow> 's check_method" where
  "tc_dtm_013 T =
     bindD (dmi_read T UNIMPLEMENTED_DMI_ADDR) (\<lambda>_.
     bindD (dmi_usable T) (\<lambda>still_ok. step_result ''TC-DTM-013'' still_ok))"

definition tc_dtm_015 :: "'s transport \<Rightarrow> 's jtag_access \<Rightarrow> 's check_method" where
  "tc_dtm_015 T J = (case (j_dtmcs J, j_dmi_scan J) of
      (Some dtmcs, Some dmi_scan) \<Rightarrow>
        seqD (just_read T ADDR_DMSTATUS)
       (bindD (dmi_scan DMI_READ ADDR_DMSTATUS 0) (\<lambda>first.
        bindD (dmi_scan DMI_NOP 0 0) (\<lambda>busy.
        bindD (dmi_scan DMI_NOP 0 0) (\<lambda>sticky.
        bindD (dmi_scan DMI_READ ADDR_DMSTATUS 0) (\<lambda>on_read.
        bindD (dmi_scan DMI_WRITE UNIMPLEMENTED_DMI_ADDR 0) (\<lambda>on_write.
        bindD (dtmcs 0) (\<lambda>w.
        bindD (dtmcs DTMCS_DMIRESET) (\<lambda>_.
        bindD (dtmcs 0) (\<lambda>w1.
        bindD (dmi_usable T) (\<lambda>usable.
          step_result ''TC-DTM-015'' (first = 0 \<and> busy = 3 \<and> sticky = 3 \<and> on_read = 3 \<and> on_write = 3 \<and>
            dmistat_of w = 3 \<and> dmistat_of w1 = 0 \<and> usable)))))))))))
    | _ \<Rightarrow> step_result ''TC-DTM-015'' True)"

definition tc_dtm_014 :: "'s transport \<Rightarrow> 's jtag_access \<Rightarrow> 's check_method" where
  "tc_dtm_014 T J =
     seqD (dmi_reset T)
    (bindD (case j_dtmcs J of Some dtmcs \<Rightarrow> dtmcs 0 | None \<Rightarrow> returnD 0) (\<lambda>_.
     bindD (dmi_read T ADDR_DMCONTROL) (\<lambda>dmcontrol. step_result ''TC-DTM-014'' (dmcontrol AND 1 = 1))))"

definition dmi_error_steps :: "'s transport \<Rightarrow> 's jtag_access \<Rightarrow> int \<Rightarrow> ('s, unit) seq_step list" where
  "dmi_error_steps T J idcode =
     [command_step ''Activate Debug Module'' (activate T),
      check_step ''TC-DTM-010: dtmcs discovery'' (tc_dtm_010 J),
      check_step ''TC-DTM-011: sticky error cleared by dmireset'' (tc_dtm_011 T J),
      check_step ''TC-DTM-012: dmihardreset clears a pending error'' (tc_dtm_012 T J),
      check_step ''TC-DTM-002: IDCODE, plain and through Pause'' (tc_dtm_002 J idcode),
      check_step ''TC-DTM-017: BYPASS through IR 0x00 and 0x1f'' (tc_dtm_017 J),
      check_step ''TC-DTM-019: every TAP transition'' (tc_dtm_019 T J),
      check_step ''TC-DTM-018: dtmcs ignores writes to R/O and reserved bits'' (tc_dtm_018 J),
      check_step ''TC-DTM-013: unimplemented DMI address'' (tc_dtm_013 T),
      check_step ''TC-DTM-015: provoked busy is sticky until dmireset'' (tc_dtm_015 T J),
      check_step ''TC-DTM-014: TAP reset, DM survives'' (tc_dtm_014 T J)]"

definition build_dmi_error_sequence :: "'s transport \<Rightarrow> 's jtag_access \<Rightarrow> string \<Rightarrow> int \<Rightarrow> ('s, unit) seq_session result" where
  "build_dmi_error_sequence T J md idcode = session_of md False (dmi_error_steps T J idcode)"

end
