(* ===== verification/RunElfSeq.thy ===== *)
theory RunElfSeq
  imports EntrySeq
begin

text \<open>
  \<^verbatim>\<open>src/src/pydebug/sequences/run_elf_sequence.py\<close>: wait for the verdict of a self-checking program in memory, halt the hart, and
  decode the record of a failed check. The simulated time is asked of the simulator: the call, which may raise, and the
  readings in nanoseconds are parameters, as is the output of \<^verbatim>\<open>nm\<close>. The entry \<^verbatim>\<open>name\<close> of the shared dictionary is only ever
  printed; what is kept of it is that it is there. The location \<^verbatim>\<open>addr2line\<close> gives is part of a message.
\<close>

unbundle bit_operations_syntax

subsection \<open>The verdict\<close>

definition TOHOST_PASS :: int where [simp]: "TOHOST_PASS = 1"
definition TOHOST_FAIL :: int where [simp]: "TOHOST_FAIL = 3"
definition DEFAULT_BUDGET_NS :: int where "DEFAULT_BUDGET_NS = 200000000"

definition sim_time :: "('s, unit) dbg \<Rightarrow> (nat \<Rightarrow> int) \<Rightarrow> ('s, int) dbg" where
  "sim_time call clk = seqD call (read_clock clk)"

definition elf_setup :: "(string \<Rightarrow> dbg_error + string) \<Rightarrow> string \<Rightarrow> saved \<Rightarrow> ('s, unit step_return \<times> saved) dbg" where
  "elf_setup nm elf info =
     (if elf = [] then bindD (step_result ''no elf given (params.elf)'' False) (\<lambda>r. returnD (r, info))
      else bindD (liftE (symbol_addr nm elf ''tohost'')) (\<lambda>a.
           bindD (step_result ''tohost'' True) (\<lambda>r. returnD (r, info(''tohost'' \<mapsto> a, ''name'' \<mapsto> 0)))))"

text \<open>\<^verbatim>\<open>while True\<close>: read the word; stop on a verdict or when the budget is spent.\<close>

partial_function (option) verdict_loop ::
  "'s transport \<Rightarrow> ('s, unit) dbg \<Rightarrow> (nat \<Rightarrow> int) \<Rightarrow> int \<Rightarrow> int \<Rightarrow> int \<Rightarrow> 's RISCVDebug \<Rightarrow> ((dbg_error + int) \<times> 's RISCVDebug) option" where
  "verdict_loop T call clk a start budget d =
     (case read_mem32 T a d of
        None \<Rightarrow> None
      | Some (Inl e, d1) \<Rightarrow> Some (Inl e, d1)
      | Some (Inr v, d1) \<Rightarrow>
          if v = TOHOST_PASS \<or> v = TOHOST_FAIL then Some (Inr v, d1)
          else (case sim_time call clk d1 of
              None \<Rightarrow> None
            | Some (Inl e, d2) \<Rightarrow> Some (Inl e, d2)
            | Some (Inr now, d2) \<Rightarrow>
                if now - start > budget then Some (Inr v, d2) else verdict_loop T call clk a start budget d2))"

definition wait_verdict ::
  "'s transport \<Rightarrow> ('s, unit) dbg \<Rightarrow> (nat \<Rightarrow> int) \<Rightarrow> int \<Rightarrow> saved \<Rightarrow> ('s, unit step_return \<times> saved) dbg" where
  "wait_verdict T call clk budget info =
     bindD (sim_time call clk) (\<lambda>start.
     bindD (saved_item info ''tohost'') (\<lambda>a.
     bindD (verdict_loop T call clk a start budget) (\<lambda>v.
     bindD (sim_time call clk) (\<lambda>_.
     bindD (step_result ''verdict'' (v = TOHOST_PASS)) (\<lambda>r. returnD (r, info(''tohost_value'' \<mapsto> v)))))))"

definition elf_report :: "'s transport \<Rightarrow> saved \<Rightarrow> 's check_method" where
  "elf_report T info =
     seqD (halt T DEFAULT_TIMEOUT)
    (bindD (read_reg64 T HC_DPC) (\<lambda>dpc.
     bindD (read_reg64 T MCAUSE) (\<lambda>mcause.
     bindD (read_reg64 T MEPC) (\<lambda>mepc.
     bindD (saved_item info ''name'') (\<lambda>_. step_result ''report'' True)))))"

subsection \<open>The record of a failed check\<close>

definition FAIL_TYPE :: int where [simp]: "FAIL_TYPE = 0"
definition FAIL_ACTUAL :: int where [simp]: "FAIL_ACTUAL = 272"
definition FAIL_EXPECTED :: int where [simp]: "FAIL_EXPECTED = 280"
definition FAIL_RET_SLOTS :: "int list" where "FAIL_RET_SLOTS = [104, 40]"
definition X5_REGNO :: int where [simp]: "X5_REGNO = 0x1005"
definition SBDATA1_ADDR :: int where [simp]: "SBDATA1_ADDR = 0x3D"

definition read64 :: "'s transport \<Rightarrow> int \<Rightarrow> ('s, int) dbg" where
  "read64 T addr = bindD (read_mem32 T addr) (\<lambda>low. bindD (dmi_read T SBDATA1_ADDR) (\<lambda>high. returnD (push_bit 32 high OR low)))"

text \<open>The bytes of a word up to the first zero, and whether there is one.\<close>

definition word_bytes :: "int \<Rightarrow> int list" where
  "word_bytes w = map (\<lambda>i. drop_bit (8 * i) w AND 0xFF) [0..<8]"

text \<open>\<^verbatim>\<open>_read_str\<close>: each turn adds eight bytes, so the limit of 96 is reached after twelve. The mark of a cut string is kept.\<close>

fun read_str_loop :: "'s transport \<Rightarrow> int \<Rightarrow> nat \<Rightarrow> int list \<Rightarrow> ('s, int list \<times> bool) dbg" where
  "read_str_loop T addr 0 bs = returnD (bs, True)"
| "read_str_loop T addr (Suc n) bs =
     bindD (read64 T (addr + int (length bs))) (\<lambda>w.
       if 0 \<in> set (word_bytes w) then returnD (bs @ takeWhile (\<lambda>b. b \<noteq> 0) (word_bytes w), False)
       else read_str_loop T addr n (bs @ word_bytes w))"

definition read_str :: "'s transport \<Rightarrow> int \<Rightarrow> ('s, int list \<times> bool) dbg" where
  "read_str T addr = read_str_loop T addr 12 []"

datatype failure_record =
    Native_check int int int
  | Cannot_decode
  | Act_check int int int "(int \<times> int list \<times> bool) option"

text \<open>The first candidate that points at two pointer words of the program.\<close>

fun locate_check :: "'s transport \<Rightarrow> int \<Rightarrow> int \<Rightarrow> int list \<Rightarrow> ('s, (int \<times> int list \<times> bool) option) dbg" where
  "locate_check T lo hi [] = returnD None"
| "locate_check T lo hi (ret # rest) =
     (if lo \<le> ret \<and> ret < hi then
        bindD (read64 T ret) (\<lambda>ptr.
          if lo \<le> ptr \<and> ptr < hi then
            bindD (read64 T (ret + 8)) (\<lambda>text_at. bindD (read_str T text_at) (\<lambda>t. returnD (Some (ptr, t))))
          else locate_check T lo hi rest)
      else locate_check T lo hi rest)"

definition act_failure_record :: "'s transport \<Rightarrow> (string \<Rightarrow> dbg_error + string) \<Rightarrow> string \<Rightarrow> ('s, failure_record) dbg" where
  "act_failure_record T nm elf =
     (case symbol_addr nm elf ''begin_failure_scratch'' of
        Inl (Raised (RuntimeError _)) \<Rightarrow> returnD Cannot_decode
      | Inl e \<Rightarrow> raiseD e
      | Inr base \<Rightarrow>
          bindD (read64 T (base + FAIL_TYPE)) (\<lambda>kind.
          bindD (read64 T (base + FAIL_ACTUAL)) (\<lambda>actual.
          bindD (read64 T (base + FAIL_EXPECTED)) (\<lambda>exps.
          bindD (liftE (symbol_addr nm elf ''rvtest_entry_point'')) (\<lambda>lo.
          bindD (liftE (symbol_addr nm elf ''_end'')) (\<lambda>hi.
          bindD (read_reg64 T X5_REGNO) (\<lambda>x5.
          bindD (mapD (\<lambda>off. read64 T (base + off)) FAIL_RET_SLOTS) (\<lambda>slots.
          bindD (locate_check T lo hi (x5 # slots)) (\<lambda>check. returnD (Act_check kind actual exps check))))))))))"

definition failure_record_of :: "'s transport \<Rightarrow> (string \<Rightarrow> dbg_error + string) \<Rightarrow> string \<Rightarrow> ('s, failure_record) dbg" where
  "failure_record_of T nm elf =
     (case symbol_addr nm elf ''native_fail'' of
        Inl (Raised (RuntimeError _)) \<Rightarrow> act_failure_record T nm elf
      | Inl e \<Rightarrow> raiseD e
      | Inr base \<Rightarrow>
          bindD (read64 T base) (\<lambda>check.
          bindD (read64 T (base + 8)) (\<lambda>actual.
          bindD (read64 T (base + 16)) (\<lambda>exps. returnD (Native_check check actual exps)))))"

definition explain_failure :: "'s transport \<Rightarrow> (string \<Rightarrow> dbg_error + string) \<Rightarrow> string \<Rightarrow> saved \<Rightarrow> 's check_method" where
  "explain_failure T nm elf info =
     (if info ''tohost_value'' \<noteq> Some TOHOST_FAIL then step_result ''no failure record to decode'' True
      else bindD (saved_item info ''name'') (\<lambda>_.
           bindD (failure_record_of T nm elf) (\<lambda>_. step_result ''failure record'' True)))"

definition run_elf_steps ::
  "'s transport \<Rightarrow> ('s, unit) dbg \<Rightarrow> (nat \<Rightarrow> int) \<Rightarrow> (string \<Rightarrow> dbg_error + string) \<Rightarrow> string \<Rightarrow> int \<Rightarrow> ('s, saved) seq_step list" where
  "run_elf_steps T call clk nm elf budget =
     [dbg_step ''Resolve tohost'' (elf_setup nm elf),
      command_step ''Activate Debug Module'' (activate T),
      dbg_step ''Wait for the program's verdict (tohost)'' (wait_verdict T call clk budget),
      reader_step ''Halt and report where the program stopped'' (elf_report T),
      reader_step ''Decode the program's failure record'' (explain_failure T nm elf)]"

definition build_run_elf_sequence ::
  "'s transport \<Rightarrow> ('s, unit) dbg \<Rightarrow> (nat \<Rightarrow> int) \<Rightarrow> (string \<Rightarrow> dbg_error + string) \<Rightarrow> string \<Rightarrow> string \<Rightarrow> int \<Rightarrow>
    (('s, saved) seq_session \<times> saved) result" where
  "build_run_elf_sequence T call clk nm md elf budget =
     bindR (session_of md False (run_elf_steps T call clk nm elf budget)) (\<lambda>s. Inr (s, Map.empty))"

end
