(* ===== verification/StepsEnd.thy ===== *)
theory StepsEnd
  imports SequencesEnd StepSeq EntrySeq CornersSeq RunElfSeq
begin

text \<open>
  The steps of the sequences on single steps, triggers, entry into Debug Mode and the corners of the module end, on
  any transport whose clock passes.
\<close>

lemma ends_attempt [ends_intros]: "ends anything anything m \<Longrightarrow> ends anything anything (attempt m)"
  unfolding attempt_def by (intro ends_intros TrueI)

lemma ends_attempt_debug [ends_intros]: "ends anything anything m \<Longrightarrow> ends anything anything (attempt_debug m)"
  unfolding attempt_debug_def by (intro ends_intros TrueI)

lemma ends_caught [ends_intros]: "ends anything anything m \<Longrightarrow> ends anything anything (caught m)"
  unfolding caught_def by (intro ends_intros TrueI)

lemma ends_saved_item [ends_intros]: "ends anything anything (saved_item saved k)"
  unfolding saved_item_def by (intro ends_intros TrueI)

lemma ends_liftE [ends_intros]: "ends anything anything (liftE r)"
  unfolding liftE_def by (intro ends_intros TrueI)

lemma ends_safe [ends_intros]: "ends anything anything m \<Longrightarrow> ends anything no_interrupt (safe m)"
  unfolding safe_def by (intro ends_intros; simp)

lemma ends_safe_any [ends_intros]: "ends anything anything m \<Longrightarrow> ends anything anything (safe m)"
  unfolding safe_def by (intro ends_intros TrueI)

lemma ends_save_symbol [ends_intros]: "ends anything anything (save_symbol nm elf s addrs)"
  unfolding save_symbol_def by (intro ends_intros TrueI)

text \<open>A step that sets the shared variable together with its result.\<close>

lemma ends_give [ends_intros]: "ends E (\<lambda>r. no_interrupt (fst r)) (bindD (step_result tc b) (\<lambda>r. returnD (r, x)))"
  by (intro ends_keep ends_step_result) simp

context timed_transport
begin

lemma sw_breakpoint_end: "list_all step_ends (sw_breakpoint_steps T)"
  unfolding sw_breakpoint_steps_def halt_and_record_cause_def tc_pb_ebreak_on_halted_def Let_def
  by (simp only: list.pred_inject, intro conjI step_ends_intros ends_intros TrueI; simp)

lemma external_trigger_end: "list_all step_ends (external_trigger_steps T)"
  unfolding external_trigger_steps_def tc_hg_001_def tc_hg_001_sweep_def
  by (simp only: list.pred_inject, intro conjI step_ends_intros ends_intros TrueI; simp)

lemma program_buffer_end: "list_all step_ends (program_buffer_steps T b)"
  unfolding program_buffer_steps_def tc_ac_013_def tc_pb_001_def tc_pb_002_def tc_pb_003_def
  by (simp only: list.pred_inject, intro conjI reader_step_ends step_ends_intros ends_intros TrueI; simp)

lemma ends_sees_halted [ends_intros]: "ends anything anything (sees_halted T)"
  unfolding sees_halted_def by (intro ends_intros TrueI)

lemma ends_wait_halts [ends_intros]:
  "ends anything anything (ss_wait_halted T t)" "ends anything anything (sc_wait_halted T t)"
  "ends anything anything (pi_wait_halted T t)" "ends anything anything (st_wait_halted T t)"
  unfolding ss_wait_halted_def sc_wait_halted_def pi_wait_halted_def st_wait_halted_def
  by (intro ends_intros TrueI)+

lemma single_step_end: "list_all step_ends (single_step_steps T)"
  unfolding single_step_steps_def ss_confirm_halted_def save_pc_def save_cause_def judge_cause_def read_pc_at_end_def
  by (simp only: list.pred_inject, intro conjI phased_step_ends reader_step_ends step_ends_intros ends_intros TrueI;
    auto intro!: ends_intros)

lemma ends_walk_steps [ends_intros]: "ends anything anything (walk_steps T n fine)"
  by (induction n arbitrary: fine) (simp_all only: walk_steps.simps, (intro ends_intros TrueI; simp)+)

lemma step_classes_end: "list_all step_ends (step_classes_steps T count)"
  unfolding step_classes_steps_def sc_confirm_halted_def sc_cause_after_halt_def sc_walk_def sc_final_state_def
  by (simp only: list.pred_inject, intro conjI step_ends_intros ends_intros TrueI; simp)

lemma ends_try_default [ends_intros]: "ends anything anything m \<Longrightarrow> ends anything anything (try_default T x m)"
  unfolding try_default_def by (intro ends_intros TrueI)

lemma ends_width [ends_intros]: "ends anything anything (width_rd T b r)" "ends anything anything (width_wr T b r v)"
  unfolding width_rd_def width_wr_def by (cases b; simp; intro ends_intros)+

lemma ends_triggers [ends_intros]: "ends anything anything (read_optional T r)" "ends anything anything (arm_and_disarm T b)"
  unfolding read_optional_def arm_and_disarm_def by (intro ends_intros TrueI)+

lemma trigger_end: "list_all step_ends (trigger_steps T)"
  unfolding trigger_steps_def TR_TYPES_def probe_xlen_def tc_trig_001_def tc_trig_002_def tc_trig_004_def make_type_step_def
    tc_trig_006_def Let_def
  by (simp only: list.pred_inject append.simps list.map prod.case,
    intro conjI reader_step_ends step_ends_intros ends_intros TrueI; simp)

subsection \<open>Entry into Debug Mode\<close>

lemma ends_when_halted [ends_intros]: "ends anything no_interrupt m \<Longrightarrow> ends anything no_interrupt (when_halted T m)"
  unfolding when_halted_def by (intro ends_intros; simp)

lemma ends_entry_helpers [ends_intros]:
  "ends anything anything (just_modify_dcsr T s c p)" "ends anything anything (recover_unless T b)"
  "ends anything anything (arm_trigger T a)"
  unfolding just_modify_dcsr_def recover_unless_def arm_trigger_def by (intro ends_intros TrueI)+

lemma ends_enter_via_ebreak [ends_intros]: "ends anything anything (enter_via_ebreak T addrs p b)"
  unfolding enter_via_ebreak_def by (intro ends_intros TrueI)

lemma debug_entry_end: "list_all step_ends (debug_entry_steps T nm elf)"
  unfolding debug_entry_steps_def tc_dcsr_012_def ebreak_entry_def haltreq_entry_def step_entry_def tc_dcsr_011_def de_restore_def Let_def
  by (simp only: list.pred_inject, intro conjI phased_step_ends reader_step_ends step_ends_intros ends_intros TrueI;
    auto intro!: ends_intros)

lemma ends_irq_walk [ends_intros]: "ends anything anything (irq_walk T n i f p)"
proof (induction n arbitrary: i f p)
  case (Suc n)
  then show ?case unfolding irq_walk.simps Let_def by (intro ends_intros TrueI)
qed (simp add: ends_return)

lemma ends_tick_walk:
  assumes "\<And>bs. ends anything anything (tms bs)"
  shows "ends anything anything (tick_walk tms n)"
proof (induction n rule: less_induct)
  case (less n)
  then show ?case
    by (subst tick_walk.simps) (intro ends_intros TrueI assms, rule less, simp)
qed

lemma ends_catch_loop:
  assumes "\<And>bs. ends anything anything (tms bs)"
  shows "ends anything anything (catch_loop T tms is p)"
proof (induction "is" arbitrary: p)
  case (Cons i "is")
  then show ?case unfolding catch_loop.simps by (intro ends_intros TrueI ends_tick_walk assms)
qed (simp add: ends_return)

lemma priv_irq_end:
  assumes "\<And>bs. ends anything anything (tms bs)"
  shows "list_all step_ends (priv_irq_steps T tms count)"
  unfolding priv_irq_steps_def pi_confirm_def set_stepie_def pi_walk_def catch_privileges_def pi_summary_def Let_def
  by (simp only: list.pred_inject, intro conjI reader_step_ends step_ends_intros ends_intros ends_catch_loop assms TrueI; simp)

lemma ends_advance_loop [ends_intros]: "ends anything no_interrupt (advance_loop T a n)"
proof (induction n)
  case (Suc n)
  then show ?case unfolding advance_loop.simps by (intro ends_intros TrueI; simp)
qed (simp only: advance_loop.simps, intro ends_intros; simp)

lemma step_stall_end: "list_all step_ends (step_stall_steps T nm elf symbol)"
  unfolding step_stall_steps_def resolve_symbol_def st_confirm_halted_def advance_to_wfi_def step_over_wfi_def
  by (simp only: list.pred_inject, intro conjI phased_step_ends reader_step_ends step_ends_intros ends_intros TrueI;
    auto intro!: ends_intros)

lemma ends_matrix_parts [ends_intros]:
  "ends anything anything (in_handler addrs pc)" "ends anything anything (xret_target T addrs p pc)"
  "ends anything anything (matrix_prepare T a p b c)"
  unfolding in_handler_def xret_target_def matrix_prepare_def by (intro ends_intros TrueI)+

lemma ends_matrix_observations [ends_intros]:
  "ends anything anything (observe_step T addrs p pc)" "ends anything anything (trap_deviation T addrs pc dpc)"
  unfolding observe_step_def trap_deviation_def Let_def by (intro ends_intros TrueI)+

lemma ends_matrix_loop [ends_intros]: "ends anything anything (matrix_loop T p n pc x)"
proof (induction n arbitrary: pc x)
  case (Suc n)
  then show ?case unfolding matrix_loop.simps by (intro ends_intros TrueI)
qed (simp add: ends_return)

lemma ends_matrix_run [ends_intros]: "ends anything anything (matrix_run T s off p n b c x)"
  unfolding matrix_run_def by (intro ends_intros TrueI)

lemma matrix_step_ends: "(\<And>x. ends anything anything (m x)) \<Longrightarrow> step_ends (matrix_step name m)"
  unfolding matrix_step_def by (intro step_ends_intros ends_intros; simp)

lemma step_matrix_end: "list_all step_ends (step_matrix_steps T nm elf)"
  unfolding step_matrix_steps_def mx_symbol_def mx_setup_def m_combo_def spec_check_def mx_restore_def
  by (simp only: list.pred_inject, intro conjI matrix_step_ends phased_step_ends reader_step_ends step_ends_intros ends_intros TrueI;
    auto intro!: ends_intros)

subsection \<open>Corners and transport errors\<close>

lemma ends_corner_helpers [ends_intros]:
  "ends anything anything (dc_sba_read64 T a)" "ends anything anything (dc_abstract T c)" "ends anything anything (fill_progbuf T v)"
  "ends anything anything (read_data64 T)" "ends anything anything (dmi_usable T)"
  unfolding dc_sba_read64_def dc_abstract_def fill_progbuf_def read_data64_def dmi_usable_def by (intro ends_intros TrueI)+

lemma ends_corner_parts [ends_intros]:
  "ends anything anything (sba_pattern T a p)" "ends anything anything (progbuf_pattern T b p)"
  "ends anything anything (gpr_pattern T p)" "ends anything anything (walk_one T n r)"
  unfolding sba_pattern_def progbuf_pattern_def gpr_pattern_def walk_one_def Let_def by (intro ends_intros TrueI)+

lemma dm_corners_end: "list_all step_ends (dm_corners_steps T a b)"
  unfolding dm_corners_steps_def tc_dmc_001_def tc_dmc_002_def tc_dmc_003_def tc_dmc_004_def tc_dmc_005_def tc_dmc_006_def
    tc_dmc_007_def tc_dmc_008_def tc_dmc_009_def tc_dmc_010_def Let_def
  by (simp only: list.pred_inject, intro conjI step_ends_intros ends_intros TrueI; simp)

lemma ends_dmi_reset [ends_intros]: "ends anything anything (dmi_reset T)"
  by (auto simp: ends_def dmi_reset_def outcome_def split: prod.split sum.split)

end

text \<open>The access to the JTAG registers ends: each method the transport has does.\<close>

definition jtag_ends :: "'s jtag_access \<Rightarrow> bool" where
  "jtag_ends J \<longleftrightarrow>
     (\<forall>f. j_dtmcs J = Some f \<longrightarrow> (\<forall>a. ends anything anything (f a))) \<and>
     (\<forall>f. j_dmi_scan J = Some f \<longrightarrow> (\<forall>a b c. ends anything anything (f a b c))) \<and>
     (\<forall>f. j_jtag_scan J = Some f \<longrightarrow> (\<forall>a b c p. ends anything anything (f a b c p))) \<and>
     (\<forall>f. j_tms_walk J = Some f \<longrightarrow> (\<forall>bs. ends anything anything (f bs)))"

lemma jtag_endsD:
  assumes "jtag_ends J"
  shows "j_dtmcs J = Some f \<Longrightarrow> ends anything anything (f a)"
    "j_dmi_scan J = Some g \<Longrightarrow> ends anything anything (g a b c)"
    "j_jtag_scan J = Some h \<Longrightarrow> ends anything anything (h a b c p)"
    "j_tms_walk J = Some w \<Longrightarrow> ends anything anything (w bs)"
  using assms unfolding jtag_ends_def by auto

context timed_transport
begin

lemma dmi_error_end:
  assumes "jtag_ends J"
  shows "list_all step_ends (dmi_error_steps T J idcode)"
  using jtag_endsD [OF assms]
  unfolding dmi_error_steps_def tc_dtm_010_def tc_dtm_011_def tc_dtm_012_def tc_dtm_002_def tc_dtm_017_def tc_dtm_019_def tc_dtm_018_def
    tc_dtm_013_def tc_dtm_015_def tc_dtm_014_def with_method_def Let_def
  by (simp only: list.pred_inject, intro conjI step_ends_intros ends_intros TrueI; simp)

subsection \<open>A self-checking program\<close>

lemma ends_sim_time [ends_intros]: "ends anything anything call \<Longrightarrow> ends anything anything (sim_time call clk)"
  unfolding sim_time_def by (intro ends_intros)

lemma sim_time_reading:
  assumes "ends anything anything call" "sim_time call clk d = Some (Inr t, d')"
  shows "\<exists>k \<ge> clock_reads d. t = clk k \<and> clock_reads d' = Suc k"
  using assms(1)
proof (cases rule: endsE [where d = d])
  case (raises e d1)
  with assms(2) show ?thesis by (simp add: sim_time_def seqD_def bindD_def)
next
  case (returns x d1)
  with assms(2) have "t = clk (clock_reads d1)" "clock_reads d' = Suc (clock_reads d1)"
    by (auto simp: sim_time_def seqD_def bindD_def read_clock_def)
  with returns(2) show ?thesis by blast
qed

lemma ends_verdict_loop:
  assumes "passes clk" "ends anything anything call"
  shows "ends anything anything (verdict_loop T call clk a start budget)"
proof (rule endsI)
  fix d
  let ?L = "verdict_loop T call clk a start budget"
  obtain n where n: "\<And>k. n \<le> k \<Longrightarrow> start + budget < clk k" using assms(1) unfolding passes_def by metis
  show "outcome anything anything d (?L d)"
  proof (induction "n - clock_reads d" arbitrary: d rule: less_induct)
    case less
    have "ends anything anything (read_mem32 T a)" by (intro ends_intros)
    then show ?case
    proof (cases rule: endsE [where d = d])
      case (raises e d1)
      then show ?thesis by (subst verdict_loop.simps) simp
    next
      case (returns v d1)
      show ?thesis
      proof (rule endsE [OF ends_sim_time [OF assms(2)], where d = d1 and clk1 = clk])
        fix e d2 assume "sim_time call clk d1 = Some (Inl e, d2)" "clock_reads d1 \<le> clock_reads d2"
        with returns show ?thesis by (subst verdict_loop.simps) simp
      next
        fix t d2 assume t: "sim_time call clk d1 = Some (Inr t, d2)" "clock_reads d1 \<le> clock_reads d2"
        obtain k where k: "clock_reads d1 \<le> k" "t = clk k" "clock_reads d2 = Suc k" using sim_time_reading [OF assms(2) t(1)] by blast
        have "outcome anything anything d (?L d2)" if "t - start \<le> budget"
        proof -
          have "k < n" using that n [of k] k(2) by (cases "k < n") auto
          then have "outcome anything anything d2 (?L d2)" using k returns(2) by (intro less) simp
          with t(2) returns(2) show ?thesis by (simp add: outcome_later)
        qed
        with t returns show ?thesis by (subst verdict_loop.simps) (simp add: not_less)
      qed
    qed
  qed
qed

lemma ends_read64 [ends_intros]: "ends anything anything (read64 T a)"
  unfolding read64_def by (intro ends_intros TrueI)

lemma ends_read_str [ends_intros]: "ends anything anything (read_str T a)"
proof -
  have "ends anything anything (read_str_loop T a n bs)" for n bs
  proof (induction n arbitrary: bs)
    case (Suc n)
    then show ?case unfolding read_str_loop.simps by (intro ends_intros TrueI)
  qed (simp add: ends_return)
  then show ?thesis by (simp add: read_str_def)
qed

lemma ends_locate_check [ends_intros]: "ends anything anything (locate_check T lo hi rs)"
  by (induction rs) (simp_all only: locate_check.simps, (intro ends_intros TrueI)+)

lemma ends_failure_record [ends_intros]: "ends anything anything (failure_record_of T nm elf)"
proof -
  have "ends anything anything (act_failure_record T nm elf)"
    unfolding act_failure_record_def
    by (auto split: sum.split dbg_error.split py_error.split intro!: ends_intros)
  then show ?thesis
    unfolding failure_record_of_def
    by (auto split: sum.split dbg_error.split py_error.split intro!: ends_intros)
qed

lemma run_elf_end:
  assumes "passes clk" "ends anything anything call"
  shows "list_all step_ends (run_elf_steps T call clk nm elf budget)"
proof -
  have "ends anything (\<lambda>r. no_interrupt (fst r)) (elf_setup nm elf info :: ('s, unit step_return \<times> saved) dbg)" for info
    unfolding elf_setup_def by (intro ends_intros)
  moreover have "ends anything (\<lambda>r. no_interrupt (fst r)) (wait_verdict T call clk budget info)" for info
    unfolding wait_verdict_def by (intro ends_intros ends_verdict_loop assms)
  moreover have "ends anything no_interrupt (elf_report T info)" "ends anything no_interrupt (explain_failure T nm elf info)" for info
    unfolding elf_report_def explain_failure_def by (auto intro!: ends_intros)
  ultimately show ?thesis
    unfolding run_elf_steps_def
    by (simp only: list.pred_inject, intro conjI reader_step_ends dbg_step_ends step_ends_intros TrueI) (auto intro!: ends_intros)
qed

end

end
