(* ===== verification/LivenessProps.thy ===== *)
theory LivenessProps
  imports StepsEnd MockTransport
begin

text \<open>
  Every modelled test sequence comes to a verdict, on any transport whose clock passes: the mock is one.
\<close>

definition ends_in_batch :: "('s, 'x) seq_session result \<Rightarrow> bool" where
  "ends_in_batch r \<longleftrightarrow>
     (\<exists>s. r = Inr s \<and> (\<forall>w. \<exists>vs. session_verdicts s w = Some vs \<and> complete_verdicts s vs))"

text \<open>For a builder that also gives the value its shared variable starts with.\<close>

definition ends_with_state :: "(('s, 'x) seq_session \<times> 'x) result \<Rightarrow> bool" where
  "ends_with_state r \<longleftrightarrow> ends_in_batch (bindR r (\<lambda>p. Inr (fst p)))"

lemma ends_in_batchI: "list_all step_ends xs \<Longrightarrow> ends_in_batch (session_of ''batch'' stop xs)"
  using batch_session_ends [of stop xs] unfolding ends_in_batch_def session_of_batch by auto

lemma ends_with_stateI: "list_all step_ends xs \<Longrightarrow> ends_with_state (bindR (session_of ''batch'' stop xs) (\<lambda>s. Inr (s, x)))"
  using ends_in_batchI [of xs stop] by (simp add: ends_with_state_def session_of_batch bindR_def)

lemma reset_values_built:
  "load_dut_config files dir name = Inr c \<Longrightarrow>
   build_reset_values_sequence files dir T dtmcs ''batch'' name = session_of ''batch'' False (reset_values_steps T dtmcs (raw c))"
  by (simp add: build_reset_values_sequence_def session_of_batch bindR_def)

lemmas build_defs =
  build_run_control_sequence_def build_reset_ctrl_sequence_def build_halt_on_reset_sequence_def build_dm_activation_sequence_def
  build_hart_selection_sequence_def build_halt_sequence_def build_gpr_write_sequence_def build_read_dmstatus_sequence_def
  build_report_halt_status_sequence_def build_mem_scan_sequence_def build_discovery_sequence_def build_csr_access_sequence_def
  build_sba_sequence_def build_cmderr_sequence_def build_cmd_busy_sequence_def build_cmd_outcome_sequence_def
  build_hart_array_sequence_def build_sw_breakpoint_progbuf_sequence_def build_external_trigger_sequence_def
  build_program_buffer_sequence_def build_single_step_sequence_def build_step_classes_sequence_def build_trigger_sequence_def
  build_debug_entry_sequence_def build_priv_irq_sequence_def build_step_stall_sequence_def build_step_matrix_sequence_def
  build_dm_corners_sequence_def build_dmi_error_sequence_def build_run_elf_sequence_def

interpretation mock_timed: timed_transport "mock_transport (\<lambda>k. int k)"
  by unfold_locales (simp add: mock_transport_def passes_int)

text \<open>
  C5. Every session of the modelled test sequences comes to its verdicts: run in batch mode from any state of the
  library and the shared variables, over any transport on whose clock every deadline passes (and for the program
  that checks itself, on the simulated clock too) and whatever the device answers or raises, each of them ends with a verdict for every step, or (for the two that stop on an error) up to the
  first step that fails. No wait, poll or walk of any step runs for ever.
\<close>

theorem every_session_ends:
  assumes "passes (t_monotonic T)" "jtag_ends J" "\<And>bs. ends anything anything (tms bs)"
    and "\<And>m. dtmcs = Some m \<Longrightarrow> ends anything anything m" "load_dut_config files dir name = Inr c"
    and "passes sim" "ends anything anything call"
  shows "ends_in_batch (build_run_control_sequence T pred clk ''batch'' h) \<and>
    ends_in_batch (build_reset_ctrl_sequence T pred ''batch'' h) \<and>
    ends_with_state (build_halt_on_reset_sequence T pred ''batch'' n) \<and>
    ends_in_batch (build_dm_activation_sequence T ''batch'') \<and>
    ends_in_batch (build_hart_selection_sequence T pred ''batch'') \<and>
    ends_in_batch (build_halt_sequence T ''batch'' addr b) \<and>
    ends_in_batch (build_gpr_write_sequence T ''batch'' regno pattern) \<and>
    ends_in_batch (build_read_dmstatus_sequence T ''batch'') \<and>
    ends_in_batch (build_report_halt_status_sequence T ''batch'' hart) \<and>
    ends_in_batch (build_mem_scan_sequence T addr count exps ''batch'') \<and>
    ends_in_batch (build_discovery_sequence T ''batch'') \<and>
    ends_in_batch (build_csr_access_sequence T ''batch'' p0 p1) \<and>
    ends_in_batch (build_reset_values_sequence files dir T dtmcs ''batch'' name) \<and>
    ends_in_batch (build_sba_sequence T ''batch'' addr pattern) \<and>
    ends_in_batch (build_cmderr_sequence T ''batch'') \<and>
    ends_in_batch (build_cmd_busy_sequence T ''batch'') \<and>
    ends_in_batch (build_cmd_outcome_sequence T ''batch'') \<and>
    ends_with_state (build_hart_array_sequence T ''batch'' n) \<and>
    ends_in_batch (build_sw_breakpoint_progbuf_sequence T ''batch'') \<and>
    ends_in_batch (build_external_trigger_sequence T ''batch'') \<and>
    ends_with_state (build_program_buffer_sequence T ''batch'' b) \<and>
    ends_with_state (build_single_step_sequence T ''batch'') \<and>
    ends_in_batch (build_step_classes_sequence T ''batch'' i) \<and>
    ends_with_state (build_trigger_sequence T ''batch'') \<and>
    ends_with_state (build_debug_entry_sequence T nm ''batch'' elf) \<and>
    ends_with_state (build_priv_irq_sequence T tms ''batch'' i) \<and>
    ends_with_state (build_step_stall_sequence T nm ''batch'' elf symbol) \<and>
    ends_with_state (build_step_matrix_sequence T nm ''batch'' elf) \<and>
    ends_in_batch (build_dm_corners_sequence T ''batch'' addr base) \<and>
    ends_in_batch (build_dmi_error_sequence T J ''batch'' idcode) \<and>
    ends_with_state (build_run_elf_sequence T call sim nm ''batch'' elf budget)"
proof -
  have T: "timed_transport T" using assms(1) by unfold_locales
  note ends = timed_transport.run_control_end [OF T] timed_transport.reset_ctrl_end [OF T] timed_transport.halt_on_reset_end [OF T]
    timed_transport.dm_activation_end [OF T] timed_transport.hart_selection_end [OF T] timed_transport.access_steps_end [OF T]
    timed_transport.mem_scan_end [OF T] timed_transport.reset_values_end [OF T assms(4)] timed_transport.sba_end [OF T]
    timed_transport.cmderr_end [OF T] timed_transport.cmd_busy_end [OF T] timed_transport.cmd_outcome_end [OF T]
    timed_transport.hart_array_end [OF T] timed_transport.sw_breakpoint_end [OF T] timed_transport.external_trigger_end [OF T]
    timed_transport.program_buffer_end [OF T] timed_transport.single_step_end [OF T] timed_transport.step_classes_end [OF T]
    timed_transport.trigger_end [OF T] timed_transport.debug_entry_end [OF T] timed_transport.priv_irq_end [OF T assms(3)]
    timed_transport.step_stall_end [OF T] timed_transport.step_matrix_end [OF T] timed_transport.dm_corners_end [OF T]
    timed_transport.dmi_error_end [OF T assms(2)] timed_transport.run_elf_end [OF T assms(6,7)]
  show ?thesis
    unfolding build_defs reset_values_built [OF assms(5)]
    by (intro conjI ends_in_batchI ends_with_stateI ends)
qed

definition no_jtag :: "'s jtag_access" where
  "no_jtag = \<lparr>j_dtmcs = None, j_dmi_scan = None, j_jtag_scan = None, j_tms_walk = None\<rparr>"

theorem every_session_ends_witness:
  "ends_with_state (build_trigger_sequence (mock_transport (\<lambda>k. int k)) ''batch'') \<and>
   ends_in_batch (build_dmi_error_sequence (mock_transport (\<lambda>k. int k)) no_jtag ''batch'' 1)"
proof -
  have p: "passes (t_monotonic (mock_transport (\<lambda>k. int k)))" by (rule mock_timed.passing)
  have j: "jtag_ends no_jtag" by (simp add: jtag_ends_def no_jtag_def)
  have t: "ends anything anything (raiseD NoDebugModule)" by (simp add: ends_raise)
  show ?thesis
    using every_session_ends [where tms = "\<lambda>_. raiseD NoDebugModule" and dtmcs = None and idcode = 1 and call = "raiseD NoDebugModule",
        OF p j t _ ibex_loads(1) passes_int t]
    by simp
qed

end
