(* ===== verification/TextSearch.thy ===== *)
theory TextSearch
  imports CrosscheckProps
begin

text \<open>
  What several scripts use of Python's strings and regular expressions: a prefix, a substring, a run of digits, \<^verbatim>\<open>int(s)\<close>; and of
  its dictionaries \<^verbatim>\<open>setdefault\<close>.
\<close>

text \<open>What follows a given text at the start of another, and whether a text occurs.\<close>

definition after :: "string \<Rightarrow> string \<Rightarrow> string option" where
  "after pat s = (if take (length pat) s = pat then Some (drop (length pat) s) else None)"

fun occurs :: "string \<Rightarrow> string \<Rightarrow> bool" where
  "occurs pat [] = (pat = [])"
| "occurs pat (c # cs) = (after pat (c # cs) \<noteq> None \<or> occurs pat cs)"

text \<open>A nonempty run of digits at the start, with what follows it.\<close>

definition number_at :: "string \<Rightarrow> (string \<times> string) option" where
  "number_at s = (let ds = takeWhile is_digit s in if ds = [] then None else Some (ds, dropWhile is_digit s))"

text \<open>\<^verbatim>\<open>int(s)\<close>, with no bound on the number of digits.\<close>

definition py_int10 :: "string \<Rightarrow> int result" where
  "py_int10 = py_int_by (\<lambda>u. digits_val 10 True u 0)"

text \<open>\<^verbatim>\<open>d.setdefault(k, v)\<close> on a dictionary in its order.\<close>

definition setdefault :: "(string \<times> 'v) \<Rightarrow> (string \<times> 'v) list \<Rightarrow> (string \<times> 'v) list" where
  "setdefault kv d = (if fst kv \<in> fst ` set d then d else d @ [kv])"

lemma after_append [simp]: "after pat (pat @ s) = Some s"
  by (simp add: after_def)

lemma occurs_append: "occurs pat s \<Longrightarrow> occurs pat (xs @ s)"
  by (induction xs) simp_all

lemma occurs_here: "occurs pat (pat @ s)"
proof (cases "pat @ s")
  case (Cons c cs)
  then show ?thesis using after_append [of pat s] by simp
qed simp

lemma number_at_str:
  assumes "rest = [] \<or> \<not> is_digit (hd rest)"
  shows "number_at (str_nat n @ rest) = Some (str_nat n, rest)"
  using str_nat_digits [of n] digits_prefix [OF str_nat_digits(1) assms] by (simp add: number_at_def)

lemma dropWhile_space_digits: "dropWhile is_space (str_nat n @ s) = str_nat n @ s"
proof (cases "str_nat n")
  case (Cons c cs)
  then have "is_digit c" using str_nat_digits(1) [of n] by simp
  then have "\<not> is_space c" by (auto simp: is_digit_def is_space_def Let_def)
  with Cons show ?thesis by simp
qed (simp add: str_nat_digits(3))

end
