(* ===== verification/Shell.thy ===== *)
theory Shell
  imports Liveness TextSearch
begin

text \<open>
  \<^verbatim>\<open>src/src/pydebug/api/interactive_shell.py\<close>: the shell that runs one command of the library per typed line, with
  what it uses of Python's \<^verbatim>\<open>cmd\<close> and \<^verbatim>\<open>shlex\<close>. The lines typed are a list, after which the input has ended. A
  command gives the outcome of a method and the lines printed, also those printed before an error.
\<close>

unbundle bit_operations_syntax

subsection \<open>Numbers and register names\<close>

definition shell_parse_int :: "string \<Rightarrow> int result" where
  "shell_parse_int s0 =
     (let s = strip s0
      in if take 2 (map lower_char s) = ''0x'' then py_int_by unsigned_int16 s else py_int10 s)"

definition ABI_NAMES :: "(string \<times> int) list" where
  "ABI_NAMES =
     [(''zero'', 0), (''ra'', 1), (''sp'', 2), (''gp'', 3), (''tp'', 4),
      (''t0'', 5), (''t1'', 6), (''t2'', 7),
      (''s0'', 8), (''fp'', 8), (''s1'', 9),
      (''a0'', 10), (''a1'', 11), (''a2'', 12), (''a3'', 13), (''a4'', 14), (''a5'', 15), (''a6'', 16), (''a7'', 17),
      (''s2'', 18), (''s3'', 19), (''s4'', 20), (''s5'', 21), (''s6'', 22), (''s7'', 23),
      (''s8'', 24), (''s9'', 25), (''s10'', 26), (''s11'', 27),
      (''t3'', 28), (''t4'', 29), (''t5'', 30), (''t6'', 31)]"

text \<open>\<^verbatim>\<open>str.isdigit\<close> on the characters with code points below 256: the superscripts are digits too.\<close>

definition is_digit_text :: "string \<Rightarrow> bool" where
  "is_digit_text s \<longleftrightarrow> s \<noteq> [] \<and> list_all (\<lambda>c. is_digit c \<or> (of_char c :: nat) \<in> {0xB2, 0xB3, 0xB9}) s"

definition parse_gpr :: "string \<Rightarrow> int result" where
  "parse_gpr s0 =
     (let s = map lower_char (strip s0)
      in if take 1 s = ''x'' \<and> is_digit_text (drop 1 s) then bindR (py_int10 (drop 1 s)) (\<lambda>n. Inr (0x1000 OR n))
         else case map_of ABI_NAMES s of
           Some n \<Rightarrow> Inr (0x1000 OR n)
         | None \<Rightarrow> shell_parse_int s)"

subsection \<open>\<^verbatim>\<open>shlex.split\<close>\<close>

text \<open>
  The tokenizer: between words, in a word, in quotes, after a backslash in a word or in double quotes.
  A word ends at a blank; it counts when it has characters or was quoted.
\<close>

datatype shlex_state = Between | In_word | In_quotes char | Escape | Quoted_escape char

definition shlex_white :: "char \<Rightarrow> bool" where
  "shlex_white c \<longleftrightarrow> (of_char c :: nat) \<in> {32, 9, 13, 10}"

definition shlex_quote :: "char \<Rightarrow> bool" where
  "shlex_quote c \<longleftrightarrow> (of_char c :: nat) \<in> {39, 34}"

definition shlex_escape :: "char \<Rightarrow> bool" where
  "shlex_escape c \<longleftrightarrow> (of_char c :: nat) = 92"

fun shlex_tokens :: "shlex_state \<Rightarrow> string \<Rightarrow> bool \<Rightarrow> string \<Rightarrow> string list result" where
  "shlex_tokens Between tok qd [] = Inr []"
| "shlex_tokens Between tok qd (c # cs) =
     (if shlex_white c then shlex_tokens Between [] False cs
      else if shlex_escape c then shlex_tokens Escape [] False cs
      else if shlex_quote c then shlex_tokens (In_quotes c) [] True cs
      else shlex_tokens In_word [c] False cs)"
| "shlex_tokens In_word tok qd [] = Inr (if tok \<noteq> [] \<or> qd then [tok] else [])"
| "shlex_tokens In_word tok qd (c # cs) =
     (if shlex_white c then
        bindR (shlex_tokens Between [] False cs) (\<lambda>ts. Inr (if tok \<noteq> [] \<or> qd then tok # ts else ts))
      else if shlex_quote c then shlex_tokens (In_quotes c) tok True cs
      else if shlex_escape c then shlex_tokens Escape tok qd cs
      else shlex_tokens In_word (tok @ [c]) qd cs)"
| "shlex_tokens (In_quotes q) tok qd [] = Inl (ValueError ''No closing quotation'')"
| "shlex_tokens (In_quotes q) tok qd (c # cs) =
     (if c = q then shlex_tokens In_word tok qd cs
      else if shlex_escape c \<and> (of_char q :: nat) = 34 then shlex_tokens (Quoted_escape q) tok qd cs
      else shlex_tokens (In_quotes q) (tok @ [c]) qd cs)"
| "shlex_tokens Escape tok qd [] = Inl (ValueError ''No escaped character'')"
| "shlex_tokens Escape tok qd (c # cs) = shlex_tokens In_word (tok @ [c]) qd cs"
| "shlex_tokens (Quoted_escape q) tok qd [] = Inl (ValueError ''No escaped character'')"
| "shlex_tokens (Quoted_escape q) tok qd (c # cs) =
     shlex_tokens (In_quotes q) (tok @ (if shlex_escape c \<or> c = q then [] else [char_of (92 :: nat)]) @ [c]) qd cs"

definition shlex_split :: "string \<Rightarrow> string list result" where
  "shlex_split s = shlex_tokens Between [] False s"

subsection \<open>Commands that print\<close>

datatype shell_line =
    Text string
  | Error_line dbg_error
  | Bad_argument py_error
  | Help_topics "string list"

type_synonym ('s, 'a) shell = "'s RISCVDebug \<Rightarrow> (((dbg_error + 'a) \<times> 's RISCVDebug) \<times> shell_line list) option"

definition returnS :: "'a \<Rightarrow> ('s, 'a) shell" where
  "returnS x = (\<lambda>d. Some ((Inr x, d), []))"

definition bindS :: "('s, 'a) shell \<Rightarrow> ('a \<Rightarrow> ('s, 'b) shell) \<Rightarrow> ('s, 'b) shell" where
  "bindS m f = (\<lambda>d. case m d of
      None \<Rightarrow> None
    | Some ((Inl e, d1), ls) \<Rightarrow> Some ((Inl e, d1), ls)
    | Some ((Inr x, d1), ls) \<Rightarrow> (case f x d1 of None \<Rightarrow> None | Some (r, ls') \<Rightarrow> Some (r, ls @ ls')))"

definition printS :: "shell_line \<Rightarrow> ('s, unit) shell" where
  "printS l = (\<lambda>d. Some ((Inr (), d), [l]))"

text \<open>A method of the library, and an expression that may raise.\<close>

definition callS :: "('s, 'a) dbg \<Rightarrow> ('s, 'a) shell" where
  "callS m = (\<lambda>d. map_option (\<lambda>r. (r, [])) (m d))"

definition evalS :: "'a result \<Rightarrow> ('s, 'a) shell" where
  "evalS r = (\<lambda>d. Some ((case r of Inl e \<Rightarrow> Inl (Raised e) | Inr x \<Rightarrow> Inr x, d), []))"

abbreviation say :: "string \<Rightarrow> ('s, bool) shell" where
  "say s \<equiv> bindS (printS (Text s)) (\<lambda>_. returnS False)"

text \<open>\<^verbatim>\<open>0x{n:08x}\<close> and \<^verbatim>\<open>0x{n:02x}\<close>.\<close>

definition hex08 :: "int \<Rightarrow> string" where
  "hex08 n = ''0x'' @ hex_pad 8 n"

definition hex02 :: "int \<Rightarrow> string" where
  "hex02 n = ''0x'' @ hex_pad 2 n"

subsection \<open>The commands\<close>

definition do_activate :: "'s transport \<Rightarrow> string \<Rightarrow> ('s, bool) shell" where
  "do_activate T a = bindS (callS (activate T)) (\<lambda>_. say ''DM activated'')"

definition do_deactivate :: "'s transport \<Rightarrow> string \<Rightarrow> ('s, bool) shell" where
  "do_deactivate T a = bindS (callS (deactivate T)) (\<lambda>_. say ''DM deactivated'')"

definition do_halt :: "'s transport \<Rightarrow> string \<Rightarrow> ('s, bool) shell" where
  "do_halt T a =
     bindS (callS (halt T DEFAULT_TIMEOUT)) (\<lambda>_.
     bindS (callS (get_pc T)) (\<lambda>pc. say (''halted, PC = '' @ hex08 pc)))"

definition do_resume :: "'s transport \<Rightarrow> string \<Rightarrow> ('s, bool) shell" where
  "do_resume T a = bindS (callS (resume T DEFAULT_TIMEOUT)) (\<lambda>_. say ''running'')"

definition do_step :: "'s transport \<Rightarrow> string \<Rightarrow> ('s, bool) shell" where
  "do_step T a =
     bindS (callS (set_step T True)) (\<lambda>_.
     bindS (callS (resume_no_wait T)) (\<lambda>_.
     bindS (callS (poll_until T (\<lambda>s. Inr (allhalted s)) 0x11 ''allhalted (post-step)'' 2000000)) (\<lambda>_.
     bindS (callS (set_step T False)) (\<lambda>_.
     bindS (callS (get_dcsr_cause T)) (\<lambda>cause.
     bindS (callS (get_pc T)) (\<lambda>pc. say (''stepped, PC = '' @ hex08 pc @ ''  dcsr.cause='' @ str_int cause)))))))"

definition do_select_hart :: "'s transport \<Rightarrow> string \<Rightarrow> ('s, bool) shell" where
  "do_select_hart T a =
     bindS (evalS (shell_parse_int a)) (\<lambda>n.
     bindS (callS (select_hart T n)) (\<lambda>_.
     bindS (evalS (shell_parse_int a)) (\<lambda>n. say (''hartsel = '' @ str_int n))))"

definition do_ndmreset :: "'s transport \<Rightarrow> string \<Rightarrow> ('s, bool) shell" where
  "do_ndmreset T a =
     (let assert_reset = strip a \<noteq> ''deassert''
      in bindS (callS (ndmreset_level T assert_reset)) (\<lambda>_.
         say (''ndmreset '' @ (if assert_reset then ''asserted'' else ''deasserted''))))"

definition do_hartreset :: "'s transport \<Rightarrow> string \<Rightarrow> ('s, bool) shell" where
  "do_hartreset T a =
     (let assert_reset = strip a \<noteq> ''deassert''
      in bindS (callS (hartreset_request T assert_reset)) (\<lambda>_.
         say (''hartreset '' @ (if assert_reset then ''asserted'' else ''deasserted''))))"

definition do_read_gpr :: "'s transport \<Rightarrow> string \<Rightarrow> ('s, bool) shell" where
  "do_read_gpr T a =
     bindS (evalS (parse_gpr a)) (\<lambda>regno.
     bindS (callS (read_gpr T regno)) (\<lambda>val. say (strip a @ '' = '' @ hex08 val)))"

definition do_write_gpr :: "'s transport \<Rightarrow> string \<Rightarrow> ('s, bool) shell" where
  "do_write_gpr T a =
     bindS (evalS (shlex_split a)) (\<lambda>parts.
       if length parts \<noteq> 2 then say ''usage: write_gpr <reg> <value>''
       else bindS (evalS (parse_gpr (parts ! 0))) (\<lambda>regno.
            bindS (evalS (shell_parse_int (parts ! 1))) (\<lambda>val.
            bindS (callS (write_gpr T regno val)) (\<lambda>_. say (parts ! 0 @ '' <- '' @ hex08 val)))))"

definition do_pc :: "'s transport \<Rightarrow> string \<Rightarrow> ('s, bool) shell" where
  "do_pc T a = bindS (callS (get_pc T)) (\<lambda>pc. say (''PC = '' @ hex08 pc))"

text \<open>The words of \<^verbatim>\<open>for i in range(count)\<close>, printed as they are read.\<close>

fun read_words :: "'s transport \<Rightarrow> int list \<Rightarrow> ('s, bool) shell" where
  "read_words T [] = returnS False"
| "read_words T (a # as) =
     bindS (callS (read_mem32 T a)) (\<lambda>v.
     bindS (printS (Text (hex08 a @ '': '' @ hex08 v))) (\<lambda>_. read_words T as))"

definition do_read_mem :: "'s transport \<Rightarrow> string \<Rightarrow> ('s, bool) shell" where
  "do_read_mem T a =
     bindS (evalS (shlex_split a)) (\<lambda>parts.
       if parts = [] then say ''usage: read_mem <addr> [count]''
       else bindS (evalS (shell_parse_int (parts ! 0))) (\<lambda>addr.
            bindS (evalS (if 1 < length parts then shell_parse_int (parts ! 1) else Inr 1)) (\<lambda>count.
              read_words T (map (\<lambda>i. addr + 4 * int i) [0..<nat count]))))"

definition do_write_mem :: "'s transport \<Rightarrow> string \<Rightarrow> ('s, bool) shell" where
  "do_write_mem T a =
     bindS (evalS (shlex_split a)) (\<lambda>parts.
       if length parts \<noteq> 2 then say ''usage: write_mem <addr> <value>''
       else bindS (evalS (shell_parse_int (parts ! 0))) (\<lambda>addr.
            bindS (evalS (shell_parse_int (parts ! 1))) (\<lambda>val.
            bindS (callS (write_mem32 T addr val)) (\<lambda>_. say (hex08 addr @ '' <- '' @ hex08 val)))))"

definition do_read_dmi :: "'s transport \<Rightarrow> string \<Rightarrow> ('s, bool) shell" where
  "do_read_dmi T a =
     bindS (evalS (shell_parse_int a)) (\<lambda>addr.
     bindS (callS (dmi_read T addr)) (\<lambda>v. say (''DMI['' @ hex02 addr @ ''] = '' @ hex08 v)))"

definition do_write_dmi :: "'s transport \<Rightarrow> string \<Rightarrow> ('s, bool) shell" where
  "do_write_dmi T a =
     bindS (evalS (shlex_split a)) (\<lambda>parts.
       if length parts \<noteq> 2 then say ''usage: write_dmi <addr> <value>''
       else bindS (evalS (shell_parse_int (parts ! 0))) (\<lambda>addr.
            bindS (evalS (shell_parse_int (parts ! 1))) (\<lambda>val.
            bindS (callS (dmi_write T addr val)) (\<lambda>_. say (''DMI['' @ hex02 addr @ ''] <- '' @ hex08 val)))))"

definition str_bool :: "bool \<Rightarrow> string" where
  "str_bool b = (if b then ''True'' else ''False'')"

definition status_lines :: "int \<Rightarrow> string list" where
  "status_lines s =
     [''dmstatus = '' @ hex08 s,
      ''  version           = '' @ str_int (version_of s),
      ''  allhalted         = '' @ str_bool (allhalted s),
      ''  allrunning        = '' @ str_bool (allrunning s),
      ''  allresumeack      = '' @ str_bool (allresumeack s),
      ''  allhavereset      = '' @ str_bool (allhavereset s),
      ''  anyunavail        = '' @ str_bool (anyunavail s),
      ''  hasresethaltreq   = '' @ str_bool (hasresethaltreq_of s),
      ''  ndmresetpending   = '' @ str_bool (ndmresetpending s)]"

definition do_status :: "'s transport \<Rightarrow> string \<Rightarrow> ('s, bool) shell" where
  "do_status T a =
     bindS (callS (read_dmstatus T)) (\<lambda>s. (\<lambda>d. Some ((Inr False, d), map Text (status_lines s))))"

definition do_dmcontrol :: "'s transport \<Rightarrow> string \<Rightarrow> ('s, bool) shell" where
  "do_dmcontrol T a = bindS (callS (read_dmcontrol T)) (\<lambda>v. say (''dmcontrol = '' @ hex08 v))"

definition do_quit :: "string \<Rightarrow> ('s, bool) shell" where
  "do_quit a = returnS True"

subsection \<open>Dispatch\<close>

text \<open>
  The methods \<^verbatim>\<open>do_*\<close> with their documentation. \<^verbatim>\<open>do_help\<close> is inherited; it knows the names and the
  documentation, so it comes after them.
\<close>

definition COMMANDS :: "'s transport \<Rightarrow> (string \<times> string \<times> (string \<Rightarrow> ('s, bool) shell)) list" where
  "COMMANDS T =
     [(''EOF'', ''quit -- disconnect (sends the transport shutdown, ends the sim) and exit'', do_quit),
      (''activate'', ''activate -- write dmcontrol.dmactive=1, verify DM version'', do_activate T),
      (''deactivate'', ''deactivate -- write dmcontrol.dmactive=0 (resets the DM)'', do_deactivate T),
      (''dmcontrol'', ''dmcontrol -- raw dmcontrol read-back'', do_dmcontrol T),
      (''exit'', ''quit -- disconnect (sends the transport shutdown, ends the sim) and exit'', do_quit),
      (''halt'', ''halt -- request halt, poll dmstatus.allhalted'', do_halt T),
      (''hartreset'', ''hartreset [assert|deassert] -- hart-only reset (default: assert)'', do_hartreset T),
      (''ndmreset'', ''ndmreset [assert|deassert] -- platform reset (default: assert)'', do_ndmreset T),
      (''pc'', ''pc -- read the current PC (dpc CSR via abstract command)'', do_pc T),
      (''quit'', ''quit -- disconnect (sends the transport shutdown, ends the sim) and exit'', do_quit),
      (''read_dmi'', ''read_dmi <addr> -- raw DMI register read (bypasses RISCVDebug helpers)'', do_read_dmi T),
      (''read_gpr'', ''read_gpr <x5|t0|a0|regno> -- read a GPR/CSR via abstract command'', do_read_gpr T),
      (''read_mem'', ''read_mem <addr> [count] -- read count (default 1) 32-bit words starting at addr'', do_read_mem T),
      (''resume'', ''resume -- request resume, poll dmstatus.allrunning'', do_resume T),
      (''select_hart'', ''select_hart <n> -- select hart n for every subsequent dmcontrol write'', do_select_hart T),
      (''status'', ''status -- decoded dmstatus snapshot'', do_status T),
      (''step'', ''step -- single-step one instruction (dcsr.step), then report the new PC'', do_step T),
      (''write_dmi'', ''write_dmi <addr> <value> -- raw DMI register write'', do_write_dmi T),
      (''write_gpr'', ''write_gpr <x5|t0|a0|regno> <value> -- write a GPR/CSR via abstract command'', do_write_gpr T),
      (''write_mem'', ''write_mem <addr> <value> -- write one 32-bit word via System Bus Access'', do_write_mem T)]"

definition HELP_DOC :: string where
  "HELP_DOC = ''List available commands with \"help\" or detailed help with \"help cmd\".''"

text \<open>The names in order, \<^verbatim>\<open>help\<close> among them.\<close>

definition HELP_TOPICS :: "'s transport \<Rightarrow> string list" where
  "HELP_TOPICS T = (let names = map fst (COMMANDS T) in take 7 names @ [''help''] @ drop 7 names)"

definition do_help :: "'s transport \<Rightarrow> string \<Rightarrow> ('s, bool) shell" where
  "do_help T a =
     (if a = [] then
        bindS (printS (Help_topics (HELP_TOPICS T))) (\<lambda>_. returnS False)
      else if a = ''help'' then say HELP_DOC
      else case map_of (COMMANDS T) a of
          Some (doc, _) \<Rightarrow> say doc
        | None \<Rightarrow> say (''*** No help on '' @ a))"

text \<open>\<^verbatim>\<open>parseline\<close>: no command for a blank line and for one that starts with an exclamation mark.\<close>

definition parseline :: "string \<Rightarrow> (string \<times> string) option \<times> string" where
  "parseline line0 =
     (let s = strip line0 in
      if s = [] \<or> hd s = CHR ''!'' then (None, s)
      else let l = (if hd s = CHR ''?'' then ''help '' @ tl s else s)
           in (Some (takeWhile is_word l, strip (dropWhile is_word l)), l))"

text \<open>\<^verbatim>\<open>cmd.Cmd.onecmd\<close>, with \<^verbatim>\<open>emptyline\<close> and \<^verbatim>\<open>default\<close>.\<close>

definition unknown :: "string \<Rightarrow> ('s, bool) shell" where
  "unknown line = say (''*** Unknown syntax: '' @ line)"

definition base_onecmd :: "'s transport \<Rightarrow> string \<Rightarrow> ('s, bool) shell" where
  "base_onecmd T line0 =
     (case parseline line0 of (command, line) \<Rightarrow>
        if line = [] then returnS False
        else case command of
            None \<Rightarrow> unknown line
          | Some (c, a) \<Rightarrow>
              if c = [] then unknown line
              else if c = ''help'' then do_help T a
              else (case map_of (COMMANDS T) c of
                  Some (doc, f) \<Rightarrow> f a
                | None \<Rightarrow> unknown line))"

text \<open>\<^verbatim>\<open>onecmd\<close>: errors of the library, of the transport and of the arguments are printed; others leave the shell.\<close>

definition shell_handler :: "dbg_error \<Rightarrow> shell_line option" where
  "shell_handler e =
     (if is_debug_error e then Some (Error_line e)
      else case e of
          TransportError _ \<Rightarrow> Some (Error_line e)
        | Raised (ValueError s) \<Rightarrow> Some (Bad_argument (ValueError s))
        | _ \<Rightarrow> None)"

definition onecmd :: "'s transport \<Rightarrow> string \<Rightarrow> ('s, bool) shell" where
  "onecmd T line = (\<lambda>d. case base_onecmd T line d of
      Some ((Inl e, d'), ls) \<Rightarrow>
        (case shell_handler e of
           Some l \<Rightarrow> Some ((Inr False, d'), ls @ [l])
         | None \<Rightarrow> Some ((Inl e, d'), ls))
    | r \<Rightarrow> r)"

text \<open>
  \<^verbatim>\<open>cmdloop\<close>, after its introduction: lines are run until one stops the loop. When the input has ended the line is \<^verbatim>\<open>EOF\<close>,
  which stops the loop (\<open>onecmd_EOF\<close> below). The result is the lines not read.
\<close>

fun cmdloop :: "'s transport \<Rightarrow> string list \<Rightarrow> ('s, string list) shell" where
  "cmdloop T [] = bindS (onecmd T ''EOF'') (\<lambda>_. returnS [])"
| "cmdloop T (l # ls) = bindS (onecmd T l) (\<lambda>stop. if stop then returnS ls else cmdloop T ls)"
lemma parseline_EOF: "parseline ''EOF'' = (Some (''EOF'', []), ''EOF'')"
  by code_simp

lemma onecmd_EOF: "onecmd T ''EOF'' = returnS True"
  unfolding onecmd_def base_onecmd_def parseline_EOF by (simp add: COMMANDS_def do_quit_def returnS_def)

subsection \<open>No command leaves the shell\<close>

definition shell_catches :: "dbg_error \<Rightarrow> bool" where
  "shell_catches e \<longleftrightarrow> shell_handler e \<noteq> None"

text \<open>A command ends with an error the shell prints, or with a value that satisfies \<open>P\<close>.\<close>

definition shell_ends :: "('a \<Rightarrow> bool) \<Rightarrow> ('s, 'a) shell \<Rightarrow> bool" where
  "shell_ends P m \<longleftrightarrow>
     (\<forall>d. \<exists>r d' ls. m d = Some ((r, d'), ls) \<and> (case r of Inl e \<Rightarrow> shell_catches e | Inr x \<Rightarrow> P x))"

named_theorems shell_intros

lemma shell_ends_return [shell_intros]: "P x \<Longrightarrow> shell_ends P (returnS x)"
  by (simp add: shell_ends_def returnS_def)

lemma shell_ends_print [shell_intros]: "shell_ends anything (printS l)"
  by (simp add: shell_ends_def printS_def)

lemma shell_ends_bind [shell_intros]:
  assumes "shell_ends anything m" "\<And>x. shell_ends P (f x)"
  shows "shell_ends P (bindS m f)"
  unfolding shell_ends_def
proof
  fix d
  obtain r d1 ls where m: "m d = Some ((r, d1), ls)" "case r of Inl e \<Rightarrow> shell_catches e | Inr x \<Rightarrow> True"
    using assms(1) unfolding shell_ends_def by blast
  show "\<exists>r d' ls. bindS m f d = Some ((r, d'), ls) \<and> (case r of Inl e \<Rightarrow> shell_catches e | Inr x \<Rightarrow> P x)"
  proof (cases r)
    case (Inr x)
    obtain r2 d2 ls2 where "f x d1 = Some ((r2, d2), ls2)" "case r2 of Inl e \<Rightarrow> shell_catches e | Inr x \<Rightarrow> P x"
      using assms(2) [of x] unfolding shell_ends_def by blast
    then show ?thesis using m Inr by (simp add: bindS_def)
  qed (use m in \<open>simp add: bindS_def\<close>)
qed

lemma shell_ends_call [shell_intros]:
  assumes "ends shell_catches anything m"
  shows "shell_ends anything (callS m)"
  unfolding shell_ends_def callS_def
proof
  fix d
  show "\<exists>r d' ls. map_option (\<lambda>r. (r, [])) (m d) = Some ((r, d'), ls) \<and> (case r of Inl e \<Rightarrow> shell_catches e | Inr x \<Rightarrow> True)"
    using assms by (cases rule: endsE [where d = d]) auto
qed

lemma shell_ends_if [shell_intros]:
  "(b \<Longrightarrow> shell_ends P m) \<Longrightarrow> (\<not> b \<Longrightarrow> shell_ends P n) \<Longrightarrow> shell_ends P (if b then m else n)"
  by simp

text \<open>Reading the arguments raises nothing but a \<^verbatim>\<open>ValueError\<close>.\<close>

definition value_error_only :: "'a result \<Rightarrow> bool" where
  "value_error_only r \<longleftrightarrow> (case r of Inl e \<Rightarrow> \<exists>s. e = ValueError s | Inr _ \<Rightarrow> True)"

lemma value_error_simps [simp]:
  "value_error_only (Inr x)" "value_error_only (Inl (ValueError s))"
  by (simp_all add: value_error_only_def)

lemma value_error_bind: "value_error_only m \<Longrightarrow> (\<And>x. value_error_only (f x)) \<Longrightarrow> value_error_only (bindR m f)"
  by (cases m) (auto simp: value_error_only_def)

lemma value_error_int [simp]: "value_error_only (py_int_by u s)"
  unfolding py_int_by_def Let_def by (simp split: prod.split option.split)

lemma value_error_parse [simp]: "value_error_only (shell_parse_int s)" "value_error_only (parse_gpr s)"
  by (auto simp: shell_parse_int_def parse_gpr_def py_int10_def Let_def split: option.split intro!: value_error_bind)

lemma value_error_tokens: "value_error_only (shlex_tokens st tok qd s)"
  by (induction st tok qd s rule: shlex_tokens.induct) (auto intro!: value_error_bind)

lemma value_error_split [simp]: "value_error_only (shlex_split s)"
  by (simp add: shlex_split_def value_error_tokens)

lemma shell_ends_eval [shell_intros]: "value_error_only r \<Longrightarrow> shell_ends anything (evalS r)"
  by (auto simp: shell_ends_def evalS_def value_error_only_def shell_catches_def shell_handler_def is_debug_error_def split: sum.splits)

text \<open>The lines that stop the loop.\<close>

definition stops_shell :: "string \<Rightarrow> bool" where
  "stops_shell line = (case fst (parseline line) of Some (c, a) \<Rightarrow> c \<in> {''quit'', ''exit'', ''EOF''} | None \<Rightarrow> False)"

lemma parseline_command: "parseline l = (Some c, line) \<Longrightarrow> line \<noteq> []"
  by (auto simp: parseline_def Let_def split: if_splits)

lemma quit_commands:
  "\<exists>doc. map_of (COMMANDS T) ''quit'' = Some (doc, do_quit)" "\<exists>doc. map_of (COMMANDS T) ''exit'' = Some (doc, do_quit)"
  "\<exists>doc. map_of (COMMANDS T) ''EOF'' = Some (doc, do_quit)"
  by (simp_all add: COMMANDS_def)

lemma stop_line:
  assumes "stops_shell l"
  shows "onecmd T l = returnS True"
proof -
  obtain c a line where p: "parseline l = (Some (c, a), line)" and c: "c = ''quit'' \<or> c = ''exit'' \<or> c = ''EOF''"
    using assms unfolding stops_shell_def by (cases "parseline l") (auto split: option.splits)
  obtain doc where "map_of (COMMANDS T) c = Some (doc, do_quit)" using c quit_commands [of T] by metis
  moreover have "c \<noteq> []" "c \<noteq> ''help''" using c by auto
  ultimately have "base_onecmd T l = returnS True"
    using parseline_command [OF p] p by (simp add: base_onecmd_def do_quit_def)
  then show ?thesis by (simp add: onecmd_def returnS_def)
qed

locale shell_target = live_transport T shell_catches
  for T :: "'s transport"
begin

lemma read_words_ends [shell_intros]: "shell_ends Not (read_words T as)"
  by (induction as) (auto intro!: shell_intros ends_intros)

lemma commands_end:
  "shell_ends Not (do_activate T a)" "shell_ends Not (do_deactivate T a)" "shell_ends Not (do_halt T a)"
  "shell_ends Not (do_resume T a)" "shell_ends Not (do_step T a)" "shell_ends Not (do_select_hart T a)"
  "shell_ends Not (do_ndmreset T a)" "shell_ends Not (do_hartreset T a)" "shell_ends Not (do_read_gpr T a)"
  "shell_ends Not (do_write_gpr T a)" "shell_ends Not (do_pc T a)" "shell_ends Not (do_read_mem T a)"
  "shell_ends Not (do_write_mem T a)" "shell_ends Not (do_read_dmi T a)" "shell_ends Not (do_write_dmi T a)"
  "shell_ends Not (do_dmcontrol T a)"
  unfolding do_activate_def do_deactivate_def do_halt_def do_resume_def do_step_def do_select_hart_def do_ndmreset_def
    do_hartreset_def do_read_gpr_def do_write_gpr_def do_pc_def do_read_mem_def do_write_mem_def do_read_dmi_def
    do_write_dmi_def do_dmcontrol_def Let_def
  by (auto intro!: shell_intros ends_intros)

lemma status_ends: "shell_ends Not (do_status T a)"
  unfolding do_status_def by (intro shell_ends_bind shell_intros ends_intros) (simp add: shell_ends_def)

lemma help_ends: "shell_ends Not (do_help T a)" "shell_ends Not (unknown l)"
  unfolding do_help_def unknown_def by (auto intro!: shell_intros split: option.split)

lemma command_ends:
  "list_all (\<lambda>(c, doc, f). c \<in> {''quit'', ''exit'', ''EOF''} \<or> (\<forall>a. shell_ends Not (f a))) (COMMANDS T)"
  unfolding COMMANDS_def by (simp add: commands_end status_ends)

lemma base_onecmd_ends:
  assumes "\<not> stops_shell l"
  shows "shell_ends Not (base_onecmd T l)"
proof (cases "parseline l")
  case (Pair cmd line)
  show ?thesis
  proof (cases cmd)
    case None
    then show ?thesis using Pair by (simp add: base_onecmd_def shell_ends_return help_ends)
  next
    case (Some x)
    obtain c a where x: "x = (c, a)" by force
    have "c \<notin> {''quit'', ''exit'', ''EOF''}" using assms by (simp add: stops_shell_def Pair Some x)
    then have f: "shell_ends Not (f a)" if "map_of (COMMANDS T) c = Some (doc, f)" for doc f
      using bspec [OF command_ends [unfolded list_all_iff] map_of_SomeD [OF that]] by (simp only: prod.case) blast
    have "line \<noteq> []" using parseline_command Pair Some by blast
    then show ?thesis
      using Pair Some x f by (cases "map_of (COMMANDS T) c") (auto simp: base_onecmd_def help_ends)
  qed
qed

lemma onecmd_ends: "\<exists>d' out. onecmd T l d = Some ((Inr (stops_shell l), d'), out)"
proof (cases "stops_shell l")
  case False
  obtain r d' out where "base_onecmd T l d = Some ((r, d'), out)" "case r of Inl e \<Rightarrow> shell_catches e | Inr x \<Rightarrow> \<not> x"
    using base_onecmd_ends [OF False] unfolding shell_ends_def by blast
  with False show ?thesis by (cases r) (auto simp: onecmd_def shell_catches_def)
qed (simp add: stop_line returnS_def)

lemma cmdloop_ends:
  "\<exists>d' out. cmdloop T ls d = Some ((Inr (tl (dropWhile (\<lambda>l. \<not> stops_shell l) ls)), d'), out)"
proof (induction ls arbitrary: d)
  case Nil
  show ?case by (simp add: onecmd_EOF bindS_def returnS_def)
next
  case (Cons l ls)
  obtain d1 out1 where one: "onecmd T l d = Some ((Inr (stops_shell l), d1), out1)" using onecmd_ends by blast
  show ?case
  proof (cases "stops_shell l")
    case True
    with one show ?thesis by (simp add: bindS_def returnS_def)
  next
    case False
    with one show ?thesis using Cons.IH [of d1] by (auto simp: bindS_def)
  qed
qed

end

end
