(* ===== verification/ShellProps.thy ===== *)
theory ShellProps
  imports Shell DutConfig
begin

text \<open>
  Properties of the shell: no line leaves it but those that quit, and a register written by name is read back by name.
\<close>

unbundle bit_operations_syntax

subsection \<open>Reading a command line\<close>

lemma word_not_space: "is_word c \<Longrightarrow> \<not> is_space c \<and> c \<noteq> CHR ''!'' \<and> c \<noteq> CHR ''?''"
  by (auto simp: is_word_def is_space_def is_digit_def Let_def)

lemma parseline_words:
  assumes "c \<noteq> []" "list_all is_word c" "a \<noteq> []" "\<not> is_space (hd a)" "\<not> is_space (last a)"
  shows "parseline (c @ '' '' @ a) = (Some (c, a), c @ '' '' @ a)"
proof -
  have sp: "\<not> is_word CHR '' ''" "is_space CHR '' ''" by code_simp+
  have h: "is_word (hd c)" using assms(1,2) by (cases c) auto
  have "strip (c @ '' '' @ a) = c @ '' '' @ a"
    using assms h word_not_space [of "hd c"] by (intro strip_id) auto
  moreover have "takeWhile is_word (c @ '' '' @ a) = c" "dropWhile is_word (c @ '' '' @ a) = '' '' @ a"
    using assms(2) sp by (auto simp: list_all_iff takeWhile_append dropWhile_append)
  moreover have "strip ('' '' @ a) = a"
    using assms(3-5) sp strip_id [of a] by (simp add: strip_def)
  ultimately show ?thesis
    using h word_not_space [of "hd c"] assms(1) by (simp add: parseline_def)
qed

text \<open>A word the tokenizer takes as it is.\<close>

definition plain_word :: "string \<Rightarrow> bool" where
  "plain_word w \<longleftrightarrow> w \<noteq> [] \<and> list_all (\<lambda>c. \<not> shlex_white c \<and> \<not> shlex_quote c \<and> \<not> shlex_escape c \<and> \<not> is_space c) w"

lemma plain_wordD: "plain_word w \<Longrightarrow> w \<noteq> []" "plain_word w \<Longrightarrow> \<not> is_space (hd w)" "plain_word w \<Longrightarrow> \<not> is_space (last w)"
  by (auto simp: plain_word_def list_all_iff)

lemma shlex_in_word:
  "list_all (\<lambda>c. \<not> shlex_white c \<and> \<not> shlex_quote c \<and> \<not> shlex_escape c) w \<Longrightarrow>
    shlex_tokens In_word tok q (w @ s) = shlex_tokens In_word (tok @ w) q s"
  by (induction w arbitrary: tok) auto

lemma shlex_plain:
  assumes "plain_word w"
  shows "shlex_tokens Between [] False (w @ s) = shlex_tokens In_word w False s"
proof (cases w)
  case (Cons c cs)
  with assms show ?thesis using shlex_in_word [of cs "[c]" False s] by (simp add: plain_word_def list_all_iff)
qed (use assms in \<open>simp add: plain_word_def\<close>)

lemma shlex_two_words:
  assumes "plain_word v" "plain_word w"
  shows "shlex_split (v @ '' '' @ w) = Inr [v, w]"
proof -
  have "shlex_white CHR '' ''" by code_simp
  then show ?thesis
    using shlex_plain [OF assms(1), of "'' '' @ w"] shlex_plain [OF assms(2), of "[]"] plain_wordD(1) assms
    by (simp add: shlex_split_def)
qed

lemma hex_plain:
  assumes "hex_char c"
  shows "\<not> shlex_white c \<and> \<not> shlex_quote c \<and> \<not> shlex_escape c \<and> \<not> is_space c"
  using assms by (auto simp: hex_char_def is_digit_def shlex_white_def shlex_quote_def shlex_escape_def is_space_def Let_def)

lemma hex08_text:
  assumes "0 \<le> v"
  shows "plain_word (hex08 v)" "shell_parse_int (hex08 v) = Inr v"
proof -
  obtain ds where ds: "hex_pad 8 v = ds" "list_all hex_char ds" "ds \<noteq> []" "hex_digits_val ds = nat \<bar>v\<bar>"
    using hex_pad_text [of 8 v] assms by auto
  have pre: "list_all (\<lambda>c. \<not> shlex_white c \<and> \<not> shlex_quote c \<and> \<not> shlex_escape c \<and> \<not> is_space c) ''0x''" by code_simp
  with ds(2) show plain: "plain_word (hex08 v)"
    unfolding plain_word_def hex08_def ds(1) by (auto simp: list_all_iff dest: hex_plain)
  have s: "strip (hex08 v) = hex08 v" by (intro strip_id plain_wordD plain)
  have low: "map lower_char ''0x'' = ''0x''" "CHR ''0'' \<noteq> CHR ''-''" by code_simp+
  have "after_prefix ds = ds"
    using ds(2,3) hex_char_digit(3) by (cases ds) (auto simp: after_prefix_def)
  then have "unsigned_int16 (''0x'' @ ds) = Some v"
    using digits_val_hex [OF ds(2), of True 0] ds(3,4) low assms
    by (simp add: unsigned_int16_def hex_digits_val_def)
  then show "shell_parse_int (hex08 v) = Inr v"
    using s low by (simp add: shell_parse_int_def py_int_by_def hex08_def ds(1) Let_def)
qed

subsection \<open>Registers by name\<close>

text \<open>\<^verbatim>\<open>x1\<close> to \<^verbatim>\<open>x31\<close> and the names of the calling convention but \<^verbatim>\<open>zero\<close>.\<close>

definition gpr_names :: "string list" where
  "gpr_names = map (\<lambda>n. ''x'' @ str_nat n) [1..<32] @ map fst (tl ABI_NAMES)"

definition writable_name :: "string \<Rightarrow> bool" where
  "writable_name r = (plain_word r \<and> (case parse_gpr r of
       Inl _ \<Rightarrow> False
     | Inr n \<Rightarrow> reads_back_as_written (take_bit 16 n) \<and> take_bit 16 n \<noteq> GPR_X0_REGNO))"

lemma writable_nameE:
  assumes "writable_name r"
  obtains n where "plain_word r" "parse_gpr r = Inr n" "reads_back_as_written (take_bit 16 n)" "take_bit 16 n \<noteq> GPR_X0_REGNO"
  using assms by (cases "parse_gpr r") (auto simp: writable_name_def)

lemma gpr_names_writable: "list_all writable_name gpr_names"
  by code_simp

lemma onecmd_write_gpr:
  assumes "plain_word r" "parse_gpr r = Inr n" "0 \<le> v" "write_gpr T n v d = Some (Inr (), d')"
  shows "onecmd T (''write_gpr '' @ r @ '' '' @ hex08 v) d = Some ((Inr False, d'), [Text (r @ '' <- '' @ hex08 v)])"
proof -
  have w: "list_all is_word ''write_gpr''" by code_simp
  note p = hex08_text [OF assms(3)]
  have "parseline (''write_gpr'' @ '' '' @ (r @ '' '' @ hex08 v)) = (Some (''write_gpr'', r @ '' '' @ hex08 v), ''write_gpr'' @ '' '' @ (r @ '' '' @ hex08 v))"
    using plain_wordD [OF assms(1)] plain_wordD [OF p(1)] w by (intro parseline_words) simp_all
  then show ?thesis
    using assms(2,4) p(2) shlex_two_words [OF assms(1) p(1)]
    by (simp add: onecmd_def base_onecmd_def COMMANDS_def do_write_gpr_def bindS_def evalS_def callS_def printS_def returnS_def)
qed

lemma onecmd_read_gpr:
  assumes "plain_word r" "parse_gpr r = Inr n" "read_gpr T n d = Some (Inr v, d')"
  shows "onecmd T (''read_gpr '' @ r) d = Some ((Inr False, d'), [Text (r @ '' = '' @ hex08 v)])"
proof -
  have w: "list_all is_word ''read_gpr''" by code_simp
  note r = plain_wordD [OF assms(1)]
  have "parseline (''read_gpr'' @ '' '' @ r) = (Some (''read_gpr'', r), ''read_gpr'' @ '' '' @ r)"
    using r w by (intro parseline_words) simp_all
  then show ?thesis
    using assms(2,3) strip_id [OF r]
    by (simp add: onecmd_def base_onecmd_def COMMANDS_def do_read_gpr_def bindS_def evalS_def callS_def printS_def returnS_def)
qed

lemma cmdloop_end: "cmdloop T [] d = Some ((Inr [], d), [])"
  by (simp add: onecmd_EOF bindS_def returnS_def)

lemma cmdloop_step:
  "onecmd T l d = Some ((Inr False, d1), out1) \<Longrightarrow> cmdloop T ls d1 = Some ((r, d2), out2) \<Longrightarrow>
    cmdloop T (l # ls) d = Some ((r, d2), out1 @ out2)"
  by (simp add: bindS_def)

text \<open>
  C35. On the mock, for a declared, active and idle module: typing \<^verbatim>\<open>write_gpr\<close> with a register name and a value in hexadecimal,
  then \<^verbatim>\<open>read_gpr\<close> with the name, prints the value written and the value read back, which is the one written cut to
  32 bits; for each of \<^verbatim>\<open>x1\<close> to \<^verbatim>\<open>x31\<close> and each name of the calling convention but \<^verbatim>\<open>zero\<close>.
\<close>

theorem shell_register_round_trip:
  assumes "command_ready (predictor (t_state d))" "r \<in> set gpr_names" "0 \<le> v"
  shows "\<exists>d'. cmdloop (mock_transport clock) [''write_gpr '' @ r @ '' '' @ hex08 v, ''read_gpr '' @ r] d =
    Some ((Inr [], d'), [Text (r @ '' <- '' @ hex08 v), Text (r @ '' = '' @ hex08 (take_bit 32 v))])"
proof -
  obtain n where n: "plain_word r" "parse_gpr r = Inr n" "reads_back_as_written (take_bit 16 n)" "take_bit 16 n \<noteq> GPR_X0_REGNO"
    using writable_nameE gpr_names_writable assms(2) unfolding list_all_iff by metis
  obtain d1 d2 where "write_gpr (mock_transport clock) n v d = Some (Inr (), d1)"
    "read_gpr (mock_transport clock) n d1 = Some (Inr (take_bit 32 v), d2)"
    using gpr_round_trip [OF assms(1) n(3,4), of clock v]
    by (auto simp: seqD_def bindD_def split: option.splits sum.splits)
  note typed = onecmd_write_gpr [OF n(1,2) assms(3) this(1)] onecmd_read_gpr [OF n(1,2) this(2)]
  show ?thesis
    using cmdloop_step [OF typed(1) cmdloop_step [OF typed(2) cmdloop_end]] by auto
qed

definition ready_session :: "ModelBackedMockTransport RISCVDebug" where
  "ready_session = RISCVDebug_init (mock_init (on_write ADDR_DMCONTROL 1 (set_config DMPredictor_default ibex_config)))"

theorem shell_register_round_trip_witness:
  "\<exists>d'. cmdloop (mock_transport (\<lambda>k. int k)) [''write_gpr '' @ ''a0'' @ '' '' @ hex08 0x1CAFEBABE, ''read_gpr '' @ ''a0''] ready_session =
    Some ((Inr [], d'), [Text (''a0'' @ '' <- '' @ hex08 0x1CAFEBABE), Text (''a0'' @ '' = '' @ hex08 0xCAFEBABE)])"
proof -
  have "command_ready (predictor (t_state ready_session))" by code_simp
  moreover have "''a0'' \<in> set gpr_names" by code_simp
  moreover have "take_bit 32 (0x1CAFEBABE :: int) = 0xCAFEBABE" by code_simp
  ultimately show ?thesis
    using shell_register_round_trip [where d = ready_session and r = "''a0''" and v = "0x1CAFEBABE" and clock = "\<lambda>k. int k"] by simp
qed

subsection \<open>The shell stays\<close>

interpretation mock_shell: shell_target "mock_transport (\<lambda>k. int k)"
proof
  show "passes (t_monotonic (mock_transport (\<lambda>k. int k)))" by (simp add: mock_transport_def passes_int)
qed (auto simp: mock_transport_def mock_read_def mock_write_def expect_def shell_catches_def shell_handler_def split: sum.splits if_splits)

text \<open>
  C34. The shell survives every line: over a transport that raises only \<^verbatim>\<open>TransportError\<close> and whose clock passes every
  deadline, whatever is typed, the loop ends without an error, exactly at the first line that quits (or at the end of
  the input), with the lines after it unread.
\<close>

theorem shell_survives:
  assumes "passes (t_monotonic T)"
    and "\<And>a s e s'. t_read T a s = (Inl e, s') \<Longrightarrow> \<exists>m. e = TransportError m"
    and "\<And>a v s e s'. t_write T a v s = (Inl e, s') \<Longrightarrow> \<exists>m. e = TransportError m"
  shows "\<exists>d' out. cmdloop T ls d = Some ((Inr (tl (dropWhile (\<lambda>l. \<not> stops_shell l) ls)), d'), out)"
proof -
  have "shell_target T"
    using assms by unfold_locales (force simp: shell_catches_def shell_handler_def)+
  then show ?thesis by (rule shell_target.cmdloop_ends)
qed

theorem shell_survives_witness:
  "\<exists>d' out. cmdloop (mock_transport (\<lambda>k. int k)) [''halt'', ''read_gpr x5y'', ''write_mem 0x10'', '''', ''quit now'', ''pc'']
      (RISCVDebug_init (mock_init DMPredictor_default)) =
    Some ((Inr [''pc''], d'), out)"
proof -
  let ?ls = "[''halt'', ''read_gpr x5y'', ''write_mem 0x10'', '''', ''quit now'', ''pc'']"
  have "tl (dropWhile (\<lambda>l. \<not> stops_shell l) ?ls) = [''pc'']" by code_simp
  moreover have "\<exists>d' out. cmdloop (mock_transport (\<lambda>k. int k)) ?ls (RISCVDebug_init (mock_init DMPredictor_default)) = Some ((Inr (tl (dropWhile (\<lambda>l. \<not> stops_shell l) ?ls)), d'), out)"
    by (rule shell_survives) (auto simp: mock_transport_def passes_int mock_read_def mock_write_def expect_def split: sum.splits if_splits)
  ultimately show ?thesis by simp
qed

end
