(* ===== verification/Regression.thy ===== *)
theory Regression
  imports Session TextSearch
begin

text \<open>
  \<^verbatim>\<open>src/mk/run_regression.py\<close>: how a regression judges its tests. A run of the simulator is a parameter, from the command
  and the time limit to whether it was killed at the limit and to its output; so is which files exist. The suite is what its
  file holds, its optional entries as options. Left out are the elapsed times, the merged coverage percentages and the
  rendered report. The summary a session prints (\<^verbatim>\<open>_print_summary\<close> of \<^verbatim>\<open>src/src/pydebug/api/session.py\<close>) is here too, since
  it is what the regression reads.
\<close>

subsection \<open>The summary of a session\<close>

definition rule_line :: string where
  "rule_line = replicate 60 (CHR ''='')"

definition newline :: string where
  "newline = [CHR 0x0A]"

definition verdict_head :: string where
  "verdict_head = ''  Session complete - ''"

definition print_summary :: "'d StepResult list \<Rightarrow> out_state \<Rightarrow> out_state" where
  "print_summary rs s0 =
     (let total_n = length rs; passed = length (filter ok rs); failed = total_n - passed;
          s1 = out (newline @ rule_line) newline s0;
          s2 = out (verdict_head @ str_nat passed @ ''/'' @ str_nat total_n @ '' passed'') '''' s1;
          s3 = out (if failed \<noteq> 0 then ''  ('' @ str_nat failed @ '' failed)'' else '''') newline s2
      in out (rule_line @ newline) newline s3)"

subsection \<open>Searching the output\<close>

text \<open>\<^verbatim>\<open>RE_VERDICT\<close> at one position, its groups; no part of it can give characters back to another.\<close>

definition verdict_at :: "string \<Rightarrow> (string \<times> string) option" where
  "verdict_at s =
     Option.bind (after ''Session complete'' s) (\<lambda>s1.
     Option.bind (after ''-'' (dropWhile is_space s1)) (\<lambda>s2.
     Option.bind (number_at (dropWhile is_space s2)) (\<lambda>(passed, s3).
     Option.bind (after ''/'' s3) (\<lambda>s4.
     Option.bind (number_at s4) (\<lambda>(total_n, s5).
     Option.bind (after ''passed'' (dropWhile is_space s5)) (\<lambda>_. Some (passed, total_n)))))))"

fun search_verdict :: "string \<Rightarrow> (string \<times> string) option" where
  "search_verdict [] = None"
| "search_verdict (c # cs) = (case verdict_at (c # cs) of Some r \<Rightarrow> Some r | None \<Rightarrow> search_verdict cs)"

text \<open>\<^verbatim>\<open>RE_UVM_ERR.findall\<close>: every position is tried, since no match holds the start of another.\<close>

definition uvm_error_at :: "string \<Rightarrow> string option" where
  "uvm_error_at s =
     Option.bind (after ''UVM_ERROR'' s) (\<lambda>s1.
     Option.bind (after '':'' (dropWhile is_space s1)) (\<lambda>s2.
     map_option fst (number_at (dropWhile is_space s2))))"

fun find_uvm_errors :: "string \<Rightarrow> string list" where
  "find_uvm_errors [] = []"
| "find_uvm_errors (c # cs) =
     (case uvm_error_at (c # cs) of Some ds \<Rightarrow> ds # find_uvm_errors cs | None \<Rightarrow> find_uvm_errors cs)"

definition uvm_error_count :: "string \<Rightarrow> nat" where
  "uvm_error_count output = (let errs = find_uvm_errors output in if errs = [] then 0 else digits_nat (last errs))"

subsection \<open>One test\<close>

record reg_test =
  rt_name :: string
  rt_config :: string
  rt_elf :: "string option"
  rt_timeout :: "int option"
  rt_expect :: "string option"
  rt_plusargs :: "string list"

record reg_defaults =
  rd_elf :: "string option"
  rd_timeout :: "int option"
  rd_expect :: "string option"

record reg_result =
  rr_name :: string
  rr_result :: string
  rr_steps :: string
  rr_uvm_errors :: nat
  rr_expect :: string
  rr_note :: "string option"

text \<open>\<^verbatim>\<open>a.get(key, b.get(key))\<close>.\<close>

definition first_of :: "'a option \<Rightarrow> 'a option \<Rightarrow> 'a option" where
  "first_of a b = (case a of Some x \<Rightarrow> Some x | None \<Rightarrow> b)"

definition dict_or :: "'a option \<Rightarrow> 'a \<Rightarrow> 'a" where
  "dict_or a x = (case a of Some y \<Rightarrow> y | None \<Rightarrow> x)"

definition client_died :: "string \<Rightarrow> bool" where
  "client_died output \<longleftrightarrow> occurs ''Traceback (most recent call last)'' output \<and> \<not> occurs ''Session complete'' output"

definition judge :: "bool \<Rightarrow> string \<Rightarrow> string" where
  "judge timed_out output =
     (if client_died output then ''error''
      else if timed_out then ''timeout''
      else case search_verdict output of
          Some (passed, total_n) \<Rightarrow>
            if digits_nat passed = digits_nat total_n \<and> uvm_error_count output = 0 then ''pass'' else ''fail''
        | None \<Rightarrow> ''partial'')"

text \<open>The lines of a traceback's foot: not blank, not indented.\<close>

definition foot_lines :: "string \<Rightarrow> string list" where
  "foot_lines output =
     filter (\<lambda>l. strip l \<noteq> [] \<and> hd l \<noteq> CHR '' '' \<and> hd l \<noteq> CHR 0x09) (ModelCrosscheck.splitlines output)"

definition make_command :: "reg_test \<Rightarrow> string option \<Rightarrow> bool \<Rightarrow> string list" where
  "make_command t elf coverage =
     [''make'', if coverage then ''soc_test_cov'' else ''soc_test'', ''CFG_FILE='' @ rt_config t]
     @ (case elf of Some e \<Rightarrow> if e \<noteq> [] then [''ELF='' @ e] else [] | None \<Rightarrow> [])
     @ (if rt_plusargs t \<noteq> [] then [''PLUSARGS='' @ unwords (rt_plusargs t)] else [])"

definition missing_input :: "(string \<Rightarrow> bool) \<Rightarrow> reg_test \<Rightarrow> string option \<Rightarrow> string option" where
  "missing_input exists t elf =
     (if \<not> exists (rt_config t) then Some (''missing config: '' @ rt_config t)
      else case elf of
          Some e \<Rightarrow> if e \<noteq> [] \<and> \<not> exists e then Some (''missing ELF: '' @ e) else None
        | None \<Rightarrow> None)"

definition run_one :: "(string \<Rightarrow> bool) \<Rightarrow> (string list \<Rightarrow> int \<Rightarrow> bool \<times> string) \<Rightarrow> reg_test \<Rightarrow> reg_defaults \<Rightarrow> bool \<Rightarrow> reg_result" where
  "run_one exists simulate t dflt coverage =
     (let elf = first_of (rt_elf t) (rd_elf dflt);
          timeout = dict_or (rt_timeout t) (dict_or (rd_timeout dflt) 900);
          exps = dict_or (rt_expect t) (dict_or (rd_expect dflt) ''pass'')
      in case missing_input exists t elf of
          Some note \<Rightarrow>
            \<lparr>rr_name = rt_name t, rr_result = ''error'', rr_steps = ''-'', rr_uvm_errors = 0, rr_expect = exps, rr_note = Some note\<rparr>
        | None \<Rightarrow>
            let (timed_out, output) = simulate (make_command t elf coverage) timeout;
                foot = foot_lines output
            in \<lparr>rr_name = rt_name t, rr_result = judge timed_out output,
                rr_steps = (case search_verdict output of Some (p, n) \<Rightarrow> p @ ''/'' @ n | None \<Rightarrow> ''-''),
                rr_uvm_errors = uvm_error_count output, rr_expect = exps,
                rr_note = (if client_died output \<and> foot \<noteq> [] then Some (''python client died: '' @ take 90 (last foot)) else None)\<rparr>)"

subsection \<open>The suite\<close>

fun split_commas :: "string \<Rightarrow> string list" where
  "split_commas [] = [[]]"
| "split_commas (c # cs) =
     (if c = CHR '','' then [] # split_commas cs
      else case split_commas cs of l # ls \<Rightarrow> (c # l) # ls | [] \<Rightarrow> [[c]])"

definition changed_results :: "reg_result list \<Rightarrow> reg_result list" where
  "changed_results rs = filter (\<lambda>r. rr_result r \<noteq> rr_expect r) rs"

text \<open>
  \<^verbatim>\<open>main\<close>, for the options \<^verbatim>\<open>--only\<close>, \<^verbatim>\<open>--list\<close> and \<^verbatim>\<open>--coverage\<close>: the exit status with the results. A name that no test
  has ends it with status 1 before any test runs.
\<close>

definition regression_main ::
  "(string \<Rightarrow> bool) \<Rightarrow> (string list \<Rightarrow> int \<Rightarrow> bool \<times> string) \<Rightarrow> string \<Rightarrow> bool \<Rightarrow> bool \<Rightarrow>
    reg_defaults \<Rightarrow> reg_test list \<Rightarrow> int \<times> reg_result list" where
  "regression_main exists simulate only listing coverage dflt tests =
     (let want = split_commas only;
          chosen = (if only = [] then tests else filter (\<lambda>t. rt_name t \<in> set want) tests)
      in if only \<noteq> [] \<and> \<not> set want \<subseteq> rt_name ` set chosen then (1, [])
         else if listing then (0, [])
         else let rs = map (\<lambda>t. run_one exists simulate t dflt coverage) chosen
              in (if changed_results rs \<noteq> [] then 1 else 0, rs))"
subsection \<open>The regression reads what the session printed\<close>

definition verdict_line :: "'d StepResult list \<Rightarrow> string" where
  "verdict_line rs =
     (let total_n = length rs; passed = length (filter ok rs); failed = total_n - passed
      in verdict_head @ str_nat passed @ ''/'' @ str_nat total_n @ '' passed'' @
         (if failed \<noteq> 0 then ''  ('' @ str_nat failed @ '' failed)'' else ''''))"

lemma split_lines_no_newline: "CHR 0x0A \<notin> set l \<Longrightarrow> split_lines l = [l]"
  by (induction l) auto

lemma split_lines_append: "CHR 0x0A \<notin> set l \<Longrightarrow> split_lines (l @ CHR 0x0A # s) = l # split_lines s"
  by (induction l) auto

lemma str_nat_no_newline: "CHR 0x0A \<notin> set (str_nat n)"
proof
  assume "CHR 0x0A \<in> set (str_nat n)"
  then have "is_digit (CHR 0x0A)" using str_nat_digits(1) [of n] by (auto simp: list_all_iff)
  moreover have "\<not> is_digit (CHR 0x0A)" by code_simp
  ultimately show False by simp
qed

text \<open>With a sink set, the line of the verdict reaches it as one line.\<close>

lemma print_summary_lines:
  assumes "sink s = Some ls" "pending_text s = ''''"
  shows "sink (print_summary rs s) = Some (ls @ ['''', rule_line, verdict_line rs, rule_line, ''''])"
proof -
  have r: "CHR 0x0A \<notin> set rule_line" by (simp add: rule_line_def)
  have e: "ends_with_newline newline" "\<not> ends_with_newline ''''" by code_simp+
  have v: "CHR 0x0A \<notin> set (verdict_line rs)"
    using str_nat_no_newline by (simp add: verdict_line_def verdict_head_def Let_def)
  have n: "split_lines (newline @ rule_line) = ['''', rule_line]" "split_lines (rule_line @ newline) = [rule_line, '''']"
    using split_lines_no_newline [OF r] split_lines_append [OF r, of "[]"] by (simp_all add: newline_def)
  show ?thesis
    using split_lines_no_newline [OF v] assms
    by (simp add: print_summary_def out_def e n verdict_line_def Let_def del: split_lines.simps)
qed

lemma verdict_here:
  "verdict_at (''Session complete - '' @ str_nat p @ ''/'' @ str_nat n @ '' passed'' @ s) = Some (str_nat p, str_nat n)"
proof -
  have sp: "is_space (CHR '' '')" "\<not> is_space (CHR ''-'')" "\<not> is_space (CHR ''p'')" "\<not> is_digit (CHR ''/'')" "\<not> is_digit (CHR '' '')"
    by code_simp+
  have a: "after ''Session complete'' (''Session complete - '' @ x) = Some ('' - '' @ x)" for x by (simp add: after_def)
  have b: "after ''-'' (''- '' @ x) = Some ('' '' @ x)" for x by (simp add: after_def)
  have c: "after ''/'' (''/'' @ x) = Some x" for x by (simp add: after_def)
  have d: "after ''passed'' (''passed'' @ x) = Some x" for x by (simp add: after_def)
  have n1: "number_at (str_nat p @ ''/'' @ x) = Some (str_nat p, ''/'' @ x)" for x
    by (rule number_at_str) (simp add: sp)
  have n2: "number_at (str_nat n @ '' passed'' @ x) = Some (str_nat n, '' passed'' @ x)" for x
    by (rule number_at_str) (simp add: sp)
  have w: "dropWhile is_space ('' - '' @ x) = ''- '' @ x" "dropWhile is_space ('' '' @ str_nat p @ x) = str_nat p @ x"
    "dropWhile is_space ('' passed'' @ x) = ''passed'' @ x" for x
    using dropWhile_space_digits by (simp_all add: sp)
  show ?thesis
    unfolding verdict_at_def a b c d n1 n2 w Option.bind.simps prod.case ..
qed

text \<open>Nothing before the line is taken for it: the text does not occur there, and cannot run into the line.\<close>

lemma head_no_overlap: "list_all (\<lambda>k. take (16 - k) verdict_head \<noteq> drop k ''Session complete'') [1..<16]"
  by code_simp

lemma verdict_needs_text:
  assumes "take 16 s \<noteq> ''Session complete''"
  shows "verdict_at s = None"
proof -
  have "length ''Session complete'' = 16" by simp
  with assms have "after ''Session complete'' s = None" by (metis after_def)
  then show ?thesis by (simp only: verdict_at_def Option.bind.simps)
qed

lemma no_verdict_before:
  assumes "\<not> occurs ''Session complete'' pre"
  shows "search_verdict (pre @ verdict_head @ s) = search_verdict (verdict_head @ s)"
  using assms
proof (induction pre)
  case (Cons c cs)
  let ?pat = "''Session complete''" and ?u = "c # cs"
  have "take 16 (?u @ verdict_head @ s) \<noteq> ?pat"
  proof
    assume m: "take 16 (?u @ verdict_head @ s) = ?pat"
    show False
    proof (cases "16 \<le> length ?u")
      case True
      then have "take 16 ?u = ?pat" using m by simp
      moreover have "length ?pat = 16" by simp
      ultimately have "after ?pat ?u \<noteq> None" by (metis after_def option.distinct(1))
      then show False using Cons.prems by simp
    next
      case False
      let ?k = "length ?u"
      have k: "?k \<in> set [1..<16]" using False by simp
      have "?pat = ?u @ take (16 - ?k) (verdict_head @ s)" using m False by (simp only: take_append) simp
      then have "drop ?k ?pat = take (16 - ?k) (verdict_head @ s)" by (metis append_eq_conv_conj)
      moreover have "16 \<le> length verdict_head" by (simp add: verdict_head_def)
      then have "take (16 - ?k) (verdict_head @ s) = take (16 - ?k) verdict_head" by simp
      ultimately show False using head_no_overlap k unfolding list_all_iff by metis
    qed
  qed
  then have "verdict_at (?u @ verdict_head @ s) = None" by (rule verdict_needs_text)
  then show ?case using Cons by simp
qed simp

lemma search_verdict_line:
  assumes "\<not> occurs ''Session complete'' pre"
  shows "search_verdict (pre @ verdict_line rs @ s) = Some (str_nat (length (filter ok rs)), str_nat (length rs))"
proof -
  let ?p = "str_nat (length (filter ok rs))" and ?n = "str_nat (length rs)"
  let ?t = "(if length rs - length (filter ok rs) \<noteq> 0 then ''  ('' @ str_nat (length rs - length (filter ok rs)) @ '' failed)'' else '''') @ s"
  let ?v = "''Session complete - '' @ ?p @ ''/'' @ ?n @ '' passed'' @ ?t"
  have "search_verdict (pre @ verdict_line rs @ s) = search_verdict (verdict_head @ ?p @ ''/'' @ ?n @ '' passed'' @ ?t)"
    using no_verdict_before [OF assms] by (simp add: verdict_line_def Let_def)
  also have "verdict_head @ ?p @ ''/'' @ ?n @ '' passed'' @ ?t = CHR '' '' # CHR '' '' # ?v" by (simp add: verdict_head_def)
  also have "search_verdict (CHR '' '' # CHR '' '' # ?v) = search_verdict ?v"
    by (simp add: verdict_at_def after_def)
  also have "search_verdict ?v = Some (?p, ?n)"
  proof -
    obtain c cs where v: "?v = c # cs" by simp
    show ?thesis unfolding v search_verdict.simps unfolding v [symmetric] verdict_here by simp
  qed
  finally show ?thesis .
qed

subsection \<open>The last report of errors\<close>

lemma find_uvm_errors_append:
  "find_uvm_errors s \<noteq> [] \<Longrightarrow> find_uvm_errors (xs @ s) \<noteq> [] \<and> last (find_uvm_errors (xs @ s)) = last (find_uvm_errors s)"
  by (induction xs) (auto split: option.split)

lemma no_error_skip: "list_all (\<lambda>c. c \<noteq> CHR ''U'') xs \<Longrightarrow> find_uvm_errors (xs @ s) = find_uvm_errors s"
  by (induction xs) (auto simp: uvm_error_at_def after_def)

lemma last_uvm_report:
  assumes "find_uvm_errors fin = []" "fin = [] \<or> \<not> is_digit (hd fin)"
  shows "uvm_error_count (xs @ ''UVM_ERROR :'' @ replicate k (CHR '' '') @ str_nat n @ fin) = n"
proof -
  let ?num = "replicate k (CHR '' '') @ str_nat n @ fin"
  have sp: "is_space (CHR '' '')" "\<not> is_space (CHR '':'')" by code_simp+
  have "dropWhile is_space ?num = str_nat n @ fin"
    using dropWhile_space_digits by (induction k) (simp_all add: sp)
  then have "uvm_error_at (''UVM_ERROR :'' @ ?num) = Some (str_nat n)"
    using number_at_str [OF assms(2), of n] by (simp add: uvm_error_at_def after_def sp)
  moreover have "\<not> is_digit (CHR ''U'')" by code_simp
  then have "list_all (\<lambda>c. c \<noteq> CHR ''U'') (''VM_ERROR :'' @ replicate k (CHR '' '') @ str_nat n)"
    using str_nat_digits(1) [of n] by (auto simp: list_all_iff)
  from no_error_skip [OF this, of fin] have "find_uvm_errors (''VM_ERROR :'' @ ?num) = []" using assms(1) by simp
  ultimately have f: "find_uvm_errors (''UVM_ERROR :'' @ ?num) = [str_nat n]" by simp
  show ?thesis
    using find_uvm_errors_append [of "''UVM_ERROR :'' @ ?num" xs] f str_nat_digits(2) by (simp add: uvm_error_count_def Let_def)
qed

text \<open>
  C36. The regression and the session agree: where the output of a run holds the summary line the session printed, no earlier
  text that looks like one, and a last count of UVM errors, the test is judged a pass exactly when every step of the
  session passed and that count is zero, otherwise a fail; or a timeout when it was killed at its limit.
\<close>

theorem regression_reads_session:
  assumes "\<not> occurs ''Session complete'' pre" "find_uvm_errors fin = []" "fin = [] \<or> \<not> is_digit (hd fin)"
  shows "judge timed_out (pre @ verdict_line rs @ mid @ ''UVM_ERROR :'' @ replicate k (CHR '' '') @ str_nat n @ fin) =
    (if timed_out then ''timeout'' else if list_all ok rs \<and> n = 0 then ''pass'' else ''fail'')"
proof -
  let ?rest = "mid @ ''UVM_ERROR :'' @ replicate k (CHR '' '') @ str_nat n @ fin"
  obtain t where "verdict_line rs @ ?rest = ''  '' @ ''Session complete'' @ t"
    by (simp add: verdict_line_def verdict_head_def Let_def)
  then have "occurs ''Session complete'' (pre @ verdict_line rs @ ?rest)"
    by (simp only:) (intro occurs_append occurs_here)
  then have d: "\<not> client_died (pre @ verdict_line rs @ ?rest)" by (simp add: client_died_def)
  have u: "uvm_error_count (pre @ verdict_line rs @ ?rest) = n"
    using last_uvm_report [OF assms(2,3), of "pre @ verdict_line rs @ mid"] by simp
  have "length (filter ok rs) = length rs \<longleftrightarrow> list_all ok rs"
    by (metis filter_id_conv length_filter_less less_irrefl list_all_iff)
  then show ?thesis
    using search_verdict_line [OF assms(1), of rs ?rest] d u str_nat_digits(2) by (simp add: judge_def)
qed

theorem regression_reads_session_witness:
  "judge False (''UVM_INFO [DBG]'' @ verdict_line [\<lparr>ok = True, msg = '''', data = None :: unit option\<rparr>] @ newline @ ''UVM_ERROR :'' @
     replicate 4 (CHR '' '') @ str_nat 2 @ newline) = ''fail''"
proof -
  have "\<not> occurs ''Session complete'' ''UVM_INFO [DBG]''" "find_uvm_errors newline = []" "\<not> is_digit (hd newline)" by code_simp+
  then have "judge False (''UVM_INFO [DBG]'' @ verdict_line [\<lparr>ok = True, msg = '''', data = None :: unit option\<rparr>] @ newline @ ''UVM_ERROR :'' @
     replicate 4 (CHR '' '') @ str_nat 2 @ newline) = (if False then ''timeout''
     else if list_all ok [\<lparr>ok = True, msg = '''', data = None :: unit option\<rparr>] \<and> (2 :: nat) = 0 then ''pass'' else ''fail'')"
    by (intro regression_reads_session disjI2)
  then show ?thesis by (simp only: if_False) simp
qed

text \<open>The exit status is 0 exactly when every test chosen gave the result it is declared to give.\<close>

lemma regression_exit:
  assumes "only = []"
  shows "fst (regression_main exists simulate only False coverage dflt tests) = 0 \<longleftrightarrow>
    list_all (\<lambda>t. rr_result (run_one exists simulate t dflt coverage) = rr_expect (run_one exists simulate t dflt coverage)) tests"
  by (auto simp: assms regression_main_def changed_results_def filter_empty_conv list_all_iff Let_def)

end
