(* ===== verification/Vcd.thy ===== *)
theory Vcd
  imports TextSearch
begin

text \<open>
  \<^verbatim>\<open>src/src/pydebug/tools/vcd_analyze.py\<close>: the names and value changes of a waveform file, and the timeline of the signals
  whose names match. The lines of the file are a list; the listing of names and the columns printed are left out.
\<close>

subsection \<open>\<^verbatim>\<open>parse_vcd\<close>\<close>

record vcd_state =
  v_header :: bool
  v_scopes :: "string list"
  v_names :: "(string \<times> string) list"
  v_time :: int
  v_changes :: "(int \<times> string \<times> string) list"

definition vcd_init :: vcd_state where
  "vcd_init = \<lparr>v_header = True, v_scopes = [], v_names = [], v_time = 0, v_changes = []\<rparr>"

text \<open>\<^verbatim>\<open>".".join\<close>, and an item of a list.\<close>

fun dotted :: "string list \<Rightarrow> string" where
  "dotted [] = []"
| "dotted [x] = x"
| "dotted (x # xs) = x @ ''.'' @ dotted xs"

definition list_item :: "'a list \<Rightarrow> nat \<Rightarrow> 'a result" where
  "list_item xs i = (if i < length xs then Inr (xs ! i) else Inl IndexError)"

definition vcd_header :: "string \<Rightarrow> vcd_state \<Rightarrow> vcd_state result" where
  "vcd_header line st =
     (let parts = words line in
      if after ''$scope'' line \<noteq> None then
        bindR (list_item parts 2) (\<lambda>s. Inr (st\<lparr>v_scopes := v_scopes st @ [s]\<rparr>))
      else if after ''$upscope'' line \<noteq> None then
        (if v_scopes st = [] then Inl IndexError else Inr (st\<lparr>v_scopes := butlast (v_scopes st)\<rparr>))
      else if after ''$var'' line \<noteq> None then
        bindR (list_item parts 3) (\<lambda>vid. bindR (list_item parts 4) (\<lambda>name.
          Inr (st\<lparr>v_names := setdefault (vid, dotted (v_scopes st @ [name])) (v_names st)\<rparr>)))
      else if after ''$enddefinitions'' line \<noteq> None then Inr (st\<lparr>v_header := False\<rparr>)
      else Inr st)"

definition vcd_body :: "string \<Rightarrow> vcd_state \<Rightarrow> vcd_state result" where
  "vcd_body line st =
     (if hd line = CHR ''#'' then bindR (py_int10 (tl line)) (\<lambda>t. Inr (st\<lparr>v_time := t\<rparr>))
      else if hd line \<in> set ''01xXzZ'' then Inr (st\<lparr>v_changes := v_changes st @ [(v_time st, tl line, [hd line])]\<rparr>)
      else if hd line \<in> set ''br'' then
        (if CHR '' '' \<in> set line
         then Inr (st\<lparr>v_changes := v_changes st @
                [(v_time st, tl (dropWhile (\<lambda>c. c \<noteq> CHR '' '') line), tl (takeWhile (\<lambda>c. c \<noteq> CHR '' '') line))]\<rparr>)
         else Inl (ValueError ''substring not found''))
      else Inr st)"

definition vcd_line :: "string \<Rightarrow> vcd_state \<Rightarrow> vcd_state result" where
  "vcd_line line0 st =
     (let line = strip line0 in
      if line = [] then Inr st else if v_header st then vcd_header line st else vcd_body line st)"

fun vcd_run :: "string list \<Rightarrow> vcd_state \<Rightarrow> vcd_state result" where
  "vcd_run [] st = Inr st"
| "vcd_run (l # ls) st = bindR (vcd_line l st) (vcd_run ls)"

definition parse_vcd :: "string list \<Rightarrow> ((string \<times> string) list \<times> (int \<times> string \<times> string) list) result" where
  "parse_vcd ls = bindR (vcd_run ls vcd_init) (\<lambda>st. Inr (v_names st, v_changes st))"

subsection \<open>The timeline\<close>

definition lower_text :: "string \<Rightarrow> string" where
  "lower_text s = map lower_char s"

definition wanted_ids :: "string list \<Rightarrow> (string \<times> string) list \<Rightarrow> string list" where
  "wanted_ids match names =
     (if match = [] then map fst names
      else map fst (filter (\<lambda>(_, name). list_ex (\<lambda>m. occurs (lower_text m) (lower_text name)) match) names))"

definition timeline ::
  "string list \<Rightarrow> int option \<Rightarrow> int option \<Rightarrow> (string \<times> string) list \<Rightarrow> (int \<times> string \<times> string) list \<Rightarrow> (int \<times> string \<times> string) list" where
  "timeline match after_t before_t names changes =
     map (\<lambda>(t, vid, val). (t, the (map_of names vid), val))
       (filter (\<lambda>(t, vid, val). vid \<in> set (wanted_ids match names) \<and>
           (case after_t of Some a \<Rightarrow> a \<le> t | None \<Rightarrow> True) \<and> (case before_t of Some b \<Rightarrow> t \<le> b | None \<Rightarrow> True)) changes)"

subsection \<open>Files as simulators write them\<close>

text \<open>A scope with its signals (identifier and name) and inner scopes; values of one bit, and vectors or reals.\<close>

datatype vcd_scope = VScope string "(string \<times> string) list" "vcd_scope list"

datatype vcd_value = Bit char | Vector char string

definition var_line :: "string \<times> string \<Rightarrow> string" where
  "var_line = (\<lambda>(vid, name). unwords [''$var'', ''wire'', ''1'', vid, name, ''$end''])"

fun scope_lines :: "vcd_scope \<Rightarrow> string list" where
  "scope_lines (VScope n vars inner) =
     unwords [''$scope'', ''module'', n, ''$end''] # map var_line vars @ concat (map scope_lines inner) @ [''$upscope $end'']"

text \<open>The full name of every signal, by the path to it.\<close>

fun scope_names :: "string list \<Rightarrow> vcd_scope \<Rightarrow> (string \<times> string) list" where
  "scope_names path (VScope n vars inner) =
     map (\<lambda>(vid, x). (vid, dotted (path @ [n, x]))) vars @ concat (map (scope_names (path @ [n])) inner)"

fun change_line :: "string \<times> vcd_value \<Rightarrow> string" where
  "change_line (vid, Bit c) = c # vid"
| "change_line (vid, Vector k bs) = k # bs @ '' '' @ vid"

fun value_text :: "vcd_value \<Rightarrow> string" where
  "value_text (Bit c) = [c]"
| "value_text (Vector k bs) = bs"

definition block_lines :: "nat \<times> (string \<times> vcd_value) list \<Rightarrow> string list" where
  "block_lines = (\<lambda>(t, cs). (''#'' @ str_nat t) # map change_line cs)"

definition block_changes :: "nat \<times> (string \<times> vcd_value) list \<Rightarrow> (int \<times> string \<times> string) list" where
  "block_changes = (\<lambda>(t, cs). map (\<lambda>(vid, v). (int t, vid, value_text v)) cs)"

fun scope_ok :: "vcd_scope \<Rightarrow> bool" where
  "scope_ok (VScope n vars inner) \<longleftrightarrow> word n \<and> list_all (\<lambda>(vid, x). word vid \<and> word x) vars \<and> list_all scope_ok inner"

fun change_ok :: "string \<times> vcd_value \<Rightarrow> bool" where
  "change_ok (vid, Bit c) \<longleftrightarrow> word vid \<and> c \<in> set ''01xXzZ''"
| "change_ok (vid, Vector k bs) \<longleftrightarrow> word vid \<and> k \<in> set ''br'' \<and> list_all (\<lambda>c. \<not> is_space c) bs"

subsection \<open>Reading the file back\<close>

lemma vcd_run_append: "vcd_run (xs @ ys) st = bindR (vcd_run xs st) (vcd_run ys)"
proof (induction xs arbitrary: st)
  case (Cons l ls)
  then show ?case by (cases "vcd_line l st") simp_all
qed simp

lemma strip_unwords: "list_all word ws \<Longrightarrow> ws \<noteq> [] \<Longrightarrow> strip (unwords ws) = unwords ws \<and> unwords ws \<noteq> []"
proof -
  have "list_all word ws \<Longrightarrow> ws \<noteq> [] \<Longrightarrow>
    unwords ws \<noteq> [] \<and> \<not> is_space (hd (unwords ws)) \<and> \<not> is_space (last (unwords ws))"
    by (induction ws rule: unwords.induct) (auto simp: word_def list_all_iff)
  then show "list_all word ws \<Longrightarrow> ws \<noteq> [] \<Longrightarrow> strip (unwords ws) = unwords ws \<and> unwords ws \<noteq> []"
    using strip_id by blast
qed

lemma vcd_header_line:
  assumes "list_all word ws" "ws \<noteq> []" "v_header st"
  shows "vcd_line (unwords ws) st = vcd_header (unwords ws) st"
  using strip_unwords [OF assms(1,2)] assms(3) by (simp add: vcd_line_def)

lemma vcd_words: "word ''$scope''" "word ''$var''" "word ''wire''" "word ''1''" "word ''$end''" "word ''module''" "word ''$upscope''"
  by code_simp+

lemma scope_line:
  assumes "word n" "v_header st"
  shows "vcd_line (unwords [''$scope'', ''module'', n, ''$end'']) st = Inr (st\<lparr>v_scopes := v_scopes st @ [n]\<rparr>)"
proof -
  have ws: "list_all word [''$scope'', ''module'', n, ''$end'']" using assms vcd_words by simp
  have "after ''$scope'' (unwords [''$scope'', ''module'', n, ''$end'']) \<noteq> None" by (simp add: after_def)
  then show ?thesis
    using vcd_header_line [OF ws _ assms(2)] words_unwords [OF ws] by (simp add: vcd_header_def list_item_def)
qed

lemma var_line_run:
  assumes "word vid" "word name" "v_header st"
  shows "vcd_line (var_line (vid, name)) st = Inr (st\<lparr>v_names := setdefault (vid, dotted (v_scopes st @ [name])) (v_names st)\<rparr>)"
proof -
  let ?ws = "[''$var'', ''wire'', ''1'', vid, name, ''$end'']"
  have ws: "list_all word ?ws" using assms vcd_words by simp
  have "after ''$var'' (unwords ?ws) \<noteq> None" "after ''$scope'' (unwords ?ws) = None" "after ''$upscope'' (unwords ?ws) = None"
    by (simp_all add: after_def)
  then show ?thesis
    using vcd_header_line [OF ws _ assms(3)] words_unwords [OF ws] by (simp add: vcd_header_def list_item_def var_line_def)
qed

lemma upscope_run: "v_header st \<Longrightarrow> v_scopes st \<noteq> [] \<Longrightarrow> vcd_line ''$upscope $end'' st = Inr (st\<lparr>v_scopes := butlast (v_scopes st)\<rparr>)"
proof -
  assume st: "v_header st" "v_scopes st \<noteq> []"
  have ws: "list_all word [''$upscope'', ''$end'']" using vcd_words by simp
  have "unwords [''$upscope'', ''$end''] = ''$upscope $end''" by simp
  moreover have "after ''$scope'' ''$upscope $end'' = None" "after ''$upscope'' ''$upscope $end'' \<noteq> None" by code_simp+
  ultimately show ?thesis using vcd_header_line [OF ws _ st(1)] st by (simp add: vcd_header_def)
qed

lemma vars_run:
  assumes "list_all (\<lambda>(vid, x). word vid \<and> word x) vars" "v_header st"
  shows "vcd_run (map var_line vars) st =
    Inr (st\<lparr>v_names := fold setdefault (map (\<lambda>(vid, x). (vid, dotted (v_scopes st @ [x]))) vars) (v_names st)\<rparr>)"
  using assms by (induction vars arbitrary: st) (auto simp: var_line_run)

lemma scope_run:
  "scope_ok s \<Longrightarrow> v_header st \<Longrightarrow>
    vcd_run (scope_lines s) st = Inr (st\<lparr>v_names := fold setdefault (scope_names (v_scopes st) s) (v_names st)\<rparr>)"
proof (induction s arbitrary: st)
  case (VScope n vars inner)
  let ?st = "st\<lparr>v_scopes := v_scopes st @ [n]\<rparr>"
  have inner: "vcd_run (concat (map scope_lines ss)) st' = Inr (st'\<lparr>v_names := fold setdefault (concat (map (scope_names (v_scopes st')) ss)) (v_names st')\<rparr>)"
    if "set ss \<subseteq> set inner" "v_header st'" for ss st'
    using that
  proof (induction ss arbitrary: st')
    case (Cons x xs)
    have "scope_ok x" using VScope.prems(1) Cons.prems(1) by (auto simp: list_all_iff)
    then have "vcd_run (scope_lines x) st' = Inr (st'\<lparr>v_names := fold setdefault (scope_names (v_scopes st') x) (v_names st')\<rparr>)"
      using VScope.IH [of x st'] Cons.prems by simp
    then show ?case using Cons.IH [of "st'\<lparr>v_names := fold setdefault (scope_names (v_scopes st') x) (v_names st')\<rparr>"] Cons.prems
      by (simp add: vcd_run_append)
  qed simp
  have "vcd_line (unwords [''$scope'', ''module'', n, ''$end'']) st = Inr ?st" using VScope.prems by (intro scope_line) simp_all
  moreover have "vcd_run (map var_line vars) ?st =
      Inr (?st\<lparr>v_names := fold setdefault (map (\<lambda>(vid, x). (vid, dotted (v_scopes ?st @ [x]))) vars) (v_names ?st)\<rparr>)"
    using VScope.prems by (intro vars_run) simp_all
  ultimately show ?case
    using VScope.prems by (simp add: vcd_run_append inner upscope_run del: unwords.simps)
qed
lemma digits_val_decimal:
  assumes "list_all is_digit ds" "ds \<noteq> [] \<or> \<not> us"
  shows "digits_val 10 us ds (int a) = Some (int (fold (\<lambda>c acc. 10 * acc + (of_char c - 48)) ds a))"
  using assms
proof (induction ds arbitrary: us a)
  case (Cons c cs)
  have n: "48 \<le> (of_char c :: nat)" "(of_char c :: nat) \<le> 57" using Cons.prems(1) by (auto simp: is_digit_def Let_def)
  have "(of_char c :: int) = int (of_char c)" by (rule of_nat_of_char [symmetric])
  with n have "digit_val c = Some (int (of_char c - 48))" "int (of_char c - 48) < 10" "c \<noteq> CHR ''_''"
    by (auto simp: digit_val_def Let_def)
  with Cons.prems Cons.IH [of False "10 * a + (of_char c - 48)"] show ?case by (simp add: mult.commute)
qed simp

lemma py_int10_str: "py_int10 (str_nat n) = Inr (int n)"
proof -
  obtain c cs where c: "str_nat n = c # cs" using str_nat_digits(3) by (cases "str_nat n") auto
  have d: "is_digit x" if "x \<in> set (str_nat n)" for x using str_nat_digits(1) [of n] that by (auto simp: list_all_iff)
  have "\<not> is_space x" if "is_digit x" for x using that by (auto simp: is_digit_def is_space_def Let_def)
  then have "strip (str_nat n) = str_nat n" using d str_nat_digits(3) by (intro strip_id) simp_all
  moreover have "is_digit c" using d c by simp
  then have "c \<noteq> CHR ''-''" "c \<noteq> CHR ''+''" by (auto simp: is_digit_def)
  moreover have "digits_val 10 True (str_nat n) 0 = Some (int n)"
    using digits_val_decimal [OF str_nat_digits(1), of n True 0] str_nat_digits(2,3) by (simp add: digits_nat_def)
  ultimately show ?thesis using c by (simp add: py_int10_def py_int_by_def Let_def)
qed

lemma word_ends: "word w \<Longrightarrow> w \<noteq> [] \<and> \<not> is_space (last w)"
  by (auto simp: word_def list_all_iff)

lemma not_space_marks: "list_all (\<lambda>c. \<not> is_space c \<and> c \<noteq> CHR ''#'') ''01xXzZbr''" "\<not> is_space (CHR ''#'')"
  by code_simp+

lemma change_run:
  assumes "change_ok c" "\<not> v_header st"
  shows "vcd_line (change_line c) st = Inr (st\<lparr>v_changes := v_changes st @ [(v_time st, fst c, value_text (snd c))]\<rparr>)"
proof (cases c rule: change_line.cases)
  case (1 vid x)
  have x: "\<not> is_space x" "x \<noteq> CHR ''#''" using assms(1) 1 not_space_marks(1) by auto
  have "strip (x # vid) = x # vid" using assms(1) 1 word_ends [of vid] x by (intro strip_id) simp_all
  then show ?thesis using assms 1 x by (simp add: vcd_line_def vcd_body_def)
next
  case (2 vid k bs)
  have k: "\<not> is_space k" "k \<noteq> CHR ''#''" "k \<notin> set ''01xXzZ''" "k \<in> set ''br''" using assms(1) 2 not_space_marks(1) by auto
  have "is_space CHR '' ''" by code_simp
  then have bs: "\<forall>c \<in> set (k # bs). c \<noteq> CHR '' ''" using assms(1) 2 k(1) by (auto simp: list_all_iff)
  have "strip (k # bs @ '' '' @ vid) = k # bs @ '' '' @ vid" using assms(1) 2 word_ends [of vid] k by (intro strip_id) simp_all
  moreover have "takeWhile (\<lambda>c. c \<noteq> CHR '' '') (k # bs @ '' '' @ vid) = k # bs"
    "dropWhile (\<lambda>c. c \<noteq> CHR '' '') (k # bs @ '' '' @ vid) = '' '' @ vid"
    using bs by (simp_all add: takeWhile_append2 dropWhile_append2)
  ultimately show ?thesis using assms(2) 2 k by (simp add: vcd_line_def vcd_body_def)
qed

lemma changes_run:
  assumes "list_all change_ok cs" "\<not> v_header st"
  shows "vcd_run (map change_line cs) st =
    Inr (st\<lparr>v_changes := v_changes st @ map (\<lambda>(vid, v). (v_time st, vid, value_text v)) cs\<rparr>)"
  using assms by (induction cs arbitrary: st) (auto simp: change_run simp del: change_line.simps change_ok.simps)

lemma time_run: "\<not> v_header st \<Longrightarrow> vcd_line (''#'' @ str_nat t) st = Inr (st\<lparr>v_time := int t\<rparr>)"
proof -
  assume st: "\<not> v_header st"
  have "is_digit (last (str_nat t))" using str_nat_digits(1,3) [of t] by (auto simp: list_all_iff)
  then have "\<not> is_space (last (str_nat t))" by (auto simp: is_digit_def is_space_def Let_def)
  then have "strip (''#'' @ str_nat t) = ''#'' @ str_nat t" using not_space_marks(2) str_nat_digits(3) [of t] by (intro strip_id) simp_all
  with st show ?thesis by (simp add: vcd_line_def vcd_body_def py_int10_str)
qed

lemma blocks_run:
  assumes "list_all (\<lambda>b. list_all change_ok (snd b)) bs" "\<not> v_header st"
  shows "\<exists>t. vcd_run (concat (map block_lines bs)) st =
    Inr (st\<lparr>v_time := t, v_changes := v_changes st @ concat (map block_changes bs)\<rparr>)"
  using assms
proof (induction bs arbitrary: st)
  case Nil
  show ?case by (rule exI [of _ "v_time st"]) simp
next
  case (Cons b bs)
  obtain t cs where b: "b = (t, cs)" by force
  let ?st = "st\<lparr>v_time := int t, v_changes := v_changes st @ block_changes b\<rparr>"
  have "vcd_run (block_lines b) st = Inr ?st"
    using Cons.prems b time_run [OF Cons.prems(2), of t] changes_run [of cs "st\<lparr>v_time := int t\<rparr>"]
    by (simp add: block_lines_def block_changes_def)
  moreover obtain t' where "vcd_run (concat (map block_lines bs)) ?st = Inr (?st\<lparr>v_time := t', v_changes := v_changes ?st @ concat (map block_changes bs)\<rparr>)"
    using Cons.IH [of ?st] Cons.prems by auto
  ultimately show ?case by (intro exI [of _ t']) (simp add: vcd_run_append)
qed

text \<open>
  C40. Reading a waveform file gives what was written: for every tree of scopes and every list of times with their value
  changes, the names found are the hierarchical names of the signals, one for each identifier (the first), and the changes are
  all of them, in order, each with its time, identifier and value.
\<close>

theorem vcd_round_trip:
  assumes "scope_ok s" "list_all (\<lambda>b. list_all change_ok (snd b)) bs"
  shows "parse_vcd (scope_lines s @ [''$enddefinitions $end''] @ concat (map block_lines bs)) =
    Inr (fold setdefault (scope_names [] s) [], concat (map block_changes bs))"
proof -
  let ?st = "vcd_init\<lparr>v_names := fold setdefault (scope_names [] s) []\<rparr>"
  have "vcd_run (scope_lines s) vcd_init = Inr ?st" using scope_run [OF assms(1), of vcd_init] by (simp add: vcd_init_def)
  moreover have e: "strip ''$enddefinitions $end'' = ''$enddefinitions $end''" "after ''$scope'' ''$enddefinitions $end'' = None"
    "after ''$upscope'' ''$enddefinitions $end'' = None" "after ''$var'' ''$enddefinitions $end'' = None"
    "after ''$enddefinitions'' ''$enddefinitions $end'' \<noteq> None" by code_simp+
  then have "vcd_line ''$enddefinitions $end'' ?st = Inr (?st\<lparr>v_header := False\<rparr>)"
    by (simp add: vcd_line_def vcd_header_def vcd_init_def)
  moreover obtain t where "vcd_run (concat (map block_lines bs)) (?st\<lparr>v_header := False\<rparr>) =
      Inr (?st\<lparr>v_header := False, v_time := t, v_changes := concat (map block_changes bs)\<rparr>)"
    using blocks_run [OF assms(2), of "?st\<lparr>v_header := False\<rparr>"] by (auto simp: vcd_init_def)
  ultimately show ?thesis by (simp add: parse_vcd_def vcd_run_append)
qed

definition sample_scope :: vcd_scope where
  "sample_scope = VScope ''tb'' [(''!'', ''clk'')] [VScope ''dm'' [(''!'', ''clk_i''), (''a'', ''state_q'')] []]"

definition sample_blocks :: "(nat \<times> (string \<times> vcd_value) list) list" where
  "sample_blocks = [(0, [(''!'', Bit CHR ''0''), (''a'', Vector CHR ''b'' ''0101'')]), (10, [(''!'', Bit CHR ''1'')])]"

theorem vcd_round_trip_witness:
  "parse_vcd (scope_lines sample_scope @ [''$enddefinitions $end''] @ concat (map block_lines sample_blocks)) =
    Inr ([(''!'', ''tb.clk''), (''a'', ''tb.dm.state_q'')],
      [(0, ''!'', ''0''), (0, ''a'', ''0101''), (10, ''!'', ''1'')])"
proof -
  have "scope_ok sample_scope" "list_all (\<lambda>b. list_all change_ok (snd b)) sample_blocks" by code_simp+
  moreover have "fold setdefault (scope_names [] sample_scope) [] = [(''!'', ''tb.clk''), (''a'', ''tb.dm.state_q'')]"
    "concat (map block_changes sample_blocks) = [(0, ''!'', ''0''), (0, ''a'', ''0101''), (10, ''!'', ''1'')]" by code_simp+
  ultimately show ?thesis using vcd_round_trip [of sample_scope sample_blocks] by (simp only:)
qed

text \<open>
  A signal whose identifier was declared before under another name cannot be found by its own: the clock of the inner
  scope above has no timeline.
\<close>

lemma alias_not_found:
  "timeline [''clk_i''] None None (fold setdefault (scope_names [] sample_scope) []) (concat (map block_changes sample_blocks)) = []"
  by code_simp

end
