(* ===== verification/Cli.thy ===== *)
theory Cli
  imports TextSearch UvmTransport AccessSeq
begin

text \<open>
  \<^verbatim>\<open>src/src/pydebug/cli.py\<close>: the configuration of a run, bringing up its transport, and running a scenario to its exit status.
  The operating system is a parameter: the process started, its examination messages, files, the clock (in microseconds) and the
  user's interrupt, which the model lets arrive in the pauses of the three waits and in the attempts to connect. The numbers of a configuration are integers: JSON
  numbers with a fraction are not modelled. Left out are the parsing of the command line, log messages, the routing of
  the printed lines over the bridge, and the subcommands that print or copy files.
\<close>

subsection \<open>Configuration\<close>

type_synonym config = "(string \<times> json) list"

definition SCENARIO_REGISTRY :: "(string \<times> string \<times> string) list" where
  "SCENARIO_REGISTRY =
     [(''halt'', ''pydebug.sequences.halt_sequence'', ''build_halt_sequence''),
      (''step_stall'', ''pydebug.sequences.step_stall_sequence'', ''build_step_stall_sequence''),
      (''step_classes'', ''pydebug.sequences.step_classes_sequence'', ''build_step_classes_sequence''),
      (''cmderr'', ''pydebug.sequences.cmderr_sequence'', ''build_cmderr_sequence''),
      (''debug_entry'', ''pydebug.sequences.debug_entry_sequence'', ''build_debug_entry_sequence''),
      (''dmi_error'', ''pydebug.sequences.dmi_error_sequence'', ''build_dmi_error_sequence''),
      (''step_matrix'', ''pydebug.sequences.step_matrix_sequence'', ''build_step_matrix_sequence''),
      (''run_elf'', ''pydebug.sequences.run_elf_sequence'', ''build_run_elf_sequence''),
      (''dm_corners'', ''pydebug.sequences.dm_corners_sequence'', ''build_dm_corners_sequence''),
      (''cmd_busy'', ''pydebug.sequences.cmd_busy_sequence'', ''build_cmd_busy_sequence''),
      (''cmd_outcome'', ''pydebug.sequences.cmd_outcome_sequence'', ''build_cmd_outcome_sequence''),
      (''priv_irq'', ''pydebug.sequences.priv_irq_sequence'', ''build_priv_irq_sequence''),
      (''read_dmstatus'', ''pydebug.sequences.read_dmstatus_sequence'', ''build_read_dmstatus_sequence''),
      (''mem_scan'', ''pydebug.sequences.mem_scan_sequence'', ''build_mem_scan_sequence''),
      (''run_control'', ''pydebug.sequences.run_control_sequence'', ''build_run_control_sequence''),
      (''reset_ctrl'', ''pydebug.sequences.reset_ctrl_sequence'', ''build_reset_ctrl_sequence''),
      (''halt_on_reset'', ''pydebug.sequences.halt_on_reset_sequence'', ''build_halt_on_reset_sequence''),
      (''dm_activation'', ''pydebug.sequences.dm_activation_sequence'', ''build_dm_activation_sequence''),
      (''hart_selection'', ''pydebug.sequences.hart_selection_sequence'', ''build_hart_selection_sequence''),
      (''gpr_write'', ''pydebug.sequences.gpr_write_sequence'', ''build_gpr_write_sequence''),
      (''csr_access'', ''pydebug.sequences.csr_access_sequence'', ''build_csr_access_sequence''),
      (''program_buffer'', ''pydebug.sequences.program_buffer_sequence'', ''build_program_buffer_sequence''),
      (''single_step'', ''pydebug.sequences.single_step_sequence'', ''build_single_step_sequence''),
      (''sw_breakpoint_progbuf'', ''pydebug.sequences.sw_breakpoint_progbuf_sequence'', ''build_sw_breakpoint_progbuf_sequence''),
      (''external_trigger'', ''pydebug.sequences.external_trigger_sequence'', ''build_external_trigger_sequence''),
      (''sba'', ''pydebug.sequences.sba_sequence'', ''build_sba_sequence''),
      (''report_halt_status'', ''pydebug.sequences.report_halt_status_sequence'', ''build_report_halt_status_sequence''),
      (''discovery'', ''pydebug.sequences.discovery_sequence'', ''build_discovery_sequence''),
      (''trigger'', ''pydebug.sequences.trigger_sequence'', ''build_trigger_sequence''),
      (''hart_array'', ''pydebug.sequences.hart_array_sequence'', ''build_hart_array_sequence''),
      (''reset_values'', ''pydebug.sequences.reset_values_sequence'', ''build_reset_values_sequence'')]"

definition CONFIG_DEFAULTS :: config where
  "CONFIG_DEFAULTS =
     [(''scenario'', JStr ''halt''), (''transport'', JStr ''uvm''), (''mode'', JStr ''batch''),
      (''params'', JObj []), (''uvm'', JObj []), (''openocd'', JObj [])]"

definition load_config :: "(string \<Rightarrow> json result) \<Rightarrow> string \<Rightarrow> config result" where
  "load_config files path =
     bindR (files path) (\<lambda>j. case j of
         JObj kvs \<Rightarrow> Inr (fold setdefault CONFIG_DEFAULTS kvs)
       | _ \<Rightarrow> Inl (AttributeError ''setdefault''))"

definition dict_item :: "config \<Rightarrow> string \<Rightarrow> json result" where
  "dict_item conf k = (case map_of conf k of Some v \<Rightarrow> Inr v | None \<Rightarrow> Inl (KeyError k))"

definition dict_set :: "string \<Rightarrow> json \<Rightarrow> config \<Rightarrow> config" where
  "dict_set k v conf = (if k \<in> fst ` set conf then map (\<lambda>(k', v'). (k', if k' = k then v else v')) conf else conf @ [(k, v)])"

text \<open>\<^verbatim>\<open>cfg.get(k, {})\<close> of a section whose entries are asked for next.\<close>

definition sub_config :: "config \<Rightarrow> string \<Rightarrow> config result" where
  "sub_config conf k = (case map_of conf k of
      None \<Rightarrow> Inr []
    | Some (JObj kvs) \<Rightarrow> Inr kvs
    | Some _ \<Rightarrow> Inl (AttributeError ''get''))"

definition get_or :: "config \<Rightarrow> string \<Rightarrow> json \<Rightarrow> json" where
  "get_or conf k v = (case map_of conf k of Some x \<Rightarrow> x | None \<Rightarrow> v)"

text \<open>The transport and what it is built from; a timeout that is not given is the default of ten seconds.\<close>

datatype transport_choice = Uvm_choice json "json option" | Openocd_choice json json

definition create_transport :: "config \<Rightarrow> transport_choice result" where
  "create_transport conf =
     bindR (dict_item conf ''transport'') (\<lambda>t.
       if t = JStr ''uvm'' then
         bindR (sub_config conf ''uvm'') (\<lambda>u.
           Inr (Uvm_choice (get_or u ''socket_path'' (JStr ''/tmp/uvm_bridge.sock'')) (map_of u ''timeout'')))
       else if t = JStr ''openocd'' then
         bindR (sub_config conf ''openocd'') (\<lambda>oc.
           Inr (Openocd_choice (get_or oc ''host'' (JStr ''127.0.0.1'')) (get_or oc ''port'' (JInt 6666))))
       else Inl (ValueError ''Unknown transport''))"

definition load_scenario_builder :: "json \<Rightarrow> (string \<times> string) result" where
  "load_scenario_builder name = (case name of
      JStr s \<Rightarrow> (case map_of SCENARIO_REGISTRY s of Some entry \<Rightarrow> Inr entry | None \<Rightarrow> Inl (ValueError ''Unknown scenario''))
    | JArr _ \<Rightarrow> Inl (TypeError ''unhashable'')
    | JObj _ \<Rightarrow> Inl (TypeError ''unhashable'')
    | _ \<Rightarrow> Inl (ValueError ''Unknown scenario''))"

definition convert_param :: "string \<times> json \<Rightarrow> (string \<times> json) result" where
  "convert_param = (\<lambda>(k, v). case v of
      JStr s \<Rightarrow> if after ''0x'' s \<noteq> None then bindR (py_int_by unsigned_int16 s) (\<lambda>n. Inr (k, JInt n)) else Inr (k, v)
    | _ \<Rightarrow> Inr (k, v))"

definition convert_params :: "json \<Rightarrow> config result" where
  "convert_params params = (case params of JObj kvs \<Rightarrow> mapR convert_param kvs | _ \<Rightarrow> Inl (AttributeError ''items''))"

record run_args =
  ra_config :: "string option"
  ra_scenario :: "string option"
  ra_transport :: "string option"
  ra_mode :: "string option"
  ra_openocd_config :: "string option"

text \<open>An option that is given and not empty.\<close>

definition given :: "string option \<Rightarrow> string option" where
  "given a = (case a of Some s \<Rightarrow> if s = [] then None else Some s | None \<Rightarrow> None)"

definition override :: "string \<Rightarrow> string option \<Rightarrow> config \<Rightarrow> config" where
  "override k a conf = (case given a of Some s \<Rightarrow> dict_set k (JStr s) conf | None \<Rightarrow> conf)"

definition override_openocd :: "string option \<Rightarrow> config \<Rightarrow> config result" where
  "override_openocd a conf = (case given a of
      None \<Rightarrow> Inr conf
    | Some s \<Rightarrow> bindR (dict_item conf ''openocd'') (\<lambda>j. case j of
          JObj oc \<Rightarrow> Inr (dict_set ''openocd'' (JObj (dict_set ''config'' (JStr s) oc)) conf)
        | _ \<Rightarrow> Inl (TypeError ''item assignment'')))"

definition run_config :: "(string \<Rightarrow> json result) \<Rightarrow> run_args \<Rightarrow> config result" where
  "run_config files a =
     bindR (case given (ra_config a) of Some path \<Rightarrow> load_config files path | None \<Rightarrow> Inr CONFIG_DEFAULTS) (\<lambda>conf.
       override_openocd (ra_openocd_config a)
         (override ''mode'' (ra_mode a) (override ''transport'' (ra_transport a) (override ''scenario'' (ra_scenario a) conf))))"

subsection \<open>Bringing up the transport\<close>

text \<open>
  What the run asks of the operating system. \<^verbatim>\<open>time.sleep\<close> tells whether an interrupt ended it; the attempt to connect, which pauses
  too, whether it succeeded, or \<open>None\<close> for an interrupt.
\<close>

record 'w os =
  os_which :: "string option"
  os_cwd :: string
  os_popen :: "string list \<Rightarrow> 'w \<Rightarrow> (py_error + unit) \<times> 'w"
  os_poll :: "'w \<Rightarrow> int option \<times> 'w"
  os_terminate :: "'w \<Rightarrow> 'w"
  os_wait :: "'w \<Rightarrow> (py_error + unit) \<times> 'w"
  os_exam :: "'w \<Rightarrow> bool \<times> 'w"
  os_exam_failed :: "'w \<Rightarrow> bool \<times> 'w"
  os_exists :: "json \<Rightarrow> 'w \<Rightarrow> bool \<times> 'w"
  os_tcl_connect :: "'w \<Rightarrow> bool option \<times> 'w"
  os_time :: "'w \<Rightarrow> int \<times> 'w"
  os_sleep :: "'w \<Rightarrow> bool \<times> 'w"

text \<open>The world, whether OpenOCD was started, and whether it was told to terminate or seen to have exited.\<close>

record 'w cli_state =
  c_world :: 'w
  c_started :: bool
  c_stopped :: bool

datatype cli_stop = Exits int | Fails py_error | Interrupted | Debug_fails dbg_error

type_synonym ('w, 'a) cli = "'w cli_state \<Rightarrow> ((cli_stop + 'a) \<times> 'w cli_state) option"

definition returnC :: "'a \<Rightarrow> ('w, 'a) cli" where
  "returnC x = (\<lambda>c. Some (Inr x, c))"

definition bindC :: "('w, 'a) cli \<Rightarrow> ('a \<Rightarrow> ('w, 'b) cli) \<Rightarrow> ('w, 'b) cli" where
  "bindC m f = (\<lambda>c. case m c of
      None \<Rightarrow> None
    | Some (Inl e, c1) \<Rightarrow> Some (Inl e, c1)
    | Some (Inr x, c1) \<Rightarrow> f x c1)"

definition liftC :: "'a result \<Rightarrow> ('w, 'a) cli" where
  "liftC r = (\<lambda>c. Some (case r of Inl e \<Rightarrow> Inl (Fails e) | Inr x \<Rightarrow> Inr x, c))"

definition ask :: "('w \<Rightarrow> 'a \<times> 'w) \<Rightarrow> 'w cli_state \<Rightarrow> 'a \<times> 'w cli_state" where
  "ask f c = (let (x, w) = f (c_world c) in (x, c\<lparr>c_world := w\<rparr>))"

definition askC :: "('w \<Rightarrow> 'a \<times> 'w) \<Rightarrow> ('w, 'a) cli" where
  "askC f = (\<lambda>c. let (x, c1) = ask f c in Some (Inr x, c1))"

definition terminate_ocd :: "'w os \<Rightarrow> 'w cli_state \<Rightarrow> 'w cli_state" where
  "terminate_ocd S c = c\<lparr>c_world := os_terminate S (c_world c), c_stopped := True\<rparr>"

definition poll_ocd :: "'w os \<Rightarrow> 'w cli_state \<Rightarrow> int option \<times> 'w cli_state" where
  "poll_ocd S c = (let (rc, c1) = ask (os_poll S) c in (rc, if rc = None then c1 else c1\<lparr>c_stopped := True\<rparr>))"

definition start_ocd :: "'w os \<Rightarrow> string list \<Rightarrow> ('w, unit) cli" where
  "start_ocd S command = (\<lambda>c. let (r, c1) = ask (os_popen S command) c in
     case r of Inl e \<Rightarrow> Some (Inl (Fails e), c1) | Inr _ \<Rightarrow> Some (Inr (), c1\<lparr>c_started := True, c_stopped := False\<rparr>))"

text \<open>
  Wait for the examination: a failure, an early exit or the deadline ends the run with status 1. An interrupt in a pause leaves
  the loop and the function, which has no \<^verbatim>\<open>try\<close> around it.
\<close>

partial_function (option) exam_loop :: "'w os \<Rightarrow> int \<Rightarrow> 'w cli_state \<Rightarrow> ((cli_stop + unit) \<times> 'w cli_state) option" where
  "exam_loop S deadline c =
     (let (done, c1) = ask (os_exam S) c in
      if done then Some (Inr (), c1)
      else let (bad, c2) = ask (os_exam_failed S) c1 in
      if bad then Some (Inl (Exits 1), terminate_ocd S c2)
      else let (rc, c3) = poll_ocd S c2 in
      if rc \<noteq> None then Some (Inl (Exits 1), c3)
      else let (now, c4) = ask (os_time S) c3 in
      if deadline \<le> now then Some (Inl (Exits 1), terminate_ocd S c4)
      else let (interrupt, c5) = ask (os_sleep S) c4 in
      if interrupt then Some (Inl Interrupted, c5)
      else exam_loop S deadline c5)"

partial_function (option) socket_loop :: "'w os \<Rightarrow> json \<Rightarrow> int \<Rightarrow> 'w cli_state \<Rightarrow> ((cli_stop + unit) \<times> 'w cli_state) option" where
  "socket_loop S path deadline c =
     (let (there, c1) = ask (os_exists S path) c in
      if there then Some (Inr (), c1)
      else let (now, c2) = ask (os_time S) c1 in
      if deadline \<le> now then Some (Inl (Exits 1), c2)
      else let (interrupt, c3) = ask (os_sleep S) c2 in
      if interrupt then Some (Inl Interrupted, c3)
      else socket_loop S path deadline c3)"

partial_function (option) tcl_loop :: "'w os \<Rightarrow> int \<Rightarrow> 'w cli_state \<Rightarrow> ((cli_stop + unit) \<times> 'w cli_state) option" where
  "tcl_loop S deadline c =
     (let (now, c1) = ask (os_time S) c in
      if \<not> now < deadline then Some (Inl (Exits 1), terminate_ocd S c1)
      else let (connected, c2) = ask (os_tcl_connect S) c1 in
      if connected = Some True then Some (Inr (), c2)
      else if connected = None then Some (Inl Interrupted, c2)
      else let (rc, c3) = poll_ocd S c2 in
      if rc \<noteq> None then Some (Inl (Exits 1), c3)
      else let (interrupt, c4) = ask (os_sleep S) c3 in
      if interrupt then Some (Inl Interrupted, c4)
      else tcl_loop S deadline c4)"

definition text_of :: "json \<Rightarrow> string result" where
  "text_of j = (case j of JStr s \<Rightarrow> Inr s | _ \<Rightarrow> Inl (TypeError ''str''))"

definition join_path :: "string \<Rightarrow> string \<Rightarrow> string" where
  "join_path dir s = (if dir \<noteq> [] \<and> last dir = CHR ''/'' then dir @ s else dir @ ''/'' @ s)"

definition openocd_command :: "'w os \<Rightarrow> config \<Rightarrow> string list result" where
  "openocd_command S oc =
     (let bin = get_or oc ''bin'' (JStr ''*openocd*'');
          bin1 = (if bin = JStr ''*openocd*'' then JStr (case os_which S of Some s \<Rightarrow> s | None \<Rightarrow> ''openocd'') else bin)
      in bindR (text_of (get_or oc ''config'' (JStr ''openocd_bitbang.cfg''))) (\<lambda>raw_path.
         bindR (text_of bin1) (\<lambda>b.
           Inr [b, ''-f'', if after ''/'' raw_path \<noteq> None then raw_path else join_path (os_cwd S) raw_path])))"

text \<open>
  \<^verbatim>\<open>time.time() + wait\<close> for a value of the configuration in seconds: a Boolean is a number, an integer is made a float first, and
  anything else raises.
\<close>

definition wait_of :: "json \<Rightarrow> int result" where
  "wait_of j = (case j of
      JInt n \<Rightarrow> if \<bar>n\<bar> < 2 ^ 1024 - 2 ^ 970 then Inr (n * 1000000) else Inl (OverflowError ''int too large to convert to float'')
    | JBool b \<Rightarrow> Inr (int_of_bool b * 1000000)
    | _ \<Rightarrow> Inl (TypeError ''+''))"

definition await :: "'w os \<Rightarrow> (int \<Rightarrow> ('w, unit) cli) \<Rightarrow> json \<Rightarrow> ('w, unit) cli" where
  "await S loop wait = bindC (askC (os_time S)) (\<lambda>now. bindC (liftC (wait_of wait)) (\<lambda>w. loop (now + w)))"

text \<open>What \<^verbatim>\<open>os.path.exists\<close> takes: a path, or an integer as a file descriptor.\<close>

definition path_arg :: "json \<Rightarrow> json result" where
  "path_arg j = (case j of
      JStr s \<Rightarrow> Inr j
    | JBool b \<Rightarrow> Inr j
    | JInt n \<Rightarrow> if - (2 ^ 31) \<le> n \<and> n < 2 ^ 31 then Inr j else Inl (OverflowError ''fd'')
    | _ \<Rightarrow> Inl (TypeError ''path''))"

definition startup_wait :: "config \<Rightarrow> int \<Rightarrow> json" where
  "startup_wait section seconds = get_or section ''startup_wait'' (JInt seconds)"

text \<open>The transport, and whether an OpenOCD process was started for it.\<close>

definition connect_transport :: "'w os \<Rightarrow> config \<Rightarrow> ('w, transport_choice \<times> bool) cli" where
  "connect_transport S conf =
     bindC (liftC (dict_item conf ''transport'')) (\<lambda>t.
       if t = JStr ''openocd'' then
         bindC (liftC (sub_config conf ''openocd'')) (\<lambda>oc.
         bindC (liftC (openocd_command S oc)) (\<lambda>command.
         bindC (start_ocd S command) (\<lambda>_.
         bindC (await S (exam_loop S) (startup_wait oc 60)) (\<lambda>_.
         bindC (liftC (create_transport conf)) (\<lambda>choice.
         bindC (await S (tcl_loop S) (startup_wait oc 30)) (\<lambda>_. returnC (choice, True)))))))
       else if t = JStr ''uvm'' then
         bindC (liftC (sub_config conf ''uvm'')) (\<lambda>u.
         bindC (await S (\<lambda>deadline. bindC (liftC (path_arg (get_or u ''socket_path'' (JStr ''/tmp/uvm_bridge.sock''))))
                                      (\<lambda>path. socket_loop S path deadline)) (startup_wait u 60)) (\<lambda>_.
         bindC (liftC (create_transport conf)) (\<lambda>choice. returnC (choice, False))))
       else bindC (liftC (create_transport conf)) (\<lambda>choice. returnC (choice, False)))"

subsection \<open>Running a scenario\<close>

text \<open>
  The body of \<^verbatim>\<open>with transport\<close>: build the session, run it, tell the transport how many steps failed (only the bridge to a
  simulator keeps it) and leave with the status. An interrupt leaves before that.
\<close>

definition run_scenario ::
  "'s transport \<Rightarrow> (int \<Rightarrow> 's \<Rightarrow> 's) \<Rightarrow> (('s, 'x) seq_session \<times> 'x) result \<Rightarrow> string list \<Rightarrow> 's \<Rightarrow> (dbg_error + cli_stop) \<times> 's" where
  "run_scenario T tell built inp =
     with_transport T (\<lambda>s. case built of
         Inl e \<Rightarrow> (Inl (Raised e), s)
       | Inr (session, x) \<Rightarrow>
           (case run_session session inp (RISCVDebug_init s, x) of
              (session1, interrupted, _, (d, _)) \<Rightarrow>
                if interrupted then (Inr Interrupted, t_state d)
                else (Inr (Exits (if all_passed session1 then 0 else 1)), tell (int (failed_count session1)) (t_state d))))"

text \<open>The \<^verbatim>\<open>finally\<close> of \<^verbatim>\<open>cmd_run\<close>: an OpenOCD process is told to terminate and waited for; an error of waiting replaces the outcome.\<close>

definition stop_ocd :: "'w os \<Rightarrow> bool \<Rightarrow> cli_stop \<Rightarrow> 'w cli_state \<Rightarrow> cli_stop \<times> 'w cli_state" where
  "stop_ocd S started r c =
     (if \<not> started then (r, c)
      else let (waited, c1) = ask (os_wait S) (terminate_ocd S c)
           in (case waited of Inl e \<Rightarrow> Fails e | Inr _ \<Rightarrow> r, c1))"

text \<open>
  \<^verbatim>\<open>cmd_run\<close>; the scenario, from its builder, the mode and the parameters, is a function that may not end. Over the bridge it is
  \<open>run_scenario\<close> on the wire, for what the builder of that name and its parameters builds.
\<close>

type_synonym 'w scenario = "transport_choice \<Rightarrow> string \<times> string \<Rightarrow> json \<Rightarrow> config \<Rightarrow> 'w \<Rightarrow> (cli_stop \<times> 'w) option"

definition bridge_scenario ::
  "'w socket \<Rightarrow> (nat \<Rightarrow> int) \<Rightarrow> (string \<times> string \<Rightarrow> json \<Rightarrow> config \<Rightarrow> (('w UVMTransport, 'x) seq_session \<times> 'x) result) \<Rightarrow>
    string list \<Rightarrow> 'w scenario" where
  "bridge_scenario K clk build inp choice builder md params w =
     (case run_scenario (uvm_transport K clk) set_session_result (build builder md params) inp (UVMTransport_init w) of
        (Inl e, u) \<Rightarrow> Some (Debug_fails e, u_wire u)
      | (Inr r, u) \<Rightarrow> Some (r, u_wire u))"

definition cmd_run ::
  "'w os \<Rightarrow> (string \<Rightarrow> json result) \<Rightarrow> 'w scenario \<Rightarrow> run_args \<Rightarrow> ('w, unit) cli" where
  "cmd_run S files scenario a =
     bindC (liftC (run_config files a)) (\<lambda>conf.
     bindC (liftC (dict_item conf ''scenario'')) (\<lambda>name.
     bindC (liftC (dict_item conf ''mode'')) (\<lambda>md.
     bindC (liftC (load_scenario_builder name)) (\<lambda>builder.
     bindC (liftC (convert_params (get_or conf ''params'' (JObj [])))) (\<lambda>params.
     bindC (connect_transport S conf) (\<lambda>(choice, started) c.
       case scenario choice builder md params (c_world c) of
         None \<Rightarrow> None
       | Some (r, w) \<Rightarrow> let (r1, c2) = stop_ocd S started r (c\<lparr>c_world := w\<rparr>) in Some (Inl r1, c2)))))))"

subsection \<open>When the process is stopped\<close>

text \<open>
  What is relied on of the clock: from any state only finitely many readings (\<open>left\<close> of them) come before a given time, and
  the other questions do not add to them.
\<close>

definition clock_runs :: "'w os \<Rightarrow> (int \<Rightarrow> 'w \<Rightarrow> nat) \<Rightarrow> bool" where
  "clock_runs S left \<longleftrightarrow>
     (\<forall>t w. left t (snd (os_time S w)) \<le> left t w \<and> (fst (os_time S w) < t \<longrightarrow> left t (snd (os_time S w)) < left t w)) \<and>
     (\<forall>t w. left t (snd (os_exam S w)) \<le> left t w \<and> left t (snd (os_exam_failed S w)) \<le> left t w \<and>
        left t (snd (os_poll S w)) \<le> left t w \<and> left t (snd (os_tcl_connect S w)) \<le> left t w \<and> left t (snd (os_sleep S w)) \<le> left t w) \<and>
     (\<forall>t w path. left t (snd (os_exists S path w)) \<le> left t w)"

lemma clock_runsD:
  assumes "clock_runs S left"
  shows "os_time S w = (now, w') \<Longrightarrow> now < t \<Longrightarrow> left t w' < left t w"
    "os_exam S w = (b, w') \<Longrightarrow> left t w' \<le> left t w" "os_exam_failed S w = (b, w') \<Longrightarrow> left t w' \<le> left t w"
    "os_poll S w = (rc, w') \<Longrightarrow> left t w' \<le> left t w" "os_tcl_connect S w = (up, w') \<Longrightarrow> left t w' \<le> left t w"
    "os_exists S path w = (b, w') \<Longrightarrow> left t w' \<le> left t w" "os_sleep S w = (b, w') \<Longrightarrow> left t w' \<le> left t w"
  using assms unfolding clock_runs_def by (metis fst_conv snd_conv)+

definition interruptible :: "'w os \<Rightarrow> bool" where
  "interruptible S \<longleftrightarrow> (\<exists>w. fst (os_sleep S w) \<or> fst (os_tcl_connect S w) = None)"

definition no_orphan :: "'w cli_state \<Rightarrow> bool" where
  "no_orphan c \<longleftrightarrow> (c_started c \<longrightarrow> c_stopped c)"

text \<open>
  From states that satisfy \<open>I\<close>: ends, and when it stops the run then with no orphan or for a reason in \<open>E\<close>, otherwise with a
  result and a state that satisfy \<open>Q\<close>.
\<close>

definition cli_ends :: "cli_stop set \<Rightarrow> ('w cli_state \<Rightarrow> bool) \<Rightarrow> ('a \<Rightarrow> 'w cli_state \<Rightarrow> bool) \<Rightarrow> ('w, 'a) cli \<Rightarrow> bool" where
  "cli_ends E I Q m \<longleftrightarrow> (\<forall>c. I c \<longrightarrow> (\<exists>r c'. m c = Some (r, c') \<and> (case r of Inl e \<Rightarrow> no_orphan c' \<or> e \<in> E | Inr x \<Rightarrow> Q x c')))"

lemma cli_ends_bind:
  assumes "cli_ends E I R m" "\<And>x. cli_ends E (R x) Q (f x)"
  shows "cli_ends E I Q (bindC m f)"
  unfolding cli_ends_def
proof (intro allI impI)
  fix c assume "I c"
  then obtain r c1 where m: "m c = Some (r, c1)" "case r of Inl e \<Rightarrow> no_orphan c1 \<or> e \<in> E | Inr x \<Rightarrow> R x c1"
    using assms(1) unfolding cli_ends_def by blast
  show "\<exists>r c'. bindC m f c = Some (r, c') \<and> (case r of Inl e \<Rightarrow> no_orphan c' \<or> e \<in> E | Inr x \<Rightarrow> Q x c')"
  proof (cases r)
    case (Inr x)
    with m(2) have "R x c1" by simp
    then show ?thesis using assms(2) [of x] m(1) Inr unfolding cli_ends_def by (auto simp: bindC_def)
  qed (use m in \<open>simp add: bindC_def\<close>)
qed

lemma cli_ends_return: "(\<And>c. I c \<Longrightarrow> Q x c) \<Longrightarrow> cli_ends E I Q (returnC x)"
  by (simp add: cli_ends_def returnC_def)

text \<open>The loops on the process: a run they stop leaves it stopped, unless an interrupt stopped them.\<close>

definition waits_well :: "'w os \<Rightarrow> ('w, unit) cli \<Rightarrow> bool" where
  "waits_well S m \<longleftrightarrow> (\<forall>c. \<exists>r c'. m c = Some (r, c') \<and> c_started c' = c_started c \<and>
     (\<forall>e. r = Inl e \<longrightarrow> c_stopped c' \<or> e = Interrupted \<and> interruptible S))"

lemma slept: "os_sleep S w = (b, w') \<Longrightarrow> b \<Longrightarrow> interruptible S" "os_tcl_connect S w = (None, w') \<Longrightarrow> interruptible S"
  unfolding interruptible_def by (rule exI [of _ w], simp)+

lemma exam_loop_ends:
  assumes "clock_runs S left"
  shows "waits_well S (exam_loop S t)"
  unfolding waits_well_def
proof
  let ?P = "\<lambda>c r c'. exam_loop S t c = Some (r, c') \<and> c_started c' = c_started c \<and> (\<forall>e. r = Inl e \<longrightarrow> c_stopped c' \<or> e = Interrupted \<and> interruptible S)"
  fix c show "\<exists>r c'. ?P c r c'"
  proof (induction "left t (c_world c)" arbitrary: c rule: less_induct)
    case less
    obtain b1 w1 where 1: "os_exam S (c_world c) = (b1, w1)" by force
    obtain b2 w2 where 2: "os_exam_failed S w1 = (b2, w2)" by force
    obtain rc w3 where 3: "os_poll S w2 = (rc, w3)" by force
    obtain now w4 where 4: "os_time S w3 = (now, w4)" by force
    obtain b5 w5 where 5: "os_sleep S w4 = (b5, w5)" by force
    have "left t w3 \<le> left t (c_world c)" using clock_runsD(2,3,4) [OF assms] 1 2 3 by (meson order_trans)
    then have "now < t \<Longrightarrow> left t w5 < left t (c_world c)"
      using clock_runsD(1) [OF assms 4, of t] clock_runsD(7) [OF assms 5, of t] by simp
    then have IH: "now < t \<Longrightarrow> \<exists>r c'. exam_loop S t (c\<lparr>c_world := w5\<rparr>) = Some (r, c') \<and> c_started c' = c_started c \<and>
        (\<forall>e. r = Inl e \<longrightarrow> c_stopped c' \<or> e = Interrupted \<and> interruptible S)"
      using less [of "c\<lparr>c_world := w5\<rparr>"] by simp
    show ?case
      using IH slept(1) [OF 5] by (subst exam_loop.simps) (auto simp: ask_def poll_ocd_def terminate_ocd_def 1 2 3 4 5 not_le)
  qed
qed

lemma tcl_loop_ends:
  assumes "clock_runs S left"
  shows "waits_well S (tcl_loop S t)"
  unfolding waits_well_def
proof
  let ?P = "\<lambda>c r c'. tcl_loop S t c = Some (r, c') \<and> c_started c' = c_started c \<and> (\<forall>e. r = Inl e \<longrightarrow> c_stopped c' \<or> e = Interrupted \<and> interruptible S)"
  fix c show "\<exists>r c'. ?P c r c'"
  proof (induction "left t (c_world c)" arbitrary: c rule: less_induct)
    case less
    obtain now w1 where 1: "os_time S (c_world c) = (now, w1)" by force
    obtain b w2 where 2: "os_tcl_connect S w1 = (b, w2)" by force
    obtain rc w3 where 3: "os_poll S w2 = (rc, w3)" by force
    obtain b4 w4 where 4: "os_sleep S w3 = (b4, w4)" by force
    have "left t w4 \<le> left t w1" using clock_runsD(4,5,7) [OF assms] 2 3 4 by (meson order_trans)
    then have IH: "now < t \<Longrightarrow> \<exists>r c'. tcl_loop S t (c\<lparr>c_world := w4\<rparr>) = Some (r, c') \<and> c_started c' = c_started c \<and>
        (\<forall>e. r = Inl e \<longrightarrow> c_stopped c' \<or> e = Interrupted \<and> interruptible S)"
      using less [of "c\<lparr>c_world := w4\<rparr>"] clock_runsD(1) [OF assms 1, of t] by simp
    show ?case
      using IH slept(1) [OF 4] slept(2) [of S w1] by (subst tcl_loop.simps) (auto simp: ask_def poll_ocd_def terminate_ocd_def 1 2 3 4)
  qed
qed

lemma socket_loop_ends:
  assumes "clock_runs S left"
  shows "cli_ends E (\<lambda>c. \<not> c_started c) (\<lambda>_ c. \<not> c_started c) (socket_loop S path t)"
proof -
  have "\<exists>r c'. socket_loop S path t c = Some (r, c') \<and> c_started c' = c_started c" for c
  proof (induction "left t (c_world c)" arbitrary: c rule: less_induct)
    case less
    obtain b w1 where 1: "os_exists S path (c_world c) = (b, w1)" by force
    obtain now w2 where 2: "os_time S w1 = (now, w2)" by force
    obtain b3 w3 where 3: "os_sleep S w2 = (b3, w3)" by force
    have "now < t \<Longrightarrow> left t w3 < left t (c_world c)"
      using clock_runsD(1) [OF assms 2, of t] clock_runsD(6) [OF assms 1, of t] clock_runsD(7) [OF assms 3, of t] by simp
    then have IH: "now < t \<Longrightarrow> \<exists>r c'. socket_loop S path t (c\<lparr>c_world := w3\<rparr>) = Some (r, c') \<and> c_started c' = c_started c"
      using less [of "c\<lparr>c_world := w3\<rparr>"] by simp
    show ?case using IH by (subst socket_loop.simps) (auto simp: ask_def 1 2 3 not_le)
  qed
  then show ?thesis unfolding cli_ends_def no_orphan_def by (fastforce split: sum.split)
qed

lemma bindC_lift [simp]:
  "bindC (liftC (Inr x)) f = f x" "bindC (liftC (Inl e)) f = (\<lambda>c. Some (Inl (Fails e), c))"
  by (simp_all add: bindC_def liftC_def)

lemma unstarted_fails: "cli_ends E (\<lambda>c. \<not> c_started c) Q (\<lambda>c. Some (Inl e, c))"
  by (simp add: cli_ends_def no_orphan_def)

lemma excused_fails: "e \<in> E \<Longrightarrow> cli_ends E I Q (\<lambda>c. Some (Inl e, c))"
  by (simp add: cli_ends_def)

lemma await_ends:
  assumes "\<And>t. cli_ends E I (\<lambda>_. I) (loop t)" "\<And>c w. I c \<Longrightarrow> I (c\<lparr>c_world := w\<rparr>)"
    and "\<And>e. wait_of wait = Inl e \<Longrightarrow> Fails e \<in> E"
  shows "cli_ends E I (\<lambda>_. I) (await S loop wait)"
proof -
  have "cli_ends E I (\<lambda>_. I) (askC (os_time S))"
    using assms(2) by (auto simp: cli_ends_def askC_def ask_def split: prod.split)
  moreover have "cli_ends E I (\<lambda>_. I) (bindC (liftC (wait_of wait)) (\<lambda>w. loop (now + w)))" for now
    using assms(1,3) by (cases "wait_of wait") (simp_all add: excused_fails)
  ultimately show ?thesis unfolding await_def by (rule cli_ends_bind)
qed

text \<open>The reasons for which the process may be left running: an interrupt in a pause, and a \<^verbatim>\<open>startup_wait\<close> that is not a number.\<close>

definition excuses :: "'w os \<Rightarrow> config \<Rightarrow> cli_stop set" where
  "excuses S conf = {r. r = Interrupted \<and> interruptible S \<or>
     (\<exists>oc e. sub_config conf ''openocd'' = Inr oc \<and> wait_of (startup_wait oc 60) = Inl e \<and> r = Fails e)}"

lemma waits_well_ends: "waits_well S m \<Longrightarrow> cli_ends (excuses S conf) c_started (\<lambda>_. c_started) m"
  unfolding waits_well_def cli_ends_def no_orphan_def excuses_def by (fastforce split: sum.split)

lemma wait_error_first: "wait_of (startup_wait oc n) = Inl e \<Longrightarrow> 0 \<le> n \<Longrightarrow> n < 100 \<Longrightarrow> wait_of (startup_wait oc 60) = Inl e"
  by (auto simp: startup_wait_def get_or_def wait_of_def split: option.splits if_splits)

text \<open>Once the process runs, building the transport cannot fail: its section was read before.\<close>

lemma openocd_transport_built:
  "dict_item conf ''transport'' = Inr (JStr ''openocd'') \<Longrightarrow> sub_config conf ''openocd'' = Inr oc \<Longrightarrow> \<exists>choice. create_transport conf = Inr choice"
  by (simp add: create_transport_def)

lemma start_ends: "cli_ends E (\<lambda>c. \<not> c_started c) (\<lambda>_. c_started) (start_ocd S command)"
  by (auto simp: cli_ends_def start_ocd_def ask_def no_orphan_def split: prod.split sum.split)

lemma connect_openocd_ends:
  assumes "clock_runs S left" "dict_item conf ''transport'' = Inr (JStr ''openocd'')"
  shows "cli_ends (excuses S conf) (\<lambda>c. \<not> c_started c) (\<lambda>x c. c_started c = snd x) (connect_transport S conf)"
proof (cases "sub_config conf ''openocd''")
  case (Inr oc)
  obtain choice where built: "create_transport conf = Inr choice" using openocd_transport_built [OF assms(2) Inr] by blast
  have bad: "Fails e \<in> excuses S conf" if "wait_of (startup_wait oc n) = Inl e" "0 \<le> n" "n < 100" for e n
    using wait_error_first [OF that] Inr by (auto simp: excuses_def)
  have exam: "cli_ends (excuses S conf) c_started (\<lambda>_. c_started) (await S (exam_loop S) (startup_wait oc 60))"
    by (rule await_ends, rule waits_well_ends, rule exam_loop_ends [OF assms(1)]) (simp_all add: bad)
  have tcl: "cli_ends (excuses S conf) c_started (\<lambda>_. c_started) (await S (tcl_loop S) (startup_wait oc 30))"
    by (rule await_ends, rule waits_well_ends, rule tcl_loop_ends [OF assms(1)]) (simp_all add: bad)
  have "cli_ends (excuses S conf) (\<lambda>c. \<not> c_started c) (\<lambda>x c. c_started c = snd x)
      (bindC (start_ocd S command) (\<lambda>_. bindC (await S (exam_loop S) (startup_wait oc 60)) (\<lambda>_.
         bindC (await S (tcl_loop S) (startup_wait oc 30)) (\<lambda>_. returnC (choice, True)))))" for command
    by (rule cli_ends_bind [OF start_ends], rule cli_ends_bind [OF exam], rule cli_ends_bind [OF tcl], rule cli_ends_return) simp
  then show ?thesis using Inr built assms(2)
    by (cases "openocd_command S oc") (simp_all add: connect_transport_def unstarted_fails)
qed (use assms(2) in \<open>simp add: connect_transport_def unstarted_fails\<close>)

lemma connect_uvm_ends:
  assumes "clock_runs S left" "dict_item conf ''transport'' = Inr (JStr ''uvm'')"
  shows "cli_ends E (\<lambda>c. \<not> c_started c) (\<lambda>x c. c_started c = snd x) (connect_transport S conf)"
proof (cases "sub_config conf ''uvm''")
  case (Inr u)
  let ?path = "path_arg (get_or u ''socket_path'' (JStr ''/tmp/uvm_bridge.sock''))"
  have loop: "cli_ends E (\<lambda>c. \<not> c_started c) (\<lambda>_ c. \<not> c_started c) (bindC (liftC ?path) (\<lambda>path. socket_loop S path t))" for t
    by (cases ?path) (simp_all add: unstarted_fails socket_loop_ends [OF assms(1)])
  have "cli_ends E (\<lambda>c. \<not> c_started c) (\<lambda>_ c. \<not> c_started c) (askC (os_time S))"
    by (auto simp: cli_ends_def askC_def ask_def split: prod.split)
  moreover have "cli_ends E (\<lambda>c. \<not> c_started c) (\<lambda>_ c. \<not> c_started c)
      (bindC (liftC (wait_of wait)) (\<lambda>w. bindC (liftC ?path) (\<lambda>path. socket_loop S path (now + w))))" for now wait
    using loop by (cases "wait_of wait") (simp_all add: unstarted_fails)
  ultimately have wait: "cli_ends E (\<lambda>c. \<not> c_started c) (\<lambda>_ c. \<not> c_started c)
      (await S (\<lambda>t. bindC (liftC ?path) (\<lambda>path. socket_loop S path t)) wait)" for wait
    unfolding await_def by (rule cli_ends_bind)
  have "cli_ends E (\<lambda>c. \<not> c_started c) (\<lambda>x c. c_started c = snd x) (bindC (liftC (create_transport conf)) (\<lambda>choice. returnC (choice, False)))"
    by (cases "create_transport conf") (simp_all add: unstarted_fails cli_ends_return)
  from cli_ends_bind [OF wait this] show ?thesis using Inr assms(2) by (simp add: connect_transport_def)
qed (use assms(2) in \<open>simp add: connect_transport_def unstarted_fails\<close>)

lemma connect_ends:
  assumes "clock_runs S left"
  shows "cli_ends (excuses S conf) (\<lambda>c. \<not> c_started c) (\<lambda>x c. c_started c = snd x) (connect_transport S conf)"
proof (cases "dict_item conf ''transport''")
  case (Inl e)
  then show ?thesis by (simp add: connect_transport_def unstarted_fails)
next
  case (Inr t)
  consider (openocd) "t = JStr ''openocd''" | (uvm) "t = JStr ''uvm''" | (other) "t \<noteq> JStr ''openocd''" "t \<noteq> JStr ''uvm''" by blast
  then show ?thesis
  proof cases
    case openocd
    then show ?thesis using connect_openocd_ends [OF assms] Inr by blast
  next
    case uvm
    then show ?thesis using connect_uvm_ends [OF assms] Inr by blast
  next
    case other
    then show ?thesis using Inr
      by (cases "create_transport conf") (simp_all add: connect_transport_def unstarted_fails cli_ends_return)
  qed
qed

lemma scenario_stopped:
  assumes "\<And>w. scen w \<noteq> None"
  shows "cli_ends E (\<lambda>c. c_started c = started) Q (\<lambda>c. case scen (c_world c) of
      None \<Rightarrow> None | Some (r, w) \<Rightarrow> let (r1, c2) = stop_ocd S started r (c\<lparr>c_world := w\<rparr>) in Some (Inl r1, c2))"
  unfolding cli_ends_def
proof (intro allI impI)
  fix c :: "'a cli_state" assume c: "c_started c = started"
  obtain r w where "scen (c_world c) = Some (r, w)" using assms by (metis option.exhaust surj_pair)
  then show "\<exists>r' c'. (case scen (c_world c) of None \<Rightarrow> None
      | Some (r, w) \<Rightarrow> let (r1, c2) = stop_ocd S started r (c\<lparr>c_world := w\<rparr>) in Some (Inl r1, c2)) = Some (r', c') \<and>
      (case r' of Inl e \<Rightarrow> no_orphan c' \<or> e \<in> E | Inr x \<Rightarrow> Q x c')"
    using c by (auto simp: ask_def stop_ocd_def terminate_ocd_def no_orphan_def split: prod.split)
qed

text \<open>
  C37. Over an operating system whose clock passes every deadline, and for a scenario that ends, a run of the command line ends, whatever
  the configuration, the examination and the connection do; and a process it started has then been told to terminate or was seen to
  have exited, unless the user interrupted one of the pauses while it was brought up, or the \<^verbatim>\<open>startup_wait\<close> of the \<^verbatim>\<open>openocd\<close>
  section cannot be added to the time.
\<close>

theorem no_orphaned_openocd:
  assumes "clock_runs S left" "\<not> c_started c" "\<And>choice builder md params w. scenario choice builder md params w \<noteq> None"
  shows "\<exists>r c'. cmd_run S files scenario a c = Some (Inl r, c') \<and>
    (c_started c' \<and> \<not> c_stopped c' \<longrightarrow> r = Interrupted \<and> interruptible S \<or>
      (\<exists>conf oc e. run_config files a = Inr conf \<and> sub_config conf ''openocd'' = Inr oc \<and> wait_of (startup_wait oc 60) = Inl e \<and> r = Fails e))"
proof (cases "run_config files a")
  case (Inr conf)
  have rest: "cli_ends (excuses S conf) (\<lambda>c. \<not> c_started c) (\<lambda>_ _. False) (bindC (connect_transport S conf) (\<lambda>(choice, started) c.
       case scenario choice builder md params (c_world c) of None \<Rightarrow> None
       | Some (r, w) \<Rightarrow> let (r1, c2) = stop_ocd S started r (c\<lparr>c_world := w\<rparr>) in Some (Inl r1, c2)))"
    for builder md params
  proof (rule cli_ends_bind [OF connect_ends [OF assms(1)]])
    fix x :: "transport_choice \<times> bool"
    show "cli_ends (excuses S conf) (\<lambda>c. c_started c = snd x) (\<lambda>_ _. False) (case x of (choice, started) \<Rightarrow> \<lambda>c.
        case scenario choice builder md params (c_world c) of None \<Rightarrow> None
        | Some (r, w) \<Rightarrow> let (r1, c2) = stop_ocd S started r (c\<lparr>c_world := w\<rparr>) in Some (Inl r1, c2))"
      using scenario_stopped [OF assms(3)] by (cases x) simp
  qed
  have "cli_ends (excuses S conf) (\<lambda>c. \<not> c_started c) (\<lambda>_ _. False) (cmd_run S files scenario a)"
  proof (cases "dict_item conf ''scenario''")
    case name: (Inr name)
    show ?thesis
      using Inr name rest
      by (cases "dict_item conf ''mode''"; cases "load_scenario_builder name"; cases "convert_params (get_or conf ''params'' (JObj []))")
        (simp_all add: cmd_run_def unstarted_fails)
  qed (use Inr in \<open>simp add: cmd_run_def unstarted_fails\<close>)
  then obtain r c' where "cmd_run S files scenario a c = Some (r, c')" "case r of Inl e \<Rightarrow> no_orphan c' \<or> e \<in> excuses S conf | Inr _ \<Rightarrow> False"
    using assms(2) unfolding cli_ends_def by blast
  then show ?thesis using Inr by (cases r) (auto simp: no_orphan_def excuses_def)
qed (use assms(2) in \<open>simp add: cmd_run_def\<close>)

text \<open>A world that is its clock: the examination succeeds, the port never opens, and the process keeps running.\<close>

definition patient_os :: "nat os" where
  "patient_os = \<lparr>os_which = None, os_cwd = ''/sim'', os_popen = (\<lambda>_ w. (Inr (), w)), os_poll = (\<lambda>w. (None, w)),
     os_terminate = (\<lambda>w. w), os_wait = (\<lambda>w. (Inr (), w)), os_exam = (\<lambda>w. (True, w)), os_exam_failed = (\<lambda>w. (False, w)),
     os_exists = (\<lambda>_ w. (False, w)), os_tcl_connect = (\<lambda>w. (Some False, w)), os_time = (\<lambda>w. (int w, Suc w)), os_sleep = (\<lambda>w. (False, w))\<rparr>"

definition openocd_args :: "string option \<Rightarrow> run_args" where
  "openocd_args path = \<lparr>ra_config = path, ra_scenario = None, ra_transport = Some ''openocd'', ra_mode = None, ra_openocd_config = None\<rparr>"

theorem no_orphaned_openocd_witness:
  "\<exists>r c'. cmd_run patient_os (\<lambda>_. Inl (FileNotFoundError '''')) (\<lambda>_ _ _ _ w. Some (Exits 0, w)) (openocd_args None)
      \<lparr>c_world = 0, c_started = False, c_stopped = False\<rparr> = Some (Inl r, c') \<and> (\<not> c_started c' \<or> c_stopped c')"
proof -
  have "clock_runs patient_os (\<lambda>t w. nat (t - int w))" by (auto simp: clock_runs_def patient_os_def)
  moreover have "\<not> interruptible patient_os" by (simp add: interruptible_def patient_os_def)
  moreover have "run_config (\<lambda>_. Inl (FileNotFoundError '''')) (openocd_args None) = Inr (override ''transport'' (Some ''openocd'') CONFIG_DEFAULTS)"
    "sub_config (override ''transport'' (Some ''openocd'') CONFIG_DEFAULTS) ''openocd'' = Inr []" "wait_of (startup_wait [] 60) = Inr 60000000"
    by code_simp+
  ultimately show ?thesis
    using no_orphaned_openocd [of patient_os "\<lambda>t w. nat (t - int w)" "\<lparr>c_world = 0, c_started = False, c_stopped = False\<rparr>"
      "\<lambda>_ _ _ _ w. Some (Exits 0, w)" "\<lambda>_. Inl (FileNotFoundError '''')" "openocd_args None"] by auto
qed

text \<open>
  C38. A \<^verbatim>\<open>startup_wait\<close> that cannot be added to the time, such as a number in quotes or \<^verbatim>\<open>null\<close>, leaves OpenOCD behind: for every
  configuration of an \<^verbatim>\<open>openocd\<close> run with such a value, once the process is started the run fails with the error of the
  addition, the process neither terminated nor seen to have exited.
\<close>

theorem bad_wait_orphans:
  assumes "run_config files a = Inr conf" "dict_item conf ''transport'' = Inr (JStr ''openocd'')" "sub_config conf ''openocd'' = Inr oc"
    and "dict_item conf ''scenario'' = Inr name" "dict_item conf ''mode'' = Inr md" "load_scenario_builder name = Inr builder"
    and "convert_params (get_or conf ''params'' (JObj [])) = Inr params" "openocd_command S oc = Inr command"
    and "os_popen S command (c_world c) = (Inr (), w)" "wait_of (startup_wait oc 60) = Inl e"
  shows "\<exists>c'. cmd_run S files scenario a c = Some (Inl (Fails e), c') \<and> c_started c' \<and> \<not> c_stopped c'"
  using assms
  by (simp add: cmd_run_def connect_transport_def await_def start_ocd_def)
    (simp add: bindC_def askC_def ask_def liftC_def split: prod.split)

theorem bad_wait_orphans_witness:
  "\<exists>c'. cmd_run patient_os (\<lambda>_. Inr (JObj [(''openocd'', JObj [(''startup_wait'', JStr ''60'')])])) (\<lambda>_ _ _ _ w. Some (Exits 0, w)) (openocd_args (Some ''run.json''))
      \<lparr>c_world = 0, c_started = False, c_stopped = False\<rparr> = Some (Inl (Fails (TypeError ''+'')), c') \<and> c_started c' \<and> \<not> c_stopped c'"
proof -
  let ?files = "\<lambda>_ :: string. Inr (JObj [(''openocd'', JObj [(''startup_wait'', JStr ''60'')])]) :: json result"
  let ?conf = "[(''openocd'', JObj [(''startup_wait'', JStr ''60'')]), (''scenario'', JStr ''halt''), (''transport'', JStr ''openocd''),
    (''mode'', JStr ''batch''), (''params'', JObj []), (''uvm'', JObj [])]"
  have "run_config ?files (openocd_args (Some ''run.json'')) = Inr ?conf" by code_simp
  moreover have "dict_item ?conf ''transport'' = Inr (JStr ''openocd'')" "sub_config ?conf ''openocd'' = Inr [(''startup_wait'', JStr ''60'')]"
    "dict_item ?conf ''scenario'' = Inr (JStr ''halt'')" "dict_item ?conf ''mode'' = Inr (JStr ''batch'')"
    "load_scenario_builder (JStr ''halt'') = Inr (''pydebug.sequences.halt_sequence'', ''build_halt_sequence'')"
    "convert_params (get_or ?conf ''params'' (JObj [])) = Inr []"
    "openocd_command patient_os [(''startup_wait'', JStr ''60'')] = Inr [''openocd'', ''-f'', ''/sim/openocd_bitbang.cfg'']"
    "wait_of (startup_wait [(''startup_wait'', JStr ''60'')] 60) = Inl (TypeError ''+'')" by code_simp+
  moreover have "os_popen patient_os [''openocd'', ''-f'', ''/sim/openocd_bitbang.cfg''] 0 = (Inr (), 0)" by (simp add: patient_os_def)
  ultimately show ?thesis
    using bad_wait_orphans [of ?files "openocd_args (Some ''run.json'')" ?conf "[(''startup_wait'', JStr ''60'')]" "JStr ''halt''" "JStr ''batch''"
      "(''pydebug.sequences.halt_sequence'', ''build_halt_sequence'')" "[]" patient_os "[''openocd'', ''-f'', ''/sim/openocd_bitbang.cfg'']"
      "\<lparr>c_world = 0, c_started = False, c_stopped = False\<rparr>" 0 "TypeError ''+''" "\<lambda>_ _ _ _ w. Some (Exits 0, w)"] by simp
qed

text \<open>An interrupt in the first pause leaves the process behind as well.\<close>

lemma interrupted_wait_orphans:
  assumes "wait_of wait = Inr n" "os_time S (c_world c) = (t0, w0)" "os_exam S w0 = (False, w1)" "os_exam_failed S w1 = (False, w2)"
    "os_poll S w2 = (None, w3)" "os_time S w3 = (t1, w4)" "t1 < t0 + n" "os_sleep S w4 = (True, w5)" "c_started c" "\<not> c_stopped c"
  shows "\<exists>c'. await S (exam_loop S) wait c = Some (Inl Interrupted, c') \<and> c_started c' \<and> \<not> c_stopped c'"
  using assms
  by (simp add: await_def bindC_def askC_def ask_def liftC_def) (subst exam_loop.simps, simp add: ask_def poll_ocd_def)

subsection \<open>The two verdicts\<close>















lemma uvm_disconnect_keeps: "uvm_disconnect K v = (x, w) \<Longrightarrow> x = Inr () \<and> u_failed_steps w = u_failed_steps v"
  by (auto simp: uvm_disconnect_def send_shutdown_def uvm_next_id_def Let_def split: prod.splits sum.splits if_splits)






text \<open>
  A session that the user quits, or whose builder raises, tells the simulator nothing, so that the shutdown reports no failed step.
\<close>

lemma abandoned_tells_nothing:
  assumes "uvm_connect K u = (Inr (), u1)" "u_failed_steps u1 = None"
  shows "\<exists>u'. run_scenario (uvm_transport K clk) set_session_result (Inl e) inp u = (Inl (Raised e), u') \<and> u_failed_steps u' = None"
    and "session_mode s = Interactive \<Longrightarrow> steps s \<noteq> [] \<Longrightarrow>
      \<exists>u'. run_scenario (uvm_transport K clk) set_session_result (Inr (s, x)) (''q'' # inp) u = (Inr Interrupted, u') \<and> u_failed_steps u' = None"
proof -
  obtain y w where d: "uvm_disconnect K u1 = (y, w)" by force
  with uvm_disconnect_keeps [OF d] assms(2) have w: "uvm_disconnect K u1 = (Inr (), w)" "u_failed_steps w = None" by simp_all
  then show "\<exists>u'. run_scenario (uvm_transport K clk) set_session_result (Inl e) inp u = (Inl (Raised e), u') \<and> u_failed_steps u' = None"
    using assms(1) by (simp add: run_scenario_def with_transport_def uvm_transport_def)
  assume s: "session_mode s = Interactive" "steps s \<noteq> []"
  have q: "strip_lower ''q'' = ''q''" by code_simp
  obtain name fn rest where "steps s = (name, fn) # rest" using s(2) by (cases "steps s") auto
  then show "\<exists>u'. run_scenario (uvm_transport K clk) set_session_result (Inr (s, x)) (''q'' # inp) u = (Inr Interrupted, u') \<and> u_failed_steps u' = None"
    using assms(1) w s(1) by (simp add: run_scenario_def with_transport_def uvm_transport_def run_session_def q RISCVDebug_init_def)
qed

end
