(* ===== verification/Spec2Isabelle.thy ===== *)
theory Spec2Isabelle
  imports Monitor DutConfig NativeTrigger Session CoverageSound SequenceProps AccessProps SbaProps CmdProps UvmBridge OpenOcdServer CrosscheckProps HartArrayProps AbstractCmdBits LivenessProps ShellProps Regression Vcd Cli
begin

text \<open>
  \<^bold>\<open>The program.\<close> \<^verbatim>\<open>pydebug\<close> (the Python package under \<^verbatim>\<open>src/src/pydebug\<close>) verifies implementations of
  the RISC-V Debug Module. A debugger library (\<^verbatim>\<open>api/riscv_dm.py\<close>) turns halt, resume, reset, register
  and memory commands into reads and writes of DMI registers over a transport
  (\<^verbatim>\<open>api/transport.py\<close>). A golden model (\<^verbatim>\<open>model/predictor.py\<close>) over the register definitions
  (\<^verbatim>\<open>model/registers.py\<close>) predicts what each read returns, for the implementation declared in a
  configuration file (\<^verbatim>\<open>model/dut_config.py\<close>). Architectural rules (\<^verbatim>\<open>model/invariants.py\<close>) judge each
  transaction; an observing transport (\<^verbatim>\<open>api/observer.py\<close>) shows the transactions to them. A mock
  transport (\<^verbatim>\<open>model/mock_transport.py\<close>) runs the library against the golden model itself. A session
  (\<^verbatim>\<open>api/session.py\<close>) runs a list of steps and reports; the test sequences (\<^verbatim>\<open>sequences\<close>) are sessions
  whose steps drive the library and judge what they read. A functional coverage model
  (\<^verbatim>\<open>model/coverage.py\<close>) samples the transactions an observer sees, and \<^verbatim>\<open>model/native_trigger.py\<close>
  predicts the breakpoint exceptions of native triggers. On a bench the library reaches the device over a
  socket: JSON requests to a simulator (\<^verbatim>\<open>api/uvm_transport.py\<close>) or Tcl commands to OpenOCD
  (\<^verbatim>\<open>api/openocd_transport.py\<close>). The script \<^verbatim>\<open>mk/model_crosscheck.py\<close> replays the trace of a reference model
  written in SystemVerilog on the golden model and reports where they differ. The command line (\<^verbatim>\<open>cli.py\<close>) brings up a transport
  and runs one of the sequences, or an interactive shell (\<^verbatim>\<open>api/interactive_shell.py\<close>); \<^verbatim>\<open>mk/run_regression.py\<close> runs and
  judges a suite of such runs.

  \<^bold>\<open>The theories\<close>, each with the source it models; the definitions keep the names of the source, a
  leading underscore dropped, with a suffix where a name clashes.

    \<^item> \<^verbatim>\<open>Prelude\<close>: exceptions, truth values, strings, error results, lemmas on bits and lists.
    \<^item> \<^verbatim>\<open>Registers\<close> (\<^verbatim>\<open>registers.py\<close>): every field, register and constant; \<^verbatim>\<open>encode\<close>, \<^verbatim>\<open>decode\<close>,
      \<^verbatim>\<open>hartsel\<close>. For every register of the source, decoding an encoded word gives the values back, cut to the width of their fields.
    \<^item> \<^verbatim>\<open>Predictor\<close> (\<^verbatim>\<open>predictor.py\<close>): the class \<^verbatim>\<open>DMPredictor\<close>, its state a record, each method a function
      on it. \<^verbatim>\<open>RunControl\<close> gives the specification of a \<^verbatim>\<open>dmcontrol\<close> write one hart at a time and the
      refinement; \<^verbatim>\<open>PredictorInv\<close> the reachable states and their invariants; \<^verbatim>\<open>ReadBack\<close> the words read
      back; \<^verbatim>\<open>PredictorProps\<close> the properties: halting, resuming, resets, system bus blocks, halt summaries.
    \<^item> \<^verbatim>\<open>Invariants\<close> (\<^verbatim>\<open>invariants.py\<close>): each rule and \<^verbatim>\<open>check_all\<close>. \<^verbatim>\<open>InvariantsSound\<close>: the rules never blame
      the device for what the predictor does, resume requests under a reset or with a single step armed apart: those it
      proves to be misjudged; and the rule that never fires.
    \<^item> \<^verbatim>\<open>RiscvWords\<close> and \<^verbatim>\<open>RiscvDM\<close> (\<^verbatim>\<open>riscv_dm.py\<close>, \<^verbatim>\<open>transport.py\<close>): the word encoders and accessors, and the
      class \<^verbatim>\<open>RISCVDebug\<close> in a monad of state, errors and non-termination. \<^verbatim>\<open>DmTarget\<close> states the contract
      of a transport whose device follows the predictor as the locale \<open>dm_target\<close>, and proves the commands
      correct in it; \<open>dm_bench\<close> extends it with what a bench answers for registers outside the predictor;
      \<^verbatim>\<open>CommandRuns\<close> adds the abstract commands and the system bus.
    \<^item> \<^verbatim>\<open>MockTransport\<close> (\<^verbatim>\<open>mock_transport.py\<close>) and \<^verbatim>\<open>Observer\<close> (\<^verbatim>\<open>observer.py\<close>): the transports, both
      interpretations of \<open>dm_target\<close> and \<open>dm_bench\<close>, with the round trips of registers and memory.
    \<^item> \<^verbatim>\<open>Monitor\<close>: predictor, mock, observer and rules together, as \<^verbatim>\<open>invariants.py\<close> prescribes.
    \<^item> \<^verbatim>\<open>DutConfig\<close> (\<^verbatim>\<open>dut_config.py\<close>). \<^verbatim>\<open>NativeTrigger\<close> (\<^verbatim>\<open>native_trigger.py\<close>): which events an \<^verbatim>\<open>icount\<close> trigger among any others
      counts, and that it fires on exactly the last it has to count. \<^verbatim>\<open>Session\<close> (\<^verbatim>\<open>session.py\<close>): what each outcome of a step is recorded
      as, and which steps a run reports.
    \<^item> \<^verbatim>\<open>CoverageBins\<close> and \<^verbatim>\<open>Coverage\<close> (\<^verbatim>\<open>coverage.py\<close>): every bin and exclusion, the sampling of each
      covergroup, the report. \<^verbatim>\<open>CoverageProps\<close>: sampling asks for declared bins only and never raises, and
      the completeness check returns exactly when the slice is complete; the report lists every count, as a count is kept for
      exactly the declared bins. \<^verbatim>\<open>CoverageSound\<close>: which excluded
      bins the golden model can and cannot hit.
    \<^item> \<^verbatim>\<open>Sequences\<close> (\<^verbatim>\<open>hart_control.py\<close> and what all sequences share), \<^verbatim>\<open>RunControlSeq\<close>
      (\<^verbatim>\<open>run_control_sequence.py\<close>, \<^verbatim>\<open>reset_ctrl_sequence.py\<close>) and \<^verbatim>\<open>HartSeq\<close> (\<^verbatim>\<open>halt_on_reset_sequence.py\<close>,
      \<^verbatim>\<open>dm_activation_sequence.py\<close>, \<^verbatim>\<open>hart_selection_sequence.py\<close>): each test case a method of the
      command library, each \<^verbatim>\<open>build_*\<close> function the session with its steps. \<^verbatim>\<open>SequenceRuns\<close> gives backward
      rules (weakest preconditions) for the commands in \<open>dm_target\<close>, with the view a sequence has of one
      hart; \<^verbatim>\<open>RunControlRuns\<close> and \<^verbatim>\<open>HartRuns\<close> run the test cases with them; \<^verbatim>\<open>SequenceProps\<close>: the sessions
      pass on the mock, alone, under observation and one after the other.
    \<^item> \<^verbatim>\<open>AccessSeq\<close> (\<^verbatim>\<open>halt\<close>, \<^verbatim>\<open>gpr_write\<close>, \<^verbatim>\<open>read_dmstatus\<close>, \<^verbatim>\<open>report_halt_status\<close>, \<^verbatim>\<open>mem_scan\<close>, \<^verbatim>\<open>discovery\<close> and
      \<^verbatim>\<open>csr_access\<close> sequences) and \<^verbatim>\<open>ResetValuesSeq\<close> (\<^verbatim>\<open>reset_values_sequence.py\<close>), with their runs in
      \<^verbatim>\<open>AccessRuns\<close> and \<^verbatim>\<open>ResetValuesRuns\<close>: a rule for the verdicts of a whole list of steps, and
      the states in which the module is at rest. \<^verbatim>\<open>AccessProps\<close>: which steps pass, exactly.
    \<^item> \<^verbatim>\<open>SbaSeq\<close>, \<^verbatim>\<open>SbaRuns\<close>, \<^verbatim>\<open>SbaProps\<close> (\<^verbatim>\<open>sba_sequence.py\<close>): accesses of every size, bursts, errors; the
      verdict of each step on the mock, among them the one that fails on the golden model itself.
    \<^item> \<^verbatim>\<open>CmdSeq\<close>, \<^verbatim>\<open>CmdRuns\<close>, \<^verbatim>\<open>CmdProps\<close> (\<^verbatim>\<open>cmderr\<close>, \<^verbatim>\<open>cmd_busy\<close> and \<^verbatim>\<open>cmd_outcome\<close> sequences): Hoare triples over
      the states in which no command is pending; the golden model has no command errors, so the steps
      that provoke one get exactly the verdicts the property states.
    \<^item> \<^verbatim>\<open>JsonText\<close> (what the source uses of \<^verbatim>\<open>json\<close>), \<^verbatim>\<open>UvmTransport\<close> (\<^verbatim>\<open>uvm_transport.py\<close>) and \<^verbatim>\<open>UvmBridge\<close>: the
      transport over a socket that is a parameter; the locale \<open>uvm_bridge\<close> states what a bridge answers for a device that follows
      the golden model, the effects of its reads (\<^verbatim>\<open>observe_read\<close>) included; the transport over it is a \<open>dm_target\<close>, and
      a bridge in front of the golden model is its interpretation.
    \<^item> \<^verbatim>\<open>OpenOcdTransport\<close> (\<^verbatim>\<open>openocd_transport.py\<close>) and \<^verbatim>\<open>OpenOcdServer\<close>: the same for the Tcl server, with the
      locale \<open>tcl_server\<close>; a response is read whole however the connection cuts it.
    \<^item> \<^verbatim>\<open>ModelCrosscheck\<close> and \<^verbatim>\<open>CrosscheckProps\<close> (\<^verbatim>\<open>mk/model_crosscheck.py\<close>): the replay of a trace, from its
      text to the exit status; it reports exactly the comparisons in which the models differ.
    \<^item> \<^verbatim>\<open>HartArraySeq\<close>, \<^verbatim>\<open>HartArrayRuns\<close>, \<^verbatim>\<open>HartArrayProps\<close> (\<^verbatim>\<open>hart_array_sequence.py\<close>): sessions over many harts,
      with the verdict of every step for any number of harts up to 32, with and without \<^verbatim>\<open>hasel\<close>.
    \<^item> \<^verbatim>\<open>AbstractCmdBits\<close> (\<^verbatim>\<open>mk/dm_abstract_cmd_bits.py\<close>): the program generated for an abstract command and its
      constant bits; the sampled search finds exactly the bits constant over all commands.
    \<^item> \<^verbatim>\<open>StepSeq\<close> (\<^verbatim>\<open>sw_breakpoint_progbuf\<close>, \<^verbatim>\<open>external_trigger\<close>, \<^verbatim>\<open>program_buffer\<close>, \<^verbatim>\<open>single_step\<close>, \<^verbatim>\<open>step_classes\<close> and
      \<^verbatim>\<open>trigger\<close> sequences), \<^verbatim>\<open>EntrySeq\<close> (\<^verbatim>\<open>debug_entry\<close>, \<^verbatim>\<open>priv_irq\<close>, \<^verbatim>\<open>step_stall\<close>, \<^verbatim>\<open>step_matrix\<close>), \<^verbatim>\<open>CornersSeq\<close> (\<^verbatim>\<open>dm_corners\<close>,
      \<^verbatim>\<open>dmi_error\<close>) and \<^verbatim>\<open>RunElfSeq\<close> (\<^verbatim>\<open>run_elf\<close>): the sequences whose outcome depends on a core that executes code, on
      triggers or on the JTAG port, which the golden model does not have.
    \<^item> \<^verbatim>\<open>Liveness\<close>: the locale \<open>live_transport\<close> asks of a transport only that its clock passes every deadline and which errors it
      raises; in it every method of the library ends. \<^verbatim>\<open>SequencesEnd\<close> and \<^verbatim>\<open>StepsEnd\<close> carry this to the steps of the
      sequences, and \<^verbatim>\<open>LivenessProps\<close> to the sessions of all of them, with the mock as an interpretation.
    \<^item> \<^verbatim>\<open>Shell\<close> and \<^verbatim>\<open>ShellProps\<close> (\<^verbatim>\<open>interactive_shell.py\<close>): the commands typed, from the text of a line to the text printed,
      with what they use of \<^verbatim>\<open>cmd\<close> and \<^verbatim>\<open>shlex\<close>; \<open>shell_target\<close> extends \<open>live_transport\<close> by the errors the shell prints. No
      line but one that quits leaves the shell, and a register written by name is read back by name.
    \<^item> \<^verbatim>\<open>TextSearch\<close>: searching texts. \<^verbatim>\<open>Regression\<close> (\<^verbatim>\<open>mk/run_regression.py\<close>, and the summary of \<^verbatim>\<open>session.py\<close>): the judgement of
      a test agrees with the session that printed the summary. \<^verbatim>\<open>Vcd\<close> (\<^verbatim>\<open>tools/vcd_analyze.py\<close>): reading a waveform back.
    \<^item> \<^verbatim>\<open>Cli\<close> (\<^verbatim>\<open>cli.py\<close>): the configuration, bringing up the transport and \<^verbatim>\<open>cmd_run\<close>. A run ends, and no OpenOCD process is left
      behind but in the two ways the code has: an interrupt while it is brought up, and a \<^verbatim>\<open>startup_wait\<close> that is not a number. The exit
      status agrees with the number in the last line sent to the simulator.
    \<^item> this theory: the property that spans configuration, predictor, mock, observer and rules.

  \<^bold>\<open>Modelling decisions.\<close> Python integers are \<^typ>\<open>int\<close>, the source's masks written out. Raised
  exceptions are the left side of a sum. Objects mutated in place are records returned updated; the
  predictor the mock owns and the observer reads is one object, which the model keeps as one
  component of the state. Loops that need not end (\<^verbatim>\<open>_poll_until\<close>, the
  waits of the sequences for a halt or for a command to end, reading a socket until a marker) are partial
  functions into \<^verbatim>\<open>option\<close>, there is no fuel anywhere, and \<^verbatim>\<open>RiscvDM.poll_until_terminates\<close> shows that the first ends
  as soon as the clock passes the deadline, \<^verbatim>\<open>LivenessProps.every_session_ends\<close> that with such a clock no wait of any sequence runs
  for ever, and \<^verbatim>\<open>Cli.no_orphaned_openocd\<close> the same of the waits of the command line. The clock is a sequence of readings, the answers typed into
  an interactive session are a list, and the configuration files are a function from paths to parsed
  JSON; the output of \<^verbatim>\<open>nm\<close>, the simulated time, the methods only one transport has (\<^verbatim>\<open>dtmcs\<close>, \<^verbatim>\<open>dmi_scan\<close>, \<^verbatim>\<open>jtag_scan\<close>,
  \<^verbatim>\<open>tms_walk\<close>), the operating system under the command line and the run of a simulator: these are parameters. JSON numbers are integers, and the
  sizes of a configuration that the golden model shifts by are not negative. A user's interrupt is modelled where the program waits for
  the user or for OpenOCD and the simulator: at the prompt of a session, in a step, and in the waits of the command line.

  \<^bold>\<open>Not modelled.\<close> Log messages, the texts of results and reports (but for the lines of the shell and the summary of a
  session) and \<^verbatim>\<open>__repr__\<close>; the parsing of the command line by \<^verbatim>\<open>argparse\<close> and the subcommands that print paths or copy files; the
  percentages and reports rendered by the regression. Of the scripts under \<^verbatim>\<open>mk\<close> those that only turn the reports of external tools
  into other reports (\<^verbatim>\<open>dm_cov_exclude.py\<close>, a table of exclusions for one coverage tool, \<^verbatim>\<open>dm_cov_summary.py\<close>, \<^verbatim>\<open>fcov_crosscheck.py\<close>,
  \<^verbatim>\<open>reconcile.py\<close>, \<^verbatim>\<open>trace_disasm.py\<close>); the scripts of the paper and of the benchmark; the SystemVerilog and C sources. On the sequences
  that need a core executing code the development shows that they end, not their verdicts: the golden model has no such core.
\<close>

text \<open>
  C3. The checks agree with one another on every declared target: for a configuration that loads
  from its file, a predictor built and configured from it, and any sequence of DMI reads and writes
  (whose resume requests are written with no reset asserted and no single step armed) through the
  mock transport behind a monitoring observer, no architectural rule blames the device.
\<close>

theorem declared_target_sound:
  assumes "load_dut_config files config_dir name = Inr c" and "declared_config c n = Inr dc" and "1 \<le> n"
    and "judged (set_config (predictor_kwargs c) dc) xs"
  shows "list_all v_stimulus_legality
    (snd (observed (fold (run_op (monitored_transport clock)) xs
      (monitored_init (set_config (predictor_kwargs c) dc)))))"
proof (rule monitored_session_sound)
  show "reachable (set_config (predictor_kwargs c) dc)"
    unfolding predictor_kwargs_def using assms(3) declared_configD(1) [OF assms(2)]
    by (intro reachable.config reachable.init) simp_all
  have "version (set_config (predictor_kwargs c) dc) \<in> {DMSTATUS_VERSION_0_13, DMSTATUS_VERSION_1_0}"
    using loaded_version [OF assms(1)] declared_configD(2) [OF assms(2)] by (simp add: set_config_def)
  then show "take_bit 4 (version (set_config (predictor_kwargs c) dc)) \<noteq> 0" by auto
qed (rule assms)

definition halt_resume_trace :: "(dmi_op \<times> int \<times> int) list" where
  "halt_resume_trace =
     [(OP_WRITE, ADDR_DMCONTROL, 0x00000001), (OP_WRITE, ADDR_DMCONTROL, 0x80000001), (OP_READ, ADDR_DMSTATUS, 0),
      (OP_WRITE, ADDR_DMCONTROL, 0x40000001), (OP_READ, ADDR_DMSTATUS, 0)]"

theorem declared_target_sound_witness:
  "list_all v_stimulus_legality
    (snd (observed (fold (run_op (monitored_transport (\<lambda>k. int k))) halt_resume_trace
      (monitored_init (set_config (predictor_kwargs ibex_dut) ibex_config)))))"
proof -
  have "judged (set_config (predictor_kwargs ibex_dut) ibex_config) halt_resume_trace" by code_simp
  then show ?thesis by (intro declared_target_sound [OF ibex_loads]) simp_all
qed

end
